(* ===== verification/Prelude.thy ===== *)
theory Prelude
  imports Main
begin

text \<open>
  Shared vocabulary of the development: the JavaScript values and string operations that several
  components use, and the generic lemmas on lists and options their proofs rest on.

  Strings are lists of \<open>char\<close>, that is of the code units U+0000 to U+00FF; the operations below
  (\<open>trim\<close>, \<open>toLowerCase\<close>, \<open>startsWith\<close>, \<open>slice\<close>, \<open>split\<close>, \<open>join\<close>) do on those code units what the
  ECMAScript functions do.  Numbers that the code uses as identifiers, counters and millisecond
  timestamps are \<open>int\<close> (the code stays far below 2 to the power 53).
\<close>

named_theorems handler_defs "defining equations of the handlers, unfolded together"

section \<open>Values of unknown type\<close>

text \<open>A value of static type \<open>unknown\<close>, or a JSON column.\<close>

datatype json =
    JNull
  | JBool bool
  | JNum int
  | JStr string
  | JArr "json list"
  | JObj "(string \<times> json) list"

text \<open>Property access on an object; an absent property is \<open>undefined\<close>, written \<open>None\<close>.\<close>

fun json_get :: "json \<Rightarrow> string \<Rightarrow> json option" where
  "json_get (JObj kvs) k = map_of kvs k"
| "json_get _ k = None"

fun json_str :: "json option \<Rightarrow> string option" where
  "json_str (Some (JStr s)) = Some s"
| "json_str _ = None"

fun json_num :: "json option \<Rightarrow> int option" where
  "json_num (Some (JNum n)) = Some n"
| "json_num _ = None"

section \<open>Nullish values\<close>

text \<open>\<open>a ?? b\<close> when the right operand may be null too.\<close>

fun or_else :: "'a option \<Rightarrow> 'a option \<Rightarrow> 'a option" where
  "or_else None b = b"
| "or_else (Some x) b = Some x"

text \<open>\<open>a ?? b\<close> when the right operand is a value.\<close>

fun default_to :: "'a option \<Rightarrow> 'a \<Rightarrow> 'a" where
  "default_to None d = d"
| "default_to (Some x) d = x"

lemma default_to_conv: "default_to x d = (case x of None \<Rightarrow> d | Some v \<Rightarrow> v)"
  by (cases x) auto

text \<open>\<open>a || b\<close> on strings: the empty string is falsy.\<close>

definition str_or :: "string \<Rightarrow> string \<Rightarrow> string" where
  "str_or a b = (if a = [] then b else a)"

text \<open>A nullable string that is null or empty is falsy.\<close>

fun truthy_str :: "string option \<Rightarrow> string option" where
  "truthy_str (Some s) = (if s = [] then None else Some s)"
| "truthy_str None = None"

lemma truthy_str_Some [simp]: "truthy_str x = Some s \<longleftrightarrow> x = Some s \<and> s \<noteq> []"
  by (cases x) auto

section \<open>Strings\<close>

text \<open>The white space of \<open>String.prototype.trim\<close> below U+0100.\<close>

definition is_ws :: "char \<Rightarrow> bool" where
  "is_ws c \<longleftrightarrow> (let n = (of_char c :: nat) in n \<in> {9, 10, 11, 12, 13, 32, 160})"

definition trim_start :: "string \<Rightarrow> string" where
  "trim_start s = dropWhile is_ws s"

definition trim_end :: "string \<Rightarrow> string" where
  "trim_end s = rev (dropWhile is_ws (rev s))"

definition js_trim :: "string \<Rightarrow> string" where
  "js_trim s = trim_end (trim_start s)"

text \<open>
  \<open>toLowerCase\<close> below U+0100: the ASCII capitals, and the Latin-1 capitals U+00C0 to U+00DE without
  the multiplication sign U+00D7.
\<close>

definition lower_char :: "char \<Rightarrow> char" where
  "lower_char c =
     (let n = (of_char c :: nat)
      in if (65 \<le> n \<and> n \<le> 90) \<or> (192 \<le> n \<and> n \<le> 222 \<and> n \<noteq> 215) then char_of (n + 32) else c)"

definition to_lower :: "string \<Rightarrow> string" where
  "to_lower s = map lower_char s"

definition starts_with :: "string \<Rightarrow> string \<Rightarrow> bool" where
  "starts_with s p \<longleftrightarrow> take (length p) s = p"

definition ends_with :: "string \<Rightarrow> string \<Rightarrow> bool" where
  "ends_with s p \<longleftrightarrow> length p \<le> length s \<and> drop (length s - length p) s = p"

text \<open>\<open>s.split(sep)\<close> for a separator of one character: never empty.\<close>

fun split_on :: "char \<Rightarrow> string \<Rightarrow> string list" where
  "split_on sep [] = [[]]"
| "split_on sep (c # cs) =
     (if c = sep then [] # split_on sep cs
      else (case split_on sep cs of [] \<Rightarrow> [[c]] | w # ws \<Rightarrow> (c # w) # ws))"

text \<open>\<open>parts.join(sep)\<close>.\<close>

fun join_with :: "string \<Rightarrow> string list \<Rightarrow> string" where
  "join_with sep [] = []"
| "join_with sep [x] = x"
| "join_with sep (x # y # zs) = x @ sep @ join_with sep (y # zs)"

lemma split_on_nonempty [simp]: "split_on sep s \<noteq> []"
  by (induction sep s rule: split_on.induct) (auto split: list.splits)

lemma join_split_on: "join_with [sep] (split_on sep s) = s"
proof (induction sep s rule: split_on.induct)
  case (2 sep c cs)
  obtain w ws where w: "split_on sep cs = w # ws"
    by (cases "split_on sep cs") auto
  with "2.IH" show ?case by (cases ws) auto
qed simp

lemma length_trim_start: "length (trim_start s) \<le> length s"
  by (simp add: trim_start_def length_dropWhile_le)

lemma trim_start_ex: "\<exists>ws. s = ws @ trim_start s \<and> list_all is_ws ws"
  by (rule exI [of _ "takeWhile is_ws s"])
     (auto simp: trim_start_def list_all_iff dest: set_takeWhileD)

lemma trim_plain: "list_all (\<lambda>c. \<not> is_ws c) s \<Longrightarrow> js_trim s = s"
proof -
  have d: "dropWhile is_ws t = t" if "\<forall>c \<in> set t. \<not> is_ws c" for t using that by (cases t) auto
  assume "list_all (\<lambda>c. \<not> is_ws c) s"
  then show ?thesis by (simp add: js_trim_def trim_start_def trim_end_def list_all_iff d)
qed

lemma starts_with_append [simp]: "starts_with (p @ s) p"
  by (simp add: starts_with_def)

lemma starts_with_iff: "starts_with s p \<longleftrightarrow> (\<exists>t. s = p @ t)"
  by (metis append_take_drop_id append_eq_conv_conj starts_with_def)

lemma starts_with_refl [simp]: "starts_with s s"
  by (simp add: starts_with_def)

section \<open>Lists\<close>

text \<open>\<open>xs.find(p)\<close> and \<open>xs.slice(-n)\<close>.\<close>

fun find_first :: "('a \<Rightarrow> bool) \<Rightarrow> 'a list \<Rightarrow> 'a option" where
  "find_first p [] = None"
| "find_first p (x # xs) = (if p x then Some x else find_first p xs)"

definition take_last :: "nat \<Rightarrow> 'a list \<Rightarrow> 'a list" where
  "take_last n xs = drop (length xs - n) xs"

text \<open>\<open>xs.at(-1)\<close> and \<open>xs[i]\<close>: \<open>undefined\<close> outside the list.\<close>

definition last_opt :: "'a list \<Rightarrow> 'a option" where
  "last_opt xs = (if xs = [] then None else Some (last xs))"

definition nth_opt :: "'a list \<Rightarrow> nat \<Rightarrow> 'a option" where
  "nth_opt xs i = (if i < length xs then Some (xs ! i) else None)"

lemma find_first_Some: "find_first p xs = Some x \<Longrightarrow> x \<in> set xs \<and> p x"
  by (induction xs) (auto split: if_splits)

lemma find_first_None: "find_first p xs = None \<longleftrightarrow> (\<forall>x \<in> set xs. \<not> p x)"
  by (induction xs) auto

lemma length_take_last [simp]: "length (take_last n xs) = min n (length xs)"
  by (simp add: take_last_def)

lemma length_dropWhile_drop: "length (dropWhile p (drop n xs)) < Suc (length xs)"
  using length_dropWhile_le [of p "drop n xs"] by simp

lemma last_opt_simps [simp]:
  "last_opt [] = None"
  "last_opt (xs @ [x]) = Some x"
  by (auto simp: last_opt_def)

lemma last_opt_Some: "last_opt xs = Some x \<longleftrightarrow> (\<exists>ys. xs = ys @ [x])"
  by (auto simp: last_opt_def) (metis append_butlast_last_id)

lemma nth_opt_Some: "nth_opt xs i = Some x \<longleftrightarrow> i < length xs \<and> xs ! i = x"
  by (auto simp: nth_opt_def)

text \<open>The list without repetitions, first occurrences kept: \<open>[...new Set(xs)]\<close>.\<close>

fun uniq :: "'a list \<Rightarrow> 'a list" where
  "uniq [] = []"
| "uniq (x # xs) = x # filter (\<lambda>y. y \<noteq> x) (uniq xs)"

lemma set_uniq [simp]: "set (uniq xs) = set xs"
  by (induction xs) auto

lemma distinct_uniq [simp]: "distinct (uniq xs)"
  by (induction xs) auto

lemma map_if_same:
  assumes "\<And>v. k (g v) = k v"
  shows "map k (map (\<lambda>v. if P v then g v else v) vs) = map k vs"
  by (induction vs) (simp_all add: assms)

section \<open>Runs of a system\<close>

text \<open>
  A system executes operations on a state; an operation is acceptable in a state.  What one acceptable
  operation keeps, a run of them keeps.
\<close>

definition run_ops :: "('op \<Rightarrow> 's \<Rightarrow> 's) \<Rightarrow> 'op list \<Rightarrow> 's \<Rightarrow> 's" where
  "run_ops exec ops s = fold exec ops s"

fun ops_ok :: "('op \<Rightarrow> 's \<Rightarrow> 's) \<Rightarrow> ('op \<Rightarrow> 's \<Rightarrow> bool) \<Rightarrow> 'op list \<Rightarrow> 's \<Rightarrow> bool" where
  "ops_ok exec ok [] s \<longleftrightarrow> True"
| "ops_ok exec ok (op # ops) s \<longleftrightarrow> ok op s \<and> ops_ok exec ok ops (exec op s)"

lemma run_ops_simps [simp]:
  "run_ops exec [] s = s" "run_ops exec (op # ops) s = run_ops exec ops (exec op s)"
  "run_ops exec (xs @ ys) s = run_ops exec ys (run_ops exec xs s)"
  by (simp_all add: run_ops_def)

lemma ops_ok_append [simp]:
  "ops_ok exec ok (xs @ ys) s \<longleftrightarrow> ops_ok exec ok xs s \<and> ops_ok exec ok ys (run_ops exec xs s)"
  by (induction xs arbitrary: s) auto

locale guarded_run =
  fixes exec :: "'op \<Rightarrow> 's \<Rightarrow> 's" and ok :: "'op \<Rightarrow> 's \<Rightarrow> bool" and inv :: "'s \<Rightarrow> bool"
  assumes step: "inv s \<Longrightarrow> ok op s \<Longrightarrow> inv (exec op s)"
begin

lemma run: "inv s \<Longrightarrow> ops_ok exec ok ops s \<Longrightarrow> inv (run_ops exec ops s)"
  by (induction ops arbitrary: s) (auto simp: step)

end

end
