(* ===== verification/SessionLogic.thy ===== *)
theory SessionLogic
  imports Prelude
begin

text \<open>
  The pure part of the conversation session: the buffered message
  (\<open>packages/core/src/domain/attachment.ts\<close>) and
  \<open>apps/api/src/durable-objects/conversation-session-logic.ts\<close> (correction messages, the debounce
  deadline, the migration of legacy buffer entries).
\<close>

section \<open>Buffered messages\<close>

datatype attachment_kind = KImage | KPdf | KText | KDocument | KBinary

datatype telegram_type = TPhoto | TDocument

record telegram_source =
  ts_type :: telegram_type
  ts_fileId :: string
  ts_fileUniqueId :: "string option"
  ts_chatId :: int
  ts_sourceMessageId :: int
  ts_mediaGroupId :: "string option"
  ts_mediaType :: "string option"
  ts_filename :: "string option"
  ts_sizeBytes :: "int option"

record buffered_attachment =
  ba_kind :: attachment_kind
  ba_mediaType :: "string option"
  ba_filename :: "string option"
  ba_sizeBytes :: "int option"
  ba_title :: "string option"
  ba_metadata :: "(string \<times> json) list option"
  ba_source :: telegram_source

datatype buffered_part = TextPart string | AttachmentPart buffered_attachment

fun part_text :: "buffered_part \<Rightarrow> string option" where
  "part_text (TextPart t) = Some t"
| "part_text (AttachmentPart a) = None"

record buffered_message =
  sourceMessageId :: int
  date :: int
  textSummary :: string
  parts :: "buffered_part list"
  mediaGroupId :: "string option"
  msgFrom :: "(string \<times> json) list option"
  rawSource :: "(string \<times> json) list option"

section \<open>Correction messages\<close>

definition correction_prefixes :: "string list" where
  "correction_prefixes =
     [''wait'', ''actually'', ''sorry'', ''i meant'', ''ignore that'', ''correction'',
      ''to clarify'', ''instead'']"

definition isCorrectionMessage :: "buffered_message \<Rightarrow> bool" where
  "isCorrectionMessage m =
     (let text = to_lower (js_trim (textSummary m))
      in if text = [] then False
         else list_ex (\<lambda>prefix. starts_with text prefix) correction_prefixes)"

section \<open>The debounce deadline\<close>

definition DEBOUNCE_BASE_MS :: int where "DEBOUNCE_BASE_MS = 800"
definition DEBOUNCE_EXTEND_MS :: int where "DEBOUNCE_EXTEND_MS = 400"
definition DEBOUNCE_CAP_MS :: int where "DEBOUNCE_CAP_MS = 1500"
definition RERUN_DEBOUNCE_MS :: int where "RERUN_DEBOUNCE_MS = 250"

lemmas debounce_consts =
  DEBOUNCE_BASE_MS_def DEBOUNCE_EXTEND_MS_def DEBOUNCE_CAP_MS_def RERUN_DEBOUNCE_MS_def

definition computeDebounceDeadline :: "int \<Rightarrow> int option \<Rightarrow> bool \<Rightarrow> int" where
  "computeDebounceDeadline now bufferStartedAt isRerun =
     (if isRerun then now + RERUN_DEBOUNCE_MS
      else case bufferStartedAt of
        None \<Rightarrow> now + DEBOUNCE_BASE_MS
      | Some started \<Rightarrow> min (started + DEBOUNCE_CAP_MS) (now + DEBOUNCE_EXTEND_MS))"

section \<open>Migration of legacy buffer entries\<close>

text \<open>
  What the stored buffer may hold: an entry of the old shape (a \<open>text\<close> property and no \<open>parts\<close>; its
  values may be null or absent), or a buffered message.
\<close>

datatype stored_entry =
    LegacyEntry "string option" "int option" "int option" \<comment> \<open>text, messageId, date\<close>
  | ModernEntry buffered_message

fun migrate_entry :: "stored_entry \<Rightarrow> buffered_message" where
  "migrate_entry (LegacyEntry text messageId dt) =
     \<lparr>sourceMessageId = default_to messageId 0,
      date = default_to dt 0,
      textSummary = default_to text [],
      parts = (case truthy_str text of Some t \<Rightarrow> [TextPart t] | None \<Rightarrow> []),
      mediaGroupId = None,
      msgFrom = None,
      rawSource = None\<rparr>"
| "migrate_entry (ModernEntry m) = m"

definition migrateBufferEntries :: "stored_entry list \<Rightarrow> buffered_message list" where
  "migrateBufferEntries entries = map migrate_entry entries"

lemma migrate_modern [simp]: "migrateBufferEntries (map ModernEntry ms) = ms"
  by (induction ms) (auto simp: migrateBufferEntries_def)

lemma correction_has_text:
  "isCorrectionMessage m \<Longrightarrow> js_trim (textSummary m) \<noteq> []"
  by (auto simp: isCorrectionMessage_def Let_def to_lower_def split: if_splits)

lemma deadline_after_now:
  assumes "case bufferStartedAt of None \<Rightarrow> True | Some b \<Rightarrow> now < b + DEBOUNCE_CAP_MS"
  shows "now < computeDebounceDeadline now bufferStartedAt isRerun"
  using assms by (auto simp: computeDebounceDeadline_def debounce_consts split: option.splits)

lemma deadline_within_window:
  assumes "now \<le> started + DEBOUNCE_CAP_MS - RERUN_DEBOUNCE_MS"
  shows "computeDebounceDeadline now (Some started) isRerun \<le> started + DEBOUNCE_CAP_MS"
  using assms by (auto simp: computeDebounceDeadline_def debounce_consts)

end
