(* ===== verification/Session.thy ===== *)
theory Session
  imports SessionLogic
begin

text \<open>
  The durable object \<open>ConversationSession\<close> of
  \<open>apps/api/src/durable-objects/conversation-session.ts\<close>: one instance per Telegram chat, which
  buffers messages, debounces them, runs at most one workflow at a time and arbitrates the first
  outbound message of that workflow.

  The object is a record: the in-memory \<open>SessionState\<close>, the \<open>hydrated\<close> flag, and what the storage
  holds (the persisted state, \<open>pendingFrom\<close>, the alarm).  Every handler is a function of the time it
  reads, its parameters and the object.  The alarm handler awaits the creation of the workflow, and
  other handlers may run meanwhile, so it is split at that await into \<open>alarm_begin\<close> and
  \<open>alarm_created\<close> or \<open>alarm_failed\<close>.
\<close>

section \<open>State\<close>

datatype session_status = Idle | Debouncing | Processing

record session_state =
  status :: session_status
  userId :: "string option"
  conversationId :: "string option"
  chatId :: int
  buffer :: "buffered_message list"
  activeWorkflowId :: "string option"
  bufferStartedAt :: "int option"
  debounceDeadlineAt :: "int option"
  lastBufferedAt :: "int option"
  inFlightMessages :: "buffered_message list"
  activeExecutionToken :: "string option"
  activeExecutionStartedAt :: "int option"
  firstOutboundClaimedAt :: "int option"
  supersededAt :: "int option"
  midRunFollowupCount :: nat

definition DEFAULT_STATE :: session_state where
  "DEFAULT_STATE =
     \<lparr>status = Idle, userId = None, conversationId = None, chatId = 0, buffer = [],
      activeWorkflowId = None, bufferStartedAt = None, debounceDeadlineAt = None,
      lastBufferedAt = None, inFlightMessages = [], activeExecutionToken = None,
      activeExecutionStartedAt = None, firstOutboundClaimedAt = None, supersededAt = None,
      midRunFollowupCount = 0\<rparr>"

text \<open>
  What the storage holds under the key \<open>state\<close>: an object that an older version of the code may have
  written, so every property may be absent (\<open>None\<close>), and a nullable one may be null (\<open>Some None\<close>).
\<close>

record stored_session =
  s_status :: "session_status option"
  s_userId :: "string option option"
  s_conversationId :: "string option option"
  s_chatId :: "int option"
  s_buffer :: "stored_entry list option"
  s_activeWorkflowId :: "string option option"
  s_bufferStartedAt :: "int option option"
  s_debounceDeadlineAt :: "int option option"
  s_lastBufferedAt :: "int option option"
  s_inFlightMessages :: "stored_entry list option"
  s_activeExecutionToken :: "string option option"
  s_activeExecutionStartedAt :: "int option option"
  s_firstOutboundClaimedAt :: "int option option"
  s_supersededAt :: "int option option"
  s_midRunFollowupCount :: "nat option"

text \<open>The state as \<open>storage.put\<close> writes it.\<close>

definition freeze :: "session_state \<Rightarrow> stored_session" where
  "freeze s =
     \<lparr>s_status = Some (status s), s_userId = Some (userId s),
      s_conversationId = Some (conversationId s), s_chatId = Some (chatId s),
      s_buffer = Some (map ModernEntry (buffer s)),
      s_activeWorkflowId = Some (activeWorkflowId s),
      s_bufferStartedAt = Some (bufferStartedAt s),
      s_debounceDeadlineAt = Some (debounceDeadlineAt s),
      s_lastBufferedAt = Some (lastBufferedAt s),
      s_inFlightMessages = Some (map ModernEntry (inFlightMessages s)),
      s_activeExecutionToken = Some (activeExecutionToken s),
      s_activeExecutionStartedAt = Some (activeExecutionStartedAt s),
      s_firstOutboundClaimedAt = Some (firstOutboundClaimedAt s),
      s_supersededAt = Some (supersededAt s),
      s_midRunFollowupCount = Some (midRunFollowupCount s)\<rparr>"

text \<open>\<open>{ ...DEFAULT_STATE, ...stored }\<close>, then the migration of both message lists.\<close>

definition thaw :: "stored_session \<Rightarrow> session_state" where
  "thaw t =
     \<lparr>status = default_to (s_status t) Idle,
      userId = default_to (s_userId t) None,
      conversationId = default_to (s_conversationId t) None,
      chatId = default_to (s_chatId t) 0,
      buffer = migrateBufferEntries (default_to (s_buffer t) []),
      activeWorkflowId = default_to (s_activeWorkflowId t) None,
      bufferStartedAt = default_to (s_bufferStartedAt t) None,
      debounceDeadlineAt = default_to (s_debounceDeadlineAt t) None,
      lastBufferedAt = default_to (s_lastBufferedAt t) None,
      inFlightMessages = migrateBufferEntries (default_to (s_inFlightMessages t) []),
      activeExecutionToken = default_to (s_activeExecutionToken t) None,
      activeExecutionStartedAt = default_to (s_activeExecutionStartedAt t) None,
      firstOutboundClaimedAt = default_to (s_firstOutboundClaimedAt t) None,
      supersededAt = default_to (s_supersededAt t) None,
      midRunFollowupCount = default_to (s_midRunFollowupCount t) 0\<rparr>"

lemma thaw_freeze [simp]: "thaw (freeze s) = s"
  by (simp add: thaw_def freeze_def)

record session_do =
  st :: session_state
  hydrated :: bool
  stored :: "stored_session option"
  pendingFrom :: "(string \<times> json) list option"
  alarmAt :: "int option"

definition new_session_do :: session_do where
  "new_session_do =
     \<lparr>st = DEFAULT_STATE, hydrated = False, stored = None, pendingFrom = None, alarmAt = None\<rparr>"

definition hydrate :: "session_do \<Rightarrow> session_do" where
  "hydrate d =
     (if hydrated d then d
      else d\<lparr>st := (case stored d of Some t \<Rightarrow> thaw t | None \<Rightarrow> st d), hydrated := True\<rparr>)"

definition persist :: "session_do \<Rightarrow> session_do" where
  "persist d = d\<lparr>stored := Some (freeze (st d))\<rparr>"

section \<open>State reset helpers\<close>

definition resetExecutionState :: "session_state \<Rightarrow> session_state" where
  "resetExecutionState s =
     s\<lparr>inFlightMessages := [], activeWorkflowId := None, activeExecutionToken := None,
       activeExecutionStartedAt := None, firstOutboundClaimedAt := None, supersededAt := None,
       midRunFollowupCount := 0\<rparr>"

definition resetDebounceState :: "session_state \<Rightarrow> session_state" where
  "resetDebounceState s =
     s\<lparr>bufferStartedAt := None, debounceDeadlineAt := None, lastBufferedAt := None\<rparr>"

definition scheduleDebounce :: "int \<Rightarrow> bool \<Rightarrow> session_do \<Rightarrow> session_do" where
  "scheduleDebounce now isRerun d =
     (let s1 = (st d)\<lparr>bufferStartedAt := Some (default_to (bufferStartedAt (st d)) now)\<rparr>;
          deadline = computeDebounceDeadline now (bufferStartedAt s1) isRerun;
          s2 = s1\<lparr>debounceDeadlineAt := Some deadline, status := Debouncing\<rparr>
      in d\<lparr>st := s2, alarmAt := Some deadline\<rparr>)"

section \<open>Media group merging\<close>

definition text_of_first :: "buffered_part list \<Rightarrow> string" where
  "text_of_first ps =
     (case find_first (\<lambda>p. part_text p \<noteq> None) ps of
        Some p \<Rightarrow> js_trim (default_to (part_text p) []) | None \<Rightarrow> [])"

text \<open>\<open>Array.isArray(rawSource?.messageIds) ? rawSource.messageIds : [sourceMessageId]\<close>\<close>

definition raw_message_ids :: "buffered_message \<Rightarrow> json list" where
  "raw_message_ids m =
     (case rawSource m of
        Some kvs \<Rightarrow> (case map_of kvs ''messageIds'' of
            Some (JArr ids) \<Rightarrow> ids | _ \<Rightarrow> [JNum (sourceMessageId m)])
      | None \<Rightarrow> [JNum (sourceMessageId m)])"

definition mergeBufferedMessages ::
    "buffered_message \<Rightarrow> buffered_message \<Rightarrow> buffered_message" where
  "mergeBufferedMessages existing incoming =
     \<lparr>sourceMessageId = sourceMessageId existing,
      date = min (date existing) (date incoming),
      textSummary =
        str_or (str_or (text_of_first (parts existing)) (text_of_first (parts incoming)))
          (textSummary incoming),
      parts = parts existing @ parts incoming,
      mediaGroupId = or_else (mediaGroupId existing) (mediaGroupId incoming),
      msgFrom = or_else (msgFrom existing) (msgFrom incoming),
      rawSource = Some [(''platform'', JStr ''telegram''),
        (''messageIds'', JArr (raw_message_ids existing @ raw_message_ids incoming))]\<rparr>"

definition bufferMessage :: "buffered_message \<Rightarrow> session_state \<Rightarrow> session_state" where
  "bufferMessage m s =
     (case last_opt (buffer s) of
        Some lastBuffered \<Rightarrow>
          (if truthy_str (mediaGroupId lastBuffered) \<noteq> None \<and> truthy_str (mediaGroupId m) \<noteq> None
              \<and> mediaGroupId lastBuffered = mediaGroupId m
           then s\<lparr>buffer := butlast (buffer s) @ [mergeBufferedMessages lastBuffered m]\<rparr>
           else s\<lparr>buffer := buffer s @ [m]\<rparr>)
      | None \<Rightarrow> s\<lparr>buffer := buffer s @ [m]\<rparr>)"

section \<open>Handlers\<close>

record ingest_payload =
  ip_message :: buffered_message
  ip_chatId :: int
  ip_from :: "(string \<times> json) list"

definition ingestMessage :: "int \<Rightarrow> ingest_payload \<Rightarrow> session_do \<Rightarrow> session_do" where
  "ingestMessage now payload d0 =
     (let d1 = hydrate d0;
          s1 = (st d1)\<lparr>chatId := (if chatId (st d1) = 0 then ip_chatId payload else chatId (st d1))\<rparr>;
          s2 = bufferMessage (ip_message payload) s1;
          d2 = d1\<lparr>st := s2, pendingFrom := Some (ip_from payload)\<rparr>
      in if status s2 = Processing then
           (let s3 = (if isCorrectionMessage (ip_message payload) \<and> firstOutboundClaimedAt s2 = None
                      then (if supersededAt s2 = None then s2\<lparr>supersededAt := Some now\<rparr> else s2)
                      else s2\<lparr>midRunFollowupCount := Suc (midRunFollowupCount s2)\<rparr>)
            in persist (d2\<lparr>st := s3\<rparr>))
         else persist (scheduleDebounce now False (d2\<lparr>st := s2\<lparr>lastBufferedAt := Some now\<rparr>\<rparr>)))"

text \<open>The parameters of \<open>AGENT_WORKFLOW.create\<close>.\<close>

record launch =
  l_chatId :: int
  l_messages :: "buffered_message list"
  l_userId :: "string option"
  l_from :: "(string \<times> json) list option"
  l_executionToken :: string

text \<open>The recovery of the alarm handler when no workflow could be launched.\<close>

definition alarm_failed :: "int \<Rightarrow> session_do \<Rightarrow> session_do" where
  "alarm_failed now d =
     (let s1 = (st d)\<lparr>buffer := inFlightMessages (st d) @ buffer (st d)\<rparr>;
          s2 = (resetExecutionState s1)\<lparr>status := Idle\<rparr>
      in persist (d\<lparr>st := s2, alarmAt := Some (now + 5000)\<rparr>))"

text \<open>
  The alarm handler up to the await of \<open>workflow.create\<close>; the second component is the pending
  creation.  \<open>now2\<close> is the time read in the branch without a workflow binding.
\<close>

definition alarm_begin ::
    "int \<Rightarrow> int \<Rightarrow> string \<Rightarrow> bool \<Rightarrow> session_do \<Rightarrow> session_do \<times> launch option" where
  "alarm_begin now now2 executionToken has_workflow d0 =
     (let d = hydrate d0; s = st d
      in if buffer s = [] then
           (persist (d\<lparr>st := resetDebounceState (s\<lparr>status := Idle\<rparr>)\<rparr>), None)
         else
           (let inFlight = buffer s;
                s1 = (resetExecutionState (s\<lparr>buffer := []\<rparr>))\<lparr>
                       inFlightMessages := inFlight,
                       activeExecutionToken := Some executionToken,
                       activeExecutionStartedAt := Some now,
                       status := Processing\<rparr>;
                d1 = d\<lparr>st := resetDebounceState s1\<rparr>
            in if has_workflow then
                 (d1, Some \<lparr>l_chatId = chatId s, l_messages = inFlight, l_userId = userId s,
                            l_from = pendingFrom d, l_executionToken = executionToken\<rparr>)
               else (alarm_failed now2 d1, None)))"

definition alarm_created :: "string \<Rightarrow> session_do \<Rightarrow> session_do" where
  "alarm_created instanceId d = persist (d\<lparr>st := (st d)\<lparr>activeWorkflowId := Some instanceId\<rparr>\<rparr>)"

datatype claim_reason = ClaimOk | ClaimStale | ClaimSuperseded | ClaimAlreadyClaimed

definition claim_allowed :: "claim_reason \<Rightarrow> bool" where
  "claim_allowed r \<longleftrightarrow> r = ClaimOk"

definition claimFirstOutbound ::
    "int \<Rightarrow> string \<Rightarrow> session_do \<Rightarrow> session_do \<times> claim_reason" where
  "claimFirstOutbound now executionToken d0 =
     (let d = hydrate d0
      in if Some executionToken \<noteq> activeExecutionToken (st d) then (d, ClaimStale)
         else if supersededAt (st d) \<noteq> None then (d, ClaimSuperseded)
         else if firstOutboundClaimedAt (st d) \<noteq> None then (d, ClaimAlreadyClaimed)
         else (persist (d\<lparr>st := (st d)\<lparr>firstOutboundClaimedAt := Some now\<rparr>\<rparr>), ClaimOk))"

record completion =
  accepted :: bool
  shouldRerun :: bool

definition completeExecution ::
    "int \<Rightarrow> string \<Rightarrow> string option \<Rightarrow> string option \<Rightarrow> session_do \<Rightarrow> session_do \<times> completion" where
  "completeExecution now executionToken uid cid d0 =
     (let d = hydrate d0
      in if Some executionToken \<noteq> activeExecutionToken (st d) then
           (d, \<lparr>accepted = False, shouldRerun = False\<rparr>)
         else
           (let s1 = (st d)\<lparr>userId := or_else (truthy_str uid) (userId (st d)),
                            conversationId := or_else (truthy_str cid) (conversationId (st d))\<rparr>
            in if supersededAt s1 \<noteq> None then
                 (let s2 = resetExecutionState (s1\<lparr>buffer := inFlightMessages s1 @ buffer s1\<rparr>)
                  in (persist (scheduleDebounce now True (d\<lparr>st := s2\<rparr>)),
                      \<lparr>accepted = True, shouldRerun = True\<rparr>))
               else
                 (let s2 = resetExecutionState s1
                  in (if buffer s2 \<noteq> [] then persist (scheduleDebounce now False (d\<lparr>st := s2\<rparr>))
                      else persist (d\<lparr>st := resetDebounceState (s2\<lparr>status := Idle\<rparr>)\<rparr>),
                      \<lparr>accepted = True, shouldRerun = False\<rparr>))))"

lemmas session_handler_defs =
  ingestMessage_def alarm_begin_def alarm_created_def alarm_failed_def claimFirstOutbound_def
  completeExecution_def scheduleDebounce_def resetExecutionState_def resetDebounceState_def
  persist_def Let_def

end
