(* ===== verification/SessionInv.thy ===== *)
theory SessionInv
  imports Session
begin

text \<open>
  The conversation session as a transition system: its handlers in any order, the alarm firing only
  when one is set and due (the platform consumes it, and runs one alarm handler at a time), the
  creation of a workflow completing or failing later than other handlers, any workflow claiming or
  completing at any time, and the object being evicted from memory between handlers.
  Tokens of \<open>crypto.randomUUID\<close> are fresh.

  Ghost fields record the history: the parts of every ingested message, the parts of every run whose
  completion was accepted without a rerun, the tokens of allowed claims and of completions that asked
  for a rerun.
\<close>

section \<open>The system\<close>

record session_sys =
  dobj :: session_do
  pending :: "launch option"
  used :: "string set"
  done_parts :: "buffered_part list"
  in_parts :: "buffered_part list"
  claims :: "string list"
  reruns :: "string set"
  launches :: "launch list"

definition init_sys :: session_sys where
  "init_sys =
     \<lparr>dobj = new_session_do, pending = None, used = {}, done_parts = [], in_parts = [],
      claims = [], reruns = {}, launches = []\<rparr>"

definition msgs_parts :: "buffered_message list \<Rightarrow> buffered_part list" where
  "msgs_parts ms = concat (map parts ms)"

lemma msgs_parts_simps [simp]:
  "msgs_parts [] = []"
  "msgs_parts (m # ms) = parts m @ msgs_parts ms"
  "msgs_parts (xs @ ys) = msgs_parts xs @ msgs_parts ys"
  by (auto simp: msgs_parts_def)

text \<open>The state a handler sees once it has hydrated the object.\<close>

definition view :: "session_do \<Rightarrow> session_state" where
  "view d = st (hydrate d)"

datatype session_label =
    Ingest int ingest_payload
  | AlarmFire int int string bool
  | CreateOk string
  | CreateFail int
  | Claim int string
  | Complete int string "string option" "string option"
  | Evict

inductive session_step :: "session_sys \<Rightarrow> session_label \<Rightarrow> session_sys \<Rightarrow> bool" where
  ingest:
    "session_step s (Ingest now p)
       (s\<lparr>dobj := ingestMessage now p (dobj s), in_parts := in_parts s @ parts (ip_message p)\<rparr>)"
| alarm_fire:
    "\<lbrakk>alarmAt (dobj s) = Some due; due \<le> now; pending s = None; token \<notin> used s;
      alarm_begin now now2 token has_workflow ((dobj s)\<lparr>alarmAt := None\<rparr>) = (d, l)\<rbrakk> \<Longrightarrow>
     session_step s (AlarmFire now now2 token has_workflow)
       (s\<lparr>dobj := d, pending := l, used := insert token (used s),
          launches := launches s @ (case l of None \<Rightarrow> [] | Some x \<Rightarrow> [x])\<rparr>)"
| create_ok:
    "pending s = Some l \<Longrightarrow>
     session_step s (CreateOk instanceId)
       (s\<lparr>dobj := alarm_created instanceId (dobj s), pending := None\<rparr>)"
| create_fail:
    "pending s = Some l \<Longrightarrow>
     session_step s (CreateFail now) (s\<lparr>dobj := alarm_failed now (dobj s), pending := None\<rparr>)"
| claim:
    "claimFirstOutbound now token (dobj s) = (d, r) \<Longrightarrow>
     session_step s (Claim now token)
       (s\<lparr>dobj := d, claims := claims s @ (if claim_allowed r then [token] else [])\<rparr>)"
| complete:
    "completeExecution now token uid cid (dobj s) = (d, c) \<Longrightarrow>
     session_step s (Complete now token uid cid)
       (s\<lparr>dobj := d,
          done_parts := done_parts s @
            (if accepted c \<and> \<not> shouldRerun c
             then msgs_parts (inFlightMessages (view (dobj s))) else []),
          reruns := (if shouldRerun c then insert token (reruns s) else reruns s)\<rparr>)"
| evict:
    "pending s = None \<Longrightarrow>
     session_step s Evict (s\<lparr>dobj := (dobj s)\<lparr>st := DEFAULT_STATE, hydrated := False\<rparr>\<rparr>)"

inductive session_reach :: "session_sys \<Rightarrow> bool" where
  init: "session_reach init_sys"
| step: "session_reach s \<Longrightarrow> session_step s l s' \<Longrightarrow> session_reach s'"

inductive_cases step_alarmE: "session_step s (AlarmFire now now2 token hw) s'"
inductive_cases step_claimE: "session_step s (Claim now token) s'"
inductive_cases step_completeE: "session_step s (Complete now token uid cid) s'"
inductive_cases step_ingestE: "session_step s (Ingest now p) s'"

section \<open>What buffering does to the parts\<close>

lemma parts_merge [simp]: "parts (mergeBufferedMessages a b) = parts a @ parts b"
  by (simp add: mergeBufferedMessages_def)

lemma bufferMessage_parts [simp]:
  "msgs_parts (buffer (bufferMessage m s)) = msgs_parts (buffer s) @ parts m"
proof (cases "last_opt (buffer s)")
  case None
  then show ?thesis by (simp add: bufferMessage_def)
next
  case (Some lastBuffered)
  then obtain ys where "buffer s = ys @ [lastBuffered]" by (auto simp: last_opt_Some)
  then show ?thesis by (simp add: bufferMessage_def)
qed

lemma bufferMessage_nonempty [simp]: "buffer (bufferMessage m s) \<noteq> []"
  by (auto simp: bufferMessage_def split: option.splits)

text \<open>Buffering changes the buffer only.\<close>

lemma bufferMessage_frame: "bufferMessage m s = s\<lparr>buffer := buffer (bufferMessage m s)\<rparr>"
  by (auto simp: bufferMessage_def split: option.splits)

lemma bufferMessage_sel [simp]:
  "status (bufferMessage m s) = status s"
  "inFlightMessages (bufferMessage m s) = inFlightMessages s"
  "activeExecutionToken (bufferMessage m s) = activeExecutionToken s"
  "firstOutboundClaimedAt (bufferMessage m s) = firstOutboundClaimedAt s"
  "supersededAt (bufferMessage m s) = supersededAt s"
  "bufferStartedAt (bufferMessage m s) = bufferStartedAt s"
  "debounceDeadlineAt (bufferMessage m s) = debounceDeadlineAt s"
  "chatId (bufferMessage m s) = chatId s"
  "userId (bufferMessage m s) = userId s"
  by (subst bufferMessage_frame; simp)+

section \<open>The invariant\<close>

text \<open>How the fields of the state and the alarm agree.\<close>

definition session_inv :: "session_state \<Rightarrow> int option \<Rightarrow> bool" where
  "session_inv s alarm \<longleftrightarrow>
     (status s = Processing \<longleftrightarrow> activeExecutionToken s \<noteq> None) \<and>
     (status s \<noteq> Processing \<longrightarrow> inFlightMessages s = []) \<and>
     (status s = Processing \<longrightarrow> alarm = None \<and> bufferStartedAt s = None) \<and>
     (status s = Debouncing \<longrightarrow> buffer s \<noteq> [] \<and> alarm \<noteq> None \<and> debounceDeadlineAt s = alarm \<and>
        (\<exists>b d. bufferStartedAt s = Some b \<and> alarm = Some d \<and> d \<le> b + DEBOUNCE_CAP_MS)) \<and>
     (buffer s \<noteq> [] \<and> status s \<noteq> Processing \<longrightarrow> alarm \<noteq> None) \<and>
     (supersededAt s \<noteq> None \<longrightarrow>
        firstOutboundClaimedAt s = None \<and> status s = Processing \<and> buffer s \<noteq> [])"

text \<open>Storage agrees with memory except while a workflow is being created.\<close>

definition durable :: "session_sys \<Rightarrow> bool" where
  "durable s \<longleftrightarrow>
     (hydrated (dobj s) \<and> pending s = None \<longrightarrow>
        (case stored (dobj s) of None \<Rightarrow> DEFAULT_STATE | Some t \<Rightarrow> thaw t) = st (dobj s)) \<and>
     (\<not> hydrated (dobj s) \<longrightarrow> pending s = None \<and> st (dobj s) = DEFAULT_STATE)"

definition token_inv :: "session_sys \<Rightarrow> bool" where
  "token_inv s \<longleftrightarrow>
     set (claims s) \<subseteq> used s \<and> reruns s \<subseteq> used s \<and> distinct (claims s) \<and>
     set (claims s) \<inter> reruns s = {} \<and>
     (\<forall>t. activeExecutionToken (view (dobj s)) = Some t \<longrightarrow>
        t \<in> used s \<and> t \<notin> reruns s \<and>
        (t \<in> set (claims s) \<longrightarrow> firstOutboundClaimedAt (view (dobj s)) \<noteq> None))"

definition conserved :: "session_sys \<Rightarrow> bool" where
  "conserved s \<longleftrightarrow>
     done_parts s @ msgs_parts (inFlightMessages (view (dobj s))) @ msgs_parts (buffer (view (dobj s)))
       = in_parts s"

definition sys_inv :: "session_sys \<Rightarrow> bool" where
  "sys_inv s \<longleftrightarrow>
     session_inv (view (dobj s)) (alarmAt (dobj s)) \<and> durable s \<and> token_inv s \<and> conserved s"

lemma view_eq:
  "view d = (if hydrated d then st d
             else case stored d of Some t \<Rightarrow> thaw t | None \<Rightarrow> st d)"
  by (simp add: view_def hydrate_def)

lemma view_hydrated [simp]: "hydrated d \<Longrightarrow> view d = st d"
  by (simp add: view_eq)

lemma hydrate_sel [simp]:
  "hydrated (hydrate d)" "stored (hydrate d) = stored d" "alarmAt (hydrate d) = alarmAt d"
  "pendingFrom (hydrate d) = pendingFrom d" "st (hydrate d) = view d"
  by (simp_all add: hydrate_def view_eq)

lemma hydrate_id [simp]: "hydrated d \<Longrightarrow> hydrate d = d"
  by (simp add: hydrate_def)

lemma view_alarm [simp]: "view (d\<lparr>alarmAt := a\<rparr>) = view d"
  by (cases "stored d") (simp_all add: view_eq)

lemma persist_sel [simp]:
  "hydrated (persist d) = hydrated d" "st (persist d) = st d" "alarmAt (persist d) = alarmAt d"
  "stored (persist d) = Some (freeze (st d))" "pendingFrom (persist d) = pendingFrom d"
  by (simp_all add: persist_def)

lemma scheduleDebounce_sel [simp]:
  "hydrated (scheduleDebounce now r d) = hydrated d"
  "pendingFrom (scheduleDebounce now r d) = pendingFrom d"
  by (simp_all add: scheduleDebounce_def Let_def)

text \<open>After each handler the object is hydrated; all but a pending alarm and a refusal persist.\<close>

lemma handler_hydrated [simp]:
  "hydrated (ingestMessage now p d)"
  "hydrated (fst (alarm_begin now now2 t hw d))"
  "hydrated (fst (claimFirstOutbound now t d))"
  "hydrated (fst (completeExecution now t uid cid d))"
  "hydrated (alarm_created i d) = hydrated d"
  "hydrated (alarm_failed now d) = hydrated d"
  by (auto simp: session_handler_defs hydrate_def)

lemma ingest_stored: "stored (ingestMessage now p d) = Some (freeze (st (ingestMessage now p d)))"
  by (simp add: ingestMessage_def Let_def)

section \<open>Each handler keeps the shape of the state\<close>

lemma deadline_cap:
  assumes "b \<le> now \<or> \<not> isRerun"
  shows "computeDebounceDeadline now (Some b) False \<le> b + DEBOUNCE_CAP_MS"
    and "computeDebounceDeadline now (Some now) isRerun \<le> now + DEBOUNCE_CAP_MS"
  by (auto simp: computeDebounceDeadline_def debounce_consts)

lemma schedule_inv:
  assumes "activeExecutionToken (st d) = None" "inFlightMessages (st d) = []"
    and "buffer (st d) \<noteq> []" "isRerun \<longrightarrow> bufferStartedAt (st d) = None"
    and "supersededAt (st d) = None"
  shows "session_inv (st (scheduleDebounce now isRerun d)) (alarmAt (scheduleDebounce now isRerun d))"
  using assms
  by (auto simp: session_inv_def scheduleDebounce_def Let_def computeDebounceDeadline_def
      debounce_consts split: option.splits)

lemma ingest_inv:
  assumes "session_inv (view d) (alarmAt d)"
  shows "session_inv (st (ingestMessage now p d)) (alarmAt (ingestMessage now p d))"
proof (cases "status (view d) = Processing")
  case True
  with assms show ?thesis
    by (auto simp: session_inv_def ingestMessage_def Let_def)
next
  case False
  with assms have "activeExecutionToken (view d) = None" "inFlightMessages (view d) = []"
    "supersededAt (view d) = None"
    by (auto simp: session_inv_def)
  with False show ?thesis
    by (simp add: ingestMessage_def Let_def schedule_inv)
qed

lemma alarm_failed_inv:
  "session_inv (st (alarm_failed now d)) (alarmAt (alarm_failed now d))"
  by (simp add: session_inv_def alarm_failed_def Let_def resetExecutionState_def)

lemma alarm_begin_inv:
  assumes "session_inv (view d) a" "alarm_begin now now2 t hw (d\<lparr>alarmAt := None\<rparr>) = (d', l)"
    and "status (view d) \<noteq> Processing"
  shows "session_inv (st d') (alarmAt d')"
  using assms alarm_failed_inv
  by (auto simp: alarm_begin_def Let_def session_inv_def resetExecutionState_def
      resetDebounceState_def split: if_splits)

lemma alarm_created_inv:
  "session_inv (st d) (alarmAt d) \<Longrightarrow>
   session_inv (st (alarm_created i d)) (alarmAt (alarm_created i d))"
  by (simp add: session_inv_def alarm_created_def)

text \<open>A claim is refused, with the object only hydrated, or it stamps the run.\<close>

lemma claim_cases:
  assumes "claimFirstOutbound now t d = (d', r)"
  obtains (refused) "d' = hydrate d" "r \<noteq> ClaimOk"
  | (allowed) "activeExecutionToken (view d) = Some t" "supersededAt (view d) = None"
      "firstOutboundClaimedAt (view d) = None" "r = ClaimOk"
      "d' = persist ((hydrate d)\<lparr>st := (view d)\<lparr>firstOutboundClaimedAt := Some now\<rparr>\<rparr>)"
proof (cases "activeExecutionToken (view d) = Some t \<and> supersededAt (view d) = None \<and>
              firstOutboundClaimedAt (view d) = None")
  case True
  with assms show thesis by (intro allowed) (simp_all add: claimFirstOutbound_def Let_def)
next
  case False
  with assms show thesis
    by (intro refused) (simp_all add: claimFirstOutbound_def Let_def split: if_splits)
qed

lemma claim_inv:
  assumes inv: "session_inv (view d) (alarmAt d)" and c: "claimFirstOutbound now t d = (d', r)"
  shows "session_inv (st d') (alarmAt d')"
  using c
proof (cases rule: claim_cases)
  case refused
  with inv show ?thesis by simp
next
  case allowed
  with inv show ?thesis by (simp add: session_inv_def)
qed

text \<open>The three outcomes of a completion.\<close>

lemma complete_cases:
  assumes "completeExecution now t uid cid d = (d', c)"
  obtains (stale) "activeExecutionToken (view d) \<noteq> Some t" "d' = hydrate d"
      "c = \<lparr>accepted = False, shouldRerun = False\<rparr>"
  | (rerun) s where "activeExecutionToken (view d) = Some t" "supersededAt (view d) \<noteq> None"
      "c = \<lparr>accepted = True, shouldRerun = True\<rparr>"
      "s = resetExecutionState ((view d)\<lparr>userId := or_else (truthy_str uid) (userId (view d)),
             conversationId := or_else (truthy_str cid) (conversationId (view d)),
             buffer := inFlightMessages (view d) @ buffer (view d)\<rparr>)"
      "d' = persist (scheduleDebounce now True ((hydrate d)\<lparr>st := s\<rparr>))"
  | (finish) s where "activeExecutionToken (view d) = Some t" "supersededAt (view d) = None"
      "c = \<lparr>accepted = True, shouldRerun = False\<rparr>"
      "s = resetExecutionState ((view d)\<lparr>userId := or_else (truthy_str uid) (userId (view d)),
             conversationId := or_else (truthy_str cid) (conversationId (view d))\<rparr>)"
      "d' = (if buffer s \<noteq> [] then persist (scheduleDebounce now False ((hydrate d)\<lparr>st := s\<rparr>))
             else persist ((hydrate d)\<lparr>st := resetDebounceState (s\<lparr>status := Idle\<rparr>)\<rparr>))"
proof (cases "activeExecutionToken (view d) = Some t")
  case False
  then show thesis
    by (rule stale) (use assms False in \<open>simp_all add: completeExecution_def Let_def\<close>)
next
  case True
  note active = this
  show thesis
  proof (cases "supersededAt (view d) = None")
    case True
    show thesis
      by (rule finish [OF active True _ refl])
         (use assms active True in \<open>simp_all add: completeExecution_def Let_def split: if_splits\<close>)
  next
    case False
    show thesis
      by (rule rerun [OF active False _ refl])
         (use assms active False in \<open>simp_all add: completeExecution_def Let_def\<close>)
  qed
qed

lemma complete_inv:
  assumes inv: "session_inv (view d) (alarmAt d)" and c: "completeExecution now t uid cid d = (d', c)"
  shows "session_inv (st d') (alarmAt d')"
  using c
proof (cases rule: complete_cases)
  case stale
  with inv show ?thesis by simp
next
  case (rerun s)
  with inv have "bufferStartedAt s = None" "buffer s \<noteq> []"
    by (auto simp: session_inv_def resetExecutionState_def)
  with rerun show ?thesis by (simp add: schedule_inv resetExecutionState_def)
next
  case (finish s)
  show ?thesis
  proof (cases "buffer s = []")
    case True
    with finish show ?thesis
      by (simp add: session_inv_def resetExecutionState_def resetDebounceState_def)
  next
    case False
    with finish show ?thesis by (simp add: schedule_inv resetExecutionState_def)
  qed
qed

section \<open>Storage, tokens and parts\<close>

lemma step_durable: "session_step s l s' \<Longrightarrow> durable s \<Longrightarrow> durable s'"
proof (induction rule: session_step.induct)
  case (ingest s now p)
  then show ?case by (simp add: durable_def ingest_stored)
next
  case (alarm_fire s due now token now2 hw d l)
  then show ?case
    by (auto simp: durable_def alarm_begin_def Let_def alarm_failed_def split: if_splits)
next
  case (create_ok s l i)
  then show ?case by (auto simp: durable_def alarm_created_def)
next
  case (create_fail s l now)
  then show ?case by (auto simp: durable_def alarm_failed_def Let_def)
next
  case (claim now t s d r)
  show ?case
    using claim.hyps
  proof (cases rule: claim_cases)
    case refused
    with claim.prems show ?thesis
      by (auto simp: durable_def hydrate_def split: option.splits)
  qed (auto simp: durable_def)
next
  case (complete now t uid cid s d c)
  show ?case
    using complete.hyps
  proof (cases rule: complete_cases)
    case stale
    with complete.prems show ?thesis
      by (auto simp: durable_def hydrate_def split: option.splits)
  qed (auto simp: durable_def)
next
  case (evict s)
  then show ?case by (simp add: durable_def)
qed

text \<open>Eviction is invisible: the next handler sees the state the last one left.\<close>

lemma evict_view:
  assumes "durable s" "pending s = None"
  shows "view ((dobj s)\<lparr>st := DEFAULT_STATE, hydrated := False\<rparr>) = view (dobj s)"
  using assms by (auto simp: durable_def view_eq split: option.splits)

lemma ingest_view_sel:
  "inFlightMessages (st (ingestMessage now p d)) = inFlightMessages (view d)"
  "msgs_parts (buffer (st (ingestMessage now p d))) =
     msgs_parts (buffer (view d)) @ parts (ip_message p)"
  "activeExecutionToken (st (ingestMessage now p d)) = activeExecutionToken (view d)"
  "firstOutboundClaimedAt (st (ingestMessage now p d)) = firstOutboundClaimedAt (view d)"
  by (simp_all add: ingestMessage_def scheduleDebounce_def Let_def)

lemma alarm_failed_sel:
  "inFlightMessages (st (alarm_failed now d)) = []"
  "msgs_parts (buffer (st (alarm_failed now d))) =
     msgs_parts (inFlightMessages (st d)) @ msgs_parts (buffer (st d))"
  "activeExecutionToken (st (alarm_failed now d)) = None"
  by (simp_all add: alarm_failed_def Let_def resetExecutionState_def)

lemma alarm_begin_sel:
  assumes "alarm_begin now now2 t hw d = (d', l)"
    and "inFlightMessages (view d) = []"
  shows "msgs_parts (inFlightMessages (st d')) @ msgs_parts (buffer (st d'))
           = msgs_parts (buffer (view d))"
    and "activeExecutionToken (st d') = Some t \<and> firstOutboundClaimedAt (st d') = None \<or>
         activeExecutionToken (st d') = None \<or> activeExecutionToken (st d') = activeExecutionToken (view d)"
  using assms
  by (auto simp: alarm_begin_def Let_def resetExecutionState_def resetDebounceState_def
      alarm_failed_def split: if_splits)

lemma complete_sel:
  assumes "completeExecution now t uid cid d = (d', c)"
  shows "activeExecutionToken (view d) \<noteq> Some t \<Longrightarrow> st d' = view d \<and> \<not> accepted c \<and> \<not> shouldRerun c"
    and "activeExecutionToken (view d) = Some t \<Longrightarrow>
           activeExecutionToken (st d') = None \<and> inFlightMessages (st d') = [] \<and> accepted c \<and>
           msgs_parts (buffer (st d')) =
             (if shouldRerun c then msgs_parts (inFlightMessages (view d)) else []) @
             msgs_parts (buffer (view d)) \<and>
           (shouldRerun c \<longleftrightarrow> supersededAt (view d) \<noteq> None)"
proof -
  show "activeExecutionToken (view d) \<noteq> Some t \<Longrightarrow> st d' = view d \<and> \<not> accepted c \<and> \<not> shouldRerun c"
    using assms by (cases rule: complete_cases) auto
  show "activeExecutionToken (view d) = Some t \<Longrightarrow>
           activeExecutionToken (st d') = None \<and> inFlightMessages (st d') = [] \<and> accepted c \<and>
           msgs_parts (buffer (st d')) =
             (if shouldRerun c then msgs_parts (inFlightMessages (view d)) else []) @
             msgs_parts (buffer (view d)) \<and>
           (shouldRerun c \<longleftrightarrow> supersededAt (view d) \<noteq> None)"
    using assms
    by (cases rule: complete_cases)
       (simp_all add: resetExecutionState_def resetDebounceState_def scheduleDebounce_def Let_def)
qed

lemma step_session_inv:
  assumes "session_step s l s'" "session_inv (view (dobj s)) (alarmAt (dobj s))" "durable s"
  shows "session_inv (view (dobj s')) (alarmAt (dobj s'))"
  using assms
proof (induction rule: session_step.induct)
  case (ingest s now p)
  then show ?case by (simp add: ingest_inv)
next
  case (alarm_fire s due now token now2 hw d l)
  then have "status (view (dobj s)) \<noteq> Processing" by (auto simp: session_inv_def)
  moreover have "hydrated d" using alarm_fire.hyps(5) handler_hydrated(2) by (metis fst_conv)
  ultimately show ?case using alarm_fire by (simp add: alarm_begin_inv)
next
  case (create_ok s l i)
  then have "hydrated (dobj s)" by (auto simp: durable_def)
  with create_ok show ?case by (simp add: alarm_created_inv)
next
  case (create_fail s l now)
  then have "hydrated (dobj s)" by (auto simp: durable_def)
  with create_fail show ?case by (simp add: alarm_failed_inv)
next
  case (claim now t s d r)
  then have "hydrated d" using handler_hydrated(3) by (metis fst_conv)
  with claim show ?case by (simp add: claim_inv)
next
  case (complete now t uid cid s d c)
  then have "hydrated d" using handler_hydrated(4) by (metis fst_conv)
  with complete show ?case by (simp add: complete_inv)
next
  case (evict s)
  then show ?case by (simp add: evict_view)
qed

lemma step_conserved:
  assumes "session_step s l s'" "conserved s" "durable s"
    and "session_inv (view (dobj s)) (alarmAt (dobj s))"
  shows "conserved s'"
  using assms
proof (induction rule: session_step.induct)
  case (ingest s now p)
  then show ?case by (simp add: conserved_def ingest_view_sel)
next
  case (alarm_fire s due now token now2 hw d l)
  then have "inFlightMessages (view (dobj s)) = []" by (auto simp: session_inv_def)
  moreover have "hydrated d" using alarm_fire.hyps(5) handler_hydrated(2) by (metis fst_conv)
  ultimately show ?case
    using alarm_fire.prems(1) alarm_begin_sel(1) [OF alarm_fire.hyps(5)]
    by (simp add: conserved_def)
next
  case (create_ok s l i)
  then have "hydrated (dobj s)" by (auto simp: durable_def)
  with create_ok show ?case by (simp add: conserved_def alarm_created_def)
next
  case (create_fail s l now)
  then have "hydrated (dobj s)" by (auto simp: durable_def)
  with create_fail show ?case by (simp add: conserved_def alarm_failed_sel)
next
  case (claim now t s d r)
  have "hydrated d" using claim.hyps handler_hydrated(3) by (metis fst_conv)
  show ?case
    using claim.hyps \<open>hydrated d\<close> claim.prems(1)
    by (cases rule: claim_cases) (auto simp: conserved_def)
next
  case (complete now t uid cid s d c)
  have "hydrated d" using complete.hyps handler_hydrated(4) by (metis fst_conv)
  with complete.prems(1) complete_sel [OF complete.hyps] show ?case
    by (cases "activeExecutionToken (view (dobj s)) = Some t") (auto simp: conserved_def)
next
  case (evict s)
  then show ?case by (simp add: conserved_def evict_view)
qed

lemma step_token_inv:
  assumes "session_step s l s'" "token_inv s" "durable s"
    and "session_inv (view (dobj s)) (alarmAt (dobj s))"
  shows "token_inv s'"
  using assms
proof (induction rule: session_step.induct)
  case (ingest s now p)
  then show ?case by (simp add: token_inv_def ingest_view_sel)
next
  case (alarm_fire s due now token now2 hw d l)
  then have "inFlightMessages (view (dobj s)) = []" "activeExecutionToken (view (dobj s)) = None"
    by (auto simp: session_inv_def)
  moreover have "hydrated d" using alarm_fire.hyps(5) handler_hydrated(2) by (metis fst_conv)
  ultimately show ?case
    using alarm_fire.prems(1) alarm_fire.hyps(4) alarm_begin_sel(2) [OF alarm_fire.hyps(5)]
    by (auto simp: token_inv_def)
next
  case (create_ok s l i)
  then have "hydrated (dobj s)" by (auto simp: durable_def)
  with create_ok show ?case by (simp add: token_inv_def alarm_created_def)
next
  case (create_fail s l now)
  then have "hydrated (dobj s)" by (auto simp: durable_def)
  with create_fail show ?case by (simp add: token_inv_def alarm_failed_sel)
next
  case (claim now t s d r)
  have "hydrated d" using claim.hyps handler_hydrated(3) by (metis fst_conv)
  show ?case
    using claim.hyps \<open>hydrated d\<close> claim.prems(1)
    by (cases rule: claim_cases) (auto simp: token_inv_def claim_allowed_def)
next
  case (complete now t uid cid s d c)
  have "hydrated d" using complete.hyps handler_hydrated(4) by (metis fst_conv)
  moreover have "supersededAt (view (dobj s)) \<noteq> None \<Longrightarrow> firstOutboundClaimedAt (view (dobj s)) = None"
    using complete.prems(3) by (simp add: session_inv_def)
  ultimately show ?case
    using complete.prems(1) complete_sel [OF complete.hyps]
    by (cases "activeExecutionToken (view (dobj s)) = Some t") (auto simp: token_inv_def)
next
  case (evict s)
  then show ?case by (simp add: token_inv_def evict_view)
qed

lemma init_sys_inv: "sys_inv init_sys"
  by (simp add: sys_inv_def session_inv_def durable_def token_inv_def conserved_def init_sys_def
      new_session_do_def view_eq DEFAULT_STATE_def)

lemma step_sys_inv: "session_step s l s' \<Longrightarrow> sys_inv s \<Longrightarrow> sys_inv s'"
  unfolding sys_inv_def
  by (blast intro: step_durable step_session_inv step_conserved step_token_inv)

lemma reach_sys_inv: "session_reach s \<Longrightarrow> sys_inv s"
  by (induction rule: session_reach.induct) (auto intro: init_sys_inv step_sys_inv)

end
