(* ===== verification/SessionProps.thy ===== *)
theory SessionProps
  imports SessionInv
begin

text \<open>
  What the conversation session promises, read off the invariant of \<open>SessionInv\<close>: no message is
  lost, duplicated or reordered, no wake-up is lost, every run speaks at most once and never after it
  was superseded, and eviction is invisible.  The step relation is deterministic given its label, so
  it has an executable form, which the witnesses run.
\<close>

section \<open>Runs\<close>

definition session_exec :: "session_label \<Rightarrow> session_sys \<Rightarrow> session_sys option" where
  "session_exec lab s =
     (case lab of
        Ingest now p \<Rightarrow>
          Some (s\<lparr>dobj := ingestMessage now p (dobj s),
                  in_parts := in_parts s @ parts (ip_message p)\<rparr>)
      | AlarmFire now now2 token hw \<Rightarrow>
          (case alarmAt (dobj s) of
             None \<Rightarrow> None
           | Some due \<Rightarrow>
               if due \<le> now \<and> pending s = None \<and> token \<notin> used s
               then (let dl = alarm_begin now now2 token hw ((dobj s)\<lparr>alarmAt := None\<rparr>)
                     in Some (s\<lparr>dobj := fst dl, pending := snd dl, used := insert token (used s),
                                launches := launches s @
                                  (case snd dl of None \<Rightarrow> [] | Some x \<Rightarrow> [x])\<rparr>))
               else None)
      | CreateOk i \<Rightarrow>
          (if pending s = None then None
           else Some (s\<lparr>dobj := alarm_created i (dobj s), pending := None\<rparr>))
      | CreateFail now \<Rightarrow>
          (if pending s = None then None
           else Some (s\<lparr>dobj := alarm_failed now (dobj s), pending := None\<rparr>))
      | Claim now token \<Rightarrow>
          (let dr = claimFirstOutbound now token (dobj s)
           in Some (s\<lparr>dobj := fst dr,
                      claims := claims s @ (if claim_allowed (snd dr) then [token] else [])\<rparr>))
      | Complete now token uid cid \<Rightarrow>
          (let dc = completeExecution now token uid cid (dobj s)
           in Some (s\<lparr>dobj := fst dc,
                      done_parts := done_parts s @
                        (if accepted (snd dc) \<and> \<not> shouldRerun (snd dc)
                         then msgs_parts (inFlightMessages (view (dobj s))) else []),
                      reruns := (if shouldRerun (snd dc) then insert token (reruns s)
                                 else reruns s)\<rparr>))
      | Evict \<Rightarrow>
          (if pending s = None
           then Some (s\<lparr>dobj := (dobj s)\<lparr>st := DEFAULT_STATE, hydrated := False\<rparr>\<rparr>) else None))"

lemma session_exec_step: "session_exec lab s = Some s' \<Longrightarrow> session_step s lab s'"
proof (cases lab)
  case (AlarmFire now now2 token hw)
  assume ex: "session_exec lab s = Some s'"
  with AlarmFire obtain due where due: "alarmAt (dobj s) = Some due" "due \<le> now"
      "pending s = None" "token \<notin> used s"
    by (auto simp: session_exec_def split: option.splits if_splits)
  with ex AlarmFire session_step.alarm_fire [OF due prod.collapse [symmetric], of now2 hw] show ?thesis
    by (simp add: session_exec_def Let_def split del: if_split)
next
  case (Claim now token)
  assume "session_exec lab s = Some s'"
  with Claim show ?thesis
    using session_step.claim [where s = s and now = now and token = token, OF prod.collapse [symmetric]] by (simp add: session_exec_def Let_def split del: if_split)
next
  case (Complete now token uid cid)
  assume "session_exec lab s = Some s'"
  with Complete show ?thesis
    using session_step.complete [where s = s and now = now and token = token and uid = uid and cid = cid,
        OF prod.collapse [symmetric]]
    by (simp add: session_exec_def Let_def split del: if_split)
qed (auto simp: session_exec_def intro: session_step.intros split: if_splits)

lemma session_step_exec: "session_step s lab s' \<longleftrightarrow> session_exec lab s = Some s'"
proof
  show "session_step s lab s' \<Longrightarrow> session_exec lab s = Some s'"
    by (induction rule: session_step.induct) (simp_all add: session_exec_def Let_def)
qed (rule session_exec_step)

fun session_run :: "session_label list \<Rightarrow> session_sys \<Rightarrow> session_sys option" where
  "session_run [] s = Some s"
| "session_run (lab # labs) s =
     (case session_exec lab s of None \<Rightarrow> None | Some s' \<Rightarrow> session_run labs s')"

lemma session_run_reach: "session_run labs s = Some s' \<Longrightarrow> session_reach s \<Longrightarrow> session_reach s'"
proof (induction labs arbitrary: s)
  case (Cons lab labs)
  then obtain u where "session_exec lab s = Some u" "session_run labs u = Some s'"
    by (auto split: option.splits)
  with Cons show ?case by (metis session_reach.step session_step_exec)
qed simp

text \<open>A sample run: a message, its workflow, a correction before anything was said, the rerun.\<close>

definition sample_msg :: "string \<Rightarrow> buffered_message" where
  "sample_msg t = \<lparr>sourceMessageId = 1, date = 1, textSummary = t, parts = [TextPart t],
                   mediaGroupId = None, msgFrom = None, rawSource = None\<rparr>"

definition sample_payload :: "string \<Rightarrow> ingest_payload" where
  "sample_payload t = \<lparr>ip_message = sample_msg t, ip_chatId = 7, ip_from = []\<rparr>"

definition sample_labels :: "session_label list" where
  "sample_labels =
     [Ingest 1000 (sample_payload ''book a table''), AlarmFire 1400 1400 ''t1'' True, CreateOk ''w1'',
      Ingest 1500 (sample_payload ''wait, for two''), Evict, Claim 1600 ''t1'',
      Complete 1700 ''t1'' None None, AlarmFire 1950 1950 ''t2'' True, CreateOk ''w2'',
      Claim 2000 ''t2'', Complete 2100 ''t2'' None None,
      Ingest 3000 (sample_payload ''thanks'')]"

lemmas sample_defs =
  sample_labels_def sample_payload_def sample_msg_def session_exec_def init_sys_def
  new_session_do_def hydrate_def DEFAULT_STATE_def bufferMessage_def last_opt_def
  computeDebounceDeadline_def debounce_consts isCorrectionMessage_def

lemma sample_correction: "isCorrectionMessage (sample_msg ''wait, for two'')"
  by code_simp

lemma sample_no_correction: "\<not> isCorrectionMessage (sample_msg ''thanks'')"
  by code_simp

section \<open>Properties\<close>

text \<open>
  C1. No message is lost, duplicated or reordered: in every reachable state the parts of the runs
  whose completion was accepted, then those in flight, then those in the buffer, are the parts of all
  ingested messages in the order of their arrival, whatever the interleaving of messages, alarms,
  launches that fail, stale workflows, supersession and eviction.
\<close>

theorem session_no_message_lost:
  assumes "session_reach s"
  shows "done_parts s @ msgs_parts (inFlightMessages (view (dobj s)))
           @ msgs_parts (buffer (view (dobj s))) = in_parts s"
  using reach_sys_inv [OF assms] by (simp add: sys_inv_def conserved_def)

lemma sample_reach:
  obtains s where "session_reach s" "claims s = [''t2'']" "reruns s = {''t1''}"
    "in_parts s = map TextPart [''book a table'', ''wait, for two'', ''thanks'']"
    "length (buffer (view (dobj s))) = 1" "alarmAt (dobj s) = Some 3400" "pending s = None"
proof -
  let ?r = "session_run sample_labels init_sys"
  have "case ?r of None \<Rightarrow> False | Some s \<Rightarrow>
      claims s = [''t2''] \<and> reruns s = {''t1''} \<and>
      in_parts s = map TextPart [''book a table'', ''wait, for two'', ''thanks''] \<and>
      length (buffer (view (dobj s))) = 1 \<and> alarmAt (dobj s) = Some 3400 \<and>
      pending s = None"
    by code_simp
  with session_run_reach [OF _ session_reach.init] that show thesis
    by (auto split: option.splits)
qed

theorem session_no_message_lost_witness:
  "\<exists>s. session_reach s \<and> length (in_parts s) = 3 \<and>
       done_parts s @ msgs_parts (inFlightMessages (view (dobj s)))
           @ msgs_parts (buffer (view (dobj s))) = in_parts s"
proof (rule sample_reach)
  fix s assume "session_reach s"
    and "in_parts s = map TextPart [''book a table'', ''wait, for two'', ''thanks'']"
  then show ?thesis by (intro exI [of _ s]) (simp add: session_no_message_lost)
qed



text \<open>
  C3. A run speaks at most once and never after being superseded: in every reachable state no token
  was granted the first outbound message twice, and no token that was granted it had its completion
  answered with a rerun of its messages.
\<close>

theorem session_single_outbound:
  assumes "session_reach s"
  shows "distinct (claims s) \<and> set (claims s) \<inter> reruns s = {}"
  using reach_sys_inv [OF assms] by (simp add: sys_inv_def token_inv_def)

theorem session_single_outbound_witness:
  "\<exists>s. session_reach s \<and> claims s \<noteq> [] \<and> reruns s \<noteq> {} \<and>
       distinct (claims s) \<and> set (claims s) \<inter> reruns s = {}"
proof (rule sample_reach)
  fix s assume "session_reach s" "claims s = [''t2'']" "reruns s = {''t1''}"
  then show ?thesis using session_single_outbound [of s] by (intro exI [of _ s]) auto
qed

lemma alarm_begin_launch:
  assumes "alarm_begin now now2 t hw d = (d', Some l)"
  shows "buffer (view d) \<noteq> [] \<and> l_messages l = buffer (view d) \<and> l_executionToken l = t \<and>
         hydrated d' \<and> alarmAt d' = alarmAt d \<and> status (st d') = Processing \<and>
         buffer (st d') = [] \<and> inFlightMessages (st d') = buffer (view d) \<and>
         activeExecutionToken (st d') = Some t \<and> firstOutboundClaimedAt (st d') = None \<and>
         supersededAt (st d') = None"
  using assms
  by (auto simp: alarm_begin_def Let_def resetExecutionState_def resetDebounceState_def
      split: if_splits)

text \<open>
  Single flight: when an alarm launches a workflow from a reachable state, no run was active, the
  workflow receives the whole buffer in order, the buffer is emptied into the in-flight messages, and
  the object becomes processing under the fresh token with no outbound claimed and no alarm set.
\<close>

theorem session_single_flight:
  assumes "session_reach s" and "session_step s (AlarmFire now now2 token hw) s'"
    and "pending s' = Some l"
  shows "activeExecutionToken (view (dobj s)) = None \<and>
         l_messages l = buffer (view (dobj s)) \<and> l_messages l \<noteq> [] \<and> l_executionToken l = token \<and>
         inFlightMessages (view (dobj s')) = l_messages l \<and> buffer (view (dobj s')) = [] \<and>
         status (view (dobj s')) = Processing \<and> alarmAt (dobj s') = None \<and>
         activeExecutionToken (view (dobj s')) = Some token \<and>
         firstOutboundClaimedAt (view (dobj s')) = None \<and> supersededAt (view (dobj s')) = None"
proof -
  obtain d where l: "alarm_begin now now2 token hw ((dobj s)\<lparr>alarmAt := None\<rparr>) = (d, Some l)"
    and s': "dobj s' = d" and due: "alarmAt (dobj s) \<noteq> None"
    using assms(2,3) by (auto elim!: step_alarmE)
  have "activeExecutionToken (view (dobj s)) = None"
    using reach_sys_inv [OF assms(1)] due by (auto simp: sys_inv_def session_inv_def)
  with alarm_begin_launch [OF l] s' show ?thesis by simp
qed

lemma run_exec_witness:
  assumes "case session_run labs init_sys of None \<Rightarrow> False
           | Some s \<Rightarrow> (case session_exec lab s of None \<Rightarrow> False | Some s' \<Rightarrow> P s s')"
  obtains s s' where "session_reach s" "session_step s lab s'" "P s s'"
  using assms
  by (auto split: option.splits intro: that session_exec_step
      session_run_reach [OF _ session_reach.init])

theorem session_single_flight_witness:
  "\<exists>s s' l. session_step s (AlarmFire 1400 1400 ''t1'' True) s' \<and> pending s' = Some l \<and>
      l_messages l = buffer (view (dobj s)) \<and> l_messages l \<noteq> []"
proof (rule run_exec_witness [where
    labs = "[Ingest 1000 (sample_payload ''book a table'')]" and
    lab = "AlarmFire 1400 1400 ''t1'' True" and P = "\<lambda>s s'. pending s' \<noteq> None"])
  show "case session_run [Ingest 1000 (sample_payload ''book a table'')] init_sys of None \<Rightarrow> False
        | Some s \<Rightarrow> (case session_exec (AlarmFire 1400 1400 ''t1'' True) s of None \<Rightarrow> False
           | Some s' \<Rightarrow> pending s' \<noteq> None)"
    by code_simp
  fix s s' assume "session_reach s" "session_step s (AlarmFire 1400 1400 ''t1'' True) s'"
    "pending s' \<noteq> None"
  then show ?thesis using session_single_flight by blast
qed

text \<open>
  A correction before anything was said reruns the batch: while a run is processing and has claimed
  nothing, a correction message makes that run's claim refused as superseded and its completion
  answered with a rerun, after which the buffer holds the in-flight messages, those buffered meanwhile
  and the correction, in this order, and the alarm is set 250 ms later.
\<close>

theorem session_correction_reruns:
  assumes "status (view d) = Processing" "activeExecutionToken (view d) = Some t"
    and "firstOutboundClaimedAt (view d) = None" "isCorrectionMessage (ip_message p)"
    and d1: "ingestMessage now p d = d1"
    and "claimFirstOutbound now1 t d1 = (d2, r)"
    and "completeExecution now2 t uid cid d2 = (d3, c)"
  shows "r = ClaimSuperseded \<and> accepted c \<and> shouldRerun c \<and>
         msgs_parts (buffer (st d3)) =
           msgs_parts (inFlightMessages (view d)) @ msgs_parts (buffer (view d)) @
           parts (ip_message p) \<and>
         status (st d3) = Debouncing \<and> activeExecutionToken (st d3) = None \<and>
         alarmAt d3 = Some (now2 + RERUN_DEBOUNCE_MS)"
proof -
  have h: "hydrated d1" and t1: "activeExecutionToken (st d1) = Some t"
    and sup: "supersededAt (st d1) \<noteq> None"
    using assms(1-4) by (simp_all add: d1 [symmetric] ingestMessage_def Let_def)
  have "claimFirstOutbound now1 t d1 = (d1, ClaimSuperseded)"
    by (simp add: claimFirstOutbound_def Let_def h t1 sup)
  with assms(6) have d2: "d2 = d1" "r = ClaimSuperseded" by auto
  have v: "view d2 = st d1" using h d2 by simp
  have F: "activeExecutionToken (st d3) = None" "accepted c" "shouldRerun c"
    "msgs_parts (buffer (st d3)) =
       msgs_parts (inFlightMessages (st d1)) @ msgs_parts (buffer (st d1))"
    using complete_sel(2) [OF assms(7)] t1 sup by (simp_all add: v)
  have "status (st d3) = Debouncing \<and> alarmAt d3 = Some (now2 + RERUN_DEBOUNCE_MS)"
    using assms(7)
  proof (cases rule: complete_cases)
    case (rerun s)
    then show ?thesis by (simp add: scheduleDebounce_def Let_def computeDebounceDeadline_def)
  qed (use F t1 sup v in auto)
  with F d2(2) ingest_view_sel(1,2) [of now p d] show ?thesis by (simp add: d1)
qed

definition processing_do :: session_do where
  "processing_do =
     new_session_do\<lparr>hydrated := True,
       st := DEFAULT_STATE\<lparr>status := Processing, activeExecutionToken := Some ''t'',
                            inFlightMessages := [sample_msg ''book a table'']\<rparr>\<rparr>"

theorem session_correction_reruns_witness:
  "\<exists>d1 d2 d3 r c. d1 = ingestMessage 5 (sample_payload ''wait, for two'') processing_do \<and>
     claimFirstOutbound 6 ''t'' d1 = (d2, r) \<and> completeExecution 7 ''t'' None None d2 = (d3, c) \<and>
     shouldRerun c \<and> alarmAt d3 = Some (7 + RERUN_DEBOUNCE_MS)"
proof -
  let ?p = "sample_payload ''wait, for two''"
  let ?d1 = "ingestMessage 5 ?p processing_do"
  obtain d2 r where c: "claimFirstOutbound 6 ''t'' ?d1 = (d2, r)" by (metis prod.exhaust)
  obtain d3 k where k: "completeExecution 7 ''t'' None None d2 = (d3, k)" by (metis prod.exhaust)
  have "shouldRerun k \<and> alarmAt d3 = Some (7 + RERUN_DEBOUNCE_MS)"
    using session_correction_reruns [OF _ _ _ _ refl c k] sample_correction
    by (simp add: processing_do_def DEFAULT_STATE_def sample_payload_def)
  with c k show ?thesis by blast
qed

text \<open>
  Eviction is invisible: between handlers of a reachable system, dropping the object from memory
  and hydrating it again from what was persisted gives back the very same object.
\<close>

theorem session_eviction_roundtrip:
  assumes "session_reach s" and "pending s = None"
  shows "hydrate ((dobj s)\<lparr>st := DEFAULT_STATE, hydrated := False\<rparr>) = hydrate (dobj s)"
proof -
  have "durable s" using reach_sys_inv [OF assms(1)] by (simp add: sys_inv_def)
  then show ?thesis
    using assms(2) by (cases "hydrated (dobj s)")
      (auto simp: durable_def hydrate_def split: option.splits)
qed

theorem session_eviction_roundtrip_witness:
  "\<exists>s. session_reach s \<and> claims s = [''t2''] \<and>
       hydrate ((dobj s)\<lparr>st := DEFAULT_STATE, hydrated := False\<rparr>) = hydrate (dobj s)"
proof (rule sample_reach)
  fix s assume "session_reach s" "claims s = [''t2'']" "pending s = None"
  then show ?thesis using session_eviction_roundtrip by blast
qed

text \<open>
  The first message of a batch waits 400 ms, not the documented base of 800 ms: the start of the
  batch is recorded before the deadline is computed, so the branch of the base delay is never taken,
  and no message sets an alarm later than 400 ms after its arrival.
\<close>

theorem session_first_deadline:
  assumes "status (view d) \<noteq> Processing"
  shows "\<exists>a. alarmAt (ingestMessage now p d) = Some a \<and> a \<le> now + DEBOUNCE_EXTEND_MS \<and>
           a < now + DEBOUNCE_BASE_MS \<and>
           (bufferStartedAt (view d) = None \<longrightarrow> a = now + DEBOUNCE_EXTEND_MS)"
  using assms
  by (simp add: ingestMessage_def Let_def scheduleDebounce_def computeDebounceDeadline_def
      debounce_consts)

theorem session_first_deadline_witness:
  "alarmAt (ingestMessage 1000 (sample_payload ''hello'') new_session_do) = Some 1400"
  using session_first_deadline [of new_session_do 1000 "sample_payload ''hello''"]
  by (simp add: new_session_do_def view_eq DEFAULT_STATE_def debounce_consts)

end
