(* ===== verification/SessionIsolate.thy ===== *)
theory SessionIsolate
  imports SessionProps
begin

text \<open>
  Several conversation sessions in one isolate.  The field initialiser
  \<open>state = { ...DEFAULT_STATE }\<close> of \<open>conversation-session.ts\<close> copies the module-level default state
  shallowly, so the \<open>buffer\<close> of a fresh object is the very array \<open>DEFAULT_STATE.buffer\<close>, and
  \<open>bufferMessage\<close> pushes into it in place.  Objects of the same class that live in one isolate share
  the module, hence this array, until a handler assigns a new one.

  The model keeps that array in the isolate, and for every chat its object with a flag that says
  whether its \<open>buffer\<close> is still the shared array.
\<close>

record isolate =
  default_buffer :: "buffered_message list"
  objects :: "int \<Rightarrow> (session_do \<times> bool) option"

definition new_isolate :: isolate where
  "new_isolate = \<lparr>default_buffer = [], objects = (\<lambda>_. None)\<rparr>"

text \<open>The object of a chat as its handlers see it: the shared array read through the alias.\<close>

definition resolve :: "isolate \<Rightarrow> session_do \<times> bool \<Rightarrow> session_do" where
  "resolve w x =
     (if snd x then (fst x)\<lparr>st := (st (fst x))\<lparr>buffer := default_buffer w\<rparr>\<rparr> else fst x)"

text \<open>Constructing an object: its state is a shallow copy of the default state.\<close>

definition construct :: "int \<Rightarrow> isolate \<Rightarrow> isolate" where
  "construct chat w =
     w\<lparr>objects := (objects w)(chat \<mapsto>
        (new_session_do\<lparr>st := DEFAULT_STATE\<lparr>buffer := default_buffer w\<rparr>\<rparr>, True))\<rparr>"

text \<open>
  Hydration from a stored state replaces the buffer; without one the alias stays.
\<close>

definition alias_after_hydrate :: "session_do \<times> bool \<Rightarrow> bool" where
  "alias_after_hydrate x \<longleftrightarrow> snd x \<and> (hydrated (fst x) \<or> stored (fst x) = None)"

text \<open>Ingesting pushes in place, or replaces the last entry in place: the alias stays.\<close>

definition isolate_ingest :: "int \<Rightarrow> int \<Rightarrow> ingest_payload \<Rightarrow> isolate \<Rightarrow> isolate" where
  "isolate_ingest chat now p w =
     (case objects w chat of
        None \<Rightarrow> w
      | Some x \<Rightarrow>
          (let d = ingestMessage now p (resolve w x); a = alias_after_hydrate x
           in w\<lparr>default_buffer := (if a then buffer (st d) else default_buffer w),
                objects := (objects w)(chat \<mapsto> (d, a))\<rparr>))"

text \<open>The alarm assigns a new array to \<open>buffer\<close>, unless it found it empty.\<close>

definition isolate_alarm ::
    "int \<Rightarrow> int \<Rightarrow> int \<Rightarrow> string \<Rightarrow> bool \<Rightarrow> isolate \<Rightarrow> isolate \<times> launch option" where
  "isolate_alarm chat now now2 token hw w =
     (case objects w chat of
        None \<Rightarrow> (w, None)
      | Some x \<Rightarrow>
          (let d0 = resolve w x;
               dl = alarm_begin now now2 token hw (d0\<lparr>alarmAt := None\<rparr>);
               a = (alias_after_hydrate x \<and> buffer (view d0) = [])
           in (w\<lparr>objects := (objects w)(chat \<mapsto> (fst dl, a))\<rparr>, snd dl)))"

lemma resolve_construct:
  "resolve (construct c w) (the (objects (construct c w) c)) =
     new_session_do\<lparr>st := DEFAULT_STATE\<lparr>buffer := default_buffer w\<rparr>\<rparr>"
  by (simp add: resolve_def construct_def)

lemma fresh_view:
  "view (new_session_do\<lparr>st := DEFAULT_STATE\<lparr>buffer := b\<rparr>\<rparr>) = DEFAULT_STATE\<lparr>buffer := b\<rparr>"
  by (simp add: view_eq new_session_do_def)

text \<open>A fresh object that ingests a message writes it into the shared array.\<close>

lemma ingest_shares:
  assumes "w' = isolate_ingest c now p (construct c w)"
  shows "msgs_parts (default_buffer w') = msgs_parts (default_buffer w) @ parts (ip_message p)"
proof -
  let ?d = "new_session_do\<lparr>st := DEFAULT_STATE\<lparr>buffer := default_buffer w\<rparr>\<rparr>"
  have "default_buffer w' = buffer (st (ingestMessage now p ?d))"
    using assms by (simp add: isolate_ingest_def construct_def resolve_def alias_after_hydrate_def
        new_session_do_def Let_def)
  then show ?thesis
    by (simp add: ingest_view_sel fresh_view)
qed

text \<open>
  Messages leak between chats of one isolate: when a fresh object of one chat ingests a message and
  then a fresh object of another chat ingests its own first message, the workflow that the second
  chat's alarm launches carries the parts of the first chat's message before its own.
\<close>

theorem isolate_leaks_between_chats:
  assumes "c1 \<noteq> c2"
    and "w1 = isolate_ingest c1 now1 p1 (construct c1 new_isolate)"
    and "w2 = isolate_ingest c2 now2 p2 (construct c2 w1)"
    and "isolate_alarm c2 now3 now4 token True w2 = (w3, l)"
  shows "\<exists>x. l = Some x \<and>
           msgs_parts (l_messages x) = parts (ip_message p1) @ parts (ip_message p2)"
proof -
  have 1: "msgs_parts (default_buffer w1) = parts (ip_message p1)"
    using ingest_shares [OF assms(2)] by (simp add: new_isolate_def)
  have 2: "msgs_parts (default_buffer w2) = parts (ip_message p1) @ parts (ip_message p2)"
    using ingest_shares [OF assms(3)] 1 by simp
  let ?d = "new_session_do\<lparr>st := DEFAULT_STATE\<lparr>buffer := default_buffer w1\<rparr>\<rparr>"
  have obj: "objects w2 c2 = Some (ingestMessage now2 p2 ?d, True)"
    and buf: "default_buffer w2 = buffer (st (ingestMessage now2 p2 ?d))"
    using assms(3) by (auto simp: isolate_ingest_def construct_def resolve_def
        alias_after_hydrate_def new_session_do_def Let_def)
  have "default_buffer w2 \<noteq> []"
    unfolding buf by (simp add: ingestMessage_def Let_def scheduleDebounce_def)
  then have "\<exists>x. l = Some x \<and> l_messages x = default_buffer w2"
    using assms(4) obj
    by (auto simp: isolate_alarm_def Let_def resolve_def alarm_begin_def)
  with 2 show ?thesis by auto
qed

theorem isolate_leaks_between_chats_witness:
  "\<exists>w x. isolate_alarm 2 2400 2400 ''t'' True
       (isolate_ingest 2 2000 (sample_payload ''hello'')
          (construct 2 (isolate_ingest 1 1000 (sample_payload ''my secret'')
             (construct 1 new_isolate)))) = (w, Some x) \<and>
     msgs_parts (l_messages x) = [TextPart ''my secret'', TextPart ''hello'']"
proof -
  let ?w2 = "isolate_ingest 2 2000 (sample_payload ''hello'')
          (construct 2 (isolate_ingest 1 1000 (sample_payload ''my secret'')
             (construct 1 new_isolate)))"
  obtain w l where a: "isolate_alarm 2 2400 2400 ''t'' True ?w2 = (w, l)" by (metis prod.exhaust)
  from isolate_leaks_between_chats [OF _ refl refl a] show ?thesis
    using a by (auto simp: sample_payload_def sample_msg_def)
qed

end
