(* ===== verification/ExecTypes.thy ===== *)
theory ExecTypes
  imports Prelude
begin

text \<open>
  The data of the execution runtime: \<open>packages/core/src/domain/execution.ts\<close>,
  \<open>packages/core/src/domain/task.ts\<close>, \<open>packages/agent/src/types/\<close> (execution, persistence, settings,
  agent) and the browser task of \<open>packages/browser/src/shared.ts\<close>.
\<close>

section \<open>Enumerations\<close>

datatype specialist_kind =
    SConversation | SPlanner | SResearch | SBuilder | SIntegration | SComputer | SBrowser | SMemory
  | SSettings | SValidator

datatype runner_kind = RToolloop | RBrowserService | RBackgroundHandoff

datatype execution_mode = MDirect | MSequential | MParallel | MBackground

datatype task_status =
    Pending | AwaitingAuth | Preparing | Running | Succeeded | Partial | Escalated | Failed
  | Cancelled | TimedOut | Lost

definition TERMINAL_STATUSES :: "task_status list" where
  "TERMINAL_STATUSES = [Succeeded, Partial, Escalated, Failed, Cancelled, TimedOut, Lost]"

definition isTerminalStatus :: "task_status \<Rightarrow> bool" where
  "isTerminalStatus s \<longleftrightarrow> s \<in> set TERMINAL_STATUSES"

lemma isTerminalStatus_simps [simp]:
  "isTerminalStatus Succeeded" "isTerminalStatus Partial" "isTerminalStatus Escalated"
  "isTerminalStatus Failed" "isTerminalStatus Cancelled" "isTerminalStatus TimedOut"
  "isTerminalStatus Lost"
  "\<not> isTerminalStatus Pending" "\<not> isTerminalStatus AwaitingAuth" "\<not> isTerminalStatus Preparing"
  "\<not> isTerminalStatus Running"
  by (simp_all add: isTerminalStatus_def TERMINAL_STATUSES_def)

lemma isTerminalStatus_iff:
  "isTerminalStatus s \<longleftrightarrow> s \<notin> {Pending, AwaitingAuth, Preparing, Running}"
  by (cases s) simp_all

datatype task_runtime = InProcess | BrowserRuntime | SandboxRuntime

datatype task_provider = Internal | Stagehand | Codex

fun specialist_name :: "specialist_kind \<Rightarrow> string" where
  "specialist_name SConversation = ''conversation''"
| "specialist_name SPlanner = ''planner''"
| "specialist_name SResearch = ''research''"
| "specialist_name SBuilder = ''builder''"
| "specialist_name SIntegration = ''integration''"
| "specialist_name SComputer = ''computer''"
| "specialist_name SBrowser = ''browser''"
| "specialist_name SMemory = ''memory''"
| "specialist_name SSettings = ''settings''"
| "specialist_name SValidator = ''validator''"

section \<open>Task inputs\<close>

datatype browser_mode = BExtract | BAct | BAgent

datatype side_effect_level = ReadLevel | SoftWrite | HardWrite

record browser_input =
  bi_mode :: browser_mode
  bi_instruction :: string
  bi_startUrl :: "string option"
  bi_expectedOutcome :: "string option"
  bi_sideEffectLevel :: side_effect_level

datatype codex_action = CxStatus | CxStartChatgpt | CxSetApiKey | CxImportAuth | CxClear

datatype settings_input =
    TimezoneInput string
  | ScheduleInput string json                          \<comment> \<open>description, schedule\<close>
  | CodexAuthInput codex_action "string option" "string option" \<comment> \<open>action, apiKey, authJson\<close>

datatype task_input =
    SpecialistInput string "string option" "string option" "json option"
      \<comment> \<open>goal, context, expectedOutput, payload\<close>
  | BrowserInput browser_input
  | SettingsInput settings_input
  | BackgroundInput string "string option" "bool option" "string option"
      \<comment> \<open>prompt, context, needsBrowser, instructions\<close>

section \<open>Tasks, plans and results\<close>

record planned_task =
  pt_parentTaskId :: "string option"
  pt_spawnedBy :: "specialist_kind option"
  pt_specialist :: specialist_kind
  pt_runnerKind :: runner_kind
  pt_mode :: execution_mode
  pt_input :: task_input
  pt_dependencies :: "string list"
  pt_inputBindings :: "(string \<times> json) list"
  pt_resourceLocks :: "string list"
  pt_mutates :: bool
  pt_writesExternal :: bool
  pt_requiresConfirmation :: bool
  pt_requiresValidation :: bool

record exec_task = planned_task +
  et_id :: string
  et_rootTaskId :: string
  et_depth :: nat

datatype reducer_kind = ReduceConversation | ReduceValidator

record execution_plan =
  ep_strategy :: execution_mode
  ep_rationale :: string
  ep_tasks :: "planned_task list"
  ep_reducer :: reducer_kind

record artifact =
  af_kind :: string
  af_title :: "string option"
  af_uri :: "string option"
  af_attachmentId :: "string option"
  af_filename :: "string option"
  af_mediaType :: "string option"
  af_metadata :: "(string \<times> json) list option"

record task_issue =
  ti_code :: string
  ti_message :: string
  ti_metadata :: "(string \<times> json) list option"

datatype result_status = RCompleted | RPartial | RFailed | REscalate

record exec_result =
  er_taskId :: string
  er_rootTaskId :: string
  er_parentTaskId :: "string option"
  er_depth :: nat
  er_specialist :: specialist_kind
  er_status :: result_status
  er_summary :: string
  er_data :: "json option"
  er_artifacts :: "artifact list option"
  er_issues :: "task_issue list option"
  er_runtimeData :: "(string \<times> json) list option"
  er_traceId :: string
  er_backgroundRef :: "(string \<times> string) option"   \<comment> \<open>taskId, traceId\<close>

record run_runtime =
  rt_sandboxEnabled :: bool
  rt_cuaEnabled :: bool
  rt_integrationEnabled :: bool
  rt_browserEnabled :: bool

record run_config =
  rc_defaultModelId :: string
  rc_highReasoningModelId :: "string option"
  rc_routerModelId :: "string option"
  rc_validatorModelId :: "string option"
  rc_runtime :: run_runtime
  rc_allowedToolGroups :: "string list option"
  rc_maxSteps :: "specialist_kind \<Rightarrow> nat option"   \<comment> \<open>\<open>maxSubagentStepsByKind\<close>\<close>
  rc_maxParallelAgents :: nat

datatype summary_status = SumCompleted | SumPartial | SumFailed

record background_task =
  bg_taskId :: string
  bg_traceId :: string
  bg_status :: task_status

record execution_summary =
  es_mode :: execution_mode
  es_status :: summary_status
  es_summary :: string
  es_taskResults :: "exec_result list"
  es_backgroundTasks :: "background_task list"
  es_memoriesSaved :: "string list"
  es_scheduledJobs :: "string list"
  es_externalWrites :: "string list"

section \<open>Decimal numerals in messages\<close>

text \<open>The decimal digits of a number, as a template string prints them.\<close>

function nat_digits :: "nat \<Rightarrow> string" where
  "nat_digits n =
     (if n < 10 then [char_of (48 + n)] else nat_digits (n div 10) @ [char_of (48 + n mod 10)])"
  by pat_completeness auto
termination by (relation "measure id") auto

declare nat_digits.simps [simp del]

definition is_digit :: "char \<Rightarrow> bool" where
  "is_digit c \<longleftrightarrow> (48 \<le> (of_char c :: nat) \<and> (of_char c :: nat) \<le> 57)"

text \<open>\<open>Number.parseInt(s, 10)\<close> of a string of digits.\<close>

definition parse_digits :: "string \<Rightarrow> nat" where
  "parse_digits s = foldl (\<lambda>n c. 10 * n + (of_char c - 48)) 0 s"

lemma digit_char [simp]:
  assumes "k < 10"
  shows "of_char (char_of (48 + k) :: char) = (48 + k :: nat)"
  using assms by (simp add: of_char_of)

lemma parse_digits_snoc: "parse_digits (s @ [c]) = 10 * parse_digits s + (of_char c - 48)"
  by (simp add: parse_digits_def)

lemma parse_nat_digits [simp]: "parse_digits (nat_digits n) = n"
proof (induction n rule: nat_digits.induct)
  case (1 n)
  show ?case
  proof (cases "n < 10")
    case True
    then show ?thesis by (subst nat_digits.simps) (simp add: parse_digits_def)
  next
    case False
    then have "parse_digits (nat_digits n) = 10 * parse_digits (nat_digits (n div 10)) + n mod 10"
      by (subst nat_digits.simps) (simp add: parse_digits_snoc)
    with 1 [OF False] show ?thesis by simp
  qed
qed

lemma nat_digits_all: "list_all is_digit (nat_digits n)"
proof (induction n rule: nat_digits.induct)
  case (1 n)
  have "is_digit (char_of (48 + k))" if "k < 10" for k :: nat
    using that by (simp add: is_digit_def)
  with 1 show ?case by (subst nat_digits.simps) simp
qed

lemma nat_digits_nonempty [simp]: "nat_digits n \<noteq> []"
  by (subst nat_digits.simps) simp

end
