(* ===== verification/Registry.thy ===== *)
theory Registry
  imports ExecTypes
begin

text \<open>
  The specialist registry of \<open>packages/agent/src/execution/registry.ts\<close>: which runner, tool groups,
  model and step budget a specialist has, and which tools it sees under the policy of a run.
  Prompts and schemas are text and are left out.  Tool groups are named by their keys.
\<close>

definition HIGH_INTELLIGENCE_MODEL_ID :: string where
  "HIGH_INTELLIGENCE_MODEL_ID = ''google/gemini-3-flash-preview''"

record specialist_definition =
  sd_kind :: specialist_kind
  sd_runnerKind :: runner_kind
  sd_toolGroups :: "string list"
  sd_selectModel :: "run_config \<Rightarrow> string"
  sd_maxSteps :: "run_config \<Rightarrow> nat"

definition defaultModel :: "run_config \<Rightarrow> string" where
  "defaultModel config = rc_defaultModelId config"

definition highReasoningModel :: "run_config \<Rightarrow> string" where
  "highReasoningModel config =
     default_to (rc_highReasoningModelId config) HIGH_INTELLIGENCE_MODEL_ID"

definition validatorModel :: "run_config \<Rightarrow> string" where
  "validatorModel config = default_to (rc_validatorModelId config) (highReasoningModel config)"

definition getBudget :: "specialist_kind \<Rightarrow> nat \<Rightarrow> run_config \<Rightarrow> nat" where
  "getBudget kind fallback config = default_to (rc_maxSteps config kind) fallback"

definition specialist ::
    "specialist_kind \<Rightarrow> runner_kind \<Rightarrow> string list \<Rightarrow> (run_config \<Rightarrow> string) \<Rightarrow> nat \<Rightarrow>
     specialist_definition" where
  "specialist kind runner groups model steps =
     \<lparr>sd_kind = kind, sd_runnerKind = runner, sd_toolGroups = groups, sd_selectModel = model,
      sd_maxSteps = getBudget kind steps\<rparr>"

fun getSpecialistDefinition :: "specialist_kind \<Rightarrow> specialist_definition" where
  "getSpecialistDefinition SConversation = specialist SConversation RToolloop [] defaultModel 8"
| "getSpecialistDefinition SPlanner = specialist SPlanner RToolloop [] highReasoningModel 3"
| "getSpecialistDefinition SResearch =
     specialist SResearch RToolloop [''memory-read'', ''sandbox-read''] highReasoningModel 8"
| "getSpecialistDefinition SBuilder =
     specialist SBuilder RToolloop [''memory-read'', ''sandbox-read'', ''sandbox-write'']
       defaultModel 10"
| "getSpecialistDefinition SIntegration =
     specialist SIntegration RToolloop [''integration''] highReasoningModel 10"
| "getSpecialistDefinition SComputer = specialist SComputer RToolloop [''cua''] defaultModel 16"
| "getSpecialistDefinition SBrowser = specialist SBrowser RBrowserService [] defaultModel 24"
| "getSpecialistDefinition SMemory =
     specialist SMemory RToolloop [''memory-read'', ''memory-write''] defaultModel 5"
| "getSpecialistDefinition SSettings =
     specialist SSettings RToolloop [''settings'', ''automation''] defaultModel 6"
| "getSpecialistDefinition SValidator = specialist SValidator RToolloop [] validatorModel 4"

text \<open>A group needs the part of the runtime that serves it.\<close>

definition group_enabled :: "run_runtime \<Rightarrow> string \<Rightarrow> bool" where
  "group_enabled r grp \<longleftrightarrow>
     (if grp = ''integration'' \<and> \<not> rt_integrationEnabled r then False
      else if grp = ''cua'' \<and> \<not> rt_cuaEnabled r then False
      else if (grp = ''sandbox-read'' \<or> grp = ''sandbox-write'') \<and> \<not> rt_sandboxEnabled r then False
      else True)"

text \<open>
  The policy restricts the groups only when its list is present and not empty.
\<close>

definition allowed_groups :: "specialist_definition \<Rightarrow> run_config \<Rightarrow> string list" where
  "allowed_groups definition config =
     uniq (filter (group_enabled (rc_runtime config))
       (case rc_allowedToolGroups config of
          Some (g # gs) \<Rightarrow> filter (\<lambda>grp. grp \<in> set (g # gs)) (sd_toolGroups definition)
        | _ \<Rightarrow> sd_toolGroups definition))"

definition resolveVisibleTools ::
    "specialist_definition \<Rightarrow> run_config \<Rightarrow> (string \<Rightarrow> (string \<Rightarrow> 'tool option) option) \<Rightarrow>
     (string \<Rightarrow> 'tool option)" where
  "resolveVisibleTools definition config toolGroups =
     foldl (\<lambda>tools grp. tools ++ default_to (toolGroups grp) Map.empty) Map.empty
       (allowed_groups definition config)"

lemma fold_tools_dom:
  "dom (foldl (\<lambda>tools grp. tools ++ default_to (f grp) Map.empty) t0 gs) =
     dom t0 \<union> (\<Union>g \<in> set gs. dom (default_to (f g) Map.empty))"
  by (induction gs arbitrary: t0) auto

lemma visible_tools_dom:
  "dom (resolveVisibleTools d config toolGroups) =
     (\<Union>g \<in> set (allowed_groups d config). dom (default_to (toolGroups g) Map.empty))"
  by (simp add: resolveVisibleTools_def fold_tools_dom)

lemma fold_tools_Some:
  "foldl (\<lambda>tools grp. tools ++ default_to (f grp) Map.empty) t0 gs n = Some v \<Longrightarrow>
     t0 n = Some v \<or> (\<exists>g \<in> set gs. default_to (f g) Map.empty n = Some v)"
proof (induction gs arbitrary: t0)
  case (Cons g gs)
  then show ?case by (fastforce simp: map_add_Some_iff)
qed simp

lemma allowed_groups_set:
  "g \<in> set (allowed_groups d config) \<longleftrightarrow>
     g \<in> set (sd_toolGroups d) \<and> group_enabled (rc_runtime config) g \<and>
     (case rc_allowedToolGroups config of None \<Rightarrow> True | Some [] \<Rightarrow> True | Some gs \<Rightarrow> g \<in> set gs)"
  by (auto simp: allowed_groups_def split: option.splits list.splits)

end
