(* ===== verification/Locks.thy ===== *)
theory Locks
  imports ExecTypes
begin

text \<open>
  Resource locks of execution tasks: \<open>packages/agent/src/execution/locks.ts\<close>.  A lock is a string
  whose prefix names its kind; two locks conflict when tasks that hold them must not run together.
\<close>

section \<open>Parsing\<close>

datatype lock_mode = ReadMode | WriteMode

record lock =
  lk_kind :: string
  lk_scope :: string
  lk_mode :: "lock_mode option"
  lk_raw :: string

definition parseLock :: "string \<Rightarrow> lock" where
  "parseLock raw =
     (if starts_with raw ''fs-read:'' then
        \<lparr>lk_kind = ''fs'', lk_scope = drop (length ''fs-read:'') raw, lk_mode = Some ReadMode,
         lk_raw = raw\<rparr>
      else if starts_with raw ''fs-write:'' then
        \<lparr>lk_kind = ''fs'', lk_scope = drop (length ''fs-write:'') raw, lk_mode = Some WriteMode,
         lk_raw = raw\<rparr>
      else if starts_with raw ''sandbox-workdir:'' then
        \<lparr>lk_kind = ''sandbox-workdir'', lk_scope = drop (length ''sandbox-workdir:'') raw,
         lk_mode = None, lk_raw = raw\<rparr>
      else if starts_with raw ''integration-write:'' then
        \<lparr>lk_kind = ''integration-write'', lk_scope = drop (length ''integration-write:'') raw,
         lk_mode = None, lk_raw = raw\<rparr>
      else \<lparr>lk_kind = raw, lk_scope = raw, lk_mode = None, lk_raw = raw\<rparr>)"

text \<open>\<open>replace(/\/+/g, "/")\<close>\<close>

fun collapse_slashes :: "string \<Rightarrow> string" where
  "collapse_slashes (c # d # cs) =
     (if c = CHR ''/'' \<and> d = CHR ''/'' then collapse_slashes (d # cs)
      else c # collapse_slashes (d # cs))"
| "collapse_slashes [c] = [c]"
| "collapse_slashes [] = []"

definition normalizePath :: "string \<Rightarrow> string" where
  "normalizePath path =
     (let trimmed = js_trim path
      in if trimmed = [] then ''/''
         else let collapsed = collapse_slashes trimmed
              in if ends_with collapsed ''/'' \<and> collapsed \<noteq> ''/'' then butlast collapsed
                 else collapsed)"

definition pathsOverlap :: "string \<Rightarrow> string \<Rightarrow> bool" where
  "pathsOverlap left right \<longleftrightarrow>
     (let a = normalizePath left; b = normalizePath right
      in a = b \<or> starts_with a (b @ ''/'') \<or> starts_with b (a @ ''/''))"

section \<open>Conflicts\<close>

definition locksConflict :: "string \<Rightarrow> string \<Rightarrow> bool" where
  "locksConflict leftRaw rightRaw \<longleftrightarrow>
     (let left = parseLock leftRaw; right = parseLock rightRaw
      in if lk_kind left \<noteq> lk_kind right then False
         else if lk_kind left = ''computer-desktop'' \<or> lk_kind left = ''memory-write'' then True
         else if lk_kind left = ''fs'' then
           (if lk_mode left = Some ReadMode \<and> lk_mode right = Some ReadMode then False
            else pathsOverlap (lk_scope left) (lk_scope right))
         else if lk_kind left = ''sandbox-workdir'' then pathsOverlap (lk_scope left) (lk_scope right)
         else if lk_kind left = ''integration-write'' then
           lk_scope left = lk_scope right \<or> starts_with (lk_scope left) (lk_scope right @ '':'') \<or>
           starts_with (lk_scope right) (lk_scope left @ '':'')
         else lk_scope left = lk_scope right)"

definition taskConflicts :: "exec_task \<Rightarrow> string list \<Rightarrow> bool" where
  "taskConflicts task activeLocks \<longleftrightarrow>
     list_ex (\<lambda>lock. list_ex (locksConflict lock) activeLocks) (pt_resourceLocks task)"

fun dependencyAllowsExecution :: "exec_result option \<Rightarrow> bool" where
  "dependencyAllowsExecution None = False"
| "dependencyAllowsExecution (Some result) \<longleftrightarrow>
     er_status result \<noteq> RFailed \<and> er_status result \<noteq> REscalate"

section \<open>The next batch\<close>

text \<open>The loop over the ready tasks that fills the batch.\<close>

fun fill_batch :: "nat \<Rightarrow> string list \<Rightarrow> exec_task list \<Rightarrow> exec_task list \<Rightarrow> exec_task list" where
  "fill_batch maxParallel activeLocks [] batch = batch"
| "fill_batch maxParallel activeLocks (task # ready) batch =
     (if maxParallel \<le> length batch then batch
      else if taskConflicts task (activeLocks @ concat (map pt_resourceLocks batch)) then
        fill_batch maxParallel activeLocks ready batch
      else fill_batch maxParallel activeLocks ready (batch @ [task]))"

definition task_ready ::
    "(string \<Rightarrow> exec_result option) \<Rightarrow> string list \<Rightarrow> exec_task \<Rightarrow> bool" where
  "task_ready completed activeLocks task \<longleftrightarrow>
     list_all (\<lambda>d. dependencyAllowsExecution (completed d)) (pt_dependencies task) \<and>
     \<not> taskConflicts task activeLocks"

definition buildReadyBatch ::
    "exec_task list \<Rightarrow> (string \<Rightarrow> exec_result option) \<Rightarrow> exec_task list \<Rightarrow> nat \<Rightarrow> exec_task list" where
  "buildReadyBatch pending completed inFlight maxParallelAgents =
     (let activeLocks = concat (map pt_resourceLocks inFlight);
          ready = filter (task_ready completed activeLocks) pending
      in fill_batch maxParallelAgents activeLocks ready [])"

record lock_graph_state =
  lg_ready :: "exec_task list"
  lg_blocked :: "exec_task list"
  lg_inFlight :: "exec_task list"

definition buildLockGraphState ::
    "exec_task list \<Rightarrow> (string \<Rightarrow> exec_result option) \<Rightarrow> exec_task list \<Rightarrow> lock_graph_state" where
  "buildLockGraphState tasks completed inFlight =
     (let ready = buildReadyBatch tasks completed inFlight (length tasks);
          readyIds = map et_id ready
      in \<lparr>lg_ready = ready, lg_blocked = filter (\<lambda>t. et_id t \<notin> set readyIds) tasks,
          lg_inFlight = inFlight\<rparr>)"

section \<open>Laws of the conflict relation\<close>

lemma pathsOverlap_sym: "pathsOverlap a b = pathsOverlap b a"
  by (auto simp: pathsOverlap_def Let_def)

lemma pathsOverlap_refl [simp]: "pathsOverlap a a"
  by (simp add: pathsOverlap_def)

lemma locksConflict_sym: "locksConflict a b = locksConflict b a"
  by (auto simp: locksConflict_def Let_def pathsOverlap_sym)

text \<open>Every lock but a read lock excludes itself.\<close>

lemma locksConflict_refl: "locksConflict a a \<longleftrightarrow> lk_mode (parseLock a) \<noteq> Some ReadMode"
  by (simp add: locksConflict_def parseLock_def starts_with_def)

definition tasks_conflict :: "exec_task \<Rightarrow> exec_task \<Rightarrow> bool" where
  "tasks_conflict a b \<longleftrightarrow> taskConflicts a (pt_resourceLocks b)"

lemma tasks_conflict_iff:
  "tasks_conflict a b \<longleftrightarrow>
     (\<exists>x \<in> set (pt_resourceLocks a). \<exists>y \<in> set (pt_resourceLocks b). locksConflict x y)"
  by (auto simp: tasks_conflict_def taskConflicts_def list_ex_iff)

lemma tasks_conflict_sym: "tasks_conflict a b = tasks_conflict b a"
  unfolding tasks_conflict_iff using locksConflict_sym by blast

lemma taskConflicts_concat:
  "taskConflicts t (xs @ concat (map pt_resourceLocks ts)) \<longleftrightarrow>
     taskConflicts t xs \<or> (\<exists>u \<in> set ts. tasks_conflict t u)"
  by (fastforce simp: tasks_conflict_iff taskConflicts_def list_ex_iff)

lemma taskConflicts_append:
  "taskConflicts t (xs @ ys) \<longleftrightarrow> taskConflicts t xs \<or> taskConflicts t ys"
  by (auto simp: taskConflicts_def list_ex_iff)

section \<open>Laws of the batch\<close>

definition conflict_free :: "exec_task list \<Rightarrow> bool" where
  "conflict_free ts \<longleftrightarrow> sorted_wrt (\<lambda>a b. \<not> tasks_conflict a b) ts"

lemma fill_batch_split:
  "\<exists>xs. fill_batch m act ready batch = batch @ xs \<and> set xs \<subseteq> set ready"
proof (induction m act ready batch rule: fill_batch.induct)
  case (2 m act t ready batch)
  then show ?case
    by (cases "m \<le> length batch"; cases "taskConflicts t (act @ concat (map pt_resourceLocks batch))")
       fastforce+
qed simp

lemma fill_batch_length: "length batch \<le> m \<Longrightarrow> length (fill_batch m act ready batch) \<le> m"
  by (induction m act ready batch rule: fill_batch.induct) auto

lemma fill_batch_conflict_free:
  "conflict_free batch \<Longrightarrow> conflict_free (fill_batch m act ready batch)"
  by (induction m act ready batch rule: fill_batch.induct)
     (auto simp: conflict_free_def sorted_wrt_append taskConflicts_concat tasks_conflict_sym)

lemma fill_batch_active:
  assumes "\<And>t. t \<in> set batch \<Longrightarrow> \<not> taskConflicts t act"
  shows "t \<in> set (fill_batch m act ready batch) \<Longrightarrow> \<not> taskConflicts t act"
  using assms
  by (induction m act ready batch rule: fill_batch.induct)
     (auto simp: taskConflicts_concat split: if_splits)

text \<open>Nothing that could still run is left out of a batch that is not full.\<close>

lemma fill_batch_maximal:
  assumes "t \<in> set ready" "t \<notin> set (fill_batch m act ready batch)"
    "length (fill_batch m act ready batch) < m"
  shows "taskConflicts t (act @ concat (map pt_resourceLocks (fill_batch m act ready batch)))"
  using assms
proof (induction m act ready batch rule: fill_batch.induct)
  case (2 m act u ready batch)
  show ?case
  proof (cases "m \<le> length batch")
    case True
    with "2.prems" show ?thesis by simp
  next
    case len: False
    show ?thesis
    proof (cases "taskConflicts u (act @ concat (map pt_resourceLocks batch))")
      case True
      obtain xs where xs: "fill_batch m act ready batch = batch @ xs"
        using fill_batch_split by blast
      show ?thesis
      proof (cases "t = u")
        case same: True
        with True len xs show ?thesis by (auto simp: taskConflicts_append)
      next
        case False
        with "2.IH"(1) "2.prems" len True show ?thesis by simp
      qed
    next
      case False
      obtain xs where "fill_batch m act ready (batch @ [u]) = (batch @ [u]) @ xs"
        using fill_batch_split by blast
      with "2.IH"(2) "2.prems" len False show ?thesis by auto
    qed
  qed
qed simp

lemma fill_batch_first:
  assumes "0 < m" "\<not> taskConflicts t act"
  shows "t \<in> set (fill_batch m act (t # ready) [])"
proof -
  obtain xs where "fill_batch m act ready [t] = [t] @ xs"
    using fill_batch_split by blast
  with assms show ?thesis by simp
qed

lemma batch_subset: "set (buildReadyBatch pending completed inFlight m) \<subseteq> set pending"
  using fill_batch_split [of m _ _ "[]"] by (fastforce simp: buildReadyBatch_def Let_def)

lemma batch_ready:
  assumes "t \<in> set (buildReadyBatch pending completed inFlight m)"
  shows "task_ready completed (concat (map pt_resourceLocks inFlight)) t"
  using assms fill_batch_split [of m _ _ "[]"] by (fastforce simp: buildReadyBatch_def Let_def)

text \<open>With nothing in flight, a batch is empty only when no pending task has its dependencies.\<close>

lemma batch_empty_iff:
  assumes "0 < m"
  shows "buildReadyBatch pending completed [] m = [] \<longleftrightarrow>
         (\<forall>t \<in> set pending. \<not> task_ready completed [] t)"
proof (cases "filter (task_ready completed []) pending")
  case Nil
  then show ?thesis by (auto simp: buildReadyBatch_def filter_empty_conv)
next
  case (Cons t ready)
  then have t: "t \<in> set pending" "task_ready completed [] t"
    by (metis filter_eq_ConsD in_set_conv_decomp)+
  then have "t \<in> set (buildReadyBatch pending completed [] m)"
    using Cons assms fill_batch_first [of m t "[]" ready]
    by (simp add: buildReadyBatch_def task_ready_def)
  with t show ?thesis by (metis list.set(1) empty_iff)
qed

end
