(* ===== verification/Planner.thy ===== *)
theory Planner
  imports Registry Locks
begin

text \<open>
  The planner of \<open>packages/agent/src/execution/planner.ts\<close>: path hints of a request, and the
  materialisation of the router model's answer into an execution plan.  The answer itself comes from a
  language model and is a parameter; the prompt, and the URL extraction that feeds it, are in \<open>PlannerPrompt\<close>.
  (The em dash of the fallback's rationale is written as a hyphen.)
\<close>

section \<open>Path hints\<close>

text \<open>The characters a URL or a path hint may continue with (\<open>URL_RE\<close>, \<open>PATH_HINT_RE\<close>).\<close>

definition url_char :: "char \<Rightarrow> bool" where
  "url_char c \<longleftrightarrow> \<not> is_ws c \<and> c \<notin> set ''<>\"'' \<and> (of_char c :: nat) \<notin> {39, 96, 41, 93}"

definition is_alnum :: "char \<Rightarrow> bool" where
  "is_alnum c \<longleftrightarrow> (let n = (of_char c :: nat)
     in (65 \<le> n \<and> n \<le> 90) \<or> (97 \<le> n \<and> n \<le> 122) \<or> (48 \<le> n \<and> n \<le> 57))"

definition path_char :: "char \<Rightarrow> bool" where
  "path_char c \<longleftrightarrow> is_alnum c \<or> c \<in> set ''._~/-''"

definition url_prefix :: "string \<Rightarrow> nat option" where
  "url_prefix s =
     (if starts_with s ''http://'' \<and> (case drop 7 s of [] \<Rightarrow> False | c # _ \<Rightarrow> url_char c) then Some 7
      else if starts_with s ''https://'' \<and> (case drop 8 s of [] \<Rightarrow> False | c # _ \<Rightarrow> url_char c)
      then Some 8 else None)"

text \<open>\<open>text.replace(URL_RE, "")\<close>\<close>

function strip_urls :: "string \<Rightarrow> string" where
  "strip_urls [] = []"
| "strip_urls (c # cs) =
     (case url_prefix (c # cs) of
        Some n \<Rightarrow> strip_urls (dropWhile url_char (drop (n - 1) cs))
      | None \<Rightarrow> c # strip_urls cs)"
  by pat_completeness auto
termination
  by (relation "measure length") (auto simp: length_dropWhile_drop)

text \<open>The matches of \<open>PATH_HINT_RE\<close>, from left to right.\<close>

function path_matches :: "string \<Rightarrow> string list" where
  "path_matches [] = []"
| "path_matches (c # cs) =
     (if c = CHR ''/'' \<and> (case cs of [] \<Rightarrow> False | d # _ \<Rightarrow> path_char d)
      then (c # takeWhile path_char cs) # path_matches (dropWhile path_char cs)
      else path_matches cs)"
  by pat_completeness auto
termination
  by (relation "measure length") (auto intro: le_imp_less_Suc [OF length_dropWhile_le])

definition extractPathHints :: "string \<Rightarrow> string list" where
  "extractPathHints text = uniq (path_matches (strip_urls text))"

section \<open>Task creation\<close>

record task_options =
  to_dependencies :: "string list option"
  to_resourceLocks :: "string list option"
  to_mutates :: "bool option"
  to_writesExternal :: "bool option"
  to_requiresConfirmation :: "bool option"
  to_requiresValidation :: "bool option"

definition no_options :: task_options where
  "no_options = \<lparr>to_dependencies = None, to_resourceLocks = None, to_mutates = None,
     to_writesExternal = None, to_requiresConfirmation = None, to_requiresValidation = None\<rparr>"

definition createSpecialistTask ::
    "specialist_kind \<Rightarrow> task_input \<Rightarrow> task_options \<Rightarrow> planned_task" where
  "createSpecialistTask agent input options =
     (let runner = sd_runnerKind (getSpecialistDefinition agent)
      in \<lparr>pt_parentTaskId = None, pt_spawnedBy = None, pt_specialist = agent,
          pt_runnerKind = runner,
          pt_mode = (if runner = RBackgroundHandoff then MBackground else MSequential),
          pt_input = input,
          pt_dependencies = default_to (to_dependencies options) [],
          pt_inputBindings = [],
          pt_resourceLocks = default_to (to_resourceLocks options) [],
          pt_mutates = default_to (to_mutates options) False,
          pt_writesExternal = default_to (to_writesExternal options) False,
          pt_requiresConfirmation = default_to (to_requiresConfirmation options) False,
          pt_requiresValidation = default_to (to_requiresValidation options) False\<rparr>)"

definition createBrowserTask ::
    "string \<Rightarrow> string option \<Rightarrow> browser_mode option \<Rightarrow> side_effect_level option \<Rightarrow>
     string option \<Rightarrow> planned_task" where
  "createBrowserTask instruction startUrl outputMode sideEffectLevel expectedOutcome =
     createSpecialistTask SBrowser
       (BrowserInput \<lparr>bi_mode = default_to outputMode BAgent, bi_instruction = instruction,
          bi_startUrl = startUrl, bi_expectedOutcome = expectedOutcome,
          bi_sideEffectLevel = default_to sideEffectLevel ReadLevel\<rparr>)
       (no_options\<lparr>to_mutates := Some (sideEffectLevel \<noteq> Some ReadLevel),
          to_writesExternal := Some (sideEffectLevel = Some HardWrite),
          to_requiresConfirmation := Some (sideEffectLevel = Some HardWrite)\<rparr>)"

definition createBackgroundTask :: "string \<Rightarrow> bool \<Rightarrow> planned_task" where
  "createBackgroundTask prompt needsBrowser =
     (createSpecialistTask SBuilder
        (BackgroundInput prompt None (Some needsBrowser)
           (Some ''Work autonomously to completion and write final results into artifacts.''))
        (no_options\<lparr>to_resourceLocks := Some [''sandbox-workdir:/''], to_mutates := Some True\<rparr>))
     \<lparr>pt_runnerKind := RBackgroundHandoff, pt_mode := MBackground\<rparr>"

section \<open>The router's answer\<close>

datatype router_specialist =
    RtBrowser | RtComputer | RtResearch | RtBuilder | RtIntegration | RtMemory | RtSettings

datatype settings_kind = SkTimezone | SkSchedule | SkCodexAuth

record router_task =
  rk_specialist :: router_specialist
  rk_goal :: string
  rk_dependencies :: "string list"
  rk_startUrl :: "string option"
  rk_browserMode :: "browser_mode option"
  rk_sideEffectLevel :: "side_effect_level option"
  rk_settingsKind :: "settings_kind option"
  rk_timezone :: "string option"
  rk_writesExternally :: "bool option"

record router_output =
  ro_strategy :: execution_mode
  ro_rationale :: string
  ro_tasks :: "router_task list"
  ro_needsValidation :: bool

section \<open>Materialisation\<close>

definition request_payload :: "string \<Rightarrow> json" where
  "request_payload goal = JObj [(''request'', JStr goal)]"

definition materializeSettingsInput :: "router_task \<Rightarrow> task_input" where
  "materializeSettingsInput task =
     (case rk_settingsKind task of
        Some SkTimezone \<Rightarrow> SettingsInput (TimezoneInput (default_to (rk_timezone task) (rk_goal task)))
      | Some SkSchedule \<Rightarrow>
          SettingsInput (ScheduleInput (rk_goal task) (request_payload (rk_goal task)))
      | Some SkCodexAuth \<Rightarrow> SettingsInput (CodexAuthInput CxStatus None None)
      | None \<Rightarrow> SpecialistInput (rk_goal task) None None (Some (request_payload (rk_goal task))))"

definition goal_input :: "router_task \<Rightarrow> task_input" where
  "goal_input task = SpecialistInput (rk_goal task) None None (Some (request_payload (rk_goal task)))"

fun materialize_as :: "router_specialist \<Rightarrow> router_task \<Rightarrow> string list \<Rightarrow> planned_task" where
  "materialize_as RtBrowser task pathHints =
     (createBrowserTask (rk_goal task) (rk_startUrl task)
        (Some (default_to (rk_browserMode task) BAgent))
        (Some (default_to (rk_sideEffectLevel task) ReadLevel)) None)
     \<lparr>pt_dependencies := rk_dependencies task\<rparr>"
| "materialize_as RtComputer task pathHints =
     createSpecialistTask SComputer (goal_input task)
       (no_options\<lparr>to_dependencies := Some (rk_dependencies task),
          to_resourceLocks := Some [''computer-desktop''], to_mutates := Some True,
          to_writesExternal := Some (default_to (rk_writesExternally task) False),
          to_requiresConfirmation := Some (default_to (rk_writesExternally task) False)\<rparr>)"
| "materialize_as RtResearch task pathHints =
     createSpecialistTask SResearch (goal_input task)
       (no_options\<lparr>to_dependencies := Some (rk_dependencies task)\<rparr>)"
| "materialize_as RtBuilder task pathHints =
     createSpecialistTask SBuilder
       (SpecialistInput (rk_goal task) None None
          (Some (JObj [(''request'', JStr (rk_goal task)),
                       (''pathHints'', JArr (map JStr pathHints))])))
       (no_options\<lparr>to_dependencies := Some (rk_dependencies task),
          to_resourceLocks := Some (if pathHints \<noteq> [] then map (\<lambda>p. ''fs-write:'' @ p) pathHints
                                    else [''sandbox-workdir:/'']),
          to_mutates := Some True, to_requiresValidation := Some True\<rparr>)"
| "materialize_as RtIntegration task pathHints =
     (let writes = default_to (rk_writesExternally task) False
      in createSpecialistTask SIntegration (goal_input task)
        (no_options\<lparr>to_dependencies := Some (rk_dependencies task),
           to_resourceLocks := Some [''integration-write:external''], to_mutates := Some writes,
           to_writesExternal := Some writes, to_requiresConfirmation := Some writes,
           to_requiresValidation := Some writes\<rparr>))"
| "materialize_as RtMemory task pathHints =
     createSpecialistTask SMemory (goal_input task)
       (no_options\<lparr>to_dependencies := Some (rk_dependencies task),
          to_resourceLocks := Some [''memory-write''], to_mutates := Some True\<rparr>)"
| "materialize_as RtSettings task pathHints =
     createSpecialistTask SSettings (materializeSettingsInput task)
       (no_options\<lparr>to_dependencies := Some (rk_dependencies task), to_mutates := Some True\<rparr>)"

definition materializeTask :: "router_task \<Rightarrow> string list \<Rightarrow> planned_task" where
  "materializeTask task pathHints = materialize_as (rk_specialist task) task pathHints"

definition materializeRouterOutput :: "router_output \<Rightarrow> string list \<Rightarrow> execution_plan" where
  "materializeRouterOutput output pathHints =
     (case ro_tasks output of
        [] \<Rightarrow> \<lparr>ep_strategy = MDirect, ep_rationale = ro_rationale output, ep_tasks = [],
               ep_reducer = ReduceConversation\<rparr>
      | first # rest \<Rightarrow>
          if ro_strategy output = MDirect then
            \<lparr>ep_strategy = MDirect, ep_rationale = ro_rationale output, ep_tasks = [],
             ep_reducer = ReduceConversation\<rparr>
          else if ro_strategy output = MBackground then
            \<lparr>ep_strategy = MBackground, ep_rationale = ro_rationale output,
             ep_tasks = [createBackgroundTask (rk_goal first) (rk_specialist first = RtBrowser)],
             ep_reducer = ReduceConversation\<rparr>
          else
            \<lparr>ep_strategy = ro_strategy output, ep_rationale = ro_rationale output,
             ep_tasks = map (\<lambda>task. materializeTask task pathHints) (first # rest),
             ep_reducer = (if ro_needsValidation output then ReduceValidator
                           else ReduceConversation)\<rparr>)"

text \<open>The router model answers with an object of its schema, or fails (\<open>None\<close>).\<close>

definition buildExecutionPlan :: "string \<Rightarrow> router_output option \<Rightarrow> execution_plan" where
  "buildExecutionPlan request answer =
     (case answer of
        Some output \<Rightarrow> materializeRouterOutput output (extractPathHints request)
      | None \<Rightarrow>
          \<lparr>ep_strategy = MSequential,
           ep_rationale = ''Router fallback - defaulting to research specialist.'',
           ep_tasks = [createSpecialistTask SResearch
             (SpecialistInput request None None (Some (request_payload request))) no_options],
           ep_reducer = ReduceConversation\<rparr>)"

end
