(* ===== verification/Runners.thy ===== *)
theory Runners
  imports Registry
begin

text \<open>
  The three runners of \<open>packages/agent/src/execution/runners/\<close>: the tool loop over a language model,
  the browser service and the hand-off to the background supervisor.  What the model, the browser
  service and the supervisor answer is a parameter; how an answer becomes an execution result is the
  code's.  Metrics of a result are left out.
\<close>

section \<open>Reading a structured output\<close>

fun truthy_json :: "json option \<Rightarrow> bool" where
  "truthy_json None = False"
| "truthy_json (Some JNull) = False"
| "truthy_json (Some (JBool b)) = b"
| "truthy_json (Some (JNum n)) = (n \<noteq> 0)"
| "truthy_json (Some (JStr s)) = (s \<noteq> [])"
| "truthy_json (Some (JArr xs)) = True"
| "truthy_json (Some (JObj kvs)) = True"

fun json_obj :: "json option \<Rightarrow> (string \<times> json) list option" where
  "json_obj (Some (JObj kvs)) = Some kvs"
| "json_obj _ = None"

fun json_length :: "json option \<Rightarrow> nat" where
  "json_length (Some (JArr xs)) = length xs"
| "json_length (Some (JStr s)) = length s"
| "json_length _ = 0"

definition parse_issue :: "json \<Rightarrow> task_issue option" where
  "parse_issue item =
     (case (json_str (json_get item ''code''), json_str (json_get item ''message'')) of
        (Some c, Some m) \<Rightarrow>
          Some \<lparr>ti_code = c, ti_message = m, ti_metadata = json_obj (json_get item ''metadata'')\<rparr>
      | _ \<Rightarrow> None)"

fun parseIssues :: "json option \<Rightarrow> task_issue list option" where
  "parseIssues (Some (JArr items)) = Some (List.map_filter parse_issue items)"
| "parseIssues _ = None"

definition parse_artifact :: "json \<Rightarrow> artifact option" where
  "parse_artifact item =
     (case json_str (json_get item ''kind'') of
        Some k \<Rightarrow>
          Some \<lparr>af_kind = k, af_title = json_str (json_get item ''title''),
                af_uri = json_str (json_get item ''uri''),
                af_attachmentId = json_str (json_get item ''attachmentId''),
                af_filename = json_str (json_get item ''filename''),
                af_mediaType = json_str (json_get item ''mediaType''),
                af_metadata = json_obj (json_get item ''metadata'')\<rparr>
      | None \<Rightarrow> None)"

fun parseArtifacts :: "json option \<Rightarrow> artifact list option" where
  "parseArtifacts (Some (JArr items)) = Some (List.map_filter parse_artifact items)"
| "parseArtifacts _ = None"

section \<open>The tool loop runner\<close>

text \<open>
  The agent's schema makes \<open>issues\<close> and \<open>artifacts\<close> arrays or absent, so parsing them is total.
\<close>

definition mapOutput ::
    "exec_task \<Rightarrow> json option \<Rightarrow> string \<Rightarrow> (string \<times> json) list option \<Rightarrow> exec_result" where
  "mapOutput task output traceId runtimeData =
     (let field = (\<lambda>k. case output of None \<Rightarrow> None | Some j \<Rightarrow> json_get j k);
          summary = (case json_str (field ''summary'') of None \<Rightarrow> [] | Some s \<Rightarrow> js_trim s)
      in \<lparr>er_taskId = et_id task, er_rootTaskId = et_rootTaskId task,
          er_parentTaskId = pt_parentTaskId task, er_depth = et_depth task,
          er_specialist = pt_specialist task,
          er_status = (if truthy_json (field ''requiresEscalation'') then REscalate
                       else if json_length (field ''issues'') > 0 then RPartial else RCompleted),
          er_summary = (if summary \<noteq> [] then summary
                        else specialist_name (pt_specialist task) @ '' completed.''),
          er_data = field ''data'',
          er_artifacts = parseArtifacts (field ''artifacts''),
          er_issues = parseIssues (field ''issues''),
          er_runtimeData = runtimeData, er_traceId = traceId, er_backgroundRef = None\<rparr>)"

text \<open>
  What \<open>agent.generate\<close> does: an output and the number of its tool calls and results, or an exception
  with its message and the last text, if any.
\<close>

datatype agent_answer = Generated "json option" nat | GenerateThrew string "string option"

definition runToolloopSpecialist ::
    "run_config \<Rightarrow> exec_task \<Rightarrow> string \<Rightarrow> agent_answer \<Rightarrow> exec_result \<times> nat" where
  "runToolloopSpecialist config task traceId answer =
     (let modelId = sd_selectModel (getSpecialistDefinition (pt_specialist task)) config;
          runtimeData = Some [(''modelId'', JStr modelId)]
      in case answer of
        Generated output events \<Rightarrow> (mapOutput task output traceId runtimeData, events)
      | GenerateThrew message lastText \<Rightarrow>
          (\<lparr>er_taskId = et_id task, er_rootTaskId = et_rootTaskId task,
            er_parentTaskId = pt_parentTaskId task, er_depth = et_depth task,
            er_specialist = pt_specialist task, er_status = RPartial,
            er_summary = str_or (js_trim (default_to lastText [])) message,
            er_data = None, er_artifacts = None,
            er_issues = Some [\<lparr>ti_code = ''no_structured_output'', ti_message = message,
                               ti_metadata = None\<rparr>],
            er_runtimeData = runtimeData, er_traceId = traceId, er_backgroundRef = None\<rparr>, 0))"

section \<open>The browser runner\<close>

record browser_result =
  br_status :: result_status
  br_summary :: string
  br_url :: "string option"
  br_title :: "string option"
  br_output :: "json option"
  br_artifacts :: "artifact list option"
  br_issues :: "string list option"
  br_actions :: "json list option"
  br_runtimeData :: "(string \<times> json) list option"

definition json_opt :: "string option \<Rightarrow> json" where
  "json_opt s = (case s of None \<Rightarrow> JNull | Some t \<Rightarrow> JStr t)"

definition page_json :: "browser_result \<Rightarrow> json" where
  "page_json r = JObj [(''url'', json_opt (br_url r)), (''title'', json_opt (br_title r))]"

definition buildBrowserTaskData :: "browser_result \<Rightarrow> json" where
  "buildBrowserTaskData r =
     (let actions = default_to (br_actions r) []
      in case (br_output r, actions) of
        (Some output, []) \<Rightarrow> output
      | _ \<Rightarrow> JObj ([(''page'', page_json r)]
                @ (case br_output r of None \<Rightarrow> [] | Some output \<Rightarrow> [(''output'', output)])
                @ (if actions \<noteq> [] then [(''actions'', JArr actions)] else [])))"

text \<open>Spread and then override: later entries win, so they stand first.\<close>

definition buildBrowserRuntimeData :: "browser_result \<Rightarrow> (string \<times> json) list" where
  "buildBrowserRuntimeData r =
     (case br_actions r of None \<Rightarrow> [] | Some as \<Rightarrow> [(''actions'', JArr as)])
     @ [(''finalPage'', page_json r)] @ default_to (br_runtimeData r) []"

definition number_issues :: "string list \<Rightarrow> task_issue list" where
  "number_issues msgs =
     map (\<lambda>(i, m). \<lparr>ti_code = ''browser_issue_'' @ nat_digits (i + 1), ti_message = m,
                    ti_metadata = None\<rparr>) (enumerate 0 msgs)"

definition runBrowserSpecialist ::
    "exec_task \<Rightarrow> string \<Rightarrow> string + browser_result \<Rightarrow> string + exec_result" where
  "runBrowserSpecialist task traceId answer =
     (case pt_input task of
        BrowserInput _ \<Rightarrow>
          (case answer of
             Inl message \<Rightarrow> Inl message
           | Inr r \<Rightarrow> Inr
               \<lparr>er_taskId = et_id task, er_rootTaskId = et_rootTaskId task,
                er_parentTaskId = pt_parentTaskId task, er_depth = et_depth task,
                er_specialist = pt_specialist task, er_status = br_status r,
                er_summary = br_summary r, er_data = Some (buildBrowserTaskData r),
                er_artifacts = br_artifacts r,
                er_issues = Some (number_issues (default_to (br_issues r) [])),
                er_runtimeData = Some (buildBrowserRuntimeData r), er_traceId = traceId,
                er_backgroundRef = None\<rparr>)
      | _ \<Rightarrow> Inl ''Browser runner received a non-browser task input.'')"

section \<open>The background runner\<close>

text \<open>The supervisor answers with the id and the status of the task it started, or fails.\<close>

fun status_name :: "task_status \<Rightarrow> string" where
  "status_name Pending = ''pending''"
| "status_name AwaitingAuth = ''awaiting_auth''"
| "status_name Preparing = ''preparing''"
| "status_name Running = ''running''"
| "status_name Succeeded = ''succeeded''"
| "status_name Partial = ''partial''"
| "status_name Escalated = ''escalated''"
| "status_name Failed = ''failed''"
| "status_name Cancelled = ''cancelled''"
| "status_name TimedOut = ''timed_out''"
| "status_name Lost = ''lost''"

definition runBackgroundSpecialist ::
    "exec_task \<Rightarrow> string \<Rightarrow> string + (string \<times> task_status) \<Rightarrow> string + exec_result" where
  "runBackgroundSpecialist task traceId answer =
     (case pt_input task of
        BackgroundInput _ _ _ _ \<Rightarrow>
          (case answer of
             Inl message \<Rightarrow> Inl message
           | Inr (startedId, startedStatus) \<Rightarrow> Inr
               \<lparr>er_taskId = et_id task, er_rootTaskId = et_rootTaskId task,
                er_parentTaskId = pt_parentTaskId task, er_depth = et_depth task,
                er_specialist = pt_specialist task, er_status = RCompleted,
                er_summary = ''Background task started.'',
                er_data = Some (JObj [(''status'', JStr (status_name startedStatus))]),
                er_artifacts = None, er_issues = None, er_runtimeData = None,
                er_traceId = traceId, er_backgroundRef = Some (startedId, traceId)\<rparr>)
      | _ \<Rightarrow> Inl ''Background runner received a non-background task input.'')"

text \<open>Whatever a runner is answered, its result carries the id of its task.\<close>

lemma runner_taskId [simp]:
  "er_taskId (mapOutput task out tr rd) = et_id task"
  "er_taskId (fst (runToolloopSpecialist config task tr answer)) = et_id task"
  "runBrowserSpecialist task tr b = Inr r \<Longrightarrow> er_taskId r = et_id task"
  "runBackgroundSpecialist task tr s = Inr r \<Longrightarrow> er_taskId r = et_id task"
  by (auto simp: mapOutput_def Let_def runToolloopSpecialist_def runBrowserSpecialist_def
      runBackgroundSpecialist_def split: agent_answer.splits task_input.splits sum.splits)

text \<open>A tool loop run never fails: an exception of the model becomes a partial result.\<close>

lemma toolloop_status:
  "er_status (fst (runToolloopSpecialist config task tr answer)) \<noteq> RFailed"
  by (auto simp: mapOutput_def Let_def runToolloopSpecialist_def split: agent_answer.splits)

end
