(* ===== verification/Reducer.thy ===== *)
theory Reducer
  imports ExecTypes
begin

text \<open>
  The reducer of \<open>packages/agent/src/execution/reducer.ts\<close>: the results of the tasks of a plan become
  one execution summary.
\<close>

definition summarizeTask :: "exec_result \<Rightarrow> string" where
  "summarizeTask task = specialist_name (er_specialist task) @ '': '' @ er_summary task"

definition collectBackgroundTasks :: "exec_result list \<Rightarrow> background_task list" where
  "collectBackgroundTasks tasks =
     concat (map (\<lambda>task. case er_backgroundRef task of
         None \<Rightarrow> []
       | Some (t, tr) \<Rightarrow> [\<lparr>bg_taskId = t, bg_traceId = tr, bg_status = Running\<rparr>]) tasks)"

fun string_items :: "json option \<Rightarrow> string list" where
  "string_items (Some (JArr ids)) = List.map_filter (\<lambda>j. json_str (Some j)) ids"
| "string_items _ = []"

text \<open>The ids under a key of the data of one specialist's results.\<close>

definition collect_ids :: "specialist_kind \<Rightarrow> string \<Rightarrow> exec_result list \<Rightarrow> string list" where
  "collect_ids kind key tasks =
     concat (map (\<lambda>task. case er_data task of None \<Rightarrow> [] | Some d \<Rightarrow> string_items (json_get d key))
       (filter (\<lambda>task. er_specialist task = kind) tasks))"

definition buildExecutionSummary ::
    "execution_mode \<Rightarrow> exec_result list \<Rightarrow> exec_result option \<Rightarrow> execution_summary" where
  "buildExecutionSummary mode taskResults validatorResult =
     (let allTasks = taskResults @ (case validatorResult of None \<Rightarrow> [] | Some v \<Rightarrow> [v]);
          hasFailure = list_ex (\<lambda>task. er_status task = RFailed) allTasks;
          hasPartial = list_ex (\<lambda>task. er_status task = RPartial \<or> er_status task = REscalate) allTasks
      in \<lparr>es_mode = mode,
          es_status = (if hasFailure then SumFailed else if hasPartial then SumPartial
                       else SumCompleted),
          es_summary = (if allTasks \<noteq> [] then join_with '' | '' (map summarizeTask allTasks)
                        else ''Answered directly.''),
          es_taskResults = allTasks,
          es_backgroundTasks = collectBackgroundTasks allTasks,
          es_memoriesSaved = collect_ids SMemory ''memoryIds'' allTasks,
          es_scheduledJobs = collect_ids SSettings ''scheduledJobIds'' allTasks,
          es_externalWrites =
            map er_summary (filter (\<lambda>task. er_specialist task = SIntegration) allTasks)\<rparr>)"

lemma summary_results [simp]:
  "es_taskResults (buildExecutionSummary m ts v) = ts @ (case v of None \<Rightarrow> [] | Some x \<Rightarrow> [x])"
  by (simp add: buildExecutionSummary_def Let_def)

lemma summary_status:
  "es_status (buildExecutionSummary m ts v) = SumCompleted \<longleftrightarrow>
     (\<forall>r \<in> set (es_taskResults (buildExecutionSummary m ts v)). er_status r = RCompleted)"
proof -
  have "er_status r = RCompleted \<longleftrightarrow> er_status r \<notin> {RFailed, RPartial, REscalate}" for r :: exec_result
    by (cases "er_status r") auto
  then show ?thesis
    by (auto simp: buildExecutionSummary_def Let_def list_ex_iff)
qed

lemma summary_failed:
  "es_status (buildExecutionSummary m ts v) = SumFailed \<longleftrightarrow>
     (\<exists>r \<in> set (es_taskResults (buildExecutionSummary m ts v)). er_status r = RFailed)"
  by (auto simp: buildExecutionSummary_def Let_def list_ex_iff)

end
