(* ===== verification/Coordinator.thy ===== *)
theory Coordinator
  imports Planner Runners Reducer "HOL-Library.AList"
begin

text \<open>
  The coordinator of \<open>packages/agent/src/execution/coordinator.ts\<close> with
  \<open>task-persistence.ts\<close>: the tasks of a plan get identifiers, run in batches that respect their
  dependencies and locks, and their results are reduced to one summary.

  What happens outside is a record of answers: the language model, the browser service, the
  supervisor, and whether each write to the run ledger succeeds.  The writes to the task store are
  the actions of the run; they never fail as far as the coordinator is concerned, because
  \<open>persistTaskCreated\<close> and \<open>persistTaskCompleted\<close> swallow every exception.  The ghost field
  \<open>cs_batches\<close> records which tasks ran together.
\<close>

section \<open>Materialising a plan\<close>

text \<open>The index of a reference \<open>task-N\<close>: the pattern \<open>^task-(\d+)$\<close>.\<close>

definition task_ref :: "string \<Rightarrow> nat option" where
  "task_ref d =
     (let digits = drop 5 d
      in if starts_with d ''task-'' \<and> digits \<noteq> [] \<and> list_all is_digit digits
         then Some (parse_digits digits) else None)"

definition resolve_ref :: "string list \<Rightarrow> string \<Rightarrow> string" where
  "resolve_ref ids d =
     (case task_ref d of None \<Rightarrow> d | Some i \<Rightarrow> default_to (nth_opt ids i) d)"

text \<open>\<open>ids\<close> are the fresh identifiers, one per task.\<close>

definition materializePlan :: "execution_plan \<Rightarrow> string list \<Rightarrow> exec_task list" where
  "materializePlan plan ids =
     map (\<lambda>(task, i). planned_task.extend
            (task\<lparr>pt_dependencies := map (resolve_ref ids) (pt_dependencies task)\<rparr>)
            \<lparr>et_id = i, et_rootTaskId = default_to (nth_opt ids 0) i, et_depth = 1\<rparr>)
       (zip (ep_tasks plan) ids)"

section \<open>Blocked dependencies\<close>

type_synonym results = "(string \<times> exec_result) list"

definition blocks :: "exec_result \<Rightarrow> bool" where
  "blocks r \<longleftrightarrow> er_status r = RFailed \<or> er_status r = REscalate"

definition findBlockingDependency :: "exec_task \<Rightarrow> results \<Rightarrow> exec_result option" where
  "findBlockingDependency task completed =
     find_first blocks (List.map_filter (map_of completed) (pt_dependencies task))"

fun result_status_name :: "result_status \<Rightarrow> string" where
  "result_status_name RCompleted = ''completed''"
| "result_status_name RPartial = ''partial''"
| "result_status_name RFailed = ''failed''"
| "result_status_name REscalate = ''escalate''"

definition failed_result ::
    "exec_task \<Rightarrow> string \<Rightarrow> task_issue \<Rightarrow> string \<Rightarrow> exec_result" where
  "failed_result task message issue traceId =
     \<lparr>er_taskId = et_id task, er_rootTaskId = et_rootTaskId task,
      er_parentTaskId = pt_parentTaskId task, er_depth = et_depth task,
      er_specialist = pt_specialist task, er_status = RFailed, er_summary = message,
      er_data = None, er_artifacts = None, er_issues = Some [issue], er_runtimeData = None,
      er_traceId = traceId, er_backgroundRef = None\<rparr>"

definition buildBlockedDependencyResult :: "exec_task \<Rightarrow> exec_result \<Rightarrow> string \<Rightarrow> exec_result" where
  "buildBlockedDependencyResult task dep rootTraceId =
     (let message = ''Blocked by dependency '' @ er_taskId dep @ '': '' @ er_summary dep
      in failed_result task message
           \<lparr>ti_code = ''blocked_dependency'', ti_message = message,
            ti_metadata = Some [(''dependencyTaskId'', JStr (er_taskId dep)),
              (''dependencyStatus'', JStr (result_status_name (er_status dep)))]\<rparr>
           rootTraceId)"

section \<open>Running one task\<close>

record coord_env =
  ce_config :: run_config
  ce_agent :: "exec_task \<Rightarrow> agent_answer"
  ce_browser :: "exec_task \<Rightarrow> string + browser_result"
  ce_startTask :: "exec_task \<Rightarrow> string + (string \<times> task_status)"
  ce_traceId :: "string \<Rightarrow> string"
  ce_ledger :: "string \<Rightarrow> nat \<Rightarrow> bool"
  ce_rootTraceId :: string

text \<open>
  The ledger writes of one task, in order: 0 the run, 1 \<open>delegation_start\<close>, 2 the tool events,
  3 \<open>delegation_end\<close> or the metadata, 4 the completion, 5 the error, 6 the failed completion.
\<close>

datatype task_action = StoreCreated string | StoreCompleted string task_status

fun stored_status :: "result_status \<Rightarrow> task_status" where
  "stored_status RCompleted = Succeeded"
| "stored_status RPartial = Partial"
| "stored_status REscalate = Escalated"
| "stored_status RFailed = Failed"

definition run_by_kind :: "coord_env \<Rightarrow> exec_task \<Rightarrow> string + (exec_result \<times> nat)" where
  "run_by_kind env task =
     (let tr = ce_traceId env (et_id task)
      in case pt_runnerKind task of
        RBrowserService \<Rightarrow>
          map_sum id (\<lambda>r. (r, 1)) (runBrowserSpecialist task tr (ce_browser env task))
      | RBackgroundHandoff \<Rightarrow>
          map_sum id (\<lambda>r. (r, 1)) (runBackgroundSpecialist task tr (ce_startTask env task))
      | RToolloop \<Rightarrow> Inr (runToolloopSpecialist (ce_config env) task tr (ce_agent env task)))"

text \<open>The body of the try block: the runner, then the ledger.\<close>

definition try_run :: "coord_env \<Rightarrow> exec_task \<Rightarrow> string + exec_result" where
  "try_run env task =
     (case run_by_kind env task of
        Inl e \<Rightarrow> Inl e
      | Inr (r, events) \<Rightarrow>
          if events > 0 \<and> \<not> ce_ledger env (et_id task) 2 then Inl ''ledger''
          else if \<not> ce_ledger env (et_id task) 3 then Inl ''ledger''
          else if \<not> ce_ledger env (et_id task) 4 then Inl ''ledger''
          else Inr r)"

definition persisted :: "exec_task \<Rightarrow> bool" where
  "persisted task \<longleftrightarrow> pt_runnerKind task \<noteq> RBackgroundHandoff"

definition persistTaskCreated :: "exec_task \<Rightarrow> task_action list" where
  "persistTaskCreated task = [StoreCreated (et_id task)]"

definition persistTaskCompleted :: "string \<Rightarrow> exec_result \<Rightarrow> task_action list" where
  "persistTaskCompleted taskId r = [StoreCompleted taskId (stored_status (er_status r))]"

definition runTaskWithTrace ::
    "coord_env \<Rightarrow> exec_task \<Rightarrow> task_action list \<times> (string + exec_result)" where
  "runTaskWithTrace env task =
     (if \<not> ce_ledger env (et_id task) 0 \<or> \<not> ce_ledger env (et_id task) 1 then ([], Inl ''ledger'')
      else
        (let created = (if persisted task then persistTaskCreated task else [])
         in case try_run env task of
           Inr r \<Rightarrow>
             (created @ (if persisted task then persistTaskCompleted (et_id task) r else []), Inr r)
         | Inl message \<Rightarrow>
             (let failed = failed_result task message
                    \<lparr>ti_code = ''execution_failed'', ti_message = message, ti_metadata = None\<rparr>
                    (ce_traceId env (et_id task))
              in if \<not> ce_ledger env (et_id task) 5 \<or> \<not> ce_ledger env (et_id task) 6
                 then (created, Inl ''ledger'')
                 else (created @ (if persisted task then persistTaskCompleted (et_id task) failed
                                  else []), Inr failed))))"

section \<open>The loop over the pending tasks\<close>

record coord_state =
  cs_pending :: "exec_task list"
  cs_completed :: results
  cs_actions :: "task_action list"
  cs_batches :: "exec_task list list"

text \<open>\<open>findIndex\<close> and \<open>splice\<close>: the first task with the id is taken out.\<close>

fun remove_task :: "string \<Rightarrow> exec_task list \<Rightarrow> exec_task list" where
  "remove_task i [] = []"
| "remove_task i (t # ts) = (if et_id t = i then ts else t # remove_task i ts)"

text \<open>The scan for tasks with a failed dependency, over a copy of the pending list.\<close>

fun mark_blocked ::
    "string \<Rightarrow> exec_task list \<Rightarrow> exec_task list \<times> results \<times> bool \<Rightarrow> exec_task list \<times> results \<times> bool" where
  "mark_blocked root [] s = s"
| "mark_blocked root (task # copy) (pending, completed, found) =
     (case findBlockingDependency task completed of
        None \<Rightarrow> mark_blocked root copy (pending, completed, found)
      | Some dep \<Rightarrow>
          mark_blocked root copy
            (remove_task (et_id task) pending,
             AList.update (et_id task) (buildBlockedDependencyResult task dep root) completed, True))"

definition bind_inputs :: "results \<Rightarrow> exec_task \<Rightarrow> exec_task" where
  "bind_inputs completed task =
     task\<lparr>pt_inputBindings :=
       map (\<lambda>r. (er_taskId r, default_to (er_data r) (JObj [(''summary'', JStr (er_summary r))])))
         (List.map_filter (map_of completed) (pt_dependencies task))\<rparr>"

definition settle :: "exec_result list \<Rightarrow> coord_state \<Rightarrow> coord_state" where
  "settle rs s =
     fold (\<lambda>r s. s\<lparr>cs_completed := AList.update (er_taskId r) r (cs_completed s),
                     cs_pending := remove_task (er_taskId r) (cs_pending s)\<rparr>) rs s"

fun collect_results :: "(string + exec_result) list \<Rightarrow> string + exec_result list" where
  "collect_results [] = Inr []"
| "collect_results (Inl e # xs) = Inl e"
| "collect_results (Inr r # xs) =
     (case collect_results xs of Inl e \<Rightarrow> Inl e | Inr rs \<Rightarrow> Inr (r # rs))"

definition blocked_error :: string where
  "blocked_error =
     ''Execution plan is blocked by unresolved dependencies or conflicting locks.''"

text \<open>One iteration of the while loop; an exception keeps the actions done so far.\<close>

definition plan_round ::
    "coord_env \<Rightarrow> execution_mode \<Rightarrow> coord_state \<Rightarrow> (string \<times> coord_state) + coord_state" where
  "plan_round env strategy s =
     (let (pending, completed, found) =
            mark_blocked (ce_rootTraceId env) (cs_pending s) (cs_pending s, cs_completed s, False);
          s1 = s\<lparr>cs_pending := pending, cs_completed := completed\<rparr>
      in if found then Inr s1
         else
           (let batch = buildReadyBatch pending (map_of completed) []
                  (if strategy = MParallel then rc_maxParallelAgents (ce_config env) else 1)
            in if batch = [] then Inl (blocked_error, s1)
               else
                 (let runnable = map (bind_inputs completed) batch;
                      runs = map (runTaskWithTrace env)
                        (if strategy = MParallel then runnable else [hd runnable]);
                      s2 = s1\<lparr>cs_actions := cs_actions s1 @ concat (map fst runs),
                              cs_batches := cs_batches s1 @ [batch]\<rparr>
                  in case collect_results (map snd runs) of
                       Inl e \<Rightarrow> Inl (e, s2)
                     | Inr rs \<Rightarrow> Inr (settle rs s2))))"

subsection \<open>The loop ends\<close>

lemma run_by_kind_id: "run_by_kind env task = Inr (r, n) \<Longrightarrow> er_taskId r = et_id task"
proof (cases "pt_runnerKind task")
  case RToolloop
  assume "run_by_kind env task = Inr (r, n)"
  with RToolloop show ?thesis
    using runner_taskId(2) [of "ce_config env" task "ce_traceId env (et_id task)" "ce_agent env task"]
    by (simp add: run_by_kind_def)
qed (auto simp: run_by_kind_def runner_taskId(3,4) map_sum_def Let_def split: sum.splits)

lemma try_run_id: "try_run env task = Inr r \<Longrightarrow> er_taskId r = et_id task"
  by (auto simp: try_run_def run_by_kind_id split: sum.splits if_splits)

lemma runTask_id:
  assumes "runTaskWithTrace env task = (as, Inr r)"
  shows "er_taskId r = et_id task"
  using assms try_run_id [of env task r]
  by (auto simp: runTaskWithTrace_def Let_def failed_result_def split: if_splits sum.splits)

lemma remove_task_length:
  "length (remove_task i ts) = length ts - (if i \<in> et_id ` set ts then 1 else 0)"
  by (induction ts) (auto simp: Suc_diff_1 length_greater_0_conv [symmetric] simp del: length_greater_0_conv
      intro: Suc_pred' dest: length_pos_if_in_set)

lemma remove_task_le: "length (remove_task i ts) \<le> length ts"
  by (simp add: remove_task_length)

lemma mark_blocked_le:
  "length (fst (mark_blocked root copy (pending, completed, found))) \<le> length pending"
  by (induction copy arbitrary: pending completed found)
     (auto split: option.splits intro: le_trans [OF _ remove_task_le])

lemma mark_blocked_less:
  assumes "snd (snd (mark_blocked root copy (pending, completed, False)))"
    and "set copy \<subseteq> set pending"
  shows "length (fst (mark_blocked root copy (pending, completed, False))) < length pending"
  using assms
proof (induction copy)
  case (Cons t copy)
  show ?case
  proof (cases "findBlockingDependency t completed")
    case None
    with Cons show ?thesis by simp
  next
    case (Some dep)
    have "length (remove_task (et_id t) pending) < length pending"
      using Cons.prems(2) by (auto simp: remove_task_length dest: length_pos_if_in_set)
    with Some show ?thesis
      by (auto intro: le_less_trans [OF mark_blocked_le])
  qed
qed simp

lemma mark_blocked_not_found:
  assumes "\<not> snd (snd (mark_blocked root copy (pending, completed, found)))"
  shows "mark_blocked root copy (pending, completed, found) = (pending, completed, False) \<and>
         \<not> found \<and> (\<forall>t \<in> set copy. findBlockingDependency t completed = None)"
proof -
  have T: "snd (snd (mark_blocked root c (p, m, True)))" for c p m
    by (induction c arbitrary: p m) (auto split: option.splits)
  from assms show ?thesis
    by (induction copy arbitrary: found) (auto simp: T split: option.splits)
qed

lemma collect_results_Inr: "collect_results xs = Inr rs \<Longrightarrow> xs = map Inr rs"
  by (induction xs arbitrary: rs rule: collect_results.induct) (auto split: sum.splits)

lemma settle_sel:
  "cs_pending (settle rs s) = fold (\<lambda>r. remove_task (er_taskId r)) rs (cs_pending s)"
  "cs_completed (settle rs s) = fold (\<lambda>r. AList.update (er_taskId r) r) rs (cs_completed s)"
  "cs_actions (settle rs s) = cs_actions s" "cs_batches (settle rs s) = cs_batches s"
  by (induction rs arbitrary: s) (simp_all add: settle_def)

lemma fold_remove_le: "length (fold (\<lambda>r. remove_task (er_taskId r)) rs ts) \<le> length ts"
  by (induction rs arbitrary: ts) (auto intro: le_trans [OF _ remove_task_le])

text \<open>The outcomes of one round.\<close>

definition batch_limit :: "coord_env \<Rightarrow> execution_mode \<Rightarrow> nat" where
  "batch_limit env strategy =
     (if strategy = MParallel then rc_maxParallelAgents (ce_config env) else 1)"

definition round_runs ::
    "coord_env \<Rightarrow> execution_mode \<Rightarrow> results \<Rightarrow> exec_task list \<Rightarrow>
     (task_action list \<times> (string + exec_result)) list" where
  "round_runs env strategy completed batch =
     map (runTaskWithTrace env)
       (if strategy = MParallel then map (bind_inputs completed) batch
        else [hd (map (bind_inputs completed) batch)])"

lemma round_cases:
  assumes "plan_round env strategy s = res"
  obtains (marked) p c where
      "mark_blocked (ce_rootTraceId env) (cs_pending s) (cs_pending s, cs_completed s, False)
         = (p, c, True)"
      "res = Inr (s\<lparr>cs_pending := p, cs_completed := c\<rparr>)"
  | (stuck) "buildReadyBatch (cs_pending s) (map_of (cs_completed s)) [] (batch_limit env strategy) = []"
      "\<forall>t \<in> set (cs_pending s). findBlockingDependency t (cs_completed s) = None"
      "res = Inl (blocked_error, s)"
  | (threw) e batch s2 where
      "batch = buildReadyBatch (cs_pending s) (map_of (cs_completed s)) [] (batch_limit env strategy)"
      "batch \<noteq> []" "res = Inl (e, s2)"
      "collect_results (map snd (round_runs env strategy (cs_completed s) batch)) = Inl e"
      "s2 = s\<lparr>cs_actions := cs_actions s @
                concat (map fst (round_runs env strategy (cs_completed s) batch)),
              cs_batches := cs_batches s @ [batch]\<rparr>"
  | (ran) rs batch s2 where
      "batch = buildReadyBatch (cs_pending s) (map_of (cs_completed s)) [] (batch_limit env strategy)"
      "batch \<noteq> []" "res = Inr (settle rs s2)"
      "map snd (round_runs env strategy (cs_completed s) batch) = map Inr rs"
      "s2 = s\<lparr>cs_actions := cs_actions s @
                concat (map fst (round_runs env strategy (cs_completed s) batch)),
              cs_batches := cs_batches s @ [batch]\<rparr>"
proof -
  let ?m = "mark_blocked (ce_rootTraceId env) (cs_pending s) (cs_pending s, cs_completed s, False)"
  let ?b = "buildReadyBatch (cs_pending s) (map_of (cs_completed s)) [] (batch_limit env strategy)"
  obtain p c f where m: "?m = (p, c, f)" by (metis prod.exhaust)
  show thesis
  proof (cases f)
    case True
    with m have m': "?m = (p, c, True)" by simp
    then have "res = Inr (s\<lparr>cs_pending := p, cs_completed := c\<rparr>)"
      unfolding assms [symmetric] by (simp add: plan_round_def)
    with m' show thesis by (rule marked)
  next
    case False
    then have nf: "?m = (cs_pending s, cs_completed s, False)"
      and none: "\<forall>t \<in> set (cs_pending s). findBlockingDependency t (cs_completed s) = None"
      using mark_blocked_not_found [of "ce_rootTraceId env" "cs_pending s" "cs_pending s"
        "cs_completed s" False] m by auto
    show thesis
    proof (cases "?b = []")
      case True
      then show thesis
        using nf none assms by (intro stuck) (simp_all add: plan_round_def batch_limit_def Let_def)
    next
      case False
      let ?r = "round_runs env strategy (cs_completed s) ?b"
      show thesis
      proof (cases "collect_results (map snd ?r)")
        case (Inl e)
        then show thesis
          using nf False assms
          by (intro threw [OF refl False _ Inl refl])
             (simp add: plan_round_def batch_limit_def round_runs_def Let_def)
      next
        case (Inr rs)
        then show thesis
          using nf False assms
          by (intro ran [OF refl False _ collect_results_Inr [OF Inr] refl])
             (simp add: plan_round_def batch_limit_def round_runs_def Let_def)
      qed
    qed
  qed
qed

lemma bind_inputs_sel [simp]:
  "et_id (bind_inputs c t) = et_id t" "pt_dependencies (bind_inputs c t) = pt_dependencies t"
  "pt_resourceLocks (bind_inputs c t) = pt_resourceLocks t"
  "pt_runnerKind (bind_inputs c t) = pt_runnerKind t"
  by (simp_all add: bind_inputs_def)

text \<open>The results of a round are those of the tasks of its batch, in order.\<close>

lemma round_ids:
  assumes "map snd (round_runs env strategy completed batch) = map Inr rs"
    and "batch \<noteq> []" "length batch \<le> batch_limit env strategy"
  shows "map er_taskId rs = map et_id batch"
proof -
  define ts where
    "ts = (if strategy = MParallel then map (bind_inputs completed) batch
           else [hd (map (bind_inputs completed) batch)])"
  have ids: "map et_id ts = map et_id batch"
    using assms(2,3) by (cases batch) (auto simp: ts_def batch_limit_def)
  have "map (snd \<circ> runTaskWithTrace env) ts = map Inr rs"
    using assms(1) by (simp add: round_runs_def ts_def)
  then have "map er_taskId rs = map et_id ts"
  proof (induction ts arbitrary: rs)
    case (Cons t ts)
    then obtain r rs' where rs: "rs = r # rs'" "snd (runTaskWithTrace env t) = Inr r"
      by (cases rs) auto
    have "er_taskId r = et_id t"
      using runTask_id [of env t "fst (runTaskWithTrace env t)" r] rs(2)
      by (metis prod.collapse)
    with Cons rs show ?case by simp
  qed simp
  with ids show ?thesis by simp
qed

lemma batch_length: "length (buildReadyBatch pending completed inFlight m) \<le> m"
  by (simp add: buildReadyBatch_def Let_def fill_batch_length)

lemma round_decreases:
  assumes "plan_round env strategy s = Inr s'"
  shows "length (cs_pending s') < length (cs_pending s)"
  using assms
proof (cases rule: round_cases)
  case (marked p c)
  with mark_blocked_less [of "ce_rootTraceId env" "cs_pending s" "cs_pending s" "cs_completed s"]
  show ?thesis by simp
next
  case (ran rs batch s2)
  then have len: "length batch \<le> batch_limit env strategy"
    using batch_length by blast
  obtain t bs where b: "batch = t # bs" using ran(2) by (cases batch) auto
  have "map er_taskId rs = map et_id batch" using round_ids [OF ran(4) ran(2) len] .
  with b obtain r rs' where rs: "rs = r # rs'" "er_taskId r = et_id t" by (cases rs) auto
  have "t \<in> set (cs_pending s)" 
    using batch_subset [of "cs_pending s" "map_of (cs_completed s)" "[]" "batch_limit env strategy"]
    unfolding ran(1) [symmetric] b by simp
  then have "length (remove_task (et_id t) (cs_pending s)) < length (cs_pending s)"
    by (auto simp: remove_task_length dest: length_pos_if_in_set)
  then show ?thesis
    using ran(3,5) rs fold_remove_le [of rs' "remove_task (et_id t) (cs_pending s)"]
    by (simp add: settle_sel)
qed simp_all

function run_plan_loop ::
    "coord_env \<Rightarrow> execution_mode \<Rightarrow> coord_state \<Rightarrow> (string \<times> coord_state) + coord_state" where
  "run_plan_loop env strategy s =
     (if cs_pending s = [] then Inr s
      else case plan_round env strategy s of
        Inl x \<Rightarrow> Inl x
      | Inr s' \<Rightarrow> run_plan_loop env strategy s')"
  by pat_completeness auto
termination
  by (relation "measure (\<lambda>(env, strategy, s). length (cs_pending s))") (auto simp: round_decreases)

declare run_plan_loop.simps [simp del]

section \<open>The whole plan\<close>

definition validator_needed :: "execution_plan \<Rightarrow> exec_result list \<Rightarrow> bool" where
  "validator_needed plan taskResults \<longleftrightarrow>
     ep_reducer plan = ReduceValidator \<or>
     list_ex (\<lambda>r. er_status r = RPartial \<or> er_status r = REscalate) taskResults \<or>
     list_ex (\<lambda>r. default_to (er_issues r) [] \<noteq> []) taskResults"

text \<open>\<open>encode\<close> gives the plan and its results as JSON, \<open>vid\<close> the fresh identifier.\<close>

definition validator_task ::
    "(execution_plan \<Rightarrow> exec_result list \<Rightarrow> json) \<Rightarrow> string \<Rightarrow> execution_plan \<Rightarrow> exec_result list \<Rightarrow>
     exec_task" where
  "validator_task encode vid plan taskResults =
     \<lparr>pt_parentTaskId = None, pt_spawnedBy = None, pt_specialist = SValidator,
      pt_runnerKind = RToolloop, pt_mode = MSequential,
      pt_input = SpecialistInput
        ''Validate the completed execution tasks and identify conflicts, risks, or missing verification.''
        None None (Some (encode plan taskResults)),
      pt_dependencies = map er_taskId taskResults,
      pt_inputBindings =
        map (\<lambda>r. (er_taskId r, default_to (er_data r) (JObj [(''summary'', JStr (er_summary r))])))
          taskResults,
      pt_resourceLocks = [], pt_mutates = False, pt_writesExternal = False,
      pt_requiresConfirmation = False, pt_requiresValidation = False,
      et_id = vid, et_rootTaskId = vid, et_depth = 1\<rparr>"

definition runValidatorIfNeeded ::
    "coord_env \<Rightarrow> (execution_plan \<Rightarrow> exec_result list \<Rightarrow> json) \<Rightarrow> string \<Rightarrow> execution_plan \<Rightarrow>
     exec_result list \<Rightarrow> task_action list \<times> (string + exec_result option)" where
  "runValidatorIfNeeded env encode vid plan taskResults =
     (if \<not> validator_needed plan taskResults then ([], Inr None)
      else let (as, r) = runTaskWithTrace env (validator_task encode vid plan taskResults)
           in (as, map_sum id Some r))"

definition start_state :: "exec_task list \<Rightarrow> coord_state" where
  "start_state tasks =
     \<lparr>cs_pending = tasks, cs_completed = [], cs_actions = [], cs_batches = []\<rparr>"

definition executeRequestPlan ::
    "coord_env \<Rightarrow> (execution_plan \<Rightarrow> exec_result list \<Rightarrow> json) \<Rightarrow> execution_plan \<Rightarrow> string list \<Rightarrow>
     string \<Rightarrow> task_action list \<times> (string + execution_summary)" where
  "executeRequestPlan env encode plan ids vid =
     (if ep_strategy plan = MDirect \<or> ep_tasks plan = [] then
        ([], Inr (buildExecutionSummary MDirect [] None))
      else
        (case run_plan_loop env (ep_strategy plan) (start_state (materializePlan plan ids)) of
           Inl (e, s) \<Rightarrow> (cs_actions s, Inl e)
         | Inr s \<Rightarrow>
             (let taskResults = map snd (cs_completed s);
                  (as, v) = runValidatorIfNeeded env encode vid plan taskResults
              in (cs_actions s @ as,
                  map_sum id (buildExecutionSummary (ep_strategy plan) taskResults) v))))"

end
