(* ===== verification/CoordinatorInv.thy ===== *)
theory CoordinatorInv
  imports Coordinator
begin

text \<open>
  The invariant of the coordinator's loop: every task of the plan is either pending or has exactly one
  result, no task runs twice, and a task that ran had only successful dependencies.
\<close>

definition deps_ok :: "results \<Rightarrow> exec_task \<Rightarrow> bool" where
  "deps_ok completed t \<longleftrightarrow>
     (\<forall>d \<in> set (pt_dependencies t). \<exists>r. map_of completed d = Some r \<and> \<not> blocks r)"

definition coord_inv ::
    "exec_task list \<Rightarrow> exec_task list \<Rightarrow> results \<Rightarrow> exec_task list \<Rightarrow> bool" where
  "coord_inv T pending completed started \<longleftrightarrow>
     distinct (map et_id pending) \<and> set pending \<subseteq> set T \<and>
     (\<forall>t \<in> set T. t \<in> set pending \<longleftrightarrow> et_id t \<notin> dom (map_of completed)) \<and>
     distinct (map fst completed) \<and> dom (map_of completed) \<subseteq> et_id ` set T \<and>
     (\<forall>k r. map_of completed k = Some r \<longrightarrow> er_taskId r = k) \<and>
     (\<forall>t \<in> set started. t \<in> set T \<and> et_id t \<in> dom (map_of completed)) \<and>
     distinct (map et_id started) \<and>
     (\<forall>t \<in> set T. \<forall>r. map_of completed (et_id t) = Some r \<longrightarrow>
        er_status r = RFailed \<and> t \<notin> set started \<or> deps_ok completed t)"

lemma coord_inv_start: "distinct (map et_id T) \<Longrightarrow> coord_inv T T [] []"
  by (simp add: coord_inv_def)

lemma et_id_inj: "distinct (map et_id T) \<Longrightarrow> t \<in> set T \<Longrightarrow> u \<in> set T \<Longrightarrow> et_id t = et_id u \<Longrightarrow> t = u"
  by (auto simp: distinct_map dest: inj_onD)

lemma remove_task_set:
  "distinct (map et_id ts) \<Longrightarrow>
   set (remove_task i ts) = {t \<in> set ts. et_id t \<noteq> i} \<and> distinct (map et_id (remove_task i ts))"
  by (induction ts) (auto simp: image_iff)

lemma deps_ok_update:
  "deps_ok completed t \<Longrightarrow> k \<notin> dom (map_of completed) \<Longrightarrow>
   deps_ok (AList.update k r completed) t"
  unfolding deps_ok_def AList.update_conv' by (metis domI fun_upd_other)

lemma dom_update: "dom (map_of (AList.update k v al)) = insert k (dom (map_of al))"
  by (simp add: AList.update_conv')

text \<open>A pending task gets its result.\<close>

lemma coord_inv_complete:
  assumes T: "distinct (map et_id T)" and inv: "coord_inv T pending completed started"
    and t: "t \<in> set pending" "er_taskId r = et_id t"
    and r: "er_status r = RFailed \<or> deps_ok completed t"
  shows "coord_inv T (remove_task (et_id t) pending) (AList.update (et_id t) r completed) started"
proof -
  let ?c = "AList.update (et_id t) r completed"
  have tT: "t \<in> set T" and fresh: "et_id t \<notin> dom (map_of completed)"
    and dp: "distinct (map et_id pending)"
    using inv t(1) by (auto simp: coord_inv_def)
  have mo: "map_of ?c = (map_of completed)(et_id t \<mapsto> r)" by (simp add: AList.update_conv')
  note rm = remove_task_set [OF dp, of "et_id t"]
  have a1: "distinct (map et_id (remove_task (et_id t) pending))"
    "set (remove_task (et_id t) pending) \<subseteq> set T" "distinct (map fst ?c)"
    "dom (map_of ?c) \<subseteq> et_id ` set T"
    using inv rm tT by (auto simp: coord_inv_def mo AList.distinct_update)
  have a2: "u \<in> set (remove_task (et_id t) pending) \<longleftrightarrow> et_id u \<notin> dom (map_of ?c)"
    if "u \<in> set T" for u
    using that inv rm by (auto simp: coord_inv_def mo)
  have a3: "er_taskId x = k" if "map_of ?c k = Some x" for k x
    using that inv t(2) by (auto simp: coord_inv_def mo split: if_splits)
  have a4: "u \<in> set T \<and> et_id u \<in> dom (map_of ?c)" if "u \<in> set started" for u
    using that inv by (auto simp: coord_inv_def mo)
  have a5: "er_status x = RFailed \<and> u \<notin> set started \<or> deps_ok ?c u"
    if "u \<in> set T" "map_of ?c (et_id u) = Some x" for u x
  proof (cases "u = t")
    case True
    have "t \<notin> set started" using inv fresh by (auto simp: coord_inv_def)
    with True r that(2) show ?thesis by (auto simp: mo deps_ok_update fresh)
  next
    case False
    then have "et_id u \<noteq> et_id t" using et_id_inj [OF T that(1) tT] by auto
    with that inv have "er_status x = RFailed \<and> u \<notin> set started \<or> deps_ok completed u"
      by (auto simp: coord_inv_def mo)
    then show ?thesis using deps_ok_update [OF _ fresh] by blast
  qed
  have "distinct (map et_id started)" using inv by (simp add: coord_inv_def)
  with a1 a2 a3 a4 a5 show ?thesis unfolding coord_inv_def by blast
qed

lemma coord_inv_pending_distinct:
  "coord_inv T pending completed started \<Longrightarrow> distinct (map et_id pending)"
  by (simp add: coord_inv_def)

lemma blocking_found:
  "findBlockingDependency t completed = Some dep \<Longrightarrow> blocks dep"
  by (auto simp: findBlockingDependency_def dest: find_first_Some)

lemma blocking_none:
  assumes "findBlockingDependency t completed = None" "d \<in> set (pt_dependencies t)"
    "map_of completed d = Some r"
  shows "\<not> blocks r"
  using assms by (force simp: findBlockingDependency_def find_first_None List.map_filter_def)

lemma coord_inv_mark:
  assumes T: "distinct (map et_id T)"
  shows "\<lbrakk>coord_inv T pending completed started; set copy \<subseteq> set pending; distinct (map et_id copy);
          mark_blocked root copy (pending, completed, found) = (p, c, f)\<rbrakk> \<Longrightarrow>
         coord_inv T p c started"
proof (induction copy arbitrary: pending completed found)
  case (Cons t copy)
  show ?case
  proof (cases "findBlockingDependency t completed")
    case None
    with Cons show ?thesis by auto
  next
    case (Some dep)
    let ?r = "buildBlockedDependencyResult t dep root"
    have r: "er_taskId ?r = et_id t" "er_status ?r = RFailed"
      by (simp_all add: buildBlockedDependencyResult_def failed_result_def Let_def)
    have "coord_inv T (remove_task (et_id t) pending) (AList.update (et_id t) ?r completed) started"
      using coord_inv_complete [OF T Cons.prems(1) _ r(1)] r(2) Cons.prems(2) by simp
    moreover have "set copy \<subseteq> set (remove_task (et_id t) pending)"
      using Cons.prems(2,3) remove_task_set [OF coord_inv_pending_distinct [OF Cons.prems(1)]]
      by (auto simp: image_iff)
    ultimately show ?thesis using Cons.IH Cons.prems(3,4) Some by auto
  qed
qed simp

lemma coord_inv_settle:
  assumes T: "distinct (map et_id T)"
  shows "\<lbrakk>coord_inv T pending completed started; set ts \<subseteq> set pending; distinct (map et_id ts);
          map er_taskId rs = map et_id ts; \<forall>t \<in> set ts. deps_ok completed t\<rbrakk> \<Longrightarrow>
         coord_inv T (fold (\<lambda>r. remove_task (er_taskId r)) rs pending)
           (fold (\<lambda>r. AList.update (er_taskId r) r) rs completed) started \<and>
         (\<forall>t \<in> set ts. deps_ok (fold (\<lambda>r. AList.update (er_taskId r) r) rs completed) t \<and>
            et_id t \<in> dom (map_of (fold (\<lambda>r. AList.update (er_taskId r) r) rs completed))) \<and>
         (\<forall>t. deps_ok completed t \<longrightarrow>
            deps_ok (fold (\<lambda>r. AList.update (er_taskId r) r) rs completed) t) \<and>
         dom (map_of completed) \<subseteq>
           dom (map_of (fold (\<lambda>r. AList.update (er_taskId r) r) rs completed))"
proof (induction rs arbitrary: ts pending completed)
  case (Cons r rs)
  then obtain t ts' where ts: "ts = t # ts'" "er_taskId r = et_id t"
    "map er_taskId rs = map et_id ts'"
    by (cases ts) auto
  let ?c = "AList.update (et_id t) r completed"
  have fresh: "et_id t \<notin> dom (map_of completed)"
    using Cons.prems(1,2) ts(1) by (auto simp: coord_inv_def)
  have inv: "coord_inv T (remove_task (et_id t) pending) ?c started"
    using coord_inv_complete [OF T Cons.prems(1) _ ts(2)] Cons.prems(2,5) ts(1) by simp
  have sub: "set ts' \<subseteq> set (remove_task (et_id t) pending)"
    using Cons.prems(2,3) ts(1) remove_task_set [OF coord_inv_pending_distinct [OF Cons.prems(1)]]
    by (auto simp: image_iff)
  have "\<forall>u \<in> set ts. deps_ok ?c u"
    using Cons.prems(5) deps_ok_update [OF _ fresh] by blast
  then have "\<forall>u \<in> set ts'. deps_ok ?c u" "deps_ok ?c t" using ts(1) by auto
  from Cons.IH [OF inv sub _ ts(3) this(1)] this(2) Cons.prems(3) ts
  show ?case
    using deps_ok_update [OF _ fresh] by (auto simp: dom_update)
qed auto

text \<open>The tasks of a batch that all got their results have been started.\<close>

lemma coord_inv_start_batch:
  assumes "coord_inv T pending completed started" "set batch \<subseteq> set T" "distinct (map et_id batch)"
    and "\<forall>t \<in> set batch. deps_ok completed t \<and> et_id t \<in> dom (map_of completed)"
    and "et_id ` set batch \<inter> et_id ` set started = {}"
  shows "coord_inv T pending completed (started @ batch)"
  using assms unfolding coord_inv_def by (auto simp: image_iff)

lemma fill_batch_distinct:
  assumes "distinct (map et_id (batch @ ready))"
  shows "distinct (map et_id (fill_batch m act ready batch))"
  using assms
proof (induction m act ready batch rule: fill_batch.induct)
  case (2 m act t ready batch)
  then show ?case
    by (cases "m \<le> length batch"; cases "taskConflicts t (act @ concat (map pt_resourceLocks batch))")
       auto
qed simp

lemma batch_distinct:
  "distinct (map et_id pending) \<Longrightarrow> distinct (map et_id (buildReadyBatch pending completed inFlight m))"
  by (simp add: buildReadyBatch_def Let_def fill_batch_distinct distinct_map_filter)

lemma batch_conflict_free: "conflict_free (buildReadyBatch pending completed inFlight m)"
  unfolding buildReadyBatch_def Let_def
  by (rule fill_batch_conflict_free) (simp add: conflict_free_def)

lemma ready_deps_ok: "task_ready (map_of completed) act t \<Longrightarrow> deps_ok completed t"
  by (auto simp: task_ready_def deps_ok_def list_all_iff blocks_def
      elim!: dependencyAllowsExecution.elims)

text \<open>What holds of the batches whether the loop ends well or with an error.\<close>

definition batches_ok :: "exec_task list \<Rightarrow> nat \<Rightarrow> exec_task list list \<Rightarrow> bool" where
  "batches_ok T m bs \<longleftrightarrow>
     (\<forall>b \<in> set bs. conflict_free b \<and> b \<noteq> [] \<and> length b \<le> m \<and> set b \<subseteq> set T) \<and>
     distinct (map et_id (concat bs))"

definition state_inv :: "exec_task list \<Rightarrow> nat \<Rightarrow> coord_state \<Rightarrow> bool" where
  "state_inv T m s \<longleftrightarrow>
     coord_inv T (cs_pending s) (cs_completed s) (concat (cs_batches s)) \<and>
     batches_ok T m (cs_batches s)"

lemma state_inv_facts:
  assumes "state_inv T m s"
  shows "distinct (map et_id (cs_pending s))" "set (cs_pending s) \<subseteq> set T"
    "t \<in> set T \<Longrightarrow> t \<in> set (cs_pending s) \<longleftrightarrow> et_id t \<notin> dom (map_of (cs_completed s))"
    "distinct (map fst (cs_completed s))" "dom (map_of (cs_completed s)) \<subseteq> et_id ` set T"
    "map_of (cs_completed s) k = Some r \<Longrightarrow> er_taskId r = k"
    "u \<in> set (concat (cs_batches s)) \<Longrightarrow> u \<in> set T"
    "u \<in> set (concat (cs_batches s)) \<Longrightarrow> et_id u \<in> dom (map_of (cs_completed s))"
    "distinct (map et_id (concat (cs_batches s)))"
    "t \<in> set T \<Longrightarrow> map_of (cs_completed s) (et_id t) = Some r \<Longrightarrow>
       er_status r = RFailed \<and> t \<notin> set (concat (cs_batches s)) \<or> deps_ok (cs_completed s) t"
  using assms [unfolded state_inv_def coord_inv_def, THEN conjunct1]
  by (elim conjE; blast)+

lemma batches_ok_snoc:
  assumes T: "distinct (map et_id T)" and inv: "state_inv T m s"
    and b: "batch = buildReadyBatch (cs_pending s) (map_of (cs_completed s)) [] m" "batch \<noteq> []"
  shows "batches_ok T m (cs_batches s @ [batch])"
    and "et_id ` set batch \<inter> et_id ` set (concat (cs_batches s)) = {}"
    and "distinct (map et_id batch)" "set batch \<subseteq> set (cs_pending s)"
    "\<forall>t \<in> set batch. deps_ok (cs_completed s) t"
proof -
  note c = inv [unfolded state_inv_def coord_inv_def]
  show sub: "set batch \<subseteq> set (cs_pending s)" using batch_subset b(1) by metis
  show d: "distinct (map et_id batch)" using b(1) c batch_distinct by blast
  have "et_id t \<notin> dom (map_of (cs_completed s))" if "t \<in> set batch" for t
    using that sub c by (meson subset_iff)
  moreover have "et_id t \<in> dom (map_of (cs_completed s))" if "t \<in> set (concat (cs_batches s))" for t
    using that c by blast
  ultimately show disj: "et_id ` set batch \<inter> et_id ` set (concat (cs_batches s)) = {}"
    unfolding disjoint_iff by (metis imageE)
  show "\<forall>t \<in> set batch. deps_ok (cs_completed s) t"
    using batch_ready ready_deps_ok b(1) by blast
  have "conflict_free batch" "length batch \<le> m"
    using b(1) batch_conflict_free batch_length by auto
  moreover have "set batch \<subseteq> set T" using sub c by blast
  moreover have "distinct (map et_id (concat (cs_batches s)))"
    "\<forall>b \<in> set (cs_batches s). conflict_free b \<and> b \<noteq> [] \<and> length b \<le> m \<and> set b \<subseteq> set T"
    using inv by (simp_all add: state_inv_def batches_ok_def)
  moreover have "distinct (map et_id (concat (cs_batches s @ [batch])))"
    if "distinct (map et_id (concat (cs_batches s)))"
    using that d disj
    by (simp only: concat_append map_append distinct_append set_map concat.simps append_Nil2 Int_commute)
  ultimately show "batches_ok T m (cs_batches s @ [batch])"
    using b(2) unfolding batches_ok_def by (simp only: set_append ball_Un) simp
qed

lemma round_inv:
  assumes T: "distinct (map et_id T)" and inv: "state_inv T (batch_limit env strategy) s"
    and r: "plan_round env strategy s = res"
  shows "case res of Inr s' \<Rightarrow> state_inv T (batch_limit env strategy) s'
         | Inl (e, s') \<Rightarrow> batches_ok T (batch_limit env strategy) (cs_batches s')"
  using r
proof (cases rule: round_cases)
  case (marked p c)
  have "coord_inv T p c (concat (cs_batches s))"
    using coord_inv_mark [OF T _ _ _ marked(1)] inv
    by (simp add: state_inv_def coord_inv_pending_distinct)
  with inv marked(2) show ?thesis by (simp add: state_inv_def)
next
  case stuck
  with inv show ?thesis by (simp add: state_inv_def)
next
  case (threw e batch s2)
  with batches_ok_snoc(1) [OF T inv threw(1,2)] show ?thesis by simp
next
  case (ran rs batch s2)
  note b = batches_ok_snoc [OF T inv ran(1,2)]
  have len: "length batch \<le> batch_limit env strategy" using ran(1) batch_length by blast
  have ids: "map er_taskId rs = map et_id batch" using round_ids [OF ran(4) ran(2) len] .
  have ci: "coord_inv T (cs_pending s) (cs_completed s) (concat (cs_batches s))"
    using inv by (simp add: state_inv_def)
  have subT: "set batch \<subseteq> set T" using b(4) ci by (auto simp: coord_inv_def)
  note st = coord_inv_settle [OF T ci b(4) b(3) ids b(5)]
  have "coord_inv T (cs_pending (settle rs s2)) (cs_completed (settle rs s2))
          (concat (cs_batches s) @ batch)"
    using coord_inv_start_batch [OF _ subT b(3) _ b(2)] st ran(5) by (simp add: settle_sel)
  with b(1) ran(3,5) show ?thesis by (simp add: state_inv_def settle_sel)
qed

lemma loop_inv:
  assumes T: "distinct (map et_id T)"
  shows "state_inv T (batch_limit env strategy) s \<Longrightarrow> run_plan_loop env strategy s = res \<Longrightarrow>
         case res of Inr s' \<Rightarrow> state_inv T (batch_limit env strategy) s' \<and> cs_pending s' = []
         | Inl (e, s') \<Rightarrow> batches_ok T (batch_limit env strategy) (cs_batches s')"
proof (induction env strategy s rule: run_plan_loop.induct)
  case (1 env strategy s)
  show ?case
  proof (cases "cs_pending s = []")
    case True
    with 1 show ?thesis by (auto simp: run_plan_loop.simps)
  next
    case False
    with 1 round_inv [OF T "1.prems"(1) refl] show ?thesis
      by (cases "plan_round env strategy s") (auto simp: run_plan_loop.simps)
  qed
qed

lemma start_inv: "distinct (map et_id T) \<Longrightarrow> state_inv T m (start_state T)"
  by (simp add: state_inv_def start_state_def coord_inv_start batches_ok_def)

end
