(* ===== verification/CoordinatorProps.thy ===== *)
theory CoordinatorProps
  imports CoordinatorInv
begin

text \<open>The properties of the planner, the locks and the coordinator.\<close>

section \<open>What the task store is told\<close>

definition expected_actions :: "results \<Rightarrow> exec_task \<Rightarrow> task_action list" where
  "expected_actions completed t =
     (if persisted t then
        [StoreCreated (et_id t),
         StoreCompleted (et_id t) (stored_status (er_status (the (map_of completed (et_id t)))))]
      else [])"

lemma runTask_actions:
  assumes "runTaskWithTrace env t = (as, Inr r)"
  shows "as = (if persisted t then [StoreCreated (et_id t),
                 StoreCompleted (et_id t) (stored_status (er_status r))] else [])"
  using assms
  by (auto simp: runTaskWithTrace_def Let_def persistTaskCreated_def persistTaskCompleted_def
      split: if_splits sum.splits)

lemma persisted_bind [simp]: "persisted (bind_inputs c t) = persisted t"
  by (simp add: persisted_def)

lemma runs_actions:
  assumes "map (snd \<circ> runTaskWithTrace env) ts = map Inr rs"
  shows "concat (map (fst \<circ> runTaskWithTrace env) ts) =
         concat (map2 (\<lambda>t r. if persisted t then [StoreCreated (et_id t),
                 StoreCompleted (et_id t) (stored_status (er_status r))] else []) ts rs)"
  using assms
proof (induction ts arbitrary: rs)
  case (Cons t ts)
  then obtain r rs' where rs: "rs = r # rs'" "snd (runTaskWithTrace env t) = Inr r"
    by (cases rs) auto
  have "fst (runTaskWithTrace env t) = (if persisted t then [StoreCreated (et_id t),
                 StoreCompleted (et_id t) (stored_status (er_status r))] else [])"
    using runTask_actions [of env t "fst (runTaskWithTrace env t)" r] rs(2)
    by (metis prod.collapse)
  with Cons rs show ?case by simp
qed simp

lemma settle_map_of:
  assumes "distinct (map er_taskId rs)"
  shows "map_of (fold (\<lambda>r. AList.update (er_taskId r) r) rs c) i =
         (case find (\<lambda>r. er_taskId r = i) rs of Some r \<Rightarrow> Some r | None \<Rightarrow> map_of c i)"
  using assms
proof (induction rs arbitrary: c)
  case (Cons r rs)
  have "find (\<lambda>x. er_taskId x = er_taskId r) rs = None"
    using Cons.prems by (auto simp: find_None_iff image_iff)
  with Cons show ?case by (auto simp: AList.update_conv' split: option.splits)
qed simp

lemma map2_expected:
  assumes "map er_taskId rs = map et_id ts" "distinct (map et_id ts)"
    and "\<forall>r \<in> set rs. map_of c (er_taskId r) = Some r"
  shows "concat (map2 (\<lambda>t r. if persisted t then [StoreCreated (et_id t),
                 StoreCompleted (et_id t) (stored_status (er_status r))] else []) ts rs) =
         concat (map (expected_actions c) ts)"
  using assms
proof (induction ts arbitrary: rs)
  case (Cons t ts)
  then obtain r rs' where rs: "rs = r # rs'" "er_taskId r = et_id t" by (cases rs) auto
  with Cons show ?case by (auto simp: expected_actions_def)
qed simp

lemma expected_bind: "expected_actions c (bind_inputs d t) = expected_actions c t"
  by (simp add: expected_actions_def)

lemma mark_blocked_stable:
  "mark_blocked root copy (p0, c0, f0) = (p', c', f') \<Longrightarrow> i \<notin> et_id ` set copy \<Longrightarrow>
   map_of c' i = map_of c0 i"
proof (induction copy arbitrary: p0 c0 f0)
  case (Cons t copy)
  show ?case
  proof (cases "findBlockingDependency t c0")
    case None
    with Cons.IH [of p0 c0 f0] Cons.prems show ?thesis by simp
  next
    case (Some dep)
    let ?r = "buildBlockedDependencyResult t dep root"
    have "map_of c' i = map_of (AList.update (et_id t) ?r c0) i"
      using Cons.IH [of "remove_task (et_id t) p0" "AList.update (et_id t) ?r c0" True]
        Cons.prems Some by simp
    with Cons.prems(2) show ?thesis by (simp add: AList.update_conv')
  qed
qed simp

lemma pending_open:
  assumes "state_inv T m s" "i \<in> dom (map_of (cs_completed s))"
  shows "i \<notin> et_id ` set (cs_pending s)"
  using assms(2) state_inv_facts(2,3) [OF assms(1)] by (metis imageE subsetD)

lemma round_actions:
  assumes T: "distinct (map et_id T)" and inv: "state_inv T (batch_limit env strategy) s"
    and acts: "cs_actions s = concat (map (expected_actions (cs_completed s)) (concat (cs_batches s)))"
    and r: "plan_round env strategy s = Inr s'"
  shows "cs_actions s' = concat (map (expected_actions (cs_completed s')) (concat (cs_batches s')))"
proof -
  have started: "et_id t \<in> dom (map_of (cs_completed s))" if "t \<in> set (concat (cs_batches s))" for t
    using state_inv_facts(8) [OF inv that] .
  have stable: "concat (map (expected_actions c) (concat (cs_batches s))) =
      concat (map (expected_actions (cs_completed s)) (concat (cs_batches s)))"
    if "\<And>i. i \<in> dom (map_of (cs_completed s)) \<Longrightarrow> map_of c i = map_of (cs_completed s) i" for c
    using that started
    by (intro arg_cong [where f = concat] map_cong refl) (simp add: expected_actions_def)
  show ?thesis
    using r
  proof (cases rule: round_cases)
    case (marked p c)
    have "i \<notin> et_id ` set (cs_pending s)" if "i \<in> dom (map_of (cs_completed s))" for i
      using pending_open [OF inv that] .
    then have same: "map_of c i = map_of (cs_completed s) i"
      if "i \<in> dom (map_of (cs_completed s))" for i
      using mark_blocked_stable [OF marked(1)] that by blast
    show ?thesis using marked(2) acts stable [OF same] by simp
  next
    case (ran rs batch s2)
    note b = batches_ok_snoc [OF T inv ran(1,2)]
    have len: "length batch \<le> batch_limit env strategy" using ran(1) batch_length by blast
    have ids: "map er_taskId rs = map et_id batch" using round_ids [OF ran(4) ran(2) len] .
    let ?c = "fold (\<lambda>r. AList.update (er_taskId r) r) rs (cs_completed s)"
    have dr: "distinct (map er_taskId rs)" using ids b(3) by simp
    have found: "map_of ?c (er_taskId r) = Some r" if "r \<in> set rs" for r
    proof -
      have "find (\<lambda>x. er_taskId x = er_taskId r) rs \<noteq> None" using that by (auto simp: find_None_iff)
      then obtain r' where r': "find (\<lambda>x. er_taskId x = er_taskId r) rs = Some r'" by blast
      then have "r' \<in> set rs" "er_taskId r' = er_taskId r"
        by (auto simp: find_Some_iff in_set_conv_nth)
      then have "r' = r" using dr that by (auto simp: distinct_map dest: inj_onD)
      with r' dr show ?thesis by (simp add: settle_map_of)
    qed
    have old: "map_of ?c i = map_of (cs_completed s) i" if i: "i \<in> dom (map_of (cs_completed s))" for i
    proof -
      have "i \<notin> et_id ` set (cs_pending s)"
        using pending_open [OF inv i] .
      then have "i \<notin> set (map er_taskId rs)" using ids b(4) by auto
      then have "find (\<lambda>x. er_taskId x = i) rs = None" by (auto simp: find_None_iff)
      with dr show ?thesis by (simp add: settle_map_of)
    qed
    define ts where "ts = (if strategy = MParallel then map (bind_inputs (cs_completed s)) batch
           else [hd (map (bind_inputs (cs_completed s)) batch)])"
    have ts: "ts = map (bind_inputs (cs_completed s)) batch"
      using ran(2) len by (cases batch) (auto simp: ts_def batch_limit_def)
    have "map (snd \<circ> runTaskWithTrace env) ts = map Inr rs"
      using ran(4) by (simp add: round_runs_def ts_def)
    from runs_actions [OF this]
    have "concat (map fst (round_runs env strategy (cs_completed s) batch)) =
          concat (map (expected_actions ?c) ts)"
      using map2_expected [of rs ts ?c] ids b(3) found ts
      by (simp add: round_runs_def ts_def [symmetric] comp_def)
    also have "\<dots> = concat (map (expected_actions ?c) batch)"
      by (simp add: ts comp_def expected_bind)
    finally show ?thesis
      using ran(3,5) acts stable [OF old] by (simp add: settle_sel)
  qed simp_all
qed

lemma loop_actions:
  assumes T: "distinct (map et_id T)"
  shows "state_inv T (batch_limit env strategy) s \<Longrightarrow>
         cs_actions s = concat (map (expected_actions (cs_completed s)) (concat (cs_batches s))) \<Longrightarrow>
         run_plan_loop env strategy s = Inr s' \<Longrightarrow>
         cs_actions s' = concat (map (expected_actions (cs_completed s')) (concat (cs_batches s')))"
proof (induction env strategy s rule: run_plan_loop.induct)
  case (1 env strategy s)
  show ?case
  proof (cases "cs_pending s = []")
    case True
    with 1 show ?thesis by (auto simp: run_plan_loop.simps)
  next
    case False
    then obtain s1 where s1: "plan_round env strategy s = Inr s1"
      and run: "run_plan_loop env strategy s1 = Inr s'"
      using "1.prems"(3) by (auto simp: run_plan_loop.simps [of env strategy s] split: sum.splits)
    show ?thesis
      using "1.IH" [OF False s1 _ round_actions [OF T "1.prems"(1,2) s1] run]
        round_inv [OF T "1.prems"(1) s1] by simp
  qed
qed

lemma materialize_ids:
  "length ids = length (ep_tasks plan) \<Longrightarrow> map et_id (materializePlan plan ids) = ids"
  by (auto simp: materializePlan_def planned_task.defs intro!: nth_equalityI)

section \<open>A successful execution\<close>

lemma execute_cases:
  assumes "executeRequestPlan env encode plan ids vid = (as, Inr res)"
    and "ep_strategy plan \<noteq> MDirect" "length ids = length (ep_tasks plan)" "distinct ids"
  obtains s as2 v where
    "state_inv (materializePlan plan ids) (batch_limit env (ep_strategy plan)) s"
    "cs_pending s = []"
    "as = concat (map (expected_actions (cs_completed s)) (concat (cs_batches s))) @ as2"
    "es_taskResults res = map snd (cs_completed s) @ (case v of None \<Rightarrow> [] | Some x \<Rightarrow> [x])"
    "case v of None \<Rightarrow> as2 = []
     | Some x \<Rightarrow> er_taskId x = vid \<and>
         as2 = [StoreCreated vid, StoreCompleted vid (stored_status (er_status x))]"
proof (cases "ep_tasks plan = []")
  case True
  with assms(1,3) have "as = []" "es_taskResults res = []"
    by (auto simp: executeRequestPlan_def)
  with that [of "start_state []" "[]" None] True show thesis
    by (simp add: start_state_def materializePlan_def state_inv_def coord_inv_start batches_ok_def)
next
  case False
  let ?T = "materializePlan plan ids"
  have T: "distinct (map et_id ?T)" using assms(3,4) by (simp add: materialize_ids)
  obtain s where s: "run_plan_loop env (ep_strategy plan) (start_state ?T) = Inr s"
    using assms(1,2) False by (auto simp: executeRequestPlan_def split: sum.splits)
  obtain as2 v where v: "runValidatorIfNeeded env encode vid plan (map snd (cs_completed s)) = (as2, Inr v)"
    and as: "as = cs_actions s @ as2"
    and res: "res = buildExecutionSummary (ep_strategy plan) (map snd (cs_completed s)) v"
    using assms(1,2) False s
    by (auto simp: executeRequestPlan_def map_sum_def Let_def split: prod.splits sum.splits)
  have "cs_actions s = concat (map (expected_actions (cs_completed s)) (concat (cs_batches s)))"
    using loop_actions [OF T start_inv [OF T] _ s] by (simp add: start_state_def)
  moreover have "case v of None \<Rightarrow> as2 = []
     | Some x \<Rightarrow> er_taskId x = vid \<and>
         as2 = [StoreCreated vid, StoreCompleted vid (stored_status (er_status x))]"
  proof (cases v)
    case None
    with v show ?thesis
      by (auto simp: runValidatorIfNeeded_def map_sum_def split: if_splits prod.splits sum.splits)
  next
    case (Some x)
    let ?t = "validator_task encode vid plan (map snd (cs_completed s))"
    have "runTaskWithTrace env ?t = (as2, Inr x)"
      using v Some
      by (auto simp: runValidatorIfNeeded_def map_sum_def split: if_splits prod.splits sum.splits)
    from runTask_actions [OF this] runTask_id [OF this] Some show ?thesis
      by (simp add: validator_task_def persisted_def)
  qed
  ultimately show thesis
    using that [of s as2 v] loop_inv [OF T start_inv [OF T] s] as res by simp
qed

lemma completed_ids:
  assumes "state_inv T m s" "cs_pending s = []"
  shows "map (\<lambda>x. er_taskId (snd x)) (cs_completed s) = map fst (cs_completed s)"
    and "distinct (map fst (cs_completed s))"
    and "dom (map_of (cs_completed s)) = et_id ` set T"
proof -
  note c = state_inv_facts [OF assms(1)]
  show d: "distinct (map fst (cs_completed s))" using c(4) .
  show "map (\<lambda>x. er_taskId (snd x)) (cs_completed s) = map fst (cs_completed s)"
    using d c(6) by (auto intro!: map_cong)
  have "et_id t \<in> dom (map_of (cs_completed s))" if "t \<in> set T" for t
    using c(3) [OF that] assms(2) by simp
  with c(5) show "dom (map_of (cs_completed s)) = et_id ` set T" by blast
qed

text \<open>
  C5. An execution that returns a summary has exactly one result for every task of the plan, in any
  order, and after them at most the validator's.
\<close>

theorem coordinator_settles_every_task:
  assumes "executeRequestPlan env encode plan ids vid = (as, Inr res)"
    and "ep_strategy plan \<noteq> MDirect" "length ids = length (ep_tasks plan)" "distinct ids"
  shows "\<exists>rs v. es_taskResults res = rs @ v \<and> length v \<le> 1 \<and> distinct (map er_taskId rs) \<and>
           set (map er_taskId rs) = set ids"
proof (rule execute_cases [OF assms])
  fix s as2 v
  let ?T = "materializePlan plan ids"
  assume inv: "state_inv ?T (batch_limit env (ep_strategy plan)) s" "cs_pending s = []"
    and r: "es_taskResults res = map snd (cs_completed s) @ (case v of None \<Rightarrow> [] | Some x \<Rightarrow> [x])"
  note c = completed_ids [OF inv]
  have m: "map er_taskId (map snd (cs_completed s)) = map fst (cs_completed s)"
    unfolding map_map comp_def by (rule c(1))
  have D: "distinct (map er_taskId (map snd (cs_completed s)))" unfolding m by (rule c(2))
  have "set (map fst (cs_completed s)) = set ids"
    using c(3) materialize_ids [OF assms(3)]
    by (metis dom_map_of_conv_image_fst list.set_map)
  with m D r show ?thesis
    by (rule_tac x = "map snd (cs_completed s)" in exI)
       (rule_tac x = "case v of None \<Rightarrow> [] | Some x \<Rightarrow> [x]" in exI, simp split: option.splits)
qed

text \<open>
  C34. Failure propagates and stops work: when a dependency of a task failed or escalated, the task's
  own result is a failure, and the task was never created in the task store.
\<close>

theorem coordinator_failure_propagates:
  assumes "executeRequestPlan env encode plan ids vid = (as, Inr res)"
    and "ep_strategy plan \<noteq> MDirect" "length ids = length (ep_tasks plan)" "distinct ids"
    and "vid \<notin> set ids" "t \<in> set (materializePlan plan ids)" "d \<in> set (pt_dependencies t)"
    and "rd \<in> set (es_taskResults res)" "er_taskId rd = d" "d \<in> set ids" "blocks rd"
  shows "(\<exists>r \<in> set (es_taskResults res). er_taskId r = et_id t \<and> er_status r = RFailed) \<and>
         StoreCreated (et_id t) \<notin> set as"
proof (rule execute_cases [OF assms(1-4)])
  fix s as2 v
  let ?T = "materializePlan plan ids"
  assume inv: "state_inv ?T (batch_limit env (ep_strategy plan)) s" "cs_pending s = []"
    and as: "as = concat (map (expected_actions (cs_completed s)) (concat (cs_batches s))) @ as2"
    and r: "es_taskResults res = map snd (cs_completed s) @ (case v of None \<Rightarrow> [] | Some x \<Rightarrow> [x])"
    and v: "case v of None \<Rightarrow> as2 = []
     | Some x \<Rightarrow> er_taskId x = vid \<and>
         as2 = [StoreCreated vid, StoreCompleted vid (stored_status (er_status x))]"
  note c = completed_ids [OF inv]
  have T: "distinct (map et_id ?T)" using assms(3,4) by (simp add: materialize_ids)
  have tid: "et_id t \<in> set ids" using assms(6) materialize_ids [OF assms(3)] by (metis image_eqI list.set_map)
  have "rd \<in> snd ` set (cs_completed s)"
    using r v assms(5,8,9,10) by (auto split: option.splits)
  then obtain k where "(k, rd) \<in> set (cs_completed s)" by force
  moreover from this c(1) have "k = d" using assms(9) by (auto simp: map_eq_conv)
  ultimately have rd: "map_of (cs_completed s) d = Some rd" using c(2) by simp
  have "et_id t \<in> dom (map_of (cs_completed s))" using c(3) assms(6) by simp
  then obtain x where x: "map_of (cs_completed s) (et_id t) = Some x" by blast
  have "er_status x = RFailed \<and> t \<notin> set (concat (cs_batches s)) \<or> deps_ok (cs_completed s) t"
    using state_inv_facts(10) [OF inv(1) assms(6) x] .
  moreover have "\<not> deps_ok (cs_completed s) t"
    using assms(7,11) rd unfolding deps_ok_def by (metis option.inject)
  ultimately have t: "er_status x = RFailed" "t \<notin> set (concat (cs_batches s))"
    by blast+
  have "x \<in> set (es_taskResults res)" using r map_of_SomeD [OF x] by force
  moreover have "er_taskId x = et_id t"
    using map_of_SomeD [OF x] c(1) by (auto simp: map_eq_conv)
  moreover have "et_id u \<noteq> et_id t" if "u \<in> set (concat (cs_batches s))" for u
    using that t(2) et_id_inj [OF T state_inv_facts(7) [OF inv(1) that] assms(6)] by metis
  then have "StoreCreated (et_id t) \<notin> set (concat (map (expected_actions (cs_completed s)) (concat (cs_batches s))))"
    by (force simp: expected_actions_def split: if_splits)
  moreover have "StoreCreated (et_id t) \<notin> set as2"
    using v tid assms(5) by (auto split: option.splits)
  ultimately show ?thesis using t(1) as by auto
qed

fun action_task :: "task_action \<Rightarrow> string" where
  "action_task (StoreCreated i) = i"
| "action_task (StoreCompleted i s) = i"

lemma expected_filter:
  assumes "distinct (map et_id ts)" "t \<in> set ts"
  shows "filter (\<lambda>a. action_task a = et_id t) (concat (map (expected_actions c) ts)) =
         expected_actions c t"
  using assms
proof (induction ts)
  case (Cons u ts)
  have other: "filter (\<lambda>a. action_task a = et_id v) (concat (map (expected_actions c) us)) = []"
    if "et_id v \<notin> et_id ` set us" for v us
    using that by (induction us) (auto simp: expected_actions_def)
  have same: "filter (\<lambda>a. action_task a = et_id u) (expected_actions c u) = expected_actions c u"
    by (simp add: expected_actions_def)
  show ?case
  proof (cases "t = u")
    case True
    with Cons.prems other [of u ts] same show ?thesis by simp
  next
    case False
    with Cons.prems have "et_id u \<noteq> et_id t" "t \<in> set ts" by auto
    then have "filter (\<lambda>a. action_task a = et_id t) (expected_actions c u) = []"
      by (simp add: expected_actions_def)
    with Cons \<open>t \<in> set ts\<close> show ?thesis by simp
  qed
qed simp

lemma expected_filter_other:
  "i \<notin> et_id ` set ts \<Longrightarrow>
   filter (\<lambda>a. action_task a = i) (concat (map (expected_actions c) ts)) = []"
  by (induction ts) (auto simp: expected_actions_def)


section \<open>Batches\<close>

text \<open>The batches of the loop, whether it ended well or with an error.\<close>

definition loop_batches :: "coord_env \<Rightarrow> execution_mode \<Rightarrow> exec_task list \<Rightarrow> exec_task list list" where
  "loop_batches env strategy T =
     cs_batches (case run_plan_loop env strategy (start_state T) of Inl (e, s) \<Rightarrow> s | Inr s \<Rightarrow> s)"

text \<open>
  C2. Tasks that run together never conflict: in every batch of an execution, whether it ends well or
  with an error, no two tasks hold conflicting locks, there are at most as many as the limit allows
  (one unless the strategy is parallel), and no task is ever started twice.
\<close>

theorem coordinator_batches_safe:
  assumes "distinct (map et_id T)" and "b \<in> set (loop_batches env strategy T)"
  shows "length b \<le> batch_limit env strategy \<and>
         (\<forall>i j. i < j \<and> j < length b \<longrightarrow> \<not> tasks_conflict (b ! i) (b ! j)) \<and>
         distinct (map et_id (concat (loop_batches env strategy T)))"
proof -
  have "batches_ok T (batch_limit env strategy) (loop_batches env strategy T)"
    using loop_inv [OF assms(1) start_inv [OF assms(1)] refl, of env strategy]
    by (auto simp: loop_batches_def state_inv_def split: sum.splits prod.splits)
  with assms(2) show ?thesis
    by (auto simp: batches_ok_def conflict_free_def sorted_wrt_iff_nth_less)
qed

section \<open>Progress\<close>

text \<open>Every dependency refers to an earlier task of the plan.\<close>

definition back_references :: "execution_plan \<Rightarrow> bool" where
  "back_references plan \<longleftrightarrow>
     list_all (\<lambda>(i, t). list_all (\<lambda>d. case task_ref d of None \<Rightarrow> False | Some j \<Rightarrow> j < i)
        (pt_dependencies t)) (enumerate 0 (ep_tasks plan))"

definition ordered_tasks :: "exec_task list \<Rightarrow> bool" where
  "ordered_tasks T \<longleftrightarrow>
     (\<forall>i < length T. \<forall>d \<in> set (pt_dependencies (T ! i)). \<exists>j < i. d = et_id (T ! j))"

lemma materialize_ordered:
  assumes "back_references plan" "length ids = length (ep_tasks plan)"
  shows "ordered_tasks (materializePlan plan ids)"
  unfolding ordered_tasks_def
proof (intro allI impI ballI)
  fix i d
  let ?T = "materializePlan plan ids"
  assume i: "i < length ?T" and d: "d \<in> set (pt_dependencies (?T ! i))"
  have len: "length ?T = length ids" using assms(2) by (simp add: materializePlan_def)
  have nth: "et_id (?T ! j) = ids ! j" if "j < length ids" for j
    using materialize_ids [OF assms(2)] that len by (metis nth_map)
  from d i obtain d0 where d0: "d0 \<in> set (pt_dependencies (ep_tasks plan ! i))"
    "d = resolve_ref ids d0"
    by (auto simp: materializePlan_def planned_task.defs)
  have "list_all (\<lambda>d. case task_ref d of None \<Rightarrow> False | Some j \<Rightarrow> j < i)
          (pt_dependencies (ep_tasks plan ! i))"
    using assms(1) i len assms(2)
    by (auto simp: back_references_def list_all_length nth_enumerate_eq)
  with d0(1) obtain j where j: "task_ref d0 = Some j" "j < i"
    by (auto simp: list_all_iff split: option.splits)
  then show "\<exists>j < i. d = et_id (?T ! j)"
    using d0(2) i len by (intro exI [of _ j]) (auto simp: resolve_ref_def nth_opt_def nth)
qed

lemma round_progress:
  assumes T: "distinct (map et_id T)" and o: "ordered_tasks T"
    and inv: "state_inv T (batch_limit env strategy) s"
    and p: "cs_pending s \<noteq> []" and m: "0 < batch_limit env strategy"
    and L: "\<And>i k. ce_ledger env i k"
  shows "\<exists>s'. plan_round env strategy s = Inr s'"
proof -
  obtain res where res: "plan_round env strategy s = res" by blast
  then show ?thesis
  proof (cases rule: round_cases)
    case stuck
    note pend = state_inv_facts(3) [OF inv] and sub = state_inv_facts(2) [OF inv]
    define P where "P i \<longleftrightarrow> i < length T \<and> T ! i \<in> set (cs_pending s)" for i
    have "\<exists>i. P i" using p sub unfolding P_def by (metis in_set_conv_nth list.set_intros(1) neq_Nil_conv subsetD)
    then obtain i where i: "P i" "\<And>j. j < i \<Longrightarrow> \<not> P j"
      by (metis LeastI_ex not_less_Least)
    have "deps_ok (cs_completed s) (T ! i)"
      unfolding deps_ok_def
    proof
      fix d assume d: "d \<in> set (pt_dependencies (T ! i))"
      then obtain j where j: "j < i" "d = et_id (T ! j)"
        using o i(1) by (auto simp: ordered_tasks_def P_def)
      then have "T ! j \<notin> set (cs_pending s)" "T ! j \<in> set T" using i by (auto simp: P_def)
      then obtain r where "map_of (cs_completed s) d = Some r" using pend j(2) by auto
      moreover have "\<not> blocks r"
        using blocking_none [OF _ d calculation] stuck(2) i(1) by (simp add: P_def)
      ultimately show "\<exists>r. map_of (cs_completed s) d = Some r \<and> \<not> blocks r" by blast
    qed
    then have "task_ready (map_of (cs_completed s)) [] (T ! i)"
      by (fastforce simp: deps_ok_def task_ready_def list_all_iff blocks_def taskConflicts_def
          list_ex_iff)
    with batch_empty_iff [OF m] stuck(1) i(1) show ?thesis by (auto simp: P_def)
  next
    case (threw e batch s2)
    have "\<exists>r. snd (runTaskWithTrace env t) = Inr r" for t
      by (auto simp: runTaskWithTrace_def L Let_def split: sum.splits)
    then have "\<exists>rs. collect_results (map (snd \<circ> runTaskWithTrace env) ts) = Inr rs" for ts
    proof (induction ts)
      case (Cons t ts)
      then obtain r rs where "snd (runTaskWithTrace env t) = Inr r"
        "collect_results (map (snd \<circ> runTaskWithTrace env) ts) = Inr rs" by blast
      then show ?case by (simp add: comp_def)
    qed simp
    with threw(4) show ?thesis
      unfolding round_runs_def map_map by (metis sum.distinct(1))
  qed (use res in auto)
qed

lemma loop_progress:
  assumes T: "distinct (map et_id T)" and o: "ordered_tasks T"
    and m: "0 < batch_limit env strategy" and L: "\<And>i k. ce_ledger env i k"
  shows "state_inv T (batch_limit env strategy) s \<Longrightarrow> \<exists>s'. run_plan_loop env strategy s = Inr s'"
  using m L
proof (induction env strategy s rule: run_plan_loop.induct)
  case (1 env strategy s)
  show ?case
  proof (cases "cs_pending s = []")
    case True
    then show ?thesis by (simp add: run_plan_loop.simps)
  next
    case False
    obtain s1 where s1: "plan_round env strategy s = Inr s1"
      using round_progress [OF T o "1.prems"(1) False "1.prems"(2,3)] by blast
    with round_inv [OF T "1.prems"(1) s1] "1.IH" [OF False s1 _ "1.prems"(2,3)] False
    show ?thesis by (simp add: run_plan_loop.simps [of env strategy s])
  qed
qed

text \<open>
  C9. A plan whose dependencies all refer to earlier tasks always runs to its summary: the execution
  is never stuck on unresolved dependencies or conflicting locks, whatever the specialists answer, as
  long as the run ledger can be written and at least one agent may run.
\<close>

theorem coordinator_never_stuck:
  assumes "back_references plan" "length ids = length (ep_tasks plan)" "distinct ids"
    and "\<forall>i k. ce_ledger env i k" "0 < rc_maxParallelAgents (ce_config env)"
  shows "\<exists>as res. executeRequestPlan env encode plan ids vid = (as, Inr res)"
proof (cases "ep_strategy plan = MDirect \<or> ep_tasks plan = []")
  case True
  then show ?thesis by (simp add: executeRequestPlan_def)
next
  case False
  let ?T = "materializePlan plan ids"
  have T: "distinct (map et_id ?T)" using assms(2,3) by (simp add: materialize_ids)
  have m: "0 < batch_limit env (ep_strategy plan)" using assms(5) by (simp add: batch_limit_def)
  obtain s where s: "run_plan_loop env (ep_strategy plan) (start_state ?T) = Inr s"
    using loop_progress [OF T materialize_ordered [OF assms(1,2)] m _ start_inv [OF T]] assms(4)
    by blast
  have "\<exists>r. snd (runTaskWithTrace env t) = Inr r" for t
    using assms(4) by (auto simp: runTaskWithTrace_def Let_def split: sum.splits)
  then obtain as v where "runValidatorIfNeeded env encode vid plan (map snd (cs_completed s)) = (as, Inr v)"
    unfolding runValidatorIfNeeded_def
    by (metis (mono_tags, lifting) case_prod_conv map_sum.simps(2) prod.collapse)
  with False s show ?thesis by (simp add: executeRequestPlan_def Let_def)
qed

section \<open>Locks and plans\<close>

lemma split_on_sep: "split_on sep (xs @ sep # ys) = split_on sep xs @ split_on sep ys"
proof (induction xs)
  case (Cons x xs)
  obtain w ws where w: "split_on sep xs = w # ws" by (cases "split_on sep xs") auto
  with Cons show ?case by auto
qed simp

lemma join_append:
  "xs \<noteq> [] \<Longrightarrow> ys \<noteq> [] \<Longrightarrow> join_with sep (xs @ ys) = join_with sep xs @ sep @ join_with sep ys"
proof (induction xs rule: join_with.induct [where ?a0.0 = sep])
  case (2 sep x)
  then show ?case by (cases ys) auto
qed auto

lemma starts_with_components:
  "a = b \<or> starts_with a (b @ ''/'') \<longleftrightarrow>
     (\<exists>zs. split_on CHR ''/'' a = split_on CHR ''/'' b @ zs)"
proof
  assume "a = b \<or> starts_with a (b @ ''/'')"
  then show "\<exists>zs. split_on CHR ''/'' a = split_on CHR ''/'' b @ zs"
    by (auto simp: starts_with_iff split_on_sep)
next
  assume "\<exists>zs. split_on CHR ''/'' a = split_on CHR ''/'' b @ zs"
  then obtain zs where zs: "split_on CHR ''/'' a = split_on CHR ''/'' b @ zs" by blast
  show "a = b \<or> starts_with a (b @ ''/'')"
  proof (cases "zs = []")
    case True
    with zs have "join_with ''/'' (split_on CHR ''/'' a) = join_with ''/'' (split_on CHR ''/'' b)"
      by simp
    then show ?thesis by (simp add: join_split_on)
  next
    case False
    have "a = join_with ''/'' (split_on CHR ''/'' b @ zs)"
      using zs join_split_on [of "CHR ''/''" a] by simp
    also have "\<dots> = b @ ''/'' @ join_with ''/'' zs"
      using False by (simp add: join_append join_split_on)
    finally show ?thesis by (auto simp: starts_with_iff)
  qed
qed


lemma collapse_head: "\<exists>t. collapse_slashes (c # cs) = c # t"
  by (induction cs arbitrary: c) auto

lemma collapse_no_double: "collapse_slashes s \<noteq> CHR ''/'' # CHR ''/'' # t"
proof (induction s arbitrary: t rule: collapse_slashes.induct)
  case (1 c d cs)
  then show ?case using collapse_head [of d cs] by auto
qed auto

lemma butlast_Cons2: "butlast xs = a # b # t \<Longrightarrow> \<exists>u. xs = a # b # u"
  by (metis append_Cons append_butlast_last_id butlast.simps(1) list.distinct(1))

lemma normalize_nonempty: "normalizePath p \<noteq> []"
proof (cases "js_trim p")
  case (Cons c cs)
  obtain t where t: "collapse_slashes (c # cs) = c # t" using collapse_head by blast
  have "ends_with [CHR ''/''] ''/''" by (simp add: ends_with_def)
  have "t \<noteq> []" if "ends_with (c # t) ''/''" "c # t \<noteq> ''/''"
    using that by (auto simp: ends_with_def)
  with t Cons show ?thesis by (auto simp: normalizePath_def Let_def)
qed (simp add: normalizePath_def)

text \<open>
  The root does not cover the tree: a lock on \<open>/\<close> overlaps the root itself and no other path,
  because the comparison looks for the prefix \<open>//\<close>, which no normalised path has.  Two tasks of
  which one holds \<open>fs-write:/\<close> and the other \<open>fs-write:/src\<close> therefore run together.
\<close>

theorem lock_root_uncovered:
  "pathsOverlap ''/'' p \<longleftrightarrow> normalizePath p = ''/''"
proof -
  have root: "normalizePath ''/'' = ''/''" by code_simp
  have "\<not> starts_with (normalizePath p) ''//''"
  proof
    assume "starts_with (normalizePath p) ''//''"
    then obtain t where t: "normalizePath p = CHR ''/'' # CHR ''/'' # t"
      by (auto simp: starts_with_iff)
    have "normalizePath p \<in> {''/'', collapse_slashes (js_trim p),
            butlast (collapse_slashes (js_trim p))}"
      by (simp add: normalizePath_def Let_def)
    moreover have "collapse_slashes (js_trim p) \<noteq> normalizePath p"
      unfolding t by (rule collapse_no_double)
    moreover have "butlast (collapse_slashes (js_trim p)) \<noteq> normalizePath p"
    proof
      assume "butlast (collapse_slashes (js_trim p)) = normalizePath p"
      then obtain u where "collapse_slashes (js_trim p) = CHR ''/'' # CHR ''/'' # u"
        using butlast_Cons2 t by metis
      then show False using collapse_no_double by metis
    qed
    moreover have "normalizePath p \<noteq> ''/''" unfolding t by simp
    ultimately show False by (metis insertE singletonD)
  qed
  moreover have "\<not> starts_with ''/'' (normalizePath p @ ''/'')"
    using normalize_nonempty [of p] by (auto simp: starts_with_iff Cons_eq_append_conv)
  ultimately show ?thesis by (auto simp: pathsOverlap_def Let_def root)
qed

lemma materialize_locks:
  assumes "pt_specialist (materialize_as k task h) \<in> {SBuilder, SComputer, SMemory, SIntegration}"
  shows "pt_resourceLocks (materialize_as k task h) =
      (if pt_specialist (materialize_as k task h) = SComputer then [''computer-desktop'']
       else if pt_specialist (materialize_as k task h) = SMemory then [''memory-write'']
       else if pt_specialist (materialize_as k task h) = SIntegration
         then [''integration-write:external'']
       else if h = [] then [''sandbox-workdir:/'']
       else map (\<lambda>p. ''fs-write:'' @ p) h)"
  using assms
  by (cases k) (auto simp: createSpecialistTask_def createBrowserTask_def no_options_def Let_def)

lemma locks_of_materialized:
  assumes "t \<in> set (ep_tasks (materializeRouterOutput out hints))"
    and "pt_specialist t \<in> {SBuilder, SComputer, SMemory, SIntegration}"
  shows "pt_resourceLocks t =
           (if pt_specialist t = SComputer then [''computer-desktop'']
            else if pt_specialist t = SMemory then [''memory-write'']
            else if pt_specialist t = SIntegration then [''integration-write:external'']
            else if ro_strategy out = MBackground \<or> hints = [] then [''sandbox-workdir:/'']
            else map (\<lambda>p. ''fs-write:'' @ p) hints)"
proof (cases "ro_strategy out = MBackground")
  case True
  with assms(1) obtain g n where "t = createBackgroundTask g n"
    by (auto simp: materializeRouterOutput_def split: list.splits)
  with True show ?thesis
    by (simp add: createBackgroundTask_def createSpecialistTask_def no_options_def Let_def)
next
  case False
  with assms(1) obtain task where "t = materialize_as (rk_specialist task) task hints"
    by (auto simp: materializeRouterOutput_def materializeTask_def split: list.splits if_splits)
  with materialize_locks [of "rk_specialist task" task hints] assms(2) False show ?thesis
    by simp
qed

lemma self_conflicts:
  "locksConflict ''computer-desktop'' ''computer-desktop''"
  "locksConflict ''memory-write'' ''memory-write''"
  "locksConflict ''integration-write:external'' ''integration-write:external''"
  "locksConflict ''sandbox-workdir:/'' ''sandbox-workdir:/''"
  "locksConflict (''fs-write:'' @ p) (''fs-write:'' @ p)"
  by (simp_all add: locksConflict_refl parseLock_def starts_with_def)

text \<open>
  The specialists that change something outside their own answer exclude one another: in a plan
  materialised from any router answer, two builder tasks, two computer tasks, two memory tasks or two
  integration tasks always hold conflicting locks, so no batch holds both.
\<close>

theorem planner_writers_exclusive:
  assumes "t \<in> set (ep_tasks (materializeRouterOutput out hints))"
    and "u \<in> set (ep_tasks (materializeRouterOutput out hints))"
    and "pt_specialist t = pt_specialist u"
    and "pt_specialist t \<in> {SBuilder, SComputer, SMemory, SIntegration}"
  shows "\<exists>x \<in> set (pt_resourceLocks t). \<exists>y \<in> set (pt_resourceLocks u). locksConflict x y"
proof -
  have "pt_resourceLocks u = pt_resourceLocks t"
    using locks_of_materialized [OF assms(1)] locks_of_materialized [OF assms(2)] assms(3,4) by simp
  moreover have "\<exists>x \<in> set (pt_resourceLocks t). locksConflict x x"
    unfolding locks_of_materialized [OF assms(1,4)]
    using self_conflicts by (cases hints) (auto simp del: append_Cons append_Nil)
  ultimately show ?thesis by auto
qed

text \<open>
  A specialist sees only its own tools: every tool visible to a specialist comes from one of the
  groups the registry gives it, from a group whose part of the runtime is enabled, and, when the
  policy lists groups, from a listed one.  In particular nobody sees a sandbox tool in a run without
  the sandbox.
\<close>

theorem visible_tools_granted:
  assumes "resolveVisibleTools (getSpecialistDefinition kind) config toolGroups name = Some tool"
  shows "\<exists>g tools. toolGroups g = Some tools \<and> tools name = Some tool \<and>
           g \<in> set (sd_toolGroups (getSpecialistDefinition kind)) \<and>
           (g \<in> {''sandbox-read'', ''sandbox-write''} \<longrightarrow> rt_sandboxEnabled (rc_runtime config)) \<and>
           (g = ''cua'' \<longrightarrow> rt_cuaEnabled (rc_runtime config)) \<and>
           (g = ''integration'' \<longrightarrow> rt_integrationEnabled (rc_runtime config)) \<and>
           (\<forall>gs. rc_allowedToolGroups config = Some gs \<longrightarrow> gs \<noteq> [] \<longrightarrow> g \<in> set gs)"
proof -
  obtain g where g: "g \<in> set (allowed_groups (getSpecialistDefinition kind) config)"
    and t: "default_to (toolGroups g) Map.empty name = Some tool"
    using fold_tools_Some [OF assms [unfolded resolveVisibleTools_def]] by auto
  obtain tools where "toolGroups g = Some tools" "tools name = Some tool"
    using t by (cases "toolGroups g") auto
  moreover have "g \<in> set (sd_toolGroups (getSpecialistDefinition kind))"
    and e: "group_enabled (rc_runtime config) g"
    and p: "case rc_allowedToolGroups config of None \<Rightarrow> True | Some [] \<Rightarrow> True | Some gs \<Rightarrow> g \<in> set gs"
    using g by (simp_all add: allowed_groups_set)
  moreover have "(g \<in> {''sandbox-read'', ''sandbox-write''} \<longrightarrow> rt_sandboxEnabled (rc_runtime config)) \<and>
           (g = ''cua'' \<longrightarrow> rt_cuaEnabled (rc_runtime config)) \<and>
           (g = ''integration'' \<longrightarrow> rt_integrationEnabled (rc_runtime config))"
    using e by (auto simp: group_enabled_def split: if_splits)
  moreover have "\<forall>gs. rc_allowedToolGroups config = Some gs \<longrightarrow> gs \<noteq> [] \<longrightarrow> g \<in> set gs"
    using p by (auto split: option.splits list.splits)
  ultimately show ?thesis by blast
qed

section \<open>Witnesses\<close>

definition sample_config :: run_config where
  "sample_config =
     \<lparr>rc_defaultModelId = ''model'', rc_highReasoningModelId = None, rc_routerModelId = None,
      rc_validatorModelId = None,
      rc_runtime = \<lparr>rt_sandboxEnabled = True, rt_cuaEnabled = False, rt_integrationEnabled = True,
        rt_browserEnabled = True\<rparr>,
      rc_allowedToolGroups = None, rc_maxSteps = (\<lambda>_. None), rc_maxParallelAgents = 3\<rparr>"

text \<open>A run in which the browser service fails and everything else succeeds.\<close>

definition sample_env :: coord_env where
  "sample_env =
     \<lparr>ce_config = sample_config,
      ce_agent = (\<lambda>_. Generated (Some (JObj [(''summary'', JStr ''ok'')])) 1),
      ce_browser = (\<lambda>_. Inl ''no browser''),
      ce_startTask = (\<lambda>t. Inr (et_id t, Running)),
      ce_traceId = (\<lambda>i. ''run-'' @ i), ce_ledger = (\<lambda>_ _. True), ce_rootTraceId = ''root''\<rparr>"

definition sample_task :: "router_specialist \<Rightarrow> string list \<Rightarrow> router_task" where
  "sample_task kind deps =
     \<lparr>rk_specialist = kind, rk_goal = ''goal'', rk_dependencies = deps, rk_startUrl = None,
      rk_browserMode = None, rk_sideEffectLevel = None, rk_settingsKind = None, rk_timezone = None,
      rk_writesExternally = None\<rparr>"

definition sample_output :: router_output where
  "sample_output =
     \<lparr>ro_strategy = MParallel, ro_rationale = ''why'',
      ro_tasks = [sample_task RtBrowser [], sample_task RtBuilder [''task-0''],
                  sample_task RtBuilder [], sample_task RtBuilder [''task-2'']],
      ro_needsValidation = True\<rparr>"

definition sample_plan :: execution_plan where
  "sample_plan = materializeRouterOutput sample_output []"

definition sample_ids :: "string list" where
  "sample_ids = [''a'', ''b'', ''c'', ''d'']"

definition sample_run :: "task_action list \<times> (string + execution_summary)" where
  "sample_run = executeRequestPlan sample_env (\<lambda>_ _. JNull) sample_plan sample_ids ''v''"

definition sample_summary :: execution_summary where
  "sample_summary = (case snd sample_run of Inr r \<Rightarrow> r | Inl _ \<Rightarrow> buildExecutionSummary MDirect [] None)"

lemma sample_run_ok:
  "executeRequestPlan sample_env (\<lambda>_ _. JNull) sample_plan sample_ids ''v''
     = (fst sample_run, Inr sample_summary)"
proof -
  have "case snd sample_run of Inr r \<Rightarrow> True | Inl _ \<Rightarrow> False" by code_simp
  then have "snd sample_run = Inr sample_summary"
    by (simp add: sample_summary_def split: sum.splits)
  then show ?thesis unfolding sample_run_def [symmetric] by (metis prod.collapse)
qed

lemma sample_shape:
  "ep_strategy sample_plan \<noteq> MDirect" "length sample_ids = length (ep_tasks sample_plan)"
  "distinct sample_ids" "''v'' \<notin> set sample_ids" "back_references sample_plan"
  by code_simp+

theorem coordinator_settles_every_task_witness:
  "\<exists>rs v. es_taskResults sample_summary = rs @ v \<and> length v \<le> 1 \<and> distinct (map er_taskId rs) \<and>
     set (map er_taskId rs) = {''a'', ''b'', ''c'', ''d''}"
  using coordinator_settles_every_task [OF sample_run_ok sample_shape(1-3)]
  by (simp add: sample_ids_def)

theorem coordinator_failure_propagates_witness:
  "StoreCreated ''b'' \<notin> set (fst sample_run) \<and> StoreCreated ''a'' \<in> set (fst sample_run)"
proof -
  let ?t = "materializePlan sample_plan sample_ids ! 1"
  let ?rd = "hd (es_taskResults sample_summary)"
  have "?t \<in> set (materializePlan sample_plan sample_ids)" by (rule nth_mem) code_simp
  moreover have "''a'' \<in> set (pt_dependencies ?t)" "et_id ?t = ''b''" by code_simp+
  moreover have "?rd \<in> set (es_taskResults sample_summary)" by (rule hd_in_set) code_simp
  moreover have "er_taskId ?rd = ''a''" "''a'' \<in> set sample_ids" "blocks ?rd" by code_simp+
  ultimately have "StoreCreated (et_id ?t) \<notin> set (fst sample_run)"
    using coordinator_failure_propagates [OF sample_run_ok sample_shape(1-4)] by blast
  moreover have "StoreCreated ''a'' \<in> set (fst sample_run)" "et_id ?t = ''b''" by code_simp+
  ultimately show ?thesis by simp
qed


theorem coordinator_batches_safe_witness:
  "length (hd (loop_batches sample_env MParallel (materializePlan sample_plan sample_ids))) \<le> 3"
proof -
  have "distinct (map et_id (materializePlan sample_plan sample_ids))" by code_simp
  moreover have "hd (loop_batches sample_env MParallel (materializePlan sample_plan sample_ids))
      \<in> set (loop_batches sample_env MParallel (materializePlan sample_plan sample_ids))"
    by (rule hd_in_set) code_simp
  ultimately have "length (hd (loop_batches sample_env MParallel
      (materializePlan sample_plan sample_ids))) \<le> batch_limit sample_env MParallel"
    by (rule coordinator_batches_safe [THEN conjunct1])
  moreover have "batch_limit sample_env MParallel = 3" by code_simp
  ultimately show ?thesis by simp
qed

theorem coordinator_never_stuck_witness:
  "\<exists>as res. executeRequestPlan sample_env (\<lambda>_ _. JNull) sample_plan sample_ids ''v'' = (as, Inr res)"
  by (rule coordinator_never_stuck [OF sample_shape(5,2,3)])
     (simp_all add: sample_env_def sample_config_def)

theorem planner_writers_exclusive_witness:
  "\<exists>x \<in> set (pt_resourceLocks (ep_tasks sample_plan ! 1)).
     \<exists>y \<in> set (pt_resourceLocks (ep_tasks sample_plan ! 2)). locksConflict x y"
proof -
  have "ep_tasks sample_plan ! 1 \<in> set (ep_tasks sample_plan)"
    "ep_tasks sample_plan ! 2 \<in> set (ep_tasks sample_plan)"
    by (rule nth_mem, code_simp)+
  moreover have "pt_specialist (ep_tasks sample_plan ! 1) = SBuilder"
    "pt_specialist (ep_tasks sample_plan ! 2) = SBuilder" by code_simp+
  ultimately show ?thesis
    using planner_writers_exclusive [of "ep_tasks sample_plan ! 1" sample_output "[]"
        "ep_tasks sample_plan ! 2"] by (simp add: sample_plan_def)
qed

definition sample_groups :: "string \<Rightarrow> (string \<Rightarrow> nat option) option" where
  "sample_groups g = (if g = ''sandbox-read'' then Some [''ls'' \<mapsto> 1] else None)"

theorem visible_tools_granted_witness:
  "\<exists>g. g \<in> set (sd_toolGroups (getSpecialistDefinition SResearch)) \<and> sample_groups g \<noteq> None"
proof -
  have "resolveVisibleTools (getSpecialistDefinition SResearch) sample_config sample_groups ''ls''
          = Some 1"
    by code_simp
  from visible_tools_granted [OF this] show ?thesis by auto
qed

end
