(* ===== verification/Turn.thy ===== *)
theory Turn
  imports Reducer
begin

text \<open>
  One turn of the conversation engine: \<open>handleTurn\<close> of
  \<open>packages/agent/src/conversation/engine.ts\<close>, with the reply parts of
  \<open>packages/attachments/src/service.ts\<close>.

  The language model decides which tools it calls and how it ends; its choices, and whether the
  preparation and each database write succeed, are the turn's oracle.  Tool calls are taken one after
  another, and an exception inside a tool becomes a tool error, after which the loop goes on.  The turn
  acts on a state with an ordered trace of what is visible outside: posted messages, sent files and
  saved messages.
\<close>

section \<open>Reply parts\<close>

record attachment_ref =
  ar_id :: string
  ar_kind :: string
  ar_mediaType :: string
  ar_filename :: "string option"
  ar_title :: "string option"
  ar_sizeBytes :: "int option"

datatype reply_part = ReplyText string | ReplyAttachment attachment_ref

fun is_attachment :: "reply_part \<Rightarrow> bool" where
  "is_attachment (ReplyText t) = False"
| "is_attachment (ReplyAttachment a) = True"

definition buildAssistantArtifactPart :: "artifact \<Rightarrow> reply_part option" where
  "buildAssistantArtifactPart a =
     (case (truthy_str (af_attachmentId a), af_mediaType a) of
        (Some i, Some m) \<Rightarrow>
          Some (ReplyAttachment
            \<lparr>ar_id = i,
             ar_kind = (if af_kind a \<in> {''image'', ''pdf'', ''text'', ''document''} then af_kind a
                        else ''binary''),
             ar_mediaType = m, ar_filename = or_else (af_filename a) (af_title a),
             ar_title = af_title a,
             ar_sizeBytes = (case af_metadata a of None \<Rightarrow> None
                             | Some kvs \<Rightarrow> json_num (map_of kvs ''size''))\<rparr>)
      | _ \<Rightarrow> None)"

definition collectAssistantReplyParts :: "string \<Rightarrow> artifact list \<Rightarrow> reply_part list" where
  "collectAssistantReplyParts text artifacts =
     (if js_trim text \<noteq> [] then [ReplyText text] else [])
     @ List.map_filter buildAssistantArtifactPart artifacts"

text \<open>The first artifact of every attachment id, from the tasks and then from the queried executions.\<close>

fun dedupe_artifacts :: "string list \<Rightarrow> artifact list \<Rightarrow> artifact list" where
  "dedupe_artifacts seen [] = []"
| "dedupe_artifacts seen (a # as) =
     (case truthy_str (af_attachmentId a) of
        None \<Rightarrow> dedupe_artifacts seen as
      | Some i \<Rightarrow> if i \<in> set seen then dedupe_artifacts seen as
                  else a # dedupe_artifacts (i # seen) as)"

definition collectReplyArtifacts ::
    "execution_summary option \<Rightarrow> artifact list option list option \<Rightarrow> artifact list" where
  "collectReplyArtifacts execution queryResult =
     dedupe_artifacts []
       (concat (map (\<lambda>as. default_to as [])
         ((case execution of None \<Rightarrow> [] | Some e \<Rightarrow> map er_artifacts (es_taskResults e))
          @ default_to queryResult [])))"

definition blank_line :: string where
  "blank_line = [char_of (10::nat), char_of (10::nat)]"

definition summarizeReplyContent :: "reply_part list \<Rightarrow> string" where
  "summarizeReplyContent ps =
     (let text = js_trim (join_with blank_line (filter (\<lambda>t. t \<noteq> [])
            (List.map_filter (\<lambda>p. case p of ReplyText t \<Rightarrow> Some (js_trim t) | _ \<Rightarrow> None) ps)));
          n = length (filter is_attachment ps)
      in if text \<noteq> [] then text
         else if n > 0 then ''Shared '' @ nat_digits n @ '' attachment'' @ (if n = 1 then [] else ''s'')
                            @ ''.''
         else [])"

section \<open>State and effects\<close>

datatype outbound_state = Unchecked | Claimed | Denied

datatype post_kind = Progress | FinalReply | ErrorNotice | RelinkNotice

datatype wf_action =
    PostText post_kind string
  | SendParts "reply_part list"
  | SaveUser string
  | SaveAssistant string
  | RunPlan

record 'w run_state =
  world :: 'w
  outbound :: outbound_state
  conv :: "string option"
  trace :: "wf_action list"

definition act :: "wf_action \<Rightarrow> 'w run_state \<Rightarrow> 'w run_state" where
  "act a r = r\<lparr>trace := trace r @ [a]\<rparr>"

definition acts :: "wf_action list \<Rightarrow> 'w run_state \<Rightarrow> 'w run_state" where
  "acts as r = r\<lparr>trace := trace r @ as\<rparr>"

text \<open>The checkpoint \<open>shouldContinue\<close>: it may change the state, answer, or throw.\<close>

type_synonym 'w check = "'w run_state \<Rightarrow> 'w run_state \<times> (string + bool)"

section \<open>The tools\<close>

datatype tool_call =
    SendMessage string
  | ExecutePlan "string + execution_summary"
  | QueryExecution "string + artifact list option list"
  | OtherTool

record 'w turn_state =
  ts_run :: "'w run_state"
  ts_execution :: "execution_summary option"
  ts_query :: "artifact list option list option"

fun do_tool :: "'w check \<Rightarrow> tool_call \<Rightarrow> 'w turn_state \<Rightarrow> 'w turn_state" where
  "do_tool check (SendMessage text) t =
     (case check (ts_run t) of
        (r, Inl e) \<Rightarrow> t\<lparr>ts_run := r\<rparr>
      | (r, Inr False) \<Rightarrow> t\<lparr>ts_run := r\<rparr>
      | (r, Inr True) \<Rightarrow> t\<lparr>ts_run := act (PostText Progress text) r\<rparr>)"
| "do_tool check (ExecutePlan answer) t =
     (if (case ts_execution t of None \<Rightarrow> False | Some e \<Rightarrow> es_status e \<noteq> SumFailed) then t
      else (case answer of
        Inl e \<Rightarrow> t\<lparr>ts_run := act RunPlan (ts_run t)\<rparr>
      | Inr summary \<Rightarrow> t\<lparr>ts_run := act RunPlan (ts_run t), ts_execution := Some summary\<rparr>))"
| "do_tool check (QueryExecution answer) t =
     (case answer of Inl e \<Rightarrow> t | Inr q \<Rightarrow> t\<lparr>ts_query := Some q\<rparr>)"
| "do_tool check OtherTool t = t"

section \<open>The turn\<close>

text \<open>
  The oracle: an error of the preparation, the tool calls, the text or the exception of the model, how
  many of the message inserts succeed, and whether the closing writes do.
\<close>

record turn_oracle =
  to_setupError :: "string option"
  to_calls :: "tool_call list"
  to_generated :: "string + string"
  to_savesOk :: nat
  to_finishOk :: bool

datatype turn_status = TurnCompleted | TurnPartial | TurnFailed | TurnCancelled

record turn_result =
  tr_status :: turn_status
  tr_text :: string
  tr_parts :: "reply_part list"

fun turn_status_of :: "execution_summary option \<Rightarrow> turn_status" where
  "turn_status_of None = TurnCompleted"
| "turn_status_of (Some e) =
     (case es_status e of SumCompleted \<Rightarrow> TurnCompleted | SumPartial \<Rightarrow> TurnPartial
      | SumFailed \<Rightarrow> TurnFailed)"

definition run_tools :: "'w check \<Rightarrow> tool_call list \<Rightarrow> 'w run_state \<Rightarrow> 'w turn_state" where
  "run_tools check calls r =
     fold (do_tool check) calls \<lparr>ts_run = r, ts_execution = None, ts_query = None\<rparr>"

definition cancelled_result :: turn_result where
  "cancelled_result = \<lparr>tr_status = TurnCancelled, tr_text = [], tr_parts = []\<rparr>"

text \<open>The part after the checkpoint: the messages are saved and the result is built.\<close>

definition finish_turn ::
    "turn_oracle \<Rightarrow> string list \<Rightarrow> string \<Rightarrow> 'w turn_state \<Rightarrow> 'w run_state \<Rightarrow>
     'w run_state \<times> (string + turn_result)" where
  "finish_turn orc contents text t r =
     (let replyParts = collectAssistantReplyParts text
            (collectReplyArtifacts (ts_execution t) (ts_query t));
          assistant = summarizeReplyContent replyParts;
          saves = map SaveUser contents @ (if assistant = [] then [] else [SaveAssistant assistant]);
          r' = acts (take (to_savesOk orc) saves) r
      in if to_savesOk orc < length saves \<or> \<not> to_finishOk orc then (r', Inl ''Agent request failed'')
         else (r', Inr \<lparr>tr_status = turn_status_of (ts_execution t), tr_text = text,
                        tr_parts = replyParts\<rparr>))"

definition handleTurn ::
    "'w check \<Rightarrow> turn_oracle \<Rightarrow> string list \<Rightarrow> 'w run_state \<Rightarrow>
     'w run_state \<times> (string + turn_result)" where
  "handleTurn check orc contents r =
     (case to_setupError orc of
        Some e \<Rightarrow> (r, Inl e)
      | None \<Rightarrow>
          (let t = run_tools check (to_calls orc) r
           in case to_generated orc of
             Inl e \<Rightarrow> (ts_run t, Inl ''Agent request failed'')
           | Inr text \<Rightarrow>
               (case check (ts_run t) of
                  (r1, Inr True) \<Rightarrow> finish_turn orc contents text t r1
                | (r1, _) \<Rightarrow> (r1, Inr cancelled_result))))"

section \<open>Lemmas\<close>

lemma acts_sel [simp]:
  "world (acts as r) = world r" "outbound (acts as r) = outbound r" "conv (acts as r) = conv r"
  "trace (acts as r) = trace r @ as" "world (act a r) = world r" "outbound (act a r) = outbound r"
  "conv (act a r) = conv r" "trace (act a r) = trace r @ [a]"
  by (simp_all add: acts_def act_def)

text \<open>
  A predicate that the checkpoint keeps, that lets messages be posted and saved when the checkpoint
  said yes, and that plan runs keep, holds after the turn.
\<close>

lemma do_tool_keeps:
  assumes "\<And>r r' a. P r \<Longrightarrow> check r = (r', a) \<Longrightarrow> P r'"
    and "\<And>r r' s. P r \<Longrightarrow> check r = (r', Inr True) \<Longrightarrow> P (act (PostText Progress s) r')"
    and "\<And>r. P r \<Longrightarrow> P (act RunPlan r)"
  shows "P (ts_run t) \<Longrightarrow> P (ts_run (do_tool check c t))"
proof (cases c)
  case (SendMessage x)
  assume p: "P (ts_run t)"
  obtain r a where ra: "check (ts_run t) = (r, a)" by (metis prod.exhaust)
  show ?thesis
  proof (cases a)
    case (Inr b)
    with SendMessage ra assms(1,2) [OF p] show ?thesis by (cases b) auto
  qed (use SendMessage ra assms(1) [OF p] in auto)
qed (use assms(3) in \<open>auto split: option.splits sum.splits\<close>)

lemma run_tools_keeps:
  assumes "\<And>r r' a. P r \<Longrightarrow> check r = (r', a) \<Longrightarrow> P r'"
    and "\<And>r r' s. P r \<Longrightarrow> check r = (r', Inr True) \<Longrightarrow> P (act (PostText Progress s) r')"
    and "\<And>r. P r \<Longrightarrow> P (act RunPlan r)"
    and "P r"
  shows "P (ts_run (run_tools check calls r))"
proof -
  have "P (ts_run (fold (do_tool check) calls t))" if "P (ts_run t)" for t
    using that
  proof (induction calls arbitrary: t)
    case (Cons c calls)
    have "P (ts_run (do_tool check c t))" by (rule do_tool_keeps [OF assms(1-3) Cons.prems])
    then show ?case using Cons.IH by simp
  qed simp
  with assms(4) show ?thesis by (simp add: run_tools_def)
qed

lemma finish_turn_acts:
  obtains as where "fst (finish_turn orc contents gen t r) = acts as r"
    "\<forall>a \<in> set as. \<exists>s. a = SaveUser s \<or> a = SaveAssistant s"
proof -
  let ?a = "summarizeReplyContent (collectAssistantReplyParts gen
              (collectReplyArtifacts (ts_execution t) (ts_query t)))"
  let ?saves = "map SaveUser contents @ (if ?a = [] then [] else [SaveAssistant ?a])"
  have "fst (finish_turn orc contents gen t r) = acts (take (to_savesOk orc) ?saves) r"
    by (simp add: finish_turn_def Let_def)
  moreover have "\<exists>s. a = SaveUser s \<or> a = SaveAssistant s"
    if "a \<in> set (take (to_savesOk orc) ?saves)" for a
    using in_set_takeD [OF that] by (auto split: if_splits)
  ultimately show thesis using that by blast
qed

lemma handleTurn_keeps:
  assumes "\<And>r r' a. P r \<Longrightarrow> check r = (r', a) \<Longrightarrow> P r'"
    and "\<And>r r' s. P r \<Longrightarrow> check r = (r', Inr True) \<Longrightarrow> P (act (PostText Progress s) r')"
    and "\<And>r. P r \<Longrightarrow> P (act RunPlan r)"
    and "\<And>r r' as. P r \<Longrightarrow> check r = (r', Inr True) \<Longrightarrow>
           (\<forall>a \<in> set as. \<exists>s. a = SaveUser s \<or> a = SaveAssistant s) \<Longrightarrow> P (acts as r')"
    and "P r" and "handleTurn check orc contents r = (r', res)"
  shows "P r'"
proof (cases "to_setupError orc")
  case None
  let ?t = "run_tools check (to_calls orc) r"
  have t: "P (ts_run ?t)" by (rule run_tools_keeps [OF assms(1-3,5)])
  show ?thesis
  proof (cases "to_generated orc")
    case (Inl e)
    with None t assms(6) show ?thesis by (simp add: handleTurn_def Let_def)
  next
    case (Inr gen)
    obtain r1 a where c: "check (ts_run ?t) = (r1, a)" by (metis prod.exhaust)
    show ?thesis
    proof (cases "a = Inr True")
      case True
      obtain as where as: "fst (finish_turn orc contents gen ?t r1) = acts as r1"
        "\<forall>a \<in> set as. \<exists>s. a = SaveUser s \<or> a = SaveAssistant s"
        by (rule finish_turn_acts)
      have "r' = fst (finish_turn orc contents gen ?t r1)"
        using True None Inr c assms(6) by (simp add: handleTurn_def Let_def)
      with assms(4) [OF t] c True as show ?thesis by simp
    next
      case False
      with None Inr c assms(6) have "r' = r1"
        by (cases a) (auto simp: handleTurn_def Let_def split: bool.splits)
      with assms(1) [OF t c] show ?thesis by simp
    qed
  qed
qed (use assms(5,6) in \<open>simp add: handleTurn_def\<close>)

text \<open>A turn that returns has passed the checkpoint: it was allowed, or the turn is cancelled.\<close>

lemma handleTurn_returns:
  assumes "handleTurn check orc contents r = (r', Inr res)"
  obtains r0 r1 a where "check r0 = (r1, a)" "outbound r' = outbound r1"
    "a = Inr True \<or> res = cancelled_result \<and> r' = r1"
proof -
  let ?t = "run_tools check (to_calls orc) r"
  obtain r1 a where c: "check (ts_run ?t) = (r1, a)" by (metis prod.exhaust)
  obtain gen where g: "to_setupError orc = None" "to_generated orc = Inr gen"
    using assms by (auto simp: handleTurn_def Let_def split: option.splits sum.splits)
  show thesis
  proof (cases "a = Inr True")
    case True
    with g c assms have "outbound r' = outbound r1"
      by (auto simp: handleTurn_def Let_def finish_turn_def split: if_splits)
    with that c True show thesis by blast
  next
    case False
    with g c assms have "r' = r1 \<and> res = cancelled_result"
      by (cases a) (auto simp: handleTurn_def Let_def split: bool.splits)
    with that c show thesis by blast
  qed
qed

end
