(* ===== verification/Workflow.thy ===== *)
theory Workflow
  imports Turn SessionProps
begin

text \<open>
  The durable workflow \<open>AgentExecutionWorkflow\<close> of \<open>apps/api/src/workflows/agent-execution.ts\<close>: it
  resolves the Telegram user, runs the agent with retries, delivers the reply and tells the
  conversation session that the execution is over.

  The two calls to the session are parameters (\<open>claim\<close>, \<open>complete\<close>) over a world they may change;
  \<open>None\<close> is an exception of the call.  The locale \<open>session_rpc\<close> states what the workflow relies on, and
  it is interpreted on the session of \<open>Session\<close>.  Everything else that comes from outside is the
  workflow's oracle: one entry per attempt of a step.  A step is retried until an attempt succeeds or
  its attempts are used up; \<open>tries\<close> is the number of attempts of a step without a retry configuration
  (a platform default).  Timeouts, and the loss of the closure's variables when the platform replays
  the workflow in another process, are left out.
\<close>

section \<open>Parameters and oracles\<close>

record wf_params =
  wp_hasFrom :: bool
  wp_userId :: "string option"
  wp_conversationId :: "string option"
  wp_isSubAgent :: bool
  wp_parentContext :: "string option"
  wp_token :: string

datatype resolve_answer = ResolveThrew string | ResolvedBlocked | ResolvedUser string

record attempt =
  at_setupError :: "string option"
  at_conversation :: "string + string"
  at_ingested :: "string + string list"
  at_turn :: turn_oracle
  at_postOk :: bool
  at_disposeOk :: bool

record wf_oracle =
  wo_resolve :: "(resolve_answer \<times> bool) list"
  wo_attempts :: "attempt list"
  wo_errorReply :: "bool list"

type_synonym 'w claim_rpc = "string \<Rightarrow> 'w \<Rightarrow> 'w \<times> claim_reason option"
type_synonym 'w complete_rpc =
  "string \<Rightarrow> string option \<Rightarrow> string option \<Rightarrow> 'w \<Rightarrow> 'w \<times> completion option"

section \<open>The outbound claim\<close>

definition ensureOutbound :: "'w claim_rpc \<Rightarrow> bool \<Rightarrow> wf_params \<Rightarrow> 'w check" where
  "ensureOutbound claim binding p r =
     (case outbound r of
        Claimed \<Rightarrow> (r, Inr True)
      | Denied \<Rightarrow> (r, Inr False)
      | Unchecked \<Rightarrow>
          if wp_isSubAgent p then (r\<lparr>outbound := Claimed\<rparr>, Inr True)
          else if \<not> binding then (r\<lparr>outbound := Claimed\<rparr>, Inr True)
          else (case claim (wp_token p) (world r) of
            (w, None) \<Rightarrow> (r\<lparr>world := w\<rparr>, Inl ''claim failed'')
          | (w, Some reason) \<Rightarrow>
              if claim_allowed reason then (r\<lparr>world := w, outbound := Claimed\<rparr>, Inr True)
              else (r\<lparr>world := w, outbound := Denied\<rparr>, Inr False)))"

section \<open>Steps\<close>

text \<open>\<open>step.do\<close> with retries: the list holds the outcome of each attempt it may make.\<close>

fun run_step ::
    "('o \<Rightarrow> 'w run_state \<Rightarrow> 'w run_state \<times> (string + 'a)) \<Rightarrow> 'o list \<Rightarrow> 'w run_state \<Rightarrow>
     'w run_state \<times> (string + 'a)" where
  "run_step body [] r = (r, Inl ''no attempt left'')"
| "run_step body (x # xs) r =
     (case body x r of
        (r', Inr v) \<Rightarrow> (r', Inr v)
      | (r', Inl e) \<Rightarrow> if xs = [] then (r', Inl e) else run_step body xs r')"

definition TELEGRAM_RELINK_REQUIRED_MESSAGE :: string where
  "TELEGRAM_RELINK_REQUIRED_MESSAGE =
     ''Telegram access is currently unlinked for this account. Reconnect Telegram from the app, then send me another message.''"

text \<open>One attempt of \<open>resolve-user\<close>; a failing post of the notice is swallowed.\<close>

definition resolve_user ::
    "'w check \<Rightarrow> resolve_answer \<times> bool \<Rightarrow> 'w run_state \<Rightarrow> 'w run_state \<times> (string + string option)" where
  "resolve_user ensure x r =
     (let (answer, disposeOk) = x;
          (r', res) = (case answer of
             ResolveThrew e \<Rightarrow> (r, Inl e)
           | ResolvedUser u \<Rightarrow> (r, Inr (Some u))
           | ResolvedBlocked \<Rightarrow>
               (case ensure r of
                  (r1, Inl e) \<Rightarrow> (r1, Inl e)
                | (r1, Inr False) \<Rightarrow> (r1, Inr None)
                | (r1, Inr True) \<Rightarrow>
                    (act (PostText RelinkNotice TELEGRAM_RELINK_REQUIRED_MESSAGE) r1, Inr None)))
      in if disposeOk then (r', res) else (r', Inl ''dispose failed''))"

text \<open>The parent context is put before the first message.\<close>

definition inject_parent :: "string option \<Rightarrow> string list \<Rightarrow> string list" where
  "inject_parent parent contents =
     (case parent of
        None \<Rightarrow> contents
      | Some ctx \<Rightarrow>
          if js_trim ctx = [] then contents
          else (case contents of
            [] \<Rightarrow> [ctx]
          | c # cs \<Rightarrow> js_trim (ctx @ blank_line @ c) # cs))"

definition turn_contents :: "string list \<Rightarrow> string list" where
  "turn_contents contents =
     (if length contents > 1 then contents else [case contents of [] \<Rightarrow> [] | c # _ \<Rightarrow> c])"

text \<open>Delivery of the result; an exception while posting is swallowed.\<close>

definition deliver ::
    "'w check \<Rightarrow> wf_params \<Rightarrow> bool \<Rightarrow> turn_result \<Rightarrow> 'w run_state \<Rightarrow> 'w run_state \<times> (string + string)" where
  "deliver ensure p postOk result r =
     (if outbound r = Denied \<or> tr_status result = TurnCancelled then (r, Inr [])
      else
        (let finalText = js_trim (tr_text result);
             files = filter is_attachment (tr_parts result);
             (r1, go) = (if finalText \<noteq> [] then ensure r else (r, Inr True))
         in case go of
           Inl e \<Rightarrow> (r1, Inl e)
         | Inr False \<Rightarrow> (r1, Inr [])
         | Inr True \<Rightarrow>
             (let posts = \<not> wp_isSubAgent p \<and> finalText \<noteq> [];
                  r2 = (if posts then act (PostText FinalReply finalText) r1 else r1);
                  r3 = (if \<not> wp_isSubAgent p \<and> files \<noteq> [] \<and> (posts \<longrightarrow> postOk)
                        then act (SendParts files) r2 else r2)
              in (r3, Inr finalText))))"

definition agent_body ::
    "'w check \<Rightarrow> wf_params \<Rightarrow> attempt \<Rightarrow> 'w run_state \<Rightarrow> 'w run_state \<times> (string + string)" where
  "agent_body ensure p x r =
     (case at_setupError x of
        Some e \<Rightarrow> (r, Inl e)
      | None \<Rightarrow>
          (case (case conv r of Some c \<Rightarrow> Inr c | None \<Rightarrow> at_conversation x) of
             Inl e \<Rightarrow> (r, Inl e)
           | Inr c \<Rightarrow>
               (case at_ingested x of
                  Inl e \<Rightarrow> (r\<lparr>conv := Some c\<rparr>, Inl e)
                | Inr contents \<Rightarrow>
                    (case handleTurn ensure (at_turn x)
                            (turn_contents (inject_parent (wp_parentContext p) contents))
                            (r\<lparr>conv := Some c\<rparr>) of
                       (r1, Inl e) \<Rightarrow> (r1, Inl e)
                     | (r1, Inr result) \<Rightarrow> deliver ensure p (at_postOk x) result r1))))"

definition agent_attempt ::
    "'w check \<Rightarrow> wf_params \<Rightarrow> attempt \<Rightarrow> 'w run_state \<Rightarrow> 'w run_state \<times> (string + string)" where
  "agent_attempt ensure p x r =
     (let (r', res) = agent_body ensure p x r
      in if at_disposeOk x then (r', res) else (r', Inl ''dispose failed''))"

definition error_reply :: "bool \<Rightarrow> 'w run_state \<Rightarrow> 'w run_state \<times> (string + unit)" where
  "error_reply ok r =
     (act (PostText ErrorNotice ''Sorry, something went wrong. Please try again.'') r,
      if ok then Inr () else Inl ''error reply failed'')"

definition complete_attempt ::
    "'w complete_rpc \<Rightarrow> wf_params \<Rightarrow> string option \<Rightarrow> unit \<Rightarrow> 'w run_state \<Rightarrow>
     'w run_state \<times> (string + unit)" where
  "complete_attempt complete p uid x r =
     (case complete (wp_token p) uid (conv r) (world r) of
        (w, None) \<Rightarrow> (r\<lparr>world := w\<rparr>, Inl ''complete failed'')
      | (w, Some c) \<Rightarrow> (r\<lparr>world := w\<rparr>, Inr ()))"

definition notifyComplete ::
    "'w complete_rpc \<Rightarrow> bool \<Rightarrow> nat \<Rightarrow> wf_params \<Rightarrow> string option \<Rightarrow> 'w run_state \<Rightarrow>
     'w run_state \<times> (string + unit)" where
  "notifyComplete complete binding tries p uid r =
     (if wp_isSubAgent p \<or> \<not> binding then (r, Inr ())
      else run_step (complete_attempt complete p uid) (replicate tries ()) r)"

section \<open>The run\<close>

datatype wf_outcome = ReturnedEarly | Returned string string | Threw string

definition AGENT_LOOP_ATTEMPTS :: nat where "AGENT_LOOP_ATTEMPTS = 4"

text \<open>The catch block.\<close>

definition wf_catch ::
    "'w claim_rpc \<Rightarrow> 'w complete_rpc \<Rightarrow> bool \<Rightarrow> nat \<Rightarrow> wf_params \<Rightarrow> wf_oracle \<Rightarrow> string option \<Rightarrow>
     string \<Rightarrow> 'w run_state \<Rightarrow> 'w run_state \<times> wf_outcome" where
  "wf_catch claim complete binding tries p orc uid err r =
     (case (if wp_isSubAgent p then (r, Inr False) else ensureOutbound claim binding p r) of
        (r1, Inl e) \<Rightarrow> (r1, Threw e)
      | (r1, Inr b) \<Rightarrow>
          (case (if b then run_step error_reply (take tries (wo_errorReply orc)) r1
                 else (r1, Inr ())) of
             (r2, Inl e) \<Rightarrow> (r2, Threw e)
           | (r2, Inr _) \<Rightarrow>
               (case notifyComplete complete binding tries p uid r2 of
                  (r3, Inl e) \<Rightarrow> (r3, Threw e)
                | (r3, Inr _) \<Rightarrow> (r3, Threw err))))"

definition wf_body ::
    "'w claim_rpc \<Rightarrow> 'w complete_rpc \<Rightarrow> bool \<Rightarrow> nat \<Rightarrow> wf_params \<Rightarrow> wf_oracle \<Rightarrow> string \<Rightarrow>
     'w run_state \<Rightarrow> 'w run_state \<times> wf_outcome" where
  "wf_body claim complete binding tries p orc uid r =
     (case run_step (agent_attempt (ensureOutbound claim binding p) p)
             (take AGENT_LOOP_ATTEMPTS (wo_attempts orc)) r of
        (r1, Inl e) \<Rightarrow> wf_catch claim complete binding tries p orc (Some uid) e r1
      | (r1, Inr response) \<Rightarrow>
          (case notifyComplete complete binding tries p (Some uid) r1 of
             (r2, Inl e) \<Rightarrow> wf_catch claim complete binding tries p orc (Some uid) e r2
           | (r2, Inr _) \<Rightarrow> (r2, Returned response uid)))"

definition wf_run ::
    "'w claim_rpc \<Rightarrow> 'w complete_rpc \<Rightarrow> bool \<Rightarrow> nat \<Rightarrow> wf_params \<Rightarrow> wf_oracle \<Rightarrow> 'w \<Rightarrow>
     'w run_state \<times> wf_outcome" where
  "wf_run claim complete binding tries p orc w =
     (let r0 = \<lparr>world = w, outbound = Unchecked, conv = wp_conversationId p, trace = []\<rparr>
      in case (if wp_hasFrom p
               then run_step (resolve_user (ensureOutbound claim binding p))
                      (take tries (wo_resolve orc)) r0
               else (r0, Inr (wp_userId p))) of
           (r1, Inl e) \<Rightarrow> wf_catch claim complete binding tries p orc (wp_userId p) e r1
         | (r1, Inr uid) \<Rightarrow>
             (case truthy_str uid of
                None \<Rightarrow> (r1, ReturnedEarly)
              | Some u \<Rightarrow> wf_body claim complete binding tries p orc u r1))"

section \<open>Preservation\<close>

text \<open>A predicate that every attempt of a step keeps is kept by the step.\<close>

lemma run_step_keeps:
  assumes "\<And>x r r' v. P r \<Longrightarrow> body x r = (r', v) \<Longrightarrow> P r'"
  shows "P r \<Longrightarrow> run_step body xs r = (r', v) \<Longrightarrow> P r'"
proof (induction xs arbitrary: r)
  case (Cons x xs)
  obtain r1 v1 where b: "body x r = (r1, v1)" by (metis prod.exhaust)
  from assms [OF Cons.prems(1) b] Cons.prems(2) Cons.IH [of r1] b show ?case
    by (auto split: sum.splits if_splits)
qed simp

lemma ensure_cases:
  assumes "ensureOutbound claim binding p r = (r', a)"
  obtains (same) "r' = r" "outbound r \<noteq> Unchecked" "a = Inr (outbound r = Claimed)"
  | (free) "outbound r = Unchecked" "wp_isSubAgent p \<or> \<not> binding" "r' = r\<lparr>outbound := Claimed\<rparr>"
      "a = Inr True"
  | (threw) w where "outbound r = Unchecked" "claim (wp_token p) (world r) = (w, None)"
      "r' = r\<lparr>world := w\<rparr>" "a = Inl ''claim failed''"
  | (asked) w reason where "outbound r = Unchecked" "claim (wp_token p) (world r) = (w, Some reason)"
      "r' = r\<lparr>world := w, outbound := (if claim_allowed reason then Claimed else Denied)\<rparr>"
      "a = Inr (claim_allowed reason)"
proof (cases "outbound r")
  case Unchecked
  obtain w o1 where c: "claim (wp_token p) (world r) = (w, o1)" by (metis prod.exhaust)
  show thesis
  proof (cases "wp_isSubAgent p \<or> \<not> binding")
    case True
    with Unchecked assms have "r' = r\<lparr>outbound := Claimed\<rparr> \<and> a = Inr True"
      by (cases "wp_isSubAgent p") (auto simp: ensureOutbound_def)
    with Unchecked True free show thesis by blast
  next
    case False
    with Unchecked assms threw asked c show thesis
      by (cases o1) (auto simp: ensureOutbound_def split: if_splits)
  qed
qed (use assms same in \<open>auto simp: ensureOutbound_def\<close>)

lemma ensure_trace:
  "ensureOutbound claim binding p r = (r', a) \<Longrightarrow> trace r' = trace r \<and> conv r' = conv r"
  by (erule ensure_cases) auto

lemma ensure_true:
  "ensureOutbound claim binding p r = (r', Inr True) \<Longrightarrow> outbound r' = Claimed"
  by (erule ensure_cases) auto

lemma ensure_claimed:
  "ensureOutbound claim binding p r = (r', a) \<Longrightarrow> outbound r = Claimed \<Longrightarrow> r' = r"
  by (erule ensure_cases) auto

lemma turn_decides:
  assumes "handleTurn (ensureOutbound claim binding p) orc contents r = (r', Inr res)"
  shows "outbound r' \<noteq> Unchecked \<or> res = cancelled_result"
  using assms
proof (rule handleTurn_returns)
  fix r0 r1 a
  assume "ensureOutbound claim binding p r0 = (r1, a)" "outbound r' = outbound r1"
    "a = Inr True \<or> res = cancelled_result \<and> r' = r1"
  then show ?thesis using ensure_true by fastforce
qed

text \<open>
  The invariants of a run: a predicate that a claim keeps, that lets messages be posted and saved once
  the claim is granted, and that plan runs, the bookkeeping and the completion keep, is kept by every
  step and by the whole run.
\<close>

locale run_invariant =
  fixes claim :: "'w claim_rpc" and binding :: bool and complete :: "'w complete_rpc"
    and p :: wf_params and P :: "'w run_state \<Rightarrow> bool"
  assumes ens: "P r \<Longrightarrow> ensureOutbound claim binding p r = (r', a) \<Longrightarrow> P r'"
    and post: "P r \<Longrightarrow> outbound r = Claimed \<Longrightarrow> list_all (\<lambda>a. a \<noteq> RunPlan) as \<Longrightarrow> P (acts as r)"
    and plan: "P r \<Longrightarrow> P (act RunPlan r)"
    and cv: "P r \<Longrightarrow> P (r\<lparr>conv := c\<rparr>)"
    and comp: "P r \<Longrightarrow> complete (wp_token p) uid (conv r) (world r) = (w, k) \<Longrightarrow> P (r\<lparr>world := w\<rparr>)"
begin

abbreviation ensure :: "'w check" where
  "ensure \<equiv> ensureOutbound claim binding p"

lemma post1: "P r \<Longrightarrow> outbound r = Claimed \<Longrightarrow> a \<noteq> RunPlan \<Longrightarrow> P (act a r)"
  using post [of r "[a]"] by (simp add: act_def acts_def)

lemma deliver_keeps:
  assumes o: "outbound r \<noteq> Unchecked" and p: "P r" and d: "deliver ensure p postOk result r = (r', v)"
  shows "P r'"
proof (cases "outbound r = Denied \<or> tr_status result = TurnCancelled")
  case True
  with d p show ?thesis by (auto simp: deliver_def)
next
  case False
  with o have c: "outbound r = Claimed" by (cases "outbound r") auto
  then have "ensure r = (r, Inr True)" by (simp add: ensureOutbound_def)
  with False d have
    "r' = (let finalText = js_trim (tr_text result); files = filter is_attachment (tr_parts result);
             posts = \<not> wp_isSubAgent p \<and> finalText \<noteq> [];
             r2 = (if posts then act (PostText FinalReply finalText) r else r)
           in if \<not> wp_isSubAgent p \<and> files \<noteq> [] \<and> (posts \<longrightarrow> postOk)
              then act (SendParts files) r2 else r2)"
    by (auto simp: deliver_def Let_def)
  then show ?thesis using p c by (auto simp: Let_def post1)
qed

lemma turn_keeps:
  assumes "P r" "handleTurn ensure orc contents r = (r', res)"
  shows "P r'"
proof (rule handleTurn_keeps [OF _ _ plan _ assms])
  show "P s'" if "P s" "ensure s = (s', a)" for s s' a by (rule ens [OF that])
  show "P (act (PostText Progress t) s')" if "P s" "ensure s = (s', Inr True)" for s s' t
    by (rule post1 [OF ens [OF that] ensure_true [OF that(2)]]) simp
  show "P (acts as s')" if "P s" "ensure s = (s', Inr True)"
    "\<forall>a \<in> set as. \<exists>t. a = SaveUser t \<or> a = SaveAssistant t" for s s' as
    by (rule post [OF ens [OF that(1,2)] ensure_true [OF that(2)]])
       (use that(3) in \<open>auto simp: list_all_iff\<close>)
qed

lemma body_keeps:
  assumes p: "P r" and b: "agent_body ensure p x r = (r', v)"
  shows "P r'"
proof (cases "at_setupError x")
  case None
  show ?thesis
  proof (cases "case conv r of Some c \<Rightarrow> Inr c | None \<Rightarrow> at_conversation x")
    case c: (Inr c)
    show ?thesis
    proof (cases "at_ingested x")
      case i: (Inr contents)
      obtain r2 res where t: "handleTurn ensure (at_turn x)
          (turn_contents (inject_parent (wp_parentContext p) contents)) (r\<lparr>conv := Some c\<rparr>)
          = (r2, res)" by (metis prod.exhaust)
      have r2: "P r2" by (rule turn_keeps [OF cv [OF p] t])
      show ?thesis
      proof (cases res)
        case (Inl e)
        with r2 t b None c i show ?thesis by (simp add: agent_body_def)
      next
        case res: (Inr result)
        have d: "deliver ensure p (at_postOk x) result r2 = (r', v)"
          using t b None c i res by (simp add: agent_body_def)
        show ?thesis
        proof (cases "outbound r2 = Unchecked")
          case True
          then have "result = cancelled_result" using turn_decides [of claim binding p] t res by blast
          with d r2 show ?thesis by (simp add: deliver_def cancelled_result_def)
        next
          case False
          show ?thesis by (rule deliver_keeps [OF False r2 d])
        qed
      qed
    qed (use b None cv [OF p] c in \<open>auto simp: agent_body_def\<close>)
  qed (use b None p in \<open>auto simp: agent_body_def\<close>)
qed (use b p in \<open>auto simp: agent_body_def\<close>)

lemma attempt_keeps:
  assumes p: "P r" and b: "agent_attempt ensure p x r = (r', v)"
  shows "P r'"
proof -
  obtain r1 v1 where body: "agent_body ensure p x r = (r1, v1)" by (metis prod.exhaust)
  with body_keeps [OF p body] b show ?thesis by (simp add: agent_attempt_def split: if_splits)
qed

lemma resolve_keeps:
  assumes p: "P r" and b: "resolve_user ensure x r = (r', v)"
  shows "P r'"
proof -
  obtain answer ok where x: "x = (answer, ok)" by (metis prod.exhaust)
  obtain r1 a where e: "ensure r = (r1, a)" by (metis prod.exhaust)
  have r1: "P r1" by (rule ens [OF p e])
  have "P (act (PostText RelinkNotice m) r1)" if "a = Inr True" for m
    by (rule post1 [OF r1]) (use e that in \<open>auto intro: ensure_true\<close>)
  with p r1 b x e show ?thesis
    by (cases answer; cases a; cases ok) (auto simp: resolve_user_def split: bool.splits)
qed

lemma complete_attempt_keeps:
  assumes "P r" "complete_attempt complete p uid u r = (r', v)"
  shows "P r'"
proof -
  obtain w k where c: "complete (wp_token p) uid (conv r) (world r) = (w, k)"
    by (metis prod.exhaust)
  with assms(2) have "r' = r\<lparr>world := w\<rparr>"
    by (auto simp: complete_attempt_def split: option.splits)
  with comp [OF assms(1) c] show ?thesis by simp
qed

lemma notify_keeps:
  assumes p: "P r" and n: "notifyComplete complete binding tries p uid r = (r', v)"
  shows "P r'"
proof (cases "wp_isSubAgent p \<or> \<not> binding")
  case True
  with assms show ?thesis by (auto simp: notifyComplete_def)
next
  case False
  then have "run_step (complete_attempt complete p uid) (replicate tries ()) r = (r', v)"
    using n by (simp add: notifyComplete_def)
  then show ?thesis
    by (rule run_step_keeps [where P = P, rotated 2]) (use p complete_attempt_keeps in blast)+
qed

lemma error_reply_keeps:
  assumes p: "P r" "outbound r = Claimed" and n: "run_step error_reply xs r = (r', v)"
  shows "P r'"
proof -
  have "P r' \<and> outbound r' = Claimed"
  proof (rule run_step_keeps [where P = "\<lambda>s. P s \<and> outbound s = Claimed", OF _ _ n])
    show "P r \<and> outbound r = Claimed" using p by simp
    show "P s' \<and> outbound s' = Claimed" if "P s \<and> outbound s = Claimed" "error_reply ok s = (s', x)"
      for s s' x ok
      using that post1 by (auto simp: error_reply_def)
  qed
  then show ?thesis ..
qed

lemma catch_keeps:
  assumes p: "P r" and n: "wf_catch claim complete binding tries p orc uid err r = (r', v)"
  shows "P r'"
proof -
  let ?e = "if wp_isSubAgent p then (r, Inr False) else ensure r"
  obtain r1 a where e: "?e = (r1, a)" by (metis prod.exhaust)
  have r1: "P r1" using e p ens [OF p] by (auto split: if_splits)
  show ?thesis
  proof (cases a)
    case (Inl x)
    with e n r1 show ?thesis by (simp add: wf_catch_def)
  next
    case (Inr b)
    let ?f = "if b then run_step error_reply (take tries (wo_errorReply orc)) r1 else (r1, Inr ())"
    obtain r2 c where f: "?f = (r2, c)" by (metis prod.exhaust)
    have r2: "P r2"
    proof (cases b)
      case True
      then have "outbound r1 = Claimed"
        using e Inr ensure_true [of claim binding p r r1] by (simp split: if_splits)
      then show ?thesis using error_reply_keeps [OF r1] f True by simp
    qed (use f r1 in simp)
    obtain r3 d where g: "notifyComplete complete binding tries p uid r2 = (r3, d)"
      by (metis prod.exhaust)
    have "P r3" by (rule notify_keeps [OF r2 g])
    with r2 n e f g Inr show ?thesis
      by (cases c; cases d) (simp_all add: wf_catch_def)
  qed
qed

lemma body_run_keeps:
  assumes p: "P r" and b: "wf_body claim complete binding tries p orc u r = (r', v)"
  shows "P r'"
proof -
  obtain r2 c where l: "run_step (agent_attempt ensure p) (take AGENT_LOOP_ATTEMPTS (wo_attempts orc)) r
      = (r2, c)" by (metis prod.exhaust)
  have r2: "P r2"
    by (rule run_step_keeps [where P = P, OF _ p l]) (rule attempt_keeps)
  show ?thesis
  proof (cases c)
    case (Inl x)
    with b l have "wf_catch claim complete binding tries p orc (Some u) x r2 = (r', v)"
      by (simp add: wf_body_def)
    then show ?thesis by (rule catch_keeps [OF r2])
  next
    case (Inr resp)
    obtain r3 d where nt: "notifyComplete complete binding tries p (Some u) r2 = (r3, d)"
      by (metis prod.exhaust)
    have r3: "P r3" by (rule notify_keeps [OF r2 nt])
    show ?thesis
    proof (cases d)
      case d: (Inl x)
      with b l nt Inr have "wf_catch claim complete binding tries p orc (Some u) x r3 = (r', v)"
        by (simp add: wf_body_def)
      then show ?thesis by (rule catch_keeps [OF r3])
    next
      case d: (Inr y)
      with b l nt Inr r3 show ?thesis by (simp add: wf_body_def)
    qed
  qed
qed

lemma resolve_step_keeps:
  assumes "P r" "(if wp_hasFrom p then run_step (resolve_user ensure) xs r
                  else (r, Inr uid)) = (r', v)"
  shows "P r'"
proof (cases "wp_hasFrom p")
  case True
  with assms(2) have "run_step (resolve_user ensure) xs r = (r', v)" by simp
  then show ?thesis
    by (rule run_step_keeps [where P = P, rotated 2]) (use assms(1) resolve_keeps in blast)+
qed (use assms in simp)

lemma wf_run_keeps:
  assumes p: "P \<lparr>world = w, outbound = Unchecked, conv = wp_conversationId p, trace = []\<rparr>"
    and n: "wf_run claim complete binding tries p orc w = (r', v)"
  shows "P r'"
proof -
  let ?r0 = "\<lparr>world = w, outbound = Unchecked, conv = wp_conversationId p, trace = []\<rparr>"
  let ?s = "if wp_hasFrom p then run_step (resolve_user ensure) (take tries (wo_resolve orc)) ?r0
            else (?r0, Inr (wp_userId p))"
  obtain r1 a where s: "?s = (r1, a)" by (metis prod.exhaust)
  have r1: "P r1" by (rule resolve_step_keeps [OF p s])
  show ?thesis
  proof (cases a)
    case (Inl x)
    with n s have "wf_catch claim complete binding tries p orc (wp_userId p) x r1 = (r', v)"
      by (simp add: wf_run_def)
    then show ?thesis by (rule catch_keeps [OF r1])
  next
    case (Inr uid)
    show ?thesis
    proof (cases "truthy_str uid")
      case None
      with n s Inr r1 show ?thesis by (simp add: wf_run_def)
    next
      case (Some u)
      then have "wf_body claim complete binding tries p orc u r1 = (r', v)"
        using n s Inr by (simp add: wf_run_def)
      then show ?thesis by (rule body_run_keeps [OF r1])
    qed
  qed
qed

end

section \<open>The contract with the session\<close>

text \<open>
  What the workflow relies on: an answered completion ends the execution of its token; a claim, and a
  completion that threw, leave every token as active as it was.
\<close>

locale session_rpc =
  fixes claim :: "string \<Rightarrow> 'w \<Rightarrow> 'w \<times> claim_reason option"
    and complete :: "string \<Rightarrow> string option \<Rightarrow> string option \<Rightarrow> 'w \<Rightarrow> 'w \<times> completion option"
    and active :: "string \<Rightarrow> 'w \<Rightarrow> bool"
  assumes claim_active: "claim t w = (w', a) \<Longrightarrow> active u w' = active u w"
    and complete_done: "complete t uid cid w = (w', Some c) \<Longrightarrow> \<not> active t w'"
    and complete_threw: "complete t uid cid w = (w', None) \<Longrightarrow> active u w' = active u w"
begin

lemma ensure_active:
  "ensureOutbound claim binding p r = (r', a) \<Longrightarrow> active u (world r') = active u (world r)"
  by (erule ensure_cases) (auto dest: claim_active)

lemma notify_done:
  assumes "notifyComplete complete True tries p uid r = (r', Inr x)" "\<not> wp_isSubAgent p"
  shows "\<not> active (wp_token p) (world r')"
proof -
  have "run_step (complete_attempt complete p uid) xs r = (r', Inr x) \<Longrightarrow>
        \<not> active (wp_token p) (world r')" for xs r
  proof (induction xs arbitrary: r)
    case (Cons y xs)
    obtain w k where c: "complete (wp_token p) uid (conv r) (world r) = (w, k)"
      by (metis prod.exhaust)
    show ?case
    proof (cases k)
      case None
      with Cons c show ?thesis by (auto simp: complete_attempt_def split: if_splits)
    next
      case (Some z)
      with Cons.prems c complete_done [of "wp_token p" uid "conv r" "world r" w z] show ?thesis
        by (auto simp: complete_attempt_def)
    qed
  qed simp
  with assms show ?thesis by (auto simp: notifyComplete_def)
qed

text \<open>A run that returns a response has released the session.\<close>

lemma run_releases:
  assumes "wf_run claim complete True tries p orc w = (r', Returned resp uid)" "\<not> wp_isSubAgent p"
  shows "\<not> active (wp_token p) (world r')"
proof -
  have C: "wf_catch claim complete True tries p orc u e r \<noteq> (r', Returned resp uid)"
    for u e r
    by (auto simp: wf_catch_def split: prod.splits sum.splits if_splits)
  let ?r0 = "\<lparr>world = w, outbound = Unchecked, conv = wp_conversationId p, trace = []\<rparr>"
  obtain r1 a where s: "(if wp_hasFrom p
      then run_step (resolve_user (ensureOutbound claim True p)) (take tries (wo_resolve orc)) ?r0
      else (?r0, Inr (wp_userId p))) = (r1, a)" by (metis prod.exhaust)
  obtain u where b: "wf_body claim complete True tries p orc u r1 = (r', Returned resp uid)"
    using assms(1) C s
    by (auto simp: wf_run_def split: sum.splits option.splits)
  obtain r2 x where "notifyComplete complete True tries p (Some u) r2 = (r', Inr x)"
    using b C by (auto simp: wf_body_def split: prod.splits sum.splits)
  then show ?thesis by (rule notify_done [OF _ assms(2)])
qed

text \<open>A run that returns early has told the session nothing.\<close>

lemma early_keeps_active:
  assumes "wf_run claim complete binding tries p orc w = (r', ReturnedEarly)"
  shows "active u (world r') = active u w"
proof -
  let ?r0 = "\<lparr>world = w, outbound = Unchecked, conv = wp_conversationId p, trace = []\<rparr>"
  have inv: "run_invariant claim binding (\<lambda>t u c w. (w, None)) p
      (\<lambda>s. active u (world s) = active u w)"
    by unfold_locales (auto simp: ensure_active)
  obtain r1 a where s: "(if wp_hasFrom p
      then run_step (resolve_user (ensureOutbound claim binding p)) (take tries (wo_resolve orc)) ?r0
      else (?r0, Inr (wp_userId p))) = (r1, a)" by (metis prod.exhaust)
  have "active u (world r1) = active u w"
    using run_invariant.resolve_step_keeps [OF inv _ s] by simp
  moreover have C: "wf_catch claim complete binding tries p orc v e r \<noteq> (r', ReturnedEarly)"
    for v e r
    by (auto simp: wf_catch_def split: prod.splits sum.splits if_splits)
  moreover have "wf_body claim complete binding tries p orc v r \<noteq> (r', ReturnedEarly)" for v r
    using C by (auto simp: wf_body_def split: prod.splits sum.splits)
  ultimately show ?thesis
    using assms s by (auto simp: wf_run_def split: sum.splits option.splits)
qed

end

text \<open>
  The session object as the provider: a world is the object, a clock, and whether the next calls get
  through.
\<close>

type_synonym session_world = "session_do \<times> int \<times> bool list"

fun session_claim :: "string \<Rightarrow> session_world \<Rightarrow> session_world \<times> claim_reason option" where
  "session_claim t (d, now, False # oks) = ((d, now + 1, oks), None)"
| "session_claim t (d, now, oks) =
     (let (d', r) = claimFirstOutbound now t d in ((d', now + 1, tl oks), Some r))"

fun session_complete ::
    "string \<Rightarrow> string option \<Rightarrow> string option \<Rightarrow> session_world \<Rightarrow> session_world \<times> completion option" where
  "session_complete t uid cid (d, now, False # oks) = ((d, now + 1, oks), None)"
| "session_complete t uid cid (d, now, oks) =
     (let (d', c) = completeExecution now t uid cid d in ((d', now + 1, tl oks), Some c))"

definition session_active :: "string \<Rightarrow> session_world \<Rightarrow> bool" where
  "session_active t w \<longleftrightarrow> activeExecutionToken (view (fst w)) = Some t"

lemma claim_active_view:
  "claimFirstOutbound now t d = (d', r) \<Longrightarrow>
   activeExecutionToken (view d') = activeExecutionToken (view d)"
  by (erule claim_cases) auto

lemma complete_inactive:
  assumes "completeExecution now t uid cid d = (d', c)"
  shows "activeExecutionToken (view d') \<noteq> Some t"
  using assms
  by (cases rule: complete_cases)
     (auto simp: scheduleDebounce_def Let_def resetExecutionState_def resetDebounceState_def)

interpretation session: session_rpc session_claim session_complete session_active
proof
  show "session_claim t w = (w', a) \<Longrightarrow> session_active u w' = session_active u w" for t w w' a u
    by (induction t w rule: session_claim.induct)
       (auto simp: session_active_def claim_active_view Let_def split: prod.splits)
  show "session_complete t uid cid w = (w', Some c) \<Longrightarrow> \<not> session_active t w'" for t uid cid w w' c
    by (induction t uid cid w rule: session_complete.induct)
       (auto simp: session_active_def complete_inactive Let_def split: prod.splits)
  show "session_complete t uid cid w = (w', None) \<Longrightarrow> session_active u w' = session_active u w"
    for t uid cid w w' u
    by (induction t uid cid w rule: session_complete.induct)
       (auto simp: session_active_def Let_def split: prod.splits)
qed

end
