(* ===== verification/WorkflowProps.thy ===== *)
theory WorkflowProps
  imports Workflow
begin

text \<open>The properties of the agent workflow, alone and against the conversation session.\<close>

section \<open>Nothing is said without the claim\<close>

definition silent :: "'w run_state \<Rightarrow> bool" where
  "silent r \<longleftrightarrow> outbound r = Claimed \<or> list_all (\<lambda>a. a = RunPlan) (trace r)"

interpretation silent_run: run_invariant claim binding complete p silent
  for claim :: "'w claim_rpc" and binding and complete :: "'w complete_rpc" and p
proof
  show "silent r'" if "silent r" "ensureOutbound claim binding p r = (r', a)" for r r' a
  proof (cases "outbound r = Claimed")
    case True
    with ensure_claimed [OF that(2)] that(1) show ?thesis by simp
  next
    case False
    with that(1) ensure_trace [OF that(2)] show ?thesis by (simp add: silent_def)
  qed
qed (simp_all add: silent_def)


section \<open>The reply is delivered once\<close>

fun is_final :: "wf_action \<Rightarrow> bool" where
  "is_final (PostText FinalReply t) = True"
| "is_final _ = False"

definition finals :: "'w run_state \<Rightarrow> nat" where
  "finals r = length (filter is_final (trace r))"

lemma finals_simps [simp]:
  "finals (act a r) = finals r + (if is_final a then 1 else 0)"
  "finals (r\<lparr>world := w\<rparr>) = finals r" "finals (r\<lparr>conv := c\<rparr>) = finals r"
  "finals (r\<lparr>outbound := ob\<rparr>) = finals r"
  by (simp_all add: finals_def)

lemma finals_acts: "list_all (\<lambda>a. \<not> is_final a) as \<Longrightarrow> finals (acts as r) = finals r"
  by (simp add: finals_def list_all_iff filter_empty_conv)

lemma ensure_finals:
  "ensureOutbound claim binding p r = (r', a) \<Longrightarrow> finals r' = finals r"
  using ensure_trace [of claim binding p r r' a] by (simp add: finals_def)

lemma turn_finals:
  assumes "handleTurn (ensureOutbound claim binding p) orc contents r = (r', res)"
  shows "finals r' = finals r"
proof (rule handleTurn_keeps [where P = "\<lambda>s. finals s = finals r", OF _ _ _ _ _ assms])
  show "finals (acts as s') = finals r"
    if "finals s = finals r" "ensureOutbound claim binding p s = (s', Inr True)"
      "\<forall>a \<in> set as. \<exists>t. a = SaveUser t \<or> a = SaveAssistant t" for s s' as
  proof -
    have "list_all (\<lambda>a. \<not> is_final a) as" using that(3) by (auto simp: list_all_iff)
    with that(1,2) show ?thesis by (simp add: finals_acts ensure_finals)
  qed
qed (simp_all add: ensure_finals)

lemma deliver_finals:
  assumes "deliver (ensureOutbound claim binding p) p ok result r = (r', v)"
  shows "finals r' \<le> Suc (finals r) \<and> (\<forall>e. v = Inl e \<longrightarrow> finals r' = finals r)"
proof -
  obtain r1 a where e: "ensureOutbound claim binding p r = (r1, a)" by (metis prod.exhaust)
  from assms e ensure_finals [OF e] show ?thesis
    by (cases a) (auto simp: deliver_def Let_def split: if_splits bool.splits)
qed

lemma attempt_finals:
  assumes "agent_attempt (ensureOutbound claim binding p) p x r = (r', v)" "at_disposeOk x"
  shows "finals r' \<le> Suc (finals r) \<and> (\<forall>e. v = Inl e \<longrightarrow> finals r' = finals r)"
proof -
  have b: "agent_body (ensureOutbound claim binding p) p x r = (r', v)"
    using assms by (simp add: agent_attempt_def split: prod.splits)
  let ?t = "\<lambda>c contents. handleTurn (ensureOutbound claim binding p) (at_turn x)
      (turn_contents (inject_parent (wp_parentContext p) contents)) (r\<lparr>conv := Some c\<rparr>)"
  show ?thesis
  proof (cases "at_setupError x")
    case None
    show ?thesis
    proof (cases "case conv r of Some c \<Rightarrow> Inr c | None \<Rightarrow> at_conversation x")
      case c: (Inr c)
      show ?thesis
      proof (cases "at_ingested x")
        case i: (Inr contents)
        obtain r2 res where t: "?t c contents = (r2, res)" by (metis prod.exhaust)
        have f: "finals r2 = finals r" using turn_finals [OF t] by simp
        show ?thesis
        proof (cases res)
          case (Inl e)
          with t b None c i f show ?thesis by (simp add: agent_body_def)
        next
          case (Inr result)
          with t b None c i have "deliver (ensureOutbound claim binding p) p (at_postOk x) result r2
              = (r', v)"
            by (simp add: agent_body_def)
          from deliver_finals [OF this] f show ?thesis by simp
        qed
      qed (use b None c in \<open>auto simp: agent_body_def\<close>)
    qed (use b None in \<open>auto simp: agent_body_def\<close>)
  qed (use b in \<open>auto simp: agent_body_def\<close>)
qed

lemma loop_finals:
  "run_step (agent_attempt (ensureOutbound claim binding p) p) xs r = (r', v) \<Longrightarrow>
   list_all at_disposeOk xs \<Longrightarrow> finals r' \<le> Suc (finals r)"
proof (induction xs arbitrary: r)
  case (Cons x xs)
  obtain r1 v1 where b: "agent_attempt (ensureOutbound claim binding p) p x r = (r1, v1)"
    by (metis prod.exhaust)
  with attempt_finals [OF b] Cons.prems have
    f: "finals r1 \<le> Suc (finals r) \<and> (\<forall>e. v1 = Inl e \<longrightarrow> finals r1 = finals r)"
    by simp
  show ?case
  proof (cases v1)
    case (Inr y)
    with b Cons.prems f show ?thesis by simp
  next
    case (Inl e)
    with b Cons.prems Cons.IH [of r1] f show ?thesis by (auto split: if_splits)
  qed
qed simp

lemma resolve_finals:
  assumes "resolve_user (ensureOutbound claim binding p) y r = (r', v)"
  shows "finals r' = finals r"
proof -
  obtain r1 a where e: "ensureOutbound claim binding p r = (r1, a)" by (metis prod.exhaust)
  obtain answer ok where y: "y = (answer, ok)" by (metis prod.exhaust)
  show ?thesis
    using assms e y ensure_finals [OF e]
    by (cases answer; cases a; cases ok) (auto simp: resolve_user_def split: bool.splits)
qed

lemma notify_finals:
  assumes "notifyComplete complete binding tries p uid r = (r', u)"
  shows "finals r' = finals r"
proof (cases "wp_isSubAgent p \<or> \<not> binding")
  case True
  with assms show ?thesis by (auto simp: notifyComplete_def)
next
  case False
  then have "run_step (complete_attempt complete p uid) (replicate tries ()) r = (r', u)"
    using assms by (simp add: notifyComplete_def)
  then show ?thesis
    by (rule run_step_keeps [where P = "\<lambda>t. finals t = finals r", rotated 2])
       (auto simp: complete_attempt_def split: prod.splits option.splits)
qed

lemma error_reply_finals:
  assumes "run_step error_reply xs r = (r', u)"
  shows "finals r' = finals r"
  by (rule run_step_keeps [where P = "\<lambda>t. finals t = finals r", OF _ _ assms])
     (auto simp: error_reply_def)

lemma catch_finals:
  assumes "wf_catch claim complete binding tries p orc uid err r = (r', out)"
  shows "finals r' = finals r"
proof -
  obtain r1 a where e: "(if wp_isSubAgent p then (r, Inr False)
      else ensureOutbound claim binding p r) = (r1, a)" by (metis prod.exhaust)
  have r1: "finals r1 = finals r" using e ensure_finals by (auto split: if_splits)
  show ?thesis
  proof (cases a)
    case (Inl x)
    with e assms r1 show ?thesis by (simp add: wf_catch_def)
  next
    case (Inr b)
    obtain r2 c where f: "(if b then run_step error_reply (take tries (wo_errorReply orc)) r1
        else (r1, Inr ())) = (r2, c)" by (metis prod.exhaust)
    have r2: "finals r2 = finals r1" using f error_reply_finals by (auto split: if_splits)
    obtain r3 d where g: "notifyComplete complete binding tries p uid r2 = (r3, d)"
      by (metis prod.exhaust)
    from notify_finals [OF g] r1 r2 assms e f g Inr show ?thesis
      by (cases c; cases d) (simp_all add: wf_catch_def)
  qed
qed

text \<open>
  The reply of the agent is posted at most once in a run, however many attempts the agent loop
  needs and whatever fails: an attempt that posted the reply returns, even when the delivery itself
  fails.  (The runtimes are assumed to be disposed of without an exception, which would discard an
  attempt that has already posted.)
\<close>

theorem workflow_reply_once:
  assumes "wf_run claim complete binding tries p orc w = (r, out)"
    and "list_all at_disposeOk (wo_attempts orc)"
  shows "length (filter is_final (trace r)) \<le> 1"
proof -
  let ?e = "ensureOutbound claim binding p"
  let ?r0 = "\<lparr>world = w, outbound = Unchecked, conv = wp_conversationId p, trace = []\<rparr>"
  obtain r1 a where s: "(if wp_hasFrom p
      then run_step (resolve_user ?e) (take tries (wo_resolve orc)) ?r0
      else (?r0, Inr (wp_userId p))) = (r1, a)" by (metis prod.exhaust)
  have "finals s' = 0" if "finals s = 0" "resolve_user ?e x s = (s', y)" for s s' x y
    using resolve_finals [OF that(2)] that(1) by simp
  then have r1: "finals r1 = 0"
    using s run_step_keeps [of "\<lambda>t. finals t = 0" "resolve_user ?e" "?r0"]
    by (auto simp: finals_def split: if_splits)
  have body: "finals r' \<le> 1" if "wf_body claim complete binding tries p orc u r1 = (r', o')" for u r' o'
  proof -
    obtain r2 c where l: "run_step (agent_attempt ?e p) (take AGENT_LOOP_ATTEMPTS (wo_attempts orc)) r1
      = (r2, c)" by (metis prod.exhaust)
    have "list_all at_disposeOk (take AGENT_LOOP_ATTEMPTS (wo_attempts orc))"
      using assms(2) by (auto simp: list_all_iff dest: in_set_takeD)
    with loop_finals [OF l] r1 have "finals r2 \<le> 1" by simp
    show ?thesis
    proof (cases c)
      case (Inl x)
      with that l have "wf_catch claim complete binding tries p orc (Some u) x r2 = (r', o')"
        by (simp add: wf_body_def)
      from catch_finals [OF this] \<open>finals r2 \<le> 1\<close> show ?thesis by simp
    next
      case (Inr y)
      obtain r3 d where g: "notifyComplete complete binding tries p (Some u) r2 = (r3, d)"
        by (metis prod.exhaust)
      have r3: "finals r3 \<le> 1" using notify_finals [OF g] \<open>finals r2 \<le> 1\<close> by simp
      show ?thesis
      proof (cases d)
        case d: (Inl x)
        with that l g Inr have "wf_catch claim complete binding tries p orc (Some u) x r3 = (r', o')"
          by (simp add: wf_body_def)
        from catch_finals [OF this] r3 show ?thesis by simp
      qed (use that l g Inr r3 in \<open>simp add: wf_body_def\<close>)
    qed
  qed
  have "finals r \<le> 1"
  proof (cases a)
    case (Inl x)
    with assms(1) s have "wf_catch claim complete binding tries p orc (wp_userId p) x r1 = (r, out)"
      by (simp add: wf_run_def)
    from catch_finals [OF this] r1 show ?thesis by simp
  next
    case (Inr uid)
    show ?thesis
    proof (cases "truthy_str uid")
      case (Some u)
      with assms(1) s Inr have "wf_body claim complete binding tries p orc u r1 = (r, out)"
        by (simp add: wf_run_def)
      then show ?thesis by (rule body)
    qed (use assms(1) s Inr r1 in \<open>simp add: wf_run_def\<close>)
  qed
  then show ?thesis by (simp add: finals_def)
qed

section \<open>The workflow against the session\<close>

text \<open>
  C8. A run that returns a response has released the session: whatever was lost or retried on the way,
  the session no longer runs under the token of that run.
\<close>

theorem workflow_releases_session:
  assumes "wf_run session_claim session_complete True tries p orc w = (r, Returned response uid)"
    and "\<not> wp_isSubAgent p"
  shows "activeExecutionToken (view (fst (world r))) \<noteq> Some (wp_token p)"
  using session.run_releases [OF assms] by (simp add: session_active_def)

text \<open>Messages that arrive one after another, at given times.\<close>

definition ingest_all :: "(int \<times> ingest_payload) list \<Rightarrow> session_do \<Rightarrow> session_do" where
  "ingest_all ms d = fold (\<lambda>(now, m). ingestMessage now m) ms d"

lemma ingest_processing:
  assumes "status (view d) = Processing"
  shows "status (view (ingestMessage now m d)) = Processing \<and>
         alarmAt (ingestMessage now m d) = alarmAt d"
  using assms by (simp add: ingestMessage_def Let_def)

lemma ingest_all_processing:
  "status (view d) = Processing \<Longrightarrow>
   status (view (ingest_all ms d)) = Processing \<and> alarmAt (ingest_all ms d) = alarmAt d"
proof (induction ms arbitrary: d)
  case (Cons m ms)
  obtain now x where m: "m = (now, x)" by (metis prod.exhaust)
  from Cons.IH [of "ingestMessage now x d"] ingest_processing [OF Cons.prems, of now x] m
  show ?case by (simp add: ingest_all_def del: view_hydrated)
qed (simp add: ingest_all_def)

text \<open>
  A blocked Telegram user wedges the chat: when the user of a run resolves to a blocked account,
  the workflow returns without telling the session, so the session of the chat stays processing with no
  alarm set, and it stays so whatever messages arrive later: none of them is ever answered, even after
  the account is linked again.
\<close>

theorem workflow_blocked_user_wedges:
  assumes "wf_run session_claim session_complete True tries p orc (d, now, []) = (r, out)"
    and "wp_hasFrom p" "0 < tries" "wo_resolve orc = (ResolvedBlocked, True) # rest"
    and "session_inv (view d) (alarmAt d)" "activeExecutionToken (view d) = Some (wp_token p)"
  shows "out = ReturnedEarly \<and>
         status (view (ingest_all ms (fst (world r)))) = Processing \<and>
         alarmAt (ingest_all ms (fst (world r))) = None"
proof -
  let ?r0 = "\<lparr>world = (d, now, []), outbound = Unchecked, conv = wp_conversationId p, trace = []\<rparr>"
  let ?e = "ensureOutbound session_claim True p"
  obtain r1 a where e: "?e ?r0 = (r1, a)" by (metis prod.exhaust)
  have a: "\<exists>b. a = Inr b"
    using e by (cases rule: ensure_cases) (auto simp: Let_def split: prod.splits)
  obtain n where n: "tries = Suc n" using assms(3) by (cases tries) auto
  obtain r2 where u: "resolve_user ?e (ResolvedBlocked, True) ?r0 = (r2, Inr None)"
    "world r2 = world r1"
  proof -
    obtain b where "a = Inr b" using a by blast
    with e that show thesis by (cases b) (simp_all add: resolve_user_def)
  qed
  have res: "r = r2 \<and> out = ReturnedEarly"
    using assms(1) u by (simp add: wf_run_def assms(2,4) n)
  with assms(1) have "session_active t (world r) = session_active t (d, now, [])" for t
    using session.early_keeps_active by blast
  with assms(6) have "activeExecutionToken (view (fst (world r))) = Some (wp_token p)"
    by (simp add: session_active_def)
  moreover have "session_inv (view (fst (world r1))) (alarmAt (fst (world r1)))"
    using e
  proof (cases rule: ensure_cases)
    case (asked w reason)
    then obtain d' where "claimFirstOutbound now (wp_token p) d = (d', reason)" "fst w = d'"
      by (auto simp: Let_def split: prod.splits)
    moreover from this have "hydrated d'" by (metis fst_conv handler_hydrated(3))
    ultimately show ?thesis using claim_inv [OF assms(5)] asked(3) by simp
  qed (use assms(5) in \<open>auto split: prod.splits\<close>)
  ultimately have "status (view (fst (world r))) = Processing" "alarmAt (fst (world r)) = None"
    using res u(2) by (auto simp: session_inv_def)
  with ingest_all_processing res show ?thesis by simp
qed

section \<open>Witnesses\<close>

definition sample_params :: "string \<Rightarrow> wf_params" where
  "sample_params token =
     \<lparr>wp_hasFrom = True, wp_userId = None, wp_conversationId = None, wp_isSubAgent = False,
      wp_parentContext = None, wp_token = token\<rparr>"

definition sample_turn :: turn_oracle where
  "sample_turn =
     \<lparr>to_setupError = None, to_calls = [SendMessage ''on it''], to_generated = Inr ''done'',
      to_savesOk = 9, to_finishOk = True\<rparr>"

definition sample_attempt :: "bool \<Rightarrow> attempt" where
  "sample_attempt finishes =
     \<lparr>at_setupError = None, at_conversation = Inr ''conv'', at_ingested = Inr [''hello''],
      at_turn = sample_turn\<lparr>to_finishOk := finishes\<rparr>, at_postOk = True, at_disposeOk = True\<rparr>"

definition sample_oracle :: "resolve_answer \<Rightarrow> wf_oracle" where
  "sample_oracle answer =
     \<lparr>wo_resolve = [(answer, True)], wo_attempts = [sample_attempt False, sample_attempt True],
      wo_errorReply = [True]\<rparr>"

definition sample_wf :: "string \<Rightarrow> resolve_answer \<Rightarrow> session_world run_state \<times> wf_outcome" where
  "sample_wf token answer =
     wf_run session_claim session_complete True 3 (sample_params token) (sample_oracle answer)
       (processing_do, 0, [])"


theorem workflow_reply_once_witness:
  "length (filter is_final (trace (fst (sample_wf ''t'' (ResolvedUser ''u''))))) = 1"
proof -
  have d: "list_all at_disposeOk (wo_attempts (sample_oracle (ResolvedUser ''u'')))" by code_simp
  have "length (filter is_final (trace (fst (sample_wf ''t'' (ResolvedUser ''u''))))) \<le> 1"
    using workflow_reply_once [OF sample_wf_def [symmetric, THEN trans, OF prod.collapse [symmetric]] d] .
  moreover have "PostText FinalReply ''done'' \<in> set (trace (fst (sample_wf ''t'' (ResolvedUser ''u''))))"
    by code_simp
  then have "filter is_final (trace (fst (sample_wf ''t'' (ResolvedUser ''u'')))) \<noteq> []"
    unfolding filter_empty_conv by (intro notI) (drule bspec, assumption, simp)
  ultimately show ?thesis by (cases "filter is_final (trace (fst (sample_wf ''t'' (ResolvedUser ''u''))))") auto
qed

theorem workflow_releases_session_witness:
  "activeExecutionToken (view (fst (world (fst (sample_wf ''t'' (ResolvedUser ''u'')))))) \<noteq> Some ''t''"
proof -
  have out: "snd (sample_wf ''t'' (ResolvedUser ''u'')) = Returned ''done'' ''u''" by code_simp
  obtain r where r: "sample_wf ''t'' (ResolvedUser ''u'') = (r, Returned ''done'' ''u'')"
    using out by (metis prod.collapse)
  from workflow_releases_session [OF r [unfolded sample_wf_def]] show ?thesis
    by (simp add: r sample_params_def)
qed

theorem workflow_blocked_user_wedges_witness:
  "status (view (ingest_all [(9, sample_payload ''hello?'')]
      (fst (world (fst (sample_wf ''t'' ResolvedBlocked)))))) = Processing"
proof -
  obtain r out where r: "sample_wf ''t'' ResolvedBlocked = (r, out)" by (metis prod.exhaust)
  have "session_inv (view processing_do) (alarmAt processing_do)"
    "activeExecutionToken (view processing_do) = Some ''t''"
    by (simp_all add: processing_do_def new_session_do_def DEFAULT_STATE_def session_inv_def)
  with workflow_blocked_user_wedges [OF r [unfolded sample_wf_def], of "[]"
      "[(9, sample_payload ''hello?'')]"]
  show ?thesis by (simp add: r sample_params_def sample_oracle_def)
qed

end
