(* ===== verification/ChatState.thy ===== *)
theory ChatState
  imports Prelude "HOL-Library.AList"
begin

text \<open>
  The durable object \<open>ChatStateDO\<close> of \<open>apps/api/src/durable-objects/chat-state.ts\<close> and its adapter
  \<open>apps/api/src/chat-state/cloudflare-chat-state.ts\<close>: subscriptions, locks with a time to live, a
  cache with lists, bounded queues, and the alarm that cleans up what has expired.

  A table is a list of rows; a table with a text primary key is an association list with at most one
  row per key.  The clock does not advance inside a handler, so each takes one \<open>now\<close>.  The schema
  migration is the initial state.
\<close>

section \<open>Texts\<close>

text \<open>
  A stored text is what \<open>JSON.stringify\<close> makes of a value, or a text that is not JSON.  Strings inside a
  JSON value are texts again.
\<close>

datatype stext = Plain string | Encoded jval
  and jval = VNull | VBool bool | VNum int | VStr stext | VArr "jval list" | VObj "(string \<times> jval) list"

fun json_parse :: "stext \<Rightarrow> jval option" where
  "json_parse (Encoded v) = Some v"
| "json_parse (Plain s) = None"

definition json_stringify :: "jval \<Rightarrow> stext" where
  "json_stringify v = Encoded v"

fun val_str :: "jval \<Rightarrow> stext option" where
  "val_str (VStr t) = Some t"
| "val_str _ = None"

fun val_field :: "jval \<Rightarrow> string \<Rightarrow> jval option" where
  "val_field (VObj kvs) k = map_of kvs k"
| "val_field _ k = None"

definition parseStringList :: "stext \<Rightarrow> stext list" where
  "parseStringList raw =
     (case json_parse raw of Some (VArr xs) \<Rightarrow> List.map_filter val_str xs | _ \<Rightarrow> [])"

definition readQueueExpiry :: "stext \<Rightarrow> int option" where
  "readQueueExpiry raw =
     (case json_parse raw of
        Some v \<Rightarrow> (case val_field v ''expiresAt'' of Some (VNum n) \<Rightarrow> Some n | _ \<Rightarrow> None)
      | None \<Rightarrow> None)"

section \<open>State\<close>

record queue_row =
  qr_id :: nat
  qr_thread :: string
  qr_value :: stext
  qr_expires :: int

record chat_state =
  subscriptions :: "string list"
  locks :: "(string \<times> (string \<times> int)) list"
  cache :: "(string \<times> (stext \<times> int option)) list"
  queue_entries :: "queue_row list"
  next_id :: nat
  cleanupAt :: "int option"

definition empty_chat_state :: chat_state where
  "empty_chat_state =
     \<lparr>subscriptions = [], locks = [], cache = [], queue_entries = [], next_id = 1, cleanupAt = None\<rparr>"

record chat_lock =
  cl_threadId :: string
  cl_token :: string
  cl_expiresAt :: int

section \<open>Cleanup\<close>

definition expiries :: "chat_state \<Rightarrow> int list" where
  "expiries s =
     map (\<lambda>(k, t, e). e) (locks s) @ List.map_filter (\<lambda>(k, v, e). e) (cache s) @
     map qr_expires (queue_entries s)"

text \<open>\<open>MIN(expires_at)\<close> over what expires later.\<close>

definition nextExpiry :: "int \<Rightarrow> chat_state \<Rightarrow> int option" where
  "nextExpiry now s =
     (case filter (\<lambda>e. e > now) (expiries s) of [] \<Rightarrow> None | e # es \<Rightarrow> Some (foldl min e es))"

definition scheduleCleanupIfNeeded :: "int \<Rightarrow> chat_state \<Rightarrow> chat_state" where
  "scheduleCleanupIfNeeded now s =
     (case nextExpiry now s of None \<Rightarrow> s | Some n \<Rightarrow> s\<lparr>cleanupAt := Some n\<rparr>)"

text \<open>The alarm; the platform has consumed the alarm that fired.\<close>

definition cleanup_alarm :: "int \<Rightarrow> chat_state \<Rightarrow> chat_state" where
  "cleanup_alarm now s0 =
     (let s = s0\<lparr>cleanupAt := None,
                 locks := filter (\<lambda>(k, t, e). \<not> e \<le> now) (locks s0),
                 cache := filter (\<lambda>(k, v, e). \<not> (case e of None \<Rightarrow> False | Some x \<Rightarrow> x \<le> now)) (cache s0),
                 queue_entries := filter (\<lambda>r. \<not> qr_expires r \<le> now) (queue_entries s0)\<rparr>
      in case nextExpiry now s of None \<Rightarrow> s | Some n \<Rightarrow> s\<lparr>cleanupAt := Some n\<rparr>)"

definition cleanup_alarm_failed :: "int \<Rightarrow> chat_state \<Rightarrow> chat_state" where
  "cleanup_alarm_failed now s = s\<lparr>cleanupAt := Some (now + 30000)\<rparr>"

section \<open>Subscriptions\<close>

definition subscribe :: "string \<Rightarrow> chat_state \<Rightarrow> chat_state" where
  "subscribe threadId s =
     (if threadId \<in> set (subscriptions s) then s
      else s\<lparr>subscriptions := subscriptions s @ [threadId]\<rparr>)"

definition unsubscribe :: "string \<Rightarrow> chat_state \<Rightarrow> chat_state" where
  "unsubscribe threadId s = s\<lparr>subscriptions := filter (\<lambda>x. x \<noteq> threadId) (subscriptions s)\<rparr>"

definition isSubscribed :: "string \<Rightarrow> chat_state \<Rightarrow> bool" where
  "isSubscribed threadId s \<longleftrightarrow> threadId \<in> set (subscriptions s)"

section \<open>Locks\<close>

definition acquireLock ::
    "int \<Rightarrow> string \<Rightarrow> string \<Rightarrow> int \<Rightarrow> chat_state \<Rightarrow> chat_state \<times> chat_lock option" where
  "acquireLock now token threadId ttlMs s0 =
     (let s = s0\<lparr>locks := filter (\<lambda>(k, t, e). \<not> (k = threadId \<and> e \<le> now)) (locks s0)\<rparr>
      in if map_of (locks s) threadId \<noteq> None then (s, None)
         else (scheduleCleanupIfNeeded now
                 (s\<lparr>locks := locks s @ [(threadId, token, now + ttlMs)]\<rparr>),
               Some \<lparr>cl_threadId = threadId, cl_token = token, cl_expiresAt = now + ttlMs\<rparr>))"

definition forceReleaseLock :: "string \<Rightarrow> chat_state \<Rightarrow> chat_state" where
  "forceReleaseLock threadId s = s\<lparr>locks := filter (\<lambda>(k, t, e). k \<noteq> threadId) (locks s)\<rparr>"

definition releaseLock :: "string \<Rightarrow> string \<Rightarrow> chat_state \<Rightarrow> chat_state" where
  "releaseLock threadId token s =
     s\<lparr>locks := filter (\<lambda>(k, t, e). \<not> (k = threadId \<and> t = token)) (locks s)\<rparr>"

definition extendLock :: "int \<Rightarrow> string \<Rightarrow> string \<Rightarrow> int \<Rightarrow> chat_state \<Rightarrow> chat_state \<times> bool" where
  "extendLock now threadId token ttlMs s =
     (let hit = (\<lambda>(k, t, e). k = threadId \<and> t = token \<and> e > now)
      in if list_ex hit (locks s) then
           (scheduleCleanupIfNeeded now
              (s\<lparr>locks := map (\<lambda>(k, t, e). if hit (k, t, e) then (k, t, now + ttlMs) else (k, t, e))
                           (locks s)\<rparr>), True)
         else (s, False))"

section \<open>Cache and lists\<close>

text \<open>\<open>ttlMs ? now + ttlMs : null\<close>\<close>

definition expiry_of :: "int \<Rightarrow> int option \<Rightarrow> int option" where
  "expiry_of now ttlMs = (case ttlMs of None \<Rightarrow> None | Some t \<Rightarrow> if t = 0 then None else Some (now + t))"

definition expired :: "int \<Rightarrow> int option \<Rightarrow> bool" where
  "expired now e \<longleftrightarrow> (case e of None \<Rightarrow> False | Some x \<Rightarrow> x \<le> now)"

definition cacheGet :: "int \<Rightarrow> string \<Rightarrow> chat_state \<Rightarrow> chat_state \<times> stext option" where
  "cacheGet now key s =
     (case map_of (cache s) key of
        None \<Rightarrow> (s, None)
      | Some (v, e) \<Rightarrow> if expired now e then (s\<lparr>cache := AList.delete key (cache s)\<rparr>, None)
                       else (s, Some v))"

definition schedule_if :: "bool \<Rightarrow> int \<Rightarrow> chat_state \<Rightarrow> chat_state" where
  "schedule_if b now s = (if b then scheduleCleanupIfNeeded now s else s)"

definition cacheSet :: "int \<Rightarrow> string \<Rightarrow> stext \<Rightarrow> int option \<Rightarrow> chat_state \<Rightarrow> chat_state" where
  "cacheSet now key v ttlMs s =
     schedule_if (expiry_of now ttlMs \<noteq> None) now
       (s\<lparr>cache := AList.update key (v, expiry_of now ttlMs) (cache s)\<rparr>)"

definition cacheSetIfNotExists ::
    "int \<Rightarrow> string \<Rightarrow> stext \<Rightarrow> int option \<Rightarrow> chat_state \<Rightarrow> chat_state \<times> bool" where
  "cacheSetIfNotExists now key v ttlMs s =
     (if (case map_of (cache s) key of None \<Rightarrow> False | Some (_, e) \<Rightarrow> \<not> expired now e) then (s, False)
      else (schedule_if (expiry_of now ttlMs \<noteq> None) now
              (s\<lparr>cache := AList.delete key (cache s) @ [(key, v, expiry_of now ttlMs)]\<rparr>), True))"

definition cacheDelete :: "string \<Rightarrow> chat_state \<Rightarrow> chat_state" where
  "cacheDelete key s = s\<lparr>cache := AList.delete key (cache s)\<rparr>"

definition listAppend ::
    "int \<Rightarrow> string \<Rightarrow> stext \<Rightarrow> nat option \<Rightarrow> int option \<Rightarrow> chat_state \<Rightarrow> chat_state" where
  "listAppend now key v maxLength ttlMs s =
     (let old = (case map_of (cache s) key of
                   Some (raw, e) \<Rightarrow> if expired now e then [] else parseStringList raw
                 | None \<Rightarrow> []);
          pushed = old @ [v];
          bounded = (case maxLength of
                       None \<Rightarrow> pushed
                     | Some m \<Rightarrow> if length pushed > m then take_last m pushed else pushed)
      in schedule_if (expiry_of now ttlMs \<noteq> None) now
           (s\<lparr>cache := AList.update key
                (json_stringify (VArr (map VStr bounded)), expiry_of now ttlMs) (cache s)\<rparr>))"

definition listGet :: "int \<Rightarrow> string \<Rightarrow> chat_state \<Rightarrow> chat_state \<times> stext list" where
  "listGet now key s =
     (case cacheGet now key s of
        (s', None) \<Rightarrow> (s', [])
      | (s', Some raw) \<Rightarrow> (s', parseStringList raw))"

section \<open>Queues\<close>

text \<open>
  Identifiers grow (\<open>AUTOINCREMENT\<close>), so the rows of the table stand in the order of their ids.
\<close>

definition drop_expired :: "int \<Rightarrow> string \<Rightarrow> queue_row list \<Rightarrow> queue_row list" where
  "drop_expired now threadId rows = filter (\<lambda>r. \<not> (qr_thread r = threadId \<and> qr_expires r \<le> now)) rows"

definition thread_rows :: "string \<Rightarrow> queue_row list \<Rightarrow> queue_row list" where
  "thread_rows threadId rows = filter (\<lambda>r. qr_thread r = threadId) rows"

definition enqueue :: "int \<Rightarrow> string \<Rightarrow> stext \<Rightarrow> int \<Rightarrow> chat_state \<Rightarrow> chat_state \<times> nat" where
  "enqueue now threadId v maxSize s =
     (let bound = nat (max 1 maxSize);
          row = \<lparr>qr_id = next_id s, qr_thread = threadId, qr_value = v,
                 qr_expires = default_to (readQueueExpiry v) (now + 90000)\<rparr>;
          rows = drop_expired now threadId (queue_entries s) @ [row];
          n = length (thread_rows threadId rows);
          oldest = map qr_id (take (n - bound) (thread_rows threadId rows));
          (rows', depth) = (if n > bound then (filter (\<lambda>r. qr_id r \<notin> set oldest) rows, bound)
                            else (rows, n))
      in (scheduleCleanupIfNeeded now (s\<lparr>queue_entries := rows', next_id := Suc (next_id s)\<rparr>), depth))"

definition dequeue :: "int \<Rightarrow> string \<Rightarrow> chat_state \<Rightarrow> chat_state \<times> stext option" where
  "dequeue now threadId s =
     (let rows = drop_expired now threadId (queue_entries s)
      in case thread_rows threadId rows of
        [] \<Rightarrow> (s\<lparr>queue_entries := rows\<rparr>, None)
      | r # _ \<Rightarrow> (s\<lparr>queue_entries := filter (\<lambda>x. qr_id x \<noteq> qr_id r) rows\<rparr>, Some (qr_value r)))"

definition queueDepth :: "int \<Rightarrow> string \<Rightarrow> chat_state \<Rightarrow> chat_state \<times> nat" where
  "queueDepth now threadId s =
     (let rows = drop_expired now threadId (queue_entries s)
      in (s\<lparr>queue_entries := rows\<rparr>, length (thread_rows threadId rows)))"

section \<open>The adapter\<close>

text \<open>
  The adapter refuses every call before \<open>connect\<close>; otherwise it forwards to the object, encoding the
  values it stores and decoding what it reads.
\<close>

record chat_adapter =
  connected :: bool
  object :: chat_state

definition not_connected :: string where
  "not_connected = ''CloudflareChatStateAdapter is not connected. Call connect() first.''"

definition new_adapter :: chat_adapter where
  "new_adapter = \<lparr>connected = False, object = empty_chat_state\<rparr>"

definition ad_connect :: "chat_adapter \<Rightarrow> chat_adapter" where
  "ad_connect a = a\<lparr>connected := True\<rparr>"

definition ad_disconnect :: "chat_adapter \<Rightarrow> chat_adapter" where
  "ad_disconnect a = a\<lparr>connected := False\<rparr>"

definition with_stub ::
    "(chat_state \<Rightarrow> chat_state \<times> 'a) \<Rightarrow> chat_adapter \<Rightarrow> chat_adapter \<times> (string + 'a)" where
  "with_stub f a =
     (if \<not> connected a then (a, Inl not_connected)
      else case f (object a) of (s, r) \<Rightarrow> (a\<lparr>object := s\<rparr>, Inr r))"

definition no_result :: "(chat_state \<Rightarrow> chat_state) \<Rightarrow> chat_state \<Rightarrow> chat_state \<times> unit" where
  "no_result f s = (f s, ())"

definition ad_subscribe :: "string \<Rightarrow> chat_adapter \<Rightarrow> chat_adapter \<times> (string + unit)" where
  "ad_subscribe t = with_stub (no_result (subscribe t))"

definition ad_unsubscribe :: "string \<Rightarrow> chat_adapter \<Rightarrow> chat_adapter \<times> (string + unit)" where
  "ad_unsubscribe t = with_stub (no_result (unsubscribe t))"

definition ad_isSubscribed :: "string \<Rightarrow> chat_adapter \<Rightarrow> chat_adapter \<times> (string + bool)" where
  "ad_isSubscribed t = with_stub (\<lambda>s. (s, isSubscribed t s))"

definition ad_acquireLock ::
    "int \<Rightarrow> string \<Rightarrow> string \<Rightarrow> int \<Rightarrow> chat_adapter \<Rightarrow> chat_adapter \<times> (string + chat_lock option)" where
  "ad_acquireLock now token t ttl = with_stub (acquireLock now token t ttl)"

definition ad_forceReleaseLock :: "string \<Rightarrow> chat_adapter \<Rightarrow> chat_adapter \<times> (string + unit)" where
  "ad_forceReleaseLock t = with_stub (no_result (forceReleaseLock t))"

definition ad_releaseLock :: "chat_lock \<Rightarrow> chat_adapter \<Rightarrow> chat_adapter \<times> (string + unit)" where
  "ad_releaseLock l = with_stub (no_result (releaseLock (cl_threadId l) (cl_token l)))"

definition ad_extendLock ::
    "int \<Rightarrow> chat_lock \<Rightarrow> int \<Rightarrow> chat_adapter \<Rightarrow> chat_adapter \<times> (string + bool)" where
  "ad_extendLock now l ttl = with_stub (extendLock now (cl_threadId l) (cl_token l) ttl)"

definition map_result :: "('a \<Rightarrow> 'b) \<Rightarrow> chat_state \<times> 'a \<Rightarrow> chat_state \<times> 'b" where
  "map_result f x = (fst x, f (snd x))"

definition ad_get :: "int \<Rightarrow> string \<Rightarrow> chat_adapter \<Rightarrow> chat_adapter \<times> (string + jval option)" where
  "ad_get now key =
     with_stub (\<lambda>s. map_result (\<lambda>raw. case raw of None \<Rightarrow> None | Some t \<Rightarrow> json_parse t)
                      (cacheGet now key s))"

definition ad_set ::
    "int \<Rightarrow> string \<Rightarrow> jval \<Rightarrow> int option \<Rightarrow> chat_adapter \<Rightarrow> chat_adapter \<times> (string + unit)" where
  "ad_set now key v ttl = with_stub (no_result (cacheSet now key (json_stringify v) ttl))"

definition ad_setIfNotExists ::
    "int \<Rightarrow> string \<Rightarrow> jval \<Rightarrow> int option \<Rightarrow> chat_adapter \<Rightarrow> chat_adapter \<times> (string + bool)" where
  "ad_setIfNotExists now key v ttl = with_stub (cacheSetIfNotExists now key (json_stringify v) ttl)"

definition ad_delete :: "string \<Rightarrow> chat_adapter \<Rightarrow> chat_adapter \<times> (string + unit)" where
  "ad_delete key = with_stub (no_result (cacheDelete key))"

definition ad_appendToList ::
    "int \<Rightarrow> string \<Rightarrow> jval \<Rightarrow> nat option \<Rightarrow> int option \<Rightarrow> chat_adapter \<Rightarrow>
     chat_adapter \<times> (string + unit)" where
  "ad_appendToList now key v maxLength ttl =
     with_stub (no_result (listAppend now key (json_stringify v) maxLength ttl))"

definition ad_getList :: "int \<Rightarrow> string \<Rightarrow> chat_adapter \<Rightarrow> chat_adapter \<times> (string + jval list)" where
  "ad_getList now key = with_stub (\<lambda>s. map_result (List.map_filter json_parse) (listGet now key s))"

definition ad_enqueue ::
    "int \<Rightarrow> string \<Rightarrow> jval \<Rightarrow> int \<Rightarrow> chat_adapter \<Rightarrow> chat_adapter \<times> (string + nat)" where
  "ad_enqueue now t entry maxSize = with_stub (enqueue now t (json_stringify entry) maxSize)"

text \<open>\<open>typeof null\<close> is \<open>object\<close>, so null is tested for; arrays are objects.\<close>

fun is_object :: "jval option \<Rightarrow> bool" where
  "is_object (Some (VObj kvs)) = True"
| "is_object (Some (VArr xs)) = True"
| "is_object _ = False"

fun is_number :: "jval option \<Rightarrow> bool" where
  "is_number (Some (VNum n)) = True"
| "is_number _ = False"

definition isQueueEntry :: "jval \<Rightarrow> bool" where
  "isQueueEntry v \<longleftrightarrow> is_object (Some v) \<and> is_number (val_field v ''enqueuedAt'') \<and>
     is_number (val_field v ''expiresAt'') \<and> is_object (val_field v ''message'')"

definition decode_entry :: "stext option \<Rightarrow> jval option" where
  "decode_entry raw =
     (case raw of None \<Rightarrow> None
      | Some t \<Rightarrow> (case json_parse t of
          Some v \<Rightarrow> if isQueueEntry v then Some v else None | None \<Rightarrow> None))"

definition ad_dequeue :: "int \<Rightarrow> string \<Rightarrow> chat_adapter \<Rightarrow> chat_adapter \<times> (string + jval option)" where
  "ad_dequeue now t = with_stub (\<lambda>s. map_result decode_entry (dequeue now t s))"

definition ad_queueDepth :: "int \<Rightarrow> string \<Rightarrow> chat_adapter \<Rightarrow> chat_adapter \<times> (string + nat)" where
  "ad_queueDepth now t = with_stub (queueDepth now t)"

end
