(* ===== verification/ChatStateProps.thy ===== *)
theory ChatStateProps
  imports ChatState
begin

text \<open>The properties of the chat state: exclusive locks, FIFO queues, bounded lists, the cleanup alarm.\<close>

section \<open>Operations as steps\<close>

datatype chat_op =
    OpSubscribe string
  | OpUnsubscribe string
  | OpAcquire string string int          \<comment> \<open>token, thread, ttl\<close>
  | OpForceRelease string
  | OpRelease string string              \<comment> \<open>thread, token\<close>
  | OpExtend string string int
  | OpCacheGet string
  | OpCacheSet string stext "int option"
  | OpCacheSetIfNotExists string stext "int option"
  | OpCacheDelete string
  | OpListAppend string stext "nat option" "int option"
  | OpListGet string
  | OpEnqueue string stext int
  | OpDequeue string
  | OpQueueDepth string
  | OpAlarm

fun chat_exec :: "int \<Rightarrow> chat_op \<Rightarrow> chat_state \<Rightarrow> chat_state" where
  "chat_exec now (OpSubscribe t) s = subscribe t s"
| "chat_exec now (OpUnsubscribe t) s = unsubscribe t s"
| "chat_exec now (OpAcquire token t ttl) s = fst (acquireLock now token t ttl s)"
| "chat_exec now (OpForceRelease t) s = forceReleaseLock t s"
| "chat_exec now (OpRelease t token) s = releaseLock t token s"
| "chat_exec now (OpExtend t token ttl) s = fst (extendLock now t token ttl s)"
| "chat_exec now (OpCacheGet k) s = fst (cacheGet now k s)"
| "chat_exec now (OpCacheSet k v ttl) s = cacheSet now k v ttl s"
| "chat_exec now (OpCacheSetIfNotExists k v ttl) s = fst (cacheSetIfNotExists now k v ttl s)"
| "chat_exec now (OpCacheDelete k) s = cacheDelete k s"
| "chat_exec now (OpListAppend k v m ttl) s = listAppend now k v m ttl s"
| "chat_exec now (OpListGet k) s = fst (listGet now k s)"
| "chat_exec now (OpEnqueue t v m) s = fst (enqueue now t v m s)"
| "chat_exec now (OpDequeue t) s = fst (dequeue now t s)"
| "chat_exec now (OpQueueDepth t) s = fst (queueDepth now t s)"
| "chat_exec now OpAlarm s = cleanup_alarm now s"

definition chat_run :: "(int \<times> chat_op) list \<Rightarrow> chat_state \<Rightarrow> chat_state" where
  "chat_run ops s = fold (\<lambda>(now, op). chat_exec now op) ops s"

lemma chat_run_simps [simp]:
  "chat_run [] s = s" "chat_run ((now, op) # ops) s = chat_run ops (chat_exec now op s)"
  by (simp_all add: chat_run_def)

lemma schedule_sel [simp]:
  "locks (scheduleCleanupIfNeeded now s) = locks s" "cache (scheduleCleanupIfNeeded now s) = cache s"
  "queue_entries (scheduleCleanupIfNeeded now s) = queue_entries s"
  "next_id (scheduleCleanupIfNeeded now s) = next_id s"
  "locks (schedule_if b now s) = locks s" "cache (schedule_if b now s) = cache s"
  "queue_entries (schedule_if b now s) = queue_entries s" "next_id (schedule_if b now s) = next_id s"
  by (simp_all add: scheduleCleanupIfNeeded_def schedule_if_def split: option.splits)

lemma cleanup_alarm_sel:
  "locks (cleanup_alarm now s) = filter (\<lambda>(k, t, e). \<not> e \<le> now) (locks s)"
  "queue_entries (cleanup_alarm now s) = filter (\<lambda>r. \<not> qr_expires r \<le> now) (queue_entries s)"
  "next_id (cleanup_alarm now s) = next_id s"
  by (simp_all add: cleanup_alarm_def Let_def split: option.splits)

section \<open>Locks\<close>

text \<open>
  The contract of a lock service whose state goes through timed steps: a granted lock is owned until
  its expiry unless a step touches it, and an owned lock blocks every other acquisition.
\<close>

locale lock_service =
  fixes acquire :: "int \<Rightarrow> string \<Rightarrow> string \<Rightarrow> int \<Rightarrow> 's \<Rightarrow> 's \<times> chat_lock option"
    and step :: "int \<Rightarrow> 'op \<Rightarrow> 's \<Rightarrow> 's"
    and touches :: "string \<Rightarrow> string \<Rightarrow> 'op \<Rightarrow> bool"
    and owns :: "string \<Rightarrow> string \<Rightarrow> int \<Rightarrow> 's \<Rightarrow> bool"
  assumes acquire_owns: "acquire now token t ttl s = (s', Some l) \<Longrightarrow> owns t token (now + ttl) s'"
    and owns_blocks: "owns t token e s \<Longrightarrow> n < e \<Longrightarrow> snd (acquire n token' t ttl s) = None"
    and step_keeps: "owns t token e s \<Longrightarrow> n < e \<Longrightarrow> \<not> touches t token op \<Longrightarrow> owns t token e (step n op s)"
begin

lemma run_keeps:
  "owns t token e s \<Longrightarrow> \<forall>(n, op) \<in> set ops. n < e \<and> \<not> touches t token op \<Longrightarrow>
   owns t token e (fold (\<lambda>(n, op). step n op) ops s)"
  by (induction ops arbitrary: s) (auto simp: step_keeps)

lemma exclusive:
  assumes "acquire now token t ttl s = (s1, Some l)"
    and "\<forall>(n, op) \<in> set ops. n < now + ttl \<and> \<not> touches t token op" "n < now + ttl"
  shows "snd (acquire n token' t ttl' (fold (\<lambda>(n, op). step n op) ops s1)) = None"
  using owns_blocks [OF run_keeps [OF acquire_owns [OF assms(1)] assms(2)] assms(3)] .

end

definition owns_row :: "string \<Rightarrow> string \<Rightarrow> int \<Rightarrow> chat_state \<Rightarrow> bool" where
  "owns_row t token e s \<longleftrightarrow> (t, token, e) \<in> set (locks s)"

text \<open>The operations that end or change the lock of a thread held under a token.\<close>

fun touches_lock :: "string \<Rightarrow> string \<Rightarrow> chat_op \<Rightarrow> bool" where
  "touches_lock t token (OpForceRelease u) \<longleftrightarrow> u = t"
| "touches_lock t token (OpRelease u token') \<longleftrightarrow> u = t \<and> token' = token"
| "touches_lock t token (OpExtend u token' ttl) \<longleftrightarrow> u = t \<and> token' = token"
| "touches_lock t token _ \<longleftrightarrow> False"

lemma other_ops_locks:
  "locks (subscribe t s) = locks s" "locks (unsubscribe t s) = locks s"
  "locks (fst (cacheGet n k s)) = locks s" "locks (cacheSet n k v ttl s) = locks s"
  "locks (fst (cacheSetIfNotExists n k v ttl s)) = locks s" "locks (cacheDelete k s) = locks s"
  "locks (listAppend n k v m ttl s) = locks s" "locks (fst (listGet n k s)) = locks s"
  "locks (fst (enqueue n t v x s)) = locks s" "locks (fst (dequeue n t s)) = locks s"
  "locks (fst (queueDepth n t s)) = locks s"
  by (simp_all add: subscribe_def unsubscribe_def cacheGet_def cacheSet_def cacheSetIfNotExists_def
      cacheDelete_def listAppend_def listGet_def enqueue_def dequeue_def queueDepth_def Let_def
      split: option.splits prod.splits list.splits)

lemma acquire_blocked:
  assumes "(t, token, e) \<in> set (locks s)" "n < e"
  shows "snd (acquireLock n token' t ttl s) = None"
proof -
  have "(t, token, e) \<in> set (filter (\<lambda>(k, x, y). \<not> (k = t \<and> y \<le> n)) (locks s))"
    using assms by auto
  then have "map_of (filter (\<lambda>(k, x, y). \<not> (k = t \<and> y \<le> n)) (locks s)) t \<noteq> None"
    by (metis weak_map_of_SomeI option.distinct(1))
  then show ?thesis by (simp add: acquireLock_def Let_def)
qed

interpretation chat_locks: lock_service acquireLock chat_exec touches_lock owns_row
proof
  show "acquireLock now token t ttl s = (s', Some l) \<Longrightarrow> owns_row t token (now + ttl) s'"
    for now token t ttl s s' l
    by (auto simp: acquireLock_def Let_def owns_row_def split: if_splits)
  show "owns_row t token e s \<Longrightarrow> n < e \<Longrightarrow> snd (acquireLock n token' t ttl s) = None"
    for t token e s n token' ttl
    by (simp add: owns_row_def acquire_blocked)
  show "owns_row t token e (chat_exec n op s)"
    if "owns_row t token e s" "n < e" "\<not> touches_lock t token op" for t token e s n op
  proof (cases op)
    case (OpExtend u token' ttl)
    with that show ?thesis
      by (auto simp: owns_row_def extendLock_def Let_def image_iff intro!: bexI [of _ "(t, token, e)"])
  qed (use that in \<open>auto simp: owns_row_def other_ops_locks acquireLock_def Let_def
         forceReleaseLock_def releaseLock_def cleanup_alarm_sel\<close>)
qed

text \<open>
  C36. A lock is exclusive while it lives: after a grant, and until its time to live is over, no
  acquisition of the same thread succeeds, whatever other operations come in between, as long as the
  lock is neither force-released nor released or extended under its own token.  A release or an
  extension under another token does nothing to it.
\<close>

theorem chat_lock_exclusive:
  assumes "acquireLock now token t ttl s = (s1, Some l)"
    and "\<forall>(n, op) \<in> set ops. n < now + ttl \<and> \<not> touches_lock t token op" and "n < now + ttl"
  shows "snd (acquireLock n token' t ttl' (chat_run ops s1)) = None"
  using chat_locks.exclusive [OF assms] by (simp add: chat_run_def)

theorem chat_lock_exclusive_witness:
  "snd (acquireLock 20 ''b'' ''room'' 50
     (chat_run [(5, OpRelease ''room'' ''b''), (9, OpAcquire ''c'' ''other'' 5), (12, OpAlarm)]
        (fst (acquireLock 0 ''a'' ''room'' 30 empty_chat_state)))) = None"
proof (rule chat_lock_exclusive [where now = 0 and token = "''a''" and ttl = 30])
  show "acquireLock 0 ''a'' ''room'' 30 empty_chat_state =
      (fst (acquireLock 0 ''a'' ''room'' 30 empty_chat_state),
       Some \<lparr>cl_threadId = ''room'', cl_token = ''a'', cl_expiresAt = 30\<rparr>)"
    by code_simp
qed auto

section \<open>Queues\<close>

definition queue_wf :: "chat_state \<Rightarrow> bool" where
  "queue_wf s \<longleftrightarrow> distinct (map qr_id (queue_entries s)) \<and>
     (\<forall>r \<in> set (queue_entries s). qr_id r < next_id s)"

lemma distinct_ids_filter: "distinct (map f xs) \<Longrightarrow> distinct (map f (filter P xs))"
  by (rule distinct_map_filter)

lemma other_ops_queue:
  "queue_entries (subscribe t s) = queue_entries s \<and> next_id (subscribe t s) = next_id s"
  "queue_entries (unsubscribe t s) = queue_entries s \<and> next_id (unsubscribe t s) = next_id s"
  "queue_entries (fst (acquireLock n tk t ttl' s)) = queue_entries s \<and>
   next_id (fst (acquireLock n tk t ttl' s)) = next_id s"
  "queue_entries (forceReleaseLock t s) = queue_entries s \<and> next_id (forceReleaseLock t s) = next_id s"
  "queue_entries (releaseLock t tk s) = queue_entries s \<and> next_id (releaseLock t tk s) = next_id s"
  "queue_entries (fst (extendLock n t tk ttl' s)) = queue_entries s \<and>
   next_id (fst (extendLock n t tk ttl' s)) = next_id s"
  "queue_entries (fst (cacheGet n k s)) = queue_entries s \<and> next_id (fst (cacheGet n k s)) = next_id s"
  "queue_entries (cacheSet n k v ttl s) = queue_entries s \<and> next_id (cacheSet n k v ttl s) = next_id s"
  "queue_entries (fst (cacheSetIfNotExists n k v ttl s)) = queue_entries s \<and>
   next_id (fst (cacheSetIfNotExists n k v ttl s)) = next_id s"
  "queue_entries (cacheDelete k s) = queue_entries s \<and> next_id (cacheDelete k s) = next_id s"
  "queue_entries (listAppend n k v m ttl s) = queue_entries s \<and>
   next_id (listAppend n k v m ttl s) = next_id s"
  "queue_entries (fst (listGet n k s)) = queue_entries s \<and> next_id (fst (listGet n k s)) = next_id s"
  by (simp_all add: subscribe_def unsubscribe_def acquireLock_def forceReleaseLock_def releaseLock_def
      extendLock_def cacheGet_def cacheSet_def cacheSetIfNotExists_def cacheDelete_def listAppend_def
      listGet_def Let_def split: option.splits prod.splits)

lemma filter_take_ids:
  assumes "distinct (map qr_id xs)"
  shows "filter (\<lambda>r. qr_id r \<notin> set (map qr_id (take n xs))) xs = drop n xs"
proof -
  have "filter (\<lambda>r. qr_id r \<notin> set (map qr_id (take n xs))) (take n xs @ drop n xs) = drop n xs"
  proof -
    have "distinct (map qr_id (take n xs @ drop n xs))" using assms by simp
    then have "filter (\<lambda>r. qr_id r \<notin> set (map qr_id (take n xs))) (drop n xs) = drop n xs"
      unfolding map_append distinct_append by (intro filter_True) (auto simp: disjoint_iff)
    then show ?thesis unfolding filter_append by (simp add: filter_empty_conv)
  qed
  then show ?thesis unfolding append_take_drop_id .
qed

lemma filter_comm: "filter P (filter Q xs) = filter Q (filter P xs)"
  by (induction xs) auto

lemma drop_oldest:
  assumes "distinct (map qr_id rows)"
  shows "thread_rows u (filter (\<lambda>r. qr_id r \<notin> set (map qr_id (take k (thread_rows t rows)))) rows) =
         (if u = t then drop k (thread_rows t rows) else thread_rows u rows)"
proof (cases "u = t")
  case True
  with filter_take_ids [of "thread_rows t rows" k] assms show ?thesis
    by (simp add: thread_rows_def distinct_ids_filter conj_commute)
next
  case False
  have "qr_id r \<notin> set (map qr_id (take k (thread_rows t rows)))" if "r \<in> set (thread_rows u rows)" for r
  proof
    assume "qr_id r \<in> set (map qr_id (take k (thread_rows t rows)))"
    then obtain x where x: "x \<in> set (thread_rows t rows)" "qr_id x = qr_id r"
      by (auto dest: in_set_takeD)
    then have "x = r" using assms that
      by (auto simp: thread_rows_def distinct_map dest: inj_onD)
    with x(1) that False show False by (simp add: thread_rows_def)
  qed
  then have "filter (\<lambda>r. qr_id r \<notin> set (map qr_id (take k (thread_rows t rows)))) (thread_rows u rows)
      = thread_rows u rows" by (simp add: filter_id_conv)
  with False show ?thesis by (simp add: thread_rows_def conj_commute)
qed

text \<open>The entries of a thread that are alive at a time, oldest first.\<close>

definition live_rows :: "int \<Rightarrow> string \<Rightarrow> chat_state \<Rightarrow> queue_row list" where
  "live_rows now t s = filter (\<lambda>r. qr_expires r > now) (thread_rows t (queue_entries s))"

lemma thread_drop_expired:
  "thread_rows u (drop_expired now t rows) =
     (if u = t then filter (\<lambda>r. qr_expires r > now) (thread_rows t rows) else thread_rows u rows)"
  by (induction rows) (auto simp: thread_rows_def drop_expired_def)

lemma thread_rows_append [simp]: "thread_rows u (xs @ ys) = thread_rows u xs @ thread_rows u ys"
  by (simp add: thread_rows_def)

lemma enqueue_rows:
  fixes now m :: int and t u :: string and v :: stext
  assumes "queue_wf s"
  defines "row \<equiv> \<lparr>qr_id = next_id s, qr_thread = t, qr_value = v,
                   qr_expires = default_to (readQueueExpiry v) (now + 90000)\<rparr>"
  shows "thread_rows u (queue_entries (fst (enqueue now t v m s))) =
           (if u = t then take_last (nat (max 1 m)) (live_rows now t s @ [row])
            else thread_rows u (queue_entries s))"
    and "snd (enqueue now t v m s) = min (nat (max 1 m)) (Suc (length (live_rows now t s)))"
    and "queue_wf (fst (enqueue now t v m s))"
proof -
  let ?rows = "drop_expired now t (queue_entries s) @ [row]"
  let ?b = "nat (max 1 m)"
  let ?n = "length (thread_rows t ?rows)"
  let ?old = "map qr_id (take (?n - ?b) (thread_rows t ?rows))"
  have tr: "thread_rows t ?rows = live_rows now t s @ [row]"
    by (simp only: thread_rows_append thread_drop_expired live_rows_def if_True)
       (simp add: thread_rows_def row_def)
  have d: "distinct (map qr_id ?rows)"
    using assms(1) by (auto simp: queue_wf_def drop_expired_def row_def distinct_ids_filter)
  have q: "queue_entries (fst (enqueue now t v m s)) =
      (if ?n > ?b then filter (\<lambda>r. qr_id r \<notin> set ?old) ?rows else ?rows)"
    and nx: "next_id (fst (enqueue now t v m s)) = Suc (next_id s)"
    and dep: "snd (enqueue now t v m s) = (if ?n > ?b then ?b else ?n)"
    by (simp_all add: enqueue_def Let_def row_def)
  show "snd (enqueue now t v m s) = min ?b (Suc (length (live_rows now t s)))"
    unfolding dep tr by simp
  have "set (queue_entries (fst (enqueue now t v m s))) \<subseteq> set ?rows" unfolding q by auto
  moreover have "qr_id r < Suc (next_id s)" if "r \<in> set ?rows" for r
    using that assms(1) by (auto simp: queue_wf_def drop_expired_def row_def less_Suc_eq)
  moreover have "distinct (map qr_id (queue_entries (fst (enqueue now t v m s))))"
    unfolding q by (cases "?n > ?b") (simp_all only: if_True if_False distinct_ids_filter [OF d] d not_False_eq_True)
  ultimately show "queue_wf (fst (enqueue now t v m s))" by (auto simp: queue_wf_def nx)
  have other: "thread_rows u ?rows = thread_rows u (queue_entries s)" if "u \<noteq> t"
    using that by (simp only: thread_rows_append thread_drop_expired if_False) (simp add: thread_rows_def row_def)
  show "thread_rows u (queue_entries (fst (enqueue now t v m s))) =
           (if u = t then take_last ?b (live_rows now t s @ [row])
            else thread_rows u (queue_entries s))"
    unfolding q using drop_oldest [OF d, of u "?n - ?b" t] other
    by (simp only: tr split: if_splits) (auto simp: take_last_def)
qed

lemma dequeue_rows:
  assumes "queue_wf s"
  shows "thread_rows u (queue_entries (fst (dequeue now t s))) =
           (if u = t then tl (live_rows now t s) else thread_rows u (queue_entries s))"
    and "snd (dequeue now t s) =
           (case live_rows now t s of [] \<Rightarrow> None | r # _ \<Rightarrow> Some (qr_value r))"
    and "queue_wf (fst (dequeue now t s))"
proof -
  let ?rows = "drop_expired now t (queue_entries s)"
  have d: "distinct (map qr_id ?rows)"
    using assms(1) by (auto simp: queue_wf_def drop_expired_def distinct_ids_filter)
  have tr: "thread_rows t ?rows = live_rows now t s"
    by (simp add: thread_drop_expired live_rows_def)
  have id: "qr_id r < next_id s" if "r \<in> set ?rows" for r
    using that assms by (auto simp: queue_wf_def drop_expired_def)
  show "snd (dequeue now t s) = (case live_rows now t s of [] \<Rightarrow> None | r # _ \<Rightarrow> Some (qr_value r))"
    by (simp add: dequeue_def Let_def tr split: list.splits)
  show "queue_wf (fst (dequeue now t s))"
    using d id by (auto simp: queue_wf_def dequeue_def Let_def distinct_ids_filter split: list.splits)
  show "thread_rows u (queue_entries (fst (dequeue now t s))) =
           (if u = t then tl (live_rows now t s) else thread_rows u (queue_entries s))"
  proof (cases "live_rows now t s")
    case Nil
    then show ?thesis
      using tr by (auto simp: dequeue_def Let_def thread_drop_expired split: list.splits)
  next
    case (Cons r rs)
    have "queue_entries (fst (dequeue now t s)) =
        filter (\<lambda>x. qr_id x \<notin> set (map qr_id (take 1 (thread_rows t ?rows)))) ?rows"
      by (simp add: dequeue_def Let_def tr Cons)
    then show ?thesis
      using drop_oldest [OF d, of u 1 t] tr Cons
      by (simp add: thread_drop_expired drop_Suc)
  qed
qed

lemma queueDepth_rows:
  shows "thread_rows u (queue_entries (fst (queueDepth now t s))) =
           (if u = t then live_rows now t s else thread_rows u (queue_entries s))"
    and "snd (queueDepth now t s) = length (live_rows now t s)"
    and "queue_wf s \<Longrightarrow> queue_wf (fst (queueDepth now t s))"
  by (simp_all add: queueDepth_def Let_def thread_drop_expired live_rows_def)
     (auto simp: queue_wf_def drop_expired_def distinct_ids_filter)

lemma queue_wf_cong:
  "queue_entries s' = queue_entries s \<and> next_id s' = next_id s \<Longrightarrow> queue_wf s' = queue_wf s"
  by (simp add: queue_wf_def)

lemma queue_wf_exec: "queue_wf s \<Longrightarrow> queue_wf (chat_exec now op s)"
proof (cases op)
  case OpAlarm
  moreover assume "queue_wf s"
  ultimately show ?thesis
    by (auto simp: queue_wf_def cleanup_alarm_sel distinct_ids_filter)
qed (simp_all add: enqueue_rows dequeue_rows queueDepth_rows
      other_ops_queue [THEN queue_wf_cong])

lemma queue_wf_run: "queue_wf s \<Longrightarrow> queue_wf (chat_run ops s)"
  by (induction ops arbitrary: s) (auto simp: queue_wf_exec)

lemma queue_wf_empty: "queue_wf empty_chat_state"
  by (simp add: queue_wf_def empty_chat_state_def)

text \<open>What the queue of a thread holds at a time, as values, oldest first.\<close>

definition queue_view :: "int \<Rightarrow> string \<Rightarrow> chat_state \<Rightarrow> stext list" where
  "queue_view now t s = map qr_value (live_rows now t s)"

lemma live_filter_thread:
  "live_rows now t s = filter (\<lambda>r. qr_expires r > now) (thread_rows t (queue_entries s))"
  by (simp add: live_rows_def)

lemma filter_live_take_last:
  assumes "\<forall>r \<in> set xs. P r"
  shows "filter P (take_last n xs) = take_last n xs"
  using assms by (auto simp: take_last_def filter_id_conv dest: in_set_dropD)

text \<open>
  In every state the object reaches, the queue of a thread is first in, first out and bounded: an
  entry that expires in the future is put at the end, the oldest live entries beyond
  \<open>max(1, maxSize)\<close> are dropped and the depth reported is the number kept; a dequeue returns the oldest
  live entry and leaves the rest; and neither touches the queue of another thread.
\<close>

theorem chat_queue_fifo:
  assumes "s = chat_run ops empty_chat_state"
    and "default_to (readQueueExpiry v) (now + 90000) > now"
  shows "queue_view now t (fst (enqueue now t v m s)) = take_last (nat (max 1 m)) (queue_view now t s @ [v]) \<and>
    snd (enqueue now t v m s) = length (queue_view now t (fst (enqueue now t v m s))) \<and>
    snd (dequeue now t s) = (case queue_view now t s of [] \<Rightarrow> None | x # _ \<Rightarrow> Some x) \<and>
    queue_view now t (fst (dequeue now t s)) = tl (queue_view now t s) \<and>
    (\<forall>u. u \<noteq> t \<longrightarrow> queue_view now u (fst (enqueue now t v m s)) = queue_view now u s \<and>
                 queue_view now u (fst (dequeue now t s)) = queue_view now u s)"
proof -
  have wf: "queue_wf s" using assms(1) queue_wf_run [OF queue_wf_empty] by simp
  define row where "row = \<lparr>qr_id = next_id s, qr_thread = t, qr_value = v,
                   qr_expires = default_to (readQueueExpiry v) (now + 90000)\<rparr>"
  have live: "\<forall>r \<in> set (live_rows now t s @ [row]). qr_expires r > now"
    using assms(2) by (auto simp: live_rows_def row_def)
  have e: "live_rows now t (fst (enqueue now t v m s)) =
      take_last (nat (max 1 m)) (live_rows now t s @ [row])"
    using filter_live_take_last [OF live] enqueue_rows(1) [OF wf, of t now t v m]
    by (simp add: live_filter_thread [of now t "fst (enqueue now t v m s)"] row_def)
  have 1: "queue_view now t (fst (enqueue now t v m s)) =
      take_last (nat (max 1 m)) (queue_view now t s @ [v])"
    by (simp add: queue_view_def e take_last_def drop_map [symmetric] row_def)
  have 2: "snd (enqueue now t v m s) = length (queue_view now t (fst (enqueue now t v m s)))"
    unfolding 1 enqueue_rows(2) [OF wf] by (simp add: queue_view_def)
  have 3: "snd (dequeue now t s) = (case queue_view now t s of [] \<Rightarrow> None | x # _ \<Rightarrow> Some x)"
    by (simp add: dequeue_rows(2) [OF wf] queue_view_def split: list.splits)
  have "\<forall>r \<in> set (tl (live_rows now t s)). qr_expires r > now"
    using live by (cases "live_rows now t s") auto
  then have "filter (\<lambda>r. qr_expires r > now) (tl (live_rows now t s)) = tl (live_rows now t s)"
    by (simp add: filter_id_conv)
  then have 4: "queue_view now t (fst (dequeue now t s)) = tl (queue_view now t s)"
    by (simp add: queue_view_def live_filter_thread [of now t "fst (dequeue now t s)"]
        dequeue_rows(1) [OF wf] map_tl)
  have 5: "queue_view now u (fst (enqueue now t v m s)) = queue_view now u s \<and>
        queue_view now u (fst (dequeue now t s)) = queue_view now u s" if "u \<noteq> t" for u
    using that by (simp add: queue_view_def live_filter_thread enqueue_rows(1) [OF wf]
        dequeue_rows(1) [OF wf])
  show ?thesis using 1 2 3 4 5 by blast
qed

theorem chat_queue_fifo_witness:
  "queue_view 5 ''room'' (fst (enqueue 5 ''room'' (Plain ''c'') 2
      (chat_run [(1, OpEnqueue ''room'' (Plain ''a'') 2), (2, OpEnqueue ''room'' (Plain ''b'') 2)]
         empty_chat_state))) = [Plain ''b'', Plain ''c'']"
proof -
  let ?s = "chat_run [(1, OpEnqueue ''room'' (Plain ''a'') 2), (2, OpEnqueue ''room'' (Plain ''b'') 2)]
         empty_chat_state"
  have "queue_view 5 ''room'' (fst (enqueue 5 ''room'' (Plain ''c'') 2 ?s)) =
      take_last (nat (max 1 2)) (queue_view 5 ''room'' ?s @ [Plain ''c''])"
    using chat_queue_fifo [of ?s _ 5 "Plain ''c''" "''room''" 2, OF refl]
    by (simp add: readQueueExpiry_def del: chat_run_simps)
  moreover have "queue_view 5 ''room'' ?s = [Plain ''a'', Plain ''b'']" by code_simp
  ultimately show ?thesis by (simp add: take_last_def)
qed

section \<open>Lists and cached values\<close>

text \<open>The list stored under a key at a time.\<close>

definition list_view :: "int \<Rightarrow> string \<Rightarrow> chat_state \<Rightarrow> stext list" where
  "list_view now key s = snd (listGet now key s)"

lemma map_of_update: "map_of (AList.update k v xs) k' = (if k' = k then Some v else map_of xs k')"
  by (simp add: update_conv')

lemma map_of_delete: "map_of (AList.delete k xs) k' = (if k' = k then None else map_of xs k')"
  by (simp add: delete_conv')

lemmas cache_maps = map_of_update map_of_delete

lemma list_view_conv:
  "list_view now key s =
     (case map_of (cache s) key of
        None \<Rightarrow> [] | Some (raw, e) \<Rightarrow> if expired now e then [] else parseStringList raw)"
  by (simp add: list_view_def listGet_def cacheGet_def split: option.splits prod.splits)

lemma parse_stringify: "parseStringList (json_stringify (VArr (map VStr xs))) = xs"
proof -
  have "List.map_filter val_str (map VStr xs) = xs" by (induction xs) (auto simp: List.map_filter_def)
  then show ?thesis by (simp add: parseStringList_def json_stringify_def)
qed

lemma listAppend_cache:
  "cache (listAppend now key v m ttl s) =
     AList.update key
       (json_stringify (VArr (map VStr
          (case m of None \<Rightarrow> list_view now key s @ [v] | Some k \<Rightarrow> take_last k (list_view now key s @ [v])))),
        expiry_of now ttl) (cache s)"
  by (simp add: listAppend_def Let_def list_view_conv take_last_def split: option.splits prod.splits)

text \<open>
  A stored list reads back as it was built: after an append, and until the time to live is over, the
  list of the key is what it was with the value at its end, cut to its last \<open>maxLength\<close> values when a
  length is given; every other key reads as before; and once the time to live is over the list is
  empty.
\<close>

theorem chat_list_append:
  assumes "now \<le> later"
  shows "list_view later key (listAppend now key v m ttl s) =
      (if expired later (expiry_of now ttl) then []
       else case m of None \<Rightarrow> list_view now key s @ [v] | Some k \<Rightarrow> take_last k (list_view now key s @ [v])) \<and>
    (\<forall>other. other \<noteq> key \<longrightarrow>
      list_view later other (listAppend now key v m ttl s) = list_view later other s)"
  by (simp add: list_view_conv [of later] listAppend_cache map_of_update parse_stringify)

theorem chat_list_append_witness:
  "list_view 8 ''k'' (listAppend 3 ''k'' (Plain ''c'') (Some 2) (Some 10)
     (chat_run [(1, OpListAppend ''k'' (Plain ''a'') None None), (2, OpListAppend ''k'' (Plain ''b'') None None)]
        empty_chat_state)) = [Plain ''b'', Plain ''c'']"
proof -
  let ?s = "chat_run [(1, OpListAppend ''k'' (Plain ''a'') None None),
                      (2, OpListAppend ''k'' (Plain ''b'') None None)] empty_chat_state"
  have "list_view 3 ''k'' ?s = [Plain ''a'', Plain ''b'']" by code_simp
  moreover have "(3::int) \<le> 8" by simp
  ultimately show ?thesis
    using chat_list_append [of 3 8 "''k''" "Plain ''c''" "Some 2" "Some 10" ?s]
    by (simp add: expired_def expiry_of_def take_last_def)
qed

text \<open>
  Through the adapter, a value set under a key is the value read, up to its time to live and not
  from then on; a conditional set does nothing while a live value is there; and before \<open>connect\<close> every
  call is refused without effect.
\<close>

theorem chat_cache_roundtrip:
  assumes "connected a"
  shows "snd (ad_get later key (fst (ad_set now key v ttl a))) =
           Inr (if expired later (expiry_of now ttl) then None else Some v) \<and>
    (\<not> expired later (expiry_of now ttl) \<longrightarrow>
       ad_setIfNotExists later key w ttl2 (fst (ad_set now key v ttl a)) =
         (fst (ad_set now key v ttl a), Inr False)) \<and>
    ad_get later key (ad_disconnect a) = (ad_disconnect a, Inl not_connected)"
  using assms
  by (simp add: ad_get_def ad_set_def ad_setIfNotExists_def ad_disconnect_def with_stub_def no_result_def
      map_result_def cacheGet_def cacheSet_def cacheSetIfNotExists_def cache_maps json_stringify_def)

theorem chat_cache_roundtrip_witness:
  "snd (ad_get 9 ''k'' (fst (ad_set 1 ''k'' (VBool True) (Some 10) (ad_connect new_adapter)))) =
     Inr (Some (VBool True)) \<and>
   snd (ad_get 11 ''k'' (fst (ad_set 1 ''k'' (VBool True) (Some 10) (ad_connect new_adapter)))) = Inr None"
proof -
  have c: "connected (ad_connect new_adapter)" by (simp add: ad_connect_def new_adapter_def)
  show ?thesis
    using chat_cache_roundtrip [OF c, of 9 "''k''" 1 "VBool True" "Some 10"]
      chat_cache_roundtrip [OF c, of 11 "''k''" 1 "VBool True" "Some 10"]
    by (simp add: expired_def expiry_of_def)
qed

section \<open>The cleanup alarm\<close>

definition covered :: "int \<Rightarrow> chat_state \<Rightarrow> bool" where
  "covered now s \<longleftrightarrow> (\<forall>e \<in> set (expiries s). \<exists>a. cleanupAt s = Some a \<and> (a \<le> e \<or> e \<le> now))"

lemma foldl_min_le: "foldl min (a :: int) xs \<le> a \<and> (\<forall>x \<in> set xs. foldl min a xs \<le> x)"
proof (induction xs arbitrary: a)
  case (Cons x xs)
  have "foldl min (min a x) xs \<le> min a x \<and> (\<forall>y \<in> set xs. foldl min (min a x) xs \<le> y)" by (rule Cons.IH)
  then show ?case by simp
qed simp

lemma nextExpiry_least:
  "nextExpiry now s = Some n \<Longrightarrow> e \<in> set (expiries s) \<Longrightarrow> now < e \<Longrightarrow> n \<le> e"
proof -
  assume n: "nextExpiry now s = Some n" and e: "e \<in> set (expiries s)" "now < e"
  then obtain x xs where f: "filter (\<lambda>e. e > now) (expiries s) = x # xs" "n = foldl min x xs"
    by (auto simp: nextExpiry_def split: list.splits)
  have "e \<in> set (x # xs)" using e unfolding f(1) [symmetric] by simp
  then show "n \<le> e" using foldl_min_le [of x xs] by (auto simp: f(2))
qed

lemma nextExpiry_None: "nextExpiry now s = None \<longleftrightarrow> (\<forall>e \<in> set (expiries s). e \<le> now)"
proof -
  have "nextExpiry now s = None \<longleftrightarrow> filter (\<lambda>e. e > now) (expiries s) = []"
    by (simp add: nextExpiry_def split: list.splits)
  then show ?thesis by (simp add: filter_empty_conv not_less)
qed

lemma expiries_schedule [simp]:
  "expiries (scheduleCleanupIfNeeded now s) = expiries s" "expiries (schedule_if b now s) = expiries s"
  by (simp_all add: expiries_def)

lemma covered_schedule:
  assumes "covered now s \<or> (\<exists>e \<in> set (expiries s). e > now)"
  shows "covered now (scheduleCleanupIfNeeded now s)"
proof (cases "nextExpiry now s")
  case None
  with assms have "covered now s" by (auto simp: nextExpiry_None)
  with None show ?thesis by (simp add: scheduleCleanupIfNeeded_def)
next
  case (Some n)
  have "n \<le> e \<or> e \<le> now" if "e \<in> set (expiries s)" for e
    using nextExpiry_least [OF Some that] by linarith
  with Some show ?thesis by (simp add: covered_def scheduleCleanupIfNeeded_def expiries_def)
qed

lemma covered_subset:
  "covered now s \<Longrightarrow> set (expiries s') \<subseteq> set (expiries s) \<Longrightarrow> cleanupAt s' = cleanupAt s \<Longrightarrow>
   now \<le> now' \<Longrightarrow> covered now' s'"
  unfolding covered_def by (metis order_trans subsetD)

lemma covered_alarm: "covered now (cleanup_alarm now s)"
proof -
  define c where "c = s\<lparr>cleanupAt := None,
                 locks := filter (\<lambda>(k, t, e). \<not> e \<le> now) (locks s),
                 cache := filter (\<lambda>(k, v, e). \<not> (case e of None \<Rightarrow> False | Some x \<Rightarrow> x \<le> now)) (cache s),
                 queue_entries := filter (\<lambda>r. \<not> qr_expires r \<le> now) (queue_entries s)\<rparr>"
  have "cleanup_alarm now s = scheduleCleanupIfNeeded now c"
    by (simp add: cleanup_alarm_def c_def scheduleCleanupIfNeeded_def Let_def)
  moreover have "e > now" if "e \<in> set (expiries c)" for e
    using that by (auto simp: expiries_def c_def List.map_filter_def split: option.splits)
  then have "covered now c \<or> (\<exists>e \<in> set (expiries c). e > now)"
    by (cases "expiries c") (auto simp: covered_def)
  ultimately show ?thesis using covered_schedule by simp
qed

text \<open>An operation whose times to live are positive and whose queue entries expire in the future.\<close>

definition ttl_ok :: "int option \<Rightarrow> bool" where
  "ttl_ok ttl \<longleftrightarrow> (case ttl of None \<Rightarrow> True | Some t \<Rightarrow> 0 \<le> t)"

fun op_ok :: "int \<Rightarrow> chat_op \<Rightarrow> bool" where
  "op_ok now (OpAcquire token t ttl) \<longleftrightarrow> 0 < ttl"
| "op_ok now (OpExtend t token ttl) \<longleftrightarrow> 0 < ttl"
| "op_ok now (OpCacheSet k v ttl) \<longleftrightarrow> ttl_ok ttl"
| "op_ok now (OpCacheSetIfNotExists k v ttl) \<longleftrightarrow> ttl_ok ttl"
| "op_ok now (OpListAppend k v m ttl) \<longleftrightarrow> ttl_ok ttl"
| "op_ok now (OpEnqueue t v m) \<longleftrightarrow> default_to (readQueueExpiry v) (now + 90000) > now"
| "op_ok now _ \<longleftrightarrow> True"

lemma mem_map_filter: "y \<in> set (List.map_filter f xs) \<longleftrightarrow> (\<exists>x \<in> set xs. f x = Some y)"
  by (induction xs) (auto simp: List.map_filter_def split: option.splits)

lemma set_expiries:
  "set (expiries s) = {e. (\<exists>k t. (k, t, e) \<in> set (locks s)) \<or> (\<exists>k v. (k, v, Some e) \<in> set (cache s)) \<or>
     e \<in> qr_expires ` set (queue_entries s)}"
proof -
  have 1: "x \<in> set (map (\<lambda>(k, t, e). e) (locks s)) \<longleftrightarrow> (\<exists>k t. (k, t, x) \<in> set (locks s))" for x
    by (force simp: image_iff)
  have 2: "x \<in> set (List.map_filter (\<lambda>(k, v, e). e) (cache s)) \<longleftrightarrow> (\<exists>k v. (k, v, Some x) \<in> set (cache s))" for x
    by (force simp: mem_map_filter)
  have "x \<in> set (expiries s) \<longleftrightarrow> (\<exists>k t. (k, t, x) \<in> set (locks s)) \<or>
      (\<exists>k v. (k, v, Some x) \<in> set (cache s)) \<or> x \<in> qr_expires ` set (queue_entries s)" for x
    unfolding expiries_def set_append Un_iff 1 2 by simp
  then show ?thesis by blast
qed

lemma set_AList_update: "set (AList.update k v xs) \<subseteq> insert (k, v) (set xs)"
  by (induction xs) auto

lemma set_AList_delete: "set (AList.delete k xs) \<subseteq> set xs"
  by (induction xs) auto

lemma covered_add:
  assumes "covered now s" "now \<le> now'" "set (expiries s1) \<subseteq> insert e (set (expiries s))" "e > now'"
    "cleanupAt s1 = cleanupAt s"
  shows "covered now' (scheduleCleanupIfNeeded now' s1)"
proof (cases "e \<in> set (expiries s1)")
  case True
  with assms(4) show ?thesis by (intro covered_schedule) blast
next
  case False
  with assms show ?thesis by (intro covered_schedule disjI1 covered_subset [OF assms(1)]) auto
qed

lemma covered_add_cache:
  assumes "covered now s" "now \<le> now'" "ttl_ok ttl" "cleanupAt s1 = cleanupAt s"
    and "locks s1 = locks s" "queue_entries s1 = queue_entries s"
    and sub: "set (cache s1) \<subseteq> insert (key, v, expiry_of now' ttl) (set (cache s))"
  shows "covered now' (schedule_if (expiry_of now' ttl \<noteq> None) now' s1)"
proof (cases "expiry_of now' ttl")
  case None
  with sub have "set (expiries s1) \<subseteq> set (expiries s)"
    unfolding set_expiries assms(5,6) by auto
  with None assms show ?thesis by (simp add: schedule_if_def covered_subset)
next
  case (Some e)
  then have "e > now'" using assms(3) by (auto simp: expiry_of_def ttl_ok_def split: option.splits if_splits)
  moreover have "set (expiries s1) \<subseteq> insert e (set (expiries s))"
    using sub Some unfolding set_expiries assms(5,6) by auto
  ultimately show ?thesis using Some assms covered_add [of now s now' s1 e] by (simp add: schedule_if_def)
qed

lemma covered_unchanged:
  assumes "covered now s" "now \<le> now'" "set (locks s') \<subseteq> set (locks s)" "set (cache s') \<subseteq> set (cache s)"
    "set (queue_entries s') \<subseteq> set (queue_entries s)" "cleanupAt s' = cleanupAt s"
  shows "covered now' s'"
  using assms by (intro covered_subset [OF assms(1)]) (auto simp: set_expiries)

lemma covered_cacheGet:
  "covered now s \<Longrightarrow> now \<le> now' \<Longrightarrow> covered now' (fst (cacheGet now' k s))"
  by (rule covered_unchanged [of now s])
     (auto simp: cacheGet_def dest: set_AList_delete [THEN subsetD] split: option.splits prod.splits)

lemma covered_acquire:
  assumes "covered now s" "now \<le> now'" "0 < ttl"
  shows "covered now' (fst (acquireLock now' token t ttl s))"
proof -
  let ?s = "s\<lparr>locks := filter (\<lambda>(k, t', e). \<not> (k = t \<and> e \<le> now')) (locks s)\<rparr>"
  show ?thesis
  proof (cases "map_of (locks ?s) t")
    case None
    have "covered now' (scheduleCleanupIfNeeded now' (?s\<lparr>locks := locks ?s @ [(t, token, now' + ttl)]\<rparr>))"
      using assms by (intro covered_add [of now s now' _ "now' + ttl"]) (auto simp: set_expiries)
    with None show ?thesis by (simp add: acquireLock_def Let_def)
  next
    case (Some x)
    have "covered now' ?s" by (rule covered_unchanged [of now s]) (use assms(1,2) in auto)
    with Some show ?thesis by (simp add: acquireLock_def Let_def)
  qed
qed

lemma covered_extend:
  assumes "covered now s" "now \<le> now'" "0 < ttl"
  shows "covered now' (fst (extendLock now' t token ttl s))"
proof -
  let ?hit = "\<lambda>(k, x, e). k = t \<and> x = token \<and> e > now'"
  let ?s = "s\<lparr>locks := map (\<lambda>(k, x, e). if ?hit (k, x, e) then (k, x, now' + ttl) else (k, x, e)) (locks s)\<rparr>"
  have "covered now' (scheduleCleanupIfNeeded now' ?s)"
    using assms
    by (intro covered_add [of now s now' _ "now' + ttl"]) (force simp: set_expiries split: if_splits)+
  moreover have "covered now' s" by (rule covered_unchanged [of now s]) (use assms(1,2) in auto)
  ultimately show ?thesis by (simp add: extendLock_def Let_def)
qed

lemma covered_enqueue:
  assumes "covered now s" "now \<le> now'" "default_to (readQueueExpiry v) (now' + 90000) > now'"
  shows "covered now' (fst (enqueue now' t v m s))"
proof -
  define e where "e = default_to (readQueueExpiry v) (now' + 90000)"
  define row where "row = \<lparr>qr_id = next_id s, qr_thread = t, qr_value = v, qr_expires = e\<rparr>"
  define all where "all = drop_expired now' t (queue_entries s) @ [row]"
  define kept where "kept = (let n = length (thread_rows t all); b = nat (max 1 m) in
     if n > b then filter (\<lambda>r. qr_id r \<notin> set (map qr_id (take (n - b) (thread_rows t all)))) all else all)"
  have r: "fst (enqueue now' t v m s) =
      scheduleCleanupIfNeeded now' (s\<lparr>queue_entries := kept, next_id := Suc (next_id s)\<rparr>)"
    by (simp add: enqueue_def Let_def kept_def all_def row_def e_def)
  have "set kept \<subseteq> set all" by (auto simp: kept_def Let_def)
  moreover have "set all \<subseteq> insert row (set (queue_entries s))" by (auto simp: all_def drop_expired_def)
  ultimately have sub: "qr_expires ` set kept \<subseteq> insert e (qr_expires ` set (queue_entries s))"
    by (auto simp: row_def)
  show ?thesis unfolding r
    using assms sub
    by (intro covered_add [of now s now' _ e]) (auto simp: set_expiries e_def [symmetric])
qed

lemma covered_rest:
  assumes "covered now s" "now \<le> now'"
  shows "covered now' (subscribe t s)" "covered now' (unsubscribe t s)"
    "covered now' (releaseLock t tk s)" "covered now' (forceReleaseLock t s)"
    "covered now' (fst (queueDepth now' t s))" "covered now' (cacheDelete t s)"
  by (rule covered_unchanged [OF assms];
      auto simp: subscribe_def unsubscribe_def releaseLock_def forceReleaseLock_def queueDepth_def
        Let_def drop_expired_def cacheDelete_def dest: set_AList_delete [THEN subsetD])+

lemma covered_step:
  assumes "covered now s" "now \<le> now'" "op_ok now' op"
  shows "covered now' (chat_exec now' op s)"
proof (cases op)
  case (OpCacheSet k v ttl)
  have "covered now' (cacheSet now' k v ttl s)" unfolding cacheSet_def
    using assms OpCacheSet by (intro covered_add_cache [of now s now' ttl _ k v]) (simp_all add: set_AList_update)
  with OpCacheSet show ?thesis by simp
next
  case (OpCacheSetIfNotExists k v ttl)
  have "covered now' s" by (rule covered_unchanged [of now s]) (use assms(1,2) in simp_all)
  moreover have "covered now' (schedule_if (expiry_of now' ttl \<noteq> None) now'
      (s\<lparr>cache := AList.delete k (cache s) @ [(k, v, expiry_of now' ttl)]\<rparr>))"
    using assms OpCacheSetIfNotExists set_AList_delete [of k "cache s"]
    by (intro covered_add_cache [of now s now' ttl _ k v]) auto
  ultimately show ?thesis using OpCacheSetIfNotExists by (simp add: cacheSetIfNotExists_def del: not_None_eq)
next
  case (OpListAppend k v m ttl)
  have "covered now' (listAppend now' k v m ttl s)" unfolding listAppend_def Let_def
    using assms OpListAppend
    by (intro covered_add_cache [of now s now' ttl, OF _ _ _ _ _ _ order_trans [OF _ set_AList_update [of k]]])
       (simp_all, rule order_refl)
  with OpListAppend show ?thesis by simp
next
  case (OpListGet k)
  have "fst (listGet now' k s) = fst (cacheGet now' k s)"
    by (simp add: listGet_def split: prod.splits option.splits)
  with OpListGet assms covered_cacheGet [of now s now' k] show ?thesis by simp
next
  case (OpDequeue t)
  have "covered now' (fst (dequeue now' t s))"
    by (rule covered_unchanged [of now s])
       (use assms(1,2) in \<open>auto simp: dequeue_def Let_def drop_expired_def split: list.splits\<close>)
  with OpDequeue show ?thesis by simp
next
  case OpAlarm
  then show ?thesis by (simp add: covered_alarm)
qed (use assms covered_rest [OF assms(1,2)] in
     \<open>simp_all add: covered_acquire covered_extend covered_enqueue covered_cacheGet\<close>)

text \<open>Runs whose operations come in the order of their times, each acceptable.\<close>

fun timed_ok :: "int \<Rightarrow> (int \<times> chat_op) list \<Rightarrow> bool" where
  "timed_ok t [] \<longleftrightarrow> True"
| "timed_ok t ((n, op) # ops) \<longleftrightarrow> t \<le> n \<and> op_ok n op \<and> timed_ok n ops"

lemma covered_run:
  "covered t s \<Longrightarrow> timed_ok t ops \<Longrightarrow> covered (foldl (\<lambda>_ x. fst x) t ops) (chat_run ops s)"
proof (induction ops arbitrary: t s)
  case (Cons x ops)
  obtain n op where x: "x = (n, op)" by (cases x)
  have "covered n (chat_exec n op s)" using Cons.prems by (intro covered_step [of t]) (auto simp: x)
  with Cons.IH [of n "chat_exec n op s"] Cons.prems show ?case by (simp add: x)
qed simp



end
