(* ===== verification/TaskStore.thy ===== *)
theory TaskStore
  imports ExecTypes "HOL-Library.AList"
begin

text \<open>
  The task store: the tables \<open>tasks\<close> and \<open>task_events\<close> of \<open>packages/db/src/schema\<close>, the operations of
  \<open>packages/db/src/repositories/task-store-live.ts\<close>, and the status and runtime data helpers of
  \<open>packages/computer/src/harness/task-state.ts\<close> and \<open>task-store.ts\<close>.

  A table is the list of its rows.  A query either fails as a whole (\<open>None\<close>, the code's \<open>DbError\<close>) or
  returns the new tables and a result; a transaction that fails leaves the tables as they were.
  \<open>now\<close> is the time of the call and \<open>uuid\<close> the random event identifier it draws.
\<close>

section \<open>Task states\<close>

definition isLegalTransition :: "task_status \<Rightarrow> task_status \<Rightarrow> bool" where
  "isLegalTransition frm to =
     (if frm = to then True
      else if isTerminalStatus frm then False
      else if isTerminalStatus to then True
      else case to of
          Running \<Rightarrow> frm \<in> {Pending, AwaitingAuth, Preparing, Running}
        | Preparing \<Rightarrow> frm \<in> {Pending, AwaitingAuth}
        | AwaitingAuth \<Rightarrow> frm \<in> {Pending, AwaitingAuth}
        | Pending \<Rightarrow> frm = Pending
        | _ \<Rightarrow> False)"

datatype terminal_status = TSucceeded | TPartial | TEscalated | TFailed | TTimedOut | TLost

fun status_of :: "terminal_status \<Rightarrow> task_status" where
  "status_of TSucceeded = Succeeded"
| "status_of TPartial = Partial"
| "status_of TEscalated = Escalated"
| "status_of TFailed = Failed"
| "status_of TTimedOut = TimedOut"
| "status_of TLost = Lost"

fun task_status_name :: "task_status \<Rightarrow> string" where
  "task_status_name Pending = ''pending''"
| "task_status_name AwaitingAuth = ''awaiting_auth''"
| "task_status_name Preparing = ''preparing''"
| "task_status_name Running = ''running''"
| "task_status_name Succeeded = ''succeeded''"
| "task_status_name Partial = ''partial''"
| "task_status_name Escalated = ''escalated''"
| "task_status_name Failed = ''failed''"
| "task_status_name Cancelled = ''cancelled''"
| "task_status_name TimedOut = ''timed_out''"
| "task_status_name Lost = ''lost''"

fun mapExecutionResultStatus :: "result_status \<Rightarrow> terminal_status" where
  "mapExecutionResultStatus RCompleted = TSucceeded"
| "mapExecutionResultStatus RPartial = TPartial"
| "mapExecutionResultStatus REscalate = TEscalated"
| "mapExecutionResultStatus RFailed = TFailed"

datatype event_source = FromServer | FromRuntime | FromBackend | FromMaintenance

datatype event_kind =
    EvCreated | EvStarted | EvProgress | EvHeartbeat | EvCompleted | EvPartial | EvEscalated
  | EvFailed | EvTimedOut | EvLost | EvNotificationSent | EvBackendNotify | EvProbe

fun taskEventKindForTerminalStatus :: "terminal_status \<Rightarrow> event_kind" where
  "taskEventKindForTerminalStatus TSucceeded = EvCompleted"
| "taskEventKindForTerminalStatus TPartial = EvPartial"
| "taskEventKindForTerminalStatus TEscalated = EvEscalated"
| "taskEventKindForTerminalStatus TFailed = EvFailed"
| "taskEventKindForTerminalStatus TTimedOut = EvTimedOut"
| "taskEventKindForTerminalStatus TLost = EvLost"

fun is_terminal_kind :: "event_kind \<Rightarrow> bool" where
  "is_terminal_kind EvCompleted = True"
| "is_terminal_kind EvPartial = True"
| "is_terminal_kind EvEscalated = True"
| "is_terminal_kind EvFailed = True"
| "is_terminal_kind EvTimedOut = True"
| "is_terminal_kind EvLost = True"
| "is_terminal_kind _ = False"

section \<open>Rows\<close>

record task_row =
  tk_id :: string
  tk_userId :: string
  tk_runtime :: task_runtime
  tk_provider :: task_provider
  tk_status :: task_status
  tk_threadId :: "string option"
  tk_traceId :: "string option"
  tk_parentTaskId :: "string option"
  tk_rootTaskId :: "string option"
  tk_specialist :: "specialist_kind option"
  tk_runnerKind :: "runner_kind option"
  tk_input :: "json option"
  tk_output :: "json option"
  tk_artifacts :: "json option"
  tk_confirmationState :: "string option"
  tk_prompt :: string
  tk_requiresBrowser :: bool
  tk_runtimeData :: "json option"
  tk_outputSummary :: "string option"
  tk_error :: "string option"
  tk_exitCode :: "int option"
  tk_startedAt :: "int option"
  tk_heartbeatAt :: "int option"
  tk_completedAt :: "int option"
  tk_createdAt :: int
  tk_updatedAt :: int
  tk_metadata :: "json option"
  tk_conversationId :: "string option"
  tk_replyTarget :: "json option"
  tk_callbackId :: "string option"
  tk_callbackSecretHash :: "string option"
  tk_lastEventSeq :: int
  tk_lastEventAt :: "int option"
  tk_lastProbeAt :: "int option"
  tk_notifiedStatus :: "task_status option"
  tk_lastNotificationAt :: "int option"

text \<open>The row with the defaults of the columns.\<close>

definition default_row ::
    "int \<Rightarrow> string \<Rightarrow> string \<Rightarrow> task_runtime \<Rightarrow> task_provider \<Rightarrow> string \<Rightarrow> task_row" where
  "default_row now taskId userId runtime provider prompt =
     \<lparr>tk_id = taskId, tk_userId = userId, tk_runtime = runtime, tk_provider = provider,
      tk_status = Pending, tk_threadId = None, tk_traceId = None, tk_parentTaskId = None,
      tk_rootTaskId = None, tk_specialist = None, tk_runnerKind = None, tk_input = None,
      tk_output = None, tk_artifacts = None, tk_confirmationState = None, tk_prompt = prompt,
      tk_requiresBrowser = False, tk_runtimeData = None, tk_outputSummary = None, tk_error = None,
      tk_exitCode = None, tk_startedAt = None, tk_heartbeatAt = None, tk_completedAt = None,
      tk_createdAt = now, tk_updatedAt = now, tk_metadata = None, tk_conversationId = None,
      tk_replyTarget = None, tk_callbackId = None, tk_callbackSecretHash = None,
      tk_lastEventSeq = 0, tk_lastEventAt = None, tk_lastProbeAt = None,
      tk_notifiedStatus = None, tk_lastNotificationAt = None\<rparr>"

record task_event =
  te_taskId :: string
  te_eventId :: string
  te_source :: event_source
  te_kind :: event_kind
  te_seq :: "int option"
  te_payload :: json
  te_occurredAt :: int
  te_createdAt :: int

record task_db =
  td_tasks :: "task_row list"
  td_events :: "task_event list"
  td_conversations :: "(string \<times> string) list"                 \<comment> \<open>id, platform\<close>
  td_accounts :: "(string \<times> (string \<times> string option)) list"  \<comment> \<open>user, provider, telegram chat id\<close>

definition empty_task_db :: task_db where
  "empty_task_db = \<lparr>td_tasks = [], td_events = [], td_conversations = [], td_accounts = []\<rparr>"

text \<open>Updates of the rows that satisfy a condition; the rows updated are returned.\<close>

definition update_where ::
    "(task_row \<Rightarrow> bool) \<Rightarrow> (task_row \<Rightarrow> task_row) \<Rightarrow> task_db \<Rightarrow> task_db \<times> task_row list" where
  "update_where p f db =
     (db\<lparr>td_tasks := map (\<lambda>r. if p r then f r else r) (td_tasks db)\<rparr>, filter p (td_tasks db))"

text \<open>
  Insertion of an event: the task exists (foreign key) and has no event with this identifier (unique
  index on task and event id).
\<close>

definition insert_event :: "task_event \<Rightarrow> task_db \<Rightarrow> task_db option" where
  "insert_event e db =
     (if \<not> list_ex (\<lambda>r. tk_id r = te_taskId e) (td_tasks db) \<or>
         list_ex (\<lambda>x. te_taskId x = te_taskId e \<and> te_eventId x = te_eventId e) (td_events db)
      then None else Some (db\<lparr>td_events := td_events db @ [e]\<rparr>))"

section \<open>Runtime data\<close>

text \<open>The fields of an object; anything else reads as the empty object.\<close>

fun as_record :: "json option \<Rightarrow> (string \<times> json) list" where
  "as_record (Some (JObj kvs)) = kvs"
| "as_record _ = []"

fun put_field :: "string \<times> json option \<Rightarrow> (string \<times> json) list \<Rightarrow> (string \<times> json) list" where
  "put_field (k, Some v) kvs = AList.update k v kvs"
| "put_field (k, None) kvs = AList.delete k kvs"

text \<open>
  \<open>{...current, ...patch}\<close> without the fields that are undefined (\<open>None\<close>), null when nothing is left.
\<close>

definition mergeRuntimeData :: "json option \<Rightarrow> (string \<times> json option) list \<Rightarrow> json option" where
  "mergeRuntimeData current patch =
     (let merged = fold put_field patch (as_record current)
      in if merged = [] then None else Some (JObj merged))"

definition isSandboxTask :: "task_row \<Rightarrow> bool" where
  "isSandboxTask t \<longleftrightarrow> tk_runtime t = SandboxRuntime \<and> tk_provider t = Codex"

record sandbox_runtime =
  sr_authMode :: "string option"
  sr_sandboxId :: "string option"
  sr_sessionId :: "string option"
  sr_commandId :: "string option"
  sr_artifactRoot :: "string option"

definition readSandboxRuntimeData :: "task_row \<Rightarrow> sandbox_runtime option" where
  "readSandboxRuntimeData t =
     (if tk_runtime t \<noteq> SandboxRuntime then None
      else (let d = as_record (tk_runtimeData t); str = (\<lambda>k. json_str (map_of d k))
            in Some \<lparr>sr_authMode = (if str ''authMode'' \<in> {Some ''api_key'', Some ''chatgpt_account''}
                                    then str ''authMode'' else None),
                     sr_sandboxId = str ''sandboxId'', sr_sessionId = str ''sessionId'',
                     sr_commandId = str ''commandId'', sr_artifactRoot = str ''artifactRoot''\<rparr>))"

fun deriveRuntimeForRunner ::
    "runner_kind option \<Rightarrow> bool option \<Rightarrow> task_runtime \<times> task_provider \<times> bool" where
  "deriveRuntimeForRunner (Some RBrowserService) _ = (BrowserRuntime, Stagehand, True)"
| "deriveRuntimeForRunner (Some RBackgroundHandoff) b = (SandboxRuntime, Codex, default_to b False)"
| "deriveRuntimeForRunner _ _ = (InProcess, Internal, False)"

section \<open>Writes\<close>

definition createTask ::
    "int \<Rightarrow> string \<Rightarrow> task_row \<Rightarrow> json option \<Rightarrow> task_db \<Rightarrow> task_db option" where
  "createTask now uuid row eventPayload db =
     (if list_ex (\<lambda>r. tk_id r = tk_id row) (td_tasks db) then None
      else insert_event
             \<lparr>te_taskId = tk_id row, te_eventId = uuid, te_source = FromServer, te_kind = EvCreated,
              te_seq = None, te_payload = default_to eventPayload (JObj []), te_occurredAt = now,
              te_createdAt = now\<rparr>
             (db\<lparr>td_tasks := td_tasks db @ [row]\<rparr>))"

definition updateTask :: "string \<Rightarrow> (task_row \<Rightarrow> task_row) \<Rightarrow> task_db \<Rightarrow> task_db" where
  "updateTask taskId patch db = fst (update_where (\<lambda>r. tk_id r = taskId) patch db)"

definition appendEvent ::
    "int \<Rightarrow> string \<Rightarrow> string \<Rightarrow> string option \<Rightarrow> event_source \<Rightarrow> event_kind \<Rightarrow> int option \<Rightarrow> json \<Rightarrow>
     int option \<Rightarrow> task_db \<Rightarrow> task_db option" where
  "appendEvent now uuid taskId eventId source kind seq payload occurredAt db =
     insert_event
       \<lparr>te_taskId = taskId, te_eventId = default_to eventId uuid, te_source = source, te_kind = kind,
        te_seq = seq, te_payload = payload, te_occurredAt = default_to occurredAt now,
        te_createdAt = now\<rparr> db"

definition appendProgressEvent ::
    "int \<Rightarrow> string \<Rightarrow> string \<Rightarrow> event_source option \<Rightarrow> event_kind option \<Rightarrow> int \<Rightarrow> json \<Rightarrow>
     int option \<Rightarrow> task_status option \<Rightarrow> task_db \<Rightarrow> (task_db \<times> bool) option" where
  "appendProgressEvent now uuid taskId source kind seq payload occurred status db =
     (let occurredAt = default_to occurred now;
          (db1, updated) = update_where
            (\<lambda>r. tk_id r = taskId \<and> tk_lastEventSeq r < seq \<and> tk_status r \<notin> set TERMINAL_STATUSES)
            (\<lambda>r. r\<lparr>tk_status := default_to status (tk_status r), tk_lastEventSeq := seq,
                   tk_lastEventAt := Some occurredAt, tk_heartbeatAt := Some occurredAt,
                   tk_updatedAt := now\<rparr>) db
      in if updated = [] then Some (db1, False)
         else map_option (\<lambda>db2. (db2, True))
                (insert_event
                  \<lparr>te_taskId = taskId, te_eventId = uuid, te_source = default_to source FromRuntime,
                   te_kind = default_to kind EvProgress, te_seq = Some seq, te_payload = payload,
                   te_occurredAt = occurredAt, te_createdAt = now\<rparr> db1))"

text \<open>
  The parameters of \<open>completeTask\<close>.  \<open>None\<close> is an absent parameter; a JSON null in \<open>output\<close> or
  \<open>artifacts\<close> clears the column.
\<close>

record completion_params =
  cp_taskId :: string
  cp_status :: terminal_status
  cp_summary :: string
  cp_output :: "json option"
  cp_artifacts :: "json option"
  cp_error :: "string option"
  cp_exitCode :: "int option"
  cp_runtimeData :: "(string \<times> json option) list option"
  cp_payload :: "json option"

definition set_json :: "json option \<Rightarrow> json option \<Rightarrow> json option" where
  "set_json v old = (case v of None \<Rightarrow> old | Some JNull \<Rightarrow> None | Some j \<Rightarrow> Some j)"

definition completion_patch :: "int \<Rightarrow> completion_params \<Rightarrow> task_row \<Rightarrow> task_row" where
  "completion_patch now p r =
     r\<lparr>tk_status := status_of (cp_status p),
       tk_output := set_json (cp_output p) (tk_output r),
       tk_artifacts := set_json (cp_artifacts p) (tk_artifacts r),
       tk_outputSummary := Some (cp_summary p),
       tk_error := or_else (cp_error p) (tk_error r),
       tk_exitCode := or_else (cp_exitCode p) (tk_exitCode r),
       tk_completedAt := Some now, tk_updatedAt := now, tk_callbackSecretHash := None,
       tk_runtimeData := (case cp_runtimeData p of
           None \<Rightarrow> tk_runtimeData r | Some patch \<Rightarrow> mergeRuntimeData (tk_runtimeData r) patch)\<rparr>"

definition completeTask ::
    "int \<Rightarrow> string \<Rightarrow> completion_params \<Rightarrow> task_db \<Rightarrow> (task_db \<times> bool) option" where
  "completeTask now uuid p db =
     (let (db1, updated) = update_where
            (\<lambda>r. tk_id r = cp_taskId p \<and> tk_status r \<notin> set TERMINAL_STATUSES)
            (completion_patch now p) db
      in if updated = [] then Some (db1, False)
         else map_option (\<lambda>db2. (db2, True))
                (insert_event
                  \<lparr>te_taskId = cp_taskId p, te_eventId = uuid, te_source = FromServer,
                   te_kind = taskEventKindForTerminalStatus (cp_status p), te_seq = None,
                   te_payload = default_to (cp_payload p)
                     (JObj [(''status'', JStr (task_status_name (status_of (cp_status p)))),
                            (''summary'', JStr (cp_summary p))]),
                   te_occurredAt = now, te_createdAt = now\<rparr> db1))"

definition heartbeat :: "int \<Rightarrow> string \<Rightarrow> task_db \<Rightarrow> task_db" where
  "heartbeat now taskId db =
     fst (update_where (\<lambda>r. tk_id r = taskId) (\<lambda>r. r\<lparr>tk_heartbeatAt := Some now, tk_updatedAt := now\<rparr>) db)"

definition touchProbe :: "int \<Rightarrow> string \<Rightarrow> task_db \<Rightarrow> task_db" where
  "touchProbe now taskId db =
     fst (update_where (\<lambda>r. tk_id r = taskId) (\<lambda>r. r\<lparr>tk_lastProbeAt := Some now, tk_updatedAt := now\<rparr>) db)"

definition markNotified :: "int \<Rightarrow> string \<Rightarrow> task_status \<Rightarrow> task_db \<Rightarrow> task_db" where
  "markNotified now taskId status db =
     fst (update_where (\<lambda>r. tk_id r = taskId)
       (\<lambda>r. r\<lparr>tk_notifiedStatus := Some status, tk_lastNotificationAt := Some now, tk_updatedAt := now\<rparr>) db)"

section \<open>Reads\<close>

definition listRecentEvents :: "string \<Rightarrow> nat \<Rightarrow> task_db \<Rightarrow> task_event list" where
  "listRecentEvents taskId limit db =
     take limit (sort_key (\<lambda>e. - te_occurredAt e)
       (sort_key (\<lambda>e. - te_createdAt e) (filter (\<lambda>e. te_taskId e = taskId) (td_events db))))"

definition getById :: "string \<Rightarrow> task_db \<Rightarrow> task_row option" where
  "getById taskId db = find_first (\<lambda>r. tk_id r = taskId) (td_tasks db)"

definition getByIdAndUser :: "string \<Rightarrow> string \<Rightarrow> task_db \<Rightarrow> task_row option" where
  "getByIdAndUser taskId userId db =
     find_first (\<lambda>r. tk_id r = taskId \<and> tk_userId r = userId) (td_tasks db)"

definition is_active_sandbox :: "task_row \<Rightarrow> bool" where
  "is_active_sandbox r \<longleftrightarrow> tk_runtime r = SandboxRuntime \<and> tk_status r \<in> {Preparing, Running}"

definition countActiveSandboxTasks :: "string \<Rightarrow> task_db \<Rightarrow> nat" where
  "countActiveSandboxTasks userId db =
     length (filter (\<lambda>r. tk_userId r = userId \<and> is_active_sandbox r) (td_tasks db))"

definition findRunningSandboxTasks :: "task_db \<Rightarrow> task_row list" where
  "findRunningSandboxTasks db =
     filter (\<lambda>r. tk_status r = Running \<and> tk_runtime r = SandboxRuntime) (td_tasks db)"

definition findStalePreparingSandboxTasks :: "int \<Rightarrow> task_db \<Rightarrow> task_row list" where
  "findStalePreparingSandboxTasks cutoff db =
     filter (\<lambda>r. tk_status r = Preparing \<and> tk_runtime r = SandboxRuntime \<and> tk_createdAt r \<le> cutoff)
       (td_tasks db)"

definition findActiveTaskUserIds :: "task_db \<Rightarrow> string list" where
  "findActiveTaskUserIds db = uniq (map tk_userId (filter is_active_sandbox (td_tasks db)))"

definition findStaleSandboxTasks :: "int \<Rightarrow> task_db \<Rightarrow> task_row list" where
  "findStaleSandboxTasks staleBefore db =
     filter (\<lambda>r. is_active_sandbox r \<and>
       (case tk_heartbeatAt r of None \<Rightarrow> True | Some h \<Rightarrow> h < staleBefore)) (td_tasks db)"

definition findPendingNotifications :: "task_db \<Rightarrow> task_row list" where
  "findPendingNotifications db =
     filter (\<lambda>r. tk_status r \<in> set TERMINAL_STATUSES \<and> tk_replyTarget r \<noteq> None \<and>
       (tk_notifiedStatus r = None \<or> tk_notifiedStatus r \<noteq> Some (tk_status r))) (td_tasks db)"

definition getConversationPlatform :: "string \<Rightarrow> task_db \<Rightarrow> string option" where
  "getConversationPlatform conversationId db = map_of (td_conversations db) conversationId"

text \<open>
  \<open>Number.parseInt(s, 10)\<close>: white space, a sign, then the longest run of digits; not a number when
  that is empty.
\<close>

fun take_sign :: "string \<Rightarrow> bool \<times> string" where
  "take_sign [] = (False, [])"
| "take_sign (c # r) =
     (if c = CHR ''-'' then (True, r) else if c = CHR ''+'' then (False, r) else (False, c # r))"

definition parse_int :: "string \<Rightarrow> int option" where
  "parse_int s =
     (let (neg, u) = take_sign (trim_start s);
          ds = takeWhile is_digit u
      in if ds = [] then None
         else Some (if neg then - int (parse_digits ds) else int (parse_digits ds)))"

definition getStoredTelegramChatId :: "string \<Rightarrow> task_db \<Rightarrow> int option" where
  "getStoredTelegramChatId userId db =
     (case find_first (\<lambda>(u, p, c). u = userId \<and> p = ''telegram'') (td_accounts db) of
        None \<Rightarrow> None
      | Some (u, p, c) \<Rightarrow> (case truthy_str c of None \<Rightarrow> None | Some raw \<Rightarrow> parse_int raw))"

end
