(* ===== verification/TaskEvents.thy ===== *)
theory TaskEvents
  imports TaskStore "HOL-Library.Word"
begin

unbundle bit_operations_syntax

text \<open>
  The callback endpoint of background tasks: the signatures of
  \<open>packages/computer/src/harness/callback.ts\<close> and the handler of
  \<open>apps/api/src/handlers/task-events.ts\<close>.

  The handler reads the task, checks the request, collects what the task produced and then applies one
  transaction.  Other handlers may run between the read and the transaction, so it is modelled as two
  steps: \<open>event_check\<close> on the tables as they were read, \<open>event_commit\<close> on the tables of the
  transaction.
\<close>

section \<open>Signatures\<close>

definition CALLBACK_TIMESTAMP_TOLERANCE_MS :: int where
  "CALLBACK_TIMESTAMP_TOLERANCE_MS = 5 * 60 * 1000"

definition hex_digit :: "nat \<Rightarrow> char" where
  "hex_digit n = (if n < 10 then char_of (48 + n) else char_of (87 + n))"

text \<open>\<open>b.toString(16).padStart(2, "0")\<close>\<close>

definition byte_hex :: "8 word \<Rightarrow> string" where
  "byte_hex b = [hex_digit (unat b div 16), hex_digit (unat b mod 16)]"

definition bufToHex :: "8 word list \<Rightarrow> string" where
  "bufToHex bs = concat (map byte_hex bs)"

text \<open>The value of a hexadecimal digit of either case.\<close>

definition hex_value :: "char \<Rightarrow> nat option" where
  "hex_value c =
     (let n = (of_char c :: nat)
      in if 48 \<le> n \<and> n \<le> 57 then Some (n - 48)
         else if 97 \<le> n \<and> n \<le> 102 then Some (n - 87)
         else if 65 \<le> n \<and> n \<le> 70 then Some (n - 55) else None)"

text \<open>
  \<open>Number.parseInt(s, 16)\<close>: white space, a sign, an optional \<open>0x\<close>, then the longest run of digits.
\<close>

fun hex_run :: "nat \<Rightarrow> string \<Rightarrow> nat" where
  "hex_run acc [] = acc"
| "hex_run acc (c # cs) = (case hex_value c of None \<Rightarrow> acc | Some d \<Rightarrow> hex_run (16 * acc + d) cs)"

fun strip_0x :: "string \<Rightarrow> string" where
  "strip_0x (a # c # r) =
     (if a = CHR ''0'' \<and> (c = CHR ''x'' \<or> c = CHR ''X'') then r else a # c # r)"
| "strip_0x s = s"

definition parse_hex :: "string \<Rightarrow> int option" where
  "parse_hex s =
     (let (neg, u) = take_sign (trim_start s); v = strip_0x u
      in case v of
           [] \<Rightarrow> None
         | c # _ \<Rightarrow> if hex_value c = None then None
                    else Some (if neg then - int (hex_run 0 v) else int (hex_run 0 v)))"

text \<open>An element of a byte array: not a number is stored as 0, other values modulo 256.\<close>

definition to_byte :: "int option \<Rightarrow> 8 word" where
  "to_byte v = (case v of None \<Rightarrow> 0 | Some n \<Rightarrow> word_of_int n)"

fun hexToBytes :: "string \<Rightarrow> 8 word list" where
  "hexToBytes (a # b # cs) = to_byte (parse_hex [a, b]) # hexToBytes cs"
| "hexToBytes _ = []"

fun xor_diff :: "8 word \<Rightarrow> 8 word list \<Rightarrow> 8 word list \<Rightarrow> 8 word" where
  "xor_diff d (x # xs) (y # ys) = xor_diff (d OR (x XOR y)) xs ys"
| "xor_diff d _ _ = d"

lemma or_zero: "(a OR b :: 8 word) = 0 \<longleftrightarrow> a = 0 \<and> b = 0"
  by (auto simp: bit_eq_iff bit_or_iff)

lemma xor_zero: "(a XOR b :: 8 word) = 0 \<longleftrightarrow> a = b"
  by (auto simp: bit_eq_iff bit_xor_iff)

lemma xor_diff_zero: "length xs = length ys \<Longrightarrow> xor_diff d xs ys = 0 \<longleftrightarrow> d = 0 \<and> xs = ys"
  by (induction d xs ys rule: xor_diff.induct) (auto simp: or_zero xor_zero)

definition timingSafeEqualHex :: "string \<Rightarrow> string \<Rightarrow> bool" where
  "timingSafeEqualHex a b =
     (if length a \<noteq> length b \<or> length a mod 2 \<noteq> 0 then False
      else if length (hexToBytes a) \<noteq> length (hexToBytes b) then False
      else xor_diff 0 (hexToBytes a) (hexToBytes b) = 0)"

text \<open>
  What the endpoint uses of the platform: SHA-256 and HMAC-SHA-256 as bytes, \<open>Number\<close> on the timestamp
  header (a whole number, or not finite), \<open>JSON.parse\<close> of the body into its declared type (not JSON, or
  null), the time of a date text, which texts are UUIDs for the database, and the task supervisor and
  attachment service.
\<close>

record event_body =
  eb_eventId :: string
  eb_eventType :: string
  eb_taskId :: string
  eb_status :: "string option"
  eb_message :: "string option"
  eb_seq :: "int option"
  eb_exitCode :: "int option"
  eb_sentAt :: "string option"
  eb_payload :: "json option"

record execution_data =
  xd_output :: string
  xd_summary :: string
  xd_artifacts :: json

record callback_env =
  ce_sha256 :: "string \<Rightarrow> 8 word list"
  ce_hmac :: "string \<Rightarrow> string \<Rightarrow> 8 word list"      \<comment> \<open>key, message\<close>
  ce_number :: "string \<Rightarrow> int option"
  ce_parse :: "string \<Rightarrow> event_body option"
  ce_date :: "string \<Rightarrow> int option"
  ce_uuid :: "string \<Rightarrow> bool"
  ce_execution :: "task_row \<Rightarrow> execution_data option"
  ce_publish :: "task_row \<Rightarrow> json \<Rightarrow> json option"

definition hashSecret :: "callback_env \<Rightarrow> string \<Rightarrow> string" where
  "hashSecret env raw = bufToHex (ce_sha256 env raw)"

text \<open>The raw secret is drawn by the platform.\<close>

definition mintCallbackSecret :: "callback_env \<Rightarrow> 8 word list \<Rightarrow> string \<times> string" where
  "mintCallbackSecret env bytes = (let raw = bufToHex bytes in (raw, hashSecret env raw))"

definition signPayload :: "callback_env \<Rightarrow> string \<Rightarrow> string \<Rightarrow> string \<Rightarrow> string" where
  "signPayload env secret timestampMs rawBody =
     bufToHex (ce_hmac env secret (timestampMs @ ''.'' @ rawBody))"

definition verifyHmacSignature :: "callback_env \<Rightarrow> string \<Rightarrow> string \<Rightarrow> string \<Rightarrow> string \<Rightarrow> bool" where
  "verifyHmacSignature env rawBody secret timestampMs signatureHeader =
     (let normalized = (if starts_with signatureHeader ''sha256='' then drop 7 signatureHeader
                        else signatureHeader)
      in timingSafeEqualHex (signPayload env secret timestampMs rawBody) normalized)"

definition isTimestampValid :: "int \<Rightarrow> int option \<Rightarrow> bool" where
  "isTimestampValid now ts =
     (case ts of None \<Rightarrow> False | Some t \<Rightarrow> \<bar>now - t\<bar> \<le> CALLBACK_TIMESTAMP_TOLERANCE_MS)"

section \<open>Requests and responses\<close>

record event_request =
  rq_body :: string
  rq_callbackId :: "string option"
  rq_timestamp :: "string option"
  rq_signature :: "string option"
  rq_authorization :: "string option"

record http_response =
  hr_status :: nat
  hr_body :: json

definition jsonResponse :: "json \<Rightarrow> nat \<Rightarrow> http_response" where
  "jsonResponse body status = \<lparr>hr_status = status, hr_body = body\<rparr>"

definition CALLBACK_HEARTBEAT_INTERVAL_MS :: int where
  "CALLBACK_HEARTBEAT_INTERVAL_MS = 30000"

definition ackResponse :: http_response where
  "ackResponse = jsonResponse
     (JObj [(''ack'', JBool True), (''cancelRequested'', JBool False),
            (''nextHeartbeatMs'', JNum CALLBACK_HEARTBEAT_INTERVAL_MS)]) 200"

definition error_response :: "string \<Rightarrow> nat \<Rightarrow> http_response" where
  "error_response msg status = jsonResponse (JObj [(''error'', JStr msg)]) status"

definition unauthorized :: http_response where
  "unauthorized = error_response ''Unauthorized'' 401"

definition sourceFromEventType :: "string \<Rightarrow> event_source" where
  "sourceFromEventType eventType =
     (if eventType = ''codex.notify'' \<or> eventType = ''backend.notify'' then FromBackend else FromRuntime)"

fun kind_name :: "event_kind \<Rightarrow> string" where
  "kind_name EvCreated = ''task.created''"
| "kind_name EvStarted = ''task.started''"
| "kind_name EvProgress = ''task.progress''"
| "kind_name EvHeartbeat = ''task.heartbeat''"
| "kind_name EvCompleted = ''task.completed''"
| "kind_name EvPartial = ''task.partial''"
| "kind_name EvEscalated = ''task.escalated''"
| "kind_name EvFailed = ''task.failed''"
| "kind_name EvTimedOut = ''task.timed_out''"
| "kind_name EvLost = ''task.lost''"
| "kind_name EvNotificationSent = ''task.notification_sent''"
| "kind_name EvBackendNotify = ''backend.notify''"
| "kind_name EvProbe = ''maintenance.probe''"

definition KNOWN_EVENT_KINDS :: "event_kind list" where
  "KNOWN_EVENT_KINDS =
     [EvCreated, EvStarted, EvProgress, EvHeartbeat, EvCompleted, EvPartial, EvEscalated, EvFailed,
      EvTimedOut, EvLost, EvNotificationSent, EvBackendNotify, EvProbe]"

definition normalizeEventKind :: "string \<Rightarrow> event_kind option" where
  "normalizeEventKind eventType =
     (if eventType = ''codex.notify'' then Some EvBackendNotify
      else if eventType = ''reconciler.probe'' then Some EvProbe
      else find_first (\<lambda>k. kind_name k = eventType) KNOWN_EVENT_KINDS)"

definition mapHarnessEventToStatus :: "string \<Rightarrow> task_status option" where
  "mapHarnessEventToStatus eventType =
     (if eventType \<in> {''task.started'', ''task.heartbeat'', ''task.progress''} then Some Running
      else if eventType = ''task.completed'' then Some Succeeded
      else if eventType = ''task.partial'' then Some Partial
      else if eventType = ''task.escalated'' then Some Escalated
      else if eventType = ''task.failed'' then Some Failed
      else None)"

section \<open>The handler\<close>

text \<open>The event an accepted request stands for, with the task as it was read.\<close>

record accepted_event =
  ae_task :: task_row
  ae_body :: event_body
  ae_kind :: event_kind

definition event_check ::
    "callback_env \<Rightarrow> int \<Rightarrow> event_request \<Rightarrow> task_db \<Rightarrow> (string + http_response) + accepted_event" where
  "event_check env now rq db =
     (case (truthy_str (rq_callbackId rq), truthy_str (rq_timestamp rq), truthy_str (rq_signature rq),
            rq_authorization rq) of
        (Some callbackId, Some timestamp, Some signature, Some auth) \<Rightarrow>
          if \<not> starts_with auth ''Bearer '' then Inl (Inr unauthorized)
          else if \<not> ce_uuid env callbackId then Inl (Inl ''db'')
          else (case find_first (\<lambda>r. tk_callbackId r = Some callbackId) (td_tasks db) of
            None \<Rightarrow> Inl (Inr (error_response ''Not found'' 404))
          | Some task \<Rightarrow>
              if isTerminalStatus (tk_status task)
              then Inl (Inr (error_response ''Task not accepting events'' 409))
              else (case truthy_str (tk_callbackSecretHash task) of
                None \<Rightarrow> Inl (Inr unauthorized)
              | Some secretHash \<Rightarrow>
                  (let bearer = js_trim (drop 7 auth) in
                   if hashSecret env bearer \<noteq> secretHash then Inl (Inr unauthorized)
                   else if \<not> isTimestampValid now (ce_number env timestamp) then Inl (Inr unauthorized)
                   else if \<not> verifyHmacSignature env (rq_body rq) bearer timestamp signature
                   then Inl (Inr unauthorized)
                   else (case ce_parse env (rq_body rq) of
                     None \<Rightarrow> Inl (Inr (error_response ''Invalid JSON'' 400))
                   | Some body \<Rightarrow>
                       if eb_taskId body \<noteq> tk_id task
                       then Inl (Inr (error_response ''Task mismatch'' 400))
                       else if (case eb_seq body of None \<Rightarrow> False | Some seq \<Rightarrow> seq \<le> tk_lastEventSeq task)
                       then Inl (Inr ackResponse)
                       else (case normalizeEventKind (eb_eventType body) of
                         None \<Rightarrow> Inl (Inr (error_response
                             (''Unknown event kind: '' @ eb_eventType body) 400))
                       | Some kind \<Rightarrow> Inr \<lparr>ae_task = task, ae_body = body, ae_kind = kind\<rparr>)))))
      | _ \<Rightarrow> Inl (Inr unauthorized))"

definition event_occurredAt :: "callback_env \<Rightarrow> int \<Rightarrow> event_body \<Rightarrow> int option" where
  "event_occurredAt env now body =
     (case truthy_str (eb_sentAt body) of None \<Rightarrow> Some now | Some t \<Rightarrow> ce_date env t)"

definition opt_json :: "('a \<Rightarrow> json) \<Rightarrow> 'a option \<Rightarrow> json" where
  "opt_json f v = (case v of None \<Rightarrow> JNull | Some x \<Rightarrow> f x)"

definition event_payload :: "event_body \<Rightarrow> json" where
  "event_payload body = default_to (eb_payload body)
     (JObj [(''status'', opt_json JStr (eb_status body)), (''message'', opt_json JStr (eb_message body)),
            (''exitCode'', opt_json JNum (eb_exitCode body))])"

definition status_ok :: "task_row \<Rightarrow> event_body \<Rightarrow> bool" where
  "status_ok task body =
     (case mapHarnessEventToStatus (eb_eventType body) of
        None \<Rightarrow> True | Some next \<Rightarrow> isLegalTransition (tk_status task) next)"

definition finishing :: "event_kind \<Rightarrow> bool" where
  "finishing k \<longleftrightarrow> k \<in> {EvCompleted, EvPartial, EvEscalated, EvFailed}"

text \<open>What a finishing event adds to the patch.\<close>

definition finish_patch :: "callback_env \<Rightarrow> int \<Rightarrow> accepted_event \<Rightarrow> task_row \<Rightarrow> task_row" where
  "finish_patch env occurredAt ae r =
     (let body = ae_body ae; task = ae_task ae; failed = (ae_kind ae = EvFailed);
          r1 = r\<lparr>tk_completedAt := Some occurredAt,
                 tk_exitCode := Some (default_to (eb_exitCode body) (if failed then 1 else 0)),
                 tk_callbackSecretHash := None\<rparr>
      in case ce_execution env task of
           Some d \<Rightarrow>
             r1\<lparr>tk_output := (if xd_output d = [] then None else Some (JObj [(''result'', JStr (xd_output d))])),
                tk_artifacts := Some (default_to (ce_publish env task (xd_artifacts d)) (xd_artifacts d)),
                tk_outputSummary := Some (take 2000 (xd_summary d)),
                tk_error := (if failed then Some (take 4000 (xd_summary d)) else tk_error r1)\<rparr>
         | None \<Rightarrow> (case truthy_str (eb_message body) of
             None \<Rightarrow> r1
           | Some m \<Rightarrow> r1\<lparr>tk_outputSummary := Some (take 2000 m),
                         tk_error := (if failed then Some (take 4000 m) else tk_error r1)\<rparr>))"

definition event_patch :: "callback_env \<Rightarrow> int \<Rightarrow> int \<Rightarrow> accepted_event \<Rightarrow> task_row \<Rightarrow> task_row" where
  "event_patch env now occurredAt ae r =
     (let body = ae_body ae; task = ae_task ae; ok = status_ok task body;
          r1 = r\<lparr>tk_lastEventSeq := default_to (eb_seq body) (tk_lastEventSeq task),
                 tk_lastEventAt := Some occurredAt, tk_heartbeatAt := Some now, tk_updatedAt := now\<rparr>;
          r2 = (case mapHarnessEventToStatus (eb_eventType body) of
                  Some next \<Rightarrow> if ok then r1\<lparr>tk_status := next\<rparr> else r1 | None \<Rightarrow> r1)
      in if ok \<and> finishing (ae_kind ae) then finish_patch env occurredAt ae r2 else r2)"

definition event_row :: "int \<Rightarrow> int \<Rightarrow> accepted_event \<Rightarrow> int option \<Rightarrow> task_event" where
  "event_row now occurredAt ae seq =
     \<lparr>te_taskId = tk_id (ae_task ae), te_eventId = eb_eventId (ae_body ae),
      te_source = sourceFromEventType (eb_eventType (ae_body ae)), te_kind = ae_kind ae, te_seq = seq,
      te_payload = event_payload (ae_body ae), te_occurredAt = occurredAt, te_createdAt = now\<rparr>"

text \<open>
  The transaction; a failure inside it is caught and rolls it back.  The flag says whether the event
  was applied.
\<close>

definition event_commit :: "callback_env \<Rightarrow> int \<Rightarrow> accepted_event \<Rightarrow> task_db \<Rightarrow> task_db \<times> bool" where
  "event_commit env now ae db =
     (let task = ae_task ae; body = ae_body ae in
      case event_occurredAt env now body of
        None \<Rightarrow> (db, False)
      | Some occurredAt \<Rightarrow>
          if \<not> ce_uuid env (eb_eventId body) then (db, False)
          else if ae_kind ae = EvBackendNotify then
            (case insert_event (event_row now occurredAt ae None) db of
               None \<Rightarrow> (db, False)
             | Some db1 \<Rightarrow>
                 (fst (update_where
                    (\<lambda>r. tk_id r = tk_id task \<and> tk_status r \<notin> set TERMINAL_STATUSES)
                    (\<lambda>r. r\<lparr>tk_lastEventAt := Some occurredAt, tk_updatedAt := now\<rparr>) db1), True))
          else
            (case update_where
                    (\<lambda>r. tk_id r = tk_id task \<and>
                       (case eb_seq body of None \<Rightarrow> True | Some seq \<Rightarrow> tk_lastEventSeq r < seq) \<and>
                       tk_status r \<notin> set TERMINAL_STATUSES)
                    (event_patch env now occurredAt ae) db of
               (db1, updated) \<Rightarrow>
                 if updated = [] then (db, False)
                 else (case insert_event (event_row now occurredAt ae (eb_seq body)) db1 of
                   None \<Rightarrow> (db, False) | Some db2 \<Rightarrow> (db2, True))))"

text \<open>A terminal trace event: the trace, the task, the status, the message and the exit code.\<close>

record trace_entry =
  tx_traceId :: string
  tx_taskId :: string
  tx_status :: task_status
  tx_message :: "string option"
  tx_exitCode :: "int option"
  tx_reason :: "string option"

definition appendTaskTraceTerminalEvent ::
    "string option \<Rightarrow> string \<Rightarrow> task_status \<Rightarrow> string option \<Rightarrow> int option \<Rightarrow> string option \<Rightarrow>
     trace_entry list" where
  "appendTaskTraceTerminalEvent traceId taskId status message exitCode reason =
     (case truthy_str traceId of None \<Rightarrow> []
      | Some t \<Rightarrow> [\<lparr>tx_traceId = t, tx_taskId = taskId, tx_status = status, tx_message = message,
                   tx_exitCode = exitCode, tx_reason = reason\<rparr>])"

definition event_trace :: "accepted_event \<Rightarrow> bool \<Rightarrow> trace_entry list" where
  "event_trace ae applied =
     (let task = ae_task ae; body = ae_body ae in
      if ae_kind ae \<noteq> EvBackendNotify \<and> applied \<and> status_ok task body \<and> finishing (ae_kind ae)
      then appendTaskTraceTerminalEvent (tk_traceId task) (tk_id task)
             (default_to (mapHarnessEventToStatus (eb_eventType body))
                (if ae_kind ae = EvFailed then Failed else Succeeded))
             (eb_message body) (eb_exitCode body) None
      else [])"

text \<open>The request with the tables it reads and the tables of its transaction.\<close>

definition handleTaskEventPost ::
    "callback_env \<Rightarrow> int \<Rightarrow> event_request \<Rightarrow> task_db \<Rightarrow> task_db \<Rightarrow>
     task_db \<times> trace_entry list \<times> (string + http_response)" where
  "handleTaskEventPost env now rq db_read db =
     (case event_check env now rq db_read of
        Inl (Inl err) \<Rightarrow> (db, [], Inl err)
      | Inl (Inr resp) \<Rightarrow> (db, [], Inr resp)
      | Inr ae \<Rightarrow> (case event_commit env now ae db of
          (db', applied) \<Rightarrow> (db', event_trace ae applied, Inr ackResponse)))"

section \<open>The harness in the sandbox\<close>

text \<open>
  The events the wrapper script posts over a run: the start, a heartbeat per period, the end with the
  exit code, numbered from 1.  The event identifier is a digest of task, number and type, a parameter.
\<close>

definition callback_body ::
    "(string \<Rightarrow> int \<Rightarrow> string \<Rightarrow> string) \<Rightarrow> string \<Rightarrow> string \<Rightarrow> string \<Rightarrow> string \<Rightarrow> int \<Rightarrow> int option \<Rightarrow>
     string \<Rightarrow> event_body" where
  "callback_body eventId taskId eventType status message seq exitCode sentAt =
     \<lparr>eb_eventId = eventId taskId seq eventType, eb_eventType = eventType, eb_taskId = taskId,
      eb_status = truthy_str (Some status), eb_message = truthy_str (Some message), eb_seq = Some seq,
      eb_exitCode = exitCode, eb_sentAt = Some sentAt, eb_payload = None\<rparr>"

definition wrapper_events ::
    "(string \<Rightarrow> int \<Rightarrow> string \<Rightarrow> string) \<Rightarrow> string \<Rightarrow> nat \<Rightarrow> int \<Rightarrow> string \<Rightarrow> event_body list" where
  "wrapper_events eventId taskId beats exitCode sentAt =
     callback_body eventId taskId ''task.started'' ''running'' ''Task started'' 1 None sentAt #
     map (\<lambda>i. callback_body eventId taskId ''task.heartbeat'' ''running'' ''still running''
                (2 + int i) None sentAt) [0..<beats] @
     [if exitCode = 0
      then callback_body eventId taskId ''task.completed'' ''succeeded'' ''Task completed''
             (2 + int beats) (Some exitCode) sentAt
      else callback_body eventId taskId ''task.failed'' ''failed'' ''Task failed''
             (2 + int beats) (Some exitCode) sentAt]"

end
