(* ===== verification/TaskInv.thy ===== *)
theory TaskInv
  imports TaskEvents
begin

text \<open>
  The task tables under any interleaving of the operations of the code: what each operation does to a
  row and to the events, what settles a task for good, and the numbering of the callback events.
\<close>

section \<open>Operations as steps\<close>

text \<open>
  The writes of the code: the supervisor creates, launches and completes tasks and keeps them alive,
  the coordinator reports progress and completes, the reconciliation probes and notifies, and the
  callback endpoint commits accepted events.
\<close>

datatype task_op =
    OpCreateTask int string task_row "json option"
  | OpLaunch int string "json option"                     \<comment> \<open>task, runtime data\<close>
  | OpAppendEvent int string string event_source event_kind json
  | OpProgress int string string "event_source option" "event_kind option" int json "int option"
      "task_status option"
  | OpComplete int string completion_params
  | OpHeartbeat int string
  | OpTouchProbe int string
  | OpMarkNotified int string task_status
  | OpCallback int accepted_event

text \<open>The update of the supervisor when it has started the command: it has no condition on the status.\<close>

definition launch_patch :: "int \<Rightarrow> json option \<Rightarrow> task_row \<Rightarrow> task_row" where
  "launch_patch now runtimeData r =
     r\<lparr>tk_status := Running, tk_startedAt := Some now, tk_heartbeatAt := Some now,
       tk_runtimeData := runtimeData\<rparr>"

fun task_exec :: "callback_env \<Rightarrow> task_op \<Rightarrow> task_db \<Rightarrow> task_db" where
  "task_exec env (OpCreateTask now uuid row payload) db = default_to (createTask now uuid row payload db) db"
| "task_exec env (OpLaunch now t rd) db = updateTask t (launch_patch now rd) db"
| "task_exec env (OpAppendEvent now uuid t source kind payload) db =
     default_to (appendEvent now uuid t None source kind None payload None db) db"
| "task_exec env (OpProgress now uuid t source kind seq payload occurred status) db =
     (case appendProgressEvent now uuid t source kind seq payload occurred status db of
        None \<Rightarrow> db | Some (db', applied) \<Rightarrow> db')"
| "task_exec env (OpComplete now uuid p) db =
     (case completeTask now uuid p db of None \<Rightarrow> db | Some (db', applied) \<Rightarrow> db')"
| "task_exec env (OpHeartbeat now t) db = heartbeat now t db"
| "task_exec env (OpTouchProbe now t) db = touchProbe now t db"
| "task_exec env (OpMarkNotified now t status) db = markNotified now t status db"
| "task_exec env (OpCallback now ae) db = fst (event_commit env now ae db)"

section \<open>Updates and insertions\<close>

named_theorems row_ids "the patches keep the identifier of the row"

lemma terminal_mem: "s \<in> set TERMINAL_STATUSES \<longleftrightarrow> isTerminalStatus s"
  by (simp add: isTerminalStatus_def)

lemma patch_ids [row_ids, simp]:
  "tk_id (launch_patch now rd r) = tk_id r"
  "tk_id (completion_patch now p r) = tk_id r"
  by (simp_all add: launch_patch_def completion_patch_def)

lemma finish_patch_id [row_ids, simp]: "tk_id (finish_patch env o' ae r) = tk_id r"
  by (simp add: finish_patch_def Let_def split: option.splits)

lemma event_patch_id [row_ids, simp]: "tk_id (event_patch env now o' ae r) = tk_id r"
  by (simp add: event_patch_def Let_def split: option.splits)

lemma update_where_sel [simp]:
  "td_events (fst (update_where p f db)) = td_events db"
  "snd (update_where p f db) = filter p (td_tasks db)"
  "td_tasks (fst (update_where p f db)) = map (\<lambda>r. if p r then f r else r) (td_tasks db)"
  by (simp_all add: update_where_def)

lemma find_first_map:
  assumes "\<And>r. q (f r) = q r"
  shows "find_first q (map f xs) = map_option f (find_first q xs)"
  by (induction xs) (auto simp: assms)

lemma getById_update:
  assumes "\<And>r. tk_id (f r) = tk_id r"
  shows "getById t (fst (update_where p f db)) = map_option (\<lambda>r. if p r then f r else r) (getById t db)"
proof -
  have "tk_id (if p r then f r else r) = tk_id r" for r using assms by simp
  then show ?thesis by (simp add: getById_def find_first_map)
qed

lemma insert_event_Some:
  "insert_event e db = Some db' \<Longrightarrow>
     db' = db\<lparr>td_events := td_events db @ [e]\<rparr> \<and>
     (\<exists>r \<in> set (td_tasks db). tk_id r = te_taskId e) \<and>
     (\<forall>x \<in> set (td_events db). \<not> (te_taskId x = te_taskId e \<and> te_eventId x = te_eventId e))"
  by (auto simp: insert_event_def list_ex_iff split: if_splits)

lemma getById_events [simp]: "getById t (db\<lparr>td_events := es\<rparr>) = getById t db"
  by (simp add: getById_def)

lemma getById_Some: "getById t db = Some r \<Longrightarrow> r \<in> set (td_tasks db) \<and> tk_id r = t"
  unfolding getById_def by (auto dest: find_first_Some)

lemma getById_None: "getById t db = None \<longleftrightarrow> (\<forall>r \<in> set (td_tasks db). tk_id r \<noteq> t)"
  by (simp add: getById_def find_first_None)

lemma getById_unique:
  assumes "distinct (map tk_id (td_tasks db))" "r \<in> set (td_tasks db)"
  shows "getById (tk_id r) db = Some r"
proof (cases "getById (tk_id r) db")
  case None
  with assms(2) show ?thesis by (auto simp: getById_None)
next
  case (Some x)
  then have "x \<in> set (td_tasks db)" "tk_id x = tk_id r" using getById_Some by blast+
  then have "x = r" using assms by (auto simp: distinct_map dest: inj_onD)
  with Some show ?thesis by simp
qed

section \<open>The effect of each operation\<close>

text \<open>
  Every operation is one of three things: nothing, an update of rows with at most one new event, or a
  new row with its first event.
\<close>

definition effect ::
    "(task_row \<Rightarrow> bool) \<Rightarrow> (task_row \<Rightarrow> task_row) \<Rightarrow> task_event list \<Rightarrow> task_db \<Rightarrow> task_db" where
  "effect p f es db = (fst (update_where p f db))\<lparr>td_events := td_events db @ es\<rparr>"

lemma effect_sel [simp]:
  "td_events (effect p f es db) = td_events db @ es"
  "td_tasks (effect p f es db) = map (\<lambda>r. if p r then f r else r) (td_tasks db)"
  by (simp_all add: effect_def)

lemma getById_effect:
  "(\<And>r. tk_id (f r) = tk_id r) \<Longrightarrow>
   getById t (effect p f es db) = map_option (\<lambda>r. if p r then f r else r) (getById t db)"
  by (simp add: effect_def getById_update)

lemma effect_nothing: "effect p f [] db = fst (update_where p f db)"
  by (simp add: effect_def update_where_def)

lemma effect_event: "effect (\<lambda>_. False) f [e] db = db\<lparr>td_events := td_events db @ [e]\<rparr>"
  by (simp add: effect_def update_where_def)

text \<open>The event is new to its task, and its task is there.\<close>

definition fresh_event :: "task_event \<Rightarrow> task_db \<Rightarrow> bool" where
  "fresh_event e db \<longleftrightarrow> (\<exists>r \<in> set (td_tasks db). tk_id r = te_taskId e) \<and>
     (\<forall>x \<in> set (td_events db). \<not> (te_taskId x = te_taskId e \<and> te_eventId x = te_eventId e))"

lemma insert_after_update:
  assumes "insert_event e (fst (update_where p f db)) = Some db'" "\<And>r. tk_id (f r) = tk_id r"
  shows "db' = effect p f [e] db" "fresh_event e db"
proof -
  note i = insert_event_Some [OF assms(1)]
  show "db' = effect p f [e] db" using i by (simp add: effect_def)
  from i obtain r where "r \<in> set (td_tasks db)" "tk_id (if p r then f r else r) = te_taskId e" by auto
  then have "tk_id r = te_taskId e" using assms(2) by (simp split: if_splits)
  with \<open>r \<in> set (td_tasks db)\<close> i show "fresh_event e db" by (auto simp: fresh_event_def)
qed

text \<open>
  The transaction that progress, completion and callbacks share: update the rows that satisfy a
  condition, and if there are any insert an event, all or nothing.
\<close>

definition guarded_tx ::
    "(task_row \<Rightarrow> bool) \<Rightarrow> (task_row \<Rightarrow> task_row) \<Rightarrow> task_event \<Rightarrow> task_db \<Rightarrow> task_db" where
  "guarded_tx p f e db =
     (if filter p (td_tasks db) = [] then db
      else default_to (insert_event e (fst (update_where p f db))) db)"

lemma update_nothing: "filter p (td_tasks db) = [] \<Longrightarrow> fst (update_where p f db) = db"
  by (auto simp: update_where_def filter_empty_conv intro!: task_db.equality map_idI)

lemma guarded_tx_cases [consumes 1, case_names same changed]:
  assumes "\<And>r. tk_id (f r) = tk_id r"
  obtains "guarded_tx p f e db = db"
  | "guarded_tx p f e db = effect p f [e] db" "fresh_event e db" "\<exists>r \<in> set (td_tasks db). p r"
proof (cases "filter p (td_tasks db) = []")
  case True
  then show thesis by (intro that(1)) (simp add: guarded_tx_def)
next
  case False
  then have ex: "\<exists>r \<in> set (td_tasks db). p r" by (auto simp: filter_empty_conv)
  show thesis
  proof (cases "insert_event e (fst (update_where p f db))")
    case None
    with False show thesis by (intro that(1)) (simp add: guarded_tx_def)
  next
    case (Some db2)
    with False have "guarded_tx p f e db = db2" by (simp add: guarded_tx_def)
    with insert_after_update [OF Some assms] ex show thesis by (intro that(2)) simp_all
  qed
qed

lemma append_cases [case_names same added]:
  obtains "task_exec env (OpAppendEvent now uuid t source kind payload) db = db"
  | e where "task_exec env (OpAppendEvent now uuid t source kind payload) db =
        effect (\<lambda>_. False) id [e] db" "fresh_event e db" "te_taskId e = t" "te_seq e = None"
proof (cases "appendEvent now uuid t None source kind None payload None db")
  case None
  then show thesis by (intro that(1)) simp
next
  case (Some d)
  then obtain e where e: "insert_event e db = Some d" "te_taskId e = t" "te_seq e = None"
    by (auto simp: appendEvent_def)
  with Some insert_event_Some [OF e(1)] show thesis
    by (intro that(2) [of e]) (auto simp: effect_event fresh_event_def)
qed

lemma create_cases:
  assumes "createTask now uuid row payload db = Some db'"
  obtains e where "tk_id row \<notin> tk_id ` set (td_tasks db)"
    "db' = db\<lparr>td_tasks := td_tasks db @ [row], td_events := td_events db @ [e]\<rparr>"
    "te_taskId e = tk_id row" "te_seq e = None"
proof -
  from assms obtain e where n: "\<not> list_ex (\<lambda>r. tk_id r = tk_id row) (td_tasks db)"
    and i: "insert_event e (db\<lparr>td_tasks := td_tasks db @ [row]\<rparr>) = Some db'"
    and e: "te_taskId e = tk_id row" "te_seq e = None"
    by (auto simp: createTask_def split: if_splits)
  have "db' = db\<lparr>td_tasks := td_tasks db @ [row], td_events := td_events db @ [e]\<rparr>"
    using insert_event_Some [OF i] by simp
  with n e show thesis by (intro that [of e]) (auto simp: list_ex_iff)
qed

definition progress_patch :: "int \<Rightarrow> int \<Rightarrow> int \<Rightarrow> task_status option \<Rightarrow> task_row \<Rightarrow> task_row" where
  "progress_patch now occurredAt seq status r =
     r\<lparr>tk_status := default_to status (tk_status r), tk_lastEventSeq := seq,
       tk_lastEventAt := Some occurredAt, tk_heartbeatAt := Some occurredAt, tk_updatedAt := now\<rparr>"

lemma progress_tx:
  "task_exec env (OpProgress now uuid t source kind seq payload occurred status) db =
     guarded_tx (\<lambda>r. tk_id r = t \<and> tk_lastEventSeq r < seq \<and> \<not> isTerminalStatus (tk_status r))
       (progress_patch now (default_to occurred now) seq status)
       \<lparr>te_taskId = t, te_eventId = uuid, te_source = default_to source FromRuntime,
        te_kind = default_to kind EvProgress, te_seq = Some seq, te_payload = payload,
        te_occurredAt = default_to occurred now, te_createdAt = now\<rparr> db"
  by (simp add: appendProgressEvent_def guarded_tx_def update_nothing terminal_mem Let_def
      case_prod_unfold progress_patch_def [abs_def] split: option.splits)

lemma complete_tx:
  "task_exec env (OpComplete now uuid p) db =
     guarded_tx (\<lambda>r. tk_id r = cp_taskId p \<and> \<not> isTerminalStatus (tk_status r)) (completion_patch now p)
       \<lparr>te_taskId = cp_taskId p, te_eventId = uuid, te_source = FromServer,
        te_kind = taskEventKindForTerminalStatus (cp_status p), te_seq = None,
        te_payload = default_to (cp_payload p)
          (JObj [(''status'', JStr (task_status_name (status_of (cp_status p)))),
                 (''summary'', JStr (cp_summary p))]),
        te_occurredAt = now, te_createdAt = now\<rparr> db"
  by (simp add: completeTask_def guarded_tx_def update_nothing terminal_mem Let_def
      case_prod_unfold split: option.splits)

definition event_applies :: "accepted_event \<Rightarrow> task_row \<Rightarrow> bool" where
  "event_applies ae r \<longleftrightarrow> tk_id r = tk_id (ae_task ae) \<and>
     (case eb_seq (ae_body ae) of None \<Rightarrow> True | Some seq \<Rightarrow> tk_lastEventSeq r < seq) \<and>
     \<not> isTerminalStatus (tk_status r)"

lemma commit_tx:
  assumes "event_occurredAt env now (ae_body ae) = Some o'" "ce_uuid env (eb_eventId (ae_body ae))"
    "ae_kind ae \<noteq> EvBackendNotify"
  shows "fst (event_commit env now ae db) =
     guarded_tx (event_applies ae) (event_patch env now o' ae)
       (event_row now o' ae (eb_seq (ae_body ae))) db"
  using assms
  by (simp add: event_commit_def guarded_tx_def terminal_mem Let_def event_applies_def [abs_def]
      case_prod_unfold split: option.splits)

text \<open>The four outcomes of a commit.\<close>

lemma commit_cases [case_names refused notified applied]:
  obtains "event_commit env now ae db = (db, False)"
  | o' where "event_commit env now ae db =
       (effect (\<lambda>r. tk_id r = tk_id (ae_task ae) \<and> \<not> isTerminalStatus (tk_status r))
          (\<lambda>r. r\<lparr>tk_lastEventAt := Some o', tk_updatedAt := now\<rparr>) [event_row now o' ae None] db, True)"
      "fresh_event (event_row now o' ae None) db" "ae_kind ae = EvBackendNotify"
  | o' where "event_commit env now ae db =
       (effect (event_applies ae) (event_patch env now o' ae)
          [event_row now o' ae (eb_seq (ae_body ae))] db, True)"
      "fresh_event (event_row now o' ae (eb_seq (ae_body ae))) db" "ae_kind ae \<noteq> EvBackendNotify"
      "\<exists>r \<in> set (td_tasks db). event_applies ae r"
      "event_occurredAt env now (ae_body ae) = Some o'"
proof (cases "event_occurredAt env now (ae_body ae)")
  case None
  then show thesis by (intro that(1)) (simp add: event_commit_def)
next
  case o': (Some o')
  show thesis
  proof (cases "ce_uuid env (eb_eventId (ae_body ae))")
    case False
    with o' show thesis by (intro that(1)) (simp add: event_commit_def)
  next
    case u: True
    show thesis
    proof (cases "ae_kind ae = EvBackendNotify")
      case True
      show thesis
      proof (cases "insert_event (event_row now o' ae None) db")
        case None
        with o' u True show thesis by (intro that(1)) (simp add: event_commit_def)
      next
        case (Some db1)
        from insert_event_Some [OF Some] have "db1 = db\<lparr>td_events := td_events db @ [event_row now o' ae None]\<rparr>"
          "fresh_event (event_row now o' ae None) db" by (auto simp: fresh_event_def)
        with o' u True Some show thesis
          by (intro that(2) [of o'])
             (simp_all add: event_commit_def terminal_mem effect_def update_where_def)
      qed
    next
      case k: False
      let ?p = "event_applies ae" and ?f = "event_patch env now o' ae"
      let ?e = "event_row now o' ae (eb_seq (ae_body ae))"
      have c: "event_commit env now ae db =
          (if filter ?p (td_tasks db) = [] then (db, False)
           else case insert_event ?e (fst (update_where ?p ?f db)) of None \<Rightarrow> (db, False) | Some d \<Rightarrow> (d, True))"
        using o' u k by (simp add: event_commit_def terminal_mem Let_def event_applies_def [abs_def]
            case_prod_unfold)
      show thesis
      proof (cases "filter ?p (td_tasks db) = [] \<or> insert_event ?e (fst (update_where ?p ?f db)) = None")
        case True
        with c show thesis by (intro that(1)) auto
      next
        case False
        then obtain d where d: "insert_event ?e (fst (update_where ?p ?f db)) = Some d" by auto
        from False have "\<exists>r \<in> set (td_tasks db). ?p r" by (auto simp: filter_empty_conv)
        with c d False insert_after_update [OF d event_patch_id] k o' show thesis
          by (intro that(3) [of o']) auto
      qed
    qed
  qed
qed

section \<open>Settled tasks\<close>

text \<open>What the end of a task fixes.\<close>

definition outcome ::
    "task_row \<Rightarrow> task_status \<times> int option \<times> int option \<times> json option \<times> json option \<times> string option \<times>
      string option" where
  "outcome r = (tk_status r, tk_completedAt r, tk_exitCode r, tk_output r, tk_artifacts r,
     tk_outputSummary r, tk_error r)"

definition settled_as :: "string \<Rightarrow> task_row \<Rightarrow> task_db \<Rightarrow> bool" where
  "settled_as t r0 db \<longleftrightarrow>
     (\<exists>r. getById t db = Some r \<and> isTerminalStatus (tk_status r) \<and> outcome r = outcome r0)"

text \<open>A launch update is acceptable when it does not meet a task that has ended.\<close>

fun launch_ok :: "task_op \<Rightarrow> task_db \<Rightarrow> bool" where
  "launch_ok (OpLaunch now t rd) db \<longleftrightarrow>
     (case getById t db of None \<Rightarrow> True | Some r \<Rightarrow> \<not> isTerminalStatus (tk_status r))"
| "launch_ok _ db \<longleftrightarrow> True"

lemma settled_effect:
  assumes "settled_as t r0 db" "\<And>r. tk_id (f r) = tk_id r"
    and "\<And>r. p r \<Longrightarrow> isTerminalStatus (tk_status r) \<Longrightarrow>
          isTerminalStatus (tk_status (f r)) \<and> outcome (f r) = outcome r"
  shows "settled_as t r0 (effect p f es db)"
proof -
  obtain r where r: "getById t db = Some r" "isTerminalStatus (tk_status r)" "outcome r = outcome r0"
    using assms(1) by (auto simp: settled_as_def)
  have "getById t (effect p f es db) = Some (if p r then f r else r)"
    by (simp add: getById_effect assms(2) r(1))
  with r assms(3) show ?thesis by (auto simp: settled_as_def)
qed

lemma settled_guarded:
  assumes "settled_as t r0 db" "\<And>r. tk_id (f r) = tk_id r" "\<And>r. p r \<Longrightarrow> \<not> isTerminalStatus (tk_status r)"
  shows "settled_as t r0 (guarded_tx p f e db)"
  by (rule guarded_tx_cases [OF assms(2), where p = p and e = e and db = db])
     (use assms settled_effect [of t r0 db f p "[e]"] in auto)

lemma settled_update:
  assumes "settled_as t r0 db" "\<And>r. tk_id (f r) = tk_id r"
    and "\<And>r. p r \<Longrightarrow> isTerminalStatus (tk_status r) \<Longrightarrow>
          isTerminalStatus (tk_status (f r)) \<and> outcome (f r) = outcome r"
  shows "settled_as t r0 (fst (update_where p f db))"
  using settled_effect [OF assms, where es = "[]"] by (simp add: effect_nothing)

lemma settled_events:
  "settled_as t r0 (db\<lparr>td_events := es\<rparr>) = settled_as t r0 db"
  by (simp add: settled_as_def)

lemma settled_create:
  assumes "settled_as t r0 db" "createTask now uuid row payload db = Some db'"
  shows "settled_as t r0 db'"
proof -
  obtain r where r: "getById t db = Some r" using assms(1) by (auto simp: settled_as_def)
  have "find_first P (xs @ ys) = (case find_first P xs of None \<Rightarrow> find_first P ys | Some x \<Rightarrow> Some x)"
    for P and xs ys :: "task_row list" by (induction xs) auto
  then have "getById t (db\<lparr>td_tasks := td_tasks db @ [row]\<rparr>) = Some r"
    using r by (simp add: getById_def)
  moreover have "\<exists>es. db' = db\<lparr>td_tasks := td_tasks db @ [row], td_events := es\<rparr>"
    using create_cases [OF assms(2)] by metis
  ultimately show ?thesis using assms(1) r by (auto simp: settled_as_def getById_def)
qed

lemma settled_launch:
  assumes "settled_as t r0 db" "launch_ok (OpLaunch now u rd) db"
  shows "settled_as t r0 (updateTask u (launch_patch now rd) db)"
proof (cases "u = t")
  case True
  with assms show ?thesis by (auto simp: settled_as_def)
next
  case False
  obtain r where r: "getById t db = Some r" "isTerminalStatus (tk_status r)" "outcome r = outcome r0"
    using assms(1) by (auto simp: settled_as_def)
  have "tk_id r = t" using getById_Some [OF r(1)] by simp
  with False r show ?thesis
    unfolding settled_as_def updateTask_def by (simp add: getById_update)
qed

lemma settled_step:
  assumes s: "settled_as t r0 db" and ok: "launch_ok op db"
  shows "settled_as t r0 (task_exec env op db)"
proof (cases op)
  case (OpCreateTask now uuid row payload)
  with s settled_create [OF s] show ?thesis
    by (cases "createTask now uuid row payload db") auto
next
  case (OpLaunch now u rd)
  with s ok settled_launch show ?thesis by simp
next
  case (OpAppendEvent now uuid u source kind payload)
  show ?thesis unfolding OpAppendEvent
    by (rule append_cases [of env now uuid u source kind payload db])
       (use s settled_effect [OF s, of id "\<lambda>_. False"] in auto)
next
  case (OpProgress now uuid u source kind seq payload occurred status)
  then show ?thesis unfolding OpProgress progress_tx
    by (intro settled_guarded [OF s]) (auto simp: progress_patch_def)
next
  case (OpComplete now uuid p)
  then show ?thesis unfolding OpComplete complete_tx by (intro settled_guarded [OF s]) auto
next
  case (OpHeartbeat now u)
  then show ?thesis unfolding OpHeartbeat task_exec.simps heartbeat_def
    by (intro settled_update [OF s]) (auto simp: outcome_def)
next
  case (OpTouchProbe now u)
  then show ?thesis unfolding OpTouchProbe task_exec.simps touchProbe_def
    by (intro settled_update [OF s]) (auto simp: outcome_def)
next
  case (OpMarkNotified now u st)
  then show ?thesis unfolding OpMarkNotified task_exec.simps markNotified_def
    by (intro settled_update [OF s]) (auto simp: outcome_def)
next
  case (OpCallback now ae)
  show ?thesis unfolding OpCallback task_exec.simps
  proof (rule commit_cases [of env now ae db])
    fix o'
    assume "event_commit env now ae db =
       (effect (\<lambda>r. tk_id r = tk_id (ae_task ae) \<and> \<not> isTerminalStatus (tk_status r))
          (\<lambda>r. r\<lparr>tk_lastEventAt := Some o', tk_updatedAt := now\<rparr>) [event_row now o' ae None] db, True)"
    then show "settled_as t r0 (fst (event_commit env now ae db))"
      by simp (rule settled_effect [OF s]; simp)
  next
    fix o'
    assume "event_commit env now ae db = (effect (event_applies ae) (event_patch env now o' ae)
          [event_row now o' ae (eb_seq (ae_body ae))] db, True)"
    then show "settled_as t r0 (fst (event_commit env now ae db))"
      by simp (rule settled_effect [OF s]; simp add: event_applies_def)
  qed (use s in simp)
qed

interpretation settled_tasks: guarded_run "task_exec env" launch_ok "settled_as t r0" for env t r0
  by unfold_locales (rule settled_step)

section \<open>Events\<close>

text \<open>The numbers of the numbered events of a task, oldest first.\<close>

definition event_seqs :: "string \<Rightarrow> task_db \<Rightarrow> int list" where
  "event_seqs t db = List.map_filter te_seq (filter (\<lambda>e. te_taskId e = t) (td_events db))"

definition event_key :: "task_event \<Rightarrow> string \<times> string" where
  "event_key e = (te_taskId e, te_eventId e)"

definition task_inv :: "task_db \<Rightarrow> bool" where
  "task_inv db \<longleftrightarrow> distinct (map tk_id (td_tasks db)) \<and> distinct (map event_key (td_events db)) \<and>
     (\<forall>e \<in> set (td_events db). te_taskId e \<in> tk_id ` set (td_tasks db)) \<and>
     (\<forall>t. sorted_wrt (<) (event_seqs t db)) \<and>
     (\<forall>r \<in> set (td_tasks db). \<forall>n \<in> set (event_seqs (tk_id r) db). n \<le> tk_lastEventSeq r)"

text \<open>
  An unnumbered event that is no notification writes the number it has read: acceptable when no numbered
  event came in between.
\<close>

fun seq_ok :: "task_op \<Rightarrow> task_db \<Rightarrow> bool" where
  "seq_ok (OpCallback now ae) db \<longleftrightarrow>
     (eb_seq (ae_body ae) = None \<and> ae_kind ae \<noteq> EvBackendNotify \<longrightarrow>
       (\<forall>r \<in> set (td_tasks db). tk_id r = tk_id (ae_task ae) \<longrightarrow>
          tk_lastEventSeq r \<le> tk_lastEventSeq (ae_task ae)))"
| "seq_ok _ db \<longleftrightarrow> True"

lemma event_seqs_effect:
  "event_seqs t (effect p f [e] db) =
     event_seqs t db @ (if te_taskId e = t then (case te_seq e of None \<Rightarrow> [] | Some n \<Rightarrow> [n]) else [])"
  by (simp add: event_seqs_def List.map_filter_def split: option.splits)

lemma map_ids: "(\<And>r. tk_id (f r) = tk_id r) \<Longrightarrow>
    map tk_id (map (\<lambda>r. if p r then f r else r) rs) = map tk_id rs"
  by (induction rs) auto

lemma fresh_key: "fresh_event e db \<Longrightarrow> event_key e \<notin> set (map event_key (td_events db))"
  by (auto simp: fresh_event_def event_key_def)

lemma fresh_task: "fresh_event e db \<Longrightarrow> te_taskId e \<in> tk_id ` set (td_tasks db)"
  by (force simp: fresh_event_def)

lemma task_inv_effect:
  assumes inv: "task_inv db" and f: "\<And>r. tk_id (f r) = tk_id r" and fresh: "fresh_event e db"
    and up: "\<And>r. r \<in> set (td_tasks db) \<Longrightarrow> p r \<Longrightarrow> tk_lastEventSeq r \<le> tk_lastEventSeq (f r)"
    and num: "\<And>n. te_seq e = Some n \<Longrightarrow>
        \<exists>r \<in> set (td_tasks db). tk_id r = te_taskId e \<and> p r \<and> tk_lastEventSeq r < n \<and> tk_lastEventSeq (f r) = n"
  shows "task_inv (effect p f [e] db)"
  unfolding task_inv_def
proof (intro conjI allI ballI)
  note I = inv [unfolded task_inv_def]
  let ?g = "\<lambda>r. if p r then f r else r"
  show "distinct (map tk_id (td_tasks (effect p f [e] db)))"
    unfolding effect_sel map_ids [OF f] using I by blast
  show "distinct (map event_key (td_events (effect p f [e] db)))"
    using I fresh_key [OF fresh] by auto
  have ids: "tk_id ` set (td_tasks (effect p f [e] db)) = tk_id ` set (td_tasks db)"
    unfolding effect_sel set_map [symmetric] map_ids [OF f] ..
  show "te_taskId x \<in> tk_id ` set (td_tasks (effect p f [e] db))"
    if "x \<in> set (td_events (effect p f [e] db))" for x
    unfolding ids using that I fresh_task [OF fresh] by auto
  have own: "r' = r" if "r \<in> set (td_tasks db)" "r' \<in> set (td_tasks db)" "tk_id r' = tk_id r" for r r'
    using I that by (auto simp: distinct_map dest: inj_onD)
  show "sorted_wrt (<) (event_seqs t (effect p f [e] db))" for t
  proof (cases "te_taskId e = t \<and> te_seq e \<noteq> None")
    case True
    then obtain n where n: "te_seq e = Some n" by auto
    from num [OF n] obtain r where r: "r \<in> set (td_tasks db)" "tk_id r = t" "tk_lastEventSeq r < n"
      using True by auto
    with I have "\<forall>m \<in> set (event_seqs t db). m < n" by fastforce
    with True n I show ?thesis by (simp add: event_seqs_effect sorted_wrt_append)
  next
    case False
    with I show ?thesis by (auto simp: event_seqs_effect)
  qed
  fix x n assume x: "x \<in> set (td_tasks (effect p f [e] db))" and n: "n \<in> set (event_seqs (tk_id x) (effect p f [e] db))"
  from x obtain r where r: "r \<in> set (td_tasks db)" "x = ?g r" by auto
  have id: "tk_id x = tk_id r" using r(2) f by simp
  have ge: "tk_lastEventSeq r \<le> tk_lastEventSeq x" using r up by auto
  show "n \<le> tk_lastEventSeq x"
  proof (cases "n \<in> set (event_seqs (tk_id r) db)")
    case True
    with I r(1) ge show ?thesis by (meson order_trans)
  next
    case False
    have "n \<in> set (event_seqs (tk_id r) (effect p f [e] db))" using n unfolding id .
    with False have "te_taskId e = tk_id r \<and> te_seq e = Some n"
      unfolding event_seqs_effect by (cases "te_taskId e = tk_id r"; cases "te_seq e") simp_all
    then have e: "te_taskId e = tk_id r" "te_seq e = Some n" by simp_all
    from num [OF e(2)] obtain r' where r': "r' \<in> set (td_tasks db)" "tk_id r' = tk_id r" "p r'"
      "tk_lastEventSeq (f r') = n" using e(1) by auto
    with own [OF r(1) r'(1)] r(2) show ?thesis by simp
  qed
qed

lemma task_inv_tasks:
  assumes inv: "task_inv db" and f: "\<And>r. tk_id (f r) = tk_id r"
    and up: "\<And>r. r \<in> set (td_tasks db) \<Longrightarrow> p r \<Longrightarrow> tk_lastEventSeq r \<le> tk_lastEventSeq (f r)"
  shows "task_inv (fst (update_where p f db))"
  unfolding task_inv_def
proof (intro conjI allI ballI)
  note I = inv [unfolded task_inv_def]
  have seqs: "event_seqs t (fst (update_where p f db)) = event_seqs t db" for t by (simp add: event_seqs_def)
  show "distinct (map tk_id (td_tasks (fst (update_where p f db))))"
    unfolding update_where_sel map_ids [OF f] using I by blast
  show "distinct (map event_key (td_events (fst (update_where p f db))))" using I by simp
  show "te_taskId x \<in> tk_id ` set (td_tasks (fst (update_where p f db)))"
    if "x \<in> set (td_events (fst (update_where p f db)))" for x
  proof -
    have "te_taskId x \<in> set (map tk_id (td_tasks db))" using that I by simp
    then show ?thesis unfolding update_where_sel set_map [symmetric] map_ids [OF f] .
  qed
  show "sorted_wrt (<) (event_seqs t (fst (update_where p f db)))" for t unfolding seqs using I by blast
  fix x n assume x: "x \<in> set (td_tasks (fst (update_where p f db)))"
    and n: "n \<in> set (event_seqs (tk_id x) (fst (update_where p f db)))"
  from x obtain r where r: "r \<in> set (td_tasks db)" "x = (if p r then f r else r)" by auto
  then have "tk_id x = tk_id r" "tk_lastEventSeq r \<le> tk_lastEventSeq x" using f up by auto
  with n r(1) I show "n \<le> tk_lastEventSeq x" unfolding seqs by (metis order_trans)
qed

lemma task_inv_create:
  assumes inv: "task_inv db" and c: "createTask now uuid row payload db = Some db'"
  shows "task_inv db'"
  unfolding task_inv_def
proof (intro conjI allI ballI)
  note I = inv [unfolded task_inv_def]
  from create_cases [OF c] obtain e where new: "tk_id row \<notin> tk_id ` set (td_tasks db)"
    and db': "db' = db\<lparr>td_tasks := td_tasks db @ [row], td_events := td_events db @ [e]\<rparr>"
    and e: "te_taskId e = tk_id row" "te_seq e = None" by metis
  have none: "te_taskId x \<noteq> tk_id row" if "x \<in> set (td_events db)" for x using I new that by metis
  have seqs: "event_seqs t db' = event_seqs t db" for t
    by (simp add: event_seqs_def db' e List.map_filter_def)
  show "distinct (map tk_id (td_tasks db'))" using I new by (simp add: db')
  have "event_key e \<notin> event_key ` set (td_events db)" using none e by (force simp: event_key_def)
  then show "distinct (map event_key (td_events db'))" using I by (simp add: db')
  show "te_taskId x \<in> tk_id ` set (td_tasks db')" if "x \<in> set (td_events db')" for x
    using that I e by (auto simp: db')
  show "sorted_wrt (<) (event_seqs t db')" for t unfolding seqs using I by blast
  fix r n assume r: "r \<in> set (td_tasks db')" and n: "n \<in> set (event_seqs (tk_id r) db')"
  have "event_seqs (tk_id row) db = []"
    using none by (simp add: event_seqs_def filter_empty_conv List.map_filter_def)
  with r n I show "n \<le> tk_lastEventSeq r" unfolding seqs by (auto simp: db')
qed

lemma event_patch_seq [simp]:
  "tk_lastEventSeq (event_patch env now o' ae r) =
     default_to (eb_seq (ae_body ae)) (tk_lastEventSeq (ae_task ae))"
  by (simp add: event_patch_def finish_patch_def Let_def split: option.splits)

lemma task_inv_guarded:
  assumes inv: "task_inv db" and f: "\<And>r. tk_id (f r) = tk_id r"
    and up: "\<And>r. r \<in> set (td_tasks db) \<Longrightarrow> p r \<Longrightarrow> tk_lastEventSeq r \<le> tk_lastEventSeq (f r)"
    and num: "\<And>n r. te_seq e = Some n \<Longrightarrow> p r \<Longrightarrow>
        tk_id r = te_taskId e \<and> tk_lastEventSeq r < n \<and> tk_lastEventSeq (f r) = n"
  shows "task_inv (guarded_tx p f e db)"
proof (rule guarded_tx_cases [OF f, where p = p and e = e and db = db])
  assume "guarded_tx p f e db = effect p f [e] db" "fresh_event e db" "\<exists>r \<in> set (td_tasks db). p r"
  then show ?thesis using task_inv_effect [OF inv f _ up, of e] num by auto
qed (use inv in simp)

lemma task_inv_step:
  assumes inv: "task_inv db" and ok: "seq_ok op db"
  shows "task_inv (task_exec env op db)"
proof (cases op)
  case (OpCreateTask now uuid row payload)
  with inv task_inv_create [OF inv] show ?thesis
    by (cases "createTask now uuid row payload db") auto
next
  case (OpLaunch now u rd)
  then show ?thesis unfolding OpLaunch task_exec.simps updateTask_def
    by (intro task_inv_tasks [OF inv]) (auto simp: launch_patch_def)
next
  case (OpAppendEvent now uuid u source kind payload)
  show ?thesis unfolding OpAppendEvent
  proof (rule append_cases [of env now uuid u source kind payload db])
    fix e assume e: "task_exec env (OpAppendEvent now uuid u source kind payload) db =
        effect (\<lambda>_. False) id [e] db" "fresh_event e db" "te_seq e = None"
    show "task_inv (task_exec env (OpAppendEvent now uuid u source kind payload) db)"
      unfolding e(1) by (rule task_inv_effect [OF inv _ e(2)]) (auto simp: e(3))
  qed (use inv in metis)
next
  case (OpProgress now uuid u source kind seq payload occurred status)
  then show ?thesis unfolding OpProgress progress_tx
    by (intro task_inv_guarded [OF inv]) (auto simp: progress_patch_def)
next
  case (OpComplete now uuid p)
  then show ?thesis unfolding OpComplete complete_tx
    by (intro task_inv_guarded [OF inv]) (auto simp: completion_patch_def)
next
  case (OpHeartbeat now u)
  then show ?thesis unfolding OpHeartbeat task_exec.simps heartbeat_def
    by (intro task_inv_tasks [OF inv]) auto
next
  case (OpTouchProbe now u)
  then show ?thesis unfolding OpTouchProbe task_exec.simps touchProbe_def
    by (intro task_inv_tasks [OF inv]) auto
next
  case (OpMarkNotified now u st)
  then show ?thesis unfolding OpMarkNotified task_exec.simps markNotified_def
    by (intro task_inv_tasks [OF inv]) auto
next
  case (OpCallback now ae)
  show ?thesis unfolding OpCallback task_exec.simps
  proof (rule commit_cases [of env now ae db])
    fix o'
    assume "event_commit env now ae db =
       (effect (\<lambda>r. tk_id r = tk_id (ae_task ae) \<and> \<not> isTerminalStatus (tk_status r))
          (\<lambda>r. r\<lparr>tk_lastEventAt := Some o', tk_updatedAt := now\<rparr>) [event_row now o' ae None] db, True)"
      "fresh_event (event_row now o' ae None) db"
    then show "task_inv (fst (event_commit env now ae db))"
      by simp (rule task_inv_effect [OF inv]; simp add: event_row_def)
  next
    fix o'
    let ?n = "eb_seq (ae_body ae)"
    assume c: "event_commit env now ae db = (effect (event_applies ae) (event_patch env now o' ae)
          [event_row now o' ae ?n] db, True)" "fresh_event (event_row now o' ae ?n) db"
      "ae_kind ae \<noteq> EvBackendNotify" "\<exists>r \<in> set (td_tasks db). event_applies ae r"
    have "task_inv (effect (event_applies ae) (event_patch env now o' ae) [event_row now o' ae ?n] db)"
    proof (rule task_inv_effect [OF inv event_patch_id c(2)])
      fix r assume "r \<in> set (td_tasks db)" "event_applies ae r"
      with ok OpCallback c(3) show "tk_lastEventSeq r \<le> tk_lastEventSeq (event_patch env now o' ae r)"
        by (cases ?n) (auto simp: event_applies_def)
    qed (use c(4) in \<open>auto simp: event_row_def event_applies_def\<close>)
    with c(1) show "task_inv (fst (event_commit env now ae db))" by simp
  qed (use inv in simp)
qed

interpretation numbered_tasks: guarded_run "task_exec env" seq_ok task_inv for env
  by unfold_locales (rule task_inv_step)

lemma task_inv_empty: "task_inv empty_task_db"
  by (simp add: task_inv_def empty_task_db_def event_seqs_def List.map_filter_def)

section \<open>Events are kept\<close>

lemma guarded_events: "set (td_events db) \<subseteq> set (td_events (guarded_tx p f e db))"
proof (cases "filter p (td_tasks db) = []")
  case False
  then show ?thesis
    using insert_event_Some [of e "fst (update_where p f db)"]
    by (cases "insert_event e (fst (update_where p f db))") (auto simp: guarded_tx_def)
qed (simp add: guarded_tx_def)

lemma events_kept: "set (td_events db) \<subseteq> set (td_events (task_exec env op db))"
proof (cases op)
  case (OpCreateTask now uuid row payload)
  show ?thesis
  proof (cases "createTask now uuid row payload db")
    case (Some d)
    then have "set (td_events db) \<subseteq> set (td_events d)" by (rule create_cases) auto
    with Some OpCreateTask show ?thesis by simp
  qed (simp add: OpCreateTask)
next
  case (OpAppendEvent now uuid u source kind payload)
  show ?thesis unfolding OpAppendEvent
    by (rule append_cases [of env now uuid u source kind payload db]) auto
next
  case (OpProgress now uuid u source kind seq payload occurred status)
  then show ?thesis unfolding OpProgress progress_tx by (intro guarded_events)
next
  case (OpComplete now uuid p)
  then show ?thesis unfolding OpComplete complete_tx by (intro guarded_events)
next
  case (OpCallback now ae)
  show ?thesis unfolding OpCallback task_exec.simps by (rule commit_cases [of env now ae db]) auto
qed (simp_all add: updateTask_def heartbeat_def touchProbe_def markNotified_def)

interpretation kept_events: guarded_run "task_exec env" "\<lambda>_ _. True" "\<lambda>db. e \<in> set (td_events db)" for env e
  by unfold_locales (use events_kept in blast)

lemma ops_ok_True: "ops_ok exec (\<lambda>_ _. True) ops s"
  by (induction ops arbitrary: s) auto

lemma events_kept_run: "e \<in> set (td_events db) \<Longrightarrow> e \<in> set (td_events (run_ops (task_exec env) ops db))"
  by (rule kept_events.run) (auto simp: ops_ok_True)

end
