(* ===== verification/TaskProps.thy ===== *)
theory TaskProps
  imports TaskInv
begin

text \<open>
  The properties of the task store and of the callback endpoint: settled tasks, the numbering and
  single application of events, authentication, and the run of the harness in the sandbox.
\<close>

section \<open>Signatures\<close>

lemma of_hex_digit: "n < 16 \<Longrightarrow> (of_char (hex_digit n) :: nat) = (if n < 10 then 48 + n else 87 + n)"
  by (simp add: hex_digit_def of_char_of)

lemma hex_digit_facts:
  assumes "n < 16"
  shows "hex_value (hex_digit n) = Some n" "\<not> is_ws (hex_digit n)"
    "hex_digit n \<notin> {CHR ''-'', CHR ''+'', CHR ''x'', CHR ''X''}"
proof -
  note d = of_hex_digit [OF assms]
  show "hex_value (hex_digit n) = Some n" using assms by (simp add: hex_value_def d)
  show "\<not> is_ws (hex_digit n)" using assms by (auto simp: is_ws_def d)
  have "(of_char (hex_digit n) :: nat) \<notin> {45, 43, 120, 88}" using assms by (auto simp: d)
  then show "hex_digit n \<notin> {CHR ''-'', CHR ''+'', CHR ''x'', CHR ''X''}" by auto
qed

lemma parse_byte_hex: "to_byte (parse_hex (byte_hex b)) = b"
proof -
  let ?h = "unat b div 16" and ?l = "unat b mod 16"
  have "unat b < 256" using unsigned_less [of b] by simp
  then have h: "?h < 16" and l: "?l < 16" by auto
  note H = hex_digit_facts [OF h] and L = hex_digit_facts [OF l]
  have strip: "strip_0x [hex_digit ?h, hex_digit ?l] = [hex_digit ?h, hex_digit ?l]"
    using L(3) by auto
  have "parse_hex (byte_hex b) = Some (int (16 * ?h + ?l))"
    using H L by (simp add: parse_hex_def byte_hex_def trim_start_def Let_def strip)
  moreover have "16 * ?h + ?l = unat b" by simp
  ultimately show ?thesis by (simp add: to_byte_def)
qed

lemma length_bufToHex [simp]: "length (bufToHex bs) = 2 * length bs"
  by (induction bs) (auto simp: bufToHex_def byte_hex_def)

lemma bufToHex_Cons: "bufToHex (b # bs) = byte_hex b @ bufToHex bs"
  by (simp add: bufToHex_def)

lemma hexToBytes_bufToHex [simp]: "hexToBytes (bufToHex bs) = bs"
proof (induction bs)
  case (Cons b bs)
  obtain x y where "byte_hex b = [x, y]" by (simp add: byte_hex_def)
  with Cons parse_byte_hex [of b] show ?case by (simp add: bufToHex_Cons)
qed (simp add: bufToHex_def)

lemma length_hexToBytes: "length s = 2 * n \<Longrightarrow> length (hexToBytes s) = n"
proof (induction n arbitrary: s)
  case (Suc n)
  then obtain a b t where "s = a # b # t" "length t = 2 * n"
    by (cases s; cases "tl s") auto
  with Suc.IH show ?case by simp
qed simp

lemma timingSafeEqualHex_iff:
  "timingSafeEqualHex (bufToHex bs) s \<longleftrightarrow> length s = 2 * length bs \<and> hexToBytes s = bs"
proof (cases "length s = 2 * length bs")
  case True
  with length_hexToBytes [OF True] show ?thesis
    by (auto simp: timingSafeEqualHex_def xor_diff_zero)
qed (simp add: timingSafeEqualHex_def)

lemma hex_alias: "timingSafeEqualHex (bufToHex [0]) ''zz''"
  by code_simp

text \<open>
  The signature check is exact on hexadecimal digests: with the \<open>sha256=\<close> prefix, the digest of
  bytes is accepted if and only if the bytes are the MAC of the timestamp, a dot and the body under
  the bearer's secret.
\<close>

theorem callback_signature_exact:
  "verifyHmacSignature env rawBody secret timestampMs (''sha256='' @ bufToHex mac) \<longleftrightarrow>
     mac = ce_hmac env secret (timestampMs @ ''.'' @ rawBody)"
  by (auto simp: verifyHmacSignature_def signPayload_def timingSafeEqualHex_iff starts_with_def)

lemma callback_mac_ok:
  "verifyHmacSignature env rawBody secret timestampMs
     (''sha256='' @ bufToHex (ce_hmac env secret (timestampMs @ ''.'' @ rawBody)))"
  by (simp add: verifyHmacSignature_def signPayload_def timingSafeEqualHex_iff starts_with_def)

section \<open>Settled tasks\<close>

text \<open>What an accepted request has passed.\<close>

lemma event_check_Inr:
  assumes "event_check env now rq db = Inr ae"
  obtains cb ts sg auth hash where "rq_callbackId rq = Some cb" "rq_timestamp rq = Some ts"
    "rq_signature rq = Some sg" "rq_authorization rq = Some auth" "starts_with auth ''Bearer ''"
    "find_first (\<lambda>r. tk_callbackId r = Some cb) (td_tasks db) = Some (ae_task ae)"
    "\<not> isTerminalStatus (tk_status (ae_task ae))" "tk_callbackSecretHash (ae_task ae) = Some hash"
    "hash = hashSecret env (js_trim (drop 7 auth))" "isTimestampValid now (ce_number env ts)"
    "verifyHmacSignature env (rq_body rq) (js_trim (drop 7 auth)) ts sg"
    "ce_parse env (rq_body rq) = Some (ae_body ae)" "eb_taskId (ae_body ae) = tk_id (ae_task ae)"
    "\<forall>n. eb_seq (ae_body ae) = Some n \<longrightarrow> tk_lastEventSeq (ae_task ae) < n"
    "normalizeEventKind (eb_eventType (ae_body ae)) = Some (ae_kind ae)"
proof -
  obtain cb where 1: "truthy_str (rq_callbackId rq) = Some cb"
    using assms by (cases "truthy_str (rq_callbackId rq)") (simp_all add: event_check_def)
  obtain ts where 2: "truthy_str (rq_timestamp rq) = Some ts"
    using assms 1 by (cases "truthy_str (rq_timestamp rq)") (simp_all add: event_check_def)
  obtain sg where 3: "truthy_str (rq_signature rq) = Some sg"
    using assms 1 2 by (cases "truthy_str (rq_signature rq)") (simp_all add: event_check_def)
  obtain auth where 4: "rq_authorization rq = Some auth"
    using assms 1 2 3 by (cases "rq_authorization rq") (simp_all add: event_check_def)
  note E = assms [unfolded event_check_def 1 2 3 4 option.case prod.case]
  have c1: "starts_with auth ''Bearer ''" by (rule ccontr) (use E in simp)
  have c2: "ce_uuid env cb" by (rule ccontr) (use E c1 in simp)
  note E = E [unfolded if_not_P [OF not_not [THEN iffD2, OF c1]] if_not_P [OF not_not [THEN iffD2, OF c2]]]
  obtain task where 5: "find_first (\<lambda>r. tk_callbackId r = Some cb) (td_tasks db) = Some task"
    using E by (cases "find_first (\<lambda>r. tk_callbackId r = Some cb) (td_tasks db)") simp_all
  note E = E [unfolded 5 option.case]
  have c3: "\<not> isTerminalStatus (tk_status task)" by (rule notI) (use E in simp)
  note E = E [unfolded if_not_P [OF c3]]
  obtain hash where 6: "truthy_str (tk_callbackSecretHash task) = Some hash"
    using E by (cases "truthy_str (tk_callbackSecretHash task)") simp_all
  note E = E [unfolded 6 option.case Let_def]
  have c4: "hash = hashSecret env (js_trim (drop 7 auth))" by (rule ccontr) (use E in simp)
  have n4: "\<not> hashSecret env (js_trim (drop 7 auth)) \<noteq> hash" using c4 by simp
  note E = E [unfolded if_not_P [OF n4]]
  have c5: "isTimestampValid now (ce_number env ts)" by (rule ccontr) (use E in simp)
  note E = E [unfolded if_not_P [OF not_not [THEN iffD2, OF c5]]]
  have c6: "verifyHmacSignature env (rq_body rq) (js_trim (drop 7 auth)) ts sg"
    by (rule ccontr) (use E in simp)
  note E = E [unfolded if_not_P [OF not_not [THEN iffD2, OF c6]]]
  obtain body where 7: "ce_parse env (rq_body rq) = Some body"
    using E by (cases "ce_parse env (rq_body rq)") simp_all
  note E = E [unfolded 7 option.case]
  have c7: "eb_taskId body = tk_id task" by (rule ccontr) (use E in simp)
  note E = E [unfolded if_not_P [OF not_not [THEN iffD2, OF c7]]]
  have seq: "\<not> (case eb_seq body of None \<Rightarrow> False | Some seq \<Rightarrow> seq \<le> tk_lastEventSeq task)"
    by (rule notI) (use E in simp)
  note E = E [unfolded if_not_P [OF seq]]
  obtain kind where 8: "normalizeEventKind (eb_eventType body) = Some kind"
    using E by (cases "normalizeEventKind (eb_eventType body)") simp_all
  have ae: "ae = \<lparr>ae_task = task, ae_body = body, ae_kind = kind\<rparr>" using E 8 by simp
  show thesis
  proof (rule that [of cb ts sg auth hash])
    show "\<forall>n. eb_seq (ae_body ae) = Some n \<longrightarrow> tk_lastEventSeq (ae_task ae) < n"
      using seq by (auto simp: ae)
  qed (use 1 2 3 4 5 6 7 8 c1 c3 c4 c5 c6 c7 in \<open>simp_all add: ae\<close>)
qed

text \<open>
  C6. A task that has ended stays as it ended: whatever the supervisor, the coordinator, the
  reconciliation and the callback endpoint do afterwards, in any interleaving, its status, completion
  time, exit code, output, artifacts, summary and error never change again, provided no launch update
  meets it after its end.
\<close>

theorem task_settled_for_good:
  assumes "getById t db = Some r" and "isTerminalStatus (tk_status r)"
    and "ops_ok (task_exec env) launch_ok ops db"
  shows "\<exists>r'. getById t (run_ops (task_exec env) ops db) = Some r' \<and> outcome r' = outcome r"
proof -
  have "settled_as t r db" using assms(1,2) by (auto simp: settled_as_def)
  then have "settled_as t r (run_ops (task_exec env) ops db)"
    by (rule settled_tasks.run [OF _ assms(3)])
  then show ?thesis by (auto simp: settled_as_def)
qed

text \<open>
  The launch update has no such care: it sets a task running that a callback has already ended, a
  transition the state machine forbids, and as the secret of an ended task is erased no callback for
  the task is ever accepted again, so the task stays running with its completion data until its time
  is out.
\<close>

theorem task_launch_revives:
  assumes "getById t db = Some r" and "isTerminalStatus (tk_status r)"
    and "tk_callbackSecretHash r = None" and "distinct (map tk_id (td_tasks db))"
  shows "\<not> isLegalTransition (tk_status r) Running \<and>
    (\<exists>r'. getById t (task_exec env (OpLaunch now t rd) db) = Some r' \<and> tk_status r' = Running \<and>
       tk_completedAt r' = tk_completedAt r \<and> tk_exitCode r' = tk_exitCode r) \<and>
    (\<forall>later rq ae. event_check env later rq (task_exec env (OpLaunch now t rd) db) = Inr ae \<longrightarrow>
       tk_id (ae_task ae) \<noteq> t)"
proof (intro conjI allI impI)
  let ?db = "task_exec env (OpLaunch now t rd) db"
  show "\<not> isLegalTransition (tk_status r) Running"
    using assms(2) by (auto simp: isLegalTransition_def)
  have id: "tk_id r = t" using getById_Some [OF assms(1)] by simp
  have g: "getById t ?db = Some (launch_patch now rd r)"
    using assms(1) id by (simp add: updateTask_def getById_update)
  then show "\<exists>r'. getById t ?db = Some r' \<and> tk_status r' = Running \<and>
       tk_completedAt r' = tk_completedAt r \<and> tk_exitCode r' = tk_exitCode r"
    by (simp add: launch_patch_def)
  fix later rq ae assume c: "event_check env later rq ?db = Inr ae"
  show "tk_id (ae_task ae) \<noteq> t"
  proof
    assume t: "tk_id (ae_task ae) = t"
    have m: "ae_task ae \<in> set (td_tasks ?db) \<and> tk_callbackSecretHash (ae_task ae) \<noteq> None"
    proof (rule event_check_Inr [OF c])
      fix cb hash
      assume f: "find_first (\<lambda>r. tk_callbackId r = Some cb) (td_tasks ?db) = Some (ae_task ae)"
        and h: "tk_callbackSecretHash (ae_task ae) = Some hash"
      show ?thesis using find_first_Some [OF f] h by blast
    qed
    have ids: "tk_id (launch_patch now rd x) = tk_id x" for x by simp
    have "distinct (map tk_id (td_tasks ?db))"
      unfolding task_exec.simps updateTask_def update_where_sel map_ids [OF ids] by (rule assms(4))
    then have "getById t ?db = Some (ae_task ae)" using m t getById_unique by blast
    with g have "launch_patch now rd r = ae_task ae" by simp
    moreover have "tk_callbackSecretHash (launch_patch now rd r) = None"
      using assms(3) by (simp add: launch_patch_def)
    ultimately show False using m by simp
  qed
qed

section \<open>Events\<close>

text \<open>
  C13. Callback events are applied in order: in every state reached from the empty store, whatever the
  interleaving, the numbers of the recorded events of a task strictly increase and none exceeds the
  number stored with the task, no event is recorded twice, and every event belongs to a task;
  unnumbered events must not overlap with a numbered one.
\<close>

theorem task_events_in_order:
  assumes "ops_ok (task_exec env) seq_ok ops empty_task_db"
    and "db = run_ops (task_exec env) ops empty_task_db"
  shows "sorted_wrt (<) (event_seqs t db) \<and> distinct (map event_key (td_events db)) \<and>
    (\<forall>e \<in> set (td_events db). \<exists>r. getById (te_taskId e) db = Some r \<and>
       (\<forall>n. te_seq e = Some n \<longrightarrow> n \<le> tk_lastEventSeq r))"
proof -
  have inv: "task_inv db" unfolding assms(2) by (rule numbered_tasks.run [OF task_inv_empty assms(1)])
  note I = inv [unfolded task_inv_def]
  have "\<exists>r. getById (te_taskId e) db = Some r \<and> (\<forall>n. te_seq e = Some n \<longrightarrow> n \<le> tk_lastEventSeq r)"
    if e: "e \<in> set (td_events db)" for e
  proof -
    from I e obtain r where r: "r \<in> set (td_tasks db)" "tk_id r = te_taskId e" by force
    have "getById (te_taskId e) db = Some r" using getById_unique [of db r] I r by simp
    moreover have "n \<in> set (event_seqs (tk_id r) db)" if "te_seq e = Some n" for n
      using e that r(2) by (force simp: event_seqs_def List.map_filter_def)
    ultimately show ?thesis using I r(1) by blast
  qed
  with I show ?thesis by blast
qed

text \<open>
  C12. A callback is applied at most once: after an event has been applied, no request that carries the
  same task and event identifier changes anything, at any later time and whatever happened in between.
\<close>

theorem callback_applied_once:
  assumes "event_commit env now ae db = (db1, True)"
    and "tk_id (ae_task again) = tk_id (ae_task ae)"
    and "eb_eventId (ae_body again) = eb_eventId (ae_body ae)"
  shows "event_commit env later again (run_ops (task_exec env) ops db1) =
           (run_ops (task_exec env) ops db1, False)"
proof -
  let ?d = "run_ops (task_exec env) ops db1"
  have "\<exists>e \<in> set (td_events db1). te_taskId e = tk_id (ae_task ae) \<and> te_eventId e = eb_eventId (ae_body ae)"
    by (rule commit_cases [of env now ae db]) (use assms(1) in \<open>auto simp: event_row_def\<close>)
  then obtain e where e: "e \<in> set (td_events ?d)" "te_taskId e = tk_id (ae_task again)"
    "te_eventId e = eb_eventId (ae_body again)" using events_kept_run assms(2,3) by metis
  then have stale: "\<not> fresh_event (event_row later o' again n) ?d" for o' n
    by (auto simp: fresh_event_def event_row_def)
  show ?thesis by (rule commit_cases [of env later again ?d]) (use stale in auto)
qed

section \<open>Authentication\<close>

text \<open>
  C11. Only an authenticated request changes the store: when the endpoint changed it, the callback
  identifier named a task that had not ended, the bearer hashed to the stored secret hash, the
  timestamp was at most five minutes off, the signature verified over timestamp and body, and the body
  named that task with an event number beyond the last one applied.
\<close>

theorem callback_authenticated:
  assumes "handleTaskEventPost env now rq db_read db = (db', traces, resp)" and "db' \<noteq> db"
  shows "\<exists>task auth timestamp signature body. task \<in> set (td_tasks db_read) \<and>
    rq_callbackId rq = tk_callbackId task \<and> \<not> isTerminalStatus (tk_status task) \<and>
    rq_authorization rq = Some auth \<and> starts_with auth ''Bearer '' \<and>
    tk_callbackSecretHash task = Some (hashSecret env (js_trim (drop 7 auth))) \<and>
    rq_timestamp rq = Some timestamp \<and>
    (\<exists>ts. ce_number env timestamp = Some ts \<and> \<bar>now - ts\<bar> \<le> 300000) \<and>
    rq_signature rq = Some signature \<and>
    verifyHmacSignature env (rq_body rq) (js_trim (drop 7 auth)) timestamp signature \<and>
    ce_parse env (rq_body rq) = Some body \<and> eb_taskId body = tk_id task \<and>
    (\<forall>n. eb_seq body = Some n \<longrightarrow> tk_lastEventSeq task < n)"
proof -
  from assms obtain ae where "event_check env now rq db_read = Inr ae"
    by (auto simp: handleTaskEventPost_def split: sum.splits)
  then show ?thesis
  proof (rule event_check_Inr)
    fix cb ts sg auth hash
    assume find: "find_first (\<lambda>r. tk_callbackId r = Some cb) (td_tasks db_read) = Some (ae_task ae)"
      and valid: "isTimestampValid now (ce_number env ts)" and cb: "rq_callbackId rq = Some cb"
    note f = find_first_Some [OF find]
    assume "rq_timestamp rq = Some ts" "rq_signature rq = Some sg" "rq_authorization rq = Some auth"
      "starts_with auth ''Bearer ''" "\<not> isTerminalStatus (tk_status (ae_task ae))"
      "tk_callbackSecretHash (ae_task ae) = Some hash" "hash = hashSecret env (js_trim (drop 7 auth))"
      "verifyHmacSignature env (rq_body rq) (js_trim (drop 7 auth)) ts sg"
      "ce_parse env (rq_body rq) = Some (ae_body ae)" "eb_taskId (ae_body ae) = tk_id (ae_task ae)"
      "\<forall>n. eb_seq (ae_body ae) = Some n \<longrightarrow> tk_lastEventSeq (ae_task ae) < n"
    moreover have "\<exists>n. ce_number env ts = Some n \<and> \<bar>now - n\<bar> \<le> 300000"
      using valid by (auto simp: isTimestampValid_def CALLBACK_TIMESTAMP_TOLERANCE_MS_def split: option.splits)
    ultimately show ?thesis using f cb
      by (intro exI [of _ "ae_task ae"] exI [of _ auth] exI [of _ ts] exI [of _ sg] exI [of _ "ae_body ae"])
         simp
  qed
qed

section \<open>The run of the harness\<close>

text \<open>The request the script in the sandbox makes of an event body: signed with the secret of the task.\<close>

definition signed_request ::
    "callback_env \<Rightarrow> string \<Rightarrow> string \<Rightarrow> string \<Rightarrow> string \<Rightarrow> event_request" where
  "signed_request env callbackId secret timestamp text =
     \<lparr>rq_body = text, rq_callbackId = Some callbackId, rq_timestamp = Some timestamp,
      rq_signature = Some (''sha256='' @ signPayload env secret timestamp text),
      rq_authorization = Some (''Bearer '' @ secret)\<rparr>"

text \<open>A delivery of an event body: when it is sent and how its text and timestamp are written.\<close>

definition deliver_event ::
    "callback_env \<Rightarrow> (event_body \<Rightarrow> string) \<Rightarrow> (int \<Rightarrow> string) \<Rightarrow> string \<Rightarrow> string \<Rightarrow> int \<times> event_body \<Rightarrow>
     task_db \<Rightarrow> task_db" where
  "deliver_event env text_of stamp callbackId secret d db =
     fst (handleTaskEventPost env (fst d)
        (signed_request env callbackId secret (stamp (fst d)) (text_of (snd d))) db db)"

lemma hex_no_ws: "list_all (\<lambda>c. \<not> is_ws c) (bufToHex bs)"
proof (induction bs)
  case (Cons b bs)
  have "unat b < 256" using unsigned_less [of b] by simp
  then have "unat b div 16 < 16" "unat b mod 16 < 16" by auto
  with Cons hex_digit_facts(2) show ?case by (simp add: bufToHex_Cons byte_hex_def)
qed (simp add: bufToHex_def)

lemma trim_hex [simp]: "js_trim (bufToHex bs) = bufToHex bs"
  by (rule trim_plain [OF hex_no_ws])

text \<open>The state of a task whose harness is at work, and of the events it has recorded so far.\<close>

definition working ::
    "callback_env \<Rightarrow> string \<Rightarrow> string \<Rightarrow> string \<Rightarrow> int \<Rightarrow> string set \<Rightarrow> task_db \<Rightarrow> bool" where
  "working env t cb secret n ids db \<longleftrightarrow>
     (\<exists>r. getById t db = Some r \<and> find_first (\<lambda>r. tk_callbackId r = Some cb) (td_tasks db) = Some r \<and>
        tk_status r \<in> {Preparing, Running} \<and> tk_callbackSecretHash r = Some (hashSecret env secret) \<and>
        tk_lastEventSeq r \<le> n) \<and>
     (\<forall>e \<in> set (td_events db). te_taskId e = t \<longrightarrow> te_eventId e \<in> ids)"

text \<open>
  What the run relies on: a sent body is parsed back, a sent timestamp is read back, dates are dates
  and identifiers are UUIDs.
\<close>

definition body_ok :: "callback_env \<Rightarrow> (event_body \<Rightarrow> string) \<Rightarrow> event_body \<Rightarrow> bool" where
  "body_ok env text_of b \<longleftrightarrow> ce_parse env (text_of b) = Some b \<and> ce_uuid env (eb_eventId b) \<and>
     event_occurredAt env 0 b \<noteq> None"

definition host_ok :: "callback_env \<Rightarrow> (int \<Rightarrow> string) \<Rightarrow> string \<Rightarrow> bool" where
  "host_ok env stamp cb \<longleftrightarrow> (\<forall>n. stamp n \<noteq> [] \<and> ce_number env (stamp n) = Some n) \<and>
     cb \<noteq> [] \<and> ce_uuid env cb"

lemma occurred_any: "event_occurredAt env 0 b \<noteq> None \<Longrightarrow> \<exists>o'. event_occurredAt env now b = Some o'"
  by (cases "truthy_str (eb_sentAt b)") (auto simp: event_occurredAt_def)

lemma hash_nonempty: "ce_sha256 env s \<noteq> [] \<Longrightarrow> hashSecret env s \<noteq> []"
  by (cases "ce_sha256 env s") (simp_all add: hashSecret_def bufToHex_Cons byte_hex_def)

lemma check_signed:
  assumes host: "host_ok env stamp cb" and body: "body_ok env text_of b"
    and secret: "secret = bufToHex bytes" "ce_sha256 env secret \<noteq> []"
    and r: "find_first (\<lambda>r. tk_callbackId r = Some cb) (td_tasks db) = Some r"
      "\<not> isTerminalStatus (tk_status r)" "tk_callbackSecretHash r = Some (hashSecret env secret)"
    and b: "eb_taskId b = tk_id r" "normalizeEventKind (eb_eventType b) = Some kind" "eb_seq b = Some k"
  shows "event_check env now (signed_request env cb secret (stamp now) (text_of b)) db =
    (if k \<le> tk_lastEventSeq r then Inl (Inr ackResponse)
     else Inr \<lparr>ae_task = r, ae_body = b, ae_kind = kind\<rparr>)"
proof -
  have ne: "hashSecret env secret \<noteq> []" by (rule hash_nonempty [OF secret(2)])
  have sig: "verifyHmacSignature env (text_of b) secret (stamp now)
      (''sha256='' @ signPayload env secret (stamp now) (text_of b))"
    using callback_mac_ok unfolding signPayload_def .
  have auth: "drop 7 (''Bearer '' @ secret) = secret" "starts_with (''Bearer '' @ secret) ''Bearer ''"
    by (simp, rule starts_with_append)
  have ts: "isTimestampValid now (ce_number env (stamp now))"
    using host by (simp add: host_ok_def isTimestampValid_def CALLBACK_TIMESTAMP_TOLERANCE_MS_def)
  have trim: "js_trim secret = secret" unfolding secret(1) by simp
  have facts: "stamp now \<noteq> []" "cb \<noteq> []" "ce_uuid env cb" "ce_parse env (text_of b) = Some b"
    using host body by (simp_all add: host_ok_def body_ok_def)
  show ?thesis
    using ne facts r b sig ts
    by (simp add: event_check_def signed_request_def auth trim Let_def append_Nil del: append.simps(2))
qed

text \<open>An event that keeps the task running, early or late: the task goes on, and the event may be recorded.\<close>

lemma event_patch_running:
  assumes "mapHarnessEventToStatus (eb_eventType (ae_body ae)) = Some Running" "\<not> finishing (ae_kind ae)"
    "\<not> isTerminalStatus (tk_status (ae_task ae))"
  shows "event_patch env now o' ae r =
    r\<lparr>tk_status := Running, tk_lastEventSeq := default_to (eb_seq (ae_body ae)) (tk_lastEventSeq (ae_task ae)),
      tk_lastEventAt := Some o', tk_heartbeatAt := Some now, tk_updatedAt := now\<rparr>"
proof -
  have "status_ok (ae_task ae) (ae_body ae)"
    using assms by (cases "tk_status (ae_task ae)") (auto simp: status_ok_def isLegalTransition_def)
  with assms show ?thesis by (simp add: event_patch_def Let_def)
qed

lemma find_callback_update:
  assumes "\<And>r. tk_callbackId (f r) = tk_callbackId r"
  shows "find_first (\<lambda>r. tk_callbackId r = Some cb) (td_tasks (effect p f es db)) =
     map_option (\<lambda>r. if p r then f r else r) (find_first (\<lambda>r. tk_callbackId r = Some cb) (td_tasks db))"
  using find_first_map [of "\<lambda>r. tk_callbackId r = Some cb" "\<lambda>r. if p r then f r else r"] assms
  by simp

lemma working_step:
  assumes w: "working env t cb secret n ids db" and host: "host_ok env stamp cb"
    and body: "body_ok env text_of b" and secret: "secret = bufToHex bytes" "ce_sha256 env secret \<noteq> []"
    and b: "eb_taskId b = t" "normalizeEventKind (eb_eventType b) = Some kind" "\<not> finishing kind"
      "kind \<noteq> EvBackendNotify" "mapHarnessEventToStatus (eb_eventType b) = Some Running"
      "eb_seq b = Some k" "k \<le> n" "eb_eventId b \<in> ids"
  shows "working env t cb secret n ids (deliver_event env text_of stamp cb secret (now, b) db)"
proof -
  obtain r where r: "getById t db = Some r" "find_first (\<lambda>r. tk_callbackId r = Some cb) (td_tasks db) = Some r"
    "tk_status r \<in> {Preparing, Running}" "tk_callbackSecretHash r = Some (hashSecret env secret)"
    "tk_lastEventSeq r \<le> n" and ev: "\<forall>e \<in> set (td_events db). te_taskId e = t \<longrightarrow> te_eventId e \<in> ids"
    using w by (auto simp: working_def)
  have id: "tk_id r = t" using getById_Some [OF r(1)] by simp
  have live: "\<not> isTerminalStatus (tk_status r)" using r(3) by auto
  let ?ae = "\<lparr>ae_task = r, ae_body = b, ae_kind = kind\<rparr>"
  note chk = check_signed [OF host body secret r(2) live r(4), of kind k now] 
  have chk: "event_check env now (signed_request env cb secret (stamp now) (text_of b)) db =
    (if k \<le> tk_lastEventSeq r then Inl (Inr ackResponse) else Inr ?ae)"
    using chk b id by simp
  have d: "deliver_event env text_of stamp cb secret (now, b) db =
     (if k \<le> tk_lastEventSeq r then db else fst (event_commit env now ?ae db))"
    by (simp add: deliver_event_def handleTaskEventPost_def chk split: prod.splits)
  show ?thesis
  proof (cases "k \<le> tk_lastEventSeq r")
    case True
    with d w show ?thesis by simp
  next
    case False
    show ?thesis
    proof (rule commit_cases [of env now ?ae db])
      assume "event_commit env now ?ae db = (db, False)"
      with d w show ?thesis by simp
    next
      fix o' assume c: "event_commit env now ?ae db =
        (effect (event_applies ?ae) (event_patch env now o' ?ae) [event_row now o' ?ae (eb_seq (ae_body ?ae))] db, True)"
      have patch: "event_patch env now o' ?ae x = x\<lparr>tk_status := Running, tk_lastEventSeq := k,
          tk_lastEventAt := Some o', tk_heartbeatAt := Some now, tk_updatedAt := now\<rparr>" for x
        using event_patch_running [of ?ae] b live by simp
      have app: "event_applies ?ae r" using False live b(6) by (simp add: event_applies_def)
      have d': "deliver_event env text_of stamp cb secret (now, b) db =
          effect (event_applies ?ae) (event_patch env now o' ?ae) [event_row now o' ?ae (Some k)] db"
        using d c False b(6) by simp
      have g: "getById t (effect (event_applies ?ae) (event_patch env now o' ?ae) es db) =
          Some (event_patch env now o' ?ae r)" for es
        using r(1) app by (simp add: getById_effect)
      have f: "find_first (\<lambda>r. tk_callbackId r = Some cb)
          (td_tasks (effect (event_applies ?ae) (event_patch env now o' ?ae) es db)) =
          Some (event_patch env now o' ?ae r)" for es
        using find_callback_update [of "event_patch env now o' ?ae" cb "event_applies ?ae"] r(2) app
        by (simp add: patch)
      show ?thesis unfolding d' working_def g f
        using r(4) b(7,8) ev by (auto simp: patch event_row_def)
    qed (use b(4) in simp)
  qed
qed

text \<open>The event that ends the run: it is recorded and settles the task.\<close>

lemma final_step:
  assumes w: "working env t cb secret n ids db" and host: "host_ok env stamp cb"
    and body: "body_ok env text_of b" and secret: "secret = bufToHex bytes" "ce_sha256 env secret \<noteq> []"
    and b: "eb_taskId b = t" "normalizeEventKind (eb_eventType b) = Some kind" "finishing kind"
      "mapHarnessEventToStatus (eb_eventType b) = Some st" "isTerminalStatus st"
      "eb_seq b = Some k" "n < k" "eb_eventId b \<notin> ids" "eb_exitCode b = Some code"
  shows "\<exists>r. getById t (deliver_event env text_of stamp cb secret (now, b) db) = Some r \<and>
     tk_status r = st \<and> tk_exitCode r = Some code \<and> tk_callbackSecretHash r = None \<and> tk_completedAt r \<noteq> None"
proof -
  obtain r where r: "getById t db = Some r" "find_first (\<lambda>r. tk_callbackId r = Some cb) (td_tasks db) = Some r"
    "tk_status r \<in> {Preparing, Running}" "tk_callbackSecretHash r = Some (hashSecret env secret)"
    "tk_lastEventSeq r \<le> n" and ev: "\<forall>e \<in> set (td_events db). te_taskId e = t \<longrightarrow> te_eventId e \<in> ids"
    using w by (auto simp: working_def)
  have id: "tk_id r = t" and mem: "r \<in> set (td_tasks db)" using getById_Some [OF r(1)] by simp_all
  have live: "\<not> isTerminalStatus (tk_status r)" using r(3) by auto
  let ?ae = "\<lparr>ae_task = r, ae_body = b, ae_kind = kind\<rparr>"
  have d: "deliver_event env text_of stamp cb secret (now, b) db = fst (event_commit env now ?ae db)"
    using check_signed [OF host body secret r(2) live r(4), of kind k now] b r(5) id
    by (simp add: deliver_event_def handleTaskEventPost_def split: prod.splits)
  obtain o' where o': "event_occurredAt env now b = Some o'"
    using body occurred_any [of env b now] unfolding body_ok_def by blast
  have app: "event_applies ?ae r" using live b(6,7) r(5) by (simp add: event_applies_def)
  have k: "kind \<noteq> EvBackendNotify" using b(3) by (auto simp: finishing_def)
  let ?e = "event_row now o' ?ae (Some k)"
  have "event_patch env now o' ?ae r \<in> (\<lambda>x. if event_applies ?ae x then event_patch env now o' ?ae x else x) ` set (td_tasks db)"
    using mem app by (intro image_eqI [of _ _ r]) auto
  moreover have "tk_id (event_patch env now o' ?ae r) = te_taskId ?e" by (simp add: event_row_def)
  ultimately have "list_ex (\<lambda>x. tk_id x = te_taskId ?e) (td_tasks (fst (update_where (event_applies ?ae) (event_patch env now o' ?ae) db)))"
    unfolding list_ex_iff update_where_sel set_map by blast
  moreover have "\<not> list_ex (\<lambda>x. te_taskId x = te_taskId ?e \<and> te_eventId x = te_eventId ?e) (td_events db)"
    using ev b(8) id by (auto simp: list_ex_iff event_row_def)
  ultimately have "guarded_tx (event_applies ?ae) (event_patch env now o' ?ae) ?e db =
      (fst (update_where (event_applies ?ae) (event_patch env now o' ?ae) db))\<lparr>td_events := td_events db @ [?e]\<rparr>"
    using app mem by (auto simp: guarded_tx_def insert_event_def filter_empty_conv)
  moreover have "fst (event_commit env now ?ae db) =
      guarded_tx (event_applies ?ae) (event_patch env now o' ?ae) ?e db"
    using commit_tx [of env now ?ae o' db] o' body k b(6) by (simp add: body_ok_def)
  ultimately have g: "getById t (deliver_event env text_of stamp cb secret (now, b) db) =
      Some (event_patch env now o' ?ae r)"
    using r(1) app d by (simp add: getById_update)
  have ok: "status_ok r b" using b(4,5) live by (simp add: status_ok_def isLegalTransition_def)
  show ?thesis unfolding g
    using b(3,4,9) ok by (auto simp: event_patch_def finish_patch_def Let_def split: option.splits)
qed

lemma working_mono:
  "working env t cb secret n ids db \<Longrightarrow> n \<le> m \<Longrightarrow> ids \<subseteq> ids' \<Longrightarrow> working env t cb secret m ids' db"
  unfolding working_def by (meson order_trans subsetD)

lemma wrapper_kinds:
  "normalizeEventKind ''task.started'' = Some EvStarted" "normalizeEventKind ''task.heartbeat'' = Some EvHeartbeat"
  "normalizeEventKind ''task.completed'' = Some EvCompleted" "normalizeEventKind ''task.failed'' = Some EvFailed"
  by code_simp+

lemma wrapper_events_last:
  "butlast (wrapper_events eventId t beats code sentAt) =
     callback_body eventId t ''task.started'' ''running'' ''Task started'' 1 None sentAt #
     map (\<lambda>i. callback_body eventId t ''task.heartbeat'' ''running'' ''still running'' (2 + int i) None sentAt) [0..<beats]"
  "last (wrapper_events eventId t beats code sentAt) =
     (if code = 0
      then callback_body eventId t ''task.completed'' ''succeeded'' ''Task completed'' (2 + int beats) (Some code) sentAt
      else callback_body eventId t ''task.failed'' ''failed'' ''Task failed'' (2 + int beats) (Some code) sentAt)"
  by (simp_all add: wrapper_events_def butlast_append)

text \<open>
  C7. The harness's run settles its task: however many of the start and heartbeat events are delivered,
  lost, repeated or reordered, when the last event of the script arrives the task is recorded as
  succeeded or failed according to the exit code, with that code and a completion time, and its secret
  is erased.
\<close>

theorem harness_run_settles:
  assumes "working env t cb secret 0 old db" and "host_ok env stamp cb"
    and "secret = bufToHex bytes" "ce_sha256 env secret \<noteq> []"
    and "\<forall>b \<in> set (wrapper_events eventId t beats code sentAt). body_ok env text_of b"
    and "snd ` set ds \<subseteq> set (butlast (wrapper_events eventId t beats code sentAt))"
    and "eb_eventId (last (wrapper_events eventId t beats code sentAt)) \<notin>
      old \<union> eb_eventId ` set (butlast (wrapper_events eventId t beats code sentAt))"
  shows "\<exists>r. getById t (deliver_event env text_of stamp cb secret
      (now, last (wrapper_events eventId t beats code sentAt))
      (fold (deliver_event env text_of stamp cb secret) ds db)) = Some r \<and>
    tk_status r = (if code = 0 then Succeeded else Failed) \<and> tk_exitCode r = Some code \<and>
    tk_callbackSecretHash r = None \<and> tk_completedAt r \<noteq> None"
proof -
  let ?bs = "butlast (wrapper_events eventId t beats code sentAt)"
  let ?fin = "last (wrapper_events eventId t beats code sentAt)"
  let ?n = "1 + int beats" and ?ids = "old \<union> eb_eventId ` set ?bs"
  have ne: "wrapper_events eventId t beats code sentAt \<noteq> []" by (simp add: wrapper_events_def)
  have ok: "body_ok env text_of b" if "b \<in> set ?bs" for b using assms(5) that by (auto dest: in_set_butlastD)
  have one: "working env t cb secret ?n ?ids (deliver_event env text_of stamp cb secret d x)"
    if w: "working env t cb secret ?n ?ids x" and d: "snd d \<in> set ?bs" for d x
  proof -
    obtain at' b where db: "d = (at', b)" by (cases d)
    have b: "b \<in> set ?bs" using d db by simp
    obtain kind k where k: "eb_taskId b = t" "normalizeEventKind (eb_eventType b) = Some kind" "\<not> finishing kind"
      "kind \<noteq> EvBackendNotify" "mapHarnessEventToStatus (eb_eventType b) = Some Running"
      "eb_seq b = Some k" "k \<le> ?n"
      using b unfolding wrapper_events_last(1)
      by (auto simp: callback_body_def wrapper_kinds finishing_def mapHarnessEventToStatus_def)
    show ?thesis unfolding db
      by (rule working_step [OF w assms(2) ok [OF b] assms(3,4) k]) (use b in simp)
  qed
  have "working env t cb secret ?n ?ids (fold (deliver_event env text_of stamp cb secret) ds x)"
    if "working env t cb secret ?n ?ids x" "snd ` set ds \<subseteq> set ?bs" for ds x
    using that by (induction ds arbitrary: x) (auto intro: one)
  moreover have "working env t cb secret ?n ?ids db"
    by (rule working_mono [OF assms(1)]) auto
  ultimately have w: "working env t cb secret ?n ?ids (fold (deliver_event env text_of stamp cb secret) ds db)"
    using assms(6) by blast
  have fin: "body_ok env text_of ?fin" using assms(5) ne by (meson last_in_set)
  show ?thesis
  proof (cases "code = 0")
    case True
    show ?thesis using final_step [OF w assms(2) fin assms(3,4), of EvCompleted Succeeded "2 + int beats" code now] True assms(7)
      unfolding wrapper_events_last(2)
      by (simp add: callback_body_def wrapper_kinds finishing_def mapHarnessEventToStatus_def)
  next
    case False
    show ?thesis using final_step [OF w assms(2) fin assms(3,4), of EvFailed Failed "2 + int beats" code now] False assms(7)
      unfolding wrapper_events_last(2)
      by (simp add: callback_body_def wrapper_kinds finishing_def mapHarnessEventToStatus_def)
  qed
qed

section \<open>Witnesses\<close>

text \<open>A concrete host: unary timestamps, two texts, a constant digest.\<close>

definition ex_stamp :: "int \<Rightarrow> string" where
  "ex_stamp n = (if n < 0 then CHR ''-'' # replicate (nat (- n)) CHR ''i'' else CHR ''+'' # replicate (nat n) CHR ''i'')"

definition ex_number :: "string \<Rightarrow> int option" where
  "ex_number s = (case s of [] \<Rightarrow> None | c # r \<Rightarrow> Some (if c = CHR ''-'' then - int (length r) else int (length r)))"

definition ex_id :: "string \<Rightarrow> int \<Rightarrow> string \<Rightarrow> string" where
  "ex_id t n ty = t @ '':'' @ ex_stamp n @ '':'' @ ty"

definition ex_events :: "event_body list" where
  "ex_events = wrapper_events ex_id ''t1'' 0 0 ''now''"

definition ex_text :: "event_body \<Rightarrow> string" where
  "ex_text b = (if eb_seq b = Some 1 then ''s'' else ''f'')"

definition ex_env :: callback_env where
  "ex_env = \<lparr>ce_sha256 = (\<lambda>s. [7]), ce_hmac = (\<lambda>k m. [1, 2]), ce_number = ex_number,
     ce_parse = (\<lambda>s. if s = ''s'' then nth_opt ex_events 0 else if s = ''f'' then nth_opt ex_events 1 else None),
     ce_date = (\<lambda>s. Some 5), ce_uuid = (\<lambda>s. True), ce_execution = (\<lambda>r. None), ce_publish = (\<lambda>r a. None)\<rparr>"

definition ex_secret :: string where
  "ex_secret = bufToHex [10, 200]"

definition ex_row :: task_row where
  "ex_row = (default_row 0 ''t1'' ''u1'' SandboxRuntime Codex ''do it'')
     \<lparr>tk_status := Preparing, tk_callbackId := Some ''cb1'',
      tk_callbackSecretHash := Some (hashSecret ex_env ex_secret)\<rparr>"

definition ex_db :: task_db where
  "ex_db = default_to (createTask 0 ''e0'' ex_row None empty_task_db) empty_task_db"

lemma ex_db_eq: "ex_db = \<lparr>td_tasks = [ex_row], td_events =
    [\<lparr>te_taskId = ''t1'', te_eventId = ''e0'', te_source = FromServer, te_kind = EvCreated, te_seq = None,
      te_payload = JObj [], te_occurredAt = 0, te_createdAt = 0\<rparr>], td_conversations = [], td_accounts = []\<rparr>"
  by (simp add: ex_db_def createTask_def insert_event_def empty_task_db_def ex_row_def default_row_def)

lemma ex_host: "host_ok ex_env ex_stamp ''cb1''"
  by (auto simp: host_ok_def ex_env_def ex_stamp_def ex_number_def)

lemma ex_bodies: "\<forall>b \<in> set (wrapper_events ex_id ''t1'' 0 0 ''now''). body_ok ex_env ex_text b"
  by (auto simp: body_ok_def ex_env_def ex_text_def ex_events_def wrapper_events_def callback_body_def
      nth_opt_def event_occurredAt_def)

lemma ex_working: "working ex_env ''t1'' ''cb1'' ex_secret 0 {''e0''} ex_db"
  by (simp add: working_def ex_db_eq getById_def ex_row_def default_row_def)

theorem harness_run_settles_witness:
  "\<exists>r. getById ''t1'' (deliver_event ex_env ex_text ex_stamp ''cb1'' ex_secret (9, last ex_events) ex_db) = Some r \<and>
     tk_status r = Succeeded \<and> tk_exitCode r = Some 0 \<and> tk_callbackSecretHash r = None \<and> tk_completedAt r \<noteq> None"
  using harness_run_settles [OF ex_working ex_host ex_secret_def _ ex_bodies, of "[]" 9]
  by (simp add: ex_events_def ex_env_def wrapper_events_def callback_body_def ex_id_def)

definition ex_started :: accepted_event where
  "ex_started = \<lparr>ae_task = ex_row, ae_body = hd ex_events, ae_kind = EvStarted\<rparr>"

definition ex_done :: accepted_event where
  "ex_done = \<lparr>ae_task = ex_row, ae_body = last ex_events, ae_kind = EvCompleted\<rparr>"

definition ex_ops :: "task_op list" where
  "ex_ops = [OpCreateTask 0 ''e0'' ex_row None, OpCallback 3 ex_started, OpHeartbeat 4 ''t1'',
     OpCallback 5 ex_done, OpCallback 6 ex_started]"

definition ex_done_db :: task_db where
  "ex_done_db = run_ops (task_exec ex_env) ex_ops empty_task_db"

theorem task_events_in_order_witness:
  "event_seqs ''t1'' ex_done_db = [1, 2] \<and> sorted_wrt (<) (event_seqs ''t1'' ex_done_db)"
proof -
  have ok: "ops_ok (task_exec ex_env) seq_ok ex_ops empty_task_db"
    by (simp add: ex_ops_def ex_started_def ex_done_def ex_events_def wrapper_events_def callback_body_def)
  have "event_seqs ''t1'' ex_done_db = [1, 2]" by code_simp
  with task_events_in_order [OF ok ex_done_db_def] show ?thesis by blast
qed

theorem task_settled_for_good_witness:
  "\<exists>r'. getById ''t1'' (run_ops (task_exec ex_env)
       [OpCallback 7 ex_started, OpComplete 8 ''x'' \<lparr>cp_taskId = ''t1'', cp_status = TLost, cp_summary = ''lost'',
          cp_output = None, cp_artifacts = None, cp_error = None, cp_exitCode = None, cp_runtimeData = None,
          cp_payload = None\<rparr>] ex_done_db) = Some r' \<and> tk_status r' = Succeeded"
proof -
  obtain r where r: "getById ''t1'' ex_done_db = Some r" "tk_status r = Succeeded"
  proof -
    have "map_option tk_status (getById ''t1'' ex_done_db) = Some Succeeded" by code_simp
    then show thesis using that by auto
  qed
  show ?thesis
    using task_settled_for_good [OF r(1), of ex_env "[OpCallback 7 ex_started, OpComplete 8 ''x''
        \<lparr>cp_taskId = ''t1'', cp_status = TLost, cp_summary = ''lost'',
          cp_output = None, cp_artifacts = None, cp_error = None, cp_exitCode = None, cp_runtimeData = None,
          cp_payload = None\<rparr>]"] r(2)
    by (simp add: outcome_def del: run_ops_simps) blast
qed

theorem task_launch_revives_witness:
  "\<exists>r'. getById ''t1'' (task_exec ex_env (OpLaunch 9 ''t1'' None) ex_done_db) = Some r' \<and>
     tk_status r' = Running \<and> tk_exitCode r' = Some 0"
proof -
  have "map_option (\<lambda>r. (tk_status r, tk_callbackSecretHash r, tk_exitCode r)) (getById ''t1'' ex_done_db) =
      Some (Succeeded, None, Some 0)" by code_simp
  then obtain r where r: "getById ''t1'' ex_done_db = Some r" "tk_status r = Succeeded"
    "tk_callbackSecretHash r = None" "tk_exitCode r = Some 0" by auto
  have "distinct (map tk_id (td_tasks ex_done_db))" by code_simp
  with task_launch_revives [OF r(1) _ r(3), of ex_env 9 None] r(2,4) show ?thesis by auto
qed

theorem callback_applied_once_witness:
  "event_commit ex_env 8 ex_started ex_done_db = (ex_done_db, False)"
proof -
  let ?d = "fst (event_commit ex_env 3 ex_started ex_db)"
  have "snd (event_commit ex_env 3 ex_started ex_db) = True" by code_simp
  then have c: "event_commit ex_env 3 ex_started ex_db = (?d, True)" by (metis prod.collapse)
  have d: "ex_done_db = run_ops (task_exec ex_env) [OpHeartbeat 4 ''t1'', OpCallback 5 ex_done, OpCallback 6 ex_started] ?d"
    by (simp add: ex_done_db_def ex_ops_def ex_db_def)
  show ?thesis unfolding d by (rule callback_applied_once [OF c refl refl])
qed

theorem callback_authenticated_witness:
  "\<exists>task \<in> set (td_tasks ex_db). \<exists>auth. rq_authorization (signed_request ex_env ''cb1'' ex_secret (ex_stamp 3) ''s'') = Some auth \<and>
     tk_callbackSecretHash task = Some (hashSecret ex_env (js_trim (drop 7 auth)))"
proof -
  let ?rq = "signed_request ex_env ''cb1'' ex_secret (ex_stamp 3) ''s''"
  obtain db' tr resp where h: "handleTaskEventPost ex_env 3 ?rq ex_db ex_db = (db', tr, resp)"
    by (metis prod.exhaust)
  have "length (td_events (fst (handleTaskEventPost ex_env 3 ?rq ex_db ex_db))) = 2" by code_simp
  then have "db' \<noteq> ex_db" using h by (auto simp: ex_db_eq)
  from callback_authenticated [OF h this] show ?thesis by blast
qed

end
