(* ===== verification/Automations.thy ===== *)
theory Automations
  imports TaskStore
begin

text \<open>
  Scheduled automations: the store of \<open>packages/plugins/src/automations/service.ts\<close> (through its
  adapter), the tools of \<open>tools.ts\<close>, the delivery target of \<open>resolve-delivery-target.ts\<close>, the reply
  target of \<open>packages/computer/src/harness/reply-target.ts\<close>, and \<open>dispatchDueAutomations\<close> of
  \<open>packages/computer/src/harness/reconciliation.ts\<close>.  The cron library is a parameter: the next run of
  an expression in a time zone after a time.
\<close>

section \<open>Rows and the store\<close>

datatype automation_kind = KCron | KScheduled | KEvent

datatype automation_status = AActive | APending | ARunning | ACompleted | AFailed

record automation =
  au_id :: string
  au_userId :: string
  au_kind :: automation_kind
  au_status :: automation_status
  au_scheduleJson :: "json option"
  au_nextRunAt :: "int option"
  au_lastRunAt :: "int option"
  au_payloadJson :: "json option"
  au_deliveryTargetJson :: "json option"
  au_createdAt :: int
  au_updatedAt :: int

definition createAutomation :: "automation \<Rightarrow> automation list \<Rightarrow> (automation list \<times> automation) option" where
  "createAutomation row db =
     (if list_ex (\<lambda>a. au_id a = au_id row) db then None else Some (db @ [row], row))"

definition findAutomationById :: "string \<Rightarrow> automation list \<Rightarrow> automation option" where
  "findAutomationById i db = find_first (\<lambda>a. au_id a = i) db"

definition findAutomationsByUser ::
    "string \<Rightarrow> automation_status option \<Rightarrow> automation list \<Rightarrow> automation list" where
  "findAutomationsByUser userId status db =
     sort_key (\<lambda>a. - au_createdAt a)
       (filter (\<lambda>a. au_userId a = userId \<and> (case status of None \<Rightarrow> True | Some s \<Rightarrow> au_status a = s)) db)"

definition findDue :: "int \<Rightarrow> automation list \<Rightarrow> automation list" where
  "findDue asOf db =
     filter (\<lambda>a. au_status a = AActive \<and> (case au_nextRunAt a of None \<Rightarrow> False | Some n \<Rightarrow> n \<le> asOf)) db"

text \<open>An absent field leaves its column alone.\<close>

definition updateAutomationStatus ::
    "int \<Rightarrow> string \<Rightarrow> automation_status \<Rightarrow> int option \<Rightarrow> int option \<Rightarrow> automation list \<Rightarrow> automation list" where
  "updateAutomationStatus now i status lastRunAt nextRunAt db =
     map (\<lambda>a. if au_id a = i
              then a\<lparr>au_status := status, au_lastRunAt := or_else lastRunAt (au_lastRunAt a),
                     au_nextRunAt := or_else nextRunAt (au_nextRunAt a), au_updatedAt := now\<rparr>
              else a) db"

definition deleteAutomation :: "string \<Rightarrow> automation list \<Rightarrow> automation list" where
  "deleteAutomation i db = filter (\<lambda>a. au_id a \<noteq> i) db"

section \<open>Tools\<close>

record automation_tools =
  at_userId :: string
  at_userTimezone :: "string option"
  at_cron :: "(int \<Rightarrow> string \<Rightarrow> string \<Rightarrow> int option) option"
  at_deliveryTarget :: "json option"

text \<open>
  The time of an ISO date is a parameter; an invalid date fails the insertion, as it cannot be written
  as a timestamp.
\<close>

definition opt_field :: "string \<Rightarrow> string option \<Rightarrow> (string \<times> json) list" where
  "opt_field k v = (case v of None \<Rightarrow> [] | Some s \<Rightarrow> [(k, JStr s)])"

definition schedule_automation ::
    "automation_tools \<Rightarrow> (string \<Rightarrow> int option) \<Rightarrow> int \<Rightarrow> string \<Rightarrow> string \<Rightarrow> automation_kind \<Rightarrow> string option \<Rightarrow>
     string option \<Rightarrow> automation list \<Rightarrow> (automation list \<times> automation) option" where
  "schedule_automation cfg date now uuid description kind runAt schedule db =
     (let tz = default_to (at_userTimezone cfg) ''UTC'';
          nextRunAt = (case (kind, truthy_str runAt, truthy_str schedule, at_cron cfg) of
              (KScheduled, Some r, _, _) \<Rightarrow> Some (date r)
            | (KCron, _, Some s, Some cron) \<Rightarrow> map_option Some (cron now s tz)
            | _ \<Rightarrow> None)
      in if nextRunAt = Some None then None
         else createAutomation
           \<lparr>au_id = uuid, au_userId = at_userId cfg, au_kind = kind, au_status = AActive,
            au_scheduleJson = Some (JObj ((''description'', JStr description) #
                opt_field ''schedule'' schedule @ [(''timezone'', JStr tz)])),
            au_nextRunAt = (case nextRunAt of None \<Rightarrow> None | Some n \<Rightarrow> n), au_lastRunAt = None,
            au_payloadJson = Some (JObj [(''description'', JStr description), (''timezone'', JStr tz)]),
            au_deliveryTargetJson = Some (default_to (at_deliveryTarget cfg) (JObj [])),
            au_createdAt = now, au_updatedAt = now\<rparr> db)"

definition list_automations :: "automation_tools \<Rightarrow> automation list \<Rightarrow> automation list" where
  "list_automations cfg db = findAutomationsByUser (at_userId cfg) (Some AActive) db"

definition cancel_automation :: "string \<Rightarrow> automation list \<Rightarrow> automation list" where
  "cancel_automation automationId db = deleteAutomation automationId db"

definition resolveDeliveryTarget :: "task_db \<Rightarrow> string \<Rightarrow> string \<Rightarrow> json" where
  "resolveDeliveryTarget db userId conversationId =
     (if map_of (td_conversations db) conversationId \<noteq> Some ''telegram'' then JObj []
      else (case getStoredTelegramChatId userId db of
          None \<Rightarrow> JObj []
        | Some chatId \<Rightarrow> JObj [(''channel'', JStr ''telegram''), (''chatId'', JNum chatId)]))"

section \<open>Dispatch\<close>

definition parseReplyTarget :: "json option \<Rightarrow> int option" where
  "parseReplyTarget raw =
     (case raw of None \<Rightarrow> None
      | Some o' \<Rightarrow> if json_str (json_get o' ''channel'') = Some ''telegram''
                  then json_num (json_get o' ''chatId'') else None)"

type_synonym message = "int \<times> string"

definition opt_get :: "json option \<Rightarrow> string \<Rightarrow> json option" where
  "opt_get j k = (case j of None \<Rightarrow> None | Some o' \<Rightarrow> json_get o' k)"

definition reminder_text :: "automation \<Rightarrow> string" where
  "reminder_text a = ''Reminder: '' @ default_to (json_str (opt_get (au_payloadJson a) ''description'')) ''Reminder''"

text \<open>
  One due automation: \<open>sent\<close> says whether a message is delivered, a delivery that fails marks the
  automation as failed.  Status updates are best effort; the model takes them to succeed.
\<close>

definition next_run :: "(int \<Rightarrow> string \<Rightarrow> string \<Rightarrow> int option) option \<Rightarrow> int \<Rightarrow> automation \<Rightarrow> int option" where
  "next_run cron now a =
     (let tz = default_to (json_str (opt_get (au_scheduleJson a) ''timezone'')) ''UTC'' in
      case (truthy_str (json_str (opt_get (au_scheduleJson a) ''schedule'')), cron) of
        (Some s, Some c) \<Rightarrow> c now s tz | _ \<Rightarrow> None)"

definition dispatch_one ::
    "(int \<Rightarrow> string \<Rightarrow> string \<Rightarrow> int option) option \<Rightarrow> (message \<Rightarrow> bool) \<Rightarrow> int \<Rightarrow> automation \<Rightarrow>
     automation list \<times> message list \<Rightarrow> automation list \<times> message list" where
  "dispatch_one cron sent now a s =
     (case s of (db, out) \<Rightarrow>
      case parseReplyTarget (au_deliveryTargetJson a) of
        None \<Rightarrow> (db, out)
      | Some chatId \<Rightarrow>
          (let m = (chatId, reminder_text a) in
           if \<not> sent m then (updateAutomationStatus now (au_id a) AFailed None None db, out)
           else (let out' = out @ [m] in
             case au_kind a of
               KScheduled \<Rightarrow> (updateAutomationStatus now (au_id a) ACompleted (Some now) None db, out')
             | KCron \<Rightarrow> (case next_run cron now a of
                   Some n \<Rightarrow> (updateAutomationStatus now (au_id a) AActive (Some now) (Some n) db, out')
                 | None \<Rightarrow> (updateAutomationStatus now (au_id a) AFailed (Some now) None db, out'))
             | KEvent \<Rightarrow> (db, out'))))"

definition dispatchDueAutomations ::
    "(int \<Rightarrow> string \<Rightarrow> string \<Rightarrow> int option) option \<Rightarrow> (message \<Rightarrow> bool) option \<Rightarrow> int \<Rightarrow> automation list \<Rightarrow>
     automation list \<times> message list" where
  "dispatchDueAutomations cron sendTelegram now db =
     (case sendTelegram of None \<Rightarrow> (db, [])
      | Some sent \<Rightarrow> fold (dispatch_one cron sent now) (findDue now db) (db, []))"

end
