(* ===== verification/Reconciliation.thy ===== *)
theory Reconciliation
  imports TaskInv Automations
begin

text \<open>
  The reconciliation of \<open>packages/computer/src/harness/reconciliation.ts\<close>: the probe of a task and the
  scheduled run (keep-alive, probes, notifications, automations), with
  \<open>packages/computer/src/harness/task-execution-data.ts\<close> and \<open>task-trace.ts\<close>.

  The sandbox and the Telegram sender are parameters.  A sandbox call either throws or answers.
\<close>

section \<open>Constants and helpers\<close>

definition STALE_HEARTBEAT_MS :: int where
  "STALE_HEARTBEAT_MS = 3 * 60 * 1000"

definition TASK_BASE :: string where
  "TASK_BASE = ''/home/agent/.tasks''"

definition getArtifactRoot :: "string \<Rightarrow> string" where
  "getArtifactRoot taskId = TASK_BASE @ ''/'' @ taskId @ ''/artifacts''"

definition shouldSkipProbeFinalize :: "int \<Rightarrow> task_row \<Rightarrow> bool" where
  "shouldSkipProbeFinalize now task \<longleftrightarrow>
     0 < tk_lastEventSeq task \<and>
     (case tk_lastEventAt task of None \<Rightarrow> False | Some t \<Rightarrow> now - t < 2 * STALE_HEARTBEAT_MS)"

definition statusJsonPath :: "string \<Rightarrow> string" where
  "statusJsonPath taskId = TASK_BASE @ ''/'' @ taskId @ ''/artifacts/status.json''"

text \<open>The file as the JSON library reads it; a missing, empty or malformed file is null.\<close>

definition parseStatusJson :: "(string \<Rightarrow> json option) \<Rightarrow> string option \<Rightarrow> json option" where
  "parseStatusJson json raw = (case truthy_str raw of None \<Rightarrow> None | Some t \<Rightarrow> json t)"

definition nl2 :: string where
  "nl2 = [CHR 0x0A, CHR 0x0A]"

definition buildNotificationMessage :: "task_row \<Rightarrow> string option" where
  "buildNotificationMessage task =
     (let summary = str_or (case tk_outputSummary task of None \<Rightarrow> [] | Some s \<Rightarrow> js_trim s) ''Task finished.'';
          err = (case tk_error task of None \<Rightarrow> [] | Some e \<Rightarrow> js_trim e)
      in case tk_status task of
          Succeeded \<Rightarrow> Some (''Your task is done.'' @ nl2 @ summary)
        | Failed \<Rightarrow> Some (''Your task failed.'' @ (if err = [] then [] else nl2 @ err) @ nl2 @
            ''You can ask me to try again.'')
        | TimedOut \<Rightarrow> Some (''Your task timed out. You can ask me to try again or split the work into smaller steps.'')
        | Lost \<Rightarrow> Some (''I lost track of your task. You can ask me to start it again.'')
        | _ \<Rightarrow> None)"

section \<open>Collecting results\<close>

text \<open>The files of an artifact directory, from the lines \<open>name<TAB>size\<close> the sandbox lists.\<close>

definition artifact_line :: "(string \<Rightarrow> int option) \<Rightarrow> string \<Rightarrow> (string \<times> int) option" where
  "artifact_line number line =
     (case split_on (CHR 0x09) line of
        name # sizeStr # _ \<Rightarrow> if name = [] then None
                             else map_option (\<lambda>size. (name, size)) (number sizeStr)
      | _ \<Rightarrow> None)"

definition listTaskArtifactFiles :: "(string \<Rightarrow> int option) \<Rightarrow> string \<Rightarrow> (string \<times> int) list" where
  "listTaskArtifactFiles number listed =
     List.map_filter (artifact_line number) (split_on (CHR 0x0A) listed)"

definition buildArtifactRefs :: "string \<Rightarrow> (string \<times> int) list \<Rightarrow> json" where
  "buildArtifactRefs artifactRoot files =
     JArr (map (\<lambda>(name, size). JObj [(''kind'', JStr ''file''), (''title'', JStr name),
       (''uri'', JStr (artifactRoot @ ''/'' @ name)), (''metadata'', JObj [(''size'', JNum size)])]) files)"

text \<open>\<open>output.slice(0, 500).split("\n\n")[0]\<close>\<close>

fun before_blank :: "string \<Rightarrow> string" where
  "before_blank (a # b # r) = (if a = CHR 0x0A \<and> b = CHR 0x0A then [] else a # before_blank (b # r))"
| "before_blank s = s"

definition collectResult :: "string option \<Rightarrow> string option \<Rightarrow> string \<times> string" where
  "collectResult resultMd stderrLog =
     (let output = default_to resultMd []; stderr = default_to stderrLog []
      in (output, if output \<noteq> [] then before_blank (take 500 output)
                  else if stderr \<noteq> [] then ''Task failed: '' @ take 200 stderr
                  else ''No output produced''))"

record sandbox_files =
  sf_result :: "string option"       \<comment> \<open>\<open>result.md\<close>\<close>
  sf_stderr :: "string option"       \<comment> \<open>\<open>stderr.log\<close>\<close>
  sf_listing :: string

definition collectTaskExecutionData ::
    "(string \<Rightarrow> int option) \<Rightarrow> string \<Rightarrow> sandbox_files \<Rightarrow> execution_data" where
  "collectTaskExecutionData number artifactRoot f =
     (case collectResult (sf_result f) (sf_stderr f) of (output, summary) \<Rightarrow>
        \<lparr>xd_output = output, xd_summary = summary,
         xd_artifacts = buildArtifactRefs artifactRoot (listTaskArtifactFiles number (sf_listing f))\<rparr>)"

definition previewTaskOutput :: "string \<Rightarrow> nat \<Rightarrow> string option" where
  "previewTaskOutput output maxChars =
     (let trimmed = js_trim output in if trimmed = [] then None else Some (take maxChars trimmed))"

section \<open>The probe\<close>

text \<open>
  The sandbox of a user as a probe sees it: whether it can be had, what the session command answers
  (an exception, or its exit code if it has ended), the status file and the files of the artifacts (an
  exception, or their contents).
\<close>

record probe_env =
  pe_ensure :: "string \<Rightarrow> bool"
  pe_command :: "string \<Rightarrow> string \<Rightarrow> string + int option"
  pe_statusJson :: "string \<Rightarrow> json option"
  pe_files :: "string \<Rightarrow> string + sandbox_files"
  pe_number :: "string \<Rightarrow> int option"

type_synonym uuids = "nat \<Rightarrow> string"

definition note_event :: "int \<Rightarrow> string \<Rightarrow> task_row \<Rightarrow> json \<Rightarrow> task_db \<Rightarrow> task_db" where
  "note_event now uuid task payload db =
     default_to (appendEvent now uuid (tk_id task) None FromMaintenance EvProbe None payload None db) db"

text \<open>
  Completion with its trace event and maintenance event; a failed query is an exception, and a task that
  has already ended leaves everything as it is.
\<close>

definition complete_and_note ::
    "int \<Rightarrow> uuids \<Rightarrow> task_row \<Rightarrow> completion_params \<Rightarrow> string option \<Rightarrow> int option \<Rightarrow> string option \<Rightarrow> json \<Rightarrow>
     task_db \<Rightarrow> (task_db \<times> trace_entry list) option" where
  "complete_and_note now uuid task p message exitCode reason payload db =
     (case completeTask now (uuid 0) p db of
        None \<Rightarrow> None
      | Some (db1, False) \<Rightarrow> Some (db1, [])
      | Some (db1, True) \<Rightarrow>
          Some (note_event now (uuid 1) task payload db1,
                appendTaskTraceTerminalEvent (tk_traceId task) (tk_id task) (status_of (cp_status p))
                  message exitCode reason))"

definition lost_params :: "string \<Rightarrow> string \<Rightarrow> string \<Rightarrow> completion_params" where
  "lost_params taskId summary reason =
     \<lparr>cp_taskId = taskId, cp_status = TLost, cp_summary = summary, cp_output = None, cp_artifacts = None,
      cp_error = None, cp_exitCode = None, cp_runtimeData = None,
      cp_payload = Some (JObj [(''reason'', JStr reason)])\<rparr>"

definition result_params ::
    "string \<Rightarrow> bool \<Rightarrow> int \<Rightarrow> execution_data \<Rightarrow> json \<Rightarrow> completion_params" where
  "result_params taskId success exitCode d payload =
     \<lparr>cp_taskId = taskId, cp_status = (if success then TSucceeded else TFailed),
      cp_summary = take 2000 (xd_summary d),
      cp_output = Some (if xd_output d = [] then JNull else JObj [(''result'', JStr (xd_output d))]),
      cp_artifacts = Some (xd_artifacts d),
      cp_error = (if success then None else Some (take 4000 (xd_summary d))),
      cp_exitCode = Some exitCode, cp_runtimeData = None, cp_payload = Some payload\<rparr>"

text \<open>The session's command has ended, with an exit code.\<close>

definition probe_ended ::
    "probe_env \<Rightarrow> int \<Rightarrow> uuids \<Rightarrow> task_row \<Rightarrow> string \<Rightarrow> int \<Rightarrow> task_db \<Rightarrow> (task_db \<times> trace_entry list) option" where
  "probe_ended env now uuid task artifactRoot exitCode db =
     (if shouldSkipProbeFinalize now task then
        Some (note_event now (uuid 0) task
          (JObj [(''exitCode'', JNum exitCode), (''source'', JStr ''session_command''),
                 (''skipped'', JStr ''active_callback_stream''),
                 (''lastEventSeq'', JNum (tk_lastEventSeq task))])
          (touchProbe now (tk_id task) db), [])
      else (case pe_files env artifactRoot of
          Inl e \<Rightarrow> None
        | Inr f \<Rightarrow>
            (let d = collectTaskExecutionData (pe_number env) artifactRoot f in
             complete_and_note now uuid task
               (result_params (tk_id task) (exitCode = 0) exitCode d
                  (JObj [(''exitCode'', JNum exitCode), (''source'', JStr ''session_command''),
                         (''summary'', JStr (xd_summary d))]))
               (Some (xd_summary d)) (Some exitCode) None
               (JObj [(''exitCode'', JNum exitCode), (''source'', JStr ''session_command'')]) db)))"

text \<open>The command has not ended: the status file decides, unless callbacks have come in.\<close>

definition probe_status ::
    "probe_env \<Rightarrow> int \<Rightarrow> uuids \<Rightarrow> task_row \<Rightarrow> string \<Rightarrow> task_db \<Rightarrow> (task_db \<times> trace_entry list) option" where
  "probe_status env now uuid task artifactRoot db =
     (let file = pe_statusJson env (tk_id task);
          status = json_str (opt_get file ''status'');
          over = (status = Some ''succeeded'' \<or> status = Some ''failed'')
      in if tk_lastEventSeq task = 0 \<and> over then
           (case pe_files env artifactRoot of
              Inl e \<Rightarrow> None
            | Inr f \<Rightarrow>
                (let d = collectTaskExecutionData (pe_number env) artifactRoot f;
                     success = (status = Some ''succeeded'');
                     exitCode = default_to (json_num (opt_get file ''exitCode'')) (if success then 0 else 1);
                     j = default_to file JNull
                 in complete_and_note now uuid task
                      (result_params (tk_id task) success exitCode d
                         (JObj [(''source'', JStr ''status_json''), (''statusJson'', j),
                                (''summary'', JStr (xd_summary d))]))
                      (Some (xd_summary d)) (Some exitCode) None
                      (JObj [(''source'', JStr ''status_json''), (''statusJson'', j)]) db))
         else Some (note_event now (uuid 0) task
                (if over then JObj [(''source'', JStr ''still_running''),
                   (''statusJsonDebug'', default_to file JNull),
                   (''note'', JStr ''status_json_not_authoritative_lastEventSeq_gt_0'')]
                 else JObj [(''source'', JStr ''still_running'')])
                (touchProbe now (tk_id task) db), []))"

text \<open>The probe of a row as it was read; \<open>Inl\<close> is an exception to the caller.\<close>

definition probeSingleTask ::
    "probe_env \<Rightarrow> int \<Rightarrow> uuids \<Rightarrow> task_row \<Rightarrow> task_db \<Rightarrow> task_db \<times> trace_entry list \<times> (string + unit)" where
  "probeSingleTask env now uuid task db =
     (if \<not> isSandboxTask task then (db, [], Inr ())
      else if \<not> pe_ensure env (tk_userId task) then (db, [], Inl ''sandbox'')
      else if isTerminalStatus (tk_status task) then (db, [], Inr ())
      else (case readSandboxRuntimeData task of
          None \<Rightarrow> (db, [], Inr ())
        | Some rd \<Rightarrow>
            (case (truthy_str (sr_sessionId rd), truthy_str (sr_commandId rd)) of
               (Some session, Some command) \<Rightarrow>
                 (let root = default_to (sr_artifactRoot rd) (getArtifactRoot (tk_id task));
                      result = (case pe_command env session command of
                          Inl e \<Rightarrow> None
                        | Inr (Some exitCode) \<Rightarrow> probe_ended env now uuid task root exitCode db
                        | Inr None \<Rightarrow> probe_status env now uuid task root db)
                  in case result of
                       Some (db1, tr) \<Rightarrow> (db1, tr, Inr ())
                     | None \<Rightarrow> (touchProbe now (tk_id task) db, [], Inr ()))
             | _ \<Rightarrow>
                 (case complete_and_note now uuid task
                         (lost_params (tk_id task) ''Task lost because session metadata is missing.'' ''missing_session'')
                         None None (Some ''missing_session'')
                         (JObj [(''kind'', JStr ''task.lost''), (''reason'', JStr ''missing_session'')]) db of
                    None \<Rightarrow> (db, [], Inl ''complete'')
                  | Some (db1, tr) \<Rightarrow> (db1, tr, Inr ())))))"

section \<open>The scheduled run\<close>

record reconcile_state =
  rs_db :: task_db
  rs_traces :: "trace_entry list"
  rs_sent :: "message list"
  rs_automations :: "automation list"

text \<open>The probes of the stale tasks as they were read together; each draws its own identifiers.\<close>

fun probe_all ::
    "probe_env \<Rightarrow> int \<Rightarrow> (string \<Rightarrow> uuids) \<Rightarrow> task_row list \<Rightarrow> task_db \<times> trace_entry list \<Rightarrow>
     task_db \<times> trace_entry list" where
  "probe_all env now uuid [] s = s"
| "probe_all env now uuid (t # ts) (db, traces) =
     (case probeSingleTask env now (uuid (tk_id t)) t db of (db1, tr, r) \<Rightarrow>
        probe_all env now uuid ts (db1, traces @ tr))"

definition notify_one ::
    "(message \<Rightarrow> bool) \<Rightarrow> int \<Rightarrow> task_row \<Rightarrow> task_db \<times> message list \<Rightarrow> task_db \<times> message list" where
  "notify_one sent now task s =
     (case s of (db, out) \<Rightarrow>
      case (parseReplyTarget (tk_replyTarget task), buildNotificationMessage task) of
        (Some chatId, Some text') \<Rightarrow>
          if sent (chatId, text')
          then (markNotified now (tk_id task) (tk_status task) db, out @ [(chatId, text')])
          else (db, out)
      | _ \<Rightarrow> (db, out))"

definition notify_pending ::
    "(message \<Rightarrow> bool) \<Rightarrow> int \<Rightarrow> task_db \<Rightarrow> task_db \<times> message list" where
  "notify_pending sent now db = fold (notify_one sent now) (findPendingNotifications db) (db, [])"

text \<open>
  The users whose sandbox is kept alive, and the run: probes, then, when messages can be sent,
  notifications and automations.
\<close>

definition keep_alive_users :: "probe_env \<Rightarrow> task_db \<Rightarrow> string list" where
  "keep_alive_users env db = filter (pe_ensure env) (findActiveTaskUserIds db)"

definition runScheduledReconciliation ::
    "probe_env \<Rightarrow> (int \<Rightarrow> string \<Rightarrow> string \<Rightarrow> int option) option \<Rightarrow> (message \<Rightarrow> bool) option \<Rightarrow> int \<Rightarrow>
     (string \<Rightarrow> uuids) \<Rightarrow> reconcile_state \<Rightarrow> reconcile_state" where
  "runScheduledReconciliation env cron sendTelegram now uuid s =
     (case probe_all env now uuid (findStaleSandboxTasks (now - STALE_HEARTBEAT_MS) (rs_db s))
             (rs_db s, rs_traces s) of
        (db1, traces) \<Rightarrow>
          (case sendTelegram of
             None \<Rightarrow> s\<lparr>rs_db := db1, rs_traces := traces\<rparr>
           | Some sent \<Rightarrow>
               (case (notify_pending sent now db1,
                      dispatchDueAutomations cron sendTelegram now (rs_automations s)) of
                  ((db2, out), (autos, reminders)) \<Rightarrow>
                    s\<lparr>rs_db := db2, rs_traces := traces, rs_sent := rs_sent s @ out @ reminders,
                      rs_automations := autos\<rparr>)))"

end
