(* ===== verification/ReconciliationProps.thy ===== *)
theory ReconciliationProps
  imports Reconciliation TaskProps
begin

text \<open>
  The properties of the reconciliation: it only uses the guarded operations of the store, notifies once
  and fires a due automation once.
\<close>

section \<open>Refinement\<close>

text \<open>The operations a probe and a notification are made of.\<close>

fun reconcile_op :: "task_op \<Rightarrow> bool" where
  "reconcile_op (OpAppendEvent _ _ _ _ _ _) = True"
| "reconcile_op (OpComplete _ _ _) = True"
| "reconcile_op (OpTouchProbe _ _) = True"
| "reconcile_op (OpMarkNotified _ _ _) = True"
| "reconcile_op _ = False"

definition refines_ops :: "task_db \<Rightarrow> task_db \<Rightarrow> bool" where
  "refines_ops db db' \<longleftrightarrow> (\<exists>ops. list_all reconcile_op ops \<and> (\<forall>env. db' = run_ops (task_exec env) ops db))"

named_theorems refine_intros "steps of the reconciliation as store operations"

lemma refines_refl [refine_intros]: "refines_ops db db"
  unfolding refines_ops_def by (rule exI [of _ "[]"]) simp

lemma refines_trans:
  assumes "refines_ops a b" "refines_ops b c"
  shows "refines_ops a c"
proof -
  obtain xs ys where "list_all reconcile_op xs" "\<forall>env. b = run_ops (task_exec env) xs a"
    "list_all reconcile_op ys" "\<forall>env. c = run_ops (task_exec env) ys b"
    using assms by (auto simp: refines_ops_def)
  then show ?thesis unfolding refines_ops_def by (intro exI [of _ "xs @ ys"]) simp
qed

lemma refines_one: "reconcile_op op \<Longrightarrow> (\<And>env. db' = task_exec env op db) \<Longrightarrow> refines_ops db db'"
  unfolding refines_ops_def by (rule exI [of _ "[op]"]) simp

lemma refines_note [refine_intros]: "refines_ops db (note_event now uuid task payload db)"
  by (rule refines_one [of "OpAppendEvent now uuid (tk_id task) FromMaintenance EvProbe payload"])
     (simp_all add: note_event_def)

lemma refines_touch [refine_intros]: "refines_ops db (touchProbe now t db)"
  by (rule refines_one [of "OpTouchProbe now t"]) simp_all

lemma refines_notified [refine_intros]: "refines_ops db (markNotified now t st db)"
  by (rule refines_one [of "OpMarkNotified now t st"]) simp_all

lemma refines_complete:
  assumes "complete_and_note now uuid task p m x reason payload db = Some (db', tr)"
  shows "refines_ops db db'"
proof -
  obtain db1 b where c: "completeTask now (uuid 0) p db = Some (db1, b)"
    using assms by (auto simp: complete_and_note_def split: option.splits)
  have "refines_ops db db1" by (rule refines_one [of "OpComplete now (uuid 0) p"]) (simp_all add: c)
  moreover have "db' = db1 \<or> db' = note_event now (uuid 1) task payload db1"
    using assms c by (cases b) (simp_all add: complete_and_note_def)
  ultimately show ?thesis using refines_trans refines_note refines_refl by metis
qed

lemma refines_ended:
  assumes "probe_ended env now uuid task root code db = Some (db', tr)"
  shows "refines_ops db db'"
proof (cases "shouldSkipProbeFinalize now task")
  case True
  with assms show ?thesis
    by (auto simp: probe_ended_def intro: refines_trans [OF refines_touch refines_note])
next
  case False
  with assms show ?thesis
    by (auto simp: probe_ended_def Let_def split: sum.splits intro: refines_complete)
qed

lemma refines_status:
  assumes "probe_status env now uuid task root db = Some (db', tr)"
  shows "refines_ops db db'"
proof (cases "tk_lastEventSeq task = 0 \<and>
    (json_str (opt_get (pe_statusJson env (tk_id task)) ''status'') = Some ''succeeded'' \<or>
     json_str (opt_get (pe_statusJson env (tk_id task)) ''status'') = Some ''failed'')")
  case True
  with assms show ?thesis
    by (cases "pe_files env root") (simp_all add: probe_status_def Let_def refines_complete)
next
  case False
  with assms have "\<exists>p. db' = note_event now (uuid 0) task p (touchProbe now (tk_id task) db)"
    unfolding probe_status_def Let_def if_not_P [OF False] by auto
  then show ?thesis using refines_trans [OF refines_touch refines_note] by metis
qed

lemma refines_probe: "refines_ops db (fst (probeSingleTask env now uuid task db))"
proof (cases "\<not> isSandboxTask task \<or> \<not> pe_ensure env (tk_userId task) \<or> isTerminalStatus (tk_status task)")
  case True
  then show ?thesis by (auto simp: probeSingleTask_def refines_refl)
next
  case False
  then have f: "isSandboxTask task" "pe_ensure env (tk_userId task)" "\<not> isTerminalStatus (tk_status task)"
    by simp_all
  show ?thesis
  proof (cases "readSandboxRuntimeData task")
    case None
    with f show ?thesis by (simp add: probeSingleTask_def refines_refl)
  next
    case rd: (Some rd)
    let ?root = "default_to (sr_artifactRoot rd) (getArtifactRoot (tk_id task))"
    show ?thesis
    proof (cases "\<exists>s c. truthy_str (sr_sessionId rd) = Some s \<and> truthy_str (sr_commandId rd) = Some c")
      case True
      then obtain s c where sc: "truthy_str (sr_sessionId rd) = Some s" "truthy_str (sr_commandId rd) = Some c"
        by blast
      define result where "result = (case pe_command env s c of Inl e \<Rightarrow> None
          | Inr (Some code) \<Rightarrow> probe_ended env now uuid task ?root code db
          | Inr None \<Rightarrow> probe_status env now uuid task ?root db)"
      have p: "probeSingleTask env now uuid task db = (case result of
          Some (db1, tr) \<Rightarrow> (db1, tr, Inr ()) | None \<Rightarrow> (touchProbe now (tk_id task) db, [], Inr ()))"
        unfolding probeSingleTask_def rd option.case sc prod.case Let_def result_def using f by simp
      have "refines_ops db db1" if "result = Some (db1, tr)" for db1 tr
        using that unfolding result_def
        by (cases "pe_command env s c"; cases "projr (pe_command env s c)")
           (simp_all add: refines_ended refines_status)
      then show ?thesis unfolding p by (cases result) (auto simp: refines_touch)
    next
      case False
      let ?cn = "complete_and_note now uuid task
            (lost_params (tk_id task) ''Task lost because session metadata is missing.'' ''missing_session'')
            None None (Some ''missing_session'')
            (JObj [(''kind'', JStr ''task.lost''), (''reason'', JStr ''missing_session'')]) db"
      have "probeSingleTask env now uuid task db = (case ?cn of
          None \<Rightarrow> (db, [], Inl ''complete'') | Some (db1, tr) \<Rightarrow> (db1, tr, Inr ()))"
        using f rd False
        by (cases "truthy_str (sr_sessionId rd)"; cases "truthy_str (sr_commandId rd)")
           (simp_all add: probeSingleTask_def del: truthy_str_Some)
      then show ?thesis by (cases ?cn) (auto simp: refines_refl intro: refines_complete)
    qed
  qed
qed

lemma refines_probe_all: "refines_ops db (fst (probe_all env now uuid ts (db, traces)))"
proof (induction ts arbitrary: db traces)
  case (Cons t ts)
  obtain db1 tr r where p: "probeSingleTask env now (uuid (tk_id t)) t db = (db1, tr, r)"
    by (metis prod.exhaust)
  with refines_probe [of db env now "uuid (tk_id t)" t] have "refines_ops db db1" by simp
  from refines_trans [OF this Cons.IH] show ?case by (simp add: p)
qed (simp add: refines_refl)

lemma refines_notify: "refines_ops db (fst (fold (notify_one sent now) ts (db, out)))"
proof (induction ts arbitrary: db out)
  case (Cons t ts)
  obtain db1 out1 where n: "notify_one sent now t (db, out) = (db1, out1)" by (metis prod.exhaust)
  then have "db1 = db \<or> db1 = markNotified now (tk_id t) (tk_status t) db"
    by (auto simp: notify_one_def split: option.splits if_splits)
  then have "refines_ops db db1" using refines_refl refines_notified by metis
  from refines_trans [OF this Cons.IH] show ?case by (simp add: n)
qed (simp add: refines_refl)

lemma refines_settled:
  assumes "refines_ops db db'" "getById t db = Some r" "isTerminalStatus (tk_status r)"
  shows "\<exists>r'. getById t db' = Some r' \<and> outcome r' = outcome r"
proof -
  obtain ops where ops: "list_all reconcile_op ops" "db' = run_ops (task_exec ex_env) ops db"
    using assms(1) by (auto simp: refines_ops_def)
  have "launch_ok op x" if "reconcile_op op" for op x using that by (cases op) auto
  then have "ops_ok (task_exec ex_env) launch_ok ops x" for x
    using ops(1) by (induction ops arbitrary: x) auto
  then have "settled_as t r db'" unfolding ops(2)
    by (rule settled_tasks.run [rotated]) (use assms in \<open>auto simp: settled_as_def\<close>)
  then show ?thesis by (auto simp: settled_as_def)
qed

text \<open>
  C14. The scheduled reconciliation refines the store's guarded operations: whatever the sandboxes and
  Telegram answer, its effect on the tables is that of completions, probe marks, notification marks and
  events, none of them a launch; so a task that has ended before it runs ends it with the same outcome,
  although it works on rows read earlier.
\<close>

theorem reconciliation_refines_store:
  "refines_ops (rs_db s) (rs_db (runScheduledReconciliation env cron sendTelegram now uuid s)) \<and>
   (\<forall>t r. getById t (rs_db s) = Some r \<and> isTerminalStatus (tk_status r) \<longrightarrow>
      (\<exists>r'. getById t (rs_db (runScheduledReconciliation env cron sendTelegram now uuid s)) = Some r' \<and>
         outcome r' = outcome r))"
proof -
  obtain db1 tr where p: "probe_all env now uuid (findStaleSandboxTasks (now - STALE_HEARTBEAT_MS) (rs_db s))
      (rs_db s, rs_traces s) = (db1, tr)" by (metis prod.exhaust)
  have 1: "refines_ops (rs_db s) db1" using refines_probe_all p by (metis fst_conv)
  have "refines_ops (rs_db s) (rs_db (runScheduledReconciliation env cron sendTelegram now uuid s))"
  proof (cases sendTelegram)
    case None
    with 1 p show ?thesis by (simp add: runScheduledReconciliation_def)
  next
    case (Some sent)
    have "rs_db (runScheduledReconciliation env cron sendTelegram now uuid s) =
        fst (fold (notify_one sent now) (findPendingNotifications db1) (db1, []))"
      using p Some by (simp add: runScheduledReconciliation_def notify_pending_def split: prod.splits)
    then show ?thesis using refines_trans [OF 1 refines_notify] by metis
  qed
  then show ?thesis using refines_settled by blast
qed

section \<open>Notifications\<close>

definition notice :: "task_row \<Rightarrow> message option" where
  "notice task = (case (parseReplyTarget (tk_replyTarget task), buildNotificationMessage task) of
     (Some chatId, Some text') \<Rightarrow> Some (chatId, text') | _ \<Rightarrow> None)"

lemma notify_one_conv:
  "notify_one sent now task (db, out) =
     (case notice task of
        Some m \<Rightarrow> if sent m then (markNotified now (tk_id task) (tk_status task) db, out @ [m]) else (db, out)
      | None \<Rightarrow> (db, out))"
  by (simp add: notify_one_def notice_def split: option.splits)

text \<open>What one mark does to a row.\<close>

definition mark_row :: "int \<Rightarrow> task_row \<Rightarrow> task_row \<Rightarrow> task_row" where
  "mark_row now t r = (if tk_id r = tk_id t
     then r\<lparr>tk_notifiedStatus := Some (tk_status t), tk_lastNotificationAt := Some now, tk_updatedAt := now\<rparr> else r)"

lemma notify_fold:
  "fold (notify_one (\<lambda>_. True) now) ts (db, out) =
     (db\<lparr>td_tasks := map (fold (mark_row now) (filter (\<lambda>t. notice t \<noteq> None) ts)) (td_tasks db)\<rparr>,
      out @ List.map_filter notice ts)"
proof (induction ts arbitrary: db out)
  case Nil
  then show ?case by (simp add: List.map_filter_def id_def)
next
  case (Cons t ts)
  then show ?case
    by (cases "notice t")
       (simp_all add: notify_one_conv List.map_filter_def markNotified_def update_where_def mark_row_def
          comp_def)
qed

lemma notice_cong:
  assumes "tk_replyTarget a = tk_replyTarget b" "tk_outputSummary a = tk_outputSummary b"
    "tk_error a = tk_error b" "tk_status a = tk_status b"
  shows "notice a = notice b"
  unfolding notice_def buildNotificationMessage_def assms by (rule refl)

lemma map_filter_None: "(\<And>x. x \<in> set xs \<Longrightarrow> f x = None) \<Longrightarrow> List.map_filter f xs = []"
  by (induction xs) (simp_all add: List.map_filter_def)

lemma mark_row_same:
  "tk_id (mark_row now t r) = tk_id r" "tk_status (mark_row now t r) = tk_status r"
  "tk_replyTarget (mark_row now t r) = tk_replyTarget r" "notice (mark_row now t r) = notice r"
  by (simp_all add: mark_row_def)
     (intro impI notice_cong, simp_all)

lemma mark_rows_same:
  "tk_id (fold (mark_row now) ts r) = tk_id r" "tk_status (fold (mark_row now) ts r) = tk_status r"
  "tk_replyTarget (fold (mark_row now) ts r) = tk_replyTarget r"
  "notice (fold (mark_row now) ts r) = notice r"
  by (induction ts arbitrary: r) (simp_all add: mark_row_same)

lemma mark_rows_notified:
  assumes "\<forall>t \<in> set ts. tk_id t = tk_id r \<longrightarrow> tk_status t = tk_status r"
  shows "tk_notifiedStatus (fold (mark_row now) ts r) =
    (if \<exists>t \<in> set ts. tk_id t = tk_id r then Some (tk_status r) else tk_notifiedStatus r)"
  using assms
proof (induction ts arbitrary: r)
  case (Cons t ts)
  have "tk_id (mark_row now t r) = tk_id r" "tk_status (mark_row now t r) = tk_status r"
    by (simp_all add: mark_row_def)
  with Cons.IH [of "mark_row now t r"] Cons.prems show ?case by (auto simp: mark_row_def)
qed simp


text \<open>The ends the announcement knows nothing of: such a task stays pending and is never announced.\<close>

lemma unannounced_ends:
  assumes "r \<in> set (td_tasks db)" "tk_status r \<in> {Partial, Escalated, Cancelled}"
  shows "notice r = None"
  using assms by (auto simp: notice_def buildNotificationMessage_def Let_def split: option.splits)

section \<open>Automations\<close>

text \<open>The reminder of an automation, and what one firing does to a row.\<close>

definition reminder :: "automation \<Rightarrow> message option" where
  "reminder a = map_option (\<lambda>chatId. (chatId, reminder_text a)) (parseReplyTarget (au_deliveryTargetJson a))"

definition fired_row ::
    "(int \<Rightarrow> string \<Rightarrow> string \<Rightarrow> int option) option \<Rightarrow> int \<Rightarrow> automation \<Rightarrow> automation \<Rightarrow> automation" where
  "fired_row cron now t r =
     (if au_id r \<noteq> au_id t \<or> au_kind t = KEvent then r
      else let next = (if au_kind t = KCron then next_run cron now t else None) in
        r\<lparr>au_status := (if au_kind t = KScheduled then ACompleted
                        else if next = None then AFailed else AActive),
          au_lastRunAt := Some now, au_nextRunAt := or_else next (au_nextRunAt r), au_updatedAt := now\<rparr>)"

lemma fired_row_id: "au_id (fired_row cron now t r) = au_id r"
  by (simp add: fired_row_def Let_def)

lemma dispatch_one_conv:
  "dispatch_one cron (\<lambda>_. True) now t (db, out) =
     (case reminder t of None \<Rightarrow> (db, out)
      | Some m \<Rightarrow> (map (fired_row cron now t) db, out @ [m]))"
proof (cases "parseReplyTarget (au_deliveryTargetJson t)")
  case None
  then show ?thesis by (simp add: dispatch_one_def reminder_def)
next
  case (Some chatId)
  show ?thesis
  proof (cases "au_kind t")
    case KCron
    with Some show ?thesis
      by (cases "next_run cron now t")
         (simp_all add: dispatch_one_def reminder_def updateAutomationStatus_def fired_row_def)
  qed (use Some in \<open>simp_all add: dispatch_one_def reminder_def updateAutomationStatus_def
        fired_row_def [abs_def]\<close>)
qed

lemma dispatch_fold:
  "fold (dispatch_one cron (\<lambda>_. True) now) ts (db, out) =
     (map (fold (fired_row cron now) (filter (\<lambda>t. reminder t \<noteq> None) ts)) db,
      out @ List.map_filter reminder ts)"
proof (induction ts arbitrary: db out)
  case Nil
  then show ?case by (simp add: List.map_filter_def id_def)
next
  case (Cons t ts)
  then show ?case
    by (cases "reminder t") (simp_all add: dispatch_one_conv List.map_filter_def comp_def)
qed

lemma fired_rows_other: "au_id r \<notin> au_id ` set ts \<Longrightarrow> fold (fired_row cron now) ts r = r"
  by (induction ts) (auto simp: fired_row_def)

lemma fired_rows:
  assumes "distinct (map au_id ts)" "\<forall>t \<in> set ts. au_id t = au_id r \<longrightarrow> t = r"
  shows "fold (fired_row cron now) ts r = (if r \<in> set ts then fired_row cron now r r else r)"
  using assms
proof (induction ts)
  case (Cons t ts)
  show ?case
  proof (cases "t = r")
    case True
    with Cons.prems(1) have "au_id (fired_row cron now r r) \<notin> au_id ` set ts"
      by (auto simp: fired_row_id)
    with True show ?thesis by (simp add: fired_rows_other)
  next
    case False
    with Cons.prems(2) have "fired_row cron now t r = r" by (auto simp: fired_row_def)
    with False Cons show ?thesis by auto
  qed
qed simp

lemma fired_row_not_due:
  assumes "\<forall>s tz n. cron now s tz = Some n \<longrightarrow> now < n" "au_kind r \<noteq> KEvent"
  shows "\<not> (au_status (fired_row (Some cron) now r r) = AActive \<and>
    (case au_nextRunAt (fired_row (Some cron) now r r) of None \<Rightarrow> False | Some n \<Rightarrow> n \<le> now))"
proof (cases "next_run (Some cron) now r")
  case (Some n)
  then have "now < n"
    using assms(1) by (auto simp: next_run_def Let_def split: option.splits)
  with Some assms(2) show ?thesis by (auto simp: fired_row_def Let_def)
qed (use assms(2) in \<open>auto simp: fired_row_def Let_def\<close>)


section \<open>A concrete table\<close>

text \<open>
  One task has ended without an announcement, one still runs; of the automations one is due, one is due
  again every minute, one is not due.
\<close>

definition ex_ended :: task_row where
  "ex_ended = (default_row 0 ''t1'' ''u1'' SandboxRuntime Codex ''do it'')
     \<lparr>tk_status := Succeeded, tk_outputSummary := Some '' All tests pass. '',
      tk_replyTarget := Some (JObj [(''channel'', JStr ''telegram''), (''chatId'', JNum 42)])\<rparr>"

definition ex_table :: task_db where
  "ex_table = empty_task_db\<lparr>td_tasks := [ex_ended,
     (default_row 0 ''t2'' ''u1'' SandboxRuntime Codex ''wait'')\<lparr>tk_status := Running\<rparr>]\<rparr>"


definition ex_sandbox :: probe_env where
  "ex_sandbox = \<lparr>pe_ensure = (\<lambda>_. True), pe_command = (\<lambda>_ _. Inr (Some 0)), pe_statusJson = (\<lambda>_. None),
     pe_files = (\<lambda>_. Inl ''gone''), pe_number = (\<lambda>_. None)\<rparr>"

definition ex_reconcile :: reconcile_state where
  "ex_reconcile = \<lparr>rs_db = ex_table, rs_traces = [], rs_sent = [], rs_automations = []\<rparr>"

lemma reconciliation_refines_store_witness:
  "\<exists>r'. getById ''t1'' (rs_db (runScheduledReconciliation ex_sandbox None None 9000000 (\<lambda>t n. t) ex_reconcile)) = Some r' \<and>
     outcome r' = outcome ex_ended"
proof -
  have "getById ''t1'' (rs_db ex_reconcile) = Some ex_ended \<and> isTerminalStatus (tk_status ex_ended)"
    by (simp add: getById_def ex_reconcile_def ex_table_def ex_ended_def default_row_def isTerminalStatus_def
        TERMINAL_STATUSES_def)
  with reconciliation_refines_store [of ex_reconcile ex_sandbox None None 9000000 "\<lambda>t n. t"]
  show ?thesis by blast
qed

definition ex_automation :: "string \<Rightarrow> automation_kind \<Rightarrow> int option \<Rightarrow> automation" where
  "ex_automation i kind next =
     \<lparr>au_id = i, au_userId = ''u1'', au_kind = kind, au_status = AActive,
      au_scheduleJson = Some (JObj [(''schedule'', JStr ''* * * * *'')]), au_nextRunAt = next, au_lastRunAt = None,
      au_payloadJson = Some (JObj [(''description'', JStr i)]),
      au_deliveryTargetJson = Some (JObj [(''channel'', JStr ''telegram''), (''chatId'', JNum 42)]),
      au_createdAt = 0, au_updatedAt = 0\<rparr>"


end
