(* ===== verification/AuthState.thy ===== *)
theory AuthState
  imports Automations
begin

text \<open>
  The Codex credentials of a user: the stored configuration of \<open>packages/computer/src/harness/auth-state.ts\<close>
  and the texts \<open>packages/computer/src/harness/supervisor.ts\<close> reads it from (the credentials file, the
  login log).  A stored configuration that is null or an empty object reads as no configuration; an
  absent field is \<open>None\<close>.
\<close>

section \<open>Configuration\<close>

datatype auth_method = AuthApiKey | AuthChatgpt

datatype auth_status = AuthNone | AuthPending | AuthDone | AuthInvalid

record device_auth =
  da_verificationUri :: string
  da_userCode :: string
  da_sessionId :: string
  da_commandId :: string
  da_startedAt :: int

record auth_cache =
  ac_method :: auth_method
  ac_accountId :: "string option"
  ac_workspaceId :: "string option"
  ac_planType :: "string option"
  ac_lastRefresh :: "string option"
  ac_updatedAt :: int

record codex_config =
  cc_preferredMethod :: "auth_method option"
  cc_status :: "auth_status option"
  cc_apiKeyLast4 :: "string option"
  cc_cache :: "auth_cache option"
  cc_pending :: "device_auth option"
  cc_lastError :: "string option"
  cc_updatedAt :: "int option"

definition empty_codex :: codex_config where
  "empty_codex = \<lparr>cc_preferredMethod = None, cc_status = None, cc_apiKeyLast4 = None, cc_cache = None,
     cc_pending = None, cc_lastError = None, cc_updatedAt = None\<rparr>"

record auth_summary =
  as_method :: "auth_method option"
  as_status :: auth_status
  as_apiKeyLast4 :: "string option"
  as_accountId :: "string option"
  as_workspaceId :: "string option"
  as_planType :: "string option"
  as_lastRefresh :: "string option"
  as_error :: "string option"
  as_pending :: "(string \<times> string \<times> int) option"   \<comment> \<open>address, code, start\<close>

definition readHarnessAuthConfig :: "codex_config option \<Rightarrow> codex_config option" where
  "readHarnessAuthConfig v = (if v = Some empty_codex then None else v)"

definition writeCodexConfig ::
    "(codex_config \<Rightarrow> codex_config option) \<Rightarrow> codex_config option \<Rightarrow> codex_config option" where
  "writeCodexConfig transform v = transform (default_to (readHarnessAuthConfig v) empty_codex)"

definition withTimestamp :: "int \<Rightarrow> codex_config \<Rightarrow> codex_config" where
  "withTimestamp now c = c\<lparr>cc_updatedAt := Some now\<rparr>"

definition setCodexPendingDeviceAuth :: "int \<Rightarrow> device_auth \<Rightarrow> codex_config option \<Rightarrow> codex_config option" where
  "setCodexPendingDeviceAuth now p =
     writeCodexConfig (\<lambda>c. Some (withTimestamp now
       (c\<lparr>cc_preferredMethod := Some AuthChatgpt, cc_status := Some AuthPending, cc_apiKeyLast4 := None,
          cc_cache := None, cc_pending := Some p, cc_lastError := None\<rparr>)))"

definition setCodexAuthenticated ::
    "int \<Rightarrow> auth_cache \<Rightarrow> string option \<Rightarrow> codex_config option \<Rightarrow> codex_config option" where
  "setCodexAuthenticated now cache last4 =
     writeCodexConfig (\<lambda>c. Some (withTimestamp now
       (c\<lparr>cc_preferredMethod := Some (ac_method cache), cc_status := Some AuthDone,
          cc_apiKeyLast4 := (if ac_method cache = AuthApiKey then or_else last4 (cc_apiKeyLast4 c) else None),
          cc_cache := Some cache, cc_pending := None, cc_lastError := None\<rparr>)))"

definition setCodexInvalid :: "int \<Rightarrow> string \<Rightarrow> codex_config option \<Rightarrow> codex_config option" where
  "setCodexInvalid now message =
     writeCodexConfig (\<lambda>c. Some (withTimestamp now
       (c\<lparr>cc_status := Some (if cc_preferredMethod c \<noteq> None then AuthInvalid else AuthNone),
          cc_pending := None, cc_lastError := Some message\<rparr>)))"

definition clearCodexConfig :: "codex_config option \<Rightarrow> codex_config option" where
  "clearCodexConfig = writeCodexConfig (\<lambda>c. None)"

definition summarizeCodexAuth :: "codex_config option \<Rightarrow> auth_summary" where
  "summarizeCodexAuth v =
     (case readHarnessAuthConfig v of
        None \<Rightarrow> \<lparr>as_method = None, as_status = AuthNone, as_apiKeyLast4 = None, as_accountId = None,
                 as_workspaceId = None, as_planType = None, as_lastRefresh = None, as_error = None,
                 as_pending = None\<rparr>
      | Some c \<Rightarrow>
          \<lparr>as_method = or_else (map_option ac_method (cc_cache c)) (cc_preferredMethod c),
           as_status = default_to (cc_status c) AuthNone, as_apiKeyLast4 = cc_apiKeyLast4 c,
           as_accountId = Option.bind (cc_cache c) ac_accountId,
           as_workspaceId = Option.bind (cc_cache c) ac_workspaceId,
           as_planType = Option.bind (cc_cache c) ac_planType,
           as_lastRefresh = Option.bind (cc_cache c) ac_lastRefresh, as_error = cc_lastError c,
           as_pending = map_option (\<lambda>p. (da_verificationUri p, da_userCode p, da_startedAt p)) (cc_pending c)\<rparr>)"

section \<open>Terminal output\<close>

text \<open>
  \<open>stripAnsi\<close>: the escape sequences, as the regular expression of the code finds them.  After
  \<open>ESC [\<close> digits and semicolons and a letter; after \<open>ESC ]\<close> the text up to the next BEL, or, when no BEL
  follows, up to the last \<open>ESC \\<close>.
\<close>

definition ESC :: char where "ESC = CHR 0x1B"
definition BEL :: char where "BEL = CHR 0x07"

definition is_upper :: "char \<Rightarrow> bool" where
  "is_upper c \<longleftrightarrow> (let n = (of_char c :: nat) in 65 \<le> n \<and> n \<le> 90)"

definition is_letter :: "char \<Rightarrow> bool" where
  "is_letter c \<longleftrightarrow> is_upper c \<or> (let n = (of_char c :: nat) in 97 \<le> n \<and> n \<le> 122)"

definition csi_rest :: "string \<Rightarrow> string option" where
  "csi_rest s = (case dropWhile (\<lambda>c. is_digit c \<or> c = CHR '';'') s of
     c # r \<Rightarrow> if is_letter c then Some r else None | [] \<Rightarrow> None)"

fun after_last_st :: "string \<Rightarrow> string option" where
  "after_last_st (a # b # r) =
     (case after_last_st (b # r) of Some t \<Rightarrow> Some t
      | None \<Rightarrow> if a = ESC \<and> b = CHR 0x5C then Some r else None)"
| "after_last_st _ = None"

definition osc_rest :: "string \<Rightarrow> string option" where
  "osc_rest s = (if BEL \<in> set s then Some (tl (dropWhile (\<lambda>c. c \<noteq> BEL) s)) else after_last_st s)"

text \<open>The text after an escape sequence that starts with the character before \<open>s\<close>.\<close>

definition ansi_rest :: "string \<Rightarrow> string option" where
  "ansi_rest s = (case s of
     c # r \<Rightarrow> if c = CHR ''['' then csi_rest r else if c = CHR '']'' then osc_rest r else None
   | [] \<Rightarrow> None)"

lemma csi_rest_length: "csi_rest s = Some r \<Longrightarrow> length r < length s"
proof -
  assume "csi_rest s = Some r"
  then have "length (dropWhile (\<lambda>c. is_digit c \<or> c = CHR '';'') s) = Suc (length r)"
    by (cases "dropWhile (\<lambda>c. is_digit c \<or> c = CHR '';'') s") (auto simp: csi_rest_def split: if_splits)
  then show ?thesis using length_dropWhile_le [of "\<lambda>c. is_digit c \<or> c = CHR '';''" s] by simp
qed

lemma after_last_st_length: "after_last_st s = Some r \<Longrightarrow> length r < length s"
  by (induction s arbitrary: r rule: after_last_st.induct) (auto split: option.splits if_splits)

lemma osc_rest_length: "osc_rest s = Some r \<Longrightarrow> length r < Suc (length s)"
  using length_dropWhile_le [of "\<lambda>c. c \<noteq> BEL" s] after_last_st_length [of s r]
  by (auto simp: osc_rest_def split: if_splits)

lemma ansi_rest_length: "ansi_rest s = Some r \<Longrightarrow> length r < length s"
  by (cases s) (auto simp: ansi_rest_def dest: csi_rest_length osc_rest_length split: if_splits)

function stripAnsi :: "string \<Rightarrow> string" where
  "stripAnsi [] = []"
| "stripAnsi (c # s) =
     (if c = ESC then (case ansi_rest s of Some r \<Rightarrow> stripAnsi r | None \<Rightarrow> c # stripAnsi s)
      else c # stripAnsi s)"
  by pat_completeness auto
termination by (relation "measure length") (auto dest: ansi_rest_length)

definition summarizeLoginFailure :: "string option \<Rightarrow> int option \<Rightarrow> string" where
  "summarizeLoginFailure log exitCode =
     (let ls = filter (\<lambda>l. l \<noteq> []) (map js_trim (split_on (CHR 0x0A)
                 (case truthy_str log of None \<Rightarrow> [] | Some t \<Rightarrow> stripAnsi t)));
          tail = join_with '' '' (drop (length ls - 4) ls)
      in if tail \<noteq> [] then ''Codex login failed: '' @ tail
         else if exitCode = Some 0 then ''Codex login finished without writing auth credentials.''
         else ''Codex login failed. Try again or switch to an API key.'')"

subsection \<open>The prompt of a device login\<close>

text \<open>\<open>https?:\/\/\S+\<close>: the first address of the text.\<close>

definition url_at :: "string \<Rightarrow> string option" where
  "url_at s =
     (let rest = (\<lambda>p. if starts_with s p then takeWhile (\<lambda>c. \<not> is_ws c) (drop (length p) s) else []) in
      if rest ''https://'' \<noteq> [] then Some (''https://'' @ rest ''https://'')
      else if rest ''http://'' \<noteq> [] then Some (''http://'' @ rest ''http://'')
      else None)"

fun find_url :: "string \<Rightarrow> string option" where
  "find_url [] = None"
| "find_url (c # s) = (case url_at (c # s) of Some u \<Rightarrow> Some u | None \<Rightarrow> find_url s)"

definition is_code_char :: "char \<Rightarrow> bool" where
  "is_code_char c \<longleftrightarrow> is_upper c \<or> is_digit c"

definition is_word_char :: "char \<Rightarrow> bool" where
  "is_word_char c \<longleftrightarrow> is_letter c \<or> is_digit c \<or> c = CHR ''_''"

text \<open>\<open>\b[A-Z0-9]{4,}-[A-Z0-9]{4,}\b\<close> at a position; the runs are maximal, as only then can a hyphen or
  the end of the word follow.\<close>

definition code_at :: "string \<Rightarrow> string option" where
  "code_at s =
     (let a = takeWhile is_code_char s; s1 = drop (length a) s; b = takeWhile is_code_char (tl s1);
          s2 = drop (length b) (tl s1)
      in if 4 \<le> length a \<and> s1 \<noteq> [] \<and> hd s1 = CHR ''-'' \<and> 4 \<le> length b \<and>
            (s2 = [] \<or> \<not> is_word_char (hd s2))
         then Some (a @ ''-'' @ b) else None)"

fun find_code :: "bool \<Rightarrow> string \<Rightarrow> string option" where
  "find_code prev [] = None"
| "find_code prev (c # s) =
     (case (if prev then None else code_at (c # s)) of
        Some u \<Rightarrow> Some u | None \<Rightarrow> find_code (is_word_char c) s)"

definition parseDeviceAuthPrompt :: "string \<Rightarrow> (string \<times> string) option" where
  "parseDeviceAuthPrompt value =
     (let clean = stripAnsi value in
      case (find_url clean, find_code False clean) of
        (Some uri, Some code) \<Rightarrow> Some (uri, code) | _ \<Rightarrow> None)"

section \<open>The credentials file\<close>

text \<open>
  \<open>parse\<close> is \<open>JSON.parse\<close> and \<open>b64\<close> the base64url text of a JSON document as its value; both may fail.
\<close>

definition decodeJwtPayload :: "(string \<Rightarrow> json option) \<Rightarrow> string option \<Rightarrow> json option" where
  "decodeJwtPayload b64 jwt =
     (case jwt of None \<Rightarrow> None
      | Some t \<Rightarrow> (case split_on (CHR ''.'') t of
          h # p # r \<Rightarrow> if p = [] then None else b64 p | _ \<Rightarrow> None))"

definition parseCodexAuthFile ::
    "(string \<Rightarrow> json option) \<Rightarrow> (string \<Rightarrow> json option) \<Rightarrow> int \<Rightarrow> string \<Rightarrow>
     (auth_cache \<times> string option) option" where
  "parseCodexAuthFile parse b64 now value =
     (case parse value of
        None \<Rightarrow> None
      | Some parsed \<Rightarrow>
          if parsed = JNull then None
          else
            (let authMode = json_str (json_get parsed ''auth_mode'');
                 apiKey = map_option js_trim (json_str (json_get parsed ''OPENAI_API_KEY''));
                 tokens = json_get parsed ''tokens'';
                 accountId = json_str (opt_get tokens ''account_id'');
                 idToken = json_str (opt_get tokens ''id_token'');
                 claims = opt_get (decodeJwtPayload b64 idToken) ''https://api.openai.com/auth''
             in if authMode = Some ''chatgptAuthTokens'' \<or> truthy_str accountId \<noteq> None \<or> truthy_str idToken \<noteq> None
                then Some (\<lparr>ac_method = AuthChatgpt, ac_accountId = accountId,
                     ac_workspaceId = or_else (json_str (opt_get claims ''chatgpt_account_id'')) accountId,
                     ac_planType = json_str (opt_get claims ''chatgpt_plan_type''),
                     ac_lastRefresh = json_str (json_get parsed ''last_refresh''), ac_updatedAt = now\<rparr>, None)
                else if authMode \<in> {Some ''apikey'', Some ''apiKey'', Some ''api_key''} \<or> truthy_str apiKey \<noteq> None
                then Some (\<lparr>ac_method = AuthApiKey, ac_accountId = None, ac_workspaceId = None,
                     ac_planType = None, ac_lastRefresh = None, ac_updatedAt = now\<rparr>,
                     map_option (\<lambda>k. drop (length k - 4) k) apiKey)
                else None))"

section \<open>Well-formed configurations\<close>

text \<open>
  What every stored configuration is: a pending login has no credentials, credentials are of the
  preferred method, an authenticated one has credentials and no error, and only an API key leaves its
  last characters.
\<close>

definition auth_ok :: "codex_config \<Rightarrow> bool" where
  "auth_ok c \<longleftrightarrow>
     (cc_status c = Some AuthPending \<longleftrightarrow> cc_pending c \<noteq> None) \<and>
     (cc_pending c \<noteq> None \<longrightarrow> cc_cache c = None \<and> cc_preferredMethod c = Some AuthChatgpt) \<and>
     (\<forall>k. cc_cache c = Some k \<longrightarrow> cc_preferredMethod c = Some (ac_method k)) \<and>
     (cc_status c = Some AuthDone \<longrightarrow> cc_cache c \<noteq> None \<and> cc_lastError c = None) \<and>
     (cc_status c = Some AuthInvalid \<longrightarrow> cc_preferredMethod c \<noteq> None \<and> cc_lastError c \<noteq> None) \<and>
     (cc_apiKeyLast4 c \<noteq> None \<longrightarrow> cc_preferredMethod c = Some AuthApiKey) \<and>
     (cc_updatedAt c = None \<longrightarrow> c = empty_codex)"

definition stored_ok :: "codex_config option \<Rightarrow> bool" where
  "stored_ok v \<longleftrightarrow> (case v of None \<Rightarrow> True | Some c \<Rightarrow> auth_ok c)"

lemma auth_ok_empty: "auth_ok empty_codex"
  by (simp add: auth_ok_def empty_codex_def)

lemma stored_ok_writes:
  assumes "stored_ok v"
  shows "stored_ok (setCodexPendingDeviceAuth now p v)" "stored_ok (setCodexAuthenticated now k l v)"
    "stored_ok (setCodexInvalid now m v)" "stored_ok (clearCodexConfig v)" "stored_ok (readHarnessAuthConfig v)"
proof -
  have c: "auth_ok (default_to (readHarnessAuthConfig v) empty_codex)"
    using assms auth_ok_empty by (auto simp: stored_ok_def readHarnessAuthConfig_def default_to_conv split: option.splits)
  show "stored_ok (setCodexPendingDeviceAuth now p v)"
    by (simp add: setCodexPendingDeviceAuth_def writeCodexConfig_def stored_ok_def auth_ok_def withTimestamp_def)
  show "stored_ok (setCodexAuthenticated now k l v)"
    by (simp add: setCodexAuthenticated_def writeCodexConfig_def stored_ok_def auth_ok_def withTimestamp_def)
  show "stored_ok (setCodexInvalid now m v)"
    using c by (auto simp: setCodexInvalid_def writeCodexConfig_def stored_ok_def auth_ok_def withTimestamp_def)
  show "stored_ok (clearCodexConfig v)"
    by (simp add: clearCodexConfig_def writeCodexConfig_def stored_ok_def)
  show "stored_ok (readHarnessAuthConfig v)"
    using assms by (simp add: readHarnessAuthConfig_def stored_ok_def)
qed

end
