(* ===== verification/Provider.thy ===== *)
theory Provider
  imports AuthState Reconciliation
begin

text \<open>
  What the task supervisor does inside a sandbox: the actions of
  \<open>packages/computer/src/harness/codex-provider.ts\<close> that prepare a task and the installation of
  \<open>codex-installer.ts\<close>, with the shell quoting of \<open>supervisor.ts\<close>.  The sandbox is a parameter: it says
  which actions fail.
\<close>

section \<open>Actions\<close>

text \<open>The generated scripts of \<open>wrapper-script.ts\<close> are named, not spelled out.\<close>

datatype file_content =
    Plain string
  | CallbackJs
  | NotifyJs
  | RunSh
  | ApiKeyAuth string          \<comment> \<open>\<open>{auth_mode: "apikey", OPENAI_API_KEY}\<close>\<close>
  | AuthDocument json

datatype sandbox_action =
    ExecCommand string
  | UploadFile file_content string
  | CreateSession string
  | DeleteSession string
  | RunSession string string   \<comment> \<open>session, command\<close>

text \<open>Actions one after the other, up to the first that fails; a failed deletion is ignored.\<close>

fun is_deletion :: "sandbox_action \<Rightarrow> bool" where
  "is_deletion (DeleteSession s) = True"
| "is_deletion _ = False"

fun run_actions :: "(sandbox_action \<Rightarrow> bool) \<Rightarrow> sandbox_action list \<Rightarrow> sandbox_action list \<times> bool" where
  "run_actions ok [] = ([], True)"
| "run_actions ok (a # as) =
     (if ok a \<or> is_deletion a then (case run_actions ok as of (done, r) \<Rightarrow> (a # done, r))
      else ([a], False))"

lemma run_actions_all: "snd (run_actions ok as) \<Longrightarrow> fst (run_actions ok as) = as"
  by (induction as) (auto split: prod.splits if_splits)

section \<open>Shell quoting\<close>

definition shellQuote :: "string \<Rightarrow> string" where
  "shellQuote value = CHR 0x27 # concat (map (\<lambda>c. if c = CHR 0x27
       then [CHR 0x27, CHR 0x22, CHR 0x27, CHR 0x22, CHR 0x27] else [c]) value) @ [CHR 0x27]"

text \<open>
  How a POSIX shell reads the first word of a command: text in single quotes is literal, text in double
  quotes is literal here up to the characters that keep a meaning there (dollar, backquote, backslash,
  which end this reading), a blank ends the word.  The result is the word and the rest.
\<close>

datatype quoting = Unquoted | InSingle | InDouble

fun sh_word :: "quoting \<Rightarrow> string \<Rightarrow> (string \<times> string) option" where
  "sh_word Unquoted [] = Some ([], [])"
| "sh_word Unquoted (c # s) =
     (if c = CHR 0x27 then sh_word InSingle s
      else if c = CHR 0x22 then sh_word InDouble s
      else if c = CHR '' '' \<or> c = CHR 0x09 \<or> c = CHR 0x0A then Some ([], c # s)
      else if c \<in> set ''$;&|<>()*?[#~=%!{}'' \<or> c = CHR 0x60 \<or> c = CHR 0x5C then None
      else map_option (apfst (\<lambda>w. c # w)) (sh_word Unquoted s))"
| "sh_word InSingle [] = None"
| "sh_word InSingle (c # s) =
     (if c = CHR 0x27 then sh_word Unquoted s
      else map_option (apfst (\<lambda>w. c # w)) (sh_word InSingle s))"
| "sh_word InDouble [] = None"
| "sh_word InDouble (c # s) =
     (if c = CHR 0x22 then sh_word Unquoted s
      else if c = CHR ''$'' \<or> c = CHR 0x60 \<or> c = CHR 0x5C then None
      else map_option (apfst (\<lambda>w. c # w)) (sh_word InDouble s))"

lemma sh_word_quoted:
  "sh_word InSingle (concat (map (\<lambda>c. if c = CHR 0x27
       then [CHR 0x27, CHR 0x22, CHR 0x27, CHR 0x22, CHR 0x27] else [c]) v) @ CHR 0x27 # rest) =
   map_option (apfst (\<lambda>w. v @ w)) (sh_word Unquoted rest)"
proof (induction v)
  case Nil
  then show ?case by (cases "sh_word Unquoted rest") (auto simp: apfst_def map_prod_def split: prod.splits)
next
  case (Cons c v)
  then show ?case by (cases "sh_word Unquoted rest"; cases "c = CHR 0x27") auto
qed

text \<open>The words of a command line.\<close>

lemma sh_word_length: "sh_word q s = Some (w, r) \<Longrightarrow> length r \<le> length s"
  by (induction q s arbitrary: w rule: sh_word.induct) (fastforce split: if_splits)+

lemma sh_word_progress:
  assumes "sh_word Unquoted (c # s) = Some (w, r)" "c \<noteq> CHR '' ''" "c \<noteq> CHR 0x09" "c \<noteq> CHR 0x0A"
  shows "length r < length (c # s)"
  using assms sh_word_length [of _ s _ r] by (auto split: if_splits) (metis le_imp_less_Suc)+

definition is_blank :: "char \<Rightarrow> bool" where
  "is_blank c \<longleftrightarrow> c = CHR '' '' \<or> c = CHR 0x09 \<or> c = CHR 0x0A"

function sh_words :: "string \<Rightarrow> string list option" where
  "sh_words s =
     (case dropWhile is_blank s of
        [] \<Rightarrow> Some []
      | c # t \<Rightarrow> (case sh_word Unquoted (c # t) of
          None \<Rightarrow> None | Some (w, r) \<Rightarrow> map_option (\<lambda>ws. w # ws) (sh_words r)))"
  by pat_completeness auto
termination
proof (relation "measure length")
  fix s c t x w r
  assume d: "dropWhile is_blank s = c # t" "sh_word Unquoted (c # t) = Some x" "(w, r) = x"
  then have "\<not> is_blank c" using hd_dropWhile [of is_blank s] by simp
  with d have "length r < length (c # t)" by (intro sh_word_progress) (auto simp: is_blank_def)
  also have "\<dots> \<le> length s" using length_dropWhile_le [of is_blank s] d(1) by simp
  finally show "(r, s) \<in> measure length" by simp
qed simp

declare sh_words.simps [simp del]

section \<open>Preparing a task\<close>

definition AGENT_HOME :: string where "AGENT_HOME = ''/home/agent''"

definition CODEX_HOME :: string where "CODEX_HOME = AGENT_HOME @ ''/.codex''"

definition nl :: string where "nl = [CHR 0x0A]"

text \<open>The dash of the instructions is no code unit of the model; it stands as its UTF-8 bytes.\<close>

definition AGENTS_MD :: string where
  "AGENTS_MD = join_with nl [''# Task Instructions'', [],
     ''You are a background agent executing a delegated task. Work autonomously to completion.'', [],
     ''## Output Requirements'',
     ''- Write your final output to ../artifacts/result.md'',
     ''- Save any generated files, data, or screenshots to ../artifacts/'',
     ''- Be thorough and complete '' @ [CHR 0xE2, CHR 0x80, CHR 0x94] @ '' there is no follow-up interaction'', []]"

definition dq :: "string \<Rightarrow> string" where "dq s = CHR 0x22 # s @ [CHR 0x22]"

definition PLAYWRIGHT_CONFIG :: string where
  "PLAYWRIGHT_CONFIG = join_with nl [''[mcp_servers.playwright]'', ''command = '' @ dq ''npx'',
     ''args = ['' @ join_with '', '' (map dq [''@playwright/mcp@latest'', ''--headless'', ''--browser'',
        ''chromium'', ''--isolated'']) @ '']'',
     ''startup_timeout_sec = 30'', []]"

definition buildCodexConfigToml :: "bool \<Rightarrow> bool \<Rightarrow> string" where
  "buildCodexConfigToml needsBrowser includeNotify =
     join_with (nl @ nl)
       ((if includeNotify then [''notify = ['' @ dq ''node'' @ '', '' @ dq ''../notify.js'' @ '']''] else []) @
        (if needsBrowser then [js_trim PLAYWRIGHT_CONFIG] else []))"

record task_config =
  tc_taskId :: string
  tc_prompt :: string
  tc_needsBrowser :: bool
  tc_instructions :: "string option"
  tc_callbackUrl :: "string option"
  tc_callbackId :: "string option"
  tc_callbackSecret :: "string option"

definition task_dir :: "string \<Rightarrow> string" where
  "task_dir taskId = TASK_BASE @ ''/'' @ taskId"

definition has_callback :: "task_config \<Rightarrow> bool" where
  "has_callback c \<longleftrightarrow> truthy_str (tc_callbackUrl c) \<noteq> None \<and> truthy_str (tc_callbackSecret c) \<noteq> None \<and>
     truthy_str (tc_callbackId c) \<noteq> None"

definition env_lines :: "task_config \<Rightarrow> string list" where
  "env_lines c =
     [''CODEX_HOME='' @ CODEX_HOME, ''AMBY_TASK_ID='' @ tc_taskId c] @
     (if has_callback c then
        [''AMBY_CALLBACK_URL='' @ default_to (tc_callbackUrl c) [],
         ''AMBY_CALLBACK_ID='' @ default_to (tc_callbackId c) [],
         ''AMBY_CALLBACK_SECRET='' @ default_to (tc_callbackSecret c) [],
         ''AMBY_EVENT_SEQ_START=1'']
      else [])"

definition prepare_actions :: "task_config \<Rightarrow> sandbox_action list" where
  "prepare_actions c =
     (let taskDir = task_dir (tc_taskId c); workspaceDir = taskDir @ ''/workspace'';
          artifactsDir = taskDir @ ''/artifacts''; hasCallback = has_callback c;
          toml = buildCodexConfigToml (tc_needsBrowser c) hasCallback
      in [ExecCommand (''mkdir -p '' @ workspaceDir @ ''/.codex '' @ artifactsDir),
          ExecCommand (''cd '' @ workspaceDir @ '' && git init'')] @
         (if js_trim toml \<noteq> [] then [UploadFile (Plain toml) (workspaceDir @ ''/.codex/config.toml'')] else []) @
         [UploadFile (Plain (case truthy_str (tc_instructions c) of
             Some i \<Rightarrow> AGENTS_MD @ nl @ i @ nl | None \<Rightarrow> AGENTS_MD)) (workspaceDir @ ''/AGENTS.md''),
          UploadFile (Plain (tc_prompt c)) (workspaceDir @ ''/prompt.txt''),
          UploadFile CallbackJs (taskDir @ ''/callback.js'')] @
         (if hasCallback then [UploadFile NotifyJs (taskDir @ ''/notify.js'')] else []) @
         [UploadFile RunSh (taskDir @ ''/run.sh''),
          UploadFile (Plain (join_with nl (env_lines c) @ nl)) (taskDir @ ''/.env'')])"

definition build_command :: "task_config \<Rightarrow> string" where
  "build_command c =
     ''cd '' @ task_dir (tc_taskId c) @ '' && chmod +x run.sh callback.js'' @
     (if has_callback c then '' notify.js'' else []) @ '' && sh run.sh''"

section \<open>Staged inputs\<close>

record download =
  dl_filename :: string
  dl_url :: string

definition input_dir :: "string \<Rightarrow> string" where
  "input_dir taskId = task_dir taskId @ ''/inputs''"

definition staging_actions :: "string \<Rightarrow> download list \<Rightarrow> sandbox_action list" where
  "staging_actions taskId ds =
     (if ds = [] then [] else
        ExecCommand (''mkdir -p '' @ shellQuote (input_dir taskId)) #
        map (\<lambda>d. ExecCommand (''curl -fsSL '' @ shellQuote (dl_url d) @ '' -o '' @
               shellQuote (input_dir taskId @ ''/'' @ dl_filename d))) ds)"

definition staged_instructions :: "string option \<Rightarrow> download list \<Rightarrow> string option" where
  "staged_instructions instructions ds =
     (if ds = [] then instructions
      else Some (join_with nl (filter (\<lambda>l. l \<noteq> [])
        ([case instructions of None \<Rightarrow> [] | Some i \<Rightarrow> js_trim i,
          ''Input files are staged in ../inputs/ before the task starts.'', ''Available input files:''] @
         map (\<lambda>d. ''- '' @ dl_filename d) ds))))"

section \<open>Installation\<close>

text \<open>
  What the sandbox answers: the cached manifest (none when it cannot be read or parsed), the version
  that \<open>codex --version\<close> prints before and after, the exit code of the installation, and whether the
  manifest can be written; \<open>None\<close> is an exception.
\<close>

record install_env =
  ie_manifest :: "json option"
  ie_check :: "string option"
  ie_install :: "int option"
  ie_version :: "string option"
  ie_write :: bool

fun json_truthy :: "json option \<Rightarrow> bool" where
  "json_truthy None = False"
| "json_truthy (Some JNull) = False"
| "json_truthy (Some (JBool b)) = b"
| "json_truthy (Some (JNum n)) = (n \<noteq> 0)"
| "json_truthy (Some (JStr s)) = (s \<noteq> [])"
| "json_truthy (Some (JArr xs)) = True"
| "json_truthy (Some (JObj kvs)) = True"

text \<open>\<open>installed\<close>, or an exception.\<close>

definition ensureInstalled :: "install_env \<Rightarrow> bool option" where
  "ensureInstalled ie =
     (if json_truthy (opt_get (opt_get (ie_manifest ie) ''codex'') ''version'') then Some True
      else (case ie_check ie of
          None \<Rightarrow> None
        | Some v \<Rightarrow>
            if js_trim v \<noteq> [] then (if ie_write ie then Some True else None)
            else (case ie_install ie of
                None \<Rightarrow> None
              | Some code \<Rightarrow>
                  if code \<noteq> 0 then Some False
                  else if ie_version ie = None \<or> \<not> ie_write ie then None
                  else Some True)))"

end
