(* ===== verification/Supervisor.thy ===== *)
theory Supervisor
  imports Provider
begin

text \<open>
  The task supervisor of \<open>packages/computer/src/harness/supervisor.ts\<close>: credentials, the start of a task,
  the heartbeat of the tasks it follows, recovery, and the reads.

  The state is the tables, the stored credentials of the users that have a volume, the traces, the tasks
  in the supervisor's memory and the actions done in sandboxes.  The sandbox is a parameter; a call of it
  answers or throws.  Queries of the tables that the code only reads with succeed; a completion that
  cannot be written throws.
\<close>

section \<open>State\<close>

definition MAX_ACTIVE_TASKS_PER_USER :: nat where "MAX_ACTIVE_TASKS_PER_USER = 5"
definition MAX_HEARTBEAT_FAILURES :: nat where "MAX_HEARTBEAT_FAILURES = 3"
definition DEFAULT_TASK_TIMEOUT_SECONDS :: int where "DEFAULT_TASK_TIMEOUT_SECONDS = 300"
definition PREPARING_TIMEOUT_MS :: int where "PREPARING_TIMEOUT_MS = 10 * 60 * 1000"
definition POLL_INTERVAL_MS :: int where "POLL_INTERVAL_MS = 2000"
definition MAX_WAIT_SECONDS :: int where "MAX_WAIT_SECONDS = 15"

definition taskSessionId :: "string \<Rightarrow> string" where "taskSessionId taskId = ''task-'' @ taskId"

definition CODEX_AUTH_FILE :: string where "CODEX_AUTH_FILE = CODEX_HOME @ ''/auth.json''"
definition CODEX_AUTH_LOG :: string where "CODEX_AUTH_LOG = CODEX_HOME @ ''/login.out''"
definition CODEX_CONFIG_FILE :: string where "CODEX_CONFIG_FILE = CODEX_HOME @ ''/config.toml''"
definition CODEX_CONFIG :: string where
  "CODEX_CONFIG = ''cli_auth_credentials_store = '' @ dq ''file'' @ nl"

record active_task =
  av_taskId :: string
  av_traceId :: "string option"
  av_sandbox :: string
  av_sessionId :: string
  av_commandId :: string
  av_startedAt :: int
  av_timeoutSeconds :: int
  av_failures :: nat
  av_hasCallbacks :: bool

record supervisor =
  su_db :: task_db
  su_auth :: "(string \<times> codex_config option) list"
  su_traces :: "trace_entry list"
  su_active :: "(string \<times> active_task) list"
  su_log :: "sandbox_action list"

text \<open>What the sandboxes answer, next to what a probe asks of them.\<close>

record sup_env = probe_env +
  se_sandbox :: "string \<Rightarrow> string + string"      \<comment> \<open>user: error, or the sandbox\<close>
  se_read :: "string \<Rightarrow> string option"          \<comment> \<open>file, null when it cannot be read\<close>
  se_refresh :: "string \<Rightarrow> bool"               \<comment> \<open>\<open>refreshActivity\<close> of the sandbox of a task\<close>
  se_session :: "string \<Rightarrow> bool"               \<comment> \<open>\<open>getSession\<close>\<close>
  se_act :: "sandbox_action \<Rightarrow> bool"
  se_cmdId :: string
  se_install :: install_env
  se_json :: "string \<Rightarrow> json option"
  se_b64 :: "string \<Rightarrow> json option"

definition log_action :: "sandbox_action list \<Rightarrow> supervisor \<Rightarrow> supervisor" where
  "log_action as s = s\<lparr>su_log := su_log s @ as\<rparr>"

definition deletePendingSession :: "string option \<Rightarrow> supervisor \<Rightarrow> supervisor" where
  "deletePendingSession sessionId s =
     (case truthy_str sessionId of None \<Rightarrow> s | Some i \<Rightarrow> log_action [DeleteSession i] s)"

definition deletion :: "string option \<Rightarrow> sandbox_action list" where
  "deletion sessionId = (case truthy_str sessionId of None \<Rightarrow> [] | Some i \<Rightarrow> [DeleteSession i])"

definition drop_active :: "string \<Rightarrow> supervisor \<Rightarrow> supervisor" where
  "drop_active taskId s = s\<lparr>su_active := AList.delete taskId (su_active s)\<rparr>"

definition set_active :: "active_task \<Rightarrow> supervisor \<Rightarrow> supervisor" where
  "set_active t s = s\<lparr>su_active := AList.update (av_taskId t) t (su_active s)\<rparr>"

section \<open>Credentials\<close>

text \<open>Credentials are kept in the row of the user's volume: without one there is nothing to write to.\<close>

definition loadAuthConfig :: "string \<Rightarrow> supervisor \<Rightarrow> codex_config option" where
  "loadAuthConfig userId s = default_to (map_of (su_auth s) userId) None"

definition saveAuthConfig :: "string \<Rightarrow> codex_config option \<Rightarrow> supervisor \<Rightarrow> supervisor" where
  "saveAuthConfig userId v s =
     (if map_of (su_auth s) userId = None then s
      else s\<lparr>su_auth := AList.update userId (readHarnessAuthConfig v) (su_auth s)\<rparr>)"

definition pending_session :: "codex_config option \<Rightarrow> string option" where
  "pending_session v = map_option da_sessionId (Option.bind (readHarnessAuthConfig v) cc_pending)"

definition save_and_summarize ::
    "string \<Rightarrow> codex_config option \<Rightarrow> supervisor \<Rightarrow> supervisor \<times> auth_summary" where
  "save_and_summarize userId v s = (saveAuthConfig userId v s, summarizeCodexAuth v)"

definition syncCodexAuthStatus ::
    "sup_env \<Rightarrow> int \<Rightarrow> string \<Rightarrow> supervisor \<Rightarrow> supervisor \<times> auth_summary" where
  "syncCodexAuthStatus env now userId s =
     (let raw = loadAuthConfig userId s; current = readHarnessAuthConfig raw;
          save = (\<lambda>v. save_and_summarize userId v s)
      in case (truthy_str (se_read env CODEX_AUTH_FILE), current) of
          (Some authJson, _) \<Rightarrow>
            (case parseCodexAuthFile (se_json env) (se_b64 env) now authJson of
               None \<Rightarrow> save (setCodexInvalid now
                 ''Codex credentials exist in the sandbox, but the cache is invalid. Reconnect Codex.'' raw)
             | Some (cache, last4) \<Rightarrow>
                 apfst (deletePendingSession (pending_session raw))
                   (save (setCodexAuthenticated now cache last4 raw)))
        | (None, None) \<Rightarrow> (s, summarizeCodexAuth None)
        | (None, Some c) \<Rightarrow>
            (case cc_pending c of
               Some p \<Rightarrow>
                 (case pe_command env (da_sessionId p) (da_commandId p) of
                    Inl e \<Rightarrow> save (setCodexInvalid now
                      ''The Codex login session ended before authentication completed. Start it again.'' raw)
                  | Inr None \<Rightarrow> (s, summarizeCodexAuth raw)
                  | Inr (Some code) \<Rightarrow>
                      apfst (deletePendingSession (Some (da_sessionId p)))
                        (save (setCodexInvalid now
                           (summarizeLoginFailure (se_read env CODEX_AUTH_LOG) (Some code)) raw)))
             | None \<Rightarrow>
                 if cc_preferredMethod c \<noteq> None
                 then save (setCodexInvalid now
                   ''Stored Codex credentials were not found in the sandbox. Reconnect Codex.'' raw)
                 else (s, summarizeCodexAuth raw)))"

definition requireCodexAuth ::
    "sup_env \<Rightarrow> int \<Rightarrow> string \<Rightarrow> supervisor \<Rightarrow> supervisor \<times> (string + string)" where
  "requireCodexAuth env now userId s =
     (case syncCodexAuthStatus env now userId s of
        (s1, auth) \<Rightarrow>
          (s1,
           case (as_status auth, as_method auth, as_pending auth) of
             (AuthDone, Some m, _) \<Rightarrow> Inr (if m = AuthChatgpt then ''chatgpt_account'' else ''api_key'')
           | (AuthPending, _, Some (uri, code, t)) \<Rightarrow>
               Inl (''Codex login is still pending. Open '' @ uri @ '' and enter '' @ code @ ''.'')
           | _ \<Rightarrow> Inl (default_to (as_error auth)
               ''Codex is not configured yet. Connect it with ChatGPT login or an API key first.'')))"

definition ensure_home :: "sandbox_action list" where
  "ensure_home = [ExecCommand (''mkdir -p '' @ CODEX_HOME), UploadFile (Plain CODEX_CONFIG) CODEX_CONFIG_FILE]"

text \<open>
  The operations on credentials: the sandbox is made ready and holds the credentials before the
  configuration is written.  \<open>Inl\<close> is the error of the operation.
\<close>

definition with_sandbox ::
    "sup_env \<Rightarrow> string \<Rightarrow> supervisor \<Rightarrow> (supervisor \<Rightarrow> supervisor \<times> (string + 'a)) \<Rightarrow>
     supervisor \<times> (string + 'a)" where
  "with_sandbox env userId s k = (case se_sandbox env userId of Inl e \<Rightarrow> (s, Inl e) | Inr _ \<Rightarrow> k s)"

definition write_auth ::
    "sup_env \<Rightarrow> string \<Rightarrow> sandbox_action list \<Rightarrow> codex_config option \<Rightarrow> supervisor \<Rightarrow>
     supervisor \<times> (string + auth_summary)" where
  "write_auth env userId actions next s =
     (case run_actions (se_act env) actions of
        (done, False) \<Rightarrow> (log_action done s, Inl ''sandbox'')
      | (done, True) \<Rightarrow> apsnd Inr (save_and_summarize userId next (log_action done s)))"

definition getCodexAuthStatus ::
    "sup_env \<Rightarrow> int \<Rightarrow> string \<Rightarrow> supervisor \<Rightarrow> supervisor \<times> (string + auth_summary)" where
  "getCodexAuthStatus env now userId s =
     with_sandbox env userId s (\<lambda>s. apsnd Inr (syncCodexAuthStatus env now userId s))"

definition setCodexApiKey ::
    "sup_env \<Rightarrow> int \<Rightarrow> string \<Rightarrow> string \<Rightarrow> supervisor \<Rightarrow> supervisor \<times> (string + auth_summary)" where
  "setCodexApiKey env now userId apiKey s =
     (let trimmed = js_trim apiKey in
      if trimmed = [] then (s, Inl ''OpenAI API key cannot be empty.'')
      else with_sandbox env userId s (\<lambda>s.
        let raw = loadAuthConfig userId s in
        write_auth env userId
          (ensure_home @ deletion (pending_session raw) @ [ExecCommand (''rm -f '' @ CODEX_AUTH_LOG),
             UploadFile (ApiKeyAuth trimmed) CODEX_AUTH_FILE])
          (setCodexAuthenticated now
             \<lparr>ac_method = AuthApiKey, ac_accountId = None, ac_workspaceId = None, ac_planType = None,
              ac_lastRefresh = None, ac_updatedAt = now\<rparr>
             (Some (drop (length trimmed - 4) trimmed)) raw) s))"

definition importCodexChatgptAuth ::
    "sup_env \<Rightarrow> int \<Rightarrow> string \<Rightarrow> string \<Rightarrow> supervisor \<Rightarrow> supervisor \<times> (string + auth_summary)" where
  "importCodexChatgptAuth env now userId authJson s =
     (case parseCodexAuthFile (se_json env) (se_b64 env) now authJson of
        Some (cache, last4) \<Rightarrow>
          if ac_method cache \<noteq> AuthChatgpt
          then (s, Inl ''That auth.json does not contain ChatGPT Codex credentials.'')
          else with_sandbox env userId s (\<lambda>s.
            let raw = loadAuthConfig userId s in
            write_auth env userId
              (ensure_home @ deletion (pending_session raw) @ [ExecCommand (''rm -f '' @ CODEX_AUTH_LOG),
                 UploadFile (AuthDocument (default_to (se_json env authJson) JNull)) CODEX_AUTH_FILE])
              (setCodexAuthenticated now cache None raw) s)
      | None \<Rightarrow> (s, Inl ''That auth.json does not contain ChatGPT Codex credentials.''))"

definition clearCodexAuth ::
    "sup_env \<Rightarrow> string \<Rightarrow> supervisor \<Rightarrow> supervisor \<times> (string + auth_summary)" where
  "clearCodexAuth env userId s =
     with_sandbox env userId s (\<lambda>s.
       let raw = loadAuthConfig userId s in
       write_auth env userId
         (deletion (pending_session raw) @
            [ExecCommand (''rm -f '' @ CODEX_AUTH_FILE @ '' '' @ CODEX_AUTH_LOG)])
         (clearCodexConfig raw) s)"

text \<open>
  The start of a device login: the log as it is read at most twenty times, half a second apart, until it
  shows the prompt, and once more when it does not.
\<close>

fun poll_prompt :: "nat \<Rightarrow> (nat \<Rightarrow> string option) \<Rightarrow> nat \<Rightarrow> (string \<times> string) option" where
  "poll_prompt 0 logs i = None"
| "poll_prompt (Suc n) logs i =
     (case Option.bind (truthy_str (logs i)) parseDeviceAuthPrompt of
        Some p \<Rightarrow> Some p | None \<Rightarrow> poll_prompt n logs (Suc i))"

definition login_command :: string where
  "login_command = ''cd '' @ AGENT_HOME @ '' && export CODEX_HOME='' @ CODEX_HOME @ '' && mkdir -p '' @ CODEX_HOME @
     '' && codex login --device-auth -c '' @ [CHR 0x27] @ ''cli_auth_credentials_store='' @ dq ''file'' @ [CHR 0x27] @
     '' 2>&1 | tee '' @ CODEX_AUTH_LOG"

definition startCodexChatgptAuth ::
    "sup_env \<Rightarrow> int \<Rightarrow> string \<Rightarrow> (nat \<Rightarrow> string option) \<Rightarrow> string \<Rightarrow> supervisor \<Rightarrow>
     supervisor \<times> (string + auth_summary)" where
  "startCodexChatgptAuth env now sessionId logs userId s0 =
     with_sandbox env userId s0 (\<lambda>s.
       case syncCodexAuthStatus env now userId s of
         (s1, current) \<Rightarrow>
           if as_status current = AuthPending \<or>
              (as_status current = AuthDone \<and> as_method current = Some AuthChatgpt)
           then (s1, Inr current)
           else if ensureInstalled (se_install env) \<noteq> Some True
           then (s1, Inl ''Failed to install Codex CLI in sandbox.'')
           else
             (let raw = loadAuthConfig userId s1 in
              case run_actions (se_act env)
                     (ensure_home @ deletion (pending_session raw) @
                       [ExecCommand (''rm -f '' @ CODEX_AUTH_FILE @ '' '' @ CODEX_AUTH_LOG),
                        CreateSession sessionId, RunSession sessionId login_command]) of
                (done, False) \<Rightarrow> (log_action done s1, Inl ''sandbox'')
              | (done, True) \<Rightarrow>
                  (let s2 = log_action done s1 in
                   case poll_prompt 20 logs 0 of
                     None \<Rightarrow> (deletePendingSession (Some sessionId) s2,
                              Inl (summarizeLoginFailure (logs 20) None))
                   | Some (uri, code) \<Rightarrow>
                       apsnd Inr (save_and_summarize userId
                         (setCodexPendingDeviceAuth now
                            \<lparr>da_verificationUri = uri, da_userCode = code, da_sessionId = sessionId,
                             da_commandId = se_cmdId env, da_startedAt = now\<rparr> raw) s2))))"

section \<open>The end of a task\<close>

definition complete_params ::
    "string \<Rightarrow> terminal_status \<Rightarrow> string \<Rightarrow> string option \<Rightarrow> json \<Rightarrow> completion_params" where
  "complete_params taskId status summary err payload =
     \<lparr>cp_taskId = taskId, cp_status = status, cp_summary = summary, cp_output = None, cp_artifacts = None,
      cp_error = err, cp_exitCode = None, cp_runtimeData = None, cp_payload = Some payload\<rparr>"

text \<open>
  Completion with its trace event; the flag is false when the completion throws, and the state is then
  the old one.
\<close>

definition complete_traced ::
    "int \<Rightarrow> string \<Rightarrow> completion_params \<Rightarrow> string option \<Rightarrow> string option \<Rightarrow> int option \<Rightarrow> string option \<Rightarrow>
     supervisor \<Rightarrow> supervisor \<times> bool" where
  "complete_traced now uuid p traceId message exitCode reason s =
     (case completeTask now uuid p (su_db s) of
        None \<Rightarrow> (s, False)
      | Some (db, done) \<Rightarrow>
          (s\<lparr>su_db := db,
             su_traces := su_traces s @
               (if done then appendTaskTraceTerminalEvent traceId (cp_taskId p) (status_of (cp_status p))
                               message exitCode reason else [])\<rparr>, True))"

definition reason_payload :: "string \<Rightarrow> json" where
  "reason_payload reason = JObj [(''reason'', JStr reason)]"

definition finalizeTask ::
    "sup_env \<Rightarrow> int \<Rightarrow> string \<Rightarrow> active_task \<Rightarrow> int \<Rightarrow> supervisor \<Rightarrow> supervisor \<times> bool" where
  "finalizeTask env now uuid t exitCode s =
     (if map_of (su_active s) (av_taskId t) = None then (s, True)
      else
        (let currentTask = getById (av_taskId t) (su_db s);
             finish = (\<lambda>s. drop_active (av_taskId t) (deletePendingSession (Some (av_sessionId t)) s))
         in case currentTask of
              Some r \<Rightarrow>
                if isTerminalStatus (tk_status r) then (finish s, True)
                else
                  (let root = default_to (Option.bind (readSandboxRuntimeData r) sr_artifactRoot)
                                (getArtifactRoot (av_taskId t));
                       d = (case pe_files env root of
                              Inl e \<Rightarrow> \<lparr>xd_output = [], xd_summary = ''Task completed'', xd_artifacts = JArr []\<rparr>
                            | Inr f \<Rightarrow> collectTaskExecutionData (pe_number env) root f)
                   in case complete_traced now uuid
                          (result_params (av_taskId t) (exitCode = 0) exitCode d
                             (JObj [(''exitCode'', JNum exitCode), (''summary'', JStr (xd_summary d))]))
                          (or_else (av_traceId t) (tk_traceId r)) (Some (xd_summary d)) (Some exitCode) None s of
                       (s1, False) \<Rightarrow> (s1, False)
                     | (s1, True) \<Rightarrow> (finish s1, True))
            | None \<Rightarrow> (finish s, True)))"

definition timeoutTask ::
    "int \<Rightarrow> string \<Rightarrow> active_task \<Rightarrow> supervisor \<Rightarrow> supervisor \<times> bool" where
  "timeoutTask now uuid t s =
     (let s1 = deletePendingSession (Some (av_sessionId t)) s in
      case getById (av_taskId t) (su_db s1) of
        Some r \<Rightarrow>
          if isTerminalStatus (tk_status r) then (drop_active (av_taskId t) s1, True)
          else (case complete_traced now uuid
                  (complete_params (av_taskId t) TTimedOut ''Task timed out.'' None (reason_payload ''task_timeout''))
                  (or_else (av_traceId t) (tk_traceId r)) None None (Some ''task_timeout'') s1 of
              (s2, False) \<Rightarrow> (s2, False)
            | (s2, True) \<Rightarrow> (drop_active (av_taskId t) s2, True))
      | None \<Rightarrow> (drop_active (av_taskId t) s1, True))"

section \<open>Heartbeat\<close>

definition timed_out :: "int \<Rightarrow> active_task \<Rightarrow> bool" where
  "timed_out now t \<longleftrightarrow> now - av_startedAt t > 1000 * av_timeoutSeconds t"

text \<open>The try block for one task; false when it throws.\<close>

definition heartbeat_try ::
    "sup_env \<Rightarrow> int \<Rightarrow> string \<Rightarrow> active_task \<Rightarrow> supervisor \<Rightarrow> supervisor \<times> bool" where
  "heartbeat_try env now uuid t s =
     (if \<not> se_refresh env (av_taskId t) then (s, False)
      else if av_hasCallbacks t then (if timed_out now t then timeoutTask now uuid t s else (s, True))
      else (case pe_command env (av_sessionId t) (av_commandId t) of
          Inl e \<Rightarrow> (s, False)
        | Inr code \<Rightarrow>
            (let t1 = t\<lparr>av_failures := 0\<rparr>;
                 s1 = set_active t1 (s\<lparr>su_db := heartbeat now (av_taskId t) (su_db s)\<rparr>)
             in case code of
                  Some exitCode \<Rightarrow> finalizeTask env now uuid t1 exitCode s1
                | None \<Rightarrow> if timed_out now t1 then timeoutTask now uuid t1 s1 else (s1, True))))"

text \<open>
  The catch block: the task in memory counts a failure, and after the last one the task is lost.  False
  when the completion throws, which ends the whole round.
\<close>

definition heartbeat_catch :: "int \<Rightarrow> string \<Rightarrow> string \<Rightarrow> supervisor \<Rightarrow> supervisor \<times> bool" where
  "heartbeat_catch now uuid taskId s =
     (case map_of (su_active s) taskId of
        None \<Rightarrow> (s, True)
      | Some t \<Rightarrow>
          (let t1 = t\<lparr>av_failures := Suc (av_failures t)\<rparr>; s1 = set_active t1 s
           in if av_failures t1 < MAX_HEARTBEAT_FAILURES then (s1, True)
              else (case getById taskId (su_db s1) of
                  None \<Rightarrow> (drop_active taskId s1, True)
                | Some r \<Rightarrow>
                    if isTerminalStatus (tk_status r) then (drop_active taskId s1, True)
                    else (case complete_traced now uuid
                            (complete_params taskId TLost ''Task lost after repeated heartbeat failures.'' None
                               (reason_payload ''heartbeat_failures''))
                            (or_else (av_traceId t) (tk_traceId r)) None None (Some ''heartbeat_failures'') s1 of
                        (s2, False) \<Rightarrow> (s2, False)
                      | (s2, True) \<Rightarrow> (drop_active taskId s2, True)))))"

fun heartbeat_round ::
    "sup_env \<Rightarrow> int \<Rightarrow> (string \<Rightarrow> uuids) \<Rightarrow> active_task list \<Rightarrow> supervisor \<Rightarrow> supervisor" where
  "heartbeat_round env now uuid [] s = s"
| "heartbeat_round env now uuid (t # ts) s =
     (case heartbeat_try env now (uuid (av_taskId t) 0) t s of
        (s1, True) \<Rightarrow> heartbeat_round env now uuid ts s1
      | (s1, False) \<Rightarrow>
          (case heartbeat_catch now (uuid (av_taskId t) 1) (av_taskId t) s1 of
             (s2, True) \<Rightarrow> heartbeat_round env now uuid ts s2
           | (s2, False) \<Rightarrow> s2))"

definition heartbeat_tick :: "sup_env \<Rightarrow> int \<Rightarrow> (string \<Rightarrow> uuids) \<Rightarrow> supervisor \<Rightarrow> supervisor" where
  "heartbeat_tick env now uuid s = heartbeat_round env now uuid (map snd (su_active s)) s"

section \<open>Recovery\<close>

definition lose ::
    "int \<Rightarrow> string \<Rightarrow> task_row \<Rightarrow> string \<Rightarrow> string option \<Rightarrow> string \<Rightarrow> supervisor \<Rightarrow> supervisor \<times> bool" where
  "lose now uuid r summary err reason s =
     complete_traced now uuid (complete_params (tk_id r) TLost summary err (reason_payload reason))
       (tk_traceId r) None None (Some reason) s"

definition recover_preparing ::
    "int \<Rightarrow> (string \<Rightarrow> uuids) \<Rightarrow> task_row list \<Rightarrow> supervisor \<Rightarrow> supervisor" where
  "recover_preparing now uuid rows s =
     fold (\<lambda>r s. fst (lose now (uuid (tk_id r) 0) r ''Task did not start in time.''
        (Some ''Task did not start in time.'') ''preparing_timeout'' s)) rows s"

definition recovered_task :: "int \<Rightarrow> string \<Rightarrow> sandbox_runtime \<Rightarrow> task_row \<Rightarrow> active_task" where
  "recovered_task now sandbox rd r =
     \<lparr>av_taskId = tk_id r, av_traceId = tk_traceId r, av_sandbox = sandbox,
      av_sessionId = default_to (sr_sessionId rd) [], av_commandId = default_to (sr_commandId rd) [],
      av_startedAt = default_to (tk_startedAt r) now, av_timeoutSeconds = DEFAULT_TASK_TIMEOUT_SECONDS,
      av_failures = 0, av_hasCallbacks = truthy_str (tk_callbackSecretHash r) \<noteq> None\<rparr>"

fun recover_running ::
    "sup_env \<Rightarrow> int \<Rightarrow> (string \<Rightarrow> uuids) \<Rightarrow> task_row list \<Rightarrow> supervisor \<Rightarrow> supervisor" where
  "recover_running env now uuid [] s = s"
| "recover_running env now uuid (r # rs) s =
     (let known = (case readSandboxRuntimeData r of
            None \<Rightarrow> None
          | Some rd \<Rightarrow> if truthy_str (sr_sandboxId rd) = None \<or> truthy_str (sr_sessionId rd) = None \<or>
                        truthy_str (sr_commandId rd) = None then None else Some rd);
          next = (case known of
            None \<Rightarrow> lose now (uuid (tk_id r) 0) r
                ''Task lost because the sandbox session metadata is missing.'' None ''missing_session'' s
          | Some rd \<Rightarrow>
              (case se_sandbox env (tk_userId r) of
                 Inr sandbox \<Rightarrow>
                   if se_session env (default_to (sr_sessionId rd) [])
                   then (set_active (recovered_task now sandbox rd r) s, True)
                   else lose now (uuid (tk_id r) 0) r ''Task lost because sandbox recovery failed.'' None
                          ''sandbox_recovery_failed'' s
               | Inl e \<Rightarrow> lose now (uuid (tk_id r) 0) r ''Task lost because sandbox recovery failed.'' None
                          ''sandbox_recovery_failed'' s))
      in case next of
           (s1, True) \<Rightarrow> recover_running env now uuid rs s1
         | (s1, False) \<Rightarrow> s1)"

definition recoverRunning :: "sup_env \<Rightarrow> int \<Rightarrow> (string \<Rightarrow> uuids) \<Rightarrow> supervisor \<Rightarrow> supervisor" where
  "recoverRunning env now uuid s =
     recover_running env now uuid (findRunningSandboxTasks (su_db s))
       (recover_preparing now uuid
          (findStalePreparingSandboxTasks (now - PREPARING_TIMEOUT_MS) (su_db s)) s)"

section \<open>Starting a task\<close>

record start_params =
  sp_taskId :: "string option"
  sp_userId :: string
  sp_prompt :: string
  sp_instructions :: "string option"
  sp_needsBrowser :: "bool option"
  sp_conversationId :: "string option"
  sp_threadId :: "string option"
  sp_traceId :: "string option"
  sp_parentTaskId :: "string option"
  sp_rootTaskId :: "string option"
  sp_specialist :: "specialist_kind option"
  sp_runnerKind :: "runner_kind option"
  sp_input :: "json option"
  sp_metadata :: "json option"
  sp_downloads :: "download list"
  sp_confirmationState :: "string option"

text \<open>
  What a start draws from the platform: identifiers for the task, the callback and the events, the
  callback secret with its hash; and the base address of the API.
\<close>

record start_draws =
  sd_taskId :: string
  sd_callbackId :: string
  sd_secret :: "string \<times> string"
  sd_events :: uuids
  sd_apiUrl :: string

definition callback_url :: "string \<Rightarrow> string" where
  "callback_url api = (if api \<noteq> [] \<and> last api = CHR ''/'' then butlast api else api) @ ''/internal/task-events''"

definition start_replyTarget :: "start_params \<Rightarrow> task_db \<Rightarrow> json option" where
  "start_replyTarget p db =
     (case truthy_str (sp_conversationId p) of
        None \<Rightarrow> None
      | Some c \<Rightarrow>
          if getConversationPlatform c db \<noteq> Some ''telegram'' then None
          else map_option (\<lambda>i. JObj [(''channel'', JStr ''telegram''), (''chatId'', JNum i)])
                 (getStoredTelegramChatId (sp_userId p) db))"

text \<open>The credentials, the installation and the limit, before anything is written.\<close>

definition start_check ::
    "sup_env \<Rightarrow> int \<Rightarrow> start_params \<Rightarrow> supervisor \<Rightarrow> supervisor \<times> (string + string \<times> string)" where
  "start_check env now p s =
     (case se_sandbox env (sp_userId p) of
        Inl e \<Rightarrow> (s, Inl e)
      | Inr sandbox \<Rightarrow>
          (case requireCodexAuth env now (sp_userId p) s of
             (s1, Inl e) \<Rightarrow> (s1, Inl e)
           | (s1, Inr authMode) \<Rightarrow>
               (case ensureInstalled (se_install env) of
                  None \<Rightarrow> (s1, Inl ''Failed to install Codex'')
                | Some False \<Rightarrow> (s1, Inl ''Failed to install Codex CLI in sandbox'')
                | Some True \<Rightarrow>
                    if MAX_ACTIVE_TASKS_PER_USER \<le> countActiveSandboxTasks (sp_userId p) (su_db s1)
                    then (s1, Inl ''active task limit'')
                    else (s1, Inr (sandbox, authMode)))))"

definition start_row ::
    "int \<Rightarrow> start_params \<Rightarrow> start_draws \<Rightarrow> string \<Rightarrow> string \<Rightarrow> task_db \<Rightarrow> task_row" where
  "start_row now p d sandbox authMode db =
     (let taskId = default_to (sp_taskId p) (sd_taskId d) in
      (default_row now taskId (sp_userId p) SandboxRuntime Codex (sp_prompt p))
        \<lparr>tk_status := Preparing, tk_threadId := sp_threadId p, tk_traceId := sp_traceId p,
         tk_parentTaskId := sp_parentTaskId p,
         tk_rootTaskId := Some (default_to (sp_rootTaskId p) taskId),
         tk_specialist := sp_specialist p, tk_runnerKind := sp_runnerKind p, tk_input := sp_input p,
         tk_confirmationState := sp_confirmationState p,
         tk_requiresBrowser := default_to (sp_needsBrowser p) False,
         tk_runtimeData := mergeRuntimeData None
           [(''authMode'', Some (JStr authMode)), (''sandboxId'', Some (JStr sandbox))],
         tk_conversationId := sp_conversationId p, tk_replyTarget := start_replyTarget p db,
         tk_callbackId := Some (sd_callbackId d), tk_callbackSecretHash := Some (snd (sd_secret d)),
         tk_lastEventSeq := 0, tk_metadata := sp_metadata p\<rparr>)"

fun runner_kind_name :: "runner_kind \<Rightarrow> string" where
  "runner_kind_name RToolloop = ''toolloop''"
| "runner_kind_name RBrowserService = ''browser_service''"
| "runner_kind_name RBackgroundHandoff = ''background_handoff''"

definition start_payload :: "start_params \<Rightarrow> string \<Rightarrow> json" where
  "start_payload p taskId =
     JObj [(''conversationId'', opt_json JStr (sp_conversationId p)),
           (''threadId'', opt_json JStr (sp_threadId p)), (''traceId'', opt_json JStr (sp_traceId p)),
           (''parentTaskId'', opt_json JStr (sp_parentTaskId p)),
           (''rootTaskId'', JStr (default_to (sp_rootTaskId p) taskId)),
           (''runtime'', JStr ''sandbox''), (''provider'', JStr ''codex''),
           (''runnerKind'', opt_json (\<lambda>k. JStr (runner_kind_name k)) (sp_runnerKind p))]"

definition start_config :: "start_params \<Rightarrow> start_draws \<Rightarrow> string \<Rightarrow> task_config" where
  "start_config p d taskId =
     \<lparr>tc_taskId = taskId, tc_prompt = sp_prompt p, tc_needsBrowser = default_to (sp_needsBrowser p) False,
      tc_instructions = staged_instructions (sp_instructions p) (sp_downloads p),
      tc_callbackUrl = Some (callback_url (sd_apiUrl d)), tc_callbackId = Some (sd_callbackId d),
      tc_callbackSecret = Some (fst (sd_secret d))\<rparr>"

definition start_runtimeData :: "string \<Rightarrow> string \<Rightarrow> string \<Rightarrow> string \<Rightarrow> json option" where
  "start_runtimeData authMode sandbox cmd taskId =
     mergeRuntimeData (Some (JObj [(''authMode'', JStr authMode), (''sandboxId'', JStr sandbox)]))
       [(''sessionId'', Some (JStr (taskSessionId taskId))), (''commandId'', Some (JStr cmd)),
        (''artifactRoot'', Some (JStr (getArtifactRoot taskId)))]"

text \<open>
  The row, then the preparation of the sandbox and the command.  When an action fails, the task fails
  and the session, if it had come to that, is deleted.
\<close>

definition start_commit ::
    "sup_env \<Rightarrow> int \<Rightarrow> start_params \<Rightarrow> start_draws \<Rightarrow> string \<Rightarrow> string \<Rightarrow> supervisor \<Rightarrow>
     supervisor \<times> (string + string)" where
  "start_commit env now p d sandbox authMode s =
     (let taskId = default_to (sp_taskId p) (sd_taskId d); session = taskSessionId taskId;
          config = start_config p d taskId
      in case createTask now (sd_events d 0) (start_row now p d sandbox authMode (su_db s))
                (Some (start_payload p taskId)) (su_db s) of
           None \<Rightarrow> (s, Inl ''Failed to create task'')
         | Some db \<Rightarrow>
             (let s1 = s\<lparr>su_db := db\<rparr>;
                  actions = prepare_actions config @ staging_actions taskId (sp_downloads p) @
                    [CreateSession session, RunSession session (build_command config)]
              in case run_actions (se_act env) actions of
                   (done, True) \<Rightarrow>
                     (set_active
                        \<lparr>av_taskId = taskId, av_traceId = sp_traceId p, av_sandbox = sandbox,
                         av_sessionId = session, av_commandId = se_cmdId env, av_startedAt = now,
                         av_timeoutSeconds = DEFAULT_TASK_TIMEOUT_SECONDS, av_failures = 0,
                         av_hasCallbacks = True\<rparr>
                        (log_action done (s1\<lparr>su_db := updateTask taskId
                           (launch_patch now (start_runtimeData authMode sandbox (se_cmdId env) taskId)) db\<rparr>)),
                      Inr taskId)
                 | (done, False) \<Rightarrow>
                     (let s2 = log_action done s1;
                          failed = complete_params taskId TFailed ''sandbox'' (Some ''sandbox'')
                            (JObj [(''error'', JStr ''sandbox''), (''reason'', JStr ''startup_failed'')])
                      in case completeTask now (sd_events d 1) failed (su_db s2) of
                           None \<Rightarrow> (s2, Inl ''Task startup failed'')
                         | Some (db2, b) \<Rightarrow>
                             (deletePendingSession
                                (if CreateSession session \<in> set done then Some session else None) (s2\<lparr>su_db := db2\<rparr>),
                              Inl ''Task startup failed''))))"

definition startTask ::
    "sup_env \<Rightarrow> int \<Rightarrow> start_params \<Rightarrow> start_draws \<Rightarrow> supervisor \<Rightarrow> supervisor \<times> (string + string)" where
  "startTask env now p d s =
     (case start_check env now p s of
        (s1, Inl e) \<Rightarrow> (s1, Inl e)
      | (s1, Inr (sandbox, authMode)) \<Rightarrow> start_commit env now p d sandbox authMode s1)"

section \<open>Reading a task\<close>

text \<open>
  The wait for the end of a task: \<open>clock 0\<close> is the time at which it begins, \<open>clock (Suc i)\<close> and \<open>fetch i\<close>
  are the i-th readings of the clock and of the row in the loop.  The loop may go on for ever when the
  clock stands still.
\<close>

partial_function (option) poll_task ::
    "(nat \<Rightarrow> int) \<Rightarrow> (nat \<Rightarrow> task_row option) \<Rightarrow> int \<Rightarrow> nat \<Rightarrow> task_row option option" where
  "poll_task clock fetch deadline i =
     (if clock (Suc i) < deadline
      then (case fetch i of
              None \<Rightarrow> Some None
            | Some t \<Rightarrow> if isTerminalStatus (tk_status t) then Some (Some t)
                        else poll_task clock fetch deadline (Suc i))
      else Some (fetch i))"

definition capped_wait :: "int option \<Rightarrow> int" where
  "capped_wait waitSeconds =
     (case waitSeconds of None \<Rightarrow> 0 | Some w \<Rightarrow> if w = 0 then 0 else min w MAX_WAIT_SECONDS)"

definition await_task ::
    "(nat \<Rightarrow> int) \<Rightarrow> (nat \<Rightarrow> task_row option) \<Rightarrow> int option \<Rightarrow> task_row option option" where
  "await_task clock fetch waitSeconds =
     (if 0 < capped_wait waitSeconds
      then poll_task clock fetch (clock 0 + capped_wait waitSeconds * 1000) 0
      else Some (fetch 0))"

text \<open>
  The check of the session of a running task that this supervisor does not follow; \<open>task\<close> is the row as
  read.  A call that throws leaves the row as it is.
\<close>

definition live_check ::
    "sup_env \<Rightarrow> int \<Rightarrow> string \<Rightarrow> string \<Rightarrow> task_row option \<Rightarrow> supervisor \<Rightarrow> supervisor \<times> task_row option" where
  "live_check env now uuid userId task s =
     (case task of
        None \<Rightarrow> (s, None)
      | Some t \<Rightarrow>
          (case readSandboxRuntimeData t of
             Some rd \<Rightarrow>
               (case (truthy_str (sr_sessionId rd), truthy_str (sr_commandId rd), se_sandbox env (tk_userId t)) of
                  (Some session, Some command, Inr sandbox) \<Rightarrow>
                    if tk_status t = Running \<and> isSandboxTask t \<and> map_of (su_active s) (tk_id t) = None
                    then (case pe_command env session command of
                        Inl e \<Rightarrow> (s, Some t)
                      | Inr (Some code) \<Rightarrow>
                          (case finalizeTask env now uuid (recovered_task now sandbox rd t) code s of
                             (s1, False) \<Rightarrow> (s1, Some t)
                           | (s1, True) \<Rightarrow> (s1, getByIdAndUser (tk_id t) userId (su_db s1)))
                      | Inr None \<Rightarrow> (set_active (recovered_task now sandbox rd t) s, Some t))
                    else (s, Some t)
                | _ \<Rightarrow> (s, Some t))
           | None \<Rightarrow> (s, Some t)))"

definition getTask ::
    "sup_env \<Rightarrow> int \<Rightarrow> string \<Rightarrow> (nat \<Rightarrow> int) \<Rightarrow> (nat \<Rightarrow> task_row option) \<Rightarrow> string \<Rightarrow> int option \<Rightarrow>
     supervisor \<Rightarrow> (supervisor \<times> task_row option) option" where
  "getTask env now uuid clock fetch userId waitSeconds s =
     map_option (\<lambda>t. live_check env now uuid userId t s) (await_task clock fetch waitSeconds)"

definition probeTask ::
    "sup_env \<Rightarrow> int \<Rightarrow> uuids \<Rightarrow> string \<Rightarrow> string \<Rightarrow> supervisor \<Rightarrow> supervisor \<times> (string + task_row option)" where
  "probeTask env now uuid taskId userId s =
     (case getByIdAndUser taskId userId (su_db s) of
        None \<Rightarrow> (s, Inr None)
      | Some t \<Rightarrow>
          if \<not> isSandboxTask t then (s, Inr (Some t))
          else (case se_sandbox env userId of
              Inl e \<Rightarrow> (s, Inl e)
            | Inr sandbox \<Rightarrow>
                (case probeSingleTask (probe_env.truncate env\<lparr>pe_ensure := (\<lambda>u. u = userId)\<rparr>) now uuid t (su_db s) of
                   (db, tr, Inl e) \<Rightarrow> (s\<lparr>su_db := db, su_traces := su_traces s @ tr\<rparr>, Inl e)
                 | (db, tr, Inr u) \<Rightarrow>
                     (s\<lparr>su_db := db, su_traces := su_traces s @ tr\<rparr>, Inr (getById taskId db)))))"

section \<open>Reading the results\<close>

text \<open>The artifact directory of a task of the user; none when there is nothing to read.\<close>

definition task_artifact_root :: "string \<Rightarrow> string \<Rightarrow> task_db \<Rightarrow> string option" where
  "task_artifact_root taskId userId db =
     (case getByIdAndUser taskId userId db of
        None \<Rightarrow> None
      | Some t \<Rightarrow> if \<not> isSandboxTask t then None
                  else Option.bind (readSandboxRuntimeData t) (\<lambda>rd. truthy_str (sr_artifactRoot rd)))"

definition getTaskExecutionData ::
    "sup_env \<Rightarrow> string \<Rightarrow> string \<Rightarrow> supervisor \<Rightarrow> string + execution_data option" where
  "getTaskExecutionData env taskId userId s =
     (case task_artifact_root taskId userId (su_db s) of
        None \<Rightarrow> Inr None
      | Some root \<Rightarrow> (case se_sandbox env userId of
          Inl e \<Rightarrow> Inl e
        | Inr sandbox \<Rightarrow> map_sum id (\<lambda>f. Some (collectTaskExecutionData (pe_number env) root f)) (pe_files env root)))"

definition getTaskArtifacts ::
    "sup_env \<Rightarrow> string \<Rightarrow> string \<Rightarrow> supervisor \<Rightarrow> string + ((string \<times> int) list \<times> string option) option" where
  "getTaskArtifacts env taskId userId s =
     (case task_artifact_root taskId userId (su_db s) of
        None \<Rightarrow> Inr None
      | Some root \<Rightarrow> (case se_sandbox env userId of
          Inl e \<Rightarrow> Inl e
        | Inr sandbox \<Rightarrow> map_sum id
            (\<lambda>f. Some (listTaskArtifactFiles (pe_number env) (sf_listing f),
               previewTaskOutput (xd_output (collectTaskExecutionData (pe_number env) root f)) 2000))
            (pe_files env root)))"

definition readTaskArtifact ::
    "sup_env \<Rightarrow> string \<Rightarrow> string \<Rightarrow> string \<Rightarrow> supervisor \<Rightarrow> string + string option" where
  "readTaskArtifact env taskId userId filename s =
     (if filename = [] \<or> CHR ''/'' \<in> set filename \<or> CHR 0x5C \<in> set filename
      then Inl ''Invalid artifact filename.''
      else (case task_artifact_root taskId userId (su_db s) of
          None \<Rightarrow> Inr None
        | Some root \<Rightarrow> (case se_sandbox env userId of
            Inl e \<Rightarrow> Inl e
          | Inr sandbox \<Rightarrow> (case se_read env (root @ ''/'' @ filename) of
              None \<Rightarrow> Inl ''download'' | Some t \<Rightarrow> Inr (Some t)))))"

end
