(* ===== verification/SupervisorProps.thy ===== *)
theory SupervisorProps
  imports Supervisor ReconciliationProps
begin

text \<open>
  The properties of the task supervisor: its waits end, its limit of active tasks and where it does not
  hold, its credentials stay well formed, its commands quote what they are given, and how it counts the
  failures of a heartbeat.
\<close>

section \<open>Waiting for a task\<close>

lemma poll_task_returns:
  assumes "\<And>j. i \<le> j \<Longrightarrow> clock (Suc j) + POLL_INTERVAL_MS \<le> clock (Suc (Suc j))"
    and "deadline \<le> clock (Suc i) + POLL_INTERVAL_MS * int k"
  shows "\<exists>n. i \<le> n \<and> n \<le> i + k \<and> poll_task clock fetch deadline i = Some (fetch n) \<and>
    (\<forall>j. i \<le> j \<and> j < n \<longrightarrow> (\<exists>t. fetch j = Some t \<and> \<not> isTerminalStatus (tk_status t))) \<and>
    ((\<exists>t. fetch n = Some t \<and> isTerminalStatus (tk_status t)) \<or> fetch n = None \<or> deadline \<le> clock (Suc n))"
  using assms
proof (induction k arbitrary: i)
  case 0
  then show ?case by (intro exI [of _ i]) (auto simp: poll_task.simps)
next
  case (Suc k)
  show ?case
  proof (cases "clock (Suc i) < deadline \<and> (\<exists>t. fetch i = Some t \<and> \<not> isTerminalStatus (tk_status t))")
    case False
    then show ?thesis
      by (intro exI [of _ i]) (auto simp: poll_task.simps split: option.splits)
  next
    case True
    then have step: "poll_task clock fetch deadline i = poll_task clock fetch deadline (Suc i)"
      by (subst poll_task.simps) auto
    have "clock (Suc i) + POLL_INTERVAL_MS \<le> clock (Suc (Suc i))" by (rule Suc.prems(1)) simp
    with Suc.prems(2) have "deadline \<le> clock (Suc (Suc i)) + POLL_INTERVAL_MS * int k"
      by (simp add: algebra_simps)
    from Suc.IH [OF Suc.prems(1) this] obtain n where n: "Suc i \<le> n" "n \<le> Suc i + k"
      "poll_task clock fetch deadline (Suc i) = Some (fetch n)"
      "\<forall>j. Suc i \<le> j \<and> j < n \<longrightarrow> (\<exists>t. fetch j = Some t \<and> \<not> isTerminalStatus (tk_status t))"
      "(\<exists>t. fetch n = Some t \<and> isTerminalStatus (tk_status t)) \<or> fetch n = None \<or> deadline \<le> clock (Suc n)"
      by force
    have "\<exists>t. fetch j = Some t \<and> \<not> isTerminalStatus (tk_status t)" if "i \<le> j \<and> j < n" for j
      using that n(4) True by (cases "j = i") auto
    with n step show ?thesis by (intro exI [of _ n]) auto
  qed
qed

text \<open>
  C17. Waiting for a task ends: when each pause of the loop lets the clock advance by its length, the
  wait returns after at most nine readings of the row, whatever wait was asked for.  It returns the last
  row it read, having seen the task still going at every earlier reading, and it stops early only for a
  task that has ended or is not there.
\<close>

theorem task_wait_returns:
  assumes "clock 0 \<le> clock 1" "\<forall>i. clock (Suc i) + POLL_INTERVAL_MS \<le> clock (Suc (Suc i))"
  shows "\<exists>n \<le> 8. await_task clock fetch waitSeconds = Some (fetch n) \<and>
    (\<forall>j < n. \<exists>t. fetch j = Some t \<and> \<not> isTerminalStatus (tk_status t)) \<and>
    (capped_wait waitSeconds \<le> 0 \<or> (\<exists>t. fetch n = Some t \<and> isTerminalStatus (tk_status t)) \<or>
     fetch n = None \<or> clock 0 + capped_wait waitSeconds * 1000 \<le> clock (Suc n))"
proof (cases "0 < capped_wait waitSeconds")
  case True
  have "capped_wait waitSeconds \<le> MAX_WAIT_SECONDS"
    by (auto simp: capped_wait_def MAX_WAIT_SECONDS_def split: option.splits)
  with assms(1) have d: "clock 0 + capped_wait waitSeconds * 1000 \<le> clock (Suc 0) + POLL_INTERVAL_MS * int 8"
    by (simp add: MAX_WAIT_SECONDS_def POLL_INTERVAL_MS_def)
  have "clock (Suc j) + POLL_INTERVAL_MS \<le> clock (Suc (Suc j))" for j using assms(2) by blast
  from poll_task_returns [of 0, OF this d] True show ?thesis by (fastforce simp: await_task_def)
next
  case False
  then show ?thesis by (intro exI [of _ 0]) (simp add: await_task_def)
qed

section \<open>Quoting\<close>

lemma sh_word_quote: "sh_word Unquoted (shellQuote v @ rest) = map_option (apfst (\<lambda>w. v @ w)) (sh_word Unquoted rest)"
  using sh_word_quoted [of v rest] by (simp add: shellQuote_def)

lemma shellQuote_Cons: "\<exists>t. shellQuote v = CHR 0x27 # t"
  by (simp add: shellQuote_def)

lemma sh_words_blank: "sh_words (CHR '' '' # rest) = sh_words rest"
  by (subst (1 2) sh_words.simps) (simp add: is_blank_def)

lemma sh_words_step:
  "\<not> is_blank c \<Longrightarrow> sh_words (c # t) = (case sh_word Unquoted (c # t) of
     None \<Rightarrow> None | Some (w, r) \<Rightarrow> map_option (\<lambda>ws. w # ws) (sh_words r))"
  by (subst sh_words.simps) simp

lemma sh_words_quote:
  "sh_words (shellQuote v @ CHR '' '' # rest) = map_option (\<lambda>ws. v # ws) (sh_words rest)"
  "sh_words (shellQuote v) = Some [v]"
proof -
  obtain t where t: "shellQuote v = CHR 0x27 # t" using shellQuote_Cons by blast
  have w: "sh_word Unquoted (CHR 0x27 # t @ r) = map_option (apfst (\<lambda>w. v @ w)) (sh_word Unquoted r)" for r
    using sh_word_quote [of v r] t by (simp only: append_Cons)
  have b: "\<not> is_blank (CHR 0x27)" by (simp add: is_blank_def)
  show "sh_words (shellQuote v @ CHR '' '' # rest) = map_option (\<lambda>ws. v # ws) (sh_words rest)"
    unfolding t append_Cons sh_words_step [OF b] w by (simp add: sh_words_blank)
  show "sh_words (shellQuote v) = Some [v]"
    unfolding t sh_words_step [OF b] using w [of "[]"] by (simp add: sh_words.simps [of "[]"])
qed

definition plain_char :: "char \<Rightarrow> bool" where
  "plain_char c \<longleftrightarrow> sh_word Unquoted [c] = Some ([c], [])"

lemma plain_char_step: "plain_char c \<Longrightarrow> sh_word Unquoted (c # s) = map_option (apfst (\<lambda>w. c # w)) (sh_word Unquoted s)"
  by (auto simp: plain_char_def split: if_splits)

lemma sh_word_plain:
  "list_all plain_char w \<Longrightarrow> sh_word Unquoted (w @ CHR '' '' # rest) = Some (w, CHR '' '' # rest)"
  by (induction w) (simp_all add: plain_char_step del: sh_word.simps(2), simp)

lemma sh_words_plain:
  assumes "w \<noteq> []" "list_all plain_char w" "\<not> is_blank (hd w)"
  shows "sh_words (w @ CHR '' '' # rest) = map_option (\<lambda>ws. w # ws) (sh_words rest)"
proof -
  obtain c t where w: "w = c # t" using assms(1) by (cases w) auto
  have b: "\<not> is_blank c" using assms(3) w by simp
  have e: "w @ CHR '' '' # rest = c # t @ CHR '' '' # rest" by (simp add: w)
  have r: "sh_word Unquoted (c # t @ CHR '' '' # rest) = Some (w, CHR '' '' # rest)"
    using sh_word_plain [OF assms(2), of rest] by (simp only: e)
  show ?thesis unfolding e sh_words_step [OF b] r by (simp add: sh_words_blank)
qed

text \<open>
  C18. What is staged for a task is quoted: whatever characters the address and the name of an input
  file have, the shell reads the command that fetches it as curl with that address and that path as one
  argument each.
\<close>

theorem staged_downloads_quoted:
  "\<exists>cmds. staging_actions taskId ds = map ExecCommand cmds \<and>
     map sh_words cmds = (if ds = [] then [] else
       Some [''mkdir'', ''-p'', input_dir taskId] #
       map (\<lambda>d. Some [''curl'', ''-fsSL'', dl_url d, ''-o'', input_dir taskId @ ''/'' @ dl_filename d]) ds)"
proof -
  have p: "list_all plain_char ''mkdir''" "list_all plain_char ''-p''" "list_all plain_char ''curl''"
    "list_all plain_char ''-fsSL''" "list_all plain_char ''-o''"
    by (simp_all add: plain_char_def)
  have mk: "sh_words (''mkdir -p '' @ shellQuote x) = Some [''mkdir'', ''-p'', x]" for x
    using sh_words_plain [OF _ p(1), of "''-p'' @ CHR '' '' # shellQuote x"]
      sh_words_plain [OF _ p(2), of "shellQuote x"]
    by (simp add: is_blank_def sh_words_quote)
  have curl: "sh_words (''curl -fsSL '' @ shellQuote u @ '' -o '' @ shellQuote f) =
      Some [''curl'', ''-fsSL'', u, ''-o'', f]" for u f
    using sh_words_plain [OF _ p(3), of "''-fsSL'' @ CHR '' '' # shellQuote u @ '' -o '' @ shellQuote f"]
      sh_words_plain [OF _ p(4), of "shellQuote u @ '' -o '' @ shellQuote f"]
      sh_words_quote(1) [of u "''-o'' @ CHR '' '' # shellQuote f"]
      sh_words_plain [OF _ p(5), of "shellQuote f"]
    by (simp add: is_blank_def sh_words_quote(2))
  show ?thesis
  proof (cases "ds = []")
    case False
    then show ?thesis
      by (intro exI [of _ "(''mkdir -p '' @ shellQuote (input_dir taskId)) #
            map (\<lambda>d. ''curl -fsSL '' @ shellQuote (dl_url d) @ '' -o '' @
              shellQuote (input_dir taskId @ ''/'' @ dl_filename d)) ds"])
         (simp add: staging_actions_def mk [simplified] curl [simplified])
  qed (simp add: staging_actions_def)
qed

section \<open>Credentials\<close>

text \<open>The operations that write credentials, with what the sandbox answers to each.\<close>

datatype auth_op =
    AskStatus
  | SetKey string
  | StartLogin string "nat \<Rightarrow> string option"
  | ImportFile string
  | ClearAuth
  | RequireAuth

record auth_call =
  aq_env :: sup_env
  aq_now :: int
  aq_user :: string
  aq_op :: auth_op

definition auth_exec :: "auth_call \<Rightarrow> supervisor \<Rightarrow> supervisor" where
  "auth_exec c s =
     (case aq_op c of
        AskStatus \<Rightarrow> fst (getCodexAuthStatus (aq_env c) (aq_now c) (aq_user c) s)
      | SetKey k \<Rightarrow> fst (setCodexApiKey (aq_env c) (aq_now c) (aq_user c) k s)
      | StartLogin i logs \<Rightarrow> fst (startCodexChatgptAuth (aq_env c) (aq_now c) i logs (aq_user c) s)
      | ImportFile j \<Rightarrow> fst (importCodexChatgptAuth (aq_env c) (aq_now c) (aq_user c) j s)
      | ClearAuth \<Rightarrow> fst (clearCodexAuth (aq_env c) (aq_user c) s)
      | RequireAuth \<Rightarrow> fst (requireCodexAuth (aq_env c) (aq_now c) (aq_user c) s))"

definition auth_inv :: "supervisor \<Rightarrow> bool" where
  "auth_inv s \<longleftrightarrow> (\<forall>u v. map_of (su_auth s) u = Some v \<longrightarrow> stored_ok v)"

named_theorems auth_keeps "what keeps the stored credentials well formed"

lemma log_sel [simp]:
  "su_db (log_action as s) = su_db s" "su_auth (log_action as s) = su_auth s"
  "su_traces (log_action as s) = su_traces s" "su_active (log_action as s) = su_active s"
  by (simp_all add: log_action_def)

lemma deletePending_sel [simp]:
  "su_db (deletePendingSession i s) = su_db s" "su_auth (deletePendingSession i s) = su_auth s"
  "su_traces (deletePendingSession i s) = su_traces s" "su_active (deletePendingSession i s) = su_active s"
  by (simp_all add: deletePendingSession_def split: option.splits)

lemma auth_inv_same [auth_keeps]: "auth_inv s \<Longrightarrow> auth_inv (log_action as s)"
  "auth_inv s \<Longrightarrow> auth_inv (deletePendingSession i s)"
  by (simp_all add: auth_inv_def)

lemma load_ok: "auth_inv s \<Longrightarrow> stored_ok (loadAuthConfig u s)"
  by (cases "map_of (su_auth s) u") (auto simp: auth_inv_def loadAuthConfig_def stored_ok_def)

lemma save_keeps [auth_keeps]: "auth_inv s \<Longrightarrow> stored_ok v \<Longrightarrow> auth_inv (fst (save_and_summarize u v s))"
  by (auto simp: auth_inv_def save_and_summarize_def saveAuthConfig_def update_conv stored_ok_writes(5))

lemma write_auth_keeps [auth_keeps]:
  "auth_inv s \<Longrightarrow> stored_ok v \<Longrightarrow> auth_inv (fst (write_auth env u as v s))"
  by (auto simp: write_auth_def auth_keeps split: prod.splits bool.splits)

lemma with_sandbox_keeps:
  "auth_inv s \<Longrightarrow> (auth_inv s \<Longrightarrow> auth_inv (fst (k s))) \<Longrightarrow> auth_inv (fst (with_sandbox env u s k))"
  by (simp add: with_sandbox_def split: sum.splits)

lemma sync_keeps [auth_keeps]:
  assumes "auth_inv s"
  shows "auth_inv (fst (syncCodexAuthStatus env now u s))"
proof -
  note w = stored_ok_writes [OF load_ok [OF assms]]
  note k = save_keeps [OF assms]
  show ?thesis
  proof (cases "truthy_str (se_read env CODEX_AUTH_FILE)")
    case (Some j)
    show ?thesis
    proof (cases "parseCodexAuthFile (se_json env) (se_b64 env) now j")
      case None
      then show ?thesis unfolding syncCodexAuthStatus_def Let_def Some by (simp add: k w)
    next
      case (Some x)
      then show ?thesis
        unfolding syncCodexAuthStatus_def Let_def \<open>truthy_str _ = Some j\<close>
        by (cases x) (simp add: auth_inv_same(2) k w)
    qed
  next
    case n: None
    show ?thesis
    proof (cases "readHarnessAuthConfig (loadAuthConfig u s)")
      case None
      then show ?thesis unfolding syncCodexAuthStatus_def Let_def n by (simp add: assms)
    next
      case c: (Some c)
      show ?thesis
      proof (cases "cc_pending c")
        case None
        then show ?thesis unfolding syncCodexAuthStatus_def Let_def n c by (simp add: k w assms)
      next
        case p: (Some p)
        show ?thesis
        proof (cases "pe_command env (da_sessionId p) (da_commandId p)")
          case (Inr x)
          with p show ?thesis unfolding syncCodexAuthStatus_def Let_def n c
            by (cases x) (simp_all add: auth_inv_same(2) k w assms)
        qed (use p in \<open>unfold syncCodexAuthStatus_def Let_def n c, simp add: k w\<close>)
      qed
    qed
  qed
qed

lemma auth_op_keeps:
  assumes "auth_inv s"
  shows "auth_inv (fst (getCodexAuthStatus env now u s))" "auth_inv (fst (requireCodexAuth env now u s))"
    "auth_inv (fst (setCodexApiKey env now u k s))" "auth_inv (fst (importCodexChatgptAuth env now u j s))"
    "auth_inv (fst (clearCodexAuth env u s))" "auth_inv (fst (startCodexChatgptAuth env now i logs u s))"
proof -
  note w = stored_ok_writes [OF load_ok [OF assms]]
  note ws = with_sandbox_keeps [OF assms]
  show "auth_inv (fst (getCodexAuthStatus env now u s))"
    unfolding getCodexAuthStatus_def by (rule ws) (simp add: sync_keeps)
  show "auth_inv (fst (requireCodexAuth env now u s))"
    using sync_keeps [OF assms, of env now u]
    by (cases "syncCodexAuthStatus env now u s") (simp add: requireCodexAuth_def)
  show "auth_inv (fst (setCodexApiKey env now u k s))"
    by (simp add: setCodexApiKey_def Let_def assms) (intro impI ws write_auth_keeps assms w)
  show "auth_inv (fst (clearCodexAuth env u s))"
    unfolding clearCodexAuth_def Let_def by (intro ws write_auth_keeps assms w)
  show "auth_inv (fst (importCodexChatgptAuth env now u j s))"
  proof (cases "parseCodexAuthFile (se_json env) (se_b64 env) now j")
    case (Some x)
    have "auth_inv (fst (with_sandbox env u s (\<lambda>s. write_auth env u as (setCodexAuthenticated now c l (loadAuthConfig u s)) s)))"
      for as c l by (intro ws write_auth_keeps assms w)
    with Some assms show ?thesis by (cases x) (simp add: importCodexChatgptAuth_def Let_def with_sandbox_def)
  qed (simp add: importCodexChatgptAuth_def assms)
  show "auth_inv (fst (startCodexChatgptAuth env now i logs u s))"
    unfolding startCodexChatgptAuth_def
  proof (rule ws)
    obtain s1 current where y: "syncCodexAuthStatus env now u s = (s1, current)" by (metis prod.exhaust)
    with sync_keeps [OF assms, of env now u] have s1: "auth_inv s1" by simp
    note w1 = stored_ok_writes [OF load_ok [OF s1]]
    show "auth_inv (fst (case syncCodexAuthStatus env now u s of (s1, current) \<Rightarrow>
           if as_status current = AuthPending \<or> (as_status current = AuthDone \<and> as_method current = Some AuthChatgpt)
           then (s1, Inr current)
           else if ensureInstalled (se_install env) \<noteq> Some True
           then (s1, Inl ''Failed to install Codex CLI in sandbox.'')
           else
             (let raw = loadAuthConfig u s1 in
              case run_actions (se_act env)
                     (ensure_home @ deletion (pending_session raw) @
                       [ExecCommand (''rm -f '' @ CODEX_AUTH_FILE @ '' '' @ CODEX_AUTH_LOG),
                        CreateSession i, RunSession i login_command]) of
                (done, False) \<Rightarrow> (log_action done s1, Inl ''sandbox'')
              | (done, True) \<Rightarrow>
                  (let s2 = log_action done s1 in
                   case poll_prompt 20 logs 0 of
                     None \<Rightarrow> (deletePendingSession (Some i) s2, Inl (summarizeLoginFailure (logs 20) None))
                   | Some (uri, code) \<Rightarrow>
                       apsnd Inr (save_and_summarize u
                         (setCodexPendingDeviceAuth now
                            \<lparr>da_verificationUri = uri, da_userCode = code, da_sessionId = i,
                             da_commandId = se_cmdId env, da_startedAt = now\<rparr> raw) s2)))))"
      by (auto simp: y s1 Let_def auth_inv_same save_keeps w1 split: prod.splits bool.splits option.splits)
  qed
qed

interpretation auth_runs: guarded_run auth_exec "\<lambda>_ _. True" auth_inv
  by unfold_locales (auto simp: auth_exec_def auth_op_keeps split: auth_op.splits)

text \<open>
  C16. Stored credentials are well formed: after any sequence of operations on them (status, key, device
  login, import, clearing, the check before a task), whatever the sandboxes answer, the configuration of
  every user is one that a pending login leaves without credentials, whose credentials are of the
  preferred method, that is authenticated only with credentials and no error, invalid only with an error,
  and that keeps the end of a key only for a key.
\<close>

theorem auth_config_well_formed:
  assumes "\<forall>(u, v) \<in> set (su_auth s). v = None"
    and "map_of (su_auth (run_ops auth_exec calls s)) user = Some (Some c)"
  shows "auth_ok c"
proof -
  have "auth_inv s" using assms(1) by (fastforce simp: auth_inv_def stored_ok_def dest: map_of_SomeD)
  from auth_runs.run [OF this ops_ok_True] assms(2) show ?thesis
    by (fastforce simp: auth_inv_def stored_ok_def)
qed

section \<open>Heartbeat failures\<close>

text \<open>
  A round of heartbeats: the sandbox and the time.  One task is followed; it reports by callbacks and is
  within its time.
\<close>

definition heartbeats :: "(sup_env \<times> int) list \<Rightarrow> (string \<Rightarrow> uuids) \<Rightarrow> supervisor \<Rightarrow> supervisor" where
  "heartbeats ticks uuid s = fold (\<lambda>(env, now). heartbeat_tick env now uuid) ticks s"

definition failing :: "string \<Rightarrow> (sup_env \<times> int) list \<Rightarrow> nat" where
  "failing taskId ticks = length (filter (\<lambda>(env, now). \<not> se_refresh env taskId) ticks)"

lemma followed_tick_ok:
  assumes "su_active s = [(av_taskId t, t)]" "av_hasCallbacks t" "\<not> timed_out now t" "se_refresh env (av_taskId t)"
  shows "heartbeat_tick env now uuid s = s"
  using assms by (simp add: heartbeat_tick_def heartbeat_try_def)

lemma followed_tick_fails:
  assumes "su_active s = [(av_taskId t, t)]" "\<not> se_refresh env (av_taskId t)" "Suc (av_failures t) < MAX_HEARTBEAT_FAILURES"
  shows "heartbeat_tick env now uuid s = s\<lparr>su_active := [(av_taskId t, t\<lparr>av_failures := Suc (av_failures t)\<rparr>)]\<rparr>"
  using assms by (simp add: heartbeat_tick_def heartbeat_try_def heartbeat_catch_def Let_def set_active_def)

lemma no_active_ticks: "su_active s = [] \<Longrightarrow> heartbeats ticks uuid s = s"
  by (induction ticks) (auto simp: heartbeats_def heartbeat_tick_def)

lemma find_first_update:
  "find_first p xs = Some r \<Longrightarrow> (\<And>x. p (f x) = p x) \<Longrightarrow> find_first p (map f xs) = Some (f r)"
  by (induction xs) (auto split: if_splits)

lemma complete_followed:
  assumes "getById (cp_taskId p) (su_db s) = Some r" "\<not> isTerminalStatus (tk_status r)"
    and "\<forall>e \<in> set (td_events (su_db s)). te_taskId e = cp_taskId p \<longrightarrow> te_eventId e \<noteq> uuid"
  shows "\<exists>s'. complete_traced now uuid p traceId m x reason s = (s', True) \<and>
    su_active s' = su_active s \<and> getById (cp_taskId p) (su_db s') = Some (completion_patch now p r)"
proof -
  let ?f = "\<lambda>r. if tk_id r = cp_taskId p \<and> tk_status r \<notin> set TERMINAL_STATUSES then completion_patch now p r else r"
  have r: "r \<in> set (td_tasks (su_db s))" "tk_id r = cp_taskId p"
    using find_first_Some [of "\<lambda>r. tk_id r = cp_taskId p" "td_tasks (su_db s)" r] assms(1)
    by (auto simp: getById_def)
  have f: "tk_id (?f x) = tk_id x" for x by simp
  have nt: "tk_status r \<notin> set TERMINAL_STATUSES" using assms(2) by (simp add: terminal_mem)
  have ex: "filter (\<lambda>r. tk_id r = cp_taskId p \<and> tk_status r \<notin> set TERMINAL_STATUSES) (td_tasks (su_db s)) \<noteq> []"
    using r nt by (auto simp: filter_empty_conv)
  have le: "list_ex (\<lambda>r. tk_id r = cp_taskId p) (map ?f (td_tasks (su_db s)))"
    unfolding list_ex_iff set_map by (rule bexI [OF _ imageI [OF r(1)]]) (use f [of r] r(2) in simp)
  have le2: "\<not> list_ex (\<lambda>x. te_taskId x = cp_taskId p \<and> te_eventId x = uuid) (td_events (su_db s))"
    using assms(3) by (auto simp: list_ex_iff)
  have g: "find_first (\<lambda>r. tk_id r = cp_taskId p) (map ?f (td_tasks (su_db s))) = Some (?f r)"
    by (rule find_first_update) (use assms(1) in \<open>simp_all add: getById_def\<close>)
  obtain e where c: "completeTask now uuid p (su_db s) =
      Some ((su_db s)\<lparr>td_tasks := map ?f (td_tasks (su_db s)), td_events := td_events (su_db s) @ [e]\<rparr>, True)"
    using ex le le2 by (simp add: completeTask_def update_where_def insert_event_def)
  have "?f r = completion_patch now p r" using r(2) nt by simp
  with g show ?thesis by (simp add: complete_traced_def c getById_def)
qed

lemma followed_tick_lost:
  assumes "su_active s = [(av_taskId t, t)]" "\<not> se_refresh env (av_taskId t)"
    and "MAX_HEARTBEAT_FAILURES \<le> Suc (av_failures t)"
    and "getById (av_taskId t) (su_db s) = Some r" "\<not> isTerminalStatus (tk_status r)"
    and "\<forall>e \<in> set (td_events (su_db s)). te_taskId e = av_taskId t \<longrightarrow> te_eventId e \<noteq> uuid (av_taskId t) 1"
  shows "su_active (heartbeat_tick env now uuid s) = [] \<and>
    (\<exists>r'. getById (av_taskId t) (su_db (heartbeat_tick env now uuid s)) = Some r' \<and> tk_status r' = Lost)"
proof -
  let ?t = "t\<lparr>av_failures := Suc (av_failures t)\<rparr>" and ?s = "s\<lparr>su_active := [(av_taskId t, t\<lparr>av_failures := Suc (av_failures t)\<rparr>)]\<rparr>"
  let ?p = "complete_params (av_taskId t) TLost ''Task lost after repeated heartbeat failures.'' None
     (reason_payload ''heartbeat_failures'')"
  have p: "cp_taskId ?p = av_taskId t" "cp_status ?p = TLost" by (simp_all add: complete_params_def)
  obtain s' where c: "complete_traced now (uuid (av_taskId t) 1) ?p (or_else (av_traceId t) (tk_traceId r)) None None
      (Some ''heartbeat_failures'') ?s = (s', True)" "su_active s' = su_active ?s"
      "getById (av_taskId t) (su_db s') = Some (completion_patch now ?p r)"
    using complete_followed [of ?p ?s r "uuid (av_taskId t) 1" now "or_else (av_traceId t) (tk_traceId r)" None None
        "Some ''heartbeat_failures''"] assms(4-6) p by auto
  have "heartbeat_tick env now uuid s = drop_active (av_taskId t) s'"
    using assms(1-5) c(1)
    by (simp add: heartbeat_tick_def heartbeat_try_def heartbeat_catch_def Let_def set_active_def)
  with c(2,3) p show ?thesis by (simp add: drop_active_def completion_patch_def)
qed

text \<open>
  Heartbeat failures add up: a task that reports by callbacks, as every started one does, is lost
  with its third failed heartbeat, however many heartbeats succeeded in between, since only the branch
  for tasks without callbacks sets the count of failures back.
\<close>

theorem heartbeat_failures_add_up:
  assumes "su_active s = [(av_taskId t, t)]" "av_hasCallbacks t" "av_failures t + failing (av_taskId t) ticks = 3"
    and "av_failures t < 3"
    and "\<forall>(env, now) \<in> set ticks. \<not> timed_out now t"
    and "getById (av_taskId t) (su_db s) = Some r" "\<not> isTerminalStatus (tk_status r)"
    and "\<forall>e \<in> set (td_events (su_db s)). te_taskId e = av_taskId t \<longrightarrow> te_eventId e \<noteq> uuid (av_taskId t) 1"
  shows "su_active (heartbeats ticks uuid s) = [] \<and>
    (\<exists>r'. getById (av_taskId t) (su_db (heartbeats ticks uuid s)) = Some r' \<and> tk_status r' = Lost)"
  using assms
proof (induction ticks arbitrary: s t)
  case Nil
  then show ?case by (simp add: failing_def)
next
  case (Cons tick ticks)
  obtain env now where tick: "tick = (env, now)" by (metis prod.exhaust)
  have run: "heartbeats (tick # ticks) uuid s = heartbeats ticks uuid (heartbeat_tick env now uuid s)"
    by (simp add: heartbeats_def tick)
  have to: "\<not> timed_out now t" using Cons.prems(5) tick by auto
  show ?case
  proof (cases "se_refresh env (av_taskId t)")
    case True
    have "heartbeat_tick env now uuid s = s"
      by (rule followed_tick_ok) (use Cons.prems to True in auto)
    then show ?thesis unfolding run
      using Cons.IH [of s t] Cons.prems tick True by (auto simp: failing_def)
  next
    case f: False
    show ?thesis
    proof (cases "Suc (av_failures t) < MAX_HEARTBEAT_FAILURES")
      case True
      let ?t = "t\<lparr>av_failures := Suc (av_failures t)\<rparr>"
      have step: "heartbeat_tick env now uuid s = s\<lparr>su_active := [(av_taskId t, ?t)]\<rparr>"
        by (rule followed_tick_fails) (use Cons.prems f True in auto)
      show ?thesis unfolding run step
        using Cons.IH [of "s\<lparr>su_active := [(av_taskId t, ?t)]\<rparr>" ?t] Cons.prems tick f True
        by (simp add: failing_def MAX_HEARTBEAT_FAILURES_def timed_out_def)
    next
      case False
      have lost: "su_active (heartbeat_tick env now uuid s) = [] \<and>
          (\<exists>r'. getById (av_taskId t) (su_db (heartbeat_tick env now uuid s)) = Some r' \<and> tk_status r' = Lost)"
        by (rule followed_tick_lost [OF Cons.prems(1) f]) (use Cons.prems False in auto)
      then show ?thesis unfolding run by (simp add: no_active_ticks)
    qed
  qed
qed

section \<open>The limit of active tasks\<close>

definition no_new_active :: "task_db \<Rightarrow> task_db \<Rightarrow> bool" where
  "no_new_active db db' \<longleftrightarrow> (\<forall>u. countActiveSandboxTasks u db' \<le> countActiveSandboxTasks u db)"

named_theorems calm "steps that make no task active"

lemma no_new_refl [calm]: "no_new_active db db"
  by (simp add: no_new_active_def)

lemma no_new_trans: "no_new_active a b \<Longrightarrow> no_new_active b c \<Longrightarrow> no_new_active a c"
  unfolding no_new_active_def using le_trans by blast

lemma length_filter_map_le:
  "(\<And>x. p (f x) \<Longrightarrow> p x) \<Longrightarrow> length (filter p (map f xs)) \<le> length (filter p xs)"
  by (induction xs) (simp_all add: le_SucI)

lemma no_new_map:
  assumes "td_tasks db' = map f (td_tasks db)"
    and "\<And>r. tk_userId (f r) = tk_userId r" "\<And>r. is_active_sandbox (f r) \<Longrightarrow> is_active_sandbox r"
  shows "no_new_active db db'"
  unfolding no_new_active_def countActiveSandboxTasks_def assms(1)
  by (intro allI length_filter_map_le) (use assms(2,3) in auto)

lemma no_new_same: "td_tasks db' = td_tasks db \<Longrightarrow> no_new_active db db'"
  by (simp add: no_new_active_def countActiveSandboxTasks_def)

lemma insert_event_tasks: "insert_event e db = Some db' \<Longrightarrow> td_tasks db' = td_tasks db"
  by (auto simp: insert_event_def split: if_splits)

lemma completion_inactive: "\<not> is_active_sandbox (completion_patch now p r)"
  by (cases "cp_status p") (simp_all add: is_active_sandbox_def completion_patch_def)

lemma completion_userId: "tk_userId (completion_patch now p r) = tk_userId r"
  by (simp add: completion_patch_def)

lemma no_new_update:
  assumes "\<And>r. tk_userId (f r) = tk_userId r" "\<And>r. is_active_sandbox (f r) \<Longrightarrow> is_active_sandbox r"
  shows "no_new_active db (fst (update_where p f db))"
  by (rule no_new_map [where f = "\<lambda>r. if p r then f r else r"]) (use assms in \<open>auto split: if_splits\<close>)

lemma no_new_complete:
  assumes "completeTask now uuid p db = Some (db', b)"
  shows "no_new_active db db'"
proof -
  have e: "td_tasks db' = td_tasks (fst (update_where
      (\<lambda>r. tk_id r = cp_taskId p \<and> tk_status r \<notin> set TERMINAL_STATUSES) (completion_patch now p) db))"
    using assms by (auto simp: completeTask_def update_where_def dest!: insert_event_tasks split: if_splits)
  show ?thesis
    by (rule no_new_trans [OF _ no_new_same [OF e]], rule no_new_update)
       (simp_all add: completion_inactive completion_userId)
qed

lemma no_new_marks [calm]:
  "no_new_active db (heartbeat now t db)" "no_new_active db (touchProbe now t db)"
  "no_new_active db (markNotified now t st db)"
  unfolding heartbeat_def touchProbe_def markNotified_def
  by (rule no_new_update; simp add: is_active_sandbox_def)+

lemma no_new_reconcile:
  assumes "reconcile_op op"
  shows "no_new_active db (task_exec env op db)"
proof (cases op)
  case (OpAppendEvent now uuid t source kind payload)
  then show ?thesis
    by (cases "appendEvent now uuid t None source kind None payload None db")
       (auto simp: appendEvent_def calm intro: no_new_same dest: insert_event_tasks)
next
  case (OpComplete now uuid p)
  then show ?thesis
    by (cases "completeTask now uuid p db") (auto simp: calm intro: no_new_complete)
qed (use assms in \<open>simp_all add: calm\<close>)

lemma no_new_refines: 
  assumes "refines_ops db db'"
  shows "no_new_active db db'"
proof -
  obtain ops where ops: "list_all reconcile_op ops" "db' = run_ops (task_exec ex_env) ops db"
    using assms by (auto simp: refines_ops_def)
  then show ?thesis
  proof (induction ops arbitrary: db)
    case (Cons op ops)
    then show ?case using no_new_trans [OF no_new_reconcile] by fastforce
  qed (simp add: calm)
qed

text \<open>The same of the supervisor's tables.\<close>

abbreviation calm_step :: "supervisor \<Rightarrow> supervisor \<Rightarrow> bool" where
  "calm_step s s' \<equiv> no_new_active (su_db s) (su_db s')"

lemma active_sel [simp]:
  "su_db (drop_active t s) = su_db s" "su_db (set_active a s) = su_db s"
  by (simp_all add: drop_active_def set_active_def)

lemma calm_complete_traced: "complete_traced now uuid p tr m x reason s = (s', b) \<Longrightarrow> calm_step s s'"
  by (auto simp: complete_traced_def calm dest: no_new_complete split: option.splits)

lemma calm_finalize: "finalizeTask env now uuid t code s = (s', b) \<Longrightarrow> calm_step s s'"
  by (auto simp: finalizeTask_def Let_def calm dest!: calm_complete_traced split: if_splits option.splits prod.splits bool.splits)

lemma calm_timeout: "timeoutTask now uuid t s = (s', b) \<Longrightarrow> calm_step s s'"
  by (auto simp: timeoutTask_def Let_def calm dest!: calm_complete_traced split: if_splits option.splits prod.splits bool.splits)

lemma calm_catch: "heartbeat_catch now uuid t s = (s', b) \<Longrightarrow> calm_step s s'"
  by (auto simp: heartbeat_catch_def Let_def calm dest!: calm_complete_traced split: if_splits option.splits prod.splits bool.splits)

lemma calm_try:
  assumes "heartbeat_try env now uuid t s = (s', b)"
  shows "calm_step s s'"
proof -
  let ?s = "set_active (t\<lparr>av_failures := 0\<rparr>) (s\<lparr>su_db := heartbeat now (av_taskId t) (su_db s)\<rparr>)"
  have h: "calm_step s ?s" by (simp add: calm)
  show ?thesis
    using assms
    by (auto simp: heartbeat_try_def Let_def calm intro: no_new_trans [OF h]
        dest!: calm_finalize calm_timeout split: if_splits sum.splits option.splits)
qed

lemma calm_round: "calm_step s (heartbeat_round env now uuid ts s)"
proof (induction ts arbitrary: s)
  case (Cons t ts)
  obtain s1 b1 where h: "heartbeat_try env now (uuid (av_taskId t) 0) t s = (s1, b1)" by (metis prod.exhaust)
  obtain s2 b2 where c: "heartbeat_catch now (uuid (av_taskId t) 1) (av_taskId t) s1 = (s2, b2)" by (metis prod.exhaust)
  note 1 = calm_try [OF h] and 2 = no_new_trans [OF calm_try [OF h] calm_catch [OF c]]
  show ?case
    by (cases b1; cases b2) (simp_all add: h c [simplified] 2 no_new_trans [OF 1 Cons.IH] no_new_trans [OF 2 Cons.IH])
qed (simp add: calm)

lemma calm_lose: "lose now uuid r m e reason s = (s', b) \<Longrightarrow> calm_step s s'"
  unfolding lose_def by (rule calm_complete_traced)

lemma calm_recover: "calm_step s (recover_running env now uuid rs s)"
proof (induction rs arbitrary: s)
  case (Cons r rs)
  define next' where "next' = (case (case readSandboxRuntimeData r of
            None \<Rightarrow> None
          | Some rd \<Rightarrow> if truthy_str (sr_sandboxId rd) = None \<or> truthy_str (sr_sessionId rd) = None \<or>
                        truthy_str (sr_commandId rd) = None then None else Some rd) of
            None \<Rightarrow> lose now (uuid (tk_id r) 0) r
                ''Task lost because the sandbox session metadata is missing.'' None ''missing_session'' s
          | Some rd \<Rightarrow>
              (case se_sandbox env (tk_userId r) of
                 Inr sandbox \<Rightarrow>
                   if se_session env (default_to (sr_sessionId rd) [])
                   then (set_active (recovered_task now sandbox rd r) s, True)
                   else lose now (uuid (tk_id r) 0) r ''Task lost because sandbox recovery failed.'' None
                          ''sandbox_recovery_failed'' s
               | Inl e \<Rightarrow> lose now (uuid (tk_id r) 0) r ''Task lost because sandbox recovery failed.'' None
                          ''sandbox_recovery_failed'' s))"
  obtain s1 b where n: "next' = (s1, b)" by (metis prod.exhaust)
  have "calm_step s s1"
    using n unfolding next'_def
    by (auto simp: calm dest!: calm_lose split: option.splits if_splits sum.splits)
  moreover have "recover_running env now uuid (r # rs) s = (if b then recover_running env now uuid rs s1 else s1)"
    using n unfolding next'_def by (cases b) (simp_all add: Let_def)
  ultimately show ?case using no_new_trans [OF _ Cons.IH] by simp
qed (simp add: calm)

lemma calm_recovery: "calm_step s (recoverRunning env now uuid s)"
proof -
  have "calm_step s (recover_preparing now uuid rows s)" for rows
  proof (induction rows arbitrary: s)
    case (Cons r rows)
    obtain s1 b where l: "lose now (uuid (tk_id r) 0) r ''Task did not start in time.''
        (Some ''Task did not start in time.'') ''preparing_timeout'' s = (s1, b)" by (metis prod.exhaust)
    have "recover_preparing now uuid (r # rows) s = recover_preparing now uuid rows s1"
      by (simp add: recover_preparing_def l)
    with no_new_trans [OF calm_lose [OF l] Cons.IH] show ?case by simp
  qed (simp add: recover_preparing_def calm)
  then show ?thesis unfolding recoverRunning_def using no_new_trans calm_recover by metis
qed

lemma calm_live: "calm_step s (fst (live_check env now uuid u task s))"
proof -
  have f: "calm_step s (fst (case finalizeTask env now uuid t code s of
      (s1, False) \<Rightarrow> (s1, x) | (s1, True) \<Rightarrow> (s1, y s1)))" for t code x y
    by (cases "finalizeTask env now uuid t code s"; cases "snd (finalizeTask env now uuid t code s)")
       (auto dest: calm_finalize)
  show ?thesis
    unfolding live_check_def by (simp add: calm f split: option.split sum.split)
qed

lemma calm_probe: "calm_step s (fst (probeTask env now uuid t u s))"
proof (cases "getByIdAndUser t u (su_db s)")
  case (Some r)
  obtain db tr res where p: "probeSingleTask (probe_env.truncate env\<lparr>pe_ensure := (\<lambda>v. v = u)\<rparr>) now uuid r (su_db s) =
      (db, tr, res)" by (metis prod.exhaust)
  with no_new_refines [OF refines_probe] have "no_new_active (su_db s) db" by (metis fst_conv)
  with Some p show ?thesis
    by (cases res) (simp_all add: probeTask_def calm split: sum.split)
qed (simp add: probeTask_def calm)

subsection \<open>Credentials leave the tables alone\<close>

lemma save_sel [simp]: "su_db (fst (save_and_summarize u v s)) = su_db s"
  by (simp add: save_and_summarize_def saveAuthConfig_def)

lemma sync_db: "su_db (fst (syncCodexAuthStatus env now u s)) = su_db s"
  unfolding syncCodexAuthStatus_def Let_def by (simp split: option.split sum.split prod.split)

lemma require_db: "su_db (fst (requireCodexAuth env now u s)) = su_db s"
  using sync_db [of env now u s] by (cases "syncCodexAuthStatus env now u s") (simp add: requireCodexAuth_def)

lemma check_db: "su_db (fst (start_check env now p s)) = su_db s"
  using require_db [of env now "sp_userId p" s]
  by (cases "requireCodexAuth env now (sp_userId p) s")
     (simp add: start_check_def split: sum.split option.split bool.split prod.split)

lemma check_count:
  "start_check env now p s = (s1, Inr x) \<Longrightarrow>
   countActiveSandboxTasks (sp_userId p) (su_db s) < MAX_ACTIVE_TASKS_PER_USER"
  using require_db [of env now "sp_userId p" s]
  by (cases "requireCodexAuth env now (sp_userId p) s")
     (auto simp: start_check_def split: sum.splits option.splits bool.splits if_splits)

lemma launch_count:
  assumes "\<forall>r \<in> set (td_tasks db). tk_id r = t \<longrightarrow> is_active_sandbox r"
  shows "countActiveSandboxTasks u (updateTask t (launch_patch now rd) db) = countActiveSandboxTasks u db"
proof -
  have "length (filter p (map f xs)) = length (filter p xs)" if "\<forall>x \<in> set xs. p (f x) = p x"
    for p and f :: "task_row \<Rightarrow> task_row" and xs using that by (induction xs) auto
  then show ?thesis unfolding countActiveSandboxTasks_def updateTask_def update_where_sel
    by this (use assms in \<open>auto simp: launch_patch_def is_active_sandbox_def\<close>)
qed

lemma create_count:
  assumes "createTask now uuid row payload db = Some db'" "is_active_sandbox row"
  shows "countActiveSandboxTasks u db' = countActiveSandboxTasks u db + (if u = tk_userId row then 1 else 0)"
    "\<forall>r \<in> set (td_tasks db'). tk_id r = tk_id row \<longrightarrow> is_active_sandbox r"
proof -
  have new: "\<forall>r \<in> set (td_tasks db). tk_id r \<noteq> tk_id row" and t: "td_tasks db' = td_tasks db @ [row]"
    using assms(1) by (auto simp: createTask_def list_ex_iff dest!: insert_event_tasks split: if_splits)
  show "countActiveSandboxTasks u db' = countActiveSandboxTasks u db + (if u = tk_userId row then 1 else 0)"
    using assms(2) by (simp add: countActiveSandboxTasks_def t)
  show "\<forall>r \<in> set (td_tasks db'). tk_id r = tk_id row \<longrightarrow> is_active_sandbox r"
    using new assms(2) by (auto simp: t)
qed

lemma start_row_sel:
  "is_active_sandbox (start_row now p d sb am db)" "tk_userId (start_row now p d sb am db) = sp_userId p"
  "tk_id (start_row now p d sb am db) = default_to (sp_taskId p) (sd_taskId d)"
  by (simp_all add: start_row_def is_active_sandbox_def default_row_def Let_def)

lemma commit_count:
  assumes "start_commit env now p d sb am s = (s', r)"
  shows "countActiveSandboxTasks u (su_db s') \<le> countActiveSandboxTasks u (su_db s) + (if u = sp_userId p then 1 else 0)"
    "r = Inr t \<Longrightarrow> countActiveSandboxTasks (sp_userId p) (su_db s') = Suc (countActiveSandboxTasks (sp_userId p) (su_db s))"
proof -
  let ?id = "default_to (sp_taskId p) (sd_taskId d)"
  let ?row = "start_row now p d sb am (su_db s)"
  let ?actions = "prepare_actions (start_config p d ?id) @ staging_actions ?id (sp_downloads p) @
    [CreateSession (taskSessionId ?id), RunSession (taskSessionId ?id) (build_command (start_config p d ?id))]"
  have "(\<forall>u. countActiveSandboxTasks u (su_db s') \<le> countActiveSandboxTasks u (su_db s) + (if u = sp_userId p then 1 else 0)) \<and>
    (\<forall>t. r = Inr t \<longrightarrow> countActiveSandboxTasks (sp_userId p) (su_db s') = Suc (countActiveSandboxTasks (sp_userId p) (su_db s)))"
  proof (cases "createTask now (sd_events d 0) ?row (Some (start_payload p ?id)) (su_db s)")
    case None
    with assms show ?thesis by (auto simp: start_commit_def Let_def)
  next
    case (Some db)
    note c = create_count [OF Some start_row_sel(1), unfolded start_row_sel(2,3)]
    obtain acts ok where run: "run_actions (se_act env) ?actions = (acts, ok)" by (metis prod.exhaust)
    show ?thesis
    proof (cases ok)
      case True
      with assms Some run have "su_db s' = updateTask ?id (launch_patch now (start_runtimeData am sb (se_cmdId env) ?id)) db"
        by (auto simp: start_commit_def Let_def)
      then show ?thesis using c(1) launch_count [OF c(2)] by simp
    next
      case False
      with assms Some run have "(su_db s' = db \<or> (\<exists>uuid p b. completeTask now uuid p db = Some (su_db s', b))) \<and> (\<exists>e. r = Inl e)"
        by (auto simp: start_commit_def Let_def split: option.splits)
      then have "no_new_active db (su_db s')" "\<exists>e. r = Inl e" using no_new_complete calm(1) by auto
      then show ?thesis using c(1) unfolding no_new_active_def by (metis Inl_Inr_False)
    qed
  qed
  then show "countActiveSandboxTasks u (su_db s') \<le> countActiveSandboxTasks u (su_db s) + (if u = sp_userId p then 1 else 0)"
    "r = Inr t \<Longrightarrow> countActiveSandboxTasks (sp_userId p) (su_db s') = Suc (countActiveSandboxTasks (sp_userId p) (su_db s))"
    by blast+
qed

subsection \<open>Runs of the supervisor\<close>

datatype sup_op =
    SupStart start_params start_draws
  | SupTick "string \<Rightarrow> uuids"
  | SupRecover "string \<Rightarrow> uuids"
  | SupLook string string "task_row option"
  | SupProbe uuids string string

record sup_call =
  sc_env :: sup_env
  sc_now :: int
  sc_op :: sup_op

definition sup_exec :: "sup_call \<Rightarrow> supervisor \<Rightarrow> supervisor" where
  "sup_exec c s =
     (case sc_op c of
        SupStart p d \<Rightarrow> fst (startTask (sc_env c) (sc_now c) p d s)
      | SupTick uuid \<Rightarrow> heartbeat_tick (sc_env c) (sc_now c) uuid s
      | SupRecover uuid \<Rightarrow> recoverRunning (sc_env c) (sc_now c) uuid s
      | SupLook uuid u task \<Rightarrow> fst (live_check (sc_env c) (sc_now c) uuid u task s)
      | SupProbe uuid t u \<Rightarrow> fst (probeTask (sc_env c) (sc_now c) uuid t u s))"

definition limit_inv :: "supervisor \<Rightarrow> bool" where
  "limit_inv s \<longleftrightarrow> (\<forall>u. countActiveSandboxTasks u (su_db s) \<le> MAX_ACTIVE_TASKS_PER_USER)"

lemma limit_calm: "limit_inv s \<Longrightarrow> calm_step s s' \<Longrightarrow> limit_inv s'"
  unfolding limit_inv_def no_new_active_def using le_trans by blast

lemma limit_start:
  assumes "limit_inv s"
  shows "limit_inv (fst (startTask env now p d s))"
proof -
  obtain s1 r1 where k: "start_check env now p s = (s1, r1)" by (metis prod.exhaust)
  then have db: "su_db s1 = su_db s" using check_db [of env now p s] by simp
  show ?thesis
  proof (cases r1)
    case (Inl e)
    with k db assms show ?thesis by (simp add: startTask_def limit_inv_def)
  next
    case (Inr x)
    obtain sb am where x: "x = (sb, am)" by (metis prod.exhaust)
    obtain s2 r2 where c: "start_commit env now p d sb am s1 = (s2, r2)" by (metis prod.exhaust)
    have "countActiveSandboxTasks u (su_db s2) \<le> MAX_ACTIVE_TASKS_PER_USER" for u
    proof (cases "u = sp_userId p")
      case True
      with commit_count(1) [OF c, of u] check_count [of env now p s s1 x] k Inr db show ?thesis by simp
    next
      case False
      then have "countActiveSandboxTasks u (su_db s2) \<le> countActiveSandboxTasks u (su_db s)"
        using commit_count(1) [OF c, of u] db by simp
      also have "\<dots> \<le> MAX_ACTIVE_TASKS_PER_USER" using assms by (simp add: limit_inv_def)
      finally show ?thesis .
    qed
    with k Inr x c show ?thesis by (simp add: startTask_def limit_inv_def)
  qed
qed

interpretation supervisor_runs: guarded_run sup_exec "\<lambda>_ _. True" limit_inv
proof
  fix s op
  assume "limit_inv s"
  then show "limit_inv (sup_exec op s)"
    by (auto simp: sup_exec_def limit_start heartbeat_tick_def
        intro: limit_calm calm_round calm_recovery calm_live calm_probe split: sup_op.splits)
qed

text \<open>
  C15. A user has at most five active sandbox tasks: whatever the sandboxes answer, operations of the
  supervisor one after the other (starts, heartbeats, recovery, live checks, probes) keep the limit,
  failed starts included.
\<close>

theorem supervisor_task_limit:
  assumes "\<forall>u. countActiveSandboxTasks u (su_db s) \<le> MAX_ACTIVE_TASKS_PER_USER"
  shows "countActiveSandboxTasks user (su_db (run_ops sup_exec calls s)) \<le> MAX_ACTIVE_TASKS_PER_USER"
  using supervisor_runs.run [OF _ ops_ok_True, of s calls] assms by (simp add: limit_inv_def)

text \<open>
  Two starts whose checks both come before either row is written exceed it: the count and the insertion
  are separate queries.
\<close>

lemma task_limit_race:
  assumes "start_check env1 now1 p1 s = (s1, Inr (sb1, am1))" "start_check env2 now2 p2 s1 = (s2, Inr (sb2, am2))"
    and "start_commit env1 now1 p1 d1 sb1 am1 s2 = (s3, Inr t1)" "start_commit env2 now2 p2 d2 sb2 am2 s3 = (s4, Inr t2)"
    and "sp_userId p1 = u" "sp_userId p2 = u" "Suc (countActiveSandboxTasks u (su_db s)) = MAX_ACTIVE_TASKS_PER_USER"
  shows "countActiveSandboxTasks u (su_db s4) = Suc MAX_ACTIVE_TASKS_PER_USER"
proof -
  have "su_db s2 = su_db s" using check_db [of env1 now1 p1 s] check_db [of env2 now2 p2 s1] assms(1,2) by simp
  then show ?thesis using commit_count(2) [OF assms(3)] commit_count(2) [OF assms(4)] assms(5-7) by simp
qed

text \<open>
  The check of a running task's session that finds it ended does not end the task: \<open>finalizeTask\<close> ignores
  a task that this supervisor does not follow, and only such tasks come to the check.
\<close>

lemma live_check_ignores_end:
  "su_db (fst (live_check env now uuid u task s)) = su_db s"
proof -
  have "fst (finalizeTask env now uuid (recovered_task now sb rd t) code s) = s \<and>
      snd (finalizeTask env now uuid (recovered_task now sb rd t) code s)"
    if "map_of (su_active s) (tk_id t) = None" for sb rd t code
    using that by (simp add: finalizeTask_def recovered_task_def)
  then have "finalizeTask env now uuid (recovered_task now sb rd t) code s = (s, True)"
    if "map_of (su_active s) (tk_id t) = None" for sb rd t code
    using that by (metis prod.collapse)
  then show ?thesis unfolding live_check_def by (simp split: option.split sum.split)
qed

text \<open>
  The secret of the callbacks is written to one file only: two preparations that differ in it differ in
  the upload of \<open>.env\<close>, the last action, and the command is the same.
\<close>

lemma callback_secret_confined:
  assumes "a \<noteq> []" "b \<noteq> []"
  shows "butlast (prepare_actions (c\<lparr>tc_callbackSecret := Some a\<rparr>)) = butlast (prepare_actions (c\<lparr>tc_callbackSecret := Some b\<rparr>))"
    "\<exists>f. last (prepare_actions (c\<lparr>tc_callbackSecret := Some a\<rparr>)) = UploadFile (Plain f) (task_dir (tc_taskId c) @ ''/.env'')"
    "build_command (c\<lparr>tc_callbackSecret := Some a\<rparr>) = build_command (c\<lparr>tc_callbackSecret := Some b\<rparr>)"
proof -
  have h: "has_callback (c\<lparr>tc_callbackSecret := Some a\<rparr>) = has_callback (c\<lparr>tc_callbackSecret := Some b\<rparr>)"
    using assms by (simp add: has_callback_def)
  show "butlast (prepare_actions (c\<lparr>tc_callbackSecret := Some a\<rparr>)) = butlast (prepare_actions (c\<lparr>tc_callbackSecret := Some b\<rparr>))"
    unfolding prepare_actions_def Let_def h by (simp add: butlast_append)
  show "\<exists>f. last (prepare_actions (c\<lparr>tc_callbackSecret := Some a\<rparr>)) = UploadFile (Plain f) (task_dir (tc_taskId c) @ ''/.env'')"
    by (simp add: prepare_actions_def Let_def)
  show "build_command (c\<lparr>tc_callbackSecret := Some a\<rparr>) = build_command (c\<lparr>tc_callbackSecret := Some b\<rparr>)"
    unfolding build_command_def h by simp
qed

section \<open>A concrete supervisor\<close>

text \<open>A sandbox in which everything works but, in the second case, the refresh of its activity.\<close>

definition ex_sup_env :: "bool \<Rightarrow> sup_env" where
  "ex_sup_env refresh =
     \<lparr>pe_ensure = (\<lambda>_. True), pe_command = (\<lambda>_ _. Inr None), pe_statusJson = (\<lambda>_. None),
      pe_files = (\<lambda>_. Inl ''gone''), pe_number = (\<lambda>_. None), se_sandbox = (\<lambda>_. Inr ''sb''),
      se_read = (\<lambda>_. None), se_refresh = (\<lambda>_. refresh), se_session = (\<lambda>_. True), se_act = (\<lambda>_. True),
      se_cmdId = ''c1'',
      se_install = \<lparr>ie_manifest = None, ie_check = Some ''1.0'', ie_install = None, ie_version = None, ie_write = True\<rparr>,
      se_json = (\<lambda>_. None), se_b64 = (\<lambda>_. None)\<rparr>"

definition ex_active :: active_task where
  "ex_active = \<lparr>av_taskId = ''t1'', av_traceId = None, av_sandbox = ''sb'', av_sessionId = ''task-t1'',
     av_commandId = ''c1'', av_startedAt = 0, av_timeoutSeconds = 300, av_failures = 0, av_hasCallbacks = True\<rparr>"

definition ex_sup :: supervisor where
  "ex_sup = \<lparr>su_db = ex_db, su_auth = [(''u1'', None)], su_traces = [], su_active = [(''t1'', ex_active)], su_log = []\<rparr>"

lemma heartbeat_failures_add_up_witness:
  "\<exists>r'. getById ''t1'' (su_db (heartbeats
      [(ex_sup_env False, 1), (ex_sup_env True, 2), (ex_sup_env False, 3), (ex_sup_env True, 4), (ex_sup_env False, 5)]
      (\<lambda>t n. ''e9'') ex_sup)) = Some r' \<and> tk_status r' = Lost"
proof -
  let ?ticks = "[(ex_sup_env False, 1), (ex_sup_env True, 2), (ex_sup_env False, 3), (ex_sup_env True, 4), (ex_sup_env False, 5)]"
  have a: "su_active ex_sup = [(av_taskId ex_active, ex_active)]" "av_hasCallbacks ex_active"
    "av_failures ex_active + failing (av_taskId ex_active) ?ticks = 3" "av_failures ex_active < 3"
    "\<forall>(env, now) \<in> set ?ticks. \<not> timed_out now ex_active"
    by (simp_all add: ex_sup_def ex_active_def ex_sup_env_def failing_def timed_out_def)
  have b: "getById (av_taskId ex_active) (su_db ex_sup) = Some ex_row" "\<not> isTerminalStatus (tk_status ex_row)"
    "\<forall>e \<in> set (td_events (su_db ex_sup)). te_taskId e = av_taskId ex_active \<longrightarrow> te_eventId e \<noteq> (\<lambda>t n. ''e9'') (av_taskId ex_active) (1::nat)"
    by (simp_all add: ex_sup_def ex_active_def ex_db_eq getById_def ex_row_def default_row_def
        isTerminalStatus_def TERMINAL_STATUSES_def)
  from heartbeat_failures_add_up [OF a b] show ?thesis by (simp add: ex_active_def)
qed

lemma task_wait_returns_witness:
  "await_task (\<lambda>i. 2000 * int i) (\<lambda>i. Some ex_row) (Some 60) = Some (Some ex_row)"
proof -
  have c: "2000 * int 0 \<le> 2000 * int 1" by simp
  have d: "\<forall>i. 2000 * int (Suc i) + POLL_INTERVAL_MS \<le> 2000 * int (Suc (Suc i))"
    by (simp add: POLL_INTERVAL_MS_def)
  from task_wait_returns [of "\<lambda>i. 2000 * int i", OF c d, of "\<lambda>i. Some ex_row" "Some 60"] show ?thesis by auto
qed

definition ex_key_call :: auth_call where
  "ex_key_call = \<lparr>aq_env = ex_sup_env True, aq_now = 5, aq_user = ''u1'', aq_op = SetKey '' sk-abcdef ''\<rparr>"

lemma auth_config_well_formed_witness:
  "\<exists>c. map_of (su_auth (run_ops auth_exec [ex_key_call] ex_sup)) ''u1'' = Some (Some c) \<and> auth_ok c"
proof -
  have "map_option (map_option cc_status) (map_of (su_auth (run_ops auth_exec [ex_key_call] ex_sup)) ''u1'') =
      Some (Some (Some AuthDone))" by code_simp
  then obtain c where c: "map_of (su_auth (run_ops auth_exec [ex_key_call] ex_sup)) ''u1'' = Some (Some c)" by auto
  have "\<forall>(u, v) \<in> set (su_auth ex_sup). v = None" by (simp add: ex_sup_def)
  from auth_config_well_formed [OF this c] c show ?thesis by blast
qed

lemma supervisor_task_limit_witness:
  "countActiveSandboxTasks ''u1'' (su_db (run_ops sup_exec
      [\<lparr>sc_env = ex_sup_env True, sc_now = 7, sc_op = SupRecover (\<lambda>t n. ''e9'')\<rparr>] ex_sup)) \<le> 5"
proof -
  have "\<forall>u. countActiveSandboxTasks u (su_db ex_sup) \<le> MAX_ACTIVE_TASKS_PER_USER"
    by (simp add: countActiveSandboxTasks_def ex_sup_def ex_db_eq MAX_ACTIVE_TASKS_PER_USER_def)
  from supervisor_task_limit [OF this, of "''u1''" "[\<lparr>sc_env = ex_sup_env True, sc_now = 7, sc_op = SupRecover (\<lambda>t n. ''e9'')\<rparr>]"]
  show ?thesis by (simp add: MAX_ACTIVE_TASKS_PER_USER_def)
qed

end
