(* ===== verification/Programs.thy ===== *)
theory Programs
  imports Prelude
begin

text \<open>
  Programs on a state that may fail and may not return: the effects of the services that call other
  systems.  Their composition, what they keep, and how a run is taken apart.
\<close>

section \<open>Programs\<close>

text \<open>
  A program on a state may not return (\<open>None\<close>); it returns the new state with an error or a value.
\<close>

type_synonym ('s, 'e, 'a) prog = "'s \<Rightarrow> ('s \<times> ('e + 'a)) option"

definition pret :: "'a \<Rightarrow> ('s, 'e, 'a) prog" where
  "pret x = (\<lambda>s. Some (s, Inr x))"

definition pthrow :: "'e \<Rightarrow> ('s, 'e, 'a) prog" where
  "pthrow e = (\<lambda>s. Some (s, Inl e))"

definition ptry :: "('s, 'e, 'a) prog \<Rightarrow> ('e + 'a \<Rightarrow> ('s, 'f, 'b) prog) \<Rightarrow> ('s, 'f, 'b) prog" where
  "ptry m k = (\<lambda>s. case m s of None \<Rightarrow> None | Some (s1, r) \<Rightarrow> k r s1)"

definition pbind :: "('s, 'e, 'a) prog \<Rightarrow> ('a \<Rightarrow> ('s, 'e, 'b) prog) \<Rightarrow> ('s, 'e, 'b) prog" where
  "pbind m k = ptry m (\<lambda>r. case r of Inl e \<Rightarrow> pthrow e | Inr x \<Rightarrow> k x)"

definition pmap_error :: "('e \<Rightarrow> 'f) \<Rightarrow> ('s, 'e, 'a) prog \<Rightarrow> ('s, 'f, 'a) prog" where
  "pmap_error f m = ptry m (\<lambda>r. case r of Inl e \<Rightarrow> pthrow (f e) | Inr x \<Rightarrow> pret x)"

definition pget :: "('s \<Rightarrow> 'a) \<Rightarrow> ('s, 'e, 'a) prog" where
  "pget f = (\<lambda>s. Some (s, Inr (f s)))"

definition pmodify :: "('s \<Rightarrow> 's) \<Rightarrow> ('s, 'e, unit) prog" where
  "pmodify f = (\<lambda>s. Some (f s, Inr ()))"

section \<open>Invariants of programs\<close>

text \<open>A program keeps a predicate when it holds of the state it returns, error or not.\<close>

definition keeps :: "('s \<Rightarrow> bool) \<Rightarrow> ('s, 'e, 'a) prog \<Rightarrow> bool" where
  "keeps I m \<longleftrightarrow> (\<forall>s s' r. I s \<longrightarrow> m s = Some (s', r) \<longrightarrow> I s')"

named_theorems keeps_rules "how programs keep a predicate"

lemma keepsD: "keeps I m \<Longrightarrow> m s = Some (s', r) \<Longrightarrow> I s \<Longrightarrow> I s'"
  unfolding keeps_def by blast

lemma keeps_basic [keeps_rules]:
  "keeps I (pret x)" "keeps I (pthrow e)" "keeps I (pget f)"
  by (simp_all add: keeps_def pret_def pthrow_def pget_def)

lemma ptry_Some: "ptry m k s = Some (s', r) \<longleftrightarrow> (\<exists>s1 r1. m s = Some (s1, r1) \<and> k r1 s1 = Some (s', r))"
  by (cases "m s") (simp_all add: ptry_def split: prod.split)

lemma keeps_try [keeps_rules]: "keeps I m \<Longrightarrow> (\<And>r. keeps I (k r)) \<Longrightarrow> keeps I (ptry m k)"
  unfolding keeps_def
proof (intro allI impI)
  fix s s' r
  assume m: "\<forall>s s' r. I s \<longrightarrow> m s = Some (s', r) \<longrightarrow> I s'" and k: "\<And>r. \<forall>s s' ra. I s \<longrightarrow> k r s = Some (s', ra) \<longrightarrow> I s'"
    and s: "I s" "ptry m k s = Some (s', r)"
  from s(2) obtain s1 r1 where 1: "m s = Some (s1, r1)" "k r1 s1 = Some (s', r)"
    unfolding ptry_Some by (elim exE conjE)
  from m s(1) 1(1) have "I s1" by blast
  with k 1(2) show "I s'" by blast
qed

lemma keeps_bind [keeps_rules]: "keeps I m \<Longrightarrow> (\<And>x. keeps I (k x)) \<Longrightarrow> keeps I (pbind m k)"
  unfolding pbind_def by (intro keeps_try) (auto split: sum.split intro: keeps_basic)

lemma keeps_error [keeps_rules]: "keeps I m \<Longrightarrow> keeps I (pmap_error f m)"
  unfolding pmap_error_def by (intro keeps_try) (auto split: sum.split intro: keeps_basic)

lemma keeps_if [keeps_rules]: "(b \<Longrightarrow> keeps I m) \<Longrightarrow> (\<not> b \<Longrightarrow> keeps I n) \<Longrightarrow> keeps I (if b then m else n)"
  by simp

lemma keeps_option [keeps_rules]:
  "keeps I m \<Longrightarrow> (\<And>x. keeps I (k x)) \<Longrightarrow> keeps I (case v of None \<Rightarrow> m | Some x \<Rightarrow> k x)"
  by (cases v) simp_all

lemma keeps_sum [keeps_rules]:
  "(\<And>e. keeps I (m e)) \<Longrightarrow> (\<And>x. keeps I (k x)) \<Longrightarrow> keeps I (case v of Inl e \<Rightarrow> m e | Inr x \<Rightarrow> k x)"
  by (cases v) simp_all

section \<open>Taking a run apart\<close>

lemma pbindE:
  assumes "pbind m k s = Some (s', r)"
  obtains (error) e where "m s = Some (s', Inl e)" "r = Inl e"
    | (ok) s1 x where "m s = Some (s1, Inr x)" "k x s1 = Some (s', r)"
  using assms by (cases "m s") (auto simp: pbind_def ptry_def pthrow_def split: sum.splits prod.splits)

lemma pmap_errorE:
  assumes "pmap_error f m s = Some (s', r)"
  obtains (error) e where "m s = Some (s', Inl e)" "r = Inl (f e)" | (ok) x where "m s = Some (s', Inr x)" "r = Inr x"
  using assms by (cases "m s") (auto simp: pmap_error_def ptry_def pthrow_def pret_def split: sum.splits prod.splits)

lemma pbind_okE:
  assumes "pbind m k s = Some (s', Inr y)"
  obtains s1 x where "m s = Some (s1, Inr x)" "k x s1 = Some (s', Inr y)"
  using assms by (auto elim: pbindE)

lemma pbind_run: "m s = Some (s1, Inr x) \<Longrightarrow> pbind m k s = k x s1"
  by (simp add: pbind_def ptry_def)

lemma pbind_fail: "m s = Some (s1, Inl e) \<Longrightarrow> pbind m k s = Some (s1, Inl e)"
  by (simp add: pbind_def ptry_def pthrow_def)

lemma pbind_modify: "pbind (pmodify f) k s = k () (f s)"
  by (simp add: pbind_def ptry_def pmodify_def)

lemma pbasic_Some:
  "pret x s = Some (s', r) \<longleftrightarrow> s' = s \<and> r = Inr x" "pthrow e s = Some (s', r) \<longleftrightarrow> s' = s \<and> r = Inl e"
  "pmodify f s = Some (s', q) \<longleftrightarrow> s' = f s \<and> q = Inr ()"
  by (auto simp: pret_def pthrow_def pmodify_def)

text \<open>The state a program leaves, when it returns.\<close>

definition state_after :: "('s, 'e, 'a) prog \<Rightarrow> 's \<Rightarrow> 's option" where
  "state_after m s = map_option fst (m s)"

lemma state_after_inv:
  assumes "keeps I m" "state_after m s = Some s'" "I s"
  shows "I s'"
proof -
  obtain y where y: "m s = Some y" "s' = fst y" using assms(2) by (auto simp: state_after_def)
  obtain s1 r where "y = (s1, r)" by (metis prod.exhaust)
  with y keepsD [OF assms(1), of s s1 r] assms(3) show ?thesis by simp
qed

end
