(* ===== verification/Compute.thy ===== *)
theory Compute
  imports Provider Programs
begin

text \<open>
  The computer of a user: the tables of volumes and instances with the store of
  \<open>packages/db/src/repositories/compute-store-live.ts\<close>, the resolution of volume and sandbox of
  \<open>packages/computer/src/sandbox/resolve-volume.ts\<close> and \<open>resolve-sandbox.ts\<close>, the service of
  \<open>service.ts\<close>.

  The provider of volumes and sandboxes (Daytona), the clock and the workflow engine are a parameter: a
  world of any type with operations on it.
\<close>

section \<open>Tables\<close>

datatype volume_status = VolCreating | VolReady | VolError | VolDeleted

datatype instance_status =
  InsVolumeCreating | InsCreating | InsRunning | InsStopped | InsArchived | InsError | InsDeleted

record volume_row =
  vo_id :: string
  vo_userId :: string
  vo_externalVolumeId :: string
  vo_status :: volume_status
  vo_authConfig :: "codex_config option"
  vo_createdAt :: int
  vo_updatedAt :: int

text \<open>All instances the code writes have the role \<open>main\<close>.\<close>

record instance_row =
  ci_id :: string
  ci_userId :: string
  ci_volumeId :: string
  ci_externalInstanceId :: "string option"
  ci_status :: instance_status
  ci_snapshot :: "string option"
  ci_lastActivityAt :: int
  ci_createdAt :: int
  ci_updatedAt :: int

record compute_db =
  cd_volumes :: "volume_row list"
  cd_instances :: "instance_row list"

definition getVolume :: "string \<Rightarrow> compute_db \<Rightarrow> volume_row option" where
  "getVolume userId db = find_first (\<lambda>v. vo_userId v = userId) (cd_volumes db)"

text \<open>
  A user has one volume row, and an external volume belongs to one row; a conflict with the row of
  another user fails the query.
\<close>

definition upsertVolume ::
    "int \<Rightarrow> string \<Rightarrow> string \<Rightarrow> string \<Rightarrow> volume_status \<Rightarrow> compute_db \<Rightarrow> (compute_db \<times> volume_row) option" where
  "upsertVolume now uuid userId external status db =
     (if list_ex (\<lambda>v. vo_userId v \<noteq> userId \<and> vo_externalVolumeId v = external) (cd_volumes db) then None
      else (case getVolume userId db of
          Some v \<Rightarrow>
            (let v1 = v\<lparr>vo_externalVolumeId := external, vo_status := status, vo_updatedAt := now\<rparr>
             in Some (db\<lparr>cd_volumes := map (\<lambda>w. if vo_userId w = userId then
                    w\<lparr>vo_externalVolumeId := external, vo_status := status, vo_updatedAt := now\<rparr> else w)
                  (cd_volumes db)\<rparr>, v1))
        | None \<Rightarrow>
            (let v = \<lparr>vo_id = uuid, vo_userId = userId, vo_externalVolumeId = external, vo_status = status,
                      vo_authConfig = None, vo_createdAt = now, vo_updatedAt = now\<rparr>
             in if list_ex (\<lambda>w. vo_id w = uuid) (cd_volumes db) then None
                else Some (db\<lparr>cd_volumes := cd_volumes db @ [v]\<rparr>, v))))"

text \<open>
  The live main instance of a user: at most one row is not deleted.  A row is updated when there is one
  and the new status is not \<open>deleted\<close>, as the unique index covers only live rows; a snapshot that is not
  given is left as it is.  The volume must exist.
\<close>

definition live_instance :: "string \<Rightarrow> instance_row \<Rightarrow> bool" where
  "live_instance userId r \<longleftrightarrow> ci_userId r = userId \<and> ci_status r \<noteq> InsDeleted"

definition upsertMainInstance ::
    "int \<Rightarrow> string \<Rightarrow> string \<Rightarrow> string option \<Rightarrow> string \<Rightarrow> instance_status \<Rightarrow> string option \<Rightarrow>
     compute_db \<Rightarrow> compute_db option" where
  "upsertMainInstance now uuid userId external volumeId status snapshot db =
     (if \<not> list_ex (\<lambda>v. vo_id v = volumeId) (cd_volumes db) then None
      else if status \<noteq> InsDeleted \<and> list_ex (live_instance userId) (cd_instances db) then
        Some (db\<lparr>cd_instances := map (\<lambda>r. if live_instance userId r then
            r\<lparr>ci_externalInstanceId := external, ci_volumeId := volumeId, ci_status := status,
              ci_snapshot := or_else snapshot (ci_snapshot r), ci_lastActivityAt := now, ci_updatedAt := now\<rparr> else r)
          (cd_instances db)\<rparr>)
      else if list_ex (\<lambda>r. ci_id r = uuid) (cd_instances db) then None
      else Some (db\<lparr>cd_instances := cd_instances db @
        [\<lparr>ci_id = uuid, ci_userId = userId, ci_volumeId = volumeId, ci_externalInstanceId = external,
          ci_status = status, ci_snapshot = snapshot, ci_lastActivityAt = now, ci_createdAt = now,
          ci_updatedAt = now\<rparr>]\<rparr>))"

definition provisionable :: "string \<Rightarrow> int \<Rightarrow> instance_row \<Rightarrow> bool" where
  "provisionable userId throttleCutoff r \<longleftrightarrow>
     ci_userId r = userId \<and> ci_status r \<notin> {InsDeleted, InsRunning, InsStopped, InsArchived} \<and>
     (ci_updatedAt r \<le> throttleCutoff \<or> ci_externalInstanceId r = None)"

definition claimProvisionSlot :: "int \<Rightarrow> string \<Rightarrow> int \<Rightarrow> compute_db \<Rightarrow> compute_db \<times> bool" where
  "claimProvisionSlot now userId throttleCutoff db =
     (db\<lparr>cd_instances := map (\<lambda>r. if provisionable userId throttleCutoff r then r\<lparr>ci_updatedAt := now\<rparr> else r)
        (cd_instances db)\<rparr>,
      list_ex (provisionable userId throttleCutoff) (cd_instances db))"

definition mainInstanceExists :: "string \<Rightarrow> compute_db \<Rightarrow> bool" where
  "mainInstanceExists userId db = list_ex (live_instance userId) (cd_instances db)"

definition store_loadAuthConfig :: "string \<Rightarrow> compute_db \<Rightarrow> codex_config option" where
  "store_loadAuthConfig userId db = Option.bind (getVolume userId db) vo_authConfig"

definition store_saveAuthConfig :: "int \<Rightarrow> string \<Rightarrow> codex_config option \<Rightarrow> compute_db \<Rightarrow> compute_db" where
  "store_saveAuthConfig now userId cfg db =
     db\<lparr>cd_volumes := map (\<lambda>v. if vo_userId v = userId then v\<lparr>vo_authConfig := cfg, vo_updatedAt := now\<rparr> else v)
          (cd_volumes db)\<rparr>"

section \<open>The provider\<close>

text \<open>An error of the provider: whether it says that the thing is not there, and its message.\<close>

datatype api_error = ApiError bool string

record dvolume =
  dv_id :: string
  dv_state :: string

record sandbox_obj =
  sx_id :: string
  sx_state :: string
  sx_volumes :: "(string \<times> string) list option"     \<comment> \<open>volume, mount path\<close>

record create_spec =
  cs_name :: string
  cs_snapshot :: string
  cs_autoStop :: int
  cs_autoArchive :: int
  cs_labels :: "(string \<times> string) list"
  cs_user :: string
  cs_mounts :: "(string \<times> string) list"

record 'w platform =
  pf_now :: "'w \<Rightarrow> int"
  pf_wait :: "int \<Rightarrow> 'w \<Rightarrow> 'w"
  pf_uuid :: "'w \<Rightarrow> 'w \<times> string"
  pf_volumeGet :: "string \<Rightarrow> 'w \<Rightarrow> 'w \<times> (api_error + dvolume)"
  pf_volumeCreate :: "string \<Rightarrow> 'w \<Rightarrow> 'w \<times> (api_error + dvolume)"
  pf_volumeDelete :: "string \<Rightarrow> 'w \<Rightarrow> 'w \<times> (api_error + unit)"
  pf_get :: "string \<Rightarrow> 'w \<Rightarrow> 'w \<times> (api_error + sandbox_obj)"
  pf_refresh :: "string \<Rightarrow> 'w \<Rightarrow> 'w \<times> (api_error + string \<times> (string \<times> string) list option)"
  pf_start :: "string \<Rightarrow> 'w \<Rightarrow> 'w \<times> (api_error + unit)"
  pf_stop :: "string \<Rightarrow> 'w \<Rightarrow> 'w \<times> (api_error + unit)"
  pf_delete :: "string \<Rightarrow> 'w \<Rightarrow> 'w \<times> (api_error + unit)"
  pf_create :: "create_spec \<Rightarrow> 'w \<Rightarrow> 'w \<times> (api_error + unit)"
  pf_exec :: "string \<Rightarrow> string \<Rightarrow> 'w \<Rightarrow> 'w \<times> (api_error + string)"
  pf_workflow :: "string \<Rightarrow> 'w \<Rightarrow> 'w \<times> (api_error + unit)"

record 'w comp_state =
  cm_db :: compute_db
  cm_world :: 'w
  cm_cache :: "(string \<times> sandbox_obj) list"
  cm_workflows :: "string list"

definition papi :: "('w \<Rightarrow> 'w \<times> (api_error + 'a)) \<Rightarrow> ('w comp_state, api_error, 'a) prog" where
  "papi f = (\<lambda>s. case f (cm_world s) of (w, r) \<Rightarrow> Some (s\<lparr>cm_world := w\<rparr>, r))"

definition db_error :: api_error where "db_error = ApiError False ''query failed''"

text \<open>A store operation at the current time, with a fresh identifier drawn.\<close>

definition upsertVolumeRow ::
    "'w platform \<Rightarrow> string \<Rightarrow> string \<Rightarrow> volume_status \<Rightarrow> ('w comp_state, api_error, volume_row) prog" where
  "upsertVolumeRow pf userId external status = (\<lambda>s.
     case pf_uuid pf (cm_world s) of (w, uuid) \<Rightarrow>
       (case upsertVolume (pf_now pf w) uuid userId external status (cm_db s) of
          None \<Rightarrow> Some (s\<lparr>cm_world := w\<rparr>, Inl db_error)
        | Some (db, v) \<Rightarrow> Some (s\<lparr>cm_world := w, cm_db := db\<rparr>, Inr v)))"

definition upsertMainSandboxRow ::
    "'w platform \<Rightarrow> string \<Rightarrow> string option \<Rightarrow> instance_status \<Rightarrow> string \<Rightarrow> string option \<Rightarrow>
     ('w comp_state, api_error, unit) prog" where
  "upsertMainSandboxRow pf userId external status volumeId snapshot = (\<lambda>s.
     case pf_uuid pf (cm_world s) of (w, uuid) \<Rightarrow>
       (case upsertMainInstance (pf_now pf w) uuid userId external volumeId status snapshot (cm_db s) of
          None \<Rightarrow> Some (s\<lparr>cm_world := w\<rparr>, Inl db_error)
        | Some db \<Rightarrow> Some (s\<lparr>cm_world := w, cm_db := db\<rparr>, Inr ())))"

section \<open>Names\<close>

definition dev_suffix :: "bool \<Rightarrow> string" where "dev_suffix isDev = (if isDev then ''-dev'' else [])"

definition volumeName :: "string \<Rightarrow> bool \<Rightarrow> string" where
  "volumeName userId isDev = ''amby-vol-'' @ userId @ dev_suffix isDev"

definition sandboxName :: "string \<Rightarrow> bool \<Rightarrow> string" where
  "sandboxName userId isDev = ''computer-v1-'' @ userId @ dev_suffix isDev"

definition sandboxLabels :: "string \<Rightarrow> bool \<Rightarrow> (string \<times> string) list" where
  "sandboxLabels userId isDev =
     [(''userId'', userId), (''app'', ''amby''), (''environment'', if isDev then ''dev'' else ''production'')]"

definition sandboxWorkflowId :: "string \<Rightarrow> string" where
  "sandboxWorkflowId userId = ''sandbox-provision-'' @ userId"

definition volumeWorkflowId :: "string \<Rightarrow> string" where
  "volumeWorkflowId userId = ''volume-provision-'' @ userId"

definition VOLUME_MOUNT_PATH :: string where "VOLUME_MOUNT_PATH = AGENT_HOME @ ''/.persist''"

definition MOUNTED_HOME_DIRS :: "string list" where
  "MOUNTED_HOME_DIRS = VOLUME_MOUNT_PATH # map (\<lambda>d. VOLUME_MOUNT_PATH @ ''/'' @ d)
     [''Desktop'', ''Documents'', ''Downloads'', ''.codex'', ''.tasks'']"

text \<open>The version is that of \<open>docker/computer/version.json\<close>.\<close>

definition COMPUTER_SNAPSHOT :: string where "COMPUTER_SNAPSHOT = ''amby/computer:0.1''"

definition buildSandboxCreateParams :: "string \<Rightarrow> bool \<Rightarrow> (string \<times> string) list \<Rightarrow> create_spec" where
  "buildSandboxCreateParams userId isDev mounts =
     \<lparr>cs_name = sandboxName userId isDev, cs_snapshot = COMPUTER_SNAPSHOT, cs_autoStop = 15,
      cs_autoArchive = 60, cs_labels = sandboxLabels userId isDev, cs_user = ''agent'', cs_mounts = mounts\<rparr>"

section \<open>Volumes\<close>

definition mapVolumeStateToDbStatus :: "string \<Rightarrow> volume_status" where
  "mapVolumeStateToDbStatus state =
     (if state = ''ready'' then VolReady
      else if state \<in> {''creating'', ''pending_create''} then VolCreating
      else if state \<in> {''deleted'', ''deleting'', ''pending_delete''} then VolDeleted
      else VolError)"

text \<open>The answer that the thing is not there is no error.\<close>

definition absent_ok :: "(api_error + 'a) \<Rightarrow> ('s, api_error, 'a option) prog" where
  "absent_ok r = (case r of Inr x \<Rightarrow> pret (Some x) | Inl (ApiError True m) \<Rightarrow> pret None | Inl e \<Rightarrow> pthrow e)"

definition tryGetVolumeByName :: "'w platform \<Rightarrow> string \<Rightarrow> ('w comp_state, api_error, dvolume option) prog" where
  "tryGetVolumeByName pf name = ptry (papi (pf_volumeGet pf name)) absent_ok"

definition safeDeleteVolume :: "'w platform \<Rightarrow> dvolume \<Rightarrow> ('w comp_state, api_error, unit option) prog" where
  "safeDeleteVolume pf v = ptry (papi (pf_volumeDelete pf (dv_id v))) absent_ok"

definition getOrCreateVolume :: "'w platform \<Rightarrow> string \<Rightarrow> ('w comp_state, api_error, dvolume) prog" where
  "getOrCreateVolume pf name = pbind (tryGetVolumeByName pf name) (\<lambda>existing. case existing of
     Some v \<Rightarrow> pret v | None \<Rightarrow> papi (pf_volumeCreate pf name))"

definition VOLUME_UNUSABLE_STATES :: "string set" where
  "VOLUME_UNUSABLE_STATES = {''error'', ''deleted'', ''deleting'', ''pending_delete''}"

definition resolveHealthyVolume :: "'w platform \<Rightarrow> string \<Rightarrow> ('w comp_state, api_error, dvolume) prog" where
  "resolveHealthyVolume pf name = pbind (tryGetVolumeByName pf name) (\<lambda>existing. case existing of
     None \<Rightarrow> papi (pf_volumeCreate pf name)
   | Some v \<Rightarrow>
       if dv_state v \<notin> VOLUME_UNUSABLE_STATES then pret v
       else pbind (safeDeleteVolume pf v) (\<lambda>_. papi (pf_volumeCreate pf name)))"

definition record_volume :: "'w platform \<Rightarrow> string \<Rightarrow> dvolume \<Rightarrow> ('w comp_state, api_error, volume_row) prog" where
  "record_volume pf userId v = upsertVolumeRow pf userId (dv_id v) (mapVolumeStateToDbStatus (dv_state v))"

definition wrap_error :: "string \<Rightarrow> api_error \<Rightarrow> api_error" where
  "wrap_error prefix e = (case e of ApiError n m \<Rightarrow> ApiError False (prefix @ m))"

definition ensureVolume :: "'w platform \<Rightarrow> string \<Rightarrow> bool \<Rightarrow> ('w comp_state, api_error, volume_row) prog" where
  "ensureVolume pf userId isDev =
     pmap_error (wrap_error (''Failed to ensure volume for user '' @ userId @ '': ''))
       (pbind (getOrCreateVolume pf (volumeName userId isDev)) (record_volume pf userId))"

definition ensureProvisionableVolume ::
    "'w platform \<Rightarrow> string \<Rightarrow> bool \<Rightarrow> ('w comp_state, api_error, volume_row) prog" where
  "ensureProvisionableVolume pf userId isDev =
     pmap_error (wrap_error (''Failed to provision volume for user '' @ userId @ '': ''))
       (pbind (resolveHealthyVolume pf (volumeName userId isDev)) (record_volume pf userId))"

definition pwait :: "'w platform \<Rightarrow> int \<Rightarrow> 'w comp_state \<Rightarrow> 'w comp_state" where
  "pwait pf ms s = s\<lparr>cm_world := pf_wait pf ms (cm_world s)\<rparr>"

text \<open>The wait for a volume; a state is written only when it differs from the one seen before.\<close>

partial_function (option) volume_loop ::
    "'w platform \<Rightarrow> string \<Rightarrow> string \<Rightarrow> int \<Rightarrow> int \<Rightarrow> string \<Rightarrow> ('w comp_state, api_error, volume_row) prog" where
  "volume_loop pf userId name poll deadline seen s =
     (if pf_now pf (cm_world s) < deadline
      then (case resolveHealthyVolume pf name s of
          None \<Rightarrow> None
        | Some (s1, Inl e) \<Rightarrow> Some (s1, Inl e)
        | Some (s1, Inr v) \<Rightarrow>
            (if mapVolumeStateToDbStatus (dv_state v) = VolReady then upsertVolumeRow pf userId (dv_id v) VolReady s1
             else if dv_state v = seen then volume_loop pf userId name poll deadline seen (pwait pf poll s1)
             else (case record_volume pf userId v s1 of
                 None \<Rightarrow> None
               | Some (s2, Inl e) \<Rightarrow> Some (s2, Inl e)
               | Some (s2, Inr row) \<Rightarrow> volume_loop pf userId name poll deadline (dv_state v) (pwait pf poll s2))))
      else Some (s, Inl (ApiError False (''Timed out waiting for volume readiness for user '' @ userId @
             ''. Last known status: '' @ str_or seen ''unknown'' @ ''.''))))"

declare volume_loop.simps [code]

definition waitForVolumeReady ::
    "'w platform \<Rightarrow> string \<Rightarrow> bool \<Rightarrow> int option \<Rightarrow> int option \<Rightarrow> ('w comp_state, api_error, volume_row) prog" where
  "waitForVolumeReady pf userId isDev timeoutMs pollIntervalMs s =
     volume_loop pf userId (volumeName userId isDev) (default_to pollIntervalMs 1000)
       (pf_now pf (cm_world s) + default_to timeoutMs (20 * 60 * 1000)) [] s"

section \<open>Sandboxes\<close>

definition inferDbStatusFromSandbox :: "sandbox_obj \<Rightarrow> instance_status" where
  "inferDbStatusFromSandbox sb =
     (if sx_state sb \<in> {''archived'', ''archiving''} then InsArchived
      else if sx_state sb \<in> {''stopped'', ''stopping''} then InsStopped
      else if sx_state sb \<in> {''error'', ''build_failed''} then InsError
      else InsRunning)"

definition sandboxHasExpectedVolume :: "sandbox_obj \<Rightarrow> string \<Rightarrow> bool" where
  "sandboxHasExpectedVolume sb external =
     (case sx_volumes sb of None \<Rightarrow> False | Some vs \<Rightarrow> (external, VOLUME_MOUNT_PATH) \<in> set vs)"

definition tryGetSandboxByName :: "'w platform \<Rightarrow> string \<Rightarrow> ('w comp_state, api_error, sandbox_obj option) prog" where
  "tryGetSandboxByName pf name = ptry (papi (pf_get pf name)) absent_ok"

text \<open>\<open>refreshData\<close> replaces what the object knows.\<close>

definition refreshData :: "'w platform \<Rightarrow> sandbox_obj \<Rightarrow> ('w comp_state, api_error, sandbox_obj) prog" where
  "refreshData pf sb = pbind (papi (pf_refresh pf (sx_id sb)))
     (\<lambda>(state, vs). pret (sb\<lparr>sx_state := state, sx_volumes := vs\<rparr>))"

definition startSandboxIfNeeded :: "'w platform \<Rightarrow> sandbox_obj \<Rightarrow> ('w comp_state, api_error, unit) prog" where
  "startSandboxIfNeeded pf sb = pbind (refreshData pf sb) (\<lambda>sb1.
     if sx_state sb1 = ''started'' then pret () else papi (pf_start pf (sx_id sb1)))"

partial_function (option) started_loop ::
    "'w platform \<Rightarrow> int \<Rightarrow> int \<Rightarrow> sandbox_obj \<Rightarrow> ('w comp_state, api_error, sandbox_obj) prog" where
  "started_loop pf poll deadline sb s =
     (if pf_now pf (cm_world s) < deadline
      then (case refreshData pf sb s of
          None \<Rightarrow> None
        | Some (s1, Inl e) \<Rightarrow> Some (s1, Inl e)
        | Some (s1, Inr sb1) \<Rightarrow>
            (if sx_state sb1 = ''started'' then Some (s1, Inr sb1)
             else if sx_state sb1 \<in> {''stopped'', ''archived''}
             then (case papi (pf_start pf (sx_id sb1)) s1 of
                 None \<Rightarrow> None
               | Some (s2, Inl e) \<Rightarrow> Some (s2, Inl e)
               | Some (s2, Inr u) \<Rightarrow> started_loop pf poll deadline sb1 (pwait pf poll s2))
             else if sx_state sb1 \<in> {''error'', ''build_failed''}
             then Some (s1, Inl (ApiError False (''Sandbox entered '' @ sx_state sb1 @ '' while waiting to start.'')))
             else started_loop pf poll deadline sb1 (pwait pf poll s1)))
      else Some (s, Inl (ApiError False
             (''Timed out waiting for sandbox '' @ sx_id sb @ '' to reach started state.''))))"

declare started_loop.simps [code]

definition waitForSandboxStarted ::
    "'w platform \<Rightarrow> sandbox_obj \<Rightarrow> int option \<Rightarrow> int option \<Rightarrow> ('w comp_state, api_error, sandbox_obj) prog" where
  "waitForSandboxStarted pf sb timeoutMs pollIntervalMs s =
     started_loop pf (default_to pollIntervalMs 1000)
       (pf_now pf (cm_world s) + default_to timeoutMs (10 * 60 * 1000)) sb s"

definition ensureMountedHomeLayout :: "'w platform \<Rightarrow> sandbox_obj \<Rightarrow> ('w comp_state, api_error, string) prog" where
  "ensureMountedHomeLayout pf sb = papi (pf_exec pf (sx_id sb) (''mkdir -p '' @ join_with '' '' MOUNTED_HOME_DIRS))"

definition set_cache :: "string \<Rightarrow> sandbox_obj \<Rightarrow> 'w comp_state \<Rightarrow> 'w comp_state" where
  "set_cache userId sb s = s\<lparr>cm_cache := AList.update userId sb (cm_cache s)\<rparr>"

definition drop_cache :: "string \<Rightarrow> 'w comp_state \<Rightarrow> 'w comp_state" where
  "drop_cache userId s = s\<lparr>cm_cache := AList.delete userId (cm_cache s)\<rparr>"

text \<open>The cache holds the object itself, so a later refresh shows there too.\<close>

definition persistMainSandboxFromInstance ::
    "'w platform \<Rightarrow> string \<Rightarrow> sandbox_obj \<Rightarrow> string \<Rightarrow> instance_status option \<Rightarrow> string option \<Rightarrow>
     ('w comp_state, api_error, sandbox_obj) prog" where
  "persistMainSandboxFromInstance pf userId sb volumeId status snapshot =
     pbind (refreshData pf sb) (\<lambda>sb1.
     pbind (pmodify (set_cache userId sb1)) (\<lambda>_.
     pbind (upsertMainSandboxRow pf userId (Some (sx_id sb1)) (default_to status (inferDbStatusFromSandbox sb1))
              volumeId snapshot) (\<lambda>_. pret sb1)))"

definition adoptSandbox ::
    "'w platform \<Rightarrow> string \<Rightarrow> volume_row \<Rightarrow> sandbox_obj \<Rightarrow> ('w comp_state, api_error, sandbox_obj) prog" where
  "adoptSandbox pf userId vol sb =
     pbind (waitForSandboxStarted pf sb None (Some 1000)) (\<lambda>ready.
     pbind (ensureMountedHomeLayout pf ready) (\<lambda>_.
     pbind (pmodify (set_cache userId ready)) (\<lambda>_.
       persistMainSandboxFromInstance pf userId ready (vo_id vol) (Some InsRunning) (Some COMPUTER_SNAPSHOT))))"

section \<open>The main sandbox\<close>

text \<open>An error of the service: whether it is transient, and its message.\<close>

datatype sandbox_error = SandboxError bool string

definition sandbox_fail :: "string \<Rightarrow> api_error \<Rightarrow> sandbox_error" where
  "sandbox_fail prefix e = (case e of ApiError n m \<Rightarrow> SandboxError False (prefix @ m))"

definition ENV_SETUP_MESSAGE :: string where
  "ENV_SETUP_MESSAGE = ''Your computer environment is still being set up. Storage provisioning can take a few minutes, so please try again shortly.''"

definition SANDBOX_START_MESSAGE :: string where
  "SANDBOX_START_MESSAGE = ''Your computer is starting up. This usually takes a minute or two; please try again shortly.''"

definition usable :: "volume_row \<Rightarrow> sandbox_obj \<Rightarrow> bool" where
  "usable vol sb \<longleftrightarrow> sandboxHasExpectedVolume sb (vo_externalVolumeId vol) \<and> inferDbStatusFromSandbox sb \<noteq> InsError"

text \<open>The cached sandbox: a failure of any kind drops it from the cache.\<close>

definition from_cache ::
    "'w platform \<Rightarrow> string \<Rightarrow> volume_row \<Rightarrow> ('w comp_state, sandbox_error, sandbox_obj option) prog" where
  "from_cache pf userId vol s =
     (case map_of (cm_cache s) userId of
        None \<Rightarrow> pret None s
      | Some cached \<Rightarrow>
          ptry (pbind (refreshData pf cached) (\<lambda>sb.
                  if usable vol sb then pbind (adoptSandbox pf userId vol sb) (\<lambda>r. pret (Some r)) else pret None))
            (\<lambda>r. case r of
               Inr (Some sb) \<Rightarrow> pret (Some sb)
             | _ \<Rightarrow> pbind (pmodify (drop_cache userId)) (\<lambda>_. pret None)) s)"

definition existing_sandbox :: "'w platform \<Rightarrow> string \<Rightarrow> ('w comp_state, api_error, sandbox_obj option) prog" where
  "existing_sandbox pf name = pbind (tryGetSandboxByName pf name) (\<lambda>found. case found of
     None \<Rightarrow> pret None | Some sb \<Rightarrow> pbind (refreshData pf sb) (\<lambda>sb1. pret (Some sb1)))"

text \<open>The row of a computer that is being provisioned, and the error that says so.\<close>

definition mark_provisioning ::
    "'w platform \<Rightarrow> string \<Rightarrow> volume_row \<Rightarrow> ('w comp_state, sandbox_error, sandbox_obj) prog" where
  "mark_provisioning pf userId vol =
     pbind (pmap_error (sandbox_fail ''Failed to update sandbox provisioning status: '')
        (upsertMainSandboxRow pf userId None
           (if vo_status vol = VolReady then InsCreating else InsVolumeCreating) (vo_id vol) None)) (\<lambda>_.
     pthrow (SandboxError True (if vo_status vol = VolReady then SANDBOX_START_MESSAGE else ENV_SETUP_MESSAGE)))"

definition ensureMainSandbox ::
    "'w platform \<Rightarrow> string \<Rightarrow> bool \<Rightarrow> ('w comp_state, sandbox_error, sandbox_obj) prog" where
  "ensureMainSandbox pf userId isDev =
     pbind (pmap_error (sandbox_fail ''Failed to resolve volume record: '') (ensureVolume pf userId isDev)) (\<lambda>vol.
       if vo_status vol \<noteq> VolReady then mark_provisioning pf userId vol
       else pbind (from_cache pf userId vol) (\<lambda>cached. case cached of
           Some sb \<Rightarrow> pret sb
         | None \<Rightarrow>
             pbind (pmap_error (sandbox_fail ''Failed to resolve sandbox by name: '')
                      (existing_sandbox pf (sandboxName userId isDev))) (\<lambda>found. case found of
                 Some sb \<Rightarrow>
                   if usable vol sb
                   then pmap_error (sandbox_fail ''Failed to start existing sandbox: '') (adoptSandbox pf userId vol sb)
                   else mark_provisioning pf userId vol
               | None \<Rightarrow> mark_provisioning pf userId vol)))"

section \<open>Provisioning\<close>

definition PROVISION_WORKFLOW_THROTTLE_MS :: int where "PROVISION_WORKFLOW_THROTTLE_MS = 15000"

definition create_workflow :: "'w platform \<Rightarrow> string \<Rightarrow> ('w comp_state, api_error, unit) prog" where
  "create_workflow pf i = pbind (papi (pf_workflow pf i)) (\<lambda>_. pmodify (\<lambda>s. s\<lparr>cm_workflows := cm_workflows s @ [i]\<rparr>))"

definition claim_slot :: "'w platform \<Rightarrow> string \<Rightarrow> int \<Rightarrow> ('w comp_state, api_error, bool) prog" where
  "claim_slot pf userId cutoff = (\<lambda>s.
     case claimProvisionSlot (pf_now pf (cm_world s)) userId cutoff (cm_db s) of
       (db, b) \<Rightarrow> Some (s\<lparr>cm_db := db\<rparr>, Inr b))"

definition kickOffSandboxProvisionIfNeeded ::
    "'w platform \<Rightarrow> string \<Rightarrow> ('w comp_state, api_error, unit) prog" where
  "kickOffSandboxProvisionIfNeeded pf userId =
     pbind (pget (\<lambda>s. pf_now pf (cm_world s) - PROVISION_WORKFLOW_THROTTLE_MS)) (\<lambda>cutoff.
     pbind (claim_slot pf userId cutoff) (\<lambda>claimed.
       if claimed then create_workflow pf (sandboxWorkflowId userId)
       else pbind (pget (\<lambda>s. mainInstanceExists userId (cm_db s))) (\<lambda>exists.
         if exists then pret () else create_workflow pf (sandboxWorkflowId userId))))"

section \<open>The service\<close>

definition notConfigured :: sandbox_error where
  "notConfigured = SandboxError False
     ''Sandbox not configured. Set DAYTONA_API_KEY in .env to enable computer access. Sign up at https://app.daytona.io to get an API key.''"

text \<open>
  \<open>ensure\<close>: a transient failure starts the provisioning when the binding of the workflow is there; its
  own failure is only logged.
\<close>

definition service_ensure ::
    "'w platform \<Rightarrow> bool \<Rightarrow> bool \<Rightarrow> bool \<Rightarrow> string \<Rightarrow> ('w comp_state, sandbox_error, sandbox_obj) prog" where
  "service_ensure pf hasKey hasWorkflow isDev userId =
     (if \<not> hasKey then pthrow notConfigured
      else ptry (ensureMainSandbox pf userId isDev) (\<lambda>r. case r of
          Inr sb \<Rightarrow> pret sb
        | Inl (SandboxError transient m) \<Rightarrow>
            if transient \<and> hasWorkflow
            then ptry (kickOffSandboxProvisionIfNeeded pf userId) (\<lambda>_. pthrow (SandboxError transient m))
            else pthrow (SandboxError transient m)))"

definition service_exec ::
    "'w platform \<Rightarrow> (sandbox_obj \<Rightarrow> 'w \<Rightarrow> 'w \<times> (api_error + unit)) \<Rightarrow> sandbox_obj \<Rightarrow> string \<Rightarrow>
     ('w comp_state, sandbox_error, string) prog" where
  "service_exec pf refreshActivity sb command =
     pmap_error (\<lambda>_. SandboxError False (''Exec failed: '' @ command))
       (pbind (papi (refreshActivity sb)) (\<lambda>_. papi (pf_exec pf (sx_id sb) command)))"

definition service_stop :: "'w platform \<Rightarrow> sandbox_obj \<Rightarrow> ('w comp_state, sandbox_error, unit) prog" where
  "service_stop pf sb =
     pmap_error (\<lambda>_. SandboxError False ''Failed to stop sandbox'')
       (pbind (papi (pf_stop pf (sx_id sb)))
         (\<lambda>_. pmodify (\<lambda>s. s\<lparr>cm_cache := filter (\<lambda>(u, v). sx_id v \<noteq> sx_id sb) (cm_cache s)\<rparr>)))"

text \<open>\<open>runWithEnsuredSandbox\<close>: what a tool call answers.\<close>

definition unavailable :: "string \<Rightarrow> string" where
  "unavailable m = ''Sandbox error: '' @ m @ ''. The sandbox may be temporarily unavailable. Try again in a moment.''"

definition runWithEnsuredSandbox ::
    "('s, sandbox_error, sandbox_obj) prog \<Rightarrow> (sandbox_obj \<Rightarrow> ('s, string, 'a) prog) \<Rightarrow> ('s, 'e, 'a + string) prog" where
  "runWithEnsuredSandbox ensure f =
     ptry ensure (\<lambda>r. case r of
         Inl (SandboxError transient m) \<Rightarrow> pret (Inr (if transient then m else unavailable m))
       | Inr sb \<Rightarrow> ptry (f sb) (\<lambda>r. case r of Inl m \<Rightarrow> pret (Inr (unavailable m)) | Inr x \<Rightarrow> pret (Inl x)))"

end
