(* ===== verification/Provision.thy ===== *)
theory Provision
  imports Compute
begin

text \<open>
  The provisioning workflows \<open>apps/api/src/workflows/volume-provision.ts\<close> and \<open>sandbox-provision.ts\<close>.  A
  step that fails is run again as often as its options say (five times without options); what it did before it failed stays done.
\<close>

section \<open>Steps\<close>

fun pstep :: "nat \<Rightarrow> ('s, 'e, 'a) prog \<Rightarrow> ('s, 'e, 'a) prog" where
  "pstep 0 m s = m s"
| "pstep (Suc retries) m s =
     (case m s of None \<Rightarrow> None
      | Some (s1, Inr x) \<Rightarrow> Some (s1, Inr x)
      | Some (s1, Inl e) \<Rightarrow> pstep retries m s1)"

definition fail :: "string \<Rightarrow> ('s, api_error, 'a) prog" where
  "fail m = pthrow (ApiError False m)"

definition sleep :: "'w platform \<Rightarrow> int \<Rightarrow> ('w comp_state, api_error, unit) prog" where
  "sleep pf ms = pmodify (pwait pf ms)"

record volume_result =
  vp_id :: string
  vp_external :: string
  vp_status :: volume_status

definition volume_result_of :: "volume_row \<Rightarrow> volume_result" where
  "volume_result_of v = \<lparr>vp_id = vo_id v, vp_external = vo_externalVolumeId v, vp_status = vo_status v\<rparr>"

definition status_name :: "volume_status \<Rightarrow> string" where
  "status_name v = (case v of VolCreating \<Rightarrow> ''creating'' | VolReady \<Rightarrow> ''ready'' | VolError \<Rightarrow> ''error''
     | VolDeleted \<Rightarrow> ''deleted'')"

section \<open>The volume\<close>

definition MAX_VOLUME_POLLS :: nat where "MAX_VOLUME_POLLS = 240"

definition check_volume :: "'w platform \<Rightarrow> string \<Rightarrow> bool \<Rightarrow> ('w comp_state, api_error, volume_row) prog" where
  "check_volume pf userId isDev =
     pbind (resolveHealthyVolume pf (volumeName userId isDev)) (record_volume pf userId)"

text \<open>The polls that are left; the first is not delayed.\<close>

fun poll_volume ::
    "'w platform \<Rightarrow> string \<Rightarrow> bool \<Rightarrow> nat \<Rightarrow> bool \<Rightarrow> ('w comp_state, api_error, volume_row) prog" where
  "poll_volume pf userId isDev 0 first = fail ''Timed out waiting for volume readiness.''"
| "poll_volume pf userId isDev (Suc n) first =
     pbind (if first then pret () else sleep pf 5000) (\<lambda>_.
     pbind (pstep 2 (check_volume pf userId isDev)) (\<lambda>row.
       if vo_status row = VolReady then pret row
       else if vo_status row \<in> {VolError, VolDeleted}
       then fail (''Volume entered '' @ status_name (vo_status row) @ '' state during provisioning.'')
       else poll_volume pf userId isDev n False))"

text \<open>The notification of the parent workflow, when there is one and it can be reached.\<close>

definition volume_workflow ::
    "'w platform \<Rightarrow> (string \<Rightarrow> volume_result \<Rightarrow> 'w \<Rightarrow> 'w \<times> (api_error + unit)) \<Rightarrow> bool \<Rightarrow> bool \<Rightarrow> string \<Rightarrow>
     string option \<Rightarrow> ('w comp_state, api_error, volume_result) prog" where
  "volume_workflow pf notify hasWorkflow isDev userId parent =
     pbind (pstep 2 (ensureProvisionableVolume pf userId isDev)) (\<lambda>row.
     pbind (if vo_status row = VolReady then pret row
            else poll_volume pf userId isDev MAX_VOLUME_POLLS True) (\<lambda>ready.
     pbind (case truthy_str parent of
              Some p \<Rightarrow> if hasWorkflow then pstep 3 (papi (notify p (volume_result_of ready))) else pret ()
            | None \<Rightarrow> pret ()) (\<lambda>_.
       pret (volume_result_of ready))))"

section \<open>The sandbox\<close>

definition MAX_SANDBOX_POLLS :: nat where "MAX_SANDBOX_POLLS = 200"

text \<open>Substring tests of the error messages.\<close>

fun str_includes :: "string \<Rightarrow> string \<Rightarrow> bool" where
  "str_includes [] p \<longleftrightarrow> p = []"
| "str_includes (c # s) p \<longleftrightarrow> starts_with (c # s) p \<or> str_includes s p"

definition isDuplicateSandboxNameError :: "api_error \<Rightarrow> bool" where
  "isDuplicateSandboxNameError e = (case e of ApiError n m \<Rightarrow> str_includes (to_lower m) ''already exists'')"

definition deleteSandboxIfPresent :: "'w platform \<Rightarrow> sandbox_obj \<Rightarrow> ('w comp_state, api_error, unit) prog" where
  "deleteSandboxIfPresent pf sb = ptry (papi (pf_delete pf (sx_id sb))) (\<lambda>r. case r of
     Inr u \<Rightarrow> pret ()
   | Inl (ApiError n m) \<Rightarrow>
       if str_includes m ''404'' \<or> str_includes (to_lower m) ''not found'' then pret () else pthrow (ApiError n m))"

definition usable_for :: "volume_result \<Rightarrow> sandbox_obj \<Rightarrow> bool" where
  "usable_for vol sb \<longleftrightarrow> sandboxHasExpectedVolume sb (vp_external vol) \<and> inferDbStatusFromSandbox sb \<noteq> InsError"

definition provision_spec :: "string \<Rightarrow> bool \<Rightarrow> volume_result \<Rightarrow> create_spec" where
  "provision_spec userId isDev vol =
     buildSandboxCreateParams userId isDev [(vp_external vol, VOLUME_MOUNT_PATH)]"

text \<open>
  The creation after which the sandbox exists; the result says whether it is new.  A name that is taken
  is looked up and replaced when it does not fit.
\<close>

definition create_sandbox ::
    "'w platform \<Rightarrow> string \<Rightarrow> bool \<Rightarrow> volume_result \<Rightarrow> ('w comp_state, api_error, bool) prog" where
  "create_sandbox pf userId isDev vol =
     (let name = sandboxName userId isDev; spec = provision_spec userId isDev vol;
          failed = (\<lambda>e. pbind (upsertMainSandboxRow pf userId None InsError (vp_id vol) None) (\<lambda>_. pthrow e))
      in ptry (papi (pf_create pf spec)) (\<lambda>r. case r of
           Inr u \<Rightarrow> pret True
         | Inl e \<Rightarrow>
             if \<not> isDuplicateSandboxNameError e then failed e
             else pbind (tryGetSandboxByName pf name) (\<lambda>found. case found of
               None \<Rightarrow> failed e
             | Some sb \<Rightarrow> pbind (refreshData pf sb) (\<lambda>sb1.
                 if usable_for vol sb1 then pret False
                 else pbind (deleteSandboxIfPresent pf sb1) (\<lambda>_.
                   pbind (papi (pf_create pf spec)) (\<lambda>_. pret True))))))"

definition ensure_sandbox_step ::
    "'w platform \<Rightarrow> string \<Rightarrow> bool \<Rightarrow> volume_result \<Rightarrow> ('w comp_state, api_error, bool) prog" where
  "ensure_sandbox_step pf userId isDev vol =
     (let make = pbind (upsertMainSandboxRow pf userId None InsCreating (vp_id vol) (Some COMPUTER_SNAPSHOT))
                   (\<lambda>_. create_sandbox pf userId isDev vol)
      in pbind (tryGetSandboxByName pf (sandboxName userId isDev)) (\<lambda>found. case found of
           None \<Rightarrow> make
         | Some sb \<Rightarrow> pbind (refreshData pf sb) (\<lambda>sb1.
             if usable_for vol sb1 then pret False
             else pbind (deleteSandboxIfPresent pf sb1) (\<lambda>_. make))))"

datatype poll_state = PollStarted | PollStarting | PollError | PollPending

definition check_sandbox :: "'w platform \<Rightarrow> string \<Rightarrow> ('w comp_state, api_error, poll_state) prog" where
  "check_sandbox pf name = pbind (tryGetSandboxByName pf name) (\<lambda>found. case found of
     None \<Rightarrow> fail ''Sandbox not found after creation.''
   | Some sb \<Rightarrow> pbind (refreshData pf sb) (\<lambda>sb1.
       if sx_state sb1 = ''started'' then pret PollStarted
       else if sx_state sb1 \<in> {''stopped'', ''archived''}
       then pbind (papi (pf_start pf (sx_id sb1))) (\<lambda>_. pret PollStarting)
       else if sx_state sb1 \<in> {''error'', ''build_failed''} then pret PollError
       else pret PollPending))"

fun poll_sandbox :: "'w platform \<Rightarrow> string \<Rightarrow> nat \<Rightarrow> bool \<Rightarrow> ('w comp_state, api_error, unit) prog" where
  "poll_sandbox pf name 0 first = pret ()"
| "poll_sandbox pf name (Suc n) first =
     pbind (if first then pret () else sleep pf 3000) (\<lambda>_.
     pbind (pstep 2 (check_sandbox pf name)) (\<lambda>state.
       if state = PollStarted then pret ()
       else if state = PollError then fail ''Sandbox entered error state while waiting to start.''
       else if n = 0 then fail ''Timed out waiting for sandbox to reach started state.''
       else poll_sandbox pf name n False))"

definition setup_sandbox ::
    "'w platform \<Rightarrow> string \<Rightarrow> string \<Rightarrow> volume_result \<Rightarrow> ('w comp_state, api_error, string) prog" where
  "setup_sandbox pf userId name vol = pbind (tryGetSandboxByName pf name) (\<lambda>found. case found of
     None \<Rightarrow> fail ''Sandbox not found during setup.''
   | Some sb \<Rightarrow>
       pbind (refreshData pf sb) (\<lambda>sb1.
       pbind (ensureMountedHomeLayout pf sb1) (\<lambda>_.
       pbind (upsertMainSandboxRow pf userId (Some (sx_id sb1)) InsRunning (vp_id vol) (Some COMPUTER_SNAPSHOT)) (\<lambda>_.
         pret (sx_id sb1)))))"

text \<open>
  The volume of the workflow: ready at once, or as the event of the volume workflow says (none when the
  wait for it times out).
\<close>

definition provision_volume ::
    "'w platform \<Rightarrow> volume_result option \<Rightarrow> bool \<Rightarrow> bool \<Rightarrow> string \<Rightarrow> ('w comp_state, api_error, volume_result) prog" where
  "provision_volume pf event hasVolumeWorkflow isDev userId =
     pbind (pstep 2 (ensureVolume pf userId isDev)) (\<lambda>row.
       if vo_status row = VolReady then pret (volume_result_of row)
       else pbind (upsertMainSandboxRow pf userId None InsVolumeCreating (vo_id row) None) (\<lambda>_.
         if \<not> hasVolumeWorkflow then fail ''VOLUME_WORKFLOW binding is not configured.''
         else pbind (pstep 5 (create_workflow pf (volumeWorkflowId userId))) (\<lambda>_.
           case event of
             None \<Rightarrow> fail ''timeout''
           | Some v \<Rightarrow>
               if vp_status v = VolReady then pret v
               else fail (''Volume workflow completed with unexpected status '' @ status_name (vp_status v) @ ''.''))))"

definition sandbox_workflow ::
    "'w platform \<Rightarrow> volume_result option \<Rightarrow> bool \<Rightarrow> bool \<Rightarrow> string \<Rightarrow>
     ('w comp_state, api_error, string \<times> bool) prog" where
  "sandbox_workflow pf event hasVolumeWorkflow isDev userId =
     (let name = sandboxName userId isDev in
      pbind (provision_volume pf event hasVolumeWorkflow isDev userId) (\<lambda>vol.
      pbind (pstep 2 (ensure_sandbox_step pf userId isDev vol)) (\<lambda>created.
      pbind (poll_sandbox pf name MAX_SANDBOX_POLLS True) (\<lambda>_.
      pbind (pstep 2 (setup_sandbox pf userId name vol)) (\<lambda>sandboxId.
        pret (sandboxId, created))))))"

end
