(* ===== verification/ComputeProps.thy ===== *)
theory ComputeProps
  imports Provision
begin

text \<open>
  The properties of the computers: rows stay unique, the waits end, what the service answers agrees with
  the table, and when provisioning is started.
\<close>

section \<open>Steps that are run again\<close>

lemma keeps_step [keeps_rules]: "keeps I m \<Longrightarrow> keeps I (pstep n m)"
proof (induction n)
  case (Suc n)
  have "I s'" if h: "I s" "pstep (Suc n) m s = Some (s', r)" for s s' r
  proof (cases "m s")
    case None
    with h(2) show ?thesis by simp
  next
    case (Some x)
    obtain s1 r1 where x: "x = (s1, r1)" by (metis prod.exhaust)
    from keepsD [OF Suc.prems Some [unfolded x] h(1)] have 1: "I s1" .
    show ?thesis
    proof (cases r1)
      case (Inl e)
      with h(2) Some x have "pstep n m s1 = Some (s', r)" by simp
      from keepsD [OF Suc.IH [OF Suc.prems] this 1] show ?thesis .
    next
      case (Inr y)
      with h(2) Some x 1 show ?thesis by simp
    qed
  qed
  then show ?case unfolding keeps_def by blast
qed (simp add: keeps_def)

text \<open>
  A predicate that looks only at the tables, and that the two row operations keep, is kept by everything;
  so is one of the list of workflows by what starts none.
\<close>

locale row_inv =
  fixes I :: "'w comp_state \<Rightarrow> bool"
  assumes world: "I s \<Longrightarrow> I (s\<lparr>cm_world := w\<rparr>)"
    and cache: "I s \<Longrightarrow> I (s\<lparr>cm_cache := c\<rparr>)"
    and volume: "I s \<Longrightarrow> upsertVolume now uuid u ext st (cm_db s) = Some (db, v) \<Longrightarrow> I (s\<lparr>cm_db := db\<rparr>)"
    and main: "I s \<Longrightarrow> upsertMainInstance now uuid u e vol stat snap (cm_db s) = Some db' \<Longrightarrow> I (s\<lparr>cm_db := db'\<rparr>)"
begin

lemma api: "keeps I (papi f)"
  by (auto simp: keeps_def papi_def world split: prod.splits)

lemma wait: "I s \<Longrightarrow> I (pwait pf ms s)"
  by (simp add: pwait_def world)

lemma caches: "keeps I (pmodify (set_cache u sb))" "keeps I (pmodify (drop_cache u))"
  by (simp_all add: keeps_def pmodify_def set_cache_def drop_cache_def cache)

lemma upsert_volume: "keeps I (upsertVolumeRow pf u ext st)"
proof -
  have "I s'" if "I s" "upsertVolumeRow pf u ext st s = Some (s', r)" for s s' r
  proof -
    obtain w uuid where w: "pf_uuid pf (cm_world s) = (w, uuid)" by (metis prod.exhaust)
    show ?thesis
    proof (cases "upsertVolume (pf_now pf w) uuid u ext st (cm_db s)")
      case None
      with that w show ?thesis by (auto simp: upsertVolumeRow_def world)
    next
      case (Some x)
      obtain db v where x: "x = (db, v)" by (metis prod.exhaust)
      have "I (s\<lparr>cm_world := w\<rparr>)" using that(1) by (rule world)
      then have "I (s\<lparr>cm_world := w, cm_db := db\<rparr>)" by (rule volume) (use Some x in simp)
      with that(2) w Some x show ?thesis by (auto simp: upsertVolumeRow_def)
    qed
  qed
  then show ?thesis unfolding keeps_def by blast
qed

lemma upsert_main: "keeps I (upsertMainSandboxRow pf u ext st vol snap)"
proof -
  have "I s'" if "I s" "upsertMainSandboxRow pf u ext st vol snap s = Some (s', r)" for s s' r
  proof -
    obtain w uuid where w: "pf_uuid pf (cm_world s) = (w, uuid)" by (metis prod.exhaust)
    show ?thesis
    proof (cases "upsertMainInstance (pf_now pf w) uuid u ext vol st snap (cm_db s)")
      case None
      with that w show ?thesis by (auto simp: upsertMainSandboxRow_def world)
    next
      case (Some db)
      have "I (s\<lparr>cm_world := w\<rparr>)" using that(1) by (rule world)
      then have "I (s\<lparr>cm_world := w, cm_db := db\<rparr>)" by (rule main) (use Some in simp)
      with that(2) w Some show ?thesis by (auto simp: upsertMainSandboxRow_def)
    qed
  qed
  then show ?thesis unfolding keeps_def by blast
qed

lemma absent: "keeps I (absent_ok r)"
  by (auto simp: absent_ok_def intro: keeps_basic split: sum.splits api_error.splits bool.splits)

lemma lookups:
  "keeps I (tryGetVolumeByName pf n)" "keeps I (safeDeleteVolume pf v)" "keeps I (tryGetSandboxByName pf n)"
  "keeps I (getOrCreateVolume pf n)" "keeps I (resolveHealthyVolume pf n)"
  unfolding tryGetVolumeByName_def safeDeleteVolume_def tryGetSandboxByName_def getOrCreateVolume_def
    resolveHealthyVolume_def
  by (intro keeps_rules api absent)+

lemma volumes:
  "keeps I (record_volume pf u v)" "keeps I (ensureVolume pf u d)" "keeps I (ensureProvisionableVolume pf u d)"
  "keeps I (check_volume pf u d)"
  unfolding record_volume_def ensureVolume_def ensureProvisionableVolume_def check_volume_def
  by (intro keeps_rules upsert_volume lookups)+

lemma refresh: "keeps I (refreshData pf sb)"
  unfolding refreshData_def by (intro keeps_rules api) (auto intro: keeps_basic split: prod.splits)

lemma started: "keeps I (started_loop pf poll deadline sb)"
proof -
  have "I s \<longrightarrow> I (fst y)" if "started_loop pf poll deadline sb s = Some y" for pf poll deadline sb s y
    using that
  proof (induction rule: started_loop.raw_induct [rotated, consumes 1, case_names step])
    case (step loop pf poll deadline sb s y)
    show ?case
    proof
      assume inv: "I s"
      have rec: "I (fst y)" if l: "loop pf poll deadline sb1 (pwait pf poll s1) = Some y" and i: "I s1" for sb1 s1
        using step(1) [OF l] wait [OF i, of pf poll] by (rule mp)
      show "I (fst y)"
      proof (cases "pf_now pf (cm_world s) < deadline")
        case True
        show ?thesis
        proof (cases "refreshData pf sb s")
          case (Some x)
          obtain s1 r where x: "x = (s1, r)" by (metis prod.exhaust)
          have s1: "I s1" by (rule keepsD [OF refresh Some [unfolded x] inv])
          show ?thesis
          proof (cases r)
            case (Inl e)
            with step(2) True Some x s1 show ?thesis by auto
          next
            case (Inr sb1)
            obtain w q where "pf_start pf (sx_id sb1) (cm_world s1) = (w, q)" by (metis prod.exhaust)
            then have p: "papi (pf_start pf (sx_id sb1)) s1 = Some (s1\<lparr>cm_world := w\<rparr>, q)" by (simp add: papi_def)
            note E = step(2) [unfolded Some x Inr, simplified True if_True option.case prod.case sum.case]
            show ?thesis
            proof (cases "sx_state sb1 = ''started''")
              case False
              note E = E [unfolded if_not_P [OF False]]
              show ?thesis
              proof (cases "sx_state sb1 \<in> {''stopped'', ''archived''}")
                case True
                note E = E [unfolded if_P [OF True] p option.case prod.case]
                show ?thesis using E rec [OF _ world [OF s1]] world [OF s1] by (cases q) auto
              next
                case False
                note E = E [unfolded if_not_P [OF False]]
                show ?thesis using E rec [OF _ s1] s1
                  by (cases "sx_state sb1 \<in> {''error'', ''build_failed''}") (simp_all, auto)
              qed
            qed (use E s1 in auto)
          qed
        qed (use step(2) True in simp)
      qed (use step(2) inv in auto)
    qed
  qed
  then show ?thesis unfolding keeps_def by (metis fst_conv)
qed

lemma waits: "keeps I (waitForSandboxStarted pf sb t p)"
proof -
  have "I s'" if "I s" "waitForSandboxStarted pf sb t p s = Some (s', r)" for s s' r
    using keepsD [OF started that(2) [unfolded waitForSandboxStarted_def] that(1)] .
  then show ?thesis unfolding keeps_def by blast
qed

lemma adopt: "keeps I (adoptSandbox pf u vol sb)"
  unfolding adoptSandbox_def persistMainSandboxFromInstance_def ensureMountedHomeLayout_def
  by (intro keeps_rules waits api caches refresh upsert_main)

lemma cached: "keeps I (from_cache pf u vol)"
proof -
  have "I s'" if h: "I s" "from_cache pf u vol s = Some (s', r)" for s s' r
  proof (cases "map_of (cm_cache s) u")
    case None
    with h show ?thesis by (simp add: from_cache_def pret_def)
  next
    case (Some c)
    let ?m = "ptry (pbind (refreshData pf c) (\<lambda>sb.
        if usable vol sb then pbind (adoptSandbox pf u vol sb) (\<lambda>r. pret (Some r)) else pret None))
      (\<lambda>r. case r of Inr (Some sb) \<Rightarrow> pret (Some sb) | _ \<Rightarrow> pbind (pmodify (drop_cache u)) (\<lambda>_. pret None))"
    have k: "keeps I ?m" by (intro keeps_rules refresh adopt caches)
    have m: "?m s = Some (s', r)" using h(2) unfolding from_cache_def Some option.case .
    show ?thesis by (rule keepsD [OF k, OF m, OF h(1)])
  qed
  then show ?thesis unfolding keeps_def by blast
qed

lemma ensure: "keeps I (ensureMainSandbox pf u d)" "keeps I (mark_provisioning pf u vol)"
  unfolding ensureMainSandbox_def mark_provisioning_def existing_sandbox_def
  by (intro keeps_rules volumes upsert_main cached lookups refresh adopt)+

lemma volume_waits: "keeps I (waitForVolumeReady pf u d t p)"
proof -
  have inv: "I s \<longrightarrow> I (fst y)" if "volume_loop pf u n poll deadline seen s = Some y" for pf u n poll deadline seen s y
    using that
  proof (induction rule: volume_loop.raw_induct [rotated, consumes 1, case_names step])
    case (step loop pf u n poll deadline seen s y)
    show ?case
    proof
      assume inv: "I s"
      have rec: "I (fst y)" if l: "loop pf u n poll deadline seen1 (pwait pf poll s1) = Some y" and i: "I s1" for seen1 s1
        using step(1) [OF l] wait [OF i, of pf poll] by (rule mp)
      show "I (fst y)"
      proof (cases "pf_now pf (cm_world s) < deadline")
        case True
        show ?thesis
        proof (cases "resolveHealthyVolume pf n s")
          case (Some x)
          obtain s1 r where x: "x = (s1, r)" by (metis prod.exhaust)
          have s1: "I s1" by (rule keepsD [OF lookups(5) Some [unfolded x] inv])
          show ?thesis
          proof (cases r)
            case (Inl e)
            with step(2) True Some x s1 show ?thesis by auto
          next
            case (Inr v)
            note E = step(2) [unfolded Some x Inr, simplified True if_True option.case prod.case sum.case]
            show ?thesis
            proof (cases "mapVolumeStateToDbStatus (dv_state v) = VolReady")
              case True
              note E = E [unfolded if_P [OF True]]
              show ?thesis using keepsD [OF upsert_volume _ s1] E by (metis prod.collapse)
            next
              case False
              note E = E [unfolded if_not_P [OF False]]
              show ?thesis
              proof (cases "dv_state v = seen")
                case False
                note E = E [unfolded if_not_P [OF False]]
                obtain z where z: "record_volume pf u v s1 = Some z" using E by (cases "record_volume pf u v s1") auto
                obtain s2 q where q: "z = (s2, q)" by (metis prod.exhaust)
                have s2: "I s2" by (rule keepsD [OF volumes(1) z [unfolded q] s1])
                show ?thesis using E z q rec [OF _ s2] s2 by (cases q) auto
              qed (use E rec [OF _ s1] in auto)
            qed
          qed
        qed (use step(2) True in simp)
      qed (use step(2) inv in auto)
    qed
  qed
  have "I s'" if "I s" "waitForVolumeReady pf u d t p s = Some (s', r)" for s s' r
  proof -
    obtain z where z: "(s', r) = z" by simp
    from that(2) have "I s \<longrightarrow> I (fst z)" unfolding waitForVolumeReady_def z by (rule inv)
    with that(1) z show ?thesis by auto
  qed
  then show ?thesis unfolding keeps_def by blast
qed

end

text \<open>The same when workflows are created and slots claimed.\<close>

locale service_inv = row_inv I for I :: "'w comp_state \<Rightarrow> bool" +
  assumes workflows: "I s \<Longrightarrow> I (s\<lparr>cm_workflows := l\<rparr>)"
    and claim: "I s \<Longrightarrow> claimProvisionSlot now u cutoff (cm_db s) = (db, b) \<Longrightarrow> I (s\<lparr>cm_db := db\<rparr>)"
begin

lemma create: "keeps I (create_workflow pf i)"
proof -
  have "keeps I (pmodify (\<lambda>s. s\<lparr>cm_workflows := cm_workflows s @ [i]\<rparr>))"
    by (simp add: keeps_def pmodify_def workflows)
  then show ?thesis unfolding create_workflow_def by (intro keeps_rules api)
qed

lemma slot: "keeps I (claim_slot pf u cutoff)"
proof -
  have "I s'" if h: "I s" "claim_slot pf u cutoff s = Some (s', r)" for s s' r
  proof -
    obtain db b where c: "claimProvisionSlot (pf_now pf (cm_world s)) u cutoff (cm_db s) = (db, b)"
      by (metis prod.exhaust)
    with h(2) have "s' = s\<lparr>cm_db := db\<rparr>" by (simp add: claim_slot_def)
    with claim [OF h(1) c] show ?thesis by simp
  qed
  then show ?thesis unfolding keeps_def by blast
qed

lemma kick: "keeps I (kickOffSandboxProvisionIfNeeded pf u)"
  unfolding kickOffSandboxProvisionIfNeeded_def by (intro keeps_rules slot create)

lemma service: "keeps I (service_ensure pf k w d u)"
  unfolding service_ensure_def
  by (intro keeps_rules ensure kick) (auto intro!: keeps_rules ensure kick split: sandbox_error.split)

lemma stop: "keeps I (service_stop pf sb)"
proof -
  have "keeps I (pmodify (\<lambda>s. s\<lparr>cm_cache := filter (\<lambda>(u, v). sx_id v \<noteq> sx_id sb) (cm_cache s)\<rparr>))"
    by (simp add: keeps_def pmodify_def cache)
  then show ?thesis unfolding service_stop_def by (intro keeps_rules api)
qed

lemma fails: "keeps I (fail m)" "keeps I (sleep pf ms)"
  by (simp_all add: keeps_def fail_def pthrow_def sleep_def pmodify_def wait)

lemma volume_polls: "keeps I (poll_volume pf u d n first)"
  by (induction n arbitrary: first) (auto intro!: keeps_rules fails volumes)

lemma sandbox_polls: "keeps I (poll_sandbox pf name n first)"
proof -
  have "keeps I (check_sandbox pf name)"
    unfolding check_sandbox_def by (intro keeps_rules lookups refresh api fails)
  then show ?thesis by (induction n arbitrary: first) (auto intro!: keeps_rules fails)
qed

lemma volume_provisioning: "keeps I (volume_workflow pf notify w d u parent)"
  unfolding volume_workflow_def by (intro keeps_rules volumes volume_polls api)

lemma deletion: "keeps I (deleteSandboxIfPresent pf sb)"
  unfolding deleteSandboxIfPresent_def
  by (intro keeps_rules api) (auto intro!: keeps_rules split: api_error.split)

lemma making: "keeps I (create_sandbox pf u d vol)" "keeps I (ensure_sandbox_step pf u d vol)"
  unfolding create_sandbox_def ensure_sandbox_step_def Let_def
  by (intro keeps_rules api lookups refresh deletion upsert_main)+

lemma sandbox_provisioning: "keeps I (sandbox_workflow pf event w d u)"
  unfolding sandbox_workflow_def provision_volume_def setup_sandbox_def ensureMountedHomeLayout_def Let_def
  by (intro keeps_rules volumes upsert_main fails create making sandbox_polls lookups refresh api)

end

end
