(* ===== verification/ComputeRows.thy ===== *)
theory ComputeRows
  imports ComputeProps
begin

text \<open>
  What holds of the rows of the computers, whatever the requests and the provisioning workflows do, that
  the service always answers, what its answer says of the rows, and when provisioning is started.
\<close>

section \<open>The rows\<close>

text \<open>
  The constraints of the tables: keys are unique, a user has one volume row and at most one live main
  instance, and the volume of an instance exists.
\<close>

definition live_rows :: "string \<Rightarrow> compute_db \<Rightarrow> instance_row list" where
  "live_rows u db = filter (live_instance u) (cd_instances db)"

definition compute_inv :: "compute_db \<Rightarrow> bool" where
  "compute_inv db \<longleftrightarrow>
     distinct (map vo_id (cd_volumes db)) \<and> distinct (map vo_userId (cd_volumes db)) \<and>
     distinct (map vo_externalVolumeId (cd_volumes db)) \<and> distinct (map ci_id (cd_instances db)) \<and>
     (\<forall>u. length (live_rows u db) \<le> 1) \<and>
     (\<forall>r \<in> set (cd_instances db). ci_volumeId r \<in> vo_id ` set (cd_volumes db))"

lemma length_filter_map_if:
  assumes "\<And>v. Q (if P v then g v else v) = Q v"
  shows "length (filter Q (map (\<lambda>v. if P v then g v else v) vs)) = length (filter Q vs)"
proof (induction vs)
  case (Cons v vs)
  have "Q (if P v then g v else v) = Q v" by (rule assms)
  with Cons show ?case by (cases "Q v") (simp_all only: list.map filter.simps list.size if_True if_False)
qed simp

lemma compute_inv_volumes:
  assumes "compute_inv db" "map vo_id vs = map vo_id (cd_volumes db)"
    "map vo_userId vs = map vo_userId (cd_volumes db)" "distinct (map vo_externalVolumeId vs)"
  shows "compute_inv (db\<lparr>cd_volumes := vs\<rparr>)"
proof -
  have "vo_id ` set vs = vo_id ` set (cd_volumes db)" by (metis assms(2) list.set_map)
  then show ?thesis using assms by (simp add: compute_inv_def live_rows_def)
qed

lemma compute_inv_instances:
  assumes "compute_inv db" "distinct (map ci_id rs)" "\<And>u. length (filter (live_instance u) rs) \<le> 1"
    "\<forall>r \<in> set rs. ci_volumeId r \<in> vo_id ` set (cd_volumes db)"
  shows "compute_inv (db\<lparr>cd_instances := rs\<rparr>)"
  using assms by (simp add: compute_inv_def live_rows_def)

lemma upsertVolume_inv:
  assumes "compute_inv db" "upsertVolume now uuid u ext st db = Some (db', v)"
  shows "compute_inv db'"
proof (cases "getVolume u db")
  case None
  then have "\<forall>w \<in> set (cd_volumes db). vo_userId w \<noteq> u"
    unfolding getVolume_def by (simp add: find_first_None)
  with None assms show ?thesis
    by (auto simp: upsertVolume_def compute_inv_def live_rows_def Let_def list_ex_iff split: if_splits)
next
  case (Some v0)
  let ?g = "\<lambda>w. w\<lparr>vo_externalVolumeId := ext, vo_status := st, vo_updatedAt := now\<rparr>"
  let ?vs = "map (\<lambda>w. if vo_userId w = u then ?g w else w) (cd_volumes db)"
  have db': "db' = db\<lparr>cd_volumes := ?vs\<rparr>" and free: "\<forall>w \<in> set (cd_volumes db). vo_userId w \<noteq> u \<longrightarrow> vo_externalVolumeId w \<noteq> ext"
    using assms(2) Some by (auto simp: upsertVolume_def Let_def list_ex_iff split: if_splits)
  have "distinct (map vo_externalVolumeId (map (\<lambda>w. if vo_userId w = u then ?g w else w) vs))"
    if "distinct (map vo_externalVolumeId vs)" "distinct (map vo_userId vs)"
      "\<forall>w \<in> set vs. vo_userId w \<noteq> u \<longrightarrow> vo_externalVolumeId w \<noteq> ext" for vs
    using that by (induction vs) (auto simp: image_iff)
  with assms(1) free have "distinct (map vo_externalVolumeId ?vs)" unfolding compute_inv_def by blast
  then show ?thesis unfolding db' by (intro compute_inv_volumes assms(1) map_if_same) simp_all
qed

text \<open>Rows that are updated in place and keep their identity.\<close>

lemma update_rows_inv:
  assumes "compute_inv db" and g: "\<And>r. ci_id (g r) = ci_id r" "\<And>r. ci_userId (g r) = ci_userId r"
    and s: "\<And>r. P r \<Longrightarrow> (ci_status (g r) = InsDeleted) = (ci_status r = InsDeleted)"
    and v: "\<And>r. P r \<Longrightarrow> r \<in> set (cd_instances db) \<Longrightarrow> ci_volumeId (g r) \<in> vo_id ` set (cd_volumes db)"
  shows "compute_inv (db\<lparr>cd_instances := map (\<lambda>r. if P r then g r else r) (cd_instances db)\<rparr>)"
proof -
  let ?rs = "map (\<lambda>r. if P r then g r else r) (cd_instances db)"
  have "live_instance u (if P r then g r else r) = live_instance u r" for u r
    using g s by (auto simp: live_instance_def)
  then have l: "length (filter (live_instance u) ?rs) = length (filter (live_instance u) (cd_instances db))" for u
    by (rule length_filter_map_if)
  have i: "map ci_id ?rs = map ci_id (cd_instances db)"
    by (rule map_if_same) (rule g)
  have "\<forall>r \<in> set ?rs. ci_volumeId r \<in> vo_id ` set (cd_volumes db)"
    using assms(1) v unfolding compute_inv_def by (auto split: if_splits)
  then show ?thesis
  proof (rule compute_inv_instances [OF assms(1), rotated 2])
    show "distinct (map ci_id ?rs)" unfolding i using assms(1) by (simp add: compute_inv_def)
    show "length (filter (live_instance u) ?rs) \<le> 1" for u
      unfolding l using assms(1) by (simp add: compute_inv_def live_rows_def)
  qed
qed

lemma upsertMain_inv:
  assumes "compute_inv db" "upsertMainInstance now uuid u e vol stat snap db = Some db'"
  shows "compute_inv db'"
proof -
  have vol: "vol \<in> vo_id ` set (cd_volumes db)"
    using assms(2) by (auto simp: upsertMainInstance_def list_ex_iff split: if_splits)
  show ?thesis
  proof (cases "stat \<noteq> InsDeleted \<and> list_ex (live_instance u) (cd_instances db)")
    case True
    then have "db' = db\<lparr>cd_instances := map (\<lambda>r. if live_instance u r then
            r\<lparr>ci_externalInstanceId := e, ci_volumeId := vol, ci_status := stat,
              ci_snapshot := or_else snap (ci_snapshot r), ci_lastActivityAt := now, ci_updatedAt := now\<rparr> else r)
          (cd_instances db)\<rparr>"
      using assms(2) by (auto simp: upsertMainInstance_def split: if_splits)
    also have "compute_inv \<dots>"
      by (rule update_rows_inv [OF assms(1)]) (use True vol in \<open>auto simp: live_instance_def\<close>)
    finally show ?thesis .
  next
    case False
    have new: "list_ex (\<lambda>r. ci_id r = uuid) (cd_instances db) = False"
      and db': "db' = db\<lparr>cd_instances := cd_instances db @
        [\<lparr>ci_id = uuid, ci_userId = u, ci_volumeId = vol, ci_externalInstanceId = e,
          ci_status = stat, ci_snapshot = snap, ci_lastActivityAt = now, ci_createdAt = now,
          ci_updatedAt = now\<rparr>]\<rparr>"
      using assms(2) False by (auto simp: upsertMainInstance_def split: if_splits)
    have "live_rows u db = []" if "stat \<noteq> InsDeleted"
      using False that by (simp add: live_rows_def list_ex_iff filter_empty_conv)
    with assms(1) new vol show ?thesis unfolding db' compute_inv_def
      by (auto simp: live_rows_def list_ex_iff live_instance_def)
  qed
qed

lemma slot_inv:
  assumes "compute_inv db" "claimProvisionSlot now u cutoff db = (db', b)"
  shows "compute_inv db'"
proof -
  have "compute_inv (db\<lparr>cd_instances := map (\<lambda>r. if provisionable u cutoff r then r\<lparr>ci_updatedAt := now\<rparr> else r)
        (cd_instances db)\<rparr>)"
    by (rule update_rows_inv [OF assms(1)]) (use assms(1) in \<open>auto simp: compute_inv_def\<close>)
  then show ?thesis using assms(2) by (auto simp: claimProvisionSlot_def)
qed

lemma saveAuth_inv: "compute_inv db \<Longrightarrow> compute_inv (store_saveAuthConfig now u cfg db)"
proof -
  assume a: "compute_inv db"
  let ?vs = "map (\<lambda>v. if vo_userId v = u then v\<lparr>vo_authConfig := cfg, vo_updatedAt := now\<rparr> else v) (cd_volumes db)"
  have "map vo_externalVolumeId ?vs = map vo_externalVolumeId (cd_volumes db)" by (rule map_if_same) simp
  then have "distinct (map vo_externalVolumeId ?vs)" using a unfolding compute_inv_def by metis
  then show ?thesis unfolding store_saveAuthConfig_def
    by (intro compute_inv_volumes a map_if_same) simp_all
qed

interpretation rows: service_inv "\<lambda>s. compute_inv (cm_db s)"
  by unfold_locales (auto intro: upsertVolume_inv upsertMain_inv slot_inv)

section \<open>The service and the workflows\<close>

text \<open>What changes the tables from outside: tool calls, the workflows, the sign-in of the coding agent.\<close>

datatype comp_request =
    ReqEnsure bool bool bool string
  | ReqWaitVolume string bool "int option" "int option"
  | ReqStop sandbox_obj
  | ReqSandboxWorkflow "volume_result option" bool bool string
  | ReqVolumeWorkflow bool bool string "string option"
  | ReqSaveAuth string "codex_config option"

fun serve ::
    "'w platform \<Rightarrow> (string \<Rightarrow> volume_result \<Rightarrow> 'w \<Rightarrow> 'w \<times> (api_error + unit)) \<Rightarrow> comp_request \<Rightarrow>
     'w comp_state \<Rightarrow> 'w comp_state option" where
  "serve pf notify (ReqEnsure key bound dev u) = state_after (service_ensure pf key bound dev u)"
| "serve pf notify (ReqWaitVolume u dev t p) = state_after (waitForVolumeReady pf u dev t p)"
| "serve pf notify (ReqStop sb) = state_after (service_stop pf sb)"
| "serve pf notify (ReqSandboxWorkflow event bound dev u) = state_after (sandbox_workflow pf event bound dev u)"
| "serve pf notify (ReqVolumeWorkflow bound dev u parent) = state_after (volume_workflow pf notify bound dev u parent)"
| "serve pf notify (ReqSaveAuth u cfg) = (\<lambda>s. Some (s\<lparr>cm_db :=
     store_saveAuthConfig (pf_now pf (cm_world s)) u cfg (cm_db s)\<rparr>))"

fun serve_all ::
    "'w platform \<Rightarrow> (string \<Rightarrow> volume_result \<Rightarrow> 'w \<Rightarrow> 'w \<times> (api_error + unit)) \<Rightarrow> comp_request list \<Rightarrow>
     'w comp_state \<Rightarrow> 'w comp_state option" where
  "serve_all pf notify [] s = Some s"
| "serve_all pf notify (q # qs) s = Option.bind (serve pf notify q s) (serve_all pf notify qs)"

definition no_computers :: "'w \<Rightarrow> 'w comp_state" where
  "no_computers w = \<lparr>cm_db = \<lparr>cd_volumes = [], cd_instances = []\<rparr>, cm_world = w, cm_cache = [], cm_workflows = []\<rparr>"

lemma serve_inv:
  assumes "serve pf notify q s = Some s'" "compute_inv (cm_db s)"
  shows "compute_inv (cm_db s')"
proof (cases q)
  case (ReqSaveAuth u cfg)
  with assms show ?thesis by (auto intro: saveAuth_inv)
next
  case (ReqEnsure k w d u)
  show ?thesis by (rule state_after_inv [OF rows.service]) (use assms ReqEnsure in simp_all)
next
  case (ReqWaitVolume u d t p)
  show ?thesis by (rule state_after_inv [OF rows.volume_waits]) (use assms ReqWaitVolume in simp_all)
next
  case (ReqStop sb)
  show ?thesis by (rule state_after_inv [OF rows.stop]) (use assms ReqStop in simp_all)
next
  case (ReqSandboxWorkflow e w d u)
  show ?thesis by (rule state_after_inv [OF rows.sandbox_provisioning]) (use assms ReqSandboxWorkflow in simp_all)
next
  case (ReqVolumeWorkflow w d u p)
  show ?thesis by (rule state_after_inv [OF rows.volume_provisioning]) (use assms ReqVolumeWorkflow in simp_all)
qed

lemma serve_all_inv:
  "serve_all pf notify qs s = Some s' \<Longrightarrow> compute_inv (cm_db s) \<Longrightarrow> compute_inv (cm_db s')"
proof (induction qs arbitrary: s)
  case (Cons q qs)
  then obtain s1 where "serve pf notify q s = Some s1" "serve_all pf notify qs s1 = Some s'"
    by (auto simp: bind_eq_Some_conv)
  with Cons show ?case using serve_inv by blast
qed simp

section \<open>Every request is answered\<close>

text \<open>Time passes: a wait lasts as long as it says, and no call turns the clock back.\<close>

definition clock_ok :: "'w platform \<Rightarrow> bool" where
  "clock_ok pf \<longleftrightarrow>
     (\<forall>w ms. 0 \<le> ms \<longrightarrow> pf_now pf w + ms \<le> pf_now pf (pf_wait pf ms w)) \<and>
     (\<forall>w. pf_now pf w \<le> pf_now pf (fst (pf_uuid pf w))) \<and>
     (\<forall>x w. pf_now pf w \<le> pf_now pf (fst (pf_volumeGet pf x w)) \<and>
       pf_now pf w \<le> pf_now pf (fst (pf_volumeCreate pf x w)) \<and>
       pf_now pf w \<le> pf_now pf (fst (pf_volumeDelete pf x w)) \<and>
       pf_now pf w \<le> pf_now pf (fst (pf_get pf x w)) \<and> pf_now pf w \<le> pf_now pf (fst (pf_refresh pf x w)) \<and>
       pf_now pf w \<le> pf_now pf (fst (pf_start pf x w)) \<and> pf_now pf w \<le> pf_now pf (fst (pf_workflow pf x w))) \<and>
     (\<forall>x c w. pf_now pf w \<le> pf_now pf (fst (pf_exec pf x c w)))"

abbreviation cm_now :: "'w platform \<Rightarrow> 'w comp_state \<Rightarrow> int" where
  "cm_now pf s \<equiv> pf_now pf (cm_world s)"

text \<open>A program that returns from every state, later than it began.\<close>

definition returns :: "'w platform \<Rightarrow> ('w comp_state, 'e, 'a) prog \<Rightarrow> bool" where
  "returns pf m \<longleftrightarrow> (\<forall>s. \<exists>s' r. m s = Some (s', r) \<and> cm_now pf s \<le> cm_now pf s')"

named_theorems returns_rules "how programs return"

lemma returnsE: assumes "returns pf m" obtains s' r where "m s = Some (s', r)" "cm_now pf s \<le> cm_now pf s'"
  using assms unfolding returns_def by blast

lemma returnsI: "(\<And>s. \<exists>s' r. m s = Some (s', r) \<and> cm_now pf s \<le> cm_now pf s') \<Longrightarrow> returns pf m"
  unfolding returns_def by blast

lemma returns_basic [returns_rules]:
  "returns pf (pret x)" "returns pf (pthrow e)" "returns pf (pget f)"
  by (simp_all add: returns_def pret_def pthrow_def pget_def)

lemma returns_try [returns_rules]:
  assumes "returns pf m" "\<And>r. returns pf (k r)"
  shows "returns pf (ptry m k)"
proof (rule returnsI)
  fix s
  obtain s1 r where 1: "m s = Some (s1, r)" "cm_now pf s \<le> cm_now pf s1" using assms(1) by (rule returnsE)
  obtain s2 q where 2: "k r s1 = Some (s2, q)" "cm_now pf s1 \<le> cm_now pf s2" using assms(2) by (rule returnsE)
  from 1 2 show "\<exists>s' r. ptry m k s = Some (s', r) \<and> cm_now pf s \<le> cm_now pf s'" by (simp add: ptry_def)
qed

lemma returns_bind [returns_rules]:
  "returns pf m \<Longrightarrow> (\<And>x. returns pf (k x)) \<Longrightarrow> returns pf (pbind m k)"
  unfolding pbind_def by (intro returns_try) (auto split: sum.split intro: returns_basic)

lemma returns_error [returns_rules]: "returns pf m \<Longrightarrow> returns pf (pmap_error f m)"
  unfolding pmap_error_def by (intro returns_try) (auto split: sum.split intro: returns_basic)

lemma returns_cases [returns_rules]:
  "(b \<Longrightarrow> returns pf m) \<Longrightarrow> (\<not> b \<Longrightarrow> returns pf n) \<Longrightarrow> returns pf (if b then m else n)"
  "returns pf m \<Longrightarrow> (\<And>x. returns pf (k x)) \<Longrightarrow> returns pf (case v of None \<Rightarrow> m | Some x \<Rightarrow> k x)"
  "(\<And>e. returns pf (me e)) \<Longrightarrow> (\<And>x. returns pf (ke x)) \<Longrightarrow>
     returns pf (case q of Inl e \<Rightarrow> me e | Inr x \<Rightarrow> ke x)"
  by (simp, cases v, simp_all, cases q, simp_all)

lemma returns_modify [returns_rules]:
  "(\<And>s. cm_world (f s) = cm_world s) \<Longrightarrow> returns pf (pmodify f)"
  by (simp add: returns_def pmodify_def)

lemma returns_api: "(\<And>w. pf_now pf w \<le> pf_now pf (fst (f w))) \<Longrightarrow> returns pf (papi f)"
  by (auto simp: returns_def papi_def split: prod.split) (metis fst_conv)

lemma returns_calls:
  assumes "clock_ok pf"
  shows "returns pf (papi (pf_volumeGet pf x))" "returns pf (papi (pf_volumeCreate pf x))"
    "returns pf (papi (pf_volumeDelete pf x))" "returns pf (papi (pf_get pf x))"
    "returns pf (papi (pf_refresh pf x))" "returns pf (papi (pf_start pf x))"
    "returns pf (papi (pf_workflow pf x))" "returns pf (papi (pf_exec pf x c))"
  by (rule returns_api, use assms in \<open>simp add: clock_ok_def\<close>)+

lemma returns_rows:
  assumes "clock_ok pf"
  shows "returns pf (upsertVolumeRow pf u e vst)" "returns pf (upsertMainSandboxRow pf u e' ist v sn)"
    "returns pf (claim_slot pf u cutoff)"
proof -
  have up: "pf_now pf w \<le> pf_now pf w'" if "pf_uuid pf w = (w', i)" for w w' i
    using assms that unfolding clock_ok_def by (metis fst_conv)
  show "returns pf (upsertVolumeRow pf u e vst)" "returns pf (upsertMainSandboxRow pf u e' ist v sn)"
    by (auto intro!: returnsI up simp: upsertVolumeRow_def upsertMainSandboxRow_def split: prod.split option.split)
  show "returns pf (claim_slot pf u cutoff)"
    by (auto intro!: returnsI simp: claim_slot_def split: prod.split)
qed

lemma returns_absent: "returns pf (absent_ok r)"
  by (auto simp: absent_ok_def intro: returns_basic split: sum.splits api_error.splits bool.splits)

lemma returns_volumes:
  assumes "clock_ok pf"
  shows "returns pf (ensureVolume pf u d)" "returns pf (tryGetSandboxByName pf n)"
  unfolding ensureVolume_def record_volume_def resolveHealthyVolume_def getOrCreateVolume_def
    tryGetVolumeByName_def safeDeleteVolume_def tryGetSandboxByName_def
  by (intro returns_rules returns_calls [OF assms] returns_rows [OF assms] returns_absent)+

lemma returns_refresh: "clock_ok pf \<Longrightarrow> returns pf (refreshData pf sb)"
  unfolding refreshData_def by (intro returns_rules returns_calls) (auto intro: returns_basic split: prod.split)

text \<open>The wait for a sandbox ends, as each round lasts and the deadline is fixed.\<close>

lemma pwait_later: "clock_ok pf \<Longrightarrow> 0 \<le> ms \<Longrightarrow> cm_now pf s + ms \<le> cm_now pf (pwait pf ms s)"
  by (simp add: clock_ok_def pwait_def)

lemma returns_started_loop:
  assumes ok: "clock_ok pf" and poll: "0 < poll"
  shows "returns pf (started_loop pf poll deadline sb)"
proof -
  have "\<exists>s' r. started_loop pf poll deadline sb s = Some (s', r) \<and> cm_now pf s \<le> cm_now pf s'" for s
  proof (induction "nat (deadline - cm_now pf s)" arbitrary: s sb rule: less_induct)
    case less
    show ?case
    proof (cases "cm_now pf s < deadline")
      case early: True
      obtain s1 r where 1: "refreshData pf sb s = Some (s1, r)" "cm_now pf s \<le> cm_now pf s1"
        using returns_refresh [OF ok] by (rule returnsE)
      have again: "\<exists>s' r. started_loop pf poll deadline sb1 (pwait pf poll s2) = Some (s', r) \<and> cm_now pf s \<le> cm_now pf s'"
        if "cm_now pf s \<le> cm_now pf s2" for s2 sb1
      proof -
        have later: "cm_now pf s + poll \<le> cm_now pf (pwait pf poll s2)"
          using pwait_later [OF ok, of poll s2] poll that by simp
        then have "nat (deadline - cm_now pf (pwait pf poll s2)) < nat (deadline - cm_now pf s)"
          using early poll by simp
        from less [OF this, of sb1] later poll show ?thesis by fastforce
      qed
      show ?thesis
      proof (cases r)
        case (Inl e)
        with early 1 show ?thesis by (simp add: started_loop.simps [of pf poll deadline sb s])
      next
        case (Inr sb1)
        obtain s2 q where 2: "papi (pf_start pf (sx_id sb1)) s1 = Some (s2, q)" "cm_now pf s1 \<le> cm_now pf s2"
          using returns_calls(6) [OF ok] by (rule returnsE)
        have E: "started_loop pf poll deadline sb s =
            (if sx_state sb1 = ''started'' then Some (s1, Inr sb1)
             else if sx_state sb1 \<in> {''stopped'', ''archived''}
             then (case q of Inl e \<Rightarrow> Some (s2, Inl e) | Inr u \<Rightarrow> started_loop pf poll deadline sb1 (pwait pf poll s2))
             else if sx_state sb1 \<in> {''error'', ''build_failed''}
             then Some (s1, Inl (ApiError False (''Sandbox entered '' @ sx_state sb1 @ '' while waiting to start.'')))
             else started_loop pf poll deadline sb1 (pwait pf poll s1))"
          by (subst started_loop.simps)
            (simp only: early 1(1) Inr 2(1) if_True option.case prod.case sum.case)
        note a1 = again [OF 1(2), of sb1] and a2 = again [OF order_trans [OF 1(2) 2(2)], of sb1]
        show ?thesis unfolding E using a1 a2 1(2) 2(2) by (cases q) (simp_all split: if_split)
      qed
    qed (simp add: started_loop.simps [of pf poll deadline sb s])
  qed
  then show ?thesis by (rule returnsI)
qed

lemma returns_adopt:
  assumes "clock_ok pf"
  shows "returns pf (adoptSandbox pf u vol sb)"
proof -
  have "returns pf (waitForSandboxStarted pf sb None (Some 1000))"
  proof (rule returnsI)
    fix s
    show "\<exists>s' r. waitForSandboxStarted pf sb None (Some 1000) s = Some (s', r) \<and> cm_now pf s \<le> cm_now pf s'"
      unfolding waitForSandboxStarted_def
      using returns_started_loop [OF assms] unfolding returns_def by simp
  qed
  then show ?thesis
    unfolding adoptSandbox_def persistMainSandboxFromInstance_def ensureMountedHomeLayout_def
    by (intro returns_rules returns_calls [OF assms] returns_rows [OF assms] returns_refresh [OF assms])
      (simp_all add: set_cache_def)
qed

lemma returns_cached:
  assumes "clock_ok pf"
  shows "returns pf (from_cache pf u vol)"
proof (rule returnsI)
  fix s
  show "\<exists>s' r. from_cache pf u vol s = Some (s', r) \<and> cm_now pf s \<le> cm_now pf s'"
  proof (cases "map_of (cm_cache s) u")
    case None
    then show ?thesis by (simp add: from_cache_def pret_def)
  next
    case (Some c)
    have "returns pf (ptry (pbind (refreshData pf c) (\<lambda>sb.
        if usable vol sb then pbind (adoptSandbox pf u vol sb) (\<lambda>r. pret (Some r)) else pret None))
      (\<lambda>r. case r of Inr (Some sb) \<Rightarrow> pret (Some sb) | _ \<Rightarrow>
         pbind (pmodify (drop_cache u)) (\<lambda>_. pret None)) :: ('a comp_state, sandbox_error, sandbox_obj option) prog)"
      by (intro returns_rules returns_refresh [OF assms] returns_adopt [OF assms]) (simp_all add: drop_cache_def)
    then show ?thesis unfolding from_cache_def Some option.case by (rule returnsE) blast
  qed
qed

lemma returns_ensure:
  assumes "clock_ok pf"
  shows "returns pf (ensureMainSandbox pf u d)"
  unfolding ensureMainSandbox_def mark_provisioning_def existing_sandbox_def
  by (intro returns_rules returns_volumes [OF assms] returns_rows [OF assms] returns_cached [OF assms]
      returns_refresh [OF assms] returns_adopt [OF assms])

lemma returns_service:
  assumes "clock_ok pf"
  shows "returns pf (service_ensure pf k b d u)"
proof -
  have "returns pf (kickOffSandboxProvisionIfNeeded pf u)"
    unfolding kickOffSandboxProvisionIfNeeded_def create_workflow_def
    by (intro returns_rules returns_calls [OF assms] returns_rows [OF assms]) simp_all
  then show ?thesis unfolding service_ensure_def
    by (intro returns_rules returns_ensure [OF assms])
      (auto intro!: returns_rules split: sandbox_error.split)
qed

section \<open>What an answer says\<close>

text \<open>The live row of a user's computer.\<close>

definition computer_row :: "string \<Rightarrow> string option \<Rightarrow> instance_status \<Rightarrow> compute_db \<Rightarrow> bool" where
  "computer_row u external st db \<longleftrightarrow>
     (\<exists>r. live_rows u db = [r] \<and> ci_externalInstanceId r = external \<and> ci_status r = st)"

lemma computer_rowI:
  assumes "compute_inv db" "r \<in> set (cd_instances db)" "live_instance u r" "ci_externalInstanceId r = external"
    "ci_status r = st"
  shows "computer_row u external st db"
proof -
  have "r \<in> set (live_rows u db)" using assms(2,3) by (simp add: live_rows_def)
  moreover have "length (live_rows u db) \<le> 1" using assms(1) by (simp add: compute_inv_def)
  ultimately have "live_rows u db = [r]" by (cases "live_rows u db") auto
  with assms(4,5) show ?thesis unfolding computer_row_def by blast
qed

lemma upsertMain_row:
  assumes "compute_inv db" "upsertMainInstance now uuid u e vol st snap db = Some db'" "st \<noteq> InsDeleted"
  shows "computer_row u e st db'"
proof -
  have "\<exists>r \<in> set (cd_instances db'). live_instance u r \<and> ci_externalInstanceId r = e \<and> ci_status r = st"
  proof (cases "list_ex (live_instance u) (cd_instances db)")
    case True
    then obtain r where r: "r \<in> set (cd_instances db)" "live_instance u r" by (auto simp: list_ex_iff)
    then have "r\<lparr>ci_externalInstanceId := e, ci_volumeId := vol, ci_status := st,
              ci_snapshot := or_else snap (ci_snapshot r), ci_lastActivityAt := now, ci_updatedAt := now\<rparr>
            \<in> set (cd_instances db')"
      using assms(2,3) True by (force simp: upsertMainInstance_def split: if_splits)
    with r assms(3) show ?thesis by (intro bexI) (auto simp: live_instance_def)
  next
    case False
    then show ?thesis using assms(2,3) by (auto simp: upsertMainInstance_def live_instance_def split: if_splits)
  qed
  then show ?thesis using computer_rowI [OF upsertMain_inv [OF assms(1,2)]] by blast
qed

lemma upsertMainSandboxRow_row:
  assumes "upsertMainSandboxRow pf u e st vol snap s = Some (s', Inr x)" "compute_inv (cm_db s)" "st \<noteq> InsDeleted"
  shows "computer_row u e st (cm_db s')" "cm_cache s' = cm_cache s" "cm_workflows s' = cm_workflows s"
  using assms upsertMain_row [OF assms(2) _ assms(3)]
  by (auto simp: upsertMainSandboxRow_def split: prod.splits option.splits)

definition answered :: "string \<Rightarrow> 'w comp_state \<Rightarrow> sandbox_error + sandbox_obj \<Rightarrow> bool" where
  "answered u s r \<longleftrightarrow> (case r of
       Inr sb \<Rightarrow> computer_row u (Some (sx_id sb)) InsRunning (cm_db s) \<and> map_of (cm_cache s) u = Some sb
     | Inl (SandboxError transient m) \<Rightarrow>
         transient \<longrightarrow> computer_row u None InsCreating (cm_db s) \<or> computer_row u None InsVolumeCreating (cm_db s))"

lemma adopt_answer:
  assumes a: "adoptSandbox pf u vol sb s = Some (s', Inr sb')" and inv: "compute_inv (cm_db s)"
  shows "answered u s' (Inr sb')"
proof -
  obtain s1 ready where 1: "waitForSandboxStarted pf sb None (Some 1000) s = Some (s1, Inr ready)"
    and a1: "pbind (ensureMountedHomeLayout pf ready) (\<lambda>_. pbind (pmodify (set_cache u ready)) (\<lambda>_.
       persistMainSandboxFromInstance pf u ready (vo_id vol) (Some InsRunning) (Some COMPUTER_SNAPSHOT))) s1 = Some (s', Inr sb')"
    using a unfolding adoptSandbox_def by (rule pbind_okE)
  obtain s2 out where 2: "ensureMountedHomeLayout pf ready s1 = Some (s2, Inr out)"
    and a2: "pbind (pmodify (set_cache u ready)) (\<lambda>_.
       persistMainSandboxFromInstance pf u ready (vo_id vol) (Some InsRunning) (Some COMPUTER_SNAPSHOT)) s2 = Some (s', Inr sb')"
    using a1 by (rule pbind_okE)
  let ?s3 = "set_cache u ready s2"
  have a3: "persistMainSandboxFromInstance pf u ready (vo_id vol) (Some InsRunning) (Some COMPUTER_SNAPSHOT) ?s3 = Some (s', Inr sb')"
    using a2 by (auto elim!: pbind_okE simp: pbasic_Some)
  have i1: "compute_inv (cm_db s1)" by (rule keepsD [OF rows.waits 1 inv])
  have i2: "compute_inv (cm_db s2)" by (rule keepsD [OF rows.api 2 [unfolded ensureMountedHomeLayout_def] i1])
  have i3: "compute_inv (cm_db ?s3)" using i2 by (simp add: set_cache_def)
  obtain s4 sb1 where 4: "refreshData pf ready ?s3 = Some (s4, Inr sb1)"
    and a4: "pbind (pmodify (set_cache u sb1)) (\<lambda>_. pbind (upsertMainSandboxRow pf u (Some (sx_id sb1))
        (default_to (Some InsRunning) (inferDbStatusFromSandbox sb1)) (vo_id vol) (Some COMPUTER_SNAPSHOT))
        (\<lambda>_. pret sb1)) s4 = Some (s', Inr sb')"
    using a3 unfolding persistMainSandboxFromInstance_def by (rule pbind_okE)
  have i4: "compute_inv (cm_db s4)" by (rule keepsD [OF rows.refresh 4 i3])
  let ?s5 = "set_cache u sb1 s4"
  have 6: "upsertMainSandboxRow pf u (Some (sx_id sb1)) InsRunning (vo_id vol) (Some COMPUTER_SNAPSHOT) ?s5 =
      Some (s', Inr ())" and sb1: "sb' = sb1"
    using a4 by (auto elim!: pbind_okE simp: pbasic_Some)
  have i5: "compute_inv (cm_db ?s5)" "map_of (cm_cache ?s5) u = Some sb1"
    using i4 by (simp_all add: set_cache_def update_Some_unfold)
  from upsertMainSandboxRow_row [OF 6 i5(1)] i5(2) sb1 show ?thesis
    by (simp add: answered_def)
qed

lemma mark_answer:
  assumes "mark_provisioning pf u vol s = Some (s', r)" "compute_inv (cm_db s)"
  shows "answered u s' r" "r = Inl (SandboxError True m) \<Longrightarrow> cm_workflows s' = cm_workflows s"
proof -
  show "answered u s' r"
    using assms(1) unfolding mark_provisioning_def
  proof (cases rule: pbindE)
    case (error e)
    then show ?thesis
      by (auto elim!: pmap_errorE simp: answered_def sandbox_fail_def split: api_error.split)
  next
    case (ok s1 x)
    from ok(1) have "upsertMainSandboxRow pf u None
        (if vo_status vol = VolReady then InsCreating else InsVolumeCreating) (vo_id vol) None s = Some (s1, Inr x)"
      by (auto elim: pmap_errorE)
    from upsertMainSandboxRow_row(1) [OF this assms(2)] ok(2) show ?thesis
      by (auto simp: answered_def pbasic_Some split: if_splits)
  qed
  show "cm_workflows s' = cm_workflows s" if "r = Inl (SandboxError True m)"
    using assms(1) unfolding mark_provisioning_def
  proof (cases rule: pbindE)
    case (error e)
    with that show ?thesis
      by (auto elim!: pmap_errorE simp: sandbox_fail_def split: api_error.splits)
  next
    case (ok s1 x)
    from ok(1) have u: "upsertMainSandboxRow pf u None
        (if vo_status vol = VolReady then InsCreating else InsVolumeCreating) (vo_id vol) None s = Some (s1, Inr x)"
      by (auto elim: pmap_errorE)
    from upsertMainSandboxRow_row(3) [OF u assms(2)] ok(2) show ?thesis
      by (auto simp: pbasic_Some split: if_splits)
  qed
qed

lemma from_cache_answer:
  assumes "from_cache pf u vol s = Some (s', r)" "compute_inv (cm_db s)"
  shows "(\<exists>q. r = Inr q) \<and> (\<forall>sb. r = Inr (Some sb) \<longrightarrow> answered u s' (Inr sb))"
proof (cases "map_of (cm_cache s) u")
  case None
  with assms(1) show ?thesis by (simp add: from_cache_def pbasic_Some)
next
  case (Some c)
  let ?m = "pbind (refreshData pf c) (\<lambda>sb.
        if usable vol sb then pbind (adoptSandbox pf u vol sb) (\<lambda>r. pret (Some r)) else pret None)"
  obtain s1 q where q: "?m s = Some (s1, q)"
    and k: "(case q of Inr (Some sb) \<Rightarrow> pret (Some sb) | _ \<Rightarrow> pbind (pmodify (drop_cache u)) (\<lambda>_. pret None)) s1
        = Some (s', r)"
    using assms(1) unfolding from_cache_def Some option.case ptry_Some by blast
  show ?thesis
  proof (cases "\<exists>sb. q = Inr (Some sb)")
    case True
    then obtain sb where sb: "q = Inr (Some sb)" by blast
    obtain s2 sb1 where 2: "refreshData pf c s = Some (s2, Inr sb1)"
      and a: "(if usable vol sb1 then pbind (adoptSandbox pf u vol sb1) (\<lambda>r. pret (Some r)) else pret None) s2 = Some (s1, Inr (Some sb))"
      using q unfolding sb by (rule pbind_okE)
    from a have "pbind (adoptSandbox pf u vol sb1) (\<lambda>r. pret (Some r)) s2 = Some (s1, Inr (Some sb))"
      by (auto simp: pbasic_Some split: if_splits)
    then have "adoptSandbox pf u vol sb1 s2 = Some (s1, Inr sb)" by (auto elim!: pbind_okE simp: pbasic_Some)
    from adopt_answer [OF this keepsD [OF rows.refresh 2 assms(2)]] k sb show ?thesis
      by (auto simp: pbasic_Some)
  next
    case False
    have "pbind (pmodify (drop_cache u)) (\<lambda>_. pret None) s1 = Some (s', r)"
      using k False by (cases q) (auto split: option.splits)
    then show ?thesis by (auto elim!: pbindE simp: pbasic_Some)
  qed
qed

lemma ensure_answer:
  assumes e: "ensureMainSandbox pf u d s = Some (s', r)" and inv: "compute_inv (cm_db s)"
  shows "answered u s' r"
  using e unfolding ensureMainSandbox_def
proof (cases rule: pbindE)
  case (error e)
  then show ?thesis by (auto elim!: pmap_errorE simp: answered_def sandbox_fail_def split: api_error.split)
next
  case (ok s1 vol)
  from ok(1) have v: "ensureVolume pf u d s = Some (s1, Inr vol)" by (auto elim: pmap_errorE)
  have i1: "compute_inv (cm_db s1)" by (rule keepsD [OF rows.volumes(2) v inv])
  show ?thesis
  proof (cases "vo_status vol = VolReady")
    case False
    note m = ok(2) [unfolded if_P [OF False]]
    show ?thesis by (rule mark_answer(1) [OF m i1])
  next
    case True
    then have "\<not> vo_status vol \<noteq> VolReady" by simp
    from ok(2) [unfolded if_not_P [OF this]] show ?thesis
    proof (cases rule: pbindE)
      case (error e)
      with from_cache_answer [OF error(1) i1] show ?thesis by simp
    next
      case (ok s2 cached)
      have i2: "compute_inv (cm_db s2)" by (rule keepsD [OF rows.cached ok(1) i1])
      show ?thesis
      proof (cases cached)
        case (Some sb)
        with ok(2) from_cache_answer [OF ok(1) i1] show ?thesis by (simp add: pbasic_Some)
      next
        case None
        from ok(2) [unfolded None option.case] show ?thesis
        proof (cases rule: pbindE)
          case (error e)
          then show ?thesis by (auto elim!: pmap_errorE simp: answered_def sandbox_fail_def split: api_error.split)
        next
          case (ok s3 found)
          from ok(1) have x: "existing_sandbox pf (sandboxName u d) s2 = Some (s3, Inr found)" by (auto elim: pmap_errorE)
          have "keeps (\<lambda>s. compute_inv (cm_db s)) (existing_sandbox pf (sandboxName u d))"
            unfolding existing_sandbox_def by (intro keeps_rules rows.lookups rows.refresh)
          from keepsD [OF this x i2] have i3: "compute_inv (cm_db s3)" .
          show ?thesis
          proof (cases "\<exists>sb. found = Some sb \<and> usable vol sb")
            case True
            then obtain sb where sb: "found = Some sb" "usable vol sb" by blast
            from ok(2) [unfolded sb(1) option.case if_P [OF sb(2)]]
            show ?thesis
              by (cases rule: pmap_errorE) (auto simp: answered_def sandbox_fail_def adopt_answer [OF _ i3, unfolded answered_def]
                  split: api_error.split dest: adopt_answer [OF _ i3])
          next
            case False
            then have "mark_provisioning pf u vol s3 = Some (s', r)" using ok(2) by (cases found) (auto split: if_splits)
            then show ?thesis by (rule mark_answer(1) [OF _ i3])
          qed
        qed
      qed
    qed
  qed
qed

section \<open>When provisioning is started\<close>

interpretation idle: row_inv "\<lambda>s. cm_workflows s = ws" for ws
  by unfold_locales simp_all

text \<open>A row that is being provisioned is always claimed: it has no sandbox.\<close>

lemma creating_claimed:
  assumes "computer_row u None st db" "st \<in> {InsCreating, InsVolumeCreating}"
  shows "snd (claimProvisionSlot now u cutoff db)"
proof -
  obtain r where r: "live_rows u db = [r]" "ci_externalInstanceId r = None" "ci_status r = st"
    using assms(1) unfolding computer_row_def by blast
  from r(1) have "r \<in> set (live_rows u db)" by simp
  then have "r \<in> set (cd_instances db)" "ci_userId r = u" by (simp_all add: live_rows_def live_instance_def)
  with r assms(2) show ?thesis by (auto simp: claimProvisionSlot_def list_ex_iff provisionable_def)
qed

lemma kick_claimed:
  assumes "snd (claimProvisionSlot (pf_now pf (cm_world s)) u (pf_now pf (cm_world s) - PROVISION_WORKFLOW_THROTTLE_MS) (cm_db s))"
    and "pf_workflow pf (sandboxWorkflowId u) (cm_world s) = (w, Inr ())"
  shows "\<exists>s'. kickOffSandboxProvisionIfNeeded pf u s = Some (s', Inr ()) \<and>
    cm_workflows s' = cm_workflows s @ [sandboxWorkflowId u]"
proof -
  obtain db where db: "claimProvisionSlot (pf_now pf (cm_world s)) u
      (pf_now pf (cm_world s) - PROVISION_WORKFLOW_THROTTLE_MS) (cm_db s) = (db, True)"
    using assms(1) by (metis prod.collapse)
  show ?thesis
    by (simp add: kickOffSandboxProvisionIfNeeded_def pbind_def ptry_def pget_def claim_slot_def
        create_workflow_def papi_def pmodify_def db assms(2))
qed

lemma transient_starts_workflow:
  assumes inv: "compute_inv (cm_db s)" and e: "service_ensure pf True True d u s = Some (s', Inl (SandboxError True m))"
    and w: "\<forall>i x. \<exists>y. pf_workflow pf i x = (y, Inr ())"
  shows "cm_workflows s' = cm_workflows s @ [sandboxWorkflowId u]"
proof -
  obtain s1 r where 1: "ensureMainSandbox pf u d s = Some (s1, r)"
    and k: "(case r of Inr sb \<Rightarrow> pret sb
        | Inl (SandboxError transient m) \<Rightarrow>
            if transient \<and> True
            then ptry (kickOffSandboxProvisionIfNeeded pf u) (\<lambda>_. pthrow (SandboxError transient m))
            else pthrow (SandboxError transient m)) s1 = Some (s', Inl (SandboxError True m))"
    using e unfolding service_ensure_def not_True_eq_False if_False ptry_Some by blast
  obtain m1 where r: "r = Inl (SandboxError True m1)"
    using k by (auto simp: pbasic_Some split: sum.splits sandbox_error.splits if_splits)
  have ws: "cm_workflows s1 = cm_workflows s" by (rule keepsD [OF idle.ensure(1) 1 refl])
  from ensure_answer [OF 1 inv] r
  have "computer_row u None InsCreating (cm_db s1) \<or> computer_row u None InsVolumeCreating (cm_db s1)"
    by (simp add: answered_def)
  then have c: "snd (claimProvisionSlot now u cutoff (cm_db s1))" for now cutoff
    using creating_claimed by blast
  obtain y where y: "pf_workflow pf (sandboxWorkflowId u) (cm_world s1) = (y, Inr ())" using w by blast
  obtain s2 where "kickOffSandboxProvisionIfNeeded pf u s1 = Some (s2, Inr ())"
    "cm_workflows s2 = cm_workflows s1 @ [sandboxWorkflowId u]" using kick_claimed [OF c y] by blast
  with k r ws show ?thesis by (simp add: ptry_def pthrow_def)
qed

section \<open>Properties\<close>

text \<open>
  C20. Whatever requests, sign-ins and provisioning workflows run, and whatever the provider of sandboxes
  answers, the tables stay well formed: a user has one volume row and at most one live main instance, no
  external volume belongs to two users, keys are unique, and the volume of every instance exists.
\<close>

theorem compute_rows_unique:
  assumes "serve_all pf notify requests (no_computers w) = Some s"
  shows "distinct (map vo_userId (cd_volumes (cm_db s))) \<and>
    distinct (map vo_externalVolumeId (cd_volumes (cm_db s))) \<and>
    distinct (map vo_id (cd_volumes (cm_db s))) \<and> distinct (map ci_id (cd_instances (cm_db s))) \<and>
    (\<forall>u. length (filter (live_instance u) (cd_instances (cm_db s))) \<le> 1) \<and>
    (\<forall>r \<in> set (cd_instances (cm_db s)). \<exists>v \<in> set (cd_volumes (cm_db s)). vo_id v = ci_volumeId r)"
proof -
  have "compute_inv (cm_db s)"
    by (rule serve_all_inv [OF assms]) (simp add: compute_inv_def no_computers_def live_rows_def)
  then show ?thesis unfolding compute_inv_def live_rows_def by (auto simp: image_iff eq_commute)
qed


text \<open>
  The throttle of the provisioning never holds: every request that is answered by the transient error
  starts the workflow, however short the time since the last one, as the answer itself has just cleared
  the identifier of the sandbox, and rows without one are claimed at any time.
\<close>

theorem provisioning_never_throttled:
  assumes "serve_all pf notify requests (no_computers w) = Some s"
    and "service_ensure pf True True isDev u s = Some (s', Inl (SandboxError True m))"
    and "\<forall>i x. \<exists>y. pf_workflow pf i x = (y, Inr ())"
  shows "cm_workflows s' = cm_workflows s @ [sandboxWorkflowId u]"
proof -
  have "compute_inv (cm_db s)"
    by (rule serve_all_inv [OF assms(1)]) (simp add: compute_inv_def no_computers_def live_rows_def)
  then show ?thesis by (rule transient_starts_workflow) (rule assms)+
qed

section \<open>Witnesses\<close>

text \<open>A provider whose volume is ready and whose sandbox is there or not.\<close>

definition demo_platform :: "bool \<Rightarrow> int platform" where
  "demo_platform there =
     \<lparr>pf_now = (\<lambda>w. w), pf_wait = (\<lambda>ms w. w + ms), pf_uuid = (\<lambda>w. (w + 1, ''row'')),
      pf_volumeGet = (\<lambda>n w. (w + 1, Inr \<lparr>dv_id = ''vol'', dv_state = ''ready''\<rparr>)),
      pf_volumeCreate = (\<lambda>n w. (w, Inl db_error)), pf_volumeDelete = (\<lambda>n w. (w, Inr ())),
      pf_get = (\<lambda>n w. (w + 1, if there then Inr \<lparr>sx_id = ''box'', sx_state = ''stopped'', sx_volumes = None\<rparr>
        else Inl (ApiError True ''not found''))),
      pf_refresh = (\<lambda>i w. (w + 1, Inr (if w < 8 then ''stopped'' else ''started'', Some [(''vol'', VOLUME_MOUNT_PATH)]))),
      pf_start = (\<lambda>i w. (w + 1, Inr ())), pf_stop = (\<lambda>i w. (w + 1, Inr ())), pf_delete = (\<lambda>i w. (w + 1, Inr ())),
      pf_create = (\<lambda>c w. (w + 1, Inr ())), pf_exec = (\<lambda>i c w. (w + 1, Inr [])),
      pf_workflow = (\<lambda>i w. (w + 1, Inr ()))\<rparr>"

definition demo_notify :: "string \<Rightarrow> volume_result \<Rightarrow> int \<Rightarrow> int \<times> (api_error + unit)" where
  "demo_notify p v w = (w, Inr ())"

definition demo_run :: "bool \<Rightarrow> int comp_state option" where
  "demo_run there = serve_all (demo_platform there) demo_notify [ReqEnsure True True False ''u''] (no_computers 0)"

lemma demo_clock: "clock_ok (demo_platform there)"
  by (simp add: clock_ok_def demo_platform_def)

lemma demo_running: "map_option (\<lambda>s. map ci_status (cd_instances (cm_db s))) (demo_run True) = Some [InsRunning]"
  by code_simp

lemma demo_creating:
  "map_option (\<lambda>s. (cm_workflows s, snd (the (service_ensure (demo_platform False) True True False ''u'' s)),
      cm_world (fst (the (service_ensure (demo_platform False) True True False ''u'' s))) < PROVISION_WORKFLOW_THROTTLE_MS,
      service_ensure (demo_platform False) True True False ''u'' s = None)) (demo_run False) =
    Some ([sandboxWorkflowId ''u''], Inl (SandboxError True SANDBOX_START_MESSAGE), True, False)"
  by code_simp

text \<open>A first request finds a stopped sandbox, starts it and writes its row.\<close>

theorem compute_rows_unique_witness:
  "\<exists>s. demo_run True = Some s \<and> map ci_status (cd_instances (cm_db s)) = [InsRunning] \<and>
    (\<forall>r \<in> set (cd_instances (cm_db s)). \<exists>v \<in> set (cd_volumes (cm_db s)). vo_id v = ci_volumeId r)"
proof -
  obtain s where s: "demo_run True = Some s" "map ci_status (cd_instances (cm_db s)) = [InsRunning]"
    using demo_running by (cases "demo_run True") auto
  from compute_rows_unique [OF s(1) [unfolded demo_run_def]] s show ?thesis by (intro exI [of _ s]) simp
qed


text \<open>A second request a few milliseconds after the first starts a second workflow.\<close>

theorem provisioning_never_throttled_witness:
  "\<exists>s s'. demo_run False = Some s \<and>
     service_ensure (demo_platform False) True True False ''u'' s =
       Some (s', Inl (SandboxError True SANDBOX_START_MESSAGE)) \<and>
     cm_world s' < PROVISION_WORKFLOW_THROTTLE_MS \<and>
     cm_workflows s' = [sandboxWorkflowId ''u'', sandboxWorkflowId ''u'']"
proof -
  obtain s where s: "demo_run False = Some s" using demo_creating by (cases "demo_run False") auto
  note d = demo_creating [unfolded s option.map option.inject prod.inject]
  obtain q where q: "service_ensure (demo_platform False) True True False ''u'' s = Some q"
    using d by (cases "service_ensure (demo_platform False) True True False ''u'' s") simp_all
  obtain s' where s': "service_ensure (demo_platform False) True True False ''u'' s =
      Some (s', Inl (SandboxError True SANDBOX_START_MESSAGE))" "cm_world s' < PROVISION_WORKFLOW_THROTTLE_MS"
    using d [unfolded q option.sel] q by (cases q) auto
  have "\<forall>i x. \<exists>y. pf_workflow (demo_platform False) i x = (y, Inr ())" by (simp add: demo_platform_def)
  from provisioning_never_throttled [OF s [unfolded demo_run_def] s'(1) this] d
  have "cm_workflows s' = [sandboxWorkflowId ''u'', sandboxWorkflowId ''u'']" by (simp only: append.simps)
  with s s' show ?thesis by blast
qed

end
