(* ===== verification/Identity.thy ===== *)
theory Identity
  imports Prelude
begin

text \<open>
  Telegram identities: who a Telegram user is, \<open>packages/auth/src/telegram/identity-service.ts\<close> with
  \<open>identity-policy.ts\<close>.  Users, accounts and blocks are tables; a query that violates one of their
  constraints fails.  A transaction is a step of its own, as other requests may come between what is read
  before it and the transaction: each operation is split into its check and its transaction.
\<close>

section \<open>Inputs\<close>

text \<open>\<open>pr_phoneNumber\<close> is \<open>None\<close> when undefined, \<open>Some None\<close> when null.\<close>

record tg_profile =
  pr_id :: string
  pr_firstName :: string
  pr_lastName :: "string option"
  pr_username :: "string option"
  pr_languageCode :: "string option"
  pr_isPremium :: "bool option"
  pr_photoUrl :: "string option"
  pr_phoneNumber :: "string option option"
  pr_email :: "string option"
  pr_emailVerified :: "bool option"

datatype provision_source = FromBot | FromWidget | FromMiniapp | FromOidc

record provision_input =
  pi_source :: provision_source
  pi_chatId :: "string option option"
  pi_profile :: tg_profile

definition source_name :: "provision_source \<Rightarrow> string" where
  "source_name s = (case s of FromBot \<Rightarrow> ''bot'' | FromWidget \<Rightarrow> ''widget'' | FromMiniapp \<Rightarrow> ''miniapp''
     | FromOidc \<Rightarrow> ''oidc'')"

section \<open>Tables\<close>

record id_user =
  us_id :: string
  us_name :: string
  us_email :: "string option"
  us_emailVerified :: bool
  us_timezone :: string
  us_telegramUsername :: "string option"
  us_telegramPhoneNumber :: "string option"
  us_updatedAt :: int

record id_account =
  ac_id :: string
  ac_userId :: string
  ac_accountId :: string
  ac_providerId :: string
  ac_telegramChatId :: "string option"
  ac_metadata :: "(string \<times> json) list"
  ac_updatedAt :: int

record id_block =
  bk_telegramUserId :: string
  bk_lastUserId :: "string option"
  bk_updatedAt :: int

record id_db =
  id_users :: "id_user list"
  id_accounts :: "id_account list"
  id_blocks :: "id_block list"

definition TELEGRAM_PROVIDER_ID :: string where "TELEGRAM_PROVIDER_ID = ''telegram''"

section \<open>Profiles\<close>

definition TIMEZONES :: "(string \<times> string) list" where
  "TIMEZONES =
     [(''en-US'', ''America/New_York''), (''en-GB'', ''Europe/London''), (''en-AU'', ''Australia/Sydney''),
      (''de'', ''Europe/Berlin''), (''fr'', ''Europe/Paris''), (''es'', ''Europe/Madrid''), (''it'', ''Europe/Rome''),
      (''pt'', ''America/Sao_Paulo''), (''pt-BR'', ''America/Sao_Paulo''), (''ru'', ''Europe/Moscow''),
      (''ja'', ''Asia/Tokyo''), (''ko'', ''Asia/Seoul''), (''zh'', ''Asia/Shanghai''), (''zh-TW'', ''Asia/Taipei''),
      (''ar'', ''Asia/Riyadh''), (''hi'', ''Asia/Kolkata''), (''tr'', ''Europe/Istanbul''), (''pl'', ''Europe/Warsaw''),
      (''nl'', ''Europe/Amsterdam''), (''uk'', ''Europe/Kyiv''), (''th'', ''Asia/Bangkok''),
      (''vi'', ''Asia/Ho_Chi_Minh''), (''id'', ''Asia/Jakarta''), (''sv'', ''Europe/Stockholm''),
      (''da'', ''Europe/Copenhagen''), (''fi'', ''Europe/Helsinki''), (''nb'', ''Europe/Oslo''),
      (''he'', ''Asia/Jerusalem'')]"

definition inferTimezoneFromLanguageCode :: "string option \<Rightarrow> string option" where
  "inferTimezoneFromLanguageCode code =
     (case truthy_str code of
        None \<Rightarrow> None
      | Some c \<Rightarrow>
          or_else (map_of TIMEZONES c)
            (let base = hd (split_on (CHR ''-'') c) in if base = [] then None else map_of TIMEZONES base))"

definition toTelegramUserId :: "tg_profile \<Rightarrow> string" where
  "toTelegramUserId p = js_trim (pr_id p)"

definition toDisplayName :: "tg_profile \<Rightarrow> string" where
  "toDisplayName p =
     str_or (str_or
       (js_trim (join_with '' '' (filter (\<lambda>s. s \<noteq> []) [pr_firstName p, default_to (pr_lastName p) []])))
       (js_trim (default_to (pr_username p) []))) ''Telegram User''"

definition json_opt :: "string option \<Rightarrow> json" where
  "json_opt x = (case x of None \<Rightarrow> JNull | Some s \<Rightarrow> JStr s)"

definition buildAccountMetadata :: "provision_input \<Rightarrow> (string \<times> json) list" where
  "buildAccountMetadata i =
     [(''firstName'', JStr (pr_firstName (pi_profile i))), (''lastName'', json_opt (pr_lastName (pi_profile i))),
      (''languageCode'', json_opt (pr_languageCode (pi_profile i))),
      (''isPremium'', JBool (default_to (pr_isPremium (pi_profile i)) False)),
      (''photoUrl'', json_opt (pr_photoUrl (pi_profile i))), (''username'', json_opt (pr_username (pi_profile i))),
      (''lastSource'', JStr (source_name (pi_source i)))]"

text \<open>\<open>Number.parseInt(value, 10)\<close>: white space, a sign, then the digits up to the first other character.\<close>

definition digit_of :: "char \<Rightarrow> nat option" where
  "digit_of c = (let n = of_char c in if 48 \<le> n \<and> n \<le> 57 then Some (n - 48) else None)"

fun digits_value :: "nat \<Rightarrow> string \<Rightarrow> nat" where
  "digits_value acc [] = acc"
| "digits_value acc (c # cs) =
     (case digit_of c of None \<Rightarrow> acc | Some d \<Rightarrow> digits_value (10 * acc + d) cs)"

definition leading_digits :: "string \<Rightarrow> int option" where
  "leading_digits s = (case s of [] \<Rightarrow> None
     | c # cs \<Rightarrow> if digit_of c = None then None else Some (int (digits_value 0 s)))"

definition parse_int10 :: "string \<Rightarrow> int option" where
  "parse_int10 s = (case trim_start s of
       [] \<Rightarrow> None
     | c # cs \<Rightarrow>
         if c = CHR ''-'' then map_option uminus (leading_digits cs)
         else if c = CHR ''+'' then leading_digits cs else leading_digits (c # cs))"

definition parseTelegramChatId :: "string option \<Rightarrow> int option" where
  "parseTelegramChatId v = Option.bind (truthy_str v) parse_int10"

section \<open>Queries\<close>

definition findAccountByTelegramUserId :: "id_db \<Rightarrow> string \<Rightarrow> id_account option" where
  "findAccountByTelegramUserId db tid =
     find_first (\<lambda>a. ac_providerId a = TELEGRAM_PROVIDER_ID \<and> ac_accountId a = tid) (id_accounts db)"

definition findTelegramAccountByUserId :: "id_db \<Rightarrow> string \<Rightarrow> id_account option" where
  "findTelegramAccountByUserId db userId =
     find_first (\<lambda>a. ac_userId a = userId \<and> ac_providerId a = TELEGRAM_PROVIDER_ID) (id_accounts db)"

definition findIdentityBlock :: "id_db \<Rightarrow> string \<Rightarrow> id_block option" where
  "findIdentityBlock db tid = find_first (\<lambda>b. bk_telegramUserId b = tid) (id_blocks db)"

definition getTelegramChatIdByUserId :: "id_db \<Rightarrow> string \<Rightarrow> int option" where
  "getTelegramChatIdByUserId db userId =
     parseTelegramChatId (Option.bind (findTelegramAccountByUserId db userId) ac_telegramChatId)"

datatype disposition = ExistingAccount | DispBlocked | CreateUser

definition resolveTelegramSignInDisposition :: "bool \<Rightarrow> bool \<Rightarrow> disposition" where
  "resolveTelegramSignInDisposition hasExistingAccount hasIdentityBlock =
     (if hasExistingAccount then ExistingAccount else if hasIdentityBlock then DispBlocked else CreateUser)"

datatype link_conflict = LinkedToOther | HasDifferentTelegram

definition getTelegramLinkConflict ::
    "string option \<Rightarrow> string \<Rightarrow> string option \<Rightarrow> string \<Rightarrow> link_conflict option" where
  "getTelegramLinkConflict existingLinkedUserId currentUserId currentUserTelegramId nextTelegramUserId =
     (if truthy_str existingLinkedUserId \<noteq> None \<and> existingLinkedUserId \<noteq> Some currentUserId
      then Some LinkedToOther
      else if truthy_str currentUserTelegramId \<noteq> None \<and> currentUserTelegramId \<noteq> Some nextTelegramUserId
      then Some HasDifferentTelegram
      else None)"

definition canSafelyUnlinkTelegram :: "nat \<Rightarrow> bool" where
  "canSafelyUnlinkTelegram accountCount \<longleftrightarrow> accountCount > 1"

datatype sign_in_state = Allowed | Blocked string "string option"

definition getTelegramSignInState :: "id_db \<Rightarrow> string \<Rightarrow> bool \<Rightarrow> sign_in_state" where
  "getTelegramSignInState db tid hasExistingAccount =
     (if resolveTelegramSignInDisposition hasExistingAccount (findIdentityBlock db tid \<noteq> None) = DispBlocked
      then Blocked tid (Option.bind (findIdentityBlock db tid) bk_lastUserId) else Allowed)"

section \<open>Updates\<close>

type_synonym 'a id_result = "id_db \<times> (string + 'a)"

definition clearIdentityBlock :: "id_db \<Rightarrow> string \<Rightarrow> id_db" where
  "clearIdentityBlock db tid = db\<lparr>id_blocks := filter (\<lambda>b. bk_telegramUserId b \<noteq> tid) (id_blocks db)\<rparr>"

text \<open>The patch of a user; an e-mail address that another user has violates its constraint.\<close>

definition patch_user :: "int \<Rightarrow> tg_profile \<Rightarrow> bool \<Rightarrow> id_user \<Rightarrow> id_user" where
  "patch_user now p setEmailOnEmpty u =
     (let u1 = u\<lparr>us_telegramUsername := pr_username p, us_updatedAt := now\<rparr>;
          u2 = (case pr_phoneNumber p of None \<Rightarrow> u1 | Some n \<Rightarrow> u1\<lparr>us_telegramPhoneNumber := n\<rparr>);
          u3 = (if js_trim (us_name u) = [] then u2\<lparr>us_name := toDisplayName p\<rparr> else u2)
      in if truthy_str (us_email u) = None \<and> setEmailOnEmpty \<and> truthy_str (pr_email p) \<noteq> None
         then u3\<lparr>us_email := pr_email p, us_emailVerified := default_to (pr_emailVerified p) False\<rparr> else u3)"

definition emails_unique :: "id_user list \<Rightarrow> bool" where
  "emails_unique us \<longleftrightarrow> distinct (List.map_filter us_email us)"

definition updateUserFromTelegram ::
    "int \<Rightarrow> id_db \<Rightarrow> string \<Rightarrow> provision_input \<Rightarrow> bool \<Rightarrow> unit id_result" where
  "updateUserFromTelegram now db userId i setEmailOnEmpty =
     (let us = map (\<lambda>u. if us_id u = userId then patch_user now (pi_profile i) setEmailOnEmpty u else u) (id_users db)
      in if emails_unique us then (db\<lparr>id_users := us\<rparr>, Inr ()) else (db, Inl ''users_email_unique''))"

definition updateAccountFromTelegram :: "int \<Rightarrow> id_db \<Rightarrow> string \<Rightarrow> provision_input \<Rightarrow> id_db" where
  "updateAccountFromTelegram now db accountId i =
     db\<lparr>id_accounts := map (\<lambda>a. if ac_id a = accountId
          then (let a1 = a\<lparr>ac_metadata := buildAccountMetadata i, ac_updatedAt := now\<rparr>
                in case pi_chatId i of None \<Rightarrow> a1 | Some c \<Rightarrow> a1\<lparr>ac_telegramChatId := c\<rparr>)
          else a) (id_accounts db)\<rparr>"

text \<open>Both updates run whatever the other does.\<close>

definition touch_identity ::
    "int \<Rightarrow> id_db \<Rightarrow> string \<Rightarrow> string \<Rightarrow> provision_input \<Rightarrow> bool \<Rightarrow> unit id_result" where
  "touch_identity now db userId accountId i setEmailOnEmpty =
     (case updateUserFromTelegram now db userId i setEmailOnEmpty of
        (db1, r) \<Rightarrow> (updateAccountFromTelegram now db1 accountId i, r))"

definition createUserFromTelegram :: "int \<Rightarrow> string \<Rightarrow> tg_profile \<Rightarrow> bool \<Rightarrow> id_user" where
  "createUserFromTelegram now uuid p setEmail =
     \<lparr>us_id = uuid, us_name = toDisplayName p,
      us_email = (if setEmail \<and> truthy_str (pr_email p) \<noteq> None then pr_email p else None),
      us_emailVerified = (setEmail \<and> truthy_str (pr_email p) \<noteq> None \<and> default_to (pr_emailVerified p) False),
      us_timezone = default_to (inferTimezoneFromLanguageCode (pr_languageCode p)) ''UTC'',
      us_telegramUsername = pr_username p, us_telegramPhoneNumber = default_to (pr_phoneNumber p) None,
      us_updatedAt = now\<rparr>"

definition createAccountFromTelegram :: "int \<Rightarrow> string \<Rightarrow> string \<Rightarrow> provision_input \<Rightarrow> id_account" where
  "createAccountFromTelegram now uuid userId i =
     \<lparr>ac_id = uuid, ac_userId = userId, ac_accountId = toTelegramUserId (pi_profile i),
      ac_providerId = TELEGRAM_PROVIDER_ID, ac_telegramChatId = default_to (pi_chatId i) None,
      ac_metadata = buildAccountMetadata i, ac_updatedAt = now\<rparr>"

text \<open>Insertions with the keys and references of the tables.\<close>

definition insert_user :: "id_db \<Rightarrow> id_user \<Rightarrow> string + id_db" where
  "insert_user db u =
     (if list_ex (\<lambda>v. us_id v = us_id u) (id_users db) then Inl ''users_pkey''
      else if emails_unique (id_users db @ [u]) then Inr (db\<lparr>id_users := id_users db @ [u]\<rparr>)
      else Inl ''users_email_unique'')"

definition insert_account :: "id_db \<Rightarrow> id_account \<Rightarrow> string + id_db" where
  "insert_account db a =
     (if list_ex (\<lambda>b. ac_id b = ac_id a) (id_accounts db) then Inl ''accounts_pkey''
      else if list_ex (\<lambda>b. ac_providerId b = ac_providerId a \<and> ac_accountId b = ac_accountId a) (id_accounts db)
      then Inl ''accounts_provider_account_idx''
      else if \<not> list_ex (\<lambda>u. us_id u = ac_userId a) (id_users db) then Inl ''accounts_user_id_fkey''
      else Inr (db\<lparr>id_accounts := id_accounts db @ [a]\<rparr>))"

definition createIdentityBlock :: "int \<Rightarrow> id_db \<Rightarrow> string \<Rightarrow> string \<Rightarrow> id_db" where
  "createIdentityBlock now db tid userId =
     db\<lparr>id_blocks := (if list_ex (\<lambda>b. bk_telegramUserId b = tid) (id_blocks db)
        then map (\<lambda>b. if bk_telegramUserId b = tid then b\<lparr>bk_lastUserId := Some userId, bk_updatedAt := now\<rparr> else b)
               (id_blocks db)
        else id_blocks db @ [\<lparr>bk_telegramUserId = tid, bk_lastUserId = Some userId, bk_updatedAt = now\<rparr>])\<rparr>"

section \<open>Operations\<close>

text \<open>
  \<open>IdProvisioned userId created\<close>; a transaction that fails is rolled back, and the account is looked up
  once more.
\<close>

datatype id_outcome = IdBlocked string "string option" | IdProvisioned string bool

definition touched ::
    "int \<Rightarrow> id_db \<Rightarrow> id_account \<Rightarrow> provision_input \<Rightarrow> bool \<Rightarrow> id_outcome id_result" where
  "touched now db a i setEmail =
     (case touch_identity now db (ac_userId a) (ac_id a) i setEmail of
        (db1, Inl e) \<Rightarrow> (db1, Inl e)
      | (db1, Inr _) \<Rightarrow> (db1, Inr (IdProvisioned (ac_userId a) False)))"

definition create_identity ::
    "int \<Rightarrow> string \<Rightarrow> string \<Rightarrow> id_db \<Rightarrow> provision_input \<Rightarrow> bool \<Rightarrow> string + id_db" where
  "create_identity now uuid1 uuid2 db i setEmail =
     (case insert_user db (createUserFromTelegram now uuid1 (pi_profile i) setEmail) of
        Inl e \<Rightarrow> Inl e
      | Inr db1 \<Rightarrow> insert_account db1 (createAccountFromTelegram now uuid2 uuid1 i))"

definition rolled_back :: "id_db \<Rightarrow> 'a id_result \<Rightarrow> 'a id_result" where
  "rolled_back db r = (case r of (db1, Inl e) \<Rightarrow> (db, Inl e) | (db1, Inr x) \<Rightarrow> (db1, Inr x))"

text \<open>\<open>provisionFromBot\<close>: the check answers, or leaves the rest to the transaction.\<close>

definition provision_check :: "int \<Rightarrow> id_db \<Rightarrow> provision_input \<Rightarrow> id_outcome option id_result" where
  "provision_check now db i =
     (let tid = toTelegramUserId (pi_profile i)
      in case findAccountByTelegramUserId db tid of
           Some a \<Rightarrow> (case touched now db a i False of (db1, Inl e) \<Rightarrow> (db1, Inl e) | (db1, Inr r) \<Rightarrow> (db1, Inr (Some r)))
         | None \<Rightarrow>
             if findIdentityBlock db tid \<noteq> None then (db, Inr (Some (IdBlocked tid None))) else (db, Inr None))"

definition provision_commit ::
    "int \<Rightarrow> string \<Rightarrow> string \<Rightarrow> id_db \<Rightarrow> provision_input \<Rightarrow> id_outcome id_result" where
  "provision_commit now uuid1 uuid2 db i =
     (let tid = toTelegramUserId (pi_profile i);
          tx = (case findAccountByTelegramUserId db tid of
              Some a \<Rightarrow> rolled_back db (touched now db a i False)
            | None \<Rightarrow>
                (case create_identity now uuid1 uuid2 db i False of
                   Inl e \<Rightarrow> (db, Inl e) | Inr db1 \<Rightarrow> (db1, Inr (IdProvisioned uuid1 True))))
      in case tx of
           (db1, Inr r) \<Rightarrow> (db1, Inr r)
         | (db1, Inl e) \<Rightarrow>
             (case findAccountByTelegramUserId db1 tid of
                Some a \<Rightarrow> touched now db1 a i False
              | None \<Rightarrow> (db1, Inl e)))"

definition provisionFromBot ::
    "int \<Rightarrow> string \<Rightarrow> string \<Rightarrow> id_db \<Rightarrow> provision_input \<Rightarrow> id_outcome id_result" where
  "provisionFromBot now uuid1 uuid2 db i =
     (case provision_check now db i of
        (db1, Inl e) \<Rightarrow> (db1, Inl e)
      | (db1, Inr (Some r)) \<Rightarrow> (db1, Inr r)
      | (db1, Inr None) \<Rightarrow> provision_commit now uuid1 uuid2 db1 i)"

definition getSignInState :: "id_db \<Rightarrow> string \<Rightarrow> sign_in_state" where
  "getSignInState db tid = getTelegramSignInState db tid False"

definition sign_in_blocked :: "id_db \<Rightarrow> string \<Rightarrow> id_outcome option" where
  "sign_in_blocked db tid =
     (case getTelegramSignInState db tid False of Allowed \<Rightarrow> None | Blocked t u \<Rightarrow> Some (IdBlocked t u))"

definition sign_in_check :: "int \<Rightarrow> id_db \<Rightarrow> provision_input \<Rightarrow> id_outcome option id_result" where
  "sign_in_check now db i =
     (let tid = toTelegramUserId (pi_profile i)
      in case findAccountByTelegramUserId db tid of
           Some a \<Rightarrow>
             (case touched now (clearIdentityBlock db tid) a i True of
                (db1, Inl e) \<Rightarrow> (db1, Inl e) | (db1, Inr r) \<Rightarrow> (db1, Inr (Some r)))
         | None \<Rightarrow> (db, Inr (sign_in_blocked db tid)))"

definition sign_in_commit ::
    "int \<Rightarrow> string \<Rightarrow> string \<Rightarrow> id_db \<Rightarrow> provision_input \<Rightarrow> id_outcome id_result" where
  "sign_in_commit now uuid1 uuid2 db i =
     (let tid = toTelegramUserId (pi_profile i);
          tx = (case findAccountByTelegramUserId db tid of
              Some a \<Rightarrow> rolled_back db (touched now db a i True)
            | None \<Rightarrow>
                (case sign_in_blocked db tid of
                   Some r \<Rightarrow> (db, Inr r)
                 | None \<Rightarrow>
                     (case create_identity now uuid1 uuid2 db i True of
                        Inl e \<Rightarrow> (db, Inl e) | Inr db1 \<Rightarrow> (db1, Inr (IdProvisioned uuid1 True)))))
      in case tx of
           (db1, Inr r) \<Rightarrow> (db1, Inr r)
         | (db1, Inl e) \<Rightarrow>
             (case findAccountByTelegramUserId db1 tid of
                Some a \<Rightarrow> touched now db1 a i True
              | None \<Rightarrow> (case sign_in_blocked db1 tid of Some r \<Rightarrow> (db1, Inr r) | None \<Rightarrow> (db1, Inl e))))"

definition signInOrCreate ::
    "int \<Rightarrow> string \<Rightarrow> string \<Rightarrow> id_db \<Rightarrow> provision_input \<Rightarrow> id_outcome id_result" where
  "signInOrCreate now uuid1 uuid2 db i =
     (case sign_in_check now db i of
        (db1, Inl e) \<Rightarrow> (db1, Inl e)
      | (db1, Inr (Some r)) \<Rightarrow> (db1, Inr r)
      | (db1, Inr None) \<Rightarrow> sign_in_commit now uuid1 uuid2 db1 i)"

definition LINKED_ELSEWHERE :: string where
  "LINKED_ELSEWHERE = ''Telegram account is already linked to another user''"

text \<open>\<open>linkToUser\<close>: the answer says whether the account is new.\<close>

definition link_check :: "int \<Rightarrow> id_db \<Rightarrow> string \<Rightarrow> provision_input \<Rightarrow> bool option id_result" where
  "link_check now db userId i =
     (let tid = toTelegramUserId (pi_profile i)
      in case findAccountByTelegramUserId db tid of
           Some a \<Rightarrow>
             if ac_userId a \<noteq> userId then (db, Inl LINKED_ELSEWHERE)
             else (case touch_identity now (clearIdentityBlock db tid) userId (ac_id a) i True of
                     (db1, Inl e) \<Rightarrow> (db1, Inl e) | (db1, Inr _) \<Rightarrow> (db1, Inr (Some False)))
         | None \<Rightarrow>
             (case getTelegramLinkConflict None userId
                     (map_option ac_accountId (findTelegramAccountByUserId db userId)) tid of
                Some LinkedToOther \<Rightarrow> (db, Inl LINKED_ELSEWHERE)
              | Some HasDifferentTelegram \<Rightarrow>
                  (db, Inl ''Current user already has a different Telegram account linked'')
              | None \<Rightarrow> (db, Inr None)))"

definition link_commit :: "int \<Rightarrow> string \<Rightarrow> id_db \<Rightarrow> string \<Rightarrow> provision_input \<Rightarrow> bool id_result" where
  "link_commit now uuid db userId i =
     (let tid = toTelegramUserId (pi_profile i)
      in if findAccountByTelegramUserId db tid \<noteq> None then (db, Inl LINKED_ELSEWHERE)
         else (case updateUserFromTelegram now (clearIdentityBlock db tid) userId i True of
             (db1, Inl e) \<Rightarrow> (db, Inl e)
           | (db1, Inr _) \<Rightarrow>
               (case insert_account db1 (createAccountFromTelegram now uuid userId i) of
                  Inl e \<Rightarrow> (db, Inl e) | Inr db2 \<Rightarrow> (db2, Inr True))))"

definition linkToUser :: "int \<Rightarrow> string \<Rightarrow> id_db \<Rightarrow> string \<Rightarrow> provision_input \<Rightarrow> bool id_result" where
  "linkToUser now uuid db userId i =
     (case link_check now db userId i of
        (db1, Inl e) \<Rightarrow> (db1, Inl e)
      | (db1, Inr (Some b)) \<Rightarrow> (db1, Inr b)
      | (db1, Inr None) \<Rightarrow> link_commit now uuid db1 userId i)"

text \<open>\<open>unlinkFromUser\<close>: the account that was found is removed in the transaction.\<close>

definition unlink_commit :: "int \<Rightarrow> id_db \<Rightarrow> string \<Rightarrow> id_account \<Rightarrow> string id_result" where
  "unlink_commit now db userId a =
     (if \<not> canSafelyUnlinkTelegram (length (take 2 (filter (\<lambda>b. ac_userId b = userId) (id_accounts db))))
      then (db, Inl ''Telegram cannot be unlinked because it is the only auth method'')
      else (let db1 = db\<lparr>id_accounts := filter (\<lambda>b. ac_id b \<noteq> ac_id a) (id_accounts db)\<rparr>;
                db2 = db1\<lparr>id_users := map (\<lambda>u. if us_id u = userId
                    then u\<lparr>us_telegramUsername := None, us_telegramPhoneNumber := None, us_updatedAt := now\<rparr> else u)
                  (id_users db1)\<rparr>
            in (createIdentityBlock now db2 (ac_accountId a) userId, Inr (ac_accountId a))))"

definition unlinkFromUser :: "int \<Rightarrow> id_db \<Rightarrow> string \<Rightarrow> string id_result" where
  "unlinkFromUser now db userId =
     (case findTelegramAccountByUserId db userId of
        None \<Rightarrow> (db, Inl ''Telegram is not linked to this user'')
      | Some a \<Rightarrow> unlink_commit now db userId a)"

end
