(* ===== verification/IdentityProps.thy ===== *)
theory IdentityProps
  imports Identity
begin

text \<open>
  What every sequence of identity operations keeps: the constraints of the tables, and that a Telegram
  identity that was unlinked stays out until it is linked again.
\<close>

section \<open>Operations\<close>

text \<open>Whole requests, and their transactions alone: other operations may have come since their check.\<close>

datatype id_op =
    IdBot int string string provision_input
  | IdBotCheck int provision_input
  | IdBotCommit int string string provision_input
  | IdSignIn int string string provision_input
  | IdSignInCheck int provision_input
  | IdSignInCommit int string string provision_input
  | IdLink int string string provision_input
  | IdLinkCheck int string provision_input
  | IdLinkCommit int string string provision_input
  | IdUnlink int string
  | IdUnlinkCommit int string id_account

fun id_exec :: "id_op \<Rightarrow> id_db \<Rightarrow> id_db" where
  "id_exec (IdBot now a b i) db = fst (provisionFromBot now a b db i)"
| "id_exec (IdBotCheck now i) db = fst (provision_check now db i)"
| "id_exec (IdBotCommit now a b i) db = fst (provision_commit now a b db i)"
| "id_exec (IdSignIn now a b i) db = fst (signInOrCreate now a b db i)"
| "id_exec (IdSignInCheck now i) db = fst (sign_in_check now db i)"
| "id_exec (IdSignInCommit now a b i) db = fst (sign_in_commit now a b db i)"
| "id_exec (IdLink now a u i) db = fst (linkToUser now a db u i)"
| "id_exec (IdLinkCheck now u i) db = fst (link_check now db u i)"
| "id_exec (IdLinkCommit now a u i) db = fst (link_commit now a db u i)"
| "id_exec (IdUnlink now u) db = fst (unlinkFromUser now db u)"
| "id_exec (IdUnlinkCommit now u a) db = fst (unlink_commit now db u a)"

text \<open>
  An operation on an identity that may not be linked: it is not linked, and a transaction of a bot message
  is not run on it when it was blocked since its check.
\<close>

fun id_ok :: "(string \<Rightarrow> bool) \<Rightarrow> id_op \<Rightarrow> id_db \<Rightarrow> bool" where
  "id_ok linkable (IdBotCommit now a b i) db =
     (linkable (toTelegramUserId (pi_profile i)) \<or> findIdentityBlock db (toTelegramUserId (pi_profile i)) = None \<or>
      findAccountByTelegramUserId db (toTelegramUserId (pi_profile i)) \<noteq> None)"
| "id_ok linkable (IdLink now a u i) db = linkable (toTelegramUserId (pi_profile i))"
| "id_ok linkable (IdLinkCommit now a u i) db = linkable (toTelegramUserId (pi_profile i))"
| "id_ok linkable _ db = True"

section \<open>Predicates of the tables\<close>

text \<open>A predicate that the elementary updates keep is kept by every operation.\<close>

locale id_keeps =
  fixes I :: "id_db \<Rightarrow> bool" and linkable :: "string \<Rightarrow> bool"
  assumes clear: "I db \<Longrightarrow> linkable t \<or> findAccountByTelegramUserId db t \<noteq> None \<Longrightarrow> I (clearIdentityBlock db t)"
    and user: "I db \<Longrightarrow> I (fst (updateUserFromTelegram now db u i e))"
    and account: "I db \<Longrightarrow> I (updateAccountFromTelegram now db a i)"
    and created: "I db \<Longrightarrow> linkable (toTelegramUserId (pi_profile i)) \<or>
      findIdentityBlock db (toTelegramUserId (pi_profile i)) = None \<Longrightarrow>
      create_identity now x y db i e = Inr db' \<Longrightarrow> I db'"
    and linked: "I db \<Longrightarrow> linkable (toTelegramUserId (pi_profile i)) \<Longrightarrow>
      insert_account db (createAccountFromTelegram now x u i) = Inr db' \<Longrightarrow> I db'"
    and unlinked: "I db \<Longrightarrow> I (fst (unlink_commit now db u acc))"
begin

lemma touching: "I db \<Longrightarrow> I (fst (touch_identity now db u a i e))"
proof -
  assume "I db"
  then have "I (fst (updateUserFromTelegram now db u i e))" by (rule user)
  then show ?thesis
    by (cases "updateUserFromTelegram now db u i e") (simp add: touch_identity_def account)
qed

lemma touched_keeps: "I db \<Longrightarrow> I (fst (touched now db a i e))"
  using touching [of db now "ac_userId a" "ac_id a" i e]
  by (cases "touch_identity now db (ac_userId a) (ac_id a) i e")
    (auto simp: touched_def split: sum.split)

lemma rollback: "I db \<Longrightarrow> I (fst r) \<Longrightarrow> I (fst (rolled_back db r))"
  by (cases r) (auto simp: rolled_back_def split: sum.split)

lemma bot_check: "I db \<Longrightarrow> I (fst (provision_check now db i))"
  using touched_keeps [of db now _ i False]
  by (auto simp: provision_check_def Let_def split: option.split prod.split sum.split) (metis fst_conv)+

lemma bot_commit:
  assumes "I db" "linkable (toTelegramUserId (pi_profile i)) \<or>
    findIdentityBlock db (toTelegramUserId (pi_profile i)) = None \<or>
    findAccountByTelegramUserId db (toTelegramUserId (pi_profile i)) \<noteq> None"
  shows "I (fst (provision_commit now x y db i))"
proof -
  let ?t = "toTelegramUserId (pi_profile i)"
  let ?tx = "case findAccountByTelegramUserId db ?t of
      Some a \<Rightarrow> rolled_back db (touched now db a i False)
    | None \<Rightarrow> (case create_identity now x y db i False of
         Inl e \<Rightarrow> (db, Inl e) | Inr db1 \<Rightarrow> (db1, Inr (IdProvisioned x True)))"
  have "I (fst ?tx)"
    using assms created [of db i now x y False] by (auto intro: rollback touched_keeps split: option.split sum.split)
  then show ?thesis
    unfolding provision_commit_def Let_def
    by (cases ?tx) (auto intro: touched_keeps split: sum.split option.split)
qed

lemma bot: "I db \<Longrightarrow> I (fst (provisionFromBot now x y db i))"
proof -
  assume I: "I db"
  let ?t = "toTelegramUserId (pi_profile i)"
  obtain db1 r where c: "provision_check now db i = (db1, r)" by (metis prod.exhaust)
  have 1: "I db1" using bot_check [OF I, of now i] c by simp
  show ?thesis
  proof (cases "r = Inr None")
    case True
    with c have "db1 = db" "findIdentityBlock db ?t = None"
      by (auto simp: provision_check_def Let_def split: option.splits prod.splits sum.splits if_splits)
    with True c bot_commit [OF I, of i now x y] show ?thesis by (simp add: provisionFromBot_def)
  next
    case False
    with c 1 show ?thesis by (auto simp: provisionFromBot_def split: sum.split option.split)
  qed
qed

lemma sign_check: "I db \<Longrightarrow> I (fst (sign_in_check now db i))"
proof -
  assume I: "I db"
  let ?t = "toTelegramUserId (pi_profile i)"
  show ?thesis
  proof (cases "findAccountByTelegramUserId db ?t")
    case None
    with I show ?thesis by (simp add: sign_in_check_def Let_def)
  next
    case (Some a)
    have "I (fst (touched now (clearIdentityBlock db ?t) a i True))"
      by (rule touched_keeps, rule clear [OF I]) (simp add: Some)
    with Some show ?thesis
      by (cases "touched now (clearIdentityBlock db ?t) a i True")
        (auto simp: sign_in_check_def Let_def split: sum.split)
  qed
qed

lemma sign_blocked: "sign_in_blocked db t = None \<longleftrightarrow> findIdentityBlock db t = None"
  by (auto simp: sign_in_blocked_def getTelegramSignInState_def resolveTelegramSignInDisposition_def)

lemma sign_commit: "I db \<Longrightarrow> I (fst (sign_in_commit now x y db i))"
proof -
  assume I: "I db"
  let ?t = "toTelegramUserId (pi_profile i)"
  let ?tx = "case findAccountByTelegramUserId db ?t of
      Some a \<Rightarrow> rolled_back db (touched now db a i True)
    | None \<Rightarrow> (case sign_in_blocked db ?t of
         Some r \<Rightarrow> (db, Inr r)
       | None \<Rightarrow> (case create_identity now x y db i True of
            Inl e \<Rightarrow> (db, Inl e) | Inr db1 \<Rightarrow> (db1, Inr (IdProvisioned x True))))"
  have "I (fst ?tx)"
    using I created [of db i now x y True] sign_blocked [of db ?t]
    by (auto intro: rollback touched_keeps split: option.split sum.split)
  then show ?thesis
    unfolding sign_in_commit_def Let_def
    by (cases ?tx) (auto intro: touched_keeps split: sum.split option.split)
qed

lemma sign: "I db \<Longrightarrow> I (fst (signInOrCreate now x y db i))"
  using sign_check [of db now i] sign_commit [of "fst (sign_in_check now db i)" now x y i]
  by (cases "sign_in_check now db i") (auto simp: signInOrCreate_def split: sum.split option.split)

lemma linking_check: "I db \<Longrightarrow> I (fst (link_check now db u i))"
proof -
  assume I: "I db"
  let ?t = "toTelegramUserId (pi_profile i)"
  show ?thesis
  proof (cases "findAccountByTelegramUserId db ?t")
    case None
    with I show ?thesis
      by (auto simp: link_check_def Let_def split: option.split link_conflict.split)
  next
    case (Some a)
    have "I (fst (touch_identity now (clearIdentityBlock db ?t) u (ac_id a) i True))"
      by (rule touching, rule clear [OF I]) (simp add: Some)
    with Some I show ?thesis
      by (cases "touch_identity now (clearIdentityBlock db ?t) u (ac_id a) i True")
        (auto simp: link_check_def Let_def split: sum.split)
  qed
qed

lemma linking_commit:
  assumes I: "I db" and l: "linkable (toTelegramUserId (pi_profile i))"
  shows "I (fst (link_commit now x db u i))"
proof -
  let ?t = "toTelegramUserId (pi_profile i)"
  have c: "I (clearIdentityBlock db ?t)" using l by (intro clear [OF I]) simp
  obtain db1 r where 1: "updateUserFromTelegram now (clearIdentityBlock db ?t) u i True = (db1, r)"
    by (metis prod.exhaust)
  have "I db1" using user [OF c, of now u i True] 1 by simp
  with 1 linked [of db1 i now x u] l I show ?thesis
    by (auto simp: link_commit_def Let_def split: sum.split)
qed

lemma linking:
  assumes I: "I db" and l: "linkable (toTelegramUserId (pi_profile i))"
  shows "I (fst (linkToUser now x db u i))"
  using linking_check [OF I, of now u i] linking_commit [OF _ l, of "fst (link_check now db u i)" now x u]
  by (cases "link_check now db u i") (auto simp: linkToUser_def split: sum.split option.split)

lemma unlinking: "I db \<Longrightarrow> I (fst (unlinkFromUser now db u))"
  by (auto simp: unlinkFromUser_def unlinked split: option.split)

lemma exec: "I db \<Longrightarrow> id_ok linkable op db \<Longrightarrow> I (id_exec op db)"
  by (cases op) (simp_all add: bot bot_check bot_commit sign sign_check sign_commit linking linking_check
      linking_commit unlinking unlinked)

end

section \<open>The constraints\<close>

definition id_inv :: "id_db \<Rightarrow> bool" where
  "id_inv db \<longleftrightarrow>
     distinct (map us_id (id_users db)) \<and> emails_unique (id_users db) \<and>
     distinct (map ac_id (id_accounts db)) \<and>
     distinct (map (\<lambda>a. (ac_providerId a, ac_accountId a)) (id_accounts db)) \<and>
     (\<forall>a \<in> set (id_accounts db). ac_userId a \<in> us_id ` set (id_users db)) \<and>
     distinct (map bk_telegramUserId (id_blocks db))"

lemma id_inv_users:
  assumes "id_inv db" "map us_id us = map us_id (id_users db)" "emails_unique us"
  shows "id_inv (db\<lparr>id_users := us\<rparr>)"
proof -
  have "us_id ` set us = us_id ` set (id_users db)" by (metis assms(2) list.set_map)
  then show ?thesis using assms by (simp add: id_inv_def)
qed

lemma patch_user_id [simp]: "us_id (patch_user now p e u) = us_id u"
  by (simp add: patch_user_def Let_def split: option.split)

lemma updateUser_inv: "id_inv db \<Longrightarrow> id_inv (fst (updateUserFromTelegram now db u i e))"
proof -
  assume inv: "id_inv db"
  let ?us = "map (\<lambda>v. if us_id v = u then patch_user now (pi_profile i) e v else v) (id_users db)"
  have "map us_id ?us = map us_id (id_users db)" by (rule map_if_same) simp
  with inv show ?thesis by (simp add: updateUserFromTelegram_def Let_def id_inv_users)
qed

lemma id_inv_accounts:
  assumes "id_inv db" "map ac_id as = map ac_id (id_accounts db)"
    "map (\<lambda>a. (ac_providerId a, ac_accountId a)) as = map (\<lambda>a. (ac_providerId a, ac_accountId a)) (id_accounts db)"
    "map ac_userId as = map ac_userId (id_accounts db)"
  shows "id_inv (db\<lparr>id_accounts := as\<rparr>)"
proof -
  have "ac_userId ` set as = ac_userId ` set (id_accounts db)" by (metis assms(4) list.set_map)
  then have "\<forall>a \<in> set as. ac_userId a \<in> us_id ` set (id_users db)"
  proof -
    assume e: "ac_userId ` set as = ac_userId ` set (id_accounts db)"
    have "ac_userId ` set (id_accounts db) \<subseteq> us_id ` set (id_users db)" using assms(1) unfolding id_inv_def by blast
    then show ?thesis unfolding e [symmetric] by blast
  qed
  then show ?thesis using assms by (simp add: id_inv_def)
qed

lemma updateAccount_inv: "id_inv db \<Longrightarrow> id_inv (updateAccountFromTelegram now db a i)"
  unfolding updateAccountFromTelegram_def
  by (intro id_inv_accounts map_if_same) (simp_all add: Let_def split: option.split)

lemma clear_inv: "id_inv db \<Longrightarrow> id_inv (clearIdentityBlock db t)"
  by (simp add: id_inv_def clearIdentityBlock_def distinct_map_filter)

lemma new_key: "(\<not> list_ex (\<lambda>v. k v = k u) vs) = (k u \<notin> k ` set vs)"
  by (induction vs) auto

lemma insert_user_inv:
  assumes "id_inv db" "insert_user db u = Inr db'"
  shows "id_inv db'"
proof -
  have "us_id u \<notin> us_id ` set (id_users db)"
    using assms(2) new_key [of us_id u "id_users db"] by (auto simp: insert_user_def split: if_splits)
  moreover have "db' = db\<lparr>id_users := id_users db @ [u]\<rparr>" "emails_unique (id_users db @ [u])"
    using assms(2) by (auto simp: insert_user_def split: if_splits)
  ultimately show ?thesis using assms(1) by (simp add: id_inv_def)
qed

lemma insert_account_inv:
  assumes "id_inv db" "insert_account db a = Inr db'"
  shows "id_inv db'"
proof -
  let ?k = "\<lambda>a. (ac_providerId a, ac_accountId a)"
  have "ac_id a \<notin> ac_id ` set (id_accounts db)" "?k a \<notin> ?k ` set (id_accounts db)"
    and u: "\<exists>u \<in> set (id_users db). us_id u = ac_userId a"
    using assms(2) new_key [of ac_id a "id_accounts db"] new_key [of ?k a "id_accounts db"]
    by (auto simp: insert_account_def list_ex_iff split: if_splits)
  moreover from u have "ac_userId a \<in> us_id ` set (id_users db)" by (metis image_eqI)
  moreover have "db' = db\<lparr>id_accounts := id_accounts db @ [a]\<rparr>"
    using assms(2) by (auto simp: insert_account_def split: if_splits)
  ultimately show ?thesis using assms(1) by (simp add: id_inv_def)
qed

lemma create_inv: "id_inv db \<Longrightarrow> create_identity now x y db i e = Inr db' \<Longrightarrow> id_inv db'"
  unfolding create_identity_def by (auto split: sum.splits intro: insert_user_inv insert_account_inv)

lemma id_inv_blocks:
  "id_inv db \<Longrightarrow> distinct (map bk_telegramUserId bs) \<Longrightarrow> id_inv (db\<lparr>id_blocks := bs\<rparr>)"
  by (simp add: id_inv_def)

lemma unlink_inv: "id_inv db \<Longrightarrow> id_inv (fst (unlink_commit now db u a))"
proof -
  assume inv: "id_inv db"
  let ?db1 = "db\<lparr>id_accounts := filter (\<lambda>b. ac_id b \<noteq> ac_id a) (id_accounts db)\<rparr>"
  let ?g = "\<lambda>v. v\<lparr>us_telegramUsername := None, us_telegramPhoneNumber := None, us_updatedAt := now\<rparr>"
  let ?us = "map (\<lambda>v. if us_id v = u then ?g v else v) (id_users ?db1)"
  have 1: "id_inv ?db1" using inv by (simp add: id_inv_def distinct_map_filter)
  have e: "List.map_filter us_email (map (\<lambda>v. if us_id v = u then ?g v else v) vs) = List.map_filter us_email vs" for vs
    by (induction vs) (simp_all add: List.map_filter_def)
  have "emails_unique ?us" using 1 unfolding emails_unique_def e id_inv_def by simp
  then have "id_inv (?db1\<lparr>id_users := ?us\<rparr>)"
    by (intro id_inv_users 1 map_if_same) simp_all
  moreover have "id_inv (createIdentityBlock now d t x)" if "id_inv d" for d t x
  proof -
    let ?bs = "map (\<lambda>b. if bk_telegramUserId b = t
        then b\<lparr>bk_lastUserId := Some x, bk_updatedAt := now\<rparr> else b) (id_blocks d)"
    have "map bk_telegramUserId ?bs = map bk_telegramUserId (id_blocks d)" by (rule map_if_same) simp
    then have "distinct (map bk_telegramUserId ?bs)" using that unfolding id_inv_def by metis
    with that show ?thesis
      by (cases "list_ex (\<lambda>b. bk_telegramUserId b = t) (id_blocks d)")
        (simp_all only: createIdentityBlock_def if_True if_False id_inv_blocks, auto simp: id_inv_def list_ex_iff)
  qed
  ultimately show ?thesis using inv by (simp add: unlink_commit_def Let_def)
qed

interpretation id_rows: id_keeps id_inv "\<lambda>_. True"
  by unfold_locales (auto intro: clear_inv updateUser_inv updateAccount_inv create_inv insert_account_inv unlink_inv)

interpretation id_runs: guarded_run id_exec "id_ok (\<lambda>_. True)" id_inv
  by unfold_locales (rule id_rows.exec)

lemma id_ok_True: "id_ok (\<lambda>_. True) op db"
  by (cases op) simp_all

lemma id_ops_ok_True: "ops_ok id_exec (id_ok (\<lambda>_. True)) ops db"
  by (induction ops arbitrary: db) (simp_all add: id_ok_True)

section \<open>Blocked identities\<close>

definition shut_out :: "string \<Rightarrow> id_db \<Rightarrow> bool" where
  "shut_out t db \<longleftrightarrow> findAccountByTelegramUserId db t = None \<and> findIdentityBlock db t \<noteq> None"

lemma shut_out_iff:
  "shut_out t db \<longleftrightarrow> (\<forall>a \<in> set (id_accounts db). ac_providerId a = TELEGRAM_PROVIDER_ID \<longrightarrow> ac_accountId a \<noteq> t) \<and>
     t \<in> bk_telegramUserId ` set (id_blocks db)"
proof -
  have "findIdentityBlock db t \<noteq> None \<longleftrightarrow> t \<in> bk_telegramUserId ` set (id_blocks db)"
    unfolding findIdentityBlock_def find_first_None by auto
  then show ?thesis unfolding shut_out_def findAccountByTelegramUserId_def find_first_None by auto
qed

lemma shut_out_other:
  "shut_out t db \<Longrightarrow> findAccountByTelegramUserId db t' \<noteq> None \<or> findIdentityBlock db t' = None \<Longrightarrow> t' \<noteq> t"
  by (auto simp: shut_out_def)

lemma insert_account_shut:
  "insert_account db a = Inr db' \<Longrightarrow> id_accounts db' = id_accounts db @ [a] \<and> id_blocks db' = id_blocks db"
  by (auto simp: insert_account_def split: if_splits)

lemma insert_user_shut:
  "insert_user db a = Inr db' \<Longrightarrow> id_accounts db' = id_accounts db \<and> id_blocks db' = id_blocks db"
  by (auto simp: insert_user_def split: if_splits)

lemma create_shut:
  "create_identity now x y db i e = Inr db' \<Longrightarrow>
     id_accounts db' = id_accounts db @ [createAccountFromTelegram now y x i] \<and> id_blocks db' = id_blocks db"
  unfolding create_identity_def by (auto split: sum.splits dest!: insert_user_shut insert_account_shut)

lemma new_account [simp]:
  "ac_accountId (createAccountFromTelegram now y x i) = toTelegramUserId (pi_profile i)"
  by (simp add: createAccountFromTelegram_def)

lemma block_ids:
  "bk_telegramUserId ` set (id_blocks (createIdentityBlock now db t' u)) =
     insert t' (bk_telegramUserId ` set (id_blocks db))"
proof (cases "list_ex (\<lambda>b. bk_telegramUserId b = t') (id_blocks db)")
  case True
  let ?g = "\<lambda>b. b\<lparr>bk_lastUserId := Some u, bk_updatedAt := now\<rparr>"
  have "map bk_telegramUserId (map (\<lambda>b. if bk_telegramUserId b = t' then ?g b else b) (id_blocks db)) =
      map bk_telegramUserId (id_blocks db)" by (rule map_if_same) simp
  then have "bk_telegramUserId ` set (map (\<lambda>b. if bk_telegramUserId b = t' then ?g b else b) (id_blocks db)) =
      bk_telegramUserId ` set (id_blocks db)" by (metis list.set_map)
  moreover have "t' \<in> bk_telegramUserId ` set (id_blocks db)" using True by (auto simp: list_ex_iff)
  ultimately show ?thesis unfolding createIdentityBlock_def if_P [OF True] by (simp add: insert_absorb)
qed (simp add: createIdentityBlock_def)

lemma block_accounts [simp]: "id_accounts (createIdentityBlock now db t' u) = id_accounts db"
  by (simp add: createIdentityBlock_def)

lemma block_shut: "shut_out t db \<Longrightarrow> shut_out t (createIdentityBlock now db t' u)"
  by (simp add: shut_out_iff block_ids)

lemma update_account_shut: "shut_out t db \<Longrightarrow> shut_out t (updateAccountFromTelegram now db a i)"
  by (auto simp: shut_out_iff updateAccountFromTelegram_def Let_def split: option.splits)

lemma unlink_shut: "shut_out t db \<Longrightarrow> shut_out t (fst (unlink_commit now db u a))"
  by (auto simp: unlink_commit_def Let_def intro!: block_shut) (auto simp: shut_out_iff)

interpretation shut: id_keeps "shut_out t" "\<lambda>t'. t' \<noteq> t" for t
proof unfold_locales
  fix db t' assume "shut_out t db" "t' \<noteq> t \<or> findAccountByTelegramUserId db t' \<noteq> None"
  moreover from this have "t' \<noteq> t" using shut_out_other by blast
  ultimately show "shut_out t (clearIdentityBlock db t')" by (auto simp: shut_out_iff clearIdentityBlock_def)
next
  fix db now u i e assume "shut_out t db"
  then show "shut_out t (fst (updateUserFromTelegram now db u i e))"
    by (auto simp: shut_out_iff updateUserFromTelegram_def Let_def)
next
  fix db i now x y e db'
  assume s: "shut_out t db" and c: "create_identity now x y db i e = Inr db'"
    and "toTelegramUserId (pi_profile i) \<noteq> t \<or> findIdentityBlock db (toTelegramUserId (pi_profile i)) = None"
  then have "toTelegramUserId (pi_profile i) \<noteq> t" using shut_out_other by blast
  with s create_shut [OF c] show "shut_out t db'" by (auto simp: shut_out_iff)
next
  fix db i now x u db'
  assume "shut_out t db" "toTelegramUserId (pi_profile i) \<noteq> t"
    "insert_account db (createAccountFromTelegram now x u i) = Inr db'"
  then show "shut_out t db'" by (auto simp: shut_out_iff dest!: insert_account_shut)
qed (rule update_account_shut unlink_shut, assumption)+

interpretation shut_runs: guarded_run id_exec "id_ok (\<lambda>t'. t' \<noteq> t)" "shut_out t" for t
  by unfold_locales (rule shut.exec)

text \<open>What a blocked identity is answered.\<close>

lemma shut_bot:
  "shut_out t db \<Longrightarrow> toTelegramUserId (pi_profile i) = t \<Longrightarrow>
     provisionFromBot now x y db i = (db, Inr (IdBlocked t None))"
  by (simp add: shut_out_def provisionFromBot_def provision_check_def Let_def)

lemma shut_sign_in:
  "shut_out t db \<Longrightarrow> toTelegramUserId (pi_profile i) = t \<Longrightarrow>
     signInOrCreate now x y db i =
       (db, Inr (IdBlocked t (Option.bind (findIdentityBlock db t) bk_lastUserId)))"
  by (simp add: shut_out_def signInOrCreate_def sign_in_check_def Let_def sign_in_blocked_def
      getTelegramSignInState_def resolveTelegramSignInDisposition_def)

text \<open>An identity that is unlinked is shut out, and its user keeps another account.\<close>

lemma unlink_shuts:
  assumes inv: "id_inv db" and u: "unlinkFromUser now db u = (db1, Inr t)"
  shows "shut_out t db1 \<and> (\<exists>b \<in> set (id_accounts db1). ac_userId b = u)"
proof -
  obtain a where a: "findTelegramAccountByUserId db u = Some a" and c: "unlink_commit now db u a = (db1, Inr t)"
    using u by (auto simp: unlinkFromUser_def split: option.splits)
  from find_first_Some [OF a [unfolded findTelegramAccountByUserId_def]]
  have in_db: "a \<in> set (id_accounts db)" "ac_userId a = u" "ac_providerId a = TELEGRAM_PROVIDER_ID" by auto
  let ?as = "filter (\<lambda>b. ac_id b \<noteq> ac_id a) (id_accounts db)"
  have t: "t = ac_accountId a" "id_accounts db1 = ?as" "t \<in> bk_telegramUserId ` set (id_blocks db1)"
    and many: "1 < length (filter (\<lambda>b. ac_userId b = u) (id_accounts db))"
    using c by (auto simp: unlink_commit_def Let_def block_ids canSafelyUnlinkTelegram_def split: if_splits)
  have "ac_id b = ac_id a" if "b \<in> set (id_accounts db)" "ac_providerId b = ac_providerId a" "ac_accountId b = ac_accountId a" for b
    using inv that in_db(1) unfolding id_inv_def distinct_map inj_on_def by blast
  then have s: "shut_out t db1" using t in_db(3) by (auto simp: shut_out_iff)
  have "\<exists>b \<in> set ?as. ac_userId b = u"
  proof (rule ccontr)
    assume n: "\<not> ?thesis"
    have "filter (\<lambda>b. ac_userId b = u) (id_accounts db) = filter (\<lambda>b. ac_userId b = u \<and> ac_id b = ac_id a) (id_accounts db)"
      using n by (intro filter_cong) auto
    moreover have "length (filter (\<lambda>b. P b \<and> ac_id b = x) bs) \<le> 1" if "distinct (map ac_id bs)" for bs P x
      using that
    proof (induction bs)
      case (Cons b bs)
      show ?case
      proof (cases "ac_id b = x")
        case True
        with Cons.prems have "\<forall>c \<in> set bs. ac_id c \<noteq> x" by (metis distinct.simps(2) image_eqI list.set_map list.simps(9))
        then have "filter (\<lambda>b. P b \<and> ac_id b = x) bs = []" by (simp add: filter_empty_conv)
        then show ?thesis by simp
      qed (use Cons in auto)
    qed simp
    moreover have "distinct (map ac_id (id_accounts db))" using inv by (simp add: id_inv_def)
    ultimately have "length (filter (\<lambda>b. ac_userId b = u) (id_accounts db)) \<le> 1" by metis
    with many show False by simp
  qed
  with s t show ?thesis by simp
qed

text \<open>
  The transaction of a bot message does not look at the blocks again: after a link and an unlink that came
  between its check and it, it creates a user for an identity that was just blocked.
\<close>

lemma stale_bot_revives:
  assumes "shut_out t db" "toTelegramUserId (pi_profile i) = t"
    and "\<forall>u \<in> set (id_users db). us_id u \<noteq> x" "\<forall>a \<in> set (id_accounts db). ac_id a \<noteq> y" "emails_unique (id_users db)"
  shows "\<exists>db1. provision_commit now x y db i = (db1, Inr (IdProvisioned x True)) \<and>
    findAccountByTelegramUserId db1 t \<noteq> None \<and> findIdentityBlock db1 t \<noteq> None"
proof -
  let ?u = "createUserFromTelegram now x (pi_profile i) False"
  let ?a = "createAccountFromTelegram now y x i"
  have u: "insert_user db ?u = Inr (db\<lparr>id_users := id_users db @ [?u]\<rparr>)"
    using assms(3,5) by (auto simp: insert_user_def list_ex_iff createUserFromTelegram_def emails_unique_def List.map_filter_def)
  have n: "\<forall>a \<in> set (id_accounts db). ac_providerId a = TELEGRAM_PROVIDER_ID \<longrightarrow> ac_accountId a \<noteq> t"
    using assms(1) by (simp add: shut_out_iff)
  let ?db1 = "db\<lparr>id_users := id_users db @ [?u], id_accounts := id_accounts db @ [?a]\<rparr>"
  have a: "insert_account (db\<lparr>id_users := id_users db @ [?u]\<rparr>) ?a = Inr ?db1"
    using n assms(2,4) by (auto simp: insert_account_def list_ex_iff createAccountFromTelegram_def createUserFromTelegram_def)
  have "provision_commit now x y db i = (?db1, Inr (IdProvisioned x True))"
    using assms(1,2) u a by (simp add: provision_commit_def Let_def shut_out_def create_identity_def)
  moreover have "findAccountByTelegramUserId ?db1 t \<noteq> None"
    using assms(2) by (simp add: findAccountByTelegramUserId_def find_first_None createAccountFromTelegram_def)
  moreover have "findIdentityBlock ?db1 t \<noteq> None"
    using assms(1) by (simp add: shut_out_def findIdentityBlock_def)
  ultimately show ?thesis by blast
qed

section \<open>Properties\<close>



section \<open>Witnesses\<close>

definition demo_profile :: "string \<Rightarrow> provision_input" where
  "demo_profile t =
     \<lparr>pi_source = FromBot, pi_chatId = Some (Some t), pi_profile =
       \<lparr>pr_id = t, pr_firstName = ''Ada'', pr_lastName = None, pr_username = Some ''ada'',
        pr_languageCode = Some ''en-GB'', pr_isPremium = None, pr_photoUrl = None, pr_phoneNumber = None,
        pr_email = None, pr_emailVerified = None\<rparr>\<rparr>"

definition demo_account :: id_account where
  "demo_account = \<lparr>ac_id = ''a0'', ac_userId = ''u1'', ac_accountId = ''g1'', ac_providerId = ''google'',
     ac_telegramChatId = None, ac_metadata = [], ac_updatedAt = 0\<rparr>"

text \<open>A user who signs in with another provider and links Telegram.\<close>

definition demo_identities :: id_db where
  "demo_identities =
     (let u = createUserFromTelegram 0 ''u1'' (pi_profile (demo_profile ''42'')) False
      in fst (linkToUser 1 ''a1'' \<lparr>id_users = [u], id_accounts = [demo_account], id_blocks = []\<rparr> ''u1'' (demo_profile ''42'')))"

lemma demo_identities_inv: "id_inv demo_identities"
proof -
  have "distinct (map us_id (id_users demo_identities))" "emails_unique (id_users demo_identities)"
    "distinct (map ac_id (id_accounts demo_identities))"
    "distinct (map (\<lambda>a. (ac_providerId a, ac_accountId a)) (id_accounts demo_identities))"
    "list_all (\<lambda>a. list_ex (\<lambda>u. us_id u = ac_userId a) (id_users demo_identities)) (id_accounts demo_identities)"
    "distinct (map bk_telegramUserId (id_blocks demo_identities))"
    by code_simp+
  then show ?thesis unfolding id_inv_def list_all_iff list_ex_iff by (metis image_eqI)
qed


definition demo_unlinked :: id_db where
  "demo_unlinked = fst (unlinkFromUser 2 demo_identities ''u1'')"

lemma demo_unlink: "unlinkFromUser 2 demo_identities ''u1'' = (demo_unlinked, Inr ''42'')"
proof -
  have "snd (unlinkFromUser 2 demo_identities ''u1'') = Inr ''42''" by code_simp
  then show ?thesis unfolding demo_unlinked_def by (metis prod.collapse)
qed

definition demo_ops :: "id_op list" where
  "demo_ops = [IdBot 3 ''u2'' ''a2'' (demo_profile ''42''), IdSignInCommit 4 ''u3'' ''a3'' (demo_profile ''42''),
     IdBot 5 ''u4'' ''a4'' (demo_profile ''7'')]"


end
