(* ===== verification/Integrations.thy ===== *)
theory Integrations
  imports Programs
begin

text \<open>
  Connected apps: the registry of toolkits, the links and payloads, and the connectors service of
  \<open>packages/plugins/src/integrations\<close>.  The connection broker (Composio) is a parameter: a world of any
  type with its answers.
\<close>

section \<open>Toolkits\<close>

datatype toolkit = Gmail | Googlecalendar | Notion | Slack | Googledrive

definition SUPPORTED_INTEGRATION_TOOLKITS :: "toolkit list" where
  "SUPPORTED_INTEGRATION_TOOLKITS = [Gmail, Googlecalendar, Notion, Slack, Googledrive]"

fun slug :: "toolkit \<Rightarrow> string" where
  "slug Gmail = ''gmail''"
| "slug Googlecalendar = ''googlecalendar''"
| "slug Notion = ''notion''"
| "slug Slack = ''slack''"
| "slug Googledrive = ''googledrive''"

fun getIntegrationLabel :: "toolkit \<Rightarrow> string" where
  "getIntegrationLabel Gmail = ''Gmail''"
| "getIntegrationLabel Googlecalendar = ''Google Calendar''"
| "getIntegrationLabel Notion = ''Notion''"
| "getIntegrationLabel Slack = ''Slack''"
| "getIntegrationLabel Googledrive = ''Google Drive''"

fun toolkit_env_key :: "toolkit \<Rightarrow> string" where
  "toolkit_env_key Gmail = ''COMPOSIO_AUTH_CONFIG_GMAIL''"
| "toolkit_env_key Googlecalendar = ''COMPOSIO_AUTH_CONFIG_GOOGLECALENDAR''"
| "toolkit_env_key Notion = ''COMPOSIO_AUTH_CONFIG_NOTION''"
| "toolkit_env_key Slack = ''COMPOSIO_AUTH_CONFIG_SLACK''"
| "toolkit_env_key Googledrive = ''COMPOSIO_AUTH_CONFIG_GOOGLEDRIVE''"

fun safe_tools :: "toolkit \<Rightarrow> string list" where
  "safe_tools Gmail =
     [''GMAIL_FETCH_EMAILS'', ''GMAIL_FETCH_MESSAGE_BY_MESSAGE_ID'', ''GMAIL_FETCH_MESSAGE_BY_THREAD_ID'',
      ''GMAIL_GET_ATTACHMENT'', ''GMAIL_GET_CONTACTS'', ''GMAIL_GET_DRAFT'', ''GMAIL_LIST_DRAFTS'',
      ''GMAIL_LIST_LABELS'', ''GMAIL_LIST_THREADS'', ''GMAIL_CREATE_EMAIL_DRAFT'', ''GMAIL_UPDATE_DRAFT'',
      ''GMAIL_SEND_DRAFT'', ''GMAIL_SEND_EMAIL'', ''GMAIL_REPLY_TO_THREAD'']"
| "safe_tools Googlecalendar =
     [''GOOGLECALENDAR_EVENTS_LIST'', ''GOOGLECALENDAR_FIND_EVENT'', ''GOOGLECALENDAR_FIND_FREE_SLOTS'',
      ''GOOGLECALENDAR_FREE_BUSY_QUERY'', ''GOOGLECALENDAR_GET_CALENDAR'', ''GOOGLECALENDAR_GET_CURRENT_DATE_TIME'',
      ''GOOGLECALENDAR_LIST_CALENDARS'', ''GOOGLECALENDAR_CREATE_EVENT'', ''GOOGLECALENDAR_PATCH_EVENT'',
      ''GOOGLECALENDAR_UPDATE_EVENT'']"
| "safe_tools Notion =
     [''NOTION_FETCH_DATA'', ''NOTION_FETCH_DATABASE'', ''NOTION_FETCH_NOTION_BLOCK'',
      ''NOTION_FETCH_NOTION_CHILD_BLOCK'', ''NOTION_FETCH_ROW'', ''NOTION_QUERY_DATABASE'',
      ''NOTION_SEARCH_NOTION_PAGE'', ''NOTION_CREATE_NOTION_PAGE'', ''NOTION_ADD_PAGE_CONTENT'',
      ''NOTION_APPEND_BLOCK_CHILDREN'', ''NOTION_INSERT_ROW_DATABASE'', ''NOTION_UPDATE_PAGE'',
      ''NOTION_UPDATE_ROW_DATABASE'', ''NOTION_NOTION_UPDATE_BLOCK'']"
| "safe_tools Slack =
     [''SLACK_FETCH_CONVERSATION_HISTORY'', ''SLACK_FETCH_MESSAGE_THREAD_FROM_A_CONVERSATION'',
      ''SLACK_FIND_CHANNELS'', ''SLACK_FIND_USERS'', ''SLACK_LIST_ALL_CHANNELS'', ''SLACK_LIST_CONVERSATIONS'',
      ''SLACK_RETRIEVE_CONVERSATION_INFORMATION'', ''SLACK_SEND_MESSAGE'']"
| "safe_tools Googledrive =
     [''GOOGLEDRIVE_LIST_FILES'', ''GOOGLEDRIVE_FIND_FILE'', ''GOOGLEDRIVE_FIND_FOLDER'',
      ''GOOGLEDRIVE_GET_FILE_METADATA'', ''GOOGLEDRIVE_DOWNLOAD_FILE'', ''GOOGLEDRIVE_PARSE_FILE'']"

text \<open>The messages; the dash U+2014 is outside the characters of a string and is written as a parameter.\<close>

definition dash_message :: "string \<Rightarrow> string \<Rightarrow> string \<Rightarrow> string" where
  "dash_message emdash before rest = before @ '' '' @ emdash @ '' '' @ rest"

fun getIntegrationSuccessMessage :: "string \<Rightarrow> toolkit \<Rightarrow> string" where
  "getIntegrationSuccessMessage emdash Gmail = dash_message emdash ''Gmail is connected''
     ''I can read your mail, draft replies, and send messages whenever you need.''"
| "getIntegrationSuccessMessage emdash Googlecalendar = dash_message emdash ''Google Calendar is connected''
     ''I can check your schedule, find free time, and manage events.''"
| "getIntegrationSuccessMessage emdash Notion = dash_message emdash ''Notion is connected''
     ''I can search your pages, create notes, and update existing content.''"
| "getIntegrationSuccessMessage emdash Slack = dash_message emdash ''Slack is connected''
     ''I can read channels, follow threads, and post messages for you.''"
| "getIntegrationSuccessMessage emdash Googledrive = dash_message emdash ''Google Drive is connected''
     ''I can find files, open documents, and pull content.''"

definition getIntegrationExpiredMessage :: "toolkit \<Rightarrow> string" where
  "getIntegrationExpiredMessage t = ''Your '' @ getIntegrationLabel t @
     '' connection has expired. Just ask me to reconnect it and I'' @ [CHR 0x27] @ ''ll send a fresh link.''"

definition toolkit_of_slug :: "string \<Rightarrow> toolkit option" where
  "toolkit_of_slug s = find_first (\<lambda>t. slug t = s) SUPPORTED_INTEGRATION_TOOLKITS"

definition isSupportedIntegrationToolkit :: "string \<Rightarrow> bool" where
  "isSupportedIntegrationToolkit s \<longleftrightarrow> s \<in> set (map slug SUPPORTED_INTEGRATION_TOOLKITS)"

section \<open>Payloads and links\<close>

definition buildIntegrationStartPayload :: "toolkit \<Rightarrow> string" where
  "buildIntegrationStartPayload t = ''connect-'' @ slug t"

definition is_letter :: "char \<Rightarrow> bool" where
  "is_letter c = (let n = (of_char c :: nat) in (65 \<le> n \<and> n \<le> 90) \<or> (97 \<le> n \<and> n \<le> 122))"

text \<open>The pattern ignores case, the toolkit it captures does not.\<close>

definition parseIntegrationStartPayload :: "string option \<Rightarrow> toolkit option" where
  "parseIntegrationStartPayload payload =
     (case truthy_str payload of
        None \<Rightarrow> None
      | Some p \<Rightarrow>
          (let s = js_trim p; name = drop 8 s
           in if to_lower (take 8 s) = ''connect-'' \<and> name \<noteq> [] \<and> list_all is_letter name
              then toolkit_of_slug name else None))"

definition normalizeAppUrl :: "string \<Rightarrow> string" where
  "normalizeAppUrl s = rev (dropWhile (\<lambda>c. c = CHR ''/'') (rev s))"

text \<open>\<open>encodeURIComponent\<close> on the code units below U+0100: two bytes of UTF-8 from U+0080 on.\<close>

definition hex_digit :: "nat \<Rightarrow> char" where
  "hex_digit n = (if n < 10 then char_of (48 + n) else char_of (55 + n))"

definition percent :: "nat \<Rightarrow> string" where
  "percent b = [CHR ''%'', hex_digit (b div 16), hex_digit (b mod 16)]"

definition uri_char :: "char \<Rightarrow> string" where
  "uri_char c =
     (let n = (of_char c :: nat)
      in if is_letter c \<or> (48 \<le> n \<and> n \<le> 57) \<or> c \<in> set ''-_.!~*()'' \<or> n = 39 then [c]
         else if n < 128 then percent n
         else percent (192 + n div 64) @ percent (128 + n mod 64))"

definition encodeURIComponent :: "string \<Rightarrow> string" where
  "encodeURIComponent s = concat (map uri_char s)"

definition buildConnectLinkUrl :: "string \<Rightarrow> string \<Rightarrow> string" where
  "buildConnectLinkUrl apiUrl i = normalizeAppUrl apiUrl @ ''/link/'' @ encodeURIComponent i"

definition buildComposioCallbackUrl :: "string \<Rightarrow> toolkit \<Rightarrow> string" where
  "buildComposioCallbackUrl appUrl t =
     normalizeAppUrl appUrl @ ''/integrations/callback?toolkit='' @ encodeURIComponent (slug t)"

section \<open>Webhooks\<close>

text \<open>The records of a payload; a text is parsed first (\<open>JSON.parse\<close> is a parameter).\<close>

definition asRecord :: "json option \<Rightarrow> json option" where
  "asRecord v = (case v of Some (JObj kvs) \<Rightarrow> Some (JObj kvs) | _ \<Rightarrow> None)"

definition jprop :: "json option \<Rightarrow> string \<Rightarrow> json option" where
  "jprop v k = (case v of None \<Rightarrow> None | Some j \<Rightarrow> json_get j k)"

definition pickString :: "json option list \<Rightarrow> string option" where
  "pickString vs = Option.bind (find_first (\<lambda>v. case v of Some (JStr s) \<Rightarrow> js_trim s \<noteq> [] | _ \<Rightarrow> False) vs) json_str"

definition normalizeWebhookPayload :: "(string \<Rightarrow> json option) \<Rightarrow> json \<Rightarrow> json option" where
  "normalizeWebhookPayload parse v = (case v of JStr s \<Rightarrow> asRecord (parse s) | _ \<Rightarrow> asRecord (Some v))"

definition getWebhookType :: "(string \<Rightarrow> json option) \<Rightarrow> json \<Rightarrow> string option" where
  "getWebhookType parse v =
     (let object = normalizeWebhookPayload parse v
      in pickString [jprop object ''type'', jprop (asRecord (jprop object ''event'')) ''type''])"

text \<open>\<open>a ?? b\<close> on JSON values: null counts as absent.\<close>

definition nullish :: "json option \<Rightarrow> json option \<Rightarrow> json option" where
  "nullish a b = (case a of None \<Rightarrow> b | Some JNull \<Rightarrow> b | Some v \<Rightarrow> Some v)"

definition getExpiredConnectedAccountId :: "(string \<Rightarrow> json option) \<Rightarrow> json \<Rightarrow> string option" where
  "getExpiredConnectedAccountId parse v =
     (let object = normalizeWebhookPayload parse v;
          data = asRecord (jprop object ''data'');
          connected = asRecord (nullish (jprop data ''connectedAccount'') (nullish (jprop data ''connected_account'')
            (nullish (jprop object ''connectedAccount'') (jprop object ''connected_account''))))
      in pickString [jprop data ''connectedAccountId'', jprop data ''connected_account_id'', jprop data ''id'',
           jprop object ''connectedAccountId'', jprop object ''connected_account_id'', jprop connected ''id''])"

section \<open>The broker\<close>

record broker_account =
  br_id :: string
  br_userId :: "string option"
  br_user_id :: "string option"
  br_status :: string
  br_statusReason :: "string option"
  br_isDisabled :: "bool option"
  br_is_disabled :: "bool option"
  br_createdAt :: string
  br_updatedAt :: int
  br_authConfigId :: "string option"
  br_toolkit :: string

record session_config =
  sc_toolkits :: "toolkit list"
  sc_tools :: "(toolkit \<times> string list) list"
  sc_disabledTag :: string
  sc_authConfigs :: "(toolkit \<times> string) list option"
  sc_connected :: "(toolkit \<times> string) list option"

record 'w broker =
  bk_list :: "string \<Rightarrow> toolkit list \<Rightarrow> 'w \<Rightarrow> 'w \<times> (unit + broker_account list)"
  bk_session :: "string \<Rightarrow> session_config \<Rightarrow> 'w \<Rightarrow> 'w \<times> (unit + string)"
  bk_tools :: "string \<Rightarrow> 'w \<Rightarrow> 'w \<times> (unit + string list)"
  bk_authorize :: "string \<Rightarrow> toolkit \<Rightarrow> string \<Rightarrow> 'w \<Rightarrow> 'w \<times> (unit + string option)"
  bk_delete :: "string \<Rightarrow> 'w \<Rightarrow> 'w \<times> (unit + unit)"
  bk_get :: "string \<Rightarrow> 'w \<Rightarrow> 'w \<times> (unit + broker_account)"
  bk_now :: "'w \<Rightarrow> int"
  bk_uuid :: "'w \<Rightarrow> 'w \<times> string"

section \<open>The table\<close>

datatype link_status = LActive | LPending | LExpired | LRevoked

text \<open>The metadata of a pending request; instants are written and read back as ISO texts.\<close>

record pending_meta =
  pm_redirectUrl :: string
  pm_callbackUrl :: string
  pm_expiresAt :: int

record link_row =
  lk_id :: string
  lk_userId :: string
  lk_provider :: toolkit
  lk_external :: "string option"
  lk_status :: link_status
  lk_isPreferred :: bool
  lk_metadata :: "pending_meta option"
  lk_updatedAt :: int

record 'w conn_state =
  cn_rows :: "link_row list"
  cn_world :: 'w

record conn_env =
  ce_appUrl :: string
  ce_apiUrl :: string
  ce_enabled :: bool
  ce_webhookSecret :: string
  ce_authConfig :: "toolkit \<Rightarrow> string"
  ce_emdash :: string

type_synonym ('w, 'a) conn = "('w conn_state, string, 'a) prog"

definition ask :: "string \<Rightarrow> ('w \<Rightarrow> 'w \<times> (unit + 'a)) \<Rightarrow> ('w, 'a) conn" where
  "ask message f = (\<lambda>s. case f (cn_world s) of
     (w, Inr x) \<Rightarrow> Some (s\<lparr>cn_world := w\<rparr>, Inr x) | (w, Inl _) \<Rightarrow> Some (s\<lparr>cn_world := w\<rparr>, Inl message))"

definition CONNECT_INTEGRATION_LINK_TTL_MS :: int where "CONNECT_INTEGRATION_LINK_TTL_MS = 5 * 60 * 1000"

definition buildConnectIntegrationUserMessages :: "string \<Rightarrow> string \<Rightarrow> string list" where
  "buildConnectIntegrationUserMessages label redirectUrl =
     [''Here'' @ [CHR 0x27] @ ''s the link to connect '' @ label @ '': '' @ redirectUrl,
      ''Telegram should reopen when you'' @ [CHR 0x27] @ ''re done. If not, come back and send /start.'']"

definition isPendingAuthReusable :: "link_row \<Rightarrow> int \<Rightarrow> bool" where
  "isPendingAuthReusable r now = (case lk_metadata r of None \<Rightarrow> False | Some m \<Rightarrow> pm_expiresAt m > now)"

definition pickConnectedAccountDisabled :: "broker_account \<Rightarrow> bool" where
  "pickConnectedAccountDisabled a = default_to (or_else (br_isDisabled a) (br_is_disabled a)) False"

definition pickConnectedAccountUserId :: "broker_account \<Rightarrow> string option" where
  "pickConnectedAccountUserId a = or_else (br_userId a) (br_user_id a)"

definition buildOptionalRecord :: "('k \<times> string) list \<Rightarrow> ('k \<times> string) list" where
  "buildOptionalRecord entries = filter (\<lambda>(k, v). v \<noteq> []) entries"

definition COMPOSIO_DESTRUCTIVE_TAG :: string where "COMPOSIO_DESTRUCTIVE_TAG = ''destructiveHint''"

definition buildComposioSessionConfig ::
    "(toolkit \<times> string) list \<Rightarrow> (toolkit \<times> string) list \<Rightarrow> session_config" where
  "buildComposioSessionConfig authConfigs connected =
     \<lparr>sc_toolkits = SUPPORTED_INTEGRATION_TOOLKITS,
      sc_tools = map (\<lambda>t. (t, safe_tools t)) SUPPORTED_INTEGRATION_TOOLKITS,
      sc_disabledTag = COMPOSIO_DESTRUCTIVE_TAG,
      sc_authConfigs = (if authConfigs = [] then None else Some authConfigs),
      sc_connected = (if connected = [] then None else Some connected)\<rparr>"

definition getAuthConfigOverrides :: "conn_env \<Rightarrow> (toolkit \<times> string) list" where
  "getAuthConfigOverrides env =
     buildOptionalRecord (map (\<lambda>t. (t, ce_authConfig env t)) SUPPORTED_INTEGRATION_TOOLKITS)"

section \<open>Queries\<close>

text \<open>The queries themselves do not fail here; a failure would leave the table as it is.\<close>

definition listPreferenceRows :: "string \<Rightarrow> link_row list \<Rightarrow> link_row list" where
  "listPreferenceRows userId rows = filter (\<lambda>r. lk_userId r = userId \<and> lk_isPreferred r) rows"

definition pending_of :: "string \<Rightarrow> toolkit \<Rightarrow> link_row \<Rightarrow> bool" where
  "pending_of userId t r \<longleftrightarrow> lk_userId r = userId \<and> lk_provider r = t \<and> lk_status r = LPending"

definition getPendingAuthRequest :: "string \<Rightarrow> toolkit \<Rightarrow> link_row list \<Rightarrow> link_row option" where
  "getPendingAuthRequest userId t rows = find_first (pending_of userId t) rows"

definition clearPendingAuthRequest :: "string \<Rightarrow> toolkit \<Rightarrow> link_row list \<Rightarrow> link_row list" where
  "clearPendingAuthRequest userId t rows = filter (\<lambda>r. \<not> pending_of userId t r) rows"

definition upsertPendingAuthRequest ::
    "int \<Rightarrow> string \<Rightarrow> string \<Rightarrow> toolkit \<Rightarrow> pending_meta \<Rightarrow> link_row list \<Rightarrow> link_row list" where
  "upsertPendingAuthRequest now uuid userId t meta rows =
     clearPendingAuthRequest userId t rows @
     [\<lparr>lk_id = uuid, lk_userId = userId, lk_provider = t, lk_external = None, lk_status = LPending,
       lk_isPreferred = False, lk_metadata = Some meta, lk_updatedAt = now\<rparr>]"

definition purgeExpiredAuthRequests :: "int \<Rightarrow> link_row list \<Rightarrow> link_row list" where
  "purgeExpiredAuthRequests now rows =
     filter (\<lambda>r. \<not> (lk_status r = LPending \<and> (case lk_metadata r of None \<Rightarrow> False | Some m \<Rightarrow> pm_expiresAt m \<le> now))) rows"

text \<open>The preferred account of each toolkit: of several rows the last counts.\<close>

definition getPreferredAccountMap :: "link_row list \<Rightarrow> toolkit \<Rightarrow> string option" where
  "getPreferredAccountMap rows t =
     Option.bind (last_opt (filter (\<lambda>r. lk_provider r = t \<and> lk_external r \<noteq> None) rows)) lk_external"

definition preferred_entries :: "link_row list \<Rightarrow> (toolkit \<times> string) list" where
  "preferred_entries rows = List.map_filter
     (\<lambda>t. map_option (Pair t) (getPreferredAccountMap rows t)) SUPPORTED_INTEGRATION_TOOLKITS"

definition clear_preferred :: "int \<Rightarrow> (link_row \<Rightarrow> bool) \<Rightarrow> link_row list \<Rightarrow> link_row list" where
  "clear_preferred now P rows =
     map (\<lambda>r. if P r \<and> lk_isPreferred r then r\<lparr>lk_isPreferred := False, lk_updatedAt := now\<rparr> else r) rows"

text \<open>The two statements of \<open>setPreferredIntegrationAccount\<close>.\<close>

definition prefer_clear :: "int \<Rightarrow> string \<Rightarrow> toolkit \<Rightarrow> link_row list \<Rightarrow> link_row list" where
  "prefer_clear now userId t = clear_preferred now (\<lambda>r. lk_userId r = userId \<and> lk_provider r = t)"

definition same_account :: "string \<Rightarrow> toolkit \<Rightarrow> string \<Rightarrow> link_row \<Rightarrow> bool" where
  "same_account userId t account r \<longleftrightarrow> lk_userId r = userId \<and> lk_provider r = t \<and> lk_external r = Some account"

definition prefer_upsert :: "int \<Rightarrow> string \<Rightarrow> string \<Rightarrow> toolkit \<Rightarrow> string \<Rightarrow> link_row list \<Rightarrow> link_row list" where
  "prefer_upsert now uuid userId t account rows =
     (if list_ex (same_account userId t account) rows
      then map (\<lambda>r. if same_account userId t account r
             then r\<lparr>lk_isPreferred := True, lk_status := LActive, lk_updatedAt := now\<rparr> else r) rows
      else rows @ [\<lparr>lk_id = uuid, lk_userId = userId, lk_provider = t, lk_external = Some account,
             lk_status = LActive, lk_isPreferred = True, lk_metadata = None, lk_updatedAt = now\<rparr>])"

text \<open>A step on the table at the current time, with a fresh identifier.\<close>

definition on_rows :: "'w broker \<Rightarrow> (int \<Rightarrow> string \<Rightarrow> link_row list \<Rightarrow> link_row list) \<Rightarrow> ('w, string) conn" where
  "on_rows bk f = (\<lambda>s. case bk_uuid bk (cn_world s) of
     (w, uuid) \<Rightarrow> Some (s\<lparr>cn_world := w, cn_rows := f (bk_now bk w) uuid (cn_rows s)\<rparr>, Inr uuid))"

section \<open>Accounts\<close>

record account_summary =
  as_id :: string
  as_authConfigId :: string
  as_status :: string
  as_statusReason :: "string option"
  as_isDisabled :: bool
  as_createdAt :: string
  as_updatedAt :: int
  as_isPreferred :: bool

definition ensureClient :: "conn_env \<Rightarrow> ('w, unit) conn" where
  "ensureClient env = (if ce_enabled env then pret () else pthrow ''composio_not_configured'')"

definition listAccountsForUser ::
    "conn_env \<Rightarrow> 'w broker \<Rightarrow> string \<Rightarrow> toolkit option \<Rightarrow> ('w, broker_account list) conn" where
  "listAccountsForUser env bk userId t =
     pbind (ensureClient env) (\<lambda>_.
     pbind (ask ''failed_to_list_connected_accounts'' (bk_list bk userId
       (case t of None \<Rightarrow> SUPPORTED_INTEGRATION_TOOLKITS | Some x \<Rightarrow> [x]))) (\<lambda>items.
     pret (filter (\<lambda>a. toolkit_of_slug (br_toolkit a) \<noteq> None) items)))"

definition summarizeAccount :: "string option \<Rightarrow> broker_account \<Rightarrow> account_summary" where
  "summarizeAccount preferred a =
     \<lparr>as_id = br_id a, as_authConfigId = default_to (br_authConfigId a) [], as_status = br_status a,
      as_statusReason = br_statusReason a, as_isDisabled = pickConnectedAccountDisabled a,
      as_createdAt = br_createdAt a, as_updatedAt = br_updatedAt a, as_isPreferred = (preferred = Some (br_id a))\<rparr>"

text \<open>
  The comparator orders by preference, then activity, then age; sorting is stable, so it is the same to
  sort by the least important key first.
\<close>

definition sortAccounts :: "account_summary list \<Rightarrow> account_summary list" where
  "sortAccounts as =
     sort_key (\<lambda>a. if as_isPreferred a then 0 else 1 :: nat)
       (sort_key (\<lambda>a. if as_status a = ''ACTIVE'' then 0 else 1 :: nat) (sort_key (\<lambda>a. - as_updatedAt a) as))"

definition summarizeToolkitAccounts ::
    "broker_account list \<Rightarrow> toolkit \<Rightarrow> string option \<Rightarrow> account_summary list" where
  "summarizeToolkitAccounts accounts t preferred =
     sortAccounts (map (summarizeAccount preferred) (filter (\<lambda>a. br_toolkit a = slug t) accounts))"

section \<open>The service\<close>

record integration_summary =
  sm_toolkit :: toolkit
  sm_label :: string
  sm_connected :: bool
  sm_preferred :: "string option"
  sm_accounts :: "account_summary list"

definition listIntegrations :: "conn_env \<Rightarrow> 'w broker \<Rightarrow> string \<Rightarrow> ('w, integration_summary list) conn" where
  "listIntegrations env bk userId =
     pbind (pget (\<lambda>s. listPreferenceRows userId (cn_rows s))) (\<lambda>preferred.
     pbind (if ce_enabled env then listAccountsForUser env bk userId None else pret []) (\<lambda>accounts.
     pret (map (\<lambda>t.
       let p = getPreferredAccountMap preferred t; as = summarizeToolkitAccounts accounts t p
       in \<lparr>sm_toolkit = t, sm_label = getIntegrationLabel t,
           sm_connected = list_ex (\<lambda>a. as_status a = ''ACTIVE'' \<and> \<not> as_isDisabled a) as,
           sm_preferred = p, sm_accounts = as\<rparr>) SUPPORTED_INTEGRATION_TOOLKITS)))"

definition getAgentTools :: "conn_env \<Rightarrow> 'w broker \<Rightarrow> string \<Rightarrow> ('w, string list option) conn" where
  "getAgentTools env bk userId =
     (if \<not> ce_enabled env then pret None
      else pbind (pget (\<lambda>s. listPreferenceRows userId (cn_rows s))) (\<lambda>preferred.
        pbind (ask ''failed_to_create_composio_session'' (bk_session bk userId
          (buildComposioSessionConfig (getAuthConfigOverrides env) (preferred_entries preferred)))) (\<lambda>session.
        pbind (ask ''failed_to_fetch_composio_tools'' (bk_tools bk session)) (\<lambda>tools. pret (Some tools)))))"

record connect_result =
  cr_toolkit :: toolkit
  cr_label :: string
  cr_redirectUrl :: string
  cr_callbackUrl :: string
  cr_userMessages :: "string list"

text \<open>The link to a request, by its identifier.\<close>

definition link_result :: "conn_env \<Rightarrow> toolkit \<Rightarrow> string \<Rightarrow> string \<Rightarrow> connect_result" where
  "link_result env t callbackUrl i =
     (let url = buildConnectLinkUrl (ce_apiUrl env) i
      in \<lparr>cr_toolkit = t, cr_label = getIntegrationLabel t, cr_redirectUrl = url, cr_callbackUrl = callbackUrl,
          cr_userMessages = buildConnectIntegrationUserMessages (getIntegrationLabel t) url\<rparr>)"

definition request_link :: "conn_env \<Rightarrow> 'w broker \<Rightarrow> string \<Rightarrow> toolkit \<Rightarrow> string \<Rightarrow> ('w, connect_result) conn" where
  "request_link env bk userId t callbackUrl =
     pbind (ask ''failed_to_create_composio_session'' (bk_session bk userId
       (buildComposioSessionConfig (getAuthConfigOverrides env) []))) (\<lambda>session.
     pbind (ask ''failed_to_authorize_integration'' (bk_authorize bk session t callbackUrl)) (\<lambda>url.
       case truthy_str url of
         None \<Rightarrow> pthrow ''missing_authorization_redirect_url''
       | Some redirect \<Rightarrow>
           pbind (pget (\<lambda>s. bk_now bk (cn_world s) + CONNECT_INTEGRATION_LINK_TTL_MS)) (\<lambda>expires.
           pbind (on_rows bk (\<lambda>now uuid. upsertPendingAuthRequest now uuid userId t
                    \<lparr>pm_redirectUrl = redirect, pm_callbackUrl = callbackUrl, pm_expiresAt = expires\<rparr>)) (\<lambda>i.
             pret (link_result env t callbackUrl i)))))"

definition connectIntegration :: "conn_env \<Rightarrow> 'w broker \<Rightarrow> string \<Rightarrow> toolkit \<Rightarrow> ('w, connect_result) conn" where
  "connectIntegration env bk userId t =
     (let callbackUrl = buildComposioCallbackUrl (ce_appUrl env) t in
      pbind (ensureClient env) (\<lambda>_.
      pbind (pmodify (\<lambda>s. s\<lparr>cn_rows := purgeExpiredAuthRequests (bk_now bk (cn_world s)) (cn_rows s)\<rparr>)) (\<lambda>_.
      pbind (listAccountsForUser env bk userId (Some t)) (\<lambda>accounts.
        if list_ex (\<lambda>a. br_status a = ''ACTIVE'' \<and> br_isDisabled a \<noteq> Some True) accounts
        then pbind (pmodify (\<lambda>s. s\<lparr>cn_rows := clearPendingAuthRequest userId t (cn_rows s)\<rparr>)) (\<lambda>_.
          pret \<lparr>cr_toolkit = t, cr_label = getIntegrationLabel t, cr_redirectUrl = callbackUrl,
                cr_callbackUrl = callbackUrl,
                cr_userMessages = [getIntegrationSuccessMessage (ce_emdash env) t]\<rparr>)
        else pbind (pget (\<lambda>s. (getPendingAuthRequest userId t (cn_rows s), bk_now bk (cn_world s))))
          (\<lambda>(existing, now). case existing of
             Some r \<Rightarrow>
               if isPendingAuthReusable r now
               then pret (link_result env t (case lk_metadata r of None \<Rightarrow> callbackUrl | Some m \<Rightarrow> pm_callbackUrl m) (lk_id r))
               else request_link env bk userId t callbackUrl
           | None \<Rightarrow> request_link env bk userId t callbackUrl)))))"

datatype disconnect_result =
    Disconnected toolkit string
  | NotConnected toolkit
  | AccountNotFound toolkit "string option" "account_summary list"
  | MultipleAccounts toolkit "string option" "account_summary list"

text \<open>The account to remove: the one that is named, else the preferred one, else the only one.\<close>

definition select_account :: "string option \<Rightarrow> string option \<Rightarrow> account_summary list \<Rightarrow> account_summary option" where
  "select_account named preferred as =
     or_else (Option.bind (truthy_str named) (\<lambda>i. find_first (\<lambda>a. as_id a = i) as))
       (or_else (Option.bind (truthy_str preferred) (\<lambda>i. find_first (\<lambda>a. as_id a = i) as))
         (if length as = 1 then Some (hd as) else None))"

definition disconnectIntegration ::
    "conn_env \<Rightarrow> 'w broker \<Rightarrow> string \<Rightarrow> toolkit \<Rightarrow> string option \<Rightarrow> ('w, disconnect_result) conn" where
  "disconnectIntegration env bk userId t named =
     pbind (ensureClient env) (\<lambda>_.
     pbind (pget (\<lambda>s. getPreferredAccountMap (listPreferenceRows userId (cn_rows s)) t)) (\<lambda>preferred.
     pbind (listAccountsForUser env bk userId (Some t)) (\<lambda>accounts.
       let as = summarizeToolkitAccounts accounts t preferred in
       if as = [] then pret (NotConnected t)
       else (case select_account named preferred as of
           None \<Rightarrow> pret (if truthy_str named \<noteq> None then AccountNotFound t preferred as
                          else MultipleAccounts t preferred as)
         | Some a \<Rightarrow>
             pbind (ask ''failed_to_disconnect_integration'' (bk_delete bk (as_id a))) (\<lambda>_.
             pbind (on_rows bk (\<lambda>now _. clear_preferred now (\<lambda>r. lk_external r = Some (as_id a)))) (\<lambda>_.
               pret (Disconnected t (as_id a))))))))"

definition setPreferredIntegrationAccount ::
    "conn_env \<Rightarrow> 'w broker \<Rightarrow> string \<Rightarrow> toolkit \<Rightarrow> string \<Rightarrow> ('w, toolkit \<times> string) conn" where
  "setPreferredIntegrationAccount env bk userId t account =
     pbind (listAccountsForUser env bk userId (Some t)) (\<lambda>accounts.
       if \<not> list_ex (\<lambda>a. br_toolkit a = slug t \<and> br_id a = account) accounts
       then pthrow ''connected_account_not_found''
       else pbind (on_rows bk (\<lambda>now _. prefer_clear now userId t)) (\<lambda>_.
         pbind (on_rows bk (\<lambda>now uuid. prefer_upsert now uuid userId t account)) (\<lambda>_. pret (t, account))))"

definition clearPreferredAccountByConnectedAccountId ::
    "'w broker \<Rightarrow> string \<Rightarrow> ('w, (string \<times> toolkit) list) conn" where
  "clearPreferredAccountByConnectedAccountId bk account =
     pbind (pget (\<lambda>s. filter (\<lambda>r. lk_external r = Some account \<and> lk_isPreferred r) (cn_rows s))) (\<lambda>hit.
     pbind (on_rows bk (\<lambda>now _. clear_preferred now (\<lambda>r. lk_external r = Some account))) (\<lambda>_.
       pret (map (\<lambda>r. (lk_userId r, lk_provider r)) hit)))"

definition clearPendingIntegrationRequest :: "string \<Rightarrow> toolkit \<Rightarrow> ('w, unit) conn" where
  "clearPendingIntegrationRequest userId t =
     pmodify (\<lambda>s. s\<lparr>cn_rows := clearPendingAuthRequest userId t (cn_rows s)\<rparr>)"

record connected_account =
  ca_id :: string
  ca_userId :: string
  ca_toolkit :: toolkit
  ca_status :: string
  ca_isDisabled :: bool

definition getConnectedAccountById ::
    "conn_env \<Rightarrow> 'w broker \<Rightarrow> string \<Rightarrow> ('w, connected_account option) conn" where
  "getConnectedAccountById env bk account =
     pbind (ensureClient env) (\<lambda>_.
     pbind (ask ''failed_to_get_connected_account'' (bk_get bk account)) (\<lambda>a.
       pret (case (toolkit_of_slug (br_toolkit a), truthy_str (pickConnectedAccountUserId a)) of
           (Some t, Some u) \<Rightarrow> Some \<lparr>ca_id = br_id a, ca_userId = u, ca_toolkit = t, ca_status = br_status a,
             ca_isDisabled = pickConnectedAccountDisabled a\<rparr>
         | _ \<Rightarrow> None)))"

definition resolveConnectLink :: "int \<Rightarrow> string \<Rightarrow> link_row list \<Rightarrow> string option" where
  "resolveConnectLink now i rows =
     (case find_first (\<lambda>r. lk_id r = i \<and> lk_status r = LPending) rows of
        None \<Rightarrow> None
      | Some r \<Rightarrow> if isPendingAuthReusable r now then map_option pm_redirectUrl (lk_metadata r) else None)"

definition verifyWebhook ::
    "conn_env \<Rightarrow> (string \<Rightarrow> string \<Rightarrow> string \<Rightarrow> string \<Rightarrow> string \<Rightarrow> 'v option) \<Rightarrow> string \<Rightarrow>
     string option \<Rightarrow> string option \<Rightarrow> string option \<Rightarrow> string + 'v" where
  "verifyWebhook env verify payload signature webhookId timestamp =
     (if \<not> ce_enabled env then Inl ''composio_not_configured''
      else if ce_webhookSecret env = [] then Inl ''missing_webhook_secret''
      else (case (truthy_str signature, truthy_str webhookId, truthy_str timestamp) of
          (Some sig, Some i, Some ts) \<Rightarrow>
            (case verify payload i sig ts (ce_webhookSecret env) of
               None \<Rightarrow> Inl ''webhook_verification_failed'' | Some v \<Rightarrow> Inr v)
        | _ \<Rightarrow> Inl ''missing_webhook_headers''))"

end
