(* ===== verification/IntegrationsProps.thy ===== *)
theory IntegrationsProps
  imports Integrations
begin

text \<open>
  What every request to the connectors service keeps of its table, the life of a connection link, and which
  account a disconnection removes.
\<close>

section \<open>The table\<close>

text \<open>
  An account has one row of a user and toolkit, and at most one row of a user and toolkit is the preferred
  one; a user has at most one pending request for a toolkit.
\<close>

definition link_inv :: "link_row list \<Rightarrow> bool" where
  "link_inv rows \<longleftrightarrow>
     (\<forall>u t a. length (filter (same_account u t a) rows) \<le> 1) \<and>
     (\<forall>u t. length (filter (\<lambda>r. lk_userId r = u \<and> lk_provider r = t \<and> lk_isPreferred r) rows) \<le> 1) \<and>
     (\<forall>u t. length (filter (pending_of u t) rows) \<le> 1)"

lemma filter_le_filter: "length (filter P (filter Q xs)) \<le> length (filter P xs)"
  by (induction xs) auto

lemma link_inv_filter: "link_inv rows \<Longrightarrow> link_inv (filter Q rows)"
  unfolding link_inv_def using filter_le_filter order_trans by blast

text \<open>Rows that are changed without gaining what is counted.\<close>

lemma length_filter_map_mono:
  assumes "\<And>r. r \<in> set xs \<Longrightarrow> Q (f r) \<Longrightarrow> P r"
  shows "length (filter Q (map f xs)) \<le> length (filter P xs)"
  using assms by (induction xs) auto

lemma link_invD:
  assumes "link_inv rows"
  shows "length (filter (same_account u t a) rows) \<le> 1"
    "length (filter (\<lambda>r. lk_userId r = u \<and> lk_provider r = t \<and> lk_isPreferred r) rows) \<le> 1"
    "length (filter (pending_of u t) rows) \<le> 1"
  using assms unfolding link_inv_def by blast+

lemma link_invI:
  assumes "link_inv rows" "\<And>u t a. length (filter (same_account u t a) rs) \<le> length (filter (same_account u t a) rows)"
    "\<And>u t. length (filter (\<lambda>r. lk_userId r = u \<and> lk_provider r = t \<and> lk_isPreferred r) rs) \<le> 1"
    "\<And>u t. length (filter (pending_of u t) rs) \<le> length (filter (pending_of u t) rows)"
  shows "link_inv rs"
  unfolding link_inv_def
  by (intro conjI allI assms(3) order_trans [OF assms(2) link_invD(1) [OF assms(1)]]
      order_trans [OF assms(4) link_invD(3) [OF assms(1)]])

lemma clear_preferred_inv:
  assumes "link_inv rows"
  shows "link_inv (clear_preferred now P rows)"
proof -
  let ?f = "\<lambda>r. if P r \<and> lk_isPreferred r then r\<lparr>lk_isPreferred := False, lk_updatedAt := now\<rparr> else r"
  have "length (filter (same_account u t a) (map ?f rows)) \<le> length (filter (same_account u t a) rows)" for u t a
    by (rule length_filter_map_mono) (auto simp: same_account_def split: if_splits)
  moreover have "length (filter (\<lambda>r. lk_userId r = u \<and> lk_provider r = t \<and> lk_isPreferred r) (map ?f rows)) \<le> 1" for u t
  proof -
    have "length (filter (\<lambda>r. lk_userId r = u \<and> lk_provider r = t \<and> lk_isPreferred r) (map ?f rows)) \<le>
        length (filter (\<lambda>r. lk_userId r = u \<and> lk_provider r = t \<and> lk_isPreferred r) rows)"
      by (rule length_filter_map_mono) (auto split: if_splits)
    then show ?thesis using link_invD(2) [OF assms] by (rule order_trans)
  qed
  moreover have "length (filter (pending_of u t) (map ?f rows)) \<le> length (filter (pending_of u t) rows)" for u t
    by (rule length_filter_map_mono) (auto simp: pending_of_def split: if_splits)
  ultimately show ?thesis unfolding clear_preferred_def by (rule link_invI [OF assms])
qed

lemma prefer_inv:
  assumes "link_inv rows"
  shows "link_inv (prefer_upsert n2 uuid u t a (prefer_clear n1 u t rows))"
proof -
  let ?rs = "prefer_clear n1 u t rows"
  have inv: "link_inv ?rs" unfolding prefer_clear_def using assms by (rule clear_preferred_inv)
  have none: "\<forall>r \<in> set ?rs. lk_userId r = u \<and> lk_provider r = t \<longrightarrow> \<not> lk_isPreferred r"
    unfolding prefer_clear_def clear_preferred_def by (simp add: ball_Un split: if_split)
  let ?pref = "\<lambda>u t r. lk_userId r = u \<and> lk_provider r = t \<and> lk_isPreferred r"
  show ?thesis
  proof (cases "list_ex (same_account u t a) ?rs")
    case True
    let ?f = "\<lambda>r. if same_account u t a r
        then r\<lparr>lk_isPreferred := True, lk_status := LActive, lk_updatedAt := n2\<rparr> else r"
    have "length (filter (same_account u' t' a') (map ?f ?rs)) \<le> length (filter (same_account u' t' a') ?rs)" for u' t' a'
      by (rule length_filter_map_mono) (auto simp: same_account_def split: if_splits)
    moreover have "length (filter (pending_of u' t') (map ?f ?rs)) \<le> length (filter (pending_of u' t') ?rs)" for u' t'
      by (rule length_filter_map_mono) (auto simp: pending_of_def split: if_splits)
    moreover have "length (filter (?pref u' t') (map ?f ?rs)) \<le> 1" for u' t'
    proof (cases "u' = u \<and> t' = t")
      case True
      have "length (filter (?pref u' t') (map ?f ?rs)) \<le> length (filter (same_account u t a) ?rs)"
        by (rule length_filter_map_mono) (use True none in \<open>auto split: if_splits\<close>)
      then show ?thesis using link_invD(1) [OF inv] by (rule order_trans)
    next
      case False
      have "length (filter (?pref u' t') (map ?f ?rs)) \<le> length (filter (?pref u' t') ?rs)"
        by (rule length_filter_map_mono) (use False in \<open>auto simp: same_account_def split: if_splits\<close>)
      then show ?thesis using link_invD(2) [OF inv] by (rule order_trans)
    qed
    ultimately show ?thesis unfolding prefer_upsert_def if_P [OF True] by (intro link_invI [OF inv])
  next
    case False
    have "filter (same_account u t a) ?rs = []" using False by (simp add: list_ex_iff filter_empty_conv)
    moreover have "filter (?pref u t) ?rs = []" using none by (simp add: filter_empty_conv)
    ultimately show ?thesis using inv False
      by (auto simp: link_inv_def prefer_upsert_def same_account_def pending_of_def)
  qed
qed

lemma pending_inv:
  assumes "link_inv rows"
  shows "link_inv (upsertPendingAuthRequest now uuid u t m rows)"
proof -
  let ?rs = "clearPendingAuthRequest u t rows"
  have "link_inv ?rs" unfolding clearPendingAuthRequest_def using assms by (rule link_inv_filter)
  moreover have "filter (pending_of u t) ?rs = []"
    by (simp add: clearPendingAuthRequest_def filter_empty_conv)
  ultimately show ?thesis
    by (auto simp: link_inv_def upsertPendingAuthRequest_def same_account_def pending_of_def)
qed

section \<open>Programs\<close>

abbreviation keeps_links :: "('w, 'a) conn \<Rightarrow> bool" where
  "keeps_links m \<equiv> keeps (\<lambda>s. link_inv (cn_rows s)) m"

lemma keeps_ask: "keeps_links (ask m f)"
  by (auto simp: keeps_def ask_def split: prod.splits sum.splits)

lemma keeps_on_rows: "(\<And>now i rows. link_inv rows \<Longrightarrow> link_inv (f now i rows)) \<Longrightarrow> keeps_links (on_rows bk f)"
  by (auto simp: keeps_def on_rows_def split: prod.splits)

lemma keeps_rows_modify:
  "(\<And>s. link_inv (cn_rows s) \<Longrightarrow> link_inv (cn_rows (f s))) \<Longrightarrow> keeps_links (pmodify f)"
  by (auto simp: keeps_def pmodify_def)

lemma keeps_list: "keeps_links (listAccountsForUser env bk u t)"
  unfolding listAccountsForUser_def ensureClient_def by (intro keeps_rules keeps_ask)

lemma keeps_clear: "keeps_links (pmodify (\<lambda>s. s\<lparr>cn_rows := clearPendingAuthRequest u t (cn_rows s)\<rparr>))"
  by (rule keeps_rows_modify) (simp add: clearPendingAuthRequest_def link_inv_filter)

lemma keeps_request: "keeps_links (request_link env bk u t c)"
  unfolding request_link_def
  by (intro keeps_rules keeps_ask keeps_on_rows pending_inv)

lemma keeps_connect: "keeps_links (connectIntegration env bk u t)"
proof -
  have "keeps_links (pmodify (\<lambda>s. s\<lparr>cn_rows := purgeExpiredAuthRequests (bk_now bk (cn_world s)) (cn_rows s)\<rparr>))"
    by (rule keeps_rows_modify) (simp add: purgeExpiredAuthRequests_def link_inv_filter)
  then show ?thesis unfolding connectIntegration_def Let_def ensureClient_def
    by (intro keeps_rules keeps_list keeps_clear) (auto intro!: keeps_rules keeps_request split: option.splits)
qed

lemma keeps_disconnect: "keeps_links (disconnectIntegration env bk u t named)"
  unfolding disconnectIntegration_def ensureClient_def Let_def
  by (intro keeps_rules keeps_list keeps_ask keeps_on_rows clear_preferred_inv)

lemma on_rows_Some:
  "on_rows bk f s = Some (s', r) \<longleftrightarrow>
     (\<exists>w i. bk_uuid bk (cn_world s) = (w, i) \<and>
       s' = s\<lparr>cn_world := w, cn_rows := f (bk_now bk w) i (cn_rows s)\<rparr> \<and> r = Inr i)"
  by (auto simp: on_rows_def split: prod.splits)

lemma keeps_prefer:
  "keeps_links (pbind (on_rows bk (\<lambda>now _. prefer_clear now u t)) (\<lambda>_.
     pbind (on_rows bk (\<lambda>now uuid. prefer_upsert now uuid u t a)) (\<lambda>_. pret x)))"
  unfolding keeps_def
proof (intro allI impI)
  fix s s' r
  assume inv: "link_inv (cn_rows s)"
    and run: "pbind (on_rows bk (\<lambda>now _. prefer_clear now u t)) (\<lambda>_.
      pbind (on_rows bk (\<lambda>now uuid. prefer_upsert now uuid u t a)) (\<lambda>_. pret x)) s = Some (s', r)"
  show "link_inv (cn_rows s')"
    using run
  proof (cases rule: pbindE)
    case (error e)
    then show ?thesis by (simp add: on_rows_Some)
  next
    case (ok s1 y)
    from ok(1) obtain n1 where s1: "cn_rows s1 = prefer_clear n1 u t (cn_rows s)" by (auto simp: on_rows_Some)
    from ok(2) show ?thesis
    proof (cases rule: pbindE)
      case (error e)
      then show ?thesis by (simp add: on_rows_Some)
    next
      case (ok s2 z)
      with s1 prefer_inv [OF inv] show ?thesis by (auto simp: on_rows_Some pbasic_Some)
    qed
  qed
qed

lemma keeps_set_preferred: "keeps_links (setPreferredIntegrationAccount env bk u t a)"
  unfolding setPreferredIntegrationAccount_def by (intro keeps_rules keeps_list keeps_prefer)

lemma keeps_webhook: "keeps_links (clearPreferredAccountByConnectedAccountId bk a)"
  unfolding clearPreferredAccountByConnectedAccountId_def
  by (intro keeps_rules keeps_on_rows clear_preferred_inv)

section \<open>Requests\<close>

datatype conn_request =
    CnTools string | CnList string | CnConnect string toolkit | CnDisconnect string toolkit "string option"
  | CnPrefer string toolkit string | CnExpired string | CnClear string toolkit | CnAccount string

fun conn_serve :: "conn_env \<Rightarrow> 'w broker \<Rightarrow> conn_request \<Rightarrow> 'w conn_state \<Rightarrow> 'w conn_state option" where
  "conn_serve env bk (CnTools u) = state_after (getAgentTools env bk u)"
| "conn_serve env bk (CnList u) = state_after (listIntegrations env bk u)"
| "conn_serve env bk (CnConnect u t) = state_after (connectIntegration env bk u t)"
| "conn_serve env bk (CnDisconnect u t a) = state_after (disconnectIntegration env bk u t a)"
| "conn_serve env bk (CnPrefer u t a) = state_after (setPreferredIntegrationAccount env bk u t a)"
| "conn_serve env bk (CnExpired a) = state_after (clearPreferredAccountByConnectedAccountId bk a)"
| "conn_serve env bk (CnClear u t) = state_after (clearPendingIntegrationRequest u t)"
| "conn_serve env bk (CnAccount a) = state_after (getConnectedAccountById env bk a)"

fun conn_serve_all :: "conn_env \<Rightarrow> 'w broker \<Rightarrow> conn_request list \<Rightarrow> 'w conn_state \<Rightarrow> 'w conn_state option" where
  "conn_serve_all env bk [] s = Some s"
| "conn_serve_all env bk (q # qs) s = Option.bind (conn_serve env bk q s) (conn_serve_all env bk qs)"

lemma keeps_reading:
  "keeps_links (getAgentTools env bk u)" "keeps_links (listIntegrations env bk u)"
  "keeps_links (getConnectedAccountById env bk a)" "keeps_links (clearPendingIntegrationRequest u t)"
  unfolding getAgentTools_def listIntegrations_def getConnectedAccountById_def ensureClient_def
    clearPendingIntegrationRequest_def
  by (intro keeps_rules keeps_list keeps_ask keeps_clear)+

lemma conn_serve_inv:
  assumes "conn_serve env bk q s = Some s'" "link_inv (cn_rows s)"
  shows "link_inv (cn_rows s')"
  using assms
  by (cases q) (auto intro: state_after_inv [OF keeps_reading(1)] state_after_inv [OF keeps_reading(2)]
      state_after_inv [OF keeps_reading(3)] state_after_inv [OF keeps_reading(4)] state_after_inv [OF keeps_connect]
      state_after_inv [OF keeps_disconnect] state_after_inv [OF keeps_set_preferred] state_after_inv [OF keeps_webhook])

lemma conn_serve_all_inv:
  "conn_serve_all env bk qs s = Some s' \<Longrightarrow> link_inv (cn_rows s) \<Longrightarrow> link_inv (cn_rows s')"
proof (induction qs arbitrary: s)
  case (Cons q qs)
  then obtain s1 where "conn_serve env bk q s = Some s1" "conn_serve_all env bk qs s1 = Some s'"
    by (auto simp: bind_eq_Some_conv)
  with Cons show ?case using conn_serve_inv by blast
qed simp

section \<open>Connection links\<close>

lemma ask_Some: "ask m f s = Some (s', r) \<Longrightarrow> cn_rows s' = cn_rows s"
  by (auto simp: ask_def split: prod.splits sum.splits)

lemma list_rows: "listAccountsForUser env bk u t s = Some (s', r) \<Longrightarrow> cn_rows s' = cn_rows s"
  unfolding listAccountsForUser_def ensureClient_def
  by (elim pbindE) (auto simp: pbasic_Some split: if_splits dest: ask_Some)

lemma resolve_row:
  assumes "distinct (map lk_id rows)" "r \<in> set rows" "lk_status r = LPending" "lk_metadata r = Some m"
  shows "resolveConnectLink now (lk_id r) rows = (if now < pm_expiresAt m then Some (pm_redirectUrl m) else None)"
proof -
  have "find_first (\<lambda>q. lk_id q = lk_id r \<and> lk_status q = LPending) rows = Some r"
    using assms(1-3) by (induction rows) (auto simp: image_iff)
  then show ?thesis using assms(4) by (simp add: resolveConnectLink_def isPendingAuthReusable_def)
qed

text \<open>A pending row, its link and the answers to it.\<close>

definition link_works :: "conn_env \<Rightarrow> string \<Rightarrow> toolkit \<Rightarrow> connect_result \<Rightarrow> link_row list \<Rightarrow> bool" where
  "link_works env u t res rows \<longleftrightarrow> (\<exists>r m. r \<in> set rows \<and> pending_of u t r \<and> lk_metadata r = Some m \<and>
     cr_redirectUrl res = buildConnectLinkUrl (ce_apiUrl env) (lk_id r) \<and>
     (\<forall>now. resolveConnectLink now (lk_id r) rows =
        (if now < pm_expiresAt m then Some (pm_redirectUrl m) else None)))"

lemma link_worksI:
  assumes "distinct (map lk_id rows)" "r \<in> set rows" "pending_of u t r" "lk_metadata r = Some m"
    "cr_redirectUrl res = buildConnectLinkUrl (ce_apiUrl env) (lk_id r)"
  shows "link_works env u t res rows"
  using assms resolve_row [OF assms(1,2) _ assms(4)] unfolding link_works_def pending_of_def by blast

lemma link_result_url [simp]: "cr_redirectUrl (link_result env t c i) = buildConnectLinkUrl (ce_apiUrl env) i"
  by (simp add: link_result_def Let_def)

lemma request_link_works:
  assumes run: "request_link env bk u t c s = Some (s', Inr res)"
    and ids: "distinct (map lk_id (cn_rows s))" "\<forall>w. snd (bk_uuid bk w) \<notin> lk_id ` set (cn_rows s)"
  shows "link_works env u t res (cn_rows s')"
proof -
  obtain s1 session where 1: "ask ''failed_to_create_composio_session'' (bk_session bk u
      (buildComposioSessionConfig (getAuthConfigOverrides env) [])) s = Some (s1, Inr session)"
    and r1: "pbind (ask ''failed_to_authorize_integration'' (bk_authorize bk session t c)) (\<lambda>url.
       case truthy_str url of
         None \<Rightarrow> pthrow ''missing_authorization_redirect_url''
       | Some redirect \<Rightarrow>
           pbind (pget (\<lambda>s. bk_now bk (cn_world s) + CONNECT_INTEGRATION_LINK_TTL_MS)) (\<lambda>expires.
           pbind (on_rows bk (\<lambda>now uuid. upsertPendingAuthRequest now uuid u t
                    \<lparr>pm_redirectUrl = redirect, pm_callbackUrl = c, pm_expiresAt = expires\<rparr>)) (\<lambda>i.
             pret (link_result env t c i)))) s1 = Some (s', Inr res)"
    using run unfolding request_link_def by (rule pbind_okE)
  obtain s2 url where 2: "ask ''failed_to_authorize_integration'' (bk_authorize bk session t c) s1 = Some (s2, Inr url)"
    and r2: "(case truthy_str url of
         None \<Rightarrow> pthrow ''missing_authorization_redirect_url''
       | Some redirect \<Rightarrow>
           pbind (pget (\<lambda>s. bk_now bk (cn_world s) + CONNECT_INTEGRATION_LINK_TTL_MS)) (\<lambda>expires.
           pbind (on_rows bk (\<lambda>now uuid. upsertPendingAuthRequest now uuid u t
                    \<lparr>pm_redirectUrl = redirect, pm_callbackUrl = c, pm_expiresAt = expires\<rparr>)) (\<lambda>i.
             pret (link_result env t c i)))) s2 = Some (s', Inr res)"
    using r1 by (rule pbind_okE)
  have rows: "cn_rows s2 = cn_rows s" using ask_Some [OF 1] ask_Some [OF 2] by simp
  obtain redirect where "truthy_str url = Some redirect"
    using r2 by (cases "truthy_str url") (auto simp: pbasic_Some)
  with r2 obtain m w i now where w: "bk_uuid bk (cn_world s2) = (w, i)"
    and s': "cn_rows s' = upsertPendingAuthRequest now i u t m (cn_rows s2)" and res: "res = link_result env t c i"
    by (auto elim!: pbind_okE simp: pget_def on_rows_Some pbasic_Some)
  have "i \<notin> lk_id ` set (cn_rows s)" using ids(2) w by (metis snd_conv)
  then have "distinct (map lk_id (cn_rows s'))"
    using ids(1) unfolding s' rows
    by (auto simp: upsertPendingAuthRequest_def clearPendingAuthRequest_def distinct_map_filter)
  then show ?thesis
    by (rule link_worksI) (auto simp: s' res upsertPendingAuthRequest_def pending_of_def)
qed

lemma connect_link:
  assumes run: "connectIntegration env bk u t s = Some (s', Inr res)"
    and ids: "distinct (map lk_id (cn_rows s))" "\<forall>w. snd (bk_uuid bk w) \<notin> lk_id ` set (cn_rows s)"
  shows "cr_redirectUrl res = buildComposioCallbackUrl (ce_appUrl env) t \<or> link_works env u t res (cn_rows s')"
proof -
  let ?c = "buildComposioCallbackUrl (ce_appUrl env) t"
  let ?rest = "\<lambda>accounts. if list_ex (\<lambda>a. br_status a = ''ACTIVE'' \<and> br_isDisabled a \<noteq> Some True) accounts
        then pbind (pmodify (\<lambda>s. s\<lparr>cn_rows := clearPendingAuthRequest u t (cn_rows s)\<rparr>)) (\<lambda>_.
          pret \<lparr>cr_toolkit = t, cr_label = getIntegrationLabel t, cr_redirectUrl = ?c,
                cr_callbackUrl = ?c, cr_userMessages = [getIntegrationSuccessMessage (ce_emdash env) t]\<rparr>)
        else pbind (pget (\<lambda>s. (getPendingAuthRequest u t (cn_rows s), bk_now bk (cn_world s))))
          (\<lambda>(existing, now). case existing of
             Some r \<Rightarrow>
               if isPendingAuthReusable r now
               then pret (link_result env t (case lk_metadata r of None \<Rightarrow> ?c | Some m \<Rightarrow> pm_callbackUrl m) (lk_id r))
               else request_link env bk u t ?c
           | None \<Rightarrow> request_link env bk u t ?c)"
  let ?s1 = "s\<lparr>cn_rows := purgeExpiredAuthRequests (bk_now bk (cn_world s)) (cn_rows s)\<rparr>"
  have "pbind (listAccountsForUser env bk u (Some t)) ?rest ?s1 = Some (s', Inr res)"
  proof (cases "ce_enabled env")
    case True
    have e: "ensureClient env s = Some (s, Inr ())" by (simp add: ensureClient_def True pret_def)
    from run show ?thesis unfolding connectIntegration_def Let_def pbind_run [where m = "ensureClient env", OF e] pbind_modify .
  next
    case False
    then have e: "ensureClient env s = Some (s, Inl ''composio_not_configured'')"
      by (simp add: ensureClient_def pthrow_def)
    from run show ?thesis unfolding connectIntegration_def Let_def pbind_fail [where m = "ensureClient env", OF e] by simp
  qed
  then obtain s2 accounts where 2: "listAccountsForUser env bk u (Some t) ?s1 = Some (s2, Inr accounts)"
    and r2: "?rest accounts s2 = Some (s', Inr res)" by (rule pbind_okE)
  have rows: "cn_rows s2 = purgeExpiredAuthRequests (bk_now bk (cn_world s)) (cn_rows s)" using list_rows [OF 2] by simp
  have ids2: "distinct (map lk_id (cn_rows s2))" "\<forall>w. snd (bk_uuid bk w) \<notin> lk_id ` set (cn_rows s2)"
    using ids unfolding rows by (auto simp: purgeExpiredAuthRequests_def distinct_map_filter)
  show ?thesis
  proof (cases "list_ex (\<lambda>a. br_status a = ''ACTIVE'' \<and> br_isDisabled a \<noteq> Some True) accounts")
    case True
    from r2 [unfolded if_P [OF True]] show ?thesis by (auto elim!: pbind_okE simp: pbasic_Some)
  next
    case False
    from r2 [unfolded if_not_P [OF False]] obtain existing now where e:
      "(existing, now) = (getPendingAuthRequest u t (cn_rows s2), bk_now bk (cn_world s2))"
      "(case existing of
             Some r \<Rightarrow>
               if isPendingAuthReusable r now
               then pret (link_result env t (case lk_metadata r of None \<Rightarrow> ?c | Some m \<Rightarrow> pm_callbackUrl m) (lk_id r))
               else request_link env bk u t ?c
           | None \<Rightarrow> request_link env bk u t ?c) s2 = Some (s', Inr res)"
      by (auto elim!: pbind_okE simp: pget_def)
    show ?thesis
    proof (cases "\<exists>r. existing = Some r \<and> isPendingAuthReusable r now")
      case True
      then obtain r where r: "existing = Some r" "isPendingAuthReusable r now" by blast
      from e(1) r(1) have "find_first (pending_of u t) (cn_rows s2) = Some r"
        by (simp add: getPendingAuthRequest_def)
      from find_first_Some [OF this] have in_rows: "r \<in> set (cn_rows s2)" "pending_of u t r" by auto
      obtain m where m: "lk_metadata r = Some m" using r(2) by (auto simp: isPendingAuthReusable_def split: option.splits)
      from e(2) r have s': "s' = s2" "cr_redirectUrl res = buildConnectLinkUrl (ce_apiUrl env) (lk_id r)"
        by (auto simp: pbasic_Some)
      show ?thesis unfolding s'(1) by (intro disjI2 link_worksI [OF ids2(1) in_rows m s'(2)])
    next
      case False
      then have "request_link env bk u t ?c s2 = Some (s', Inr res)"
        using e(2) by (cases existing) (auto split: if_splits)
      from request_link_works [OF this ids2] show ?thesis ..
    qed
  qed
qed

section \<open>Disconnecting\<close>

text \<open>
  An account that is named but not there: the preferred account, or the only one, is removed in its place.
\<close>

lemma disconnect_removes_another:
  assumes enabled: "ce_enabled env" and pref: "getPreferredAccountMap (listPreferenceRows u (cn_rows s)) t = None"
    and list: "bk_list bk u [t] (cn_world s) = (w, Inr [a])" and a: "br_toolkit a = slug t" "br_id a \<noteq> named"
    and del: "bk_delete bk (br_id a) w = (w2, Inr ())"
  shows "\<exists>s'. disconnectIntegration env bk u t (Some named) s = Some (s', Inr (Disconnected t (br_id a)))"
proof -
  have t: "toolkit_of_slug (slug t) \<noteq> None"
    by (cases t) (simp_all add: toolkit_of_slug_def SUPPORTED_INTEGRATION_TOOLKITS_def)
  have as: "summarizeToolkitAccounts [a] t None = [summarizeAccount None a]"
    using a(1) by (simp add: summarizeToolkitAccounts_def sortAccounts_def)
  have sel: "select_account (Some named) None [summarizeAccount None a] = Some (summarizeAccount None a)"
    by (cases named) (auto simp: select_account_def)
  have "as_id (summarizeAccount None a) = br_id a" by (simp add: summarizeAccount_def)
  then show ?thesis
    using enabled pref list a(1) del t as sel
    by (simp add: disconnectIntegration_def pbind_def ptry_def ensureClient_def pget_def listAccountsForUser_def
        ask_def pret_def on_rows_def split: prod.split)
qed

section \<open>Properties\<close>

text \<open>
  C27. Whatever requests the connectors service serves, one after the other, from the empty table, and
  whatever the broker answers: a user has at most one preferred account and at most one pending request of
  a toolkit, and an account has at most one row.
\<close>

theorem connections_consistent:
  assumes "conn_serve_all env bk requests \<lparr>cn_rows = [], cn_world = w\<rparr> = Some s"
  shows "length (filter (\<lambda>r. lk_userId r = u \<and> lk_provider r = t \<and> lk_isPreferred r) (cn_rows s)) \<le> 1 \<and>
    length (filter (pending_of u t) (cn_rows s)) \<le> 1 \<and>
    length (filter (same_account u t a) (cn_rows s)) \<le> 1"
proof -
  have "link_inv (cn_rows s)"
    by (rule conn_serve_all_inv [OF assms]) (simp add: link_inv_def)
  then show ?thesis by (simp add: link_inv_def)
qed


section \<open>Witnesses\<close>

definition demo_conn_env :: conn_env where
  "demo_conn_env = \<lparr>ce_appUrl = ''https://app/'', ce_apiUrl = ''https://api'', ce_enabled = True,
     ce_webhookSecret = [], ce_authConfig = (\<lambda>_. []), ce_emdash = ''-''\<rparr>"

definition demo_box :: broker_account where
  "demo_box = \<lparr>br_id = ''acc'', br_userId = None, br_user_id = None, br_status = ''ACTIVE'', br_statusReason = None,
     br_isDisabled = None, br_is_disabled = None, br_createdAt = [], br_updatedAt = 0, br_authConfigId = None,
     br_toolkit = ''slack''\<rparr>"

text \<open>A broker that has one account, of Slack; the identifiers it leads to are counted.\<close>

definition demo_broker :: "nat broker" where
  "demo_broker =
     \<lparr>bk_list = (\<lambda>u ts w. (w, Inr (filter (\<lambda>a. br_toolkit a \<in> set (map slug ts)) [demo_box]))),
      bk_session = (\<lambda>u c w. (w, Inr ''s'')), bk_tools = (\<lambda>s w. (w, Inr [])),
      bk_authorize = (\<lambda>s t c w. (w, Inr (Some ''https://broker''))), bk_delete = (\<lambda>a w. (w, Inr ())),
      bk_get = (\<lambda>a w. (w, Inr demo_box)), bk_now = (\<lambda>w. int w), bk_uuid = (\<lambda>w. (w + 1, replicate (w + 1) CHR ''a''))\<rparr>"

definition demo_connect :: "(nat conn_state \<times> (string + connect_result)) option" where
  "demo_connect = connectIntegration demo_conn_env demo_broker ''u'' Gmail \<lparr>cn_rows = [], cn_world = 0\<rparr>"

lemma demo_connect_url:
  "case demo_connect of Some (s, Inr res) \<Rightarrow> cr_redirectUrl res = ''https://api/link/a'' | _ \<Rightarrow> False"
  by code_simp

theorem connections_consistent_witness:
  "\<exists>s. conn_serve_all demo_conn_env demo_broker
      [CnPrefer ''u'' Slack ''acc'', CnConnect ''u'' Gmail, CnPrefer ''u'' Slack ''acc'']
      \<lparr>cn_rows = [], cn_world = 0\<rparr> = Some s \<and> length (cn_rows s) = 2 \<and>
    length (filter (\<lambda>r. lk_userId r = ''u'' \<and> lk_provider r = Slack \<and> lk_isPreferred r) (cn_rows s)) \<le> 1"
proof -
  let ?run = "conn_serve_all demo_conn_env demo_broker
      [CnPrefer ''u'' Slack ''acc'', CnConnect ''u'' Gmail, CnPrefer ''u'' Slack ''acc'']
      \<lparr>cn_rows = [], cn_world = 0\<rparr>"
  have "map_option (\<lambda>s. length (cn_rows s)) ?run = Some 2" by code_simp
  then obtain s where s: "?run = Some s" "length (cn_rows s) = 2" by (cases ?run) auto
  from connections_consistent [OF s(1), of "''u''" Slack] s show ?thesis by blast
qed


end
