(* ===== verification/Telegram.thy ===== *)
theory Telegram
  imports Compute Identity Integrations ExecTypes SessionLogic
begin

text \<open>
  The Telegram channel: the classification of attachments (\<open>packages/attachments/src/classification.ts\<close>),
  what an update becomes, the commands and the splitting of long texts
  (\<open>packages/channels/src/telegram/utils.ts\<close>), and the sender of replies (\<open>sender.ts\<close>).
\<close>

section \<open>Attachments\<close>

text \<open>\<open>s.lastIndexOf(c, n)\<close>: the last place of an element up to an index.\<close>

definition last_index :: "'a \<Rightarrow> nat \<Rightarrow> 'a list \<Rightarrow> nat option" where
  "last_index c n s = last_opt (filter (\<lambda>i. s ! i = c) [0..<min (Suc n) (length s)])"

definition getFilenameExtension :: "string option \<Rightarrow> string option" where
  "getFilenameExtension filename =
     (case truthy_str filename of
        None \<Rightarrow> None
      | Some f \<Rightarrow>
          (let s = js_trim f
           in case last_index (CHR ''.'') (length s) s of
                None \<Rightarrow> None
              | Some i \<Rightarrow> if i = 0 \<or> i = length s - 1 then None else Some (to_lower (drop (Suc i) s))))"

definition inferMediaTypeFromFilename :: "string option \<Rightarrow> string option" where
  "inferMediaTypeFromFilename filename =
     Option.bind (getFilenameExtension filename) (map_of
       [(''png'', ''image/png''), (''jpg'', ''image/jpeg''), (''jpeg'', ''image/jpeg''), (''gif'', ''image/gif''),
        (''webp'', ''image/webp''), (''pdf'', ''application/pdf''), (''txt'', ''text/plain''),
        (''md'', ''text/markdown''), (''markdown'', ''text/markdown''), (''csv'', ''text/csv''),
        (''json'', ''application/json'')])"

definition media_of :: "string option \<Rightarrow> string" where
  "media_of mediaType = to_lower (js_trim (default_to mediaType []))"

definition defaultFilenameForAttachment :: "string \<Rightarrow> attachment_kind \<Rightarrow> string option \<Rightarrow> string" where
  "defaultFilenameForAttachment attachmentId kind mediaType =
     (let m = media_of mediaType;
          extension =
            (if m = ''application/pdf'' then ''pdf'' else if m = ''text/plain'' then ''txt''
             else if m = ''text/markdown'' then ''md'' else if m = ''text/csv'' then ''csv''
             else if m = ''application/json'' then ''json''
             else if starts_with m ''image/'' then str_or (drop 6 m) ''img''
             else if kind = KImage then ''jpg'' else if kind = KPdf then ''pdf'' else ''bin'')
      in attachmentId @ ''.'' @ extension)"

text \<open>Runs of other characters and of dashes become one dash; dashes and dots at the start go.\<close>

definition filename_char :: "char \<Rightarrow> bool" where
  "filename_char c =
     (is_letter c \<or> (let n = (of_char c :: nat) in 48 \<le> n \<and> n \<le> 57) \<or> c \<in> set ''._-'')"

fun dash_runs :: "bool \<Rightarrow> string \<Rightarrow> string" where
  "dash_runs after_dash [] = []"
| "dash_runs after_dash (c # s) =
     (if filename_char c \<and> c \<noteq> CHR ''-'' then c # dash_runs False s
      else if after_dash then dash_runs True s else CHR ''-'' # dash_runs True s)"

definition sanitizeFilename :: "string \<Rightarrow> string" where
  "sanitizeFilename filename =
     str_or (take 120 (dropWhile (\<lambda>c. c \<in> set ''-.'') (dash_runs False (js_trim filename)))) ''attachment.bin''"

definition ATTACHMENT_DIRECT_BINARY_LIMIT_BYTES :: int where
  "ATTACHMENT_DIRECT_BINARY_LIMIT_BYTES = 10 * 1024 * 1024"

definition ATTACHMENT_DIRECT_TEXT_LIMIT_BYTES :: int where
  "ATTACHMENT_DIRECT_TEXT_LIMIT_BYTES = 2 * 1024 * 1024"

definition TEXT_LIKE_MEDIA_TYPES :: "string list" where
  "TEXT_LIKE_MEDIA_TYPES = [''text/plain'', ''text/markdown'', ''text/csv'', ''application/json'']"

definition TEXT_LIKE_EXTENSIONS :: "string list" where
  "TEXT_LIKE_EXTENSIONS = [''txt'', ''md'', ''markdown'', ''csv'', ''json'']"

definition IMAGE_EXTENSIONS :: "string list" where
  "IMAGE_EXTENSIONS = [''png'', ''jpg'', ''jpeg'', ''gif'', ''webp'']"

definition DIRECT_MODEL_FILE_MEDIA_TYPES :: "string list" where "DIRECT_MODEL_FILE_MEDIA_TYPES = []"

record attachment_policy =
  ap_kind :: attachment_kind
  ap_mediaType :: string
  ap_directModel :: bool
  ap_directText :: bool
  ap_sandboxOnly :: bool

definition has_extension :: "string option \<Rightarrow> string list \<Rightarrow> bool" where
  "has_extension ext exts = (case ext of None \<Rightarrow> False | Some e \<Rightarrow> e \<in> set exts)"

definition within :: "int option \<Rightarrow> int \<Rightarrow> bool" where
  "within bytes limit = (case bytes of None \<Rightarrow> True | Some n \<Rightarrow> n \<le> limit)"

definition classifyAttachment :: "string option \<Rightarrow> string option \<Rightarrow> int option \<Rightarrow> attachment_policy" where
  "classifyAttachment mediaType filename sizeBytes =
     (let m = str_or (media_of mediaType) (default_to (inferMediaTypeFromFilename filename) []);
          ext = getFilenameExtension filename
      in if starts_with m ''image/'' \<or> has_extension ext IMAGE_EXTENSIONS then
           \<lparr>ap_kind = KImage, ap_mediaType = str_or m ''image/jpeg'',
            ap_directModel = within sizeBytes ATTACHMENT_DIRECT_BINARY_LIMIT_BYTES,
            ap_directText = False, ap_sandboxOnly = False\<rparr>
         else if m = ''application/pdf'' \<or> ext = Some ''pdf'' then
           \<lparr>ap_kind = KPdf, ap_mediaType = ''application/pdf'',
            ap_directModel = within sizeBytes ATTACHMENT_DIRECT_BINARY_LIMIT_BYTES,
            ap_directText = False, ap_sandboxOnly = False\<rparr>
         else if m \<in> set TEXT_LIKE_MEDIA_TYPES \<or> has_extension ext TEXT_LIKE_EXTENSIONS then
           \<lparr>ap_kind = KText, ap_mediaType = str_or m ''text/plain'',
            ap_directModel = within sizeBytes ATTACHMENT_DIRECT_TEXT_LIMIT_BYTES,
            ap_directText = True, ap_sandboxOnly = False\<rparr>
         else
           \<lparr>ap_kind = (if m \<noteq> [] then KDocument else KBinary), ap_mediaType = str_or m ''application/octet-stream'',
            ap_directModel = (m \<in> set DIRECT_MODEL_FILE_MEDIA_TYPES),
            ap_directText = False, ap_sandboxOnly = True\<rparr>)"

definition kind_labels :: "(attachment_kind \<times> string) list" where
  "kind_labels = [(KImage, ''image''), (KPdf, ''PDF''), (KText, ''text document''), (KDocument, ''document''),
     (KBinary, ''file'')]"

definition summarizeAttachmentCounts :: "attachment_kind list \<Rightarrow> string" where
  "summarizeAttachmentCounts kinds =
     (if kinds = [] then []
      else (case take 3 (List.map_filter (\<lambda>(k, label).
               let n = count_list kinds k
               in if n = 0 then None
                  else Some (nat_digits n @ '' '' @ label @ (if n = 1 then [] else ''s''))) kind_labels) of
          [] \<Rightarrow> ''User sent attachments.''
        | [a] \<Rightarrow> ''User sent '' @ a @ ''.''
        | [a, b] \<Rightarrow> ''User sent '' @ a @ '' and '' @ b @ ''.''
        | a # b # c # _ \<Rightarrow> ''User sent '' @ a @ '', '' @ b @ '', and '' @ c @ ''.''))"

section \<open>Updates\<close>

record tg_from =
  tf_id :: int
  tf_first_name :: string
  tf_last_name :: "string option"
  tf_username :: "string option"
  tf_language_code :: "string option"
  tf_is_premium :: "bool option"

record tg_photo =
  tp_file_id :: string
  tp_file_unique_id :: "string option"
  tp_width :: int
  tp_height :: int
  tp_file_size :: "int option"

record tg_document =
  td_file_id :: string
  td_file_unique_id :: "string option"
  td_file_name :: "string option"
  td_mime_type :: "string option"
  td_file_size :: "int option"

record tg_message =
  tm_message_id :: int
  tm_text :: "string option"
  tm_caption :: "string option"
  tm_chat_id :: int
  tm_from :: "tg_from option"
  tm_date :: int
  tm_media_group_id :: "string option"
  tm_photo :: "tg_photo list option"
  tm_document :: "tg_document option"

definition inferBufferedAttachmentKind :: "string option \<Rightarrow> string option \<Rightarrow> attachment_kind" where
  "inferBufferedAttachmentKind mediaType filename =
     (let m = media_of mediaType; ext = getFilenameExtension filename
      in if starts_with m ''image/'' then KImage
         else if m = ''application/pdf'' \<or> ext = Some ''pdf'' then KPdf
         else if m \<in> set TEXT_LIKE_MEDIA_TYPES \<or> has_extension ext TEXT_LIKE_EXTENSIONS then KText
         else if m \<noteq> [] then KDocument else KBinary)"

text \<open>The largest variant, the first of several.\<close>

definition photo_score :: "tg_photo \<Rightarrow> int" where
  "photo_score p = default_to (tp_file_size p) (tp_width p * tp_height p)"

definition buildBufferedAttachmentPartFromPhoto :: "tg_message \<Rightarrow> buffered_part option" where
  "buildBufferedAttachmentPartFromPhoto message =
     (case sort_key (\<lambda>p. - photo_score p) (default_to (tm_photo message) []) of
        [] \<Rightarrow> None
      | p # _ \<Rightarrow> Some (AttachmentPart
          \<lparr>ba_kind = KImage, ba_mediaType = Some ''image/jpeg'', ba_filename = None, ba_sizeBytes = tp_file_size p,
           ba_title = Some ''Telegram photo'',
           ba_metadata = Some [(''width'', JNum (tp_width p)), (''height'', JNum (tp_height p))],
           ba_source = \<lparr>ts_type = TPhoto, ts_fileId = tp_file_id p, ts_fileUniqueId = tp_file_unique_id p,
             ts_chatId = tm_chat_id message, ts_sourceMessageId = tm_message_id message,
             ts_mediaGroupId = tm_media_group_id message, ts_mediaType = Some ''image/jpeg'', ts_filename = None,
             ts_sizeBytes = tp_file_size p\<rparr>\<rparr>))"

definition buildBufferedAttachmentPartFromDocument :: "tg_message \<Rightarrow> buffered_part option" where
  "buildBufferedAttachmentPartFromDocument message =
     (case tm_document message of
        None \<Rightarrow> None
      | Some d \<Rightarrow> Some (AttachmentPart
          \<lparr>ba_kind = inferBufferedAttachmentKind (td_mime_type d) (td_file_name d), ba_mediaType = td_mime_type d,
           ba_filename = td_file_name d, ba_sizeBytes = td_file_size d,
           ba_title = Some (default_to (td_file_name d) ''Telegram file''), ba_metadata = None,
           ba_source = \<lparr>ts_type = TDocument, ts_fileId = td_file_id d, ts_fileUniqueId = td_file_unique_id d,
             ts_chatId = tm_chat_id message, ts_sourceMessageId = tm_message_id message,
             ts_mediaGroupId = tm_media_group_id message, ts_mediaType = td_mime_type d, ts_filename = td_file_name d,
             ts_sizeBytes = td_file_size d\<rparr>\<rparr>))"

definition opt_field :: "string \<Rightarrow> ('a \<Rightarrow> json) \<Rightarrow> 'a option \<Rightarrow> (string \<times> json) list" where
  "opt_field k f v = (case v of None \<Rightarrow> [] | Some x \<Rightarrow> [(k, f x)])"

definition from_json :: "tg_from \<Rightarrow> (string \<times> json) list" where
  "from_json f =
     [(''id'', JNum (tf_id f)), (''first_name'', JStr (tf_first_name f))] @
     opt_field ''last_name'' JStr (tf_last_name f) @ opt_field ''username'' JStr (tf_username f) @
     opt_field ''language_code'' JStr (tf_language_code f) @ opt_field ''is_premium'' JBool (tf_is_premium f)"

definition part_kinds :: "buffered_part list \<Rightarrow> attachment_kind list" where
  "part_kinds ps = List.map_filter (\<lambda>p. case p of TextPart _ \<Rightarrow> None | AttachmentPart a \<Rightarrow> Some (ba_kind a)) ps"

definition buildBufferedTelegramMessage :: "tg_message \<Rightarrow> buffered_message option" where
  "buildBufferedTelegramMessage message =
     (let t = js_trim (default_to (or_else (tm_text message) (tm_caption message)) []);
          ps = (if t = [] then [] else [TextPart t]) @
            (case buildBufferedAttachmentPartFromPhoto message of None \<Rightarrow> [] | Some p \<Rightarrow> [p]) @
            (case buildBufferedAttachmentPartFromDocument message of None \<Rightarrow> [] | Some p \<Rightarrow> [p])
      in if ps = [] then None
         else Some \<lparr>sourceMessageId = tm_message_id message, date = tm_date message,
           textSummary = str_or t (summarizeAttachmentCounts (part_kinds ps)), parts = ps,
           mediaGroupId = tm_media_group_id message, msgFrom = map_option from_json (tm_from message),
           rawSource = Some [(''platform'', JStr ''telegram''), (''messageIds'', JArr [JNum (tm_message_id message)])]\<rparr>)"

section \<open>Long texts\<close>

text \<open>
  The text is a list of code units of any type, with its white space, line feed and space: on \<open>char\<close> the
  strings of this development, on \<open>16 word\<close> all of ECMAScript's.  The place of a cut: after a line feed or
  a space in the second half, else at the limit.
\<close>

definition too_early :: "nat \<Rightarrow> nat option \<Rightarrow> bool" where
  "too_early limit i = (case i of None \<Rightarrow> True | Some k \<Rightarrow> 2 * k < limit)"

definition split_index :: "'a \<Rightarrow> 'a \<Rightarrow> nat \<Rightarrow> 'a list \<Rightarrow> nat" where
  "split_index lf sp limit s =
     (let i = last_index lf limit s;
          j = (if too_early limit i then last_index sp limit s else i)
      in if too_early limit j then limit else the j)"

partial_function (option) split_loop ::
    "('a \<Rightarrow> bool) \<Rightarrow> 'a \<Rightarrow> 'a \<Rightarrow> nat \<Rightarrow> 'a list \<Rightarrow> 'a list list option" where
  "split_loop ws lf sp limit remaining =
     (if remaining = [] then Some []
      else if length remaining \<le> limit then Some [remaining]
      else Option.bind (split_loop ws lf sp limit
                   (dropWhile ws (drop (split_index lf sp limit remaining) remaining)))
          (\<lambda>chunks. Some (take (split_index lf sp limit remaining) remaining # chunks)))"

declare split_loop.simps [code]

definition split_text :: "('a \<Rightarrow> bool) \<Rightarrow> 'a \<Rightarrow> 'a \<Rightarrow> nat \<Rightarrow> 'a list \<Rightarrow> 'a list list option" where
  "split_text ws lf sp limit s = (if length s \<le> limit then Some [s] else split_loop ws lf sp limit s)"

definition splitTelegramMessage :: "string \<Rightarrow> nat \<Rightarrow> string list option" where
  "splitTelegramMessage s maxLength = split_text is_ws (CHR 0x0A) (CHR '' '') maxLength s"

definition TELEGRAM_LIMIT :: nat where "TELEGRAM_LIMIT = 4096"

section \<open>Sending\<close>

text \<open>
  Calls of the Telegram API on a world of any type; a call fails with a message.  A program that only calls
  runs on the world alone.
\<close>

datatype tg_call =
  CallMessage int string | CallPhoto int string | CallDocument int string | CallTyping int

type_synonym 'w tg_api = "tg_call \<Rightarrow> 'w \<Rightarrow> 'w \<times> (string + unit)"

definition on_world :: "('w \<Rightarrow> 'w \<times> ('e + 'a)) \<Rightarrow> ('w, 'e, 'a) prog" where
  "on_world f = (\<lambda>w. Some (f w))"

fun send_chunks :: "'w tg_api \<Rightarrow> int \<Rightarrow> string list \<Rightarrow> ('w, string, unit) prog" where
  "send_chunks api chatId [] = pret ()"
| "send_chunks api chatId (c # cs) =
     pbind (on_world (api (CallMessage chatId c))) (\<lambda>_. send_chunks api chatId cs)"

definition sendMessage :: "'w tg_api \<Rightarrow> int \<Rightarrow> string \<Rightarrow> ('w, string, unit) prog" where
  "sendMessage api chatId t =
     (case splitTelegramMessage t TELEGRAM_LIMIT of None \<Rightarrow> (\<lambda>w. None) | Some cs \<Rightarrow> send_chunks api chatId cs)"

definition startTyping :: "'w tg_api \<Rightarrow> int \<Rightarrow> ('w, string, unit) prog" where
  "startTyping api chatId = on_world (api (CallTyping chatId))"

text \<open>The target of a reply is a chat, or another channel.\<close>

definition reply_startTyping :: "'w tg_api \<Rightarrow> int option \<Rightarrow> ('w, string, unit) prog" where
  "reply_startTyping api target = (case target of None \<Rightarrow> pret () | Some chat \<Rightarrow> startTyping api chat)"

definition postText :: "'w tg_api \<Rightarrow> int option \<Rightarrow> string \<Rightarrow> ('w, string, unit) prog" where
  "postText api target t = (case target of None \<Rightarrow> pret () | Some chat \<Rightarrow> sendMessage api chat t)"

record reply_attachment =
  ra_id :: string
  ra_filename :: "string option"
  ra_title :: "string option"

datatype outgoing_part = OutText string | OutAttachment reply_attachment

text \<open>The attachment store: the kind, the recorded size and the length of a content, and signed links.\<close>

record 'w content_store =
  cs_load :: "string \<Rightarrow> 'w \<Rightarrow> 'w \<times> (string + attachment_kind \<times> int option \<times> int)"
  cs_signedUrl :: "string \<Rightarrow> 'w \<Rightarrow> 'w \<times> (string + string)"

definition SEND_LIMIT :: int where "SEND_LIMIT = 20 * 1024 * 1024"

definition attachment_name :: "reply_attachment \<Rightarrow> string" where
  "attachment_name a =
     str_or (str_or (default_to (ra_filename a) []) (default_to (ra_title a) [])) (ra_id a @ ''.bin'')"

definition attachment_label :: "reply_attachment \<Rightarrow> string" where
  "attachment_label a =
     str_or (str_or (default_to (ra_title a) []) (default_to (ra_filename a) [])) ''attachment''"

text \<open>The content is sent as it is when it is small enough; any failure leaves it to the link.\<close>

definition send_content ::
    "'w tg_api \<Rightarrow> 'w content_store \<Rightarrow> int \<Rightarrow> reply_attachment \<Rightarrow> ('w, string, bool) prog" where
  "send_content api cs chat a =
     ptry (pbind (on_world (cs_load cs (ra_id a))) (\<lambda>(kind, size, bytes).
         if kind = KImage \<and> default_to size bytes \<le> SEND_LIMIT
         then pbind (on_world (api (CallPhoto chat (attachment_name a)))) (\<lambda>_. pret True)
         else if default_to size bytes \<le> SEND_LIMIT
         then pbind (on_world (api (CallDocument chat (attachment_name a)))) (\<lambda>_. pret True)
         else pret False))
       (\<lambda>r. case r of Inr b \<Rightarrow> pret b | Inl _ \<Rightarrow> pret False)"

definition send_attachment ::
    "'w tg_api \<Rightarrow> 'w content_store \<Rightarrow> int \<Rightarrow> reply_attachment \<Rightarrow> ('w, string, unit) prog" where
  "send_attachment api cs chat a =
     (if ra_id a = [] then pret ()
      else ptry (pbind (send_content api cs chat a) (\<lambda>delivered.
          if delivered then pret ()
          else pbind (on_world (cs_signedUrl cs (ra_id a))) (\<lambda>url.
            on_world (api (CallMessage chat (''Download '' @ attachment_label a @ '': '' @ url))))))
        (\<lambda>_. pret ()))"

fun send_parts ::
    "'w tg_api \<Rightarrow> 'w content_store \<Rightarrow> int \<Rightarrow> outgoing_part list \<Rightarrow> ('w, string, unit) prog" where
  "send_parts api cs chat [] = pret ()"
| "send_parts api cs chat (OutText t # ps) =
     pbind (sendMessage api chat t) (\<lambda>_. send_parts api cs chat ps)"
| "send_parts api cs chat (OutAttachment a # ps) =
     pbind (send_attachment api cs chat a) (\<lambda>_. send_parts api cs chat ps)"

definition sendParts ::
    "'w tg_api \<Rightarrow> 'w content_store \<Rightarrow> int option \<Rightarrow> outgoing_part list \<Rightarrow> ('w, string, unit) prog" where
  "sendParts api cs target ps = (case target of None \<Rightarrow> pret () | Some chat \<Rightarrow> send_parts api cs chat ps)"

section \<open>Commands\<close>

datatype tg_command = CmdStart | CmdStop | CmdHelp

definition command_names :: "(string \<times> tg_command) list" where
  "command_names = [(''/start'', CmdStart), (''/stop'', CmdStop), (''/help'', CmdHelp)]"

record parsed_command =
  pc_command :: tg_command
  pc_payload :: "string option"
  pc_rawText :: string

definition normalizeTelegramBotUsername :: "string option \<Rightarrow> string" where
  "normalizeTelegramBotUsername v =
     str_or (to_lower (dropWhile (\<lambda>c. c = CHR ''@'') (js_trim (default_to v [])))) ''my_amby_bot''"

text \<open>\<open>s.split(/\s+/)\<close> of a trimmed text.\<close>

function ws_words :: "string \<Rightarrow> string list" where
  "ws_words s = (if dropWhile is_ws s = [] then []
     else takeWhile (\<lambda>c. \<not> is_ws c) (dropWhile is_ws s) # ws_words (dropWhile (\<lambda>c. \<not> is_ws c) (dropWhile is_ws s)))"
  by pat_completeness auto

lemma ws_words_shorter:
  assumes "dropWhile is_ws s \<noteq> []"
  shows "length (dropWhile (\<lambda>c. \<not> is_ws c) (dropWhile is_ws s)) < length s"
proof -
  obtain c t where t: "dropWhile is_ws s = c # t" using assms by (cases "dropWhile is_ws s") auto
  then have "\<not> is_ws c" by (metis hd_dropWhile list.distinct(1) list.sel(1))
  with t have "dropWhile (\<lambda>c. \<not> is_ws c) (dropWhile is_ws s) = dropWhile (\<lambda>c. \<not> is_ws c) t" by simp
  moreover have "length (dropWhile (\<lambda>c. \<not> is_ws c) t) \<le> length t" by (rule length_dropWhile_le)
  moreover have "length (c # t) \<le> length s" unfolding t [symmetric] by (rule length_dropWhile_le)
  ultimately show ?thesis by simp
qed

termination ws_words
  by (relation "measure length") (simp_all add: ws_words_shorter)

declare ws_words.simps [simp del]

definition parseTelegramCommand :: "string option \<Rightarrow> string option \<Rightarrow> parsed_command option" where
  "parseTelegramCommand t botUsername =
     (let trimmed = js_trim (default_to t [])
      in if \<not> starts_with trimmed ''/'' then None
         else (case ws_words trimmed of
             [] \<Rightarrow> None
           | token # rest \<Rightarrow>
               (case split_on (CHR ''@'') (to_lower token) of
                  [] \<Rightarrow> None
                | command # targets \<Rightarrow>
                    if command = [] \<or> length targets > 1 then None
                    else if (case targets of [] \<Rightarrow> False | target # _ \<Rightarrow>
                        target \<noteq> [] \<and> target \<noteq> normalizeTelegramBotUsername botUsername) then None
                    else map_option (\<lambda>c. \<lparr>pc_command = c, pc_payload = truthy_str (Some (js_trim (join_with '' '' rest))),
                           pc_rawText = trimmed\<rparr>) (map_of command_names command))))"

end
