(* ===== verification/TelegramProps.thy ===== *)
theory TelegramProps
  imports Telegram
begin

text \<open>
  The Telegram channel: what a long text is split into, and that no reply gets stuck or lost silently.
\<close>

section \<open>Splitting\<close>

lemma last_index_Some:
  assumes "last_index c n s = Some i"
  shows "i \<le> n \<and> i < length s \<and> s ! i = c"
proof -
  from assms obtain ys where "filter (\<lambda>i. s ! i = c) [0..<min (Suc n) (length s)] = ys @ [i]"
    by (auto simp: last_index_def last_opt_Some)
  then have "i \<in> set (filter (\<lambda>i. s ! i = c) [0..<min (Suc n) (length s)])" by (metis in_set_conv_decomp)
  then show ?thesis by auto
qed

lemma split_index_bounds:
  assumes "1 \<le> limit"
  shows "1 \<le> split_index lf sp limit s \<and> split_index lf sp limit s \<le> limit"
  using assms by (auto simp: split_index_def too_early_def Let_def dest!: last_index_Some split: option.splits)

text \<open>A cut before the limit is at a line feed or at a space.\<close>

lemma split_index_place:
  assumes "split_index lf sp limit s \<noteq> limit"
  shows "s ! split_index lf sp limit s \<in> {lf, sp}"
  using assms by (auto simp: split_index_def too_early_def Let_def dest!: last_index_Some split: option.splits if_splits)

text \<open>A text is put together from chunks and the white space left out after each.\<close>

inductive pieced :: "('a \<Rightarrow> bool) \<Rightarrow> 'a list list \<Rightarrow> 'a list \<Rightarrow> bool" for ws where
  pieced_nil: "pieced ws [] []"
| pieced_cons: "list_all ws gap \<Longrightarrow> pieced ws chunks rest \<Longrightarrow> pieced ws (c # chunks) (c @ gap @ rest)"

inductive_simps pieced_simps [simp]: "pieced ws [] s" "pieced ws (c # chunks) s"

lemma pieced_single: "pieced ws [s] s"
  using pieced_cons [of ws "[]" "[]" "[]" s] by (simp add: pieced_nil)

lemma split_step:
  assumes "1 \<le> limit" "s \<noteq> []"
  shows "length (dropWhile ws (drop (split_index lf sp limit s) s)) < length s"
proof -
  have "length (dropWhile ws (drop (split_index lf sp limit s) s)) \<le> length (drop (split_index lf sp limit s) s)"
    by (rule length_dropWhile_le)
  with split_index_bounds [OF assms(1), of lf sp s] assms(2) show ?thesis by (cases s) auto
qed

lemma split_loop_chunks:
  assumes "1 \<le> limit"
  shows "\<exists>chunks. split_loop ws lf sp limit s = Some chunks \<and>
    list_all (\<lambda>c. c \<noteq> [] \<and> length c \<le> limit) chunks \<and> pieced ws chunks s"
proof (induction s rule: length_induct)
  case (1 s)
  let ?i = "split_index lf sp limit s"
  let ?rest = "dropWhile ws (drop ?i s)"
  consider "s = []" | "s \<noteq> []" "length s \<le> limit" | "s \<noteq> []" "limit < length s" by fastforce
  then show ?case
  proof cases
    case 1
    then show ?thesis by (subst split_loop.simps) simp
  next
    case 2
    then have "split_loop ws lf sp limit s = Some [s]" by (subst split_loop.simps) simp
    with 2 pieced_single [of ws s] show ?thesis by (simp del: pieced_simps)
  next
    case 3
    obtain chunks where c: "split_loop ws lf sp limit ?rest = Some chunks"
        "list_all (\<lambda>c. c \<noteq> [] \<and> length c \<le> limit) chunks" "pieced ws chunks ?rest"
      using "1.IH" split_step [OF assms 3(1), of ws lf sp] by blast
    have "split_loop ws lf sp limit s = Some (take ?i s # chunks)"
      using 3 c(1) by (subst split_loop.simps) simp
    moreover have "take ?i s \<noteq> [] \<and> length (take ?i s) \<le> limit"
      using split_index_bounds [OF assms, of lf sp s] 3(1) by auto
    moreover have "pieced ws (take ?i s # chunks) s"
    proof -
      have "list_all ws (takeWhile ws (drop ?i s))" by (auto simp: list_all_iff dest: set_takeWhileD)
      from pieced_cons [OF this c(3), of "take ?i s"] show ?thesis by simp
    qed
    ultimately show ?thesis using c(2) by (simp del: pieced_simps)
  qed
qed

text \<open>
  C30. With a limit of at least one character, splitting a message ends.  No chunk is longer than the limit, no
  chunk of a text is empty, and the chunks put together, with the white space left out after some of them, are
  the text.
\<close>

theorem split_message:
  assumes "1 \<le> limit"
  shows "\<exists>chunks. splitTelegramMessage s limit = Some chunks \<and>
    list_all (\<lambda>c. length c \<le> limit \<and> (s \<noteq> [] \<longrightarrow> c \<noteq> [])) chunks \<and> pieced is_ws chunks s"
proof (cases "length s \<le> limit")
  case True
  then show ?thesis using pieced_single [of is_ws s] by (simp add: splitTelegramMessage_def split_text_def del: pieced_simps)
next
  case False
  with split_loop_chunks [OF assms, of is_ws "CHR 0x0A" "CHR '' ''" s] show ?thesis
    by (auto simp: splitTelegramMessage_def split_text_def list_all_iff simp del: pieced_simps)
qed

theorem split_message_witness:
  "\<exists>chunks. splitTelegramMessage ''one two three'' 8 = Some chunks \<and> pieced is_ws chunks ''one two three''"
proof -
  have "1 \<le> (8 :: nat)" by simp
  from split_message [OF this, of "''one two three''"] show ?thesis by blast
qed

lemma split_message_demo:
  "splitTelegramMessage ''one two three'' 8 = Some [''one two'', ''three'']"
  by code_simp

text \<open>
  On UTF-16 code units a cut at the limit may fall between the two halves of a pair: here after the first half
  of U+1F600, the two units D83D and DE00.
\<close>

lemma split_breaks_pair:
  "split_text (\<lambda>_. False) (0x0A :: 16 word) 0x20 2 [0x41, 0xD83D, 0xDE00] = Some [[0x41, 0xD83D], [0xDE00]]"
  by code_simp

section \<open>Attachments\<close>

text \<open>
  The two classifications disagree on an image without a media type: a buffered part is of kind binary, as only
  \<open>classifyAttachment\<close> looks at the extensions of images.
\<close>

lemma kinds_disagree:
  "inferBufferedAttachmentKind None (Some ''photo.png'') = KBinary \<and>
   ap_kind (classifyAttachment None (Some ''photo.png'') None) = KImage"
  by code_simp

section \<open>Sending\<close>

lemma sendMessage_chunks: "\<exists>cs. sendMessage api chat t = send_chunks api chat cs"
proof -
  have "1 \<le> TELEGRAM_LIMIT" by (simp add: TELEGRAM_LIMIT_def)
  from split_loop_chunks [OF this, of is_ws "CHR 0x0A" "CHR '' ''" t]
  have "\<exists>cs. splitTelegramMessage t TELEGRAM_LIMIT = Some cs"
    by (auto simp: splitTelegramMessage_def split_text_def)
  then obtain cs where "splitTelegramMessage t TELEGRAM_LIMIT = Some cs" ..
  then show ?thesis by (auto simp: sendMessage_def)
qed

text \<open>A program that succeeds from every state.\<close>

definition succeeds :: "('s, 'e, 'a) prog \<Rightarrow> bool" where
  "succeeds m \<longleftrightarrow> (\<forall>s. \<exists>s' x. m s = Some (s', Inr x))"

lemma succeeds_ret: "succeeds (pret x)"
  by (simp add: succeeds_def pret_def)

lemma succeeds_bind: "succeeds m \<Longrightarrow> (\<And>x. succeeds (k x)) \<Longrightarrow> succeeds (pbind m k)"
  unfolding succeeds_def by (metis pbind_run)

lemma succeeds_try:
  assumes "\<And>s. m s \<noteq> None" "\<And>r. succeeds (k r)"
  shows "succeeds (ptry m k)"
  using assms unfolding succeeds_def ptry_def by (fastforce split: option.split)

lemma on_world_returns: "on_world f w \<noteq> None"
  by (simp add: on_world_def)

lemma bind_returns: "m s \<noteq> None \<Longrightarrow> (\<And>x s1. k x s1 \<noteq> None) \<Longrightarrow> pbind m k s \<noteq> None"
  by (auto simp: pbind_def ptry_def pthrow_def split: sum.splits)

lemma send_content_returns: "send_content api cs chat a w \<noteq> None"
  unfolding send_content_def on_world_def pbind_def ptry_def pret_def pthrow_def
  by (auto split: prod.splits sum.splits option.splits if_splits)

lemma send_attachment_succeeds: "succeeds (send_attachment api cs chat a)"
proof -
  have "pbind (send_content api cs chat a) (\<lambda>delivered.
      if delivered then pret ()
      else pbind (on_world (cs_signedUrl cs (ra_id a))) (\<lambda>url.
        on_world (api (CallMessage chat (''Download '' @ attachment_label a @ '': '' @ url))))) w \<noteq> None" for w
    by (rule bind_returns [OF send_content_returns])
      (simp add: pret_def bind_returns on_world_returns del: not_None_eq split: if_split)
  then show ?thesis
    unfolding send_attachment_def by (auto intro: succeeds_ret succeeds_try)
qed

text \<open>
  When Telegram takes every text message, a reply is sent to its end: an attachment that cannot be loaded, sent
  or linked to is skipped.
\<close>

lemma attachments_never_fail:
  assumes "\<And>t w. \<exists>w'. api (CallMessage chat t) w = (w', Inr ())"
  shows "\<exists>w'. sendParts api cs (Some chat) ps w = Some (w', Inr ())"
proof -
  have "succeeds (on_world (api (CallMessage chat t)))" for t
    using assms [of t] unfolding succeeds_def on_world_def by metis
  then have "succeeds (send_chunks api chat chunks)" for chunks
    by (induction chunks) (simp_all add: succeeds_ret succeeds_bind)
  then have "succeeds (sendMessage api chat t)" for t by (metis sendMessage_chunks)
  then have "succeeds (send_parts api cs chat ps)"
    by (induction api cs chat ps rule: send_parts.induct)
      (simp_all add: succeeds_ret succeeds_bind send_attachment_succeeds)
  then show ?thesis by (auto simp: succeeds_def sendParts_def)
qed

end
