(* ===== verification/Router.thy ===== *)
theory Router
  imports Programs ExecTypes
begin

text \<open>
  The routing of messages to threads (\<open>packages/agent/src/router.ts\<close>) on the tables of
  \<open>packages/db/src/schema/conversations.ts\<close>: the heuristics, the model's decision, the archiving of stale
  threads, the default thread and \<open>resolveThread\<close>; and \<open>packages/agent/src/conversation/ensure.ts\<close>.
\<close>

section \<open>Tables\<close>

datatype thread_source = SrcNative | SrcReplyChain | SrcDerived | SrcManual

datatype thread_status = ThOpen | ThArchived

record conversation_row =
  cv_id :: string
  cv_userId :: string
  cv_platform :: string
  cv_key :: string
  cv_updatedAt :: int

record thread_row =
  th_id :: string
  th_conversationId :: string
  th_source :: thread_source
  th_externalKey :: "string option"
  th_label :: "string option"
  th_synopsis :: "string option"
  th_keywords :: "string list option"
  th_isDefault :: bool
  th_status :: thread_status
  th_lastActiveAt :: int
  th_createdAt :: int

record message_row =
  mg_id :: string
  mg_conversationId :: string
  mg_threadId :: "string option"
  mg_role :: string
  mg_content :: string
  mg_createdAt :: int

record thread_db =
  tb_conversations :: "conversation_row list"
  tb_threads :: "thread_row list"
  tb_messages :: "message_row list"

text \<open>A row in the way of a new one: the primary key and the two partial unique indexes.\<close>

definition thread_conflict :: "thread_row \<Rightarrow> thread_row \<Rightarrow> bool" where
  "thread_conflict r t \<longleftrightarrow>
     th_id t = th_id r \<or>
     th_conversationId t = th_conversationId r \<and>
       (th_isDefault t \<and> th_isDefault r \<or> th_externalKey t \<noteq> None \<and> th_externalKey t = th_externalKey r)"

definition insert_thread :: "thread_row \<Rightarrow> thread_db \<Rightarrow> string + thread_db" where
  "insert_thread r db =
     (if list_ex (thread_conflict r) (tb_threads db) then Inl ''duplicate key value violates unique constraint''
      else if \<not> list_ex (\<lambda>c. cv_id c = th_conversationId r) (tb_conversations db)
      then Inl ''insert violates foreign key constraint''
      else Inr (db\<lparr>tb_threads := tb_threads db @ [r]\<rparr>))"

definition update_threads :: "(thread_row \<Rightarrow> bool) \<Rightarrow> (thread_row \<Rightarrow> thread_row) \<Rightarrow> thread_db \<Rightarrow> thread_db" where
  "update_threads p f db = db\<lparr>tb_threads := map (\<lambda>t. if p t then f t else t) (tb_threads db)\<rparr>"

section \<open>Decisions\<close>

definition GAP_CONTINUE_MS :: int where "GAP_CONTINUE_MS = 120000"
definition DORMANT_MS :: int where "DORMANT_MS = 60 * 60 * 1000"
definition STALE_ARCHIVE_MS :: int where "STALE_ARCHIVE_MS = 24 * 60 * 60 * 1000"
definition OPEN_THREADS_CAP :: nat where "OPEN_THREADS_CAP = 10"
definition TAIL_BUDGET :: nat where "TAIL_BUDGET = 20"
definition SYNOPSIS_BATCH_CAP :: nat where "SYNOPSIS_BATCH_CAP = 3"

datatype route_action = RContinue | RSwitch | RNew

record route_decision =
  de_action :: route_action
  de_threadId :: string
  de_source :: thread_source
  de_label :: "string option"
  de_keywords :: "string list option"

definition decided :: "route_action \<Rightarrow> string \<Rightarrow> thread_source \<Rightarrow> route_decision" where
  "decided a threadId source =
     \<lparr>de_action = a, de_threadId = threadId, de_source = source, de_label = None, de_keywords = None\<rparr>"

record open_thread =
  ot_id :: string
  ot_label :: "string option"
  ot_synopsis :: "string option"
  ot_keywords :: "string list option"
  ot_lastActiveAt :: int

text \<open>What the model answers, checked by its schema.\<close>

record route_object =
  ro_action :: route_action
  ro_threadIndex :: "nat option"
  ro_label :: "string option"
  ro_keywords :: "string list option"

section \<open>Labels\<close>

text \<open>
  \<open>\b label \b\<close> without case: a word character is an ASCII letter, a digit or the underscore, and a boundary
  is a place with one on exactly one side.
\<close>

definition word_char :: "char \<Rightarrow> bool" where
  "word_char c = (let n = (of_char c :: nat) in
     48 \<le> n \<and> n \<le> 57 \<or> 65 \<le> n \<and> n \<le> 90 \<or> 97 \<le> n \<and> n \<le> 122 \<or> n = 95)"

definition word_at :: "string \<Rightarrow> nat \<Rightarrow> bool" where
  "word_at s i = (case nth_opt s i of None \<Rightarrow> False | Some c \<Rightarrow> word_char c)"

definition boundary :: "string \<Rightarrow> nat \<Rightarrow> bool" where
  "boundary s i \<longleftrightarrow> (0 < i \<and> word_at s (i - 1)) \<noteq> word_at s i"

definition label_at :: "string \<Rightarrow> string \<Rightarrow> nat \<Rightarrow> bool" where
  "label_at message label i \<longleftrightarrow>
     boundary message i \<and> take (length label) (to_lower (drop i message)) = to_lower label \<and>
     boundary message (i + length label)"

definition matchesLabel :: "string \<Rightarrow> string \<Rightarrow> bool" where
  "matchesLabel message label \<longleftrightarrow>
     3 \<le> length label \<and> list_ex (label_at message label) [0..<Suc (length message)]"

definition named_in :: "string \<Rightarrow> open_thread \<Rightarrow> bool" where
  "named_in message t \<longleftrightarrow>
     (case truthy_str (ot_label t) of None \<Rightarrow> False | Some label \<Rightarrow> matchesLabel message label)"

definition keyword_hits :: "string \<Rightarrow> open_thread \<Rightarrow> nat" where
  "keyword_hits message t = length (filter (matchesLabel message) (default_to (ot_keywords t) []))"

definition routeMessage :: "int \<Rightarrow> string \<Rightarrow> string \<Rightarrow> int \<Rightarrow> open_thread list \<Rightarrow> route_decision option" where
  "routeMessage now message lastThreadId lastMessageAt openThreads =
     (if now - lastMessageAt < GAP_CONTINUE_MS then Some (decided RContinue lastThreadId SrcDerived)
      else case find_first (named_in message) openThreads of
        Some t \<Rightarrow> Some (decided RSwitch (ot_id t) SrcDerived)
      | None \<Rightarrow>
          map_option (\<lambda>t. decided RSwitch (ot_id t) SrcDerived)
            (find_first (\<lambda>t. 2 \<le> keyword_hits message t) openThreads))"

section \<open>The model\<close>

definition newline :: string where "newline = [CHR 0x0A]"
definition quoted :: "string \<Rightarrow> string" where "quoted s = [CHR 0x22] @ s @ [CHR 0x22]"

definition thread_line :: "nat \<Rightarrow> open_thread \<Rightarrow> string" where
  "thread_line i t =
     (let label = str_or (js_trim (default_to (ot_label t) [])) ''(untitled)'';
          syn = str_or (js_trim (default_to (ot_synopsis t) [])) ''(no summary yet)'';
          kws = (case default_to (ot_keywords t) [] of [] \<Rightarrow> []
            | ks \<Rightarrow> '' keywords: ['' @ join_with '', '' ks @ '']'')
      in nat_digits i @ ''. id='' @ ot_id t @ '' label='' @ quoted label @ kws @ '' synopsis: '' @ syn)"

definition buildRouterPrompt :: "string \<Rightarrow> open_thread list \<Rightarrow> string" where
  "buildRouterPrompt message openThreads =
     (let ls = map (\<lambda>(i, t). thread_line i t) (zip [0..<length openThreads] openThreads)
      in join_with newline
        [''You route a user message to exactly one conversation thread. Prefer continuing the most recently active thread unless the message clearly starts a new topic or clearly refers to another listed thread.'',
         [],
         ''Open threads (newest first, index 0 = most recent):'',
         if ls = [] then ''(none)'' else join_with newline ls,
         [],
         ''User message:'',
         message,
         [],
         ''Return JSON only via the schema:'',
         ''- action '' @ quoted ''continue'' @ '': stay on the current active thread (index 0 if unsure).'',
         ''- action '' @ quoted ''switch'' @ '': pick threadIndex for a different listed thread.'',
         ''- action '' @ quoted ''new'' @ '': the user is clearly starting a unrelated new topic; provide a short label and 3-5 topic keywords.'',
         ''Bias toward '' @ quoted ''continue'' @ '' when ambiguous.''])"

definition synopsis_prompt :: "string \<Rightarrow> string" where
  "synopsis_prompt transcript = join_with newline
     [''Summarize this conversation thread and extract topic keywords.'',
      ''Synopsis: 2-3 sentences covering what the user wanted, what was done, outstanding items.'',
      ''Keywords: 3-5 single-word or short-phrase topic identifiers.'',
      [],
      ''Thread transcript:'',
      transcript]"

text \<open>
  The outside: the time, identifiers, whether the database answers a query, and the model's two objects.
  Every program here runs on the tables and the outside.  An error is an \<open>AgentError\<close> or another.
\<close>

datatype route_error = RawError string | AgentError string

fun message_of :: "route_error \<Rightarrow> string" where
  "message_of (RawError m) = m"
| "message_of (AgentError m) = m"

fun agent_error :: "string \<Rightarrow> route_error \<Rightarrow> route_error" where
  "agent_error message (RawError m) = AgentError message"
| "agent_error message (AgentError m) = AgentError m"

record 'w outside =
  rt_now :: "'w \<Rightarrow> int"
  rt_uuid :: "'w \<Rightarrow> 'w \<times> string"
  rt_query :: "'w \<Rightarrow> 'w \<times> string option"
  rt_route :: "string \<Rightarrow> 'w \<Rightarrow> 'w \<times> (string + route_object)"
  rt_synopsis :: "string \<Rightarrow> 'w \<Rightarrow> 'w \<times> (string + string \<times> string list)"

record 'w router_state =
  rs_db :: thread_db
  rs_world :: 'w

type_synonym ('w, 'a) routing = "('w router_state, route_error, 'a) prog"

definition outside :: "('w \<Rightarrow> 'w \<times> (string + 'a)) \<Rightarrow> ('w, 'a) routing" where
  "outside f = (\<lambda>s. case f (rs_world s) of
     (w, Inl e) \<Rightarrow> Some (s\<lparr>rs_world := w\<rparr>, Inl (RawError e)) | (w, Inr x) \<Rightarrow> Some (s\<lparr>rs_world := w\<rparr>, Inr x))"

definition fresh_id :: "'w outside \<Rightarrow> ('w, string) routing" where
  "fresh_id rt = outside (\<lambda>w. case rt_uuid rt w of (w1, u) \<Rightarrow> (w1, Inr u))"

definition clock :: "'w outside \<Rightarrow> ('w, int) routing" where
  "clock rt = pget (\<lambda>s. rt_now rt (rs_world s))"

definition query :: "'w outside \<Rightarrow> (thread_db \<Rightarrow> string + thread_db \<times> 'a) \<Rightarrow> ('w, 'a) routing" where
  "query rt f = (\<lambda>s. case rt_query rt (rs_world s) of
     (w, Some e) \<Rightarrow> Some (s\<lparr>rs_world := w\<rparr>, Inl (RawError e))
   | (w, None) \<Rightarrow> (case f (rs_db s) of
       Inl e \<Rightarrow> Some (s\<lparr>rs_world := w\<rparr>, Inl (RawError e))
     | Inr (db, x) \<Rightarrow> Some (\<lparr>rs_db = db, rs_world = w\<rparr>, Inr x)))"

definition selecting :: "'w outside \<Rightarrow> (thread_db \<Rightarrow> 'a) \<Rightarrow> ('w, 'a) routing" where
  "selecting rt f = query rt (\<lambda>db. Inr (db, f db))"

definition updating :: "'w outside \<Rightarrow> (thread_db \<Rightarrow> thread_db) \<Rightarrow> ('w, unit) routing" where
  "updating rt f = query rt (\<lambda>db. Inr (f db, ()))"

definition inserting :: "'w outside \<Rightarrow> thread_row \<Rightarrow> ('w, string) routing" where
  "inserting rt r = query rt (\<lambda>db. case insert_thread r db of Inl e \<Rightarrow> Inl e | Inr db1 \<Rightarrow> Inr (db1, th_id r))"

definition routeWithModel :: "'w outside \<Rightarrow> string \<Rightarrow> open_thread list \<Rightarrow> string \<Rightarrow> ('w, route_decision) routing" where
  "routeWithModel rt message openThreads lastThreadId =
     (if openThreads = [] then pbind (fresh_id rt) (\<lambda>u. pret (decided RNew u SrcDerived))
      else pbind (outside (rt_route rt (buildRouterPrompt message (take OPEN_THREADS_CAP openThreads)))) (\<lambda>obj.
        case ro_action obj of
          RNew \<Rightarrow> pbind (fresh_id rt) (\<lambda>u. pret
            \<lparr>de_action = RNew, de_threadId = u, de_source = SrcDerived,
             de_label = truthy_str (map_option js_trim (ro_label obj)),
             de_keywords = (if default_to (ro_keywords obj) [] = [] then None else ro_keywords obj)\<rparr>)
        | RSwitch \<Rightarrow> pret (case nth_opt openThreads (default_to (ro_threadIndex obj) 0) of
              Some t \<Rightarrow> decided RSwitch (ot_id t) SrcDerived
            | None \<Rightarrow> decided RContinue lastThreadId SrcDerived)
        | RContinue \<Rightarrow> pret (decided RContinue lastThreadId SrcDerived)))"

definition generateSynopsis :: "'w outside \<Rightarrow> string \<Rightarrow> ('w, string \<times> string list) routing" where
  "generateSynopsis rt transcript =
     pbind (outside (rt_synopsis rt (synopsis_prompt transcript))) (\<lambda>(synopsis, keywords).
       pret (js_trim synopsis, keywords))"

section \<open>Stale threads\<close>

definition has_text :: "string option \<Rightarrow> bool" where
  "has_text t \<longleftrightarrow> js_trim (default_to t []) \<noteq> []"

definition stale :: "string \<Rightarrow> int \<Rightarrow> thread_row \<Rightarrow> bool" where
  "stale conversationId cutoff t \<longleftrightarrow>
     th_conversationId t = conversationId \<and> th_status t = ThOpen \<and> th_lastActiveAt t \<le> cutoff"

definition newest_first :: "message_row list \<Rightarrow> message_row list" where
  "newest_first ms = sort_key (\<lambda>m. - mg_createdAt m) ms"

text \<open>The newest messages of some threads, and the tail of each.\<close>

definition messages_of :: "string \<Rightarrow> string list \<Rightarrow> thread_db \<Rightarrow> message_row list" where
  "messages_of conversationId threadIds db = newest_first (filter (\<lambda>m.
     mg_conversationId m = conversationId \<and>
     (case mg_threadId m of None \<Rightarrow> False | Some t \<Rightarrow> t \<in> set threadIds)) (tb_messages db))"

definition tail_of :: "message_row list \<Rightarrow> string \<Rightarrow> message_row list" where
  "tail_of ms threadId = take TAIL_BUDGET (filter (\<lambda>m. truthy_str (mg_threadId m) = Some threadId) ms)"

definition transcript :: "message_row list \<Rightarrow> string" where
  "transcript ms = join_with newline (map (\<lambda>m. mg_role m @ '': '' @ mg_content m) (rev ms))"

definition archive_one :: "string \<Rightarrow> (string \<times> string list) option \<Rightarrow> thread_db \<Rightarrow> thread_db" where
  "archive_one threadId summary = update_threads (\<lambda>t. th_id t = threadId)
     (\<lambda>t. case summary of
        None \<Rightarrow> t\<lparr>th_status := ThArchived\<rparr>
      | Some (syn, ks) \<Rightarrow> t\<lparr>th_synopsis := Some syn, th_keywords := Some ks, th_status := ThArchived\<rparr>)"

fun archive_rows ::
    "'w outside \<Rightarrow> message_row list \<Rightarrow> nat \<Rightarrow> (string \<times> string option) list \<Rightarrow> ('w, unit) routing" where
  "archive_rows rt ms n [] = pret ()"
| "archive_rows rt ms n ((threadId, synopsis) # rows) =
     (let ls = transcript (tail_of ms threadId)
      in if \<not> has_text synopsis \<and> n < SYNOPSIS_BATCH_CAP \<and> js_trim ls \<noteq> [] then
           pbind (pmap_error (\<lambda>_. AgentError ''Failed to generate synopsis for archival'') (generateSynopsis rt ls)) (\<lambda>summary.
           pbind (updating rt (archive_one threadId (Some summary))) (\<lambda>_. archive_rows rt ms (Suc n) rows))
         else pbind (updating rt (archive_one threadId None)) (\<lambda>_. archive_rows rt ms n rows))"

definition archive_stale :: "'w outside \<Rightarrow> string \<Rightarrow> ('w, unit) routing" where
  "archive_stale rt conversationId =
     pbind (clock rt) (\<lambda>now.
     pbind (selecting rt (\<lambda>db. map (\<lambda>t. (th_id t, th_synopsis t))
       (filter (stale conversationId (now - STALE_ARCHIVE_MS)) (tb_threads db)))) (\<lambda>rows.
       let threadIds = map fst (filter (\<lambda>r. \<not> has_text (snd r)) rows)
       in pbind (if threadIds = [] then pret [] else selecting rt (messages_of conversationId threadIds)) (\<lambda>ms.
         archive_rows rt ms 0 rows)))"

definition archiveStaleThreads :: "'w outside \<Rightarrow> string \<Rightarrow> ('w, unit) routing" where
  "archiveStaleThreads rt conversationId =
     pmap_error (agent_error ''archiveStaleThreads failed'') (archive_stale rt conversationId)"

section \<open>The default thread\<close>

definition new_thread :: "int \<Rightarrow> string \<Rightarrow> string \<Rightarrow> thread_source \<Rightarrow> thread_row" where
  "new_thread now uuid conversationId source =
     \<lparr>th_id = uuid, th_conversationId = conversationId, th_source = source, th_externalKey = None,
      th_label = None, th_synopsis = None, th_keywords = None, th_isDefault = False, th_status = ThOpen,
      th_lastActiveAt = now, th_createdAt = now\<rparr>"

text \<open>With \<open>onConflictDoNothing\<close> a row in the way is no error, and nothing is returned.\<close>

definition inserting_unless :: "'w outside \<Rightarrow> thread_row \<Rightarrow> ('w, string option) routing" where
  "inserting_unless rt r = query rt (\<lambda>db.
     if list_ex (thread_conflict r) (tb_threads db) then Inr (db, None)
     else case insert_thread r db of Inl e \<Rightarrow> Inl e | Inr db1 \<Rightarrow> Inr (db1, Some (th_id r)))"

definition default_of :: "string \<Rightarrow> thread_db \<Rightarrow> string option" where
  "default_of conversationId db =
     map_option th_id (find_first (\<lambda>t. th_conversationId t = conversationId \<and> th_isDefault t) (tb_threads db))"

definition oldest_of :: "string \<Rightarrow> thread_db \<Rightarrow> string option" where
  "oldest_of conversationId db =
     (case sort_key th_createdAt (filter (\<lambda>t. th_conversationId t = conversationId) (tb_threads db)) of
        [] \<Rightarrow> None | t # _ \<Rightarrow> Some (th_id t))"

definition ensureDefaultThread :: "'w outside \<Rightarrow> string \<Rightarrow> ('w, string) routing" where
  "ensureDefaultThread rt conversationId =
     pmap_error (\<lambda>e. AgentError (''ensureDefaultThread failed: '' @ message_of e))
       (pbind (fresh_id rt) (\<lambda>uuid. pbind (clock rt) (\<lambda>now.
        pbind (inserting_unless rt ((new_thread now uuid conversationId SrcDerived)\<lparr>th_isDefault := True\<rparr>)) (\<lambda>row.
          case row of Some t \<Rightarrow> pret t
          | None \<Rightarrow> pbind (selecting rt (default_of conversationId)) (\<lambda>existing.
              case existing of Some t \<Rightarrow> pret t
              | None \<Rightarrow> pbind (selecting rt (oldest_of conversationId)) (\<lambda>fallback.
                  case fallback of Some t \<Rightarrow> pret t
                  | None \<Rightarrow> pthrow (AgentError ''Failed to create default thread'')))))))"

definition messageThreadFilter :: "string \<Rightarrow> string \<Rightarrow> bool \<Rightarrow> message_row \<Rightarrow> bool" where
  "messageThreadFilter conversationId threadId includeUnthreaded m \<longleftrightarrow>
     mg_conversationId m = conversationId \<and>
     (mg_threadId m = Some threadId \<or> includeUnthreaded \<and> mg_threadId m = None)"

definition count_messages :: "string \<Rightarrow> string \<Rightarrow> bool \<Rightarrow> thread_db \<Rightarrow> nat" where
  "count_messages conversationId threadId includeUnthreaded db =
     length (filter (messageThreadFilter conversationId threadId includeUnthreaded) (tb_messages db))"

section \<open>Resolution\<close>

record resolved =
  rv_threadId :: string
  rv_defaultThreadId :: string
  rv_decision :: route_decision
  rv_threadMessageCount :: nat
  rv_previousLastThreadId :: string
  rv_threadWasDormant :: bool

definition reopen :: "int \<Rightarrow> string \<Rightarrow> thread_db \<Rightarrow> thread_db" where
  "reopen now threadId =
     update_threads (\<lambda>t. th_id t = threadId) (\<lambda>t. t\<lparr>th_status := ThOpen, th_lastActiveAt := now\<rparr>)"

definition keyed_thread :: "string \<Rightarrow> string \<Rightarrow> thread_db \<Rightarrow> string option" where
  "keyed_thread conversationId key db = map_option th_id
     (find_first (\<lambda>t. th_conversationId t = conversationId \<and> th_externalKey t = Some key) (tb_threads db))"

definition native_thread :: "'w outside \<Rightarrow> string \<Rightarrow> string \<Rightarrow> string \<Rightarrow> ('w, resolved) routing" where
  "native_thread rt conversationId defaultThreadId key =
     pbind (selecting rt (keyed_thread conversationId key)) (\<lambda>existing.
     pbind (clock rt) (\<lambda>now.
     pbind (case existing of
         Some t \<Rightarrow> pbind (updating rt (reopen now t)) (\<lambda>_. pret t)
       | None \<Rightarrow> pbind (fresh_id rt) (\<lambda>uuid.
           inserting rt ((new_thread now uuid conversationId SrcNative)\<lparr>th_externalKey := Some key\<rparr>))) (\<lambda>threadId.
     pbind (selecting rt (count_messages conversationId threadId False)) (\<lambda>n.
       pret \<lparr>rv_threadId = threadId, rv_defaultThreadId = defaultThreadId,
         rv_decision = decided RContinue threadId SrcNative, rv_threadMessageCount = n,
         rv_previousLastThreadId = defaultThreadId, rv_threadWasDormant = False\<rparr>))))"

definition open_rows :: "string \<Rightarrow> thread_db \<Rightarrow> open_thread list" where
  "open_rows conversationId db =
     map (\<lambda>t. \<lparr>ot_id = th_id t, ot_label = th_label t, ot_synopsis = th_synopsis t, ot_keywords = th_keywords t,
         ot_lastActiveAt = th_lastActiveAt t\<rparr>)
       (take OPEN_THREADS_CAP (sort_key (\<lambda>t. - th_lastActiveAt t)
         (filter (\<lambda>t. th_conversationId t = conversationId \<and> th_status t = ThOpen) (tb_threads db))))"

definition last_message :: "string \<Rightarrow> thread_db \<Rightarrow> (string option \<times> int) option" where
  "last_message conversationId db =
     (case newest_first (filter (\<lambda>m. mg_conversationId m = conversationId) (tb_messages db)) of
        [] \<Rightarrow> None | m # _ \<Rightarrow> Some (mg_threadId m, mg_createdAt m))"

definition last_active :: "string \<Rightarrow> thread_db \<Rightarrow> int option" where
  "last_active threadId db = map_option th_lastActiveAt (find_first (\<lambda>t. th_id t = threadId) (tb_threads db))"

text \<open>The decision carried out: a new thread is inserted, another is opened again.\<close>

definition enter_thread ::
    "'w outside \<Rightarrow> string \<Rightarrow> string \<Rightarrow> string \<Rightarrow> route_decision \<Rightarrow> ('w, resolved) routing" where
  "enter_thread rt conversationId defaultThreadId previousLastThreadId decision =
     pbind (clock rt) (\<lambda>now.
     pbind (if de_action decision = RNew
         then inserting rt ((new_thread now (de_threadId decision) conversationId SrcDerived)
           \<lparr>th_label := de_label decision, th_keywords := de_keywords decision\<rparr>)
         else pret (de_threadId decision)) (\<lambda>threadId.
     pbind (selecting rt (last_active threadId)) (\<lambda>meta.
     pbind (selecting rt (count_messages conversationId threadId (threadId = defaultThreadId))) (\<lambda>n.
     pbind (if de_action decision \<noteq> RNew \<and> meta \<noteq> None then updating rt (reopen now threadId) else pret ()) (\<lambda>_.
       pret \<lparr>rv_threadId = threadId, rv_defaultThreadId = defaultThreadId, rv_decision = decision,
         rv_threadMessageCount = n, rv_previousLastThreadId = previousLastThreadId,
         rv_threadWasDormant = (case meta of None \<Rightarrow> False | Some t \<Rightarrow> now - t > DORMANT_MS)\<rparr>)))))"

definition derived_thread :: "'w outside \<Rightarrow> string \<Rightarrow> string \<Rightarrow> string \<Rightarrow> ('w, resolved) routing" where
  "derived_thread rt conversationId defaultThreadId inboundText =
     pbind (selecting rt (open_rows conversationId)) (\<lambda>openThreads.
     pbind (selecting rt (last_message conversationId)) (\<lambda>lastRow.
       case lastRow of
         None \<Rightarrow> pret \<lparr>rv_threadId = defaultThreadId, rv_defaultThreadId = defaultThreadId,
           rv_decision = decided RContinue defaultThreadId SrcDerived, rv_threadMessageCount = 0,
           rv_previousLastThreadId = defaultThreadId, rv_threadWasDormant = False\<rparr>
       | Some (lastThread, lastMessageAt) \<Rightarrow>
           (let previous = default_to lastThread defaultThreadId
            in pbind (clock rt) (\<lambda>now.
               pbind (case routeMessage now inboundText previous lastMessageAt openThreads of
                   Some d \<Rightarrow> pret d
                 | None \<Rightarrow> pmap_error (\<lambda>_. AgentError ''Thread routing model call failed'')
                     (routeWithModel rt inboundText openThreads previous)) (\<lambda>decision.
                 enter_thread rt conversationId defaultThreadId previous decision)))))"

definition resolveThread :: "'w outside \<Rightarrow> string \<Rightarrow> string \<Rightarrow> string option \<Rightarrow> ('w, resolved) routing" where
  "resolveThread rt conversationId inboundText threadKey =
     pmap_error (agent_error ''resolveThread failed'') (pbind (ensureDefaultThread rt conversationId) (\<lambda>defaultThreadId.
     ptry (archiveStaleThreads rt conversationId) (\<lambda>_.
       case truthy_str threadKey of
         Some key \<Rightarrow> native_thread rt conversationId defaultThreadId key
       | None \<Rightarrow> derived_thread rt conversationId defaultThreadId inboundText)))"

section \<open>Conversations\<close>

definition same_conversation :: "string \<Rightarrow> string \<Rightarrow> string \<Rightarrow> conversation_row \<Rightarrow> bool" where
  "same_conversation userId platform key c \<longleftrightarrow> cv_userId c = userId \<and> cv_platform c = platform \<and> cv_key c = key"

definition new_conversation :: "int \<Rightarrow> string \<Rightarrow> string \<Rightarrow> string \<Rightarrow> string \<Rightarrow> conversation_row" where
  "new_conversation now uuid userId platform key =
     \<lparr>cv_id = uuid, cv_userId = userId, cv_platform = platform, cv_key = key, cv_updatedAt = now\<rparr>"

definition conversation_of :: "string \<Rightarrow> string \<Rightarrow> string \<Rightarrow> thread_db \<Rightarrow> conversation_row option" where
  "conversation_of userId platform key db = find_first (same_conversation userId platform key) (tb_conversations db)"

definition upsert_conversation ::
    "int \<Rightarrow> string \<Rightarrow> string \<Rightarrow> string \<Rightarrow> string \<Rightarrow> thread_db \<Rightarrow> string + thread_db \<times> string" where
  "upsert_conversation now uuid userId platform key db =
     (case conversation_of userId platform key db of
        Some c \<Rightarrow> Inr (db\<lparr>tb_conversations := map (\<lambda>d. if same_conversation userId platform key d
            then d\<lparr>cv_updatedAt := now\<rparr> else d) (tb_conversations db)\<rparr>, cv_id c)
      | None \<Rightarrow>
          if list_ex (\<lambda>c. cv_id c = uuid) (tb_conversations db)
          then Inl ''duplicate key value violates unique constraint''
          else Inr (db\<lparr>tb_conversations := tb_conversations db @ [new_conversation now uuid userId platform key]\<rparr>, uuid))"

definition ensureConversation :: "'w outside \<Rightarrow> string \<Rightarrow> string \<Rightarrow> string \<Rightarrow> ('w, string) routing" where
  "ensureConversation rt userId platform key =
     pmap_error (\<lambda>e. AgentError (message_of e)) (pbind (fresh_id rt) (\<lambda>uuid. pbind (clock rt) (\<lambda>now.
       query rt (upsert_conversation now uuid userId platform key))))"

end
