(* ===== verification/TelegramCommands.thy ===== *)
theory TelegramCommands
  imports Telegram Router Workflow
begin

text \<open>
  The commands of the Telegram channel (\<open>handleCommand\<close> of \<open>packages/channels/src/telegram/utils.ts\<close>): they
  bring together the identity service, the conversations, the provisioning of a sandbox, the connected apps and
  the sender.  The state is their tables and the one world outside.  Product analytics are left out.
\<close>

section \<open>State\<close>

record 'w tele_state =
  te_ids :: id_db
  te_tables :: thread_db
  te_comp :: "'w comp_state"
  te_rows :: "link_row list"

record 'w tele_env =
  tv_platform :: "'w platform"
  tv_api :: "'w tg_api"
  tv_broker :: "'w broker"
  tv_conn :: conn_env
  tv_hasWorkflow :: bool

type_synonym ('w, 'a) tele = "('w tele_state, string, 'a) prog"

definition te_world :: "'w tele_state \<Rightarrow> 'w" where "te_world s = cm_world (te_comp s)"

definition set_world :: "'w \<Rightarrow> 'w tele_state \<Rightarrow> 'w tele_state" where
  "set_world w s = s\<lparr>te_comp := (te_comp s)\<lparr>cm_world := w\<rparr>\<rparr>"

text \<open>A program on a part of the state, run on the whole.\<close>

definition within_state ::
    "('s \<Rightarrow> 't) \<Rightarrow> ('t \<Rightarrow> 's \<Rightarrow> 's) \<Rightarrow> ('e \<Rightarrow> 'f) \<Rightarrow> ('t, 'e, 'a) prog \<Rightarrow> ('s, 'f, 'a) prog" where
  "within_state get put f m = (\<lambda>s. case m (get s) of
     None \<Rightarrow> None
   | Some (t, Inl e) \<Rightarrow> Some (put t s, Inl (f e))
   | Some (t, Inr x) \<Rightarrow> Some (put t s, Inr x))"

definition on_api :: "('w, string, 'a) prog \<Rightarrow> ('w, 'a) tele" where
  "on_api m = within_state te_world set_world (\<lambda>e. e) m"

definition on_compute :: "('w comp_state, api_error, 'a) prog \<Rightarrow> ('w, 'a) tele" where
  "on_compute m = within_state te_comp (\<lambda>c s. s\<lparr>te_comp := c\<rparr>) (\<lambda>e. case e of ApiError _ t \<Rightarrow> t) m"

definition on_apps :: "('w, 'a) conn \<Rightarrow> ('w, 'a) tele" where
  "on_apps m = within_state (\<lambda>s. \<lparr>cn_rows = te_rows s, cn_world = te_world s\<rparr>)
     (\<lambda>c s. set_world (cn_world c) (s\<lparr>te_rows := cn_rows c\<rparr>)) (\<lambda>e. e) m"

section \<open>Users\<close>

definition int_text :: "int \<Rightarrow> string" where
  "int_text n = (if n < 0 then CHR ''-'' # nat_digits (nat (- n)) else nat_digits (nat n))"

definition buildProfileMetadata :: "tg_from \<Rightarrow> int \<Rightarrow> (string \<times> json) list" where
  "buildProfileMetadata f chat =
     [(''chatId'', JNum chat), (''username'', json_opt (tf_username f)), (''firstName'', JStr (tf_first_name f)),
      (''lastName'', json_opt (tf_last_name f)), (''languageCode'', json_opt (tf_language_code f)),
      (''isPremium'', JBool (default_to (tf_is_premium f) False))]"

definition toTelegramProvisionInput :: "tg_from \<Rightarrow> int \<Rightarrow> provision_input" where
  "toTelegramProvisionInput f chat =
     \<lparr>pi_source = FromBot, pi_chatId = Some (Some (int_text chat)),
      pi_profile = \<lparr>pr_id = int_text (tf_id f), pr_firstName = tf_first_name f, pr_lastName = tf_last_name f,
        pr_username = tf_username f, pr_languageCode = tf_language_code f,
        pr_isPremium = Some (default_to (tf_is_premium f) False), pr_photoUrl = None, pr_phoneNumber = None,
        pr_email = None, pr_emailVerified = None\<rparr>\<rparr>"

definition resolveTelegramUser :: "'w tele_env \<Rightarrow> tg_from \<Rightarrow> int \<Rightarrow> ('w, id_outcome) tele" where
  "resolveTelegramUser env f chat = (\<lambda>s.
     case pf_uuid (tv_platform env) (te_world s) of (w1, u1) \<Rightarrow>
     case pf_uuid (tv_platform env) w1 of (w2, u2) \<Rightarrow>
     case provisionFromBot (pf_now (tv_platform env) w2) u1 u2 (te_ids s) (toTelegramProvisionInput f chat) of
       (ids, r) \<Rightarrow> Some (set_world w2 (s\<lparr>te_ids := ids\<rparr>), r))"

definition findOrCreateUser :: "'w tele_env \<Rightarrow> tg_from \<Rightarrow> int \<Rightarrow> ('w, string) tele" where
  "findOrCreateUser env f chat =
     pbind (resolveTelegramUser env f chat) (\<lambda>r. case r of
       IdBlocked _ _ \<Rightarrow> pthrow TELEGRAM_RELINK_REQUIRED_MESSAGE
     | IdProvisioned user _ \<Rightarrow> pret user)"

section \<open>The start of a session\<close>

text \<open>With \<open>onConflictDoNothing\<close>; the user is a foreign key.\<close>

definition ensureTelegramConversation :: "'w tele_env \<Rightarrow> string \<Rightarrow> int \<Rightarrow> ('w, unit) tele" where
  "ensureTelegramConversation env user chat = (\<lambda>s.
     case pf_uuid (tv_platform env) (te_world s) of (w, uuid) \<Rightarrow>
       (let s1 = set_world w s; db = te_tables s; key = int_text chat
        in if conversation_of user ''telegram'' key db \<noteq> None \<or>
              list_ex (\<lambda>c. cv_id c = uuid) (tb_conversations db) then Some (s1, Inr ())
           else if \<not> list_ex (\<lambda>u. us_id u = user) (id_users (te_ids s))
           then Some (s1, Inl ''insert violates foreign key constraint'')
           else Some (s1\<lparr>te_tables := db\<lparr>tb_conversations := tb_conversations db @
             [new_conversation (pf_now (tv_platform env) w) uuid user ''telegram'' key]\<rparr>\<rparr>, Inr ())))"

text \<open>A sandbox that cannot be started is only logged.\<close>

definition startTelegramSession :: "'w tele_env \<Rightarrow> string \<Rightarrow> int \<Rightarrow> ('w, unit) tele" where
  "startTelegramSession env user chat =
     pbind (ensureTelegramConversation env user chat) (\<lambda>_.
       if tv_hasWorkflow env
       then ptry (on_compute (kickOffSandboxProvisionIfNeeded (tv_platform env) user)) (\<lambda>_. pret ())
       else pret ())"

section \<open>Connections\<close>

definition reply :: "'w tele_env \<Rightarrow> int \<Rightarrow> string \<Rightarrow> ('w, unit) tele" where
  "reply env chat t = on_api (sendMessage (tv_api env) chat t)"

definition LINK_UNKNOWN :: string where
  "LINK_UNKNOWN = ''That connection link isn't recognized anymore. Just let me know which app you'd like to connect and I'll send a fresh one.''"

definition not_configured :: "toolkit \<Rightarrow> string" where
  "not_configured t = ''I couldn't verify '' @ getIntegrationLabel t @
     '' because app connections aren't configured on this deployment yet.''"

definition not_confirmed :: "toolkit \<Rightarrow> string" where
  "not_confirmed t = ''I couldn't confirm the '' @ getIntegrationLabel t @
     '' connection yet. If you just finished authorizing it, wait a few seconds and send /start again. If you need a fresh link, ask me to connect '' @
     getIntegrationLabel t @ ''.''"

definition sendIntegrationStartResult :: "'w tele_env \<Rightarrow> string \<Rightarrow> int \<Rightarrow> string \<Rightarrow> ('w, unit) tele" where
  "sendIntegrationStartResult env user chat payload =
     (case parseIntegrationStartPayload (Some payload) of
        None \<Rightarrow> reply env chat LINK_UNKNOWN
      | Some t \<Rightarrow>
          if \<not> ce_enabled (tv_conn env) then reply env chat (not_configured t)
          else pbind (on_apps (listIntegrations (tv_conn env) (tv_broker env) user)) (\<lambda>integrations.
            if (case find_first (\<lambda>i. sm_toolkit i = t) integrations of None \<Rightarrow> False | Some i \<Rightarrow> sm_connected i)
            then pbind (on_apps (clearPendingIntegrationRequest user t)) (\<lambda>_.
              reply env chat (getIntegrationSuccessMessage (ce_emdash (tv_conn env)) t))
            else reply env chat (not_confirmed t)))"

section \<open>Commands\<close>

definition welcome_text :: "tg_from \<Rightarrow> string" where
  "welcome_text f = ''Welcome to Amby, '' @ tf_first_name f @
     ''! I'm your personal ambient assistant. Just send me a message and I'll help you out.''"

definition PAUSED :: string where "PAUSED = ''Paused. Send /start to resume.''"

definition help_text :: "string \<Rightarrow> string" where
  "help_text emdash = join_with [CHR 0x0A]
     [''Available commands:'',
      dash_message emdash ''/start'' ''Start or resume the assistant'',
      dash_message emdash ''/stop'' ''Pause the assistant'',
      dash_message emdash ''/help'' ''Show this help message'',
      [],
      ''Or just send me any text message!'']"

definition handleCommand :: "'w tele_env \<Rightarrow> parsed_command \<Rightarrow> tg_from \<Rightarrow> int \<Rightarrow> ('w, unit) tele" where
  "handleCommand env c f chat =
     pbind (resolveTelegramUser env f chat) (\<lambda>who. case who of
       IdBlocked _ _ \<Rightarrow> reply env chat TELEGRAM_RELINK_REQUIRED_MESSAGE
     | IdProvisioned user _ \<Rightarrow>
         (case pc_command c of
            CmdStart \<Rightarrow> pbind (startTelegramSession env user chat) (\<lambda>_.
              case truthy_str (pc_payload c) of
                Some payload \<Rightarrow> sendIntegrationStartResult env user chat payload
              | None \<Rightarrow> reply env chat (welcome_text f))
          | CmdStop \<Rightarrow> reply env chat PAUSED
          | CmdHelp \<Rightarrow> reply env chat (help_text (ce_emdash (tv_conn env)))))"

end
