(* ===== verification/Triples.thy ===== *)
theory Triples
  imports Programs
begin

text \<open>
  Triples for programs: what holds before a run, of the value and the state it returns, and of the state
  it leaves when it throws.
\<close>

definition triple ::
    "('s \<Rightarrow> bool) \<Rightarrow> ('s, 'e, 'a) prog \<Rightarrow> ('a \<Rightarrow> 's \<Rightarrow> bool) \<Rightarrow> ('s \<Rightarrow> bool) \<Rightarrow> bool" where
  "triple P m Q E \<longleftrightarrow> (\<forall>s s' r. P s \<longrightarrow> m s = Some (s', r) \<longrightarrow> (case r of Inl _ \<Rightarrow> E s' | Inr x \<Rightarrow> Q x s'))"

lemma tripleI:
  assumes "\<And>s s' x. P s \<Longrightarrow> m s = Some (s', Inr x) \<Longrightarrow> Q x s'"
    and "\<And>s s' e. P s \<Longrightarrow> m s = Some (s', Inl e) \<Longrightarrow> E s'"
  shows "triple P m Q E"
  unfolding triple_def
proof (intro allI impI)
  fix s s' r assume "P s" "m s = Some (s', r)"
  with assms show "case r of Inl _ \<Rightarrow> E s' | Inr x \<Rightarrow> Q x s'" by (cases r) simp_all
qed

lemma triple_ok: "triple P m Q E \<Longrightarrow> P s \<Longrightarrow> m s = Some (s', Inr x) \<Longrightarrow> Q x s'"
  by (fastforce simp: triple_def)

lemma triple_error: "triple P m Q E \<Longrightarrow> P s \<Longrightarrow> m s = Some (s', Inl e) \<Longrightarrow> E s'"
  by (fastforce simp: triple_def)

lemma triple_keeps: "keeps I m \<longleftrightarrow> triple I m (\<lambda>_. I) I"
  unfolding triple_def keeps_def by (auto split: sum.split)

lemmas keeps_triple = triple_keeps [THEN iffD2] and triple_of_keeps = triple_keeps [THEN iffD1]

lemma triple_weaken:
  assumes "triple P m Q E" "\<And>s. P' s \<Longrightarrow> P s" "\<And>x s. Q x s \<Longrightarrow> Q' x s" "\<And>s. E s \<Longrightarrow> E' s"
  shows "triple P' m Q' E'"
  using assms by (intro tripleI) (blast dest: triple_ok triple_error)+

lemma triple_return: "(\<And>s. P s \<Longrightarrow> Q x s) \<Longrightarrow> triple P (pret x) Q E"
  by (auto intro: tripleI simp: pret_def)

lemma triple_throw: "(\<And>s. P s \<Longrightarrow> E s) \<Longrightarrow> triple P (pthrow e) Q E"
  by (auto intro: tripleI simp: pthrow_def)

lemma triple_get: "(\<And>s. P s \<Longrightarrow> Q (f s) s) \<Longrightarrow> triple P (pget f) Q E"
  by (auto intro: tripleI simp: pget_def)

lemma triple_bind:
  assumes "triple P m R E" "\<And>x. triple (R x) (k x) Q E"
  shows "triple P (pbind m k) Q E"
  using assms by (intro tripleI) (auto elim!: pbindE dest: triple_ok triple_error)

lemma triple_map_error: "triple P m Q E \<Longrightarrow> triple P (pmap_error f m) Q E"
  by (intro tripleI) (auto elim!: pmap_errorE dest: triple_ok triple_error)

lemma triple_try:
  assumes m: "triple P m R F" and ok: "\<And>x. triple (R x) (k (Inr x)) Q E" and er: "\<And>e. triple F (k (Inl e)) Q E"
  shows "triple P (ptry m k) Q E"
proof (rule tripleI)
  fix s s' y assume P: "P s" "ptry m k s = Some (s', Inr y)"
  then obtain s1 r where r: "m s = Some (s1, r)" "k r s1 = Some (s', Inr y)" by (auto simp: ptry_Some)
  show "Q y s'"
  proof (cases r)
    case (Inl e) with r P show ?thesis by (auto intro: triple_ok [OF er] triple_error [OF m])
  next
    case (Inr x) with r P show ?thesis by (auto intro: triple_ok [OF ok] triple_ok [OF m])
  qed
next
  fix s s' d assume P: "P s" "ptry m k s = Some (s', Inl d)"
  then obtain s1 r where r: "m s = Some (s1, r)" "k r s1 = Some (s', Inl d)" by (auto simp: ptry_Some)
  show "E s'"
  proof (cases r)
    case (Inl e) with r P show ?thesis by (auto intro: triple_error [OF er] triple_error [OF m])
  next
    case (Inr x) with r P show ?thesis by (auto intro: triple_error [OF ok] triple_ok [OF m])
  qed
qed

lemma triple_if: "(b \<Longrightarrow> triple P m Q E) \<Longrightarrow> (\<not> b \<Longrightarrow> triple P n Q E) \<Longrightarrow> triple P (if b then m else n) Q E"
  by simp

lemma triple_option:
  "(v = None \<Longrightarrow> triple P m Q E) \<Longrightarrow> (\<And>x. v = Some x \<Longrightarrow> triple P (k x) Q E) \<Longrightarrow>
   triple P (case v of None \<Rightarrow> m | Some x \<Rightarrow> k x) Q E"
  by (cases v) simp_all

section \<open>Programs that return\<close>

definition responds :: "('s, 'e, 'a) prog \<Rightarrow> bool" where
  "responds m \<longleftrightarrow> (\<forall>s. m s \<noteq> None)"

named_theorems responds_rules "how programs return"

lemma responds_basic [responds_rules]: "responds (pret x)" "responds (pthrow e)" "responds (pget f)" "responds (pmodify g)"
  by (simp_all add: responds_def pret_def pthrow_def pget_def pmodify_def)

lemma responds_try [responds_rules]: "responds m \<Longrightarrow> (\<And>r. responds (k r)) \<Longrightarrow> responds (ptry m k)"
  by (simp add: responds_def ptry_def split: option.split prod.split)

lemma responds_bind [responds_rules]: "responds m \<Longrightarrow> (\<And>x. responds (k x)) \<Longrightarrow> responds (pbind m k)"
  unfolding pbind_def by (intro responds_try) (auto intro: responds_basic split: sum.split)

lemma responds_map_error [responds_rules]: "responds m \<Longrightarrow> responds (pmap_error f m)"
  unfolding pmap_error_def by (intro responds_try) (auto intro: responds_basic split: sum.split)

lemma responds_if [responds_rules]:
  "(b \<Longrightarrow> responds m) \<Longrightarrow> (\<not> b \<Longrightarrow> responds n) \<Longrightarrow> responds (if b then m else n)"
  by simp

lemma responds_option [responds_rules]:
  "responds m \<Longrightarrow> (\<And>x. responds (k x)) \<Longrightarrow> responds (case v of None \<Rightarrow> m | Some x \<Rightarrow> k x)"
  by (cases v) simp_all

lemma responds_sum [responds_rules]:
  "(\<And>e. responds (m e)) \<Longrightarrow> (\<And>x. responds (k x)) \<Longrightarrow> responds (case v of Inl e \<Rightarrow> m e | Inr x \<Rightarrow> k x)"
  by (cases v) simp_all

end
