(* ===== verification/RouterInv.thy ===== *)
theory RouterInv
  imports Router Triples
begin

text \<open>
  The routing of messages: what every program keeps of the tables, that every program answers, and what each
  yields when it succeeds; the lemmas under the properties of \<open>RouterProps\<close>.
\<close>

section \<open>Tables\<close>

definition has_thread :: "string \<Rightarrow> string \<Rightarrow> thread_db \<Rightarrow> bool" where
  "has_thread c t db \<longleftrightarrow> (\<exists>r \<in> set (tb_threads db). th_id r = t \<and> th_conversationId r = c)"

definition thread_open :: "string \<Rightarrow> thread_db \<Rightarrow> bool" where
  "thread_open t db \<longleftrightarrow> (\<exists>r \<in> set (tb_threads db). th_id r = t \<and> th_status r = ThOpen)"

text \<open>
  No two threads are in each other's way, every thread has its conversation, and a message's thread is one of
  the message's conversation.
\<close>

definition threads_ok :: "thread_db \<Rightarrow> bool" where
  "threads_ok db \<longleftrightarrow>
     sorted_wrt (\<lambda>t r. \<not> thread_conflict r t) (tb_threads db) \<and>
     list_all (\<lambda>t. list_ex (\<lambda>c. cv_id c = th_conversationId t) (tb_conversations db)) (tb_threads db) \<and>
     list_all (\<lambda>m. case mg_threadId m of None \<Rightarrow> True | Some t \<Rightarrow> has_thread (mg_conversationId m) t db)
       (tb_messages db)"

lemma has_thread_insert: "has_thread c t db \<Longrightarrow> insert_thread r db = Inr db' \<Longrightarrow> has_thread c t db'"
  by (auto simp: has_thread_def insert_thread_def split: if_splits)

lemma threads_ok_insert:
  assumes "threads_ok db" "insert_thread r db = Inr db'"
  shows "threads_ok db'"
proof -
  have db': "db' = db\<lparr>tb_threads := tb_threads db @ [r]\<rparr>" and free: "\<forall>t\<in>set (tb_threads db). \<not> thread_conflict r t"
    and conv: "list_ex (\<lambda>c. cv_id c = th_conversationId r) (tb_conversations db)"
    using assms(2) by (auto simp: insert_thread_def list_ex_iff split: if_splits)
  with assms has_thread_insert [OF _ assms(2)] show ?thesis
    by (auto simp: threads_ok_def db' sorted_wrt_append list_all_iff split: option.splits)
qed

text \<open>An update keeps the columns of the indexes.\<close>

definition keeps_keys :: "(thread_row \<Rightarrow> thread_row) \<Rightarrow> bool" where
  "keeps_keys f \<longleftrightarrow> (\<forall>t. th_id (f t) = th_id t \<and> th_conversationId (f t) = th_conversationId t \<and>
     th_isDefault (f t) = th_isDefault t \<and> th_externalKey (f t) = th_externalKey t)"

lemma update_threads_parts [simp]:
  "tb_threads (update_threads p f db) = map (\<lambda>t. if p t then f t else t) (tb_threads db)"
  "tb_messages (update_threads p f db) = tb_messages db"
  "tb_conversations (update_threads p f db) = tb_conversations db"
  by (simp_all add: update_threads_def)

lemma has_thread_update [simp]:
  assumes "keeps_keys f"
  shows "has_thread c t (update_threads p f db) = has_thread c t db"
  using assms by (auto simp: has_thread_def update_threads_def keeps_keys_def)

lemma conflict_update:
  assumes "keeps_keys f"
  shows "thread_conflict (if p r then f r else r) (if p t then f t else t) = thread_conflict r t"
  using assms by (simp add: thread_conflict_def keeps_keys_def)

lemma threads_ok_update:
  assumes "threads_ok db" "keeps_keys f"
  shows "threads_ok (update_threads p f db)"
proof -
  have "list_all (\<lambda>t. list_ex (\<lambda>c. cv_id c = th_conversationId t) (tb_conversations db))
      (map (\<lambda>t. if p t then f t else t) (tb_threads db))"
    using assms by (auto simp: threads_ok_def list_all_iff keeps_keys_def)
  moreover have "sorted_wrt (\<lambda>t r. \<not> thread_conflict r t) (map (\<lambda>t. if p t then f t else t) (tb_threads db))"
    using assms by (simp add: threads_ok_def sorted_wrt_map conflict_update)
  moreover have "list_all (\<lambda>m. case mg_threadId m of None \<Rightarrow> True
      | Some t \<Rightarrow> has_thread (mg_conversationId m) t (update_threads p f db)) (tb_messages db)"
    using assms(1) unfolding has_thread_update [OF assms(2)] threads_ok_def by simp
  ultimately show ?thesis by (simp add: threads_ok_def)
qed

lemma keeps_keys_archive [simp]: "keeps_keys (\<lambda>t. case v of None \<Rightarrow> t\<lparr>th_status := ThArchived\<rparr>
    | Some (syn, ks) \<Rightarrow> t\<lparr>th_synopsis := Some syn, th_keywords := Some ks, th_status := ThArchived\<rparr>)"
  by (simp add: keeps_keys_def split: option.split prod.split)

lemma keeps_keys_open [simp]: "keeps_keys (\<lambda>t. t\<lparr>th_status := ThOpen, th_lastActiveAt := now\<rparr>)"
  by (simp add: keeps_keys_def)

section \<open>What every program keeps\<close>

text \<open>
  A predicate of the tables that inserting a thread and updating threads keep, is kept by every program: the
  tables stay consistent, a thread stays there, the messages stay the same.
\<close>

locale table_law =
  fixes I :: "thread_db \<Rightarrow> bool"
  assumes insert: "I db \<Longrightarrow> insert_thread r db = Inr db' \<Longrightarrow> I db'"
    and update: "I db \<Longrightarrow> keeps_keys f \<Longrightarrow> I (update_threads p f db)"
begin

abbreviation "J \<equiv> \<lambda>s. I (rs_db s)"

lemma outside [keeps_rules]: "keeps J (outside f)"
  by (auto simp: keeps_def outside_def split: prod.splits sum.splits)

lemma fresh_id [keeps_rules]: "keeps J (fresh_id rt)" "keeps J (clock rt)"
  unfolding fresh_id_def clock_def by (rule outside keeps_basic)+

lemma query: "(\<And>db db' x. I db \<Longrightarrow> f db = Inr (db', x) \<Longrightarrow> I db') \<Longrightarrow> keeps J (query rt f)"
  by (auto simp: keeps_def query_def split: prod.splits sum.splits option.splits)

lemma selecting [keeps_rules]: "keeps J (selecting rt f)"
  unfolding selecting_def by (rule query) simp

lemma updates [keeps_rules]:
  "keeps J (updating rt (archive_one t summary))" "keeps J (updating rt (reopen now t))"
  unfolding updating_def by (rule query, auto simp: archive_one_def reopen_def update)+

lemma inserting [keeps_rules]: "keeps J (inserting rt r)" "keeps J (inserting_unless rt r)"
  unfolding inserting_def inserting_unless_def
  by (rule query, auto split: sum.splits if_splits intro: insert)+

lemma model [keeps_rules]: "keeps J (routeWithModel rt message ts prev)" "keeps J (generateSynopsis rt lines)"
  unfolding routeWithModel_def generateSynopsis_def
  by (auto intro!: keeps_rules split: route_action.split prod.split)

lemma archive_rows [keeps_rules]: "keeps J (archive_rows rt ms n rows)"
  by (induction rt ms n rows rule: archive_rows.induct) (auto intro!: keeps_rules simp: Let_def)

lemma archive [keeps_rules]: "keeps J (archiveStaleThreads rt c)"
  unfolding archiveStaleThreads_def archive_stale_def Let_def by (intro keeps_rules)

lemma default [keeps_rules]: "keeps J (ensureDefaultThread rt c)"
  unfolding ensureDefaultThread_def by (intro keeps_rules)

lemma native [keeps_rules]: "keeps J (native_thread rt c d key)"
  unfolding native_thread_def by (intro keeps_rules)

lemma enter [keeps_rules]: "keeps J (enter_thread rt c d prev decision)"
  unfolding enter_thread_def by (intro keeps_rules)

lemma derived [keeps_rules]: "keeps J (derived_thread rt c d message)"
  unfolding derived_thread_def Let_def by (intro keeps_rules) (auto intro!: keeps_rules split: prod.split)

lemma resolve: "keeps J (resolveThread rt c message key)"
  unfolding resolveThread_def by (intro keeps_rules)

end

text \<open>Consistent tables with some threads of a conversation there, and these messages.\<close>

definition frame :: "string \<Rightarrow> string list \<Rightarrow> message_row list \<Rightarrow> thread_db \<Rightarrow> bool" where
  "frame c ts ms db \<longleftrightarrow> threads_ok db \<and> (\<forall>t\<in>set ts. has_thread c t db) \<and> tb_messages db = ms"

lemma frame_insert: "frame c ts ms db \<Longrightarrow> insert_thread r db = Inr db' \<Longrightarrow> frame c ts ms db'"
  by (auto simp: frame_def intro: threads_ok_insert has_thread_insert) (auto simp: insert_thread_def split: if_splits)

interpretation frame: table_law "frame c ts ms"
  by unfold_locales (simp_all add: frame_insert, simp_all add: frame_def threads_ok_update)

section \<open>Every program answers\<close>

lemma responds_tables [responds_rules]:
  "responds (outside f)" "responds (fresh_id rt)" "responds (clock rt)" "responds (query rt g)"
  "responds (selecting rt h)" "responds (updating rt u)" "responds (inserting rt r)" "responds (inserting_unless rt r)"
  by (auto simp: responds_def outside_def fresh_id_def clock_def pget_def query_def selecting_def updating_def
      inserting_def inserting_unless_def split: prod.splits sum.splits option.splits)

lemma responds_rows [responds_rules]: "responds (archive_rows rt ms n rows)"
  by (induction rt ms n rows rule: archive_rows.induct)
    (auto intro!: responds_rules simp: Let_def generateSynopsis_def split: prod.split)

lemma responds_model [responds_rules]: "responds (routeWithModel rt message ts prev)"
  unfolding routeWithModel_def by (auto intro!: responds_rules split: route_action.split)

lemma responds_archive [responds_rules]: "responds (archiveStaleThreads rt c)"
  unfolding archiveStaleThreads_def archive_stale_def Let_def by (intro responds_rules)

lemma responds_resolve: "responds (resolveThread rt c message key)"
  unfolding resolveThread_def ensureDefaultThread_def native_thread_def derived_thread_def
    enter_thread_def Let_def
  by (intro responds_rules) (auto intro!: responds_rules split: prod.split)

section \<open>What a program yields\<close>

text \<open>From tables with one property, when it returns a value, the value and the tables have another.\<close>

definition yields :: "(thread_db \<Rightarrow> bool) \<Rightarrow> ('w, 'a) routing \<Rightarrow> ('a \<Rightarrow> thread_db \<Rightarrow> bool) \<Rightarrow> bool" where
  "yields P m Q \<longleftrightarrow> (\<forall>s s' x. P (rs_db s) \<longrightarrow> m s = Some (s', Inr x) \<longrightarrow> Q x (rs_db s'))"

lemma yieldsD: "yields P m Q \<Longrightarrow> m s = Some (s', Inr x) \<Longrightarrow> P (rs_db s) \<Longrightarrow> Q x (rs_db s')"
  unfolding yields_def by blast

lemma yields_keeps: "keeps (\<lambda>s. P (rs_db s)) m \<Longrightarrow> yields P m (\<lambda>_. P)"
  unfolding yields_def keeps_def by blast

lemma yields_ret: "(\<And>db. P db \<Longrightarrow> Q x db) \<Longrightarrow> yields P (pret x) Q"
  by (simp add: yields_def pret_def)

lemma yields_throw: "yields P (pthrow e) Q"
  by (simp add: yields_def pthrow_def)

lemma yields_bind: "yields P m R \<Longrightarrow> (\<And>x. yields (R x) (k x) Q) \<Longrightarrow> yields P (pbind m k) Q"
  unfolding yields_def by (blast elim: pbind_okE)

lemma yields_post: "yields P m R \<Longrightarrow> (\<And>x db. R x db \<Longrightarrow> Q x db) \<Longrightarrow> yields P m Q"
  unfolding yields_def by blast

lemma yields_error: "yields P m Q \<Longrightarrow> yields P (pmap_error f m) Q"
  unfolding yields_def by (blast elim: pmap_errorE)

lemma yields_try:
  assumes "keeps (\<lambda>s. P (rs_db s)) m" "\<And>r. yields P (k r) Q"
  shows "yields P (ptry m k) Q"
  using assms unfolding yields_def keeps_def ptry_Some by blast

lemma yields_select: "(\<And>db. P db \<Longrightarrow> Q (f db) db) \<Longrightarrow> yields P (selecting rt f) Q"
  by (auto simp: yields_def selecting_def query_def split: prod.splits option.splits)

lemma yields_update: "(\<And>db. P db \<Longrightarrow> Q () (f db)) \<Longrightarrow> yields P (updating rt f) Q"
  by (auto simp: yields_def updating_def query_def split: prod.splits option.splits)

lemma yields_insert:
  "(\<And>db db'. P db \<Longrightarrow> insert_thread r db = Inr db' \<Longrightarrow> Q (th_id r) db') \<Longrightarrow> yields P (inserting rt r) Q"
  by (auto simp: yields_def inserting_def query_def split: prod.splits option.splits sum.splits)

lemma yields_unless:
  assumes "\<And>db. P db \<Longrightarrow> Q None db" "\<And>db db'. P db \<Longrightarrow> insert_thread r db = Inr db' \<Longrightarrow> Q (Some (th_id r)) db'"
  shows "yields P (inserting_unless rt r) Q"
  using assms by (auto simp: yields_def inserting_unless_def query_def split: prod.splits option.splits sum.splits if_splits)

lemma yields_outside: "(\<And>db x. P db \<Longrightarrow> Q x db) \<Longrightarrow> yields P (outside f) Q"
  by (auto simp: yields_def outside_def split: prod.splits sum.splits)

lemma yields_fresh: "yields P (fresh_id rt) (\<lambda>_. P)" "yields P (clock rt) (\<lambda>_. P)"
  unfolding fresh_id_def by (rule yields_outside) (auto simp: yields_def clock_def pget_def)

lemma yields_option:
  "(v = None \<Longrightarrow> yields P m Q) \<Longrightarrow> (\<And>x. v = Some x \<Longrightarrow> yields P (k x) Q) \<Longrightarrow>
   yields P (case v of None \<Rightarrow> m | Some x \<Rightarrow> k x) Q"
  by (cases v) simp_all

lemma yields_if: "(b \<Longrightarrow> yields P m Q) \<Longrightarrow> (\<not> b \<Longrightarrow> yields P n Q) \<Longrightarrow> yields P (if b then m else n) Q"
  by simp

section \<open>The default thread\<close>

lemma insert_has: "insert_thread r db = Inr db' \<Longrightarrow> has_thread (th_conversationId r) (th_id r) db'"
  by (auto simp: has_thread_def insert_thread_def split: if_splits)

lemma default_has: "default_of c db = Some t \<Longrightarrow> has_thread c t db"
  by (auto simp: default_of_def has_thread_def dest: find_first_Some)

lemma oldest_has: "oldest_of c db = Some t \<Longrightarrow> has_thread c t db"
proof -
  assume "oldest_of c db = Some t"
  then obtain r rs where "sort_key th_createdAt (filter (\<lambda>t. th_conversationId t = c) (tb_threads db)) = r # rs"
    and t: "t = th_id r" by (auto simp: oldest_of_def split: list.splits)
  then have "r \<in> set (filter (\<lambda>t. th_conversationId t = c) (tb_threads db))"
    by (metis list.set_intros(1) set_sort)
  with t show ?thesis by (auto simp: has_thread_def)
qed

lemma default_yields:
  "yields (frame c ts ms) (ensureDefaultThread rt c) (\<lambda>d. frame c (d # ts) ms)"
  unfolding ensureDefaultThread_def
  apply (intro yields_error yields_bind [OF yields_fresh(1)] yields_bind [OF yields_fresh(2)])
  apply (rule yields_bind [where R = "\<lambda>row db. frame c ts ms db \<and> (\<forall>d. row = Some d \<longrightarrow> has_thread c d db)"])
   apply (rule yields_unless, simp)
   apply (fastforce dest: insert_has frame_insert simp: new_thread_def)
  apply (rule yields_option)
   apply (rule yields_bind [OF yields_select
       [where Q = "\<lambda>row db. frame c ts ms db \<and> (\<forall>d. row = Some d \<longrightarrow> has_thread c d db)"]])
    apply (simp add: default_has)
   apply (rule yields_option)
    apply (rule yields_bind [OF yields_select
       [where Q = "\<lambda>row db. frame c ts ms db \<and> (\<forall>d. row = Some d \<longrightarrow> has_thread c d db)"]])
     apply (simp add: oldest_has)
    apply (rule yields_option)
     apply (rule yields_throw)
    apply (rule yields_ret, simp add: frame_def)+
  done

section \<open>The resolved thread\<close>

lemma reopen_open: "has_thread c t db \<Longrightarrow> thread_open t (reopen now t db)"
proof -
  assume "has_thread c t db"
  then obtain r where r: "r \<in> set (tb_threads db)" "th_id r = t" by (auto simp: has_thread_def)
  then have "r\<lparr>th_status := ThOpen, th_lastActiveAt := now\<rparr> \<in> set (tb_threads (reopen now t db))"
    by (auto simp: reopen_def)
  with r(2) show ?thesis unfolding thread_open_def by (intro bexI) simp_all
qed

lemma insert_open: "insert_thread r db = Inr db' \<Longrightarrow> th_status r = ThOpen \<Longrightarrow> thread_open (th_id r) db'"
  by (auto simp: thread_open_def insert_thread_def split: if_splits)

lemma frame_reopen: "frame c ts ms db \<Longrightarrow> frame c ts ms (reopen now t db)"
  by (simp add: reopen_def frame.update)

lemma frame_new: "frame c ts ms db \<Longrightarrow> insert_thread r db = Inr db' \<Longrightarrow> th_conversationId r = c \<Longrightarrow>
  frame c (th_id r # ts) ms db'"
  using frame_insert [of c ts ms db r db'] insert_has [of r db db'] by (auto simp: frame_def)

lemma active_thread: "has_thread c t db \<Longrightarrow> last_active t db \<noteq> None"
  by (auto simp: has_thread_def last_active_def find_first_None)

lemma keyed_has: "keyed_thread c key db = Some t \<Longrightarrow> has_thread c t db"
  by (auto simp: keyed_thread_def has_thread_def dest: find_first_Some)

lemma count_reopen [simp]: "count_messages c t b (reopen now u db) = count_messages c t b db"
  by (simp add: count_messages_def reopen_def)

text \<open>
  A resolution is right: the thread and the default thread are threads of the conversation, and the number of
  messages is that of the thread; with those without a thread for the default one.
\<close>

definition right :: "bool \<Rightarrow> string \<Rightarrow> string \<Rightarrow> message_row list \<Rightarrow> resolved \<Rightarrow> thread_db \<Rightarrow> bool" where
  "right unthreaded c d ms v db \<longleftrightarrow>
     frame c [d, rv_threadId v] ms db \<and> rv_defaultThreadId v = d \<and>
     rv_threadMessageCount v = count_messages c (rv_threadId v) (unthreaded \<and> rv_threadId v = d) db"

definition entered :: "string \<Rightarrow> string \<Rightarrow> message_row list \<Rightarrow> string \<Rightarrow> thread_db \<Rightarrow> bool" where
  "entered c d ms t db \<longleftrightarrow> frame c [d, t] ms db \<and> thread_open t db"

lemma entered_new:
  assumes "frame c [d] ms db" "insert_thread r db = Inr db'" "th_conversationId r = c" "th_status r = ThOpen"
  shows "entered c d ms (th_id r) db'"
  using frame_new [OF assms(1-3)] insert_open [OF assms(2,4)] by (auto simp: entered_def frame_def)

lemma entered_again:
  assumes "frame c [d] ms db" "has_thread c t db"
  shows "entered c d ms t (reopen now t db)"
  using frame_reopen [of c "[d, t]" ms db now t] reopen_open [OF assms(2)] assms
  by (auto simp: entered_def frame_def)

lemma yields_new:
  assumes "\<And>db. P db \<Longrightarrow> frame c [d] ms db" "th_conversationId r = c" "th_status r = ThOpen"
    "\<And>db. entered c d ms (th_id r) db \<Longrightarrow> Q (th_id r) db"
  shows "yields P (inserting rt r) Q"
  using assms entered_new by (blast intro: yields_insert)

lemma native_yields:
  "yields (frame c [d] ms) (native_thread rt c d key)
     (\<lambda>v db. right False c d ms v db \<and> thread_open (rv_threadId v) db)"
  unfolding native_thread_def
proof (rule yields_bind, rule yields_select)
  show "frame c [d] ms db \<Longrightarrow> frame c [d] ms db \<and> (\<forall>t. keyed_thread c key db = Some t \<longrightarrow> has_thread c t db)" for db
    by (simp add: keyed_has)
next
  fix existing
  let ?P = "\<lambda>db. frame c [d] ms db \<and> (\<forall>t. existing = Some t \<longrightarrow> has_thread c t db)"
  have 1: "yields ?P (case existing of
       Some t \<Rightarrow> pbind (updating rt (reopen now t)) (\<lambda>_. pret t)
     | None \<Rightarrow> pbind (fresh_id rt) (\<lambda>uuid.
         inserting rt ((new_thread now uuid c SrcNative)\<lparr>th_externalKey := Some key\<rparr>))) (entered c d ms)" for now
  proof (rule yields_option)
    fix t assume "existing = Some t"
    then show "yields ?P (pbind (updating rt (reopen now t)) (\<lambda>_. pret t)) (entered c d ms)"
      by (intro yields_bind [OF yields_update [where Q = "\<lambda>_. entered c d ms t"]] yields_ret)
        (auto intro: entered_again)
  next
    show "yields ?P (pbind (fresh_id rt) (\<lambda>uuid.
         inserting rt ((new_thread now uuid c SrcNative)\<lparr>th_externalKey := Some key\<rparr>))) (entered c d ms)"
      by (intro yields_bind [OF yields_fresh(1)] yields_new [where c = c and d = d and ms = ms]) (auto simp: new_thread_def)
  qed
  have 2: "yields (entered c d ms t) (pbind (selecting rt (count_messages c t False)) (\<lambda>n.
       pret \<lparr>rv_threadId = t, rv_defaultThreadId = d,
         rv_decision = decided RContinue t SrcNative, rv_threadMessageCount = n,
         rv_previousLastThreadId = d, rv_threadWasDormant = False\<rparr>))
     (\<lambda>v db. right False c d ms v db \<and> thread_open (rv_threadId v) db)" for t
    by (rule yields_bind [OF yields_select [where Q = "\<lambda>n db. entered c d ms t db \<and> n = count_messages c t False db"]])
      (auto intro!: yields_ret simp: right_def entered_def)
  show "yields ?P (pbind (clock rt) (\<lambda>now.
     pbind (case existing of
         Some t \<Rightarrow> pbind (updating rt (reopen now t)) (\<lambda>_. pret t)
       | None \<Rightarrow> pbind (fresh_id rt) (\<lambda>uuid.
           inserting rt ((new_thread now uuid c SrcNative)\<lparr>th_externalKey := Some key\<rparr>))) (\<lambda>threadId.
     pbind (selecting rt (count_messages c threadId False)) (\<lambda>n.
       pret \<lparr>rv_threadId = threadId, rv_defaultThreadId = d,
         rv_decision = decided RContinue threadId SrcNative, rv_threadMessageCount = n,
         rv_previousLastThreadId = d, rv_threadWasDormant = False\<rparr>))))
     (\<lambda>v db. right False c d ms v db \<and> thread_open (rv_threadId v) db)"
    by (rule yields_bind [OF yields_fresh(2) yields_bind [OF 1 2]])
qed

lemma enter_yields:
  "yields (\<lambda>db. frame c [d] ms db \<and> (de_action decision = RNew \<or> has_thread c (de_threadId decision) db))
     (enter_thread rt c d prev decision)
     (\<lambda>v db. right True c d ms v db \<and> thread_open (rv_threadId v) db)"
proof -
  let ?new = "de_action decision = RNew"
  let ?P = "\<lambda>db. frame c [d] ms db \<and> (?new \<or> has_thread c (de_threadId decision) db)"
  define R where "R = (\<lambda>t db. frame c [d, t] ms db \<and> (?new \<longrightarrow> thread_open t db))"
  have 1: "yields ?P (if ?new
      then inserting rt ((new_thread now (de_threadId decision) c SrcDerived)
           \<lparr>th_label := de_label decision, th_keywords := de_keywords decision\<rparr>)
      else pret (de_threadId decision)) R" for now
  proof (rule yields_if)
    show "yields ?P (inserting rt ((new_thread now (de_threadId decision) c SrcDerived)
           \<lparr>th_label := de_label decision, th_keywords := de_keywords decision\<rparr>)) R"
      by (rule yields_new [where c = c and d = d and ms = ms]) (auto simp: new_thread_def R_def entered_def)
  next
    assume "\<not> ?new"
    then show "yields ?P (pret (de_threadId decision)) R"
      by (intro yields_ret) (auto simp: R_def frame_def)
  qed
  have 2: "yields (\<lambda>db. R t db \<and> meta \<noteq> None \<and> n = count_messages c t (t = d) db)
      (if \<not> ?new \<and> meta \<noteq> None then updating rt (reopen now t) else pret ())
      (\<lambda>_ db. entered c d ms t db \<and> n = count_messages c t (t = d) db)" for t meta n now
  proof (rule yields_if)
    show "yields (\<lambda>db. R t db \<and> meta \<noteq> None \<and> n = count_messages c t (t = d) db)
      (updating rt (reopen now t)) (\<lambda>_ db. entered c d ms t db \<and> n = count_messages c t (t = d) db)"
      by (rule yields_update) (auto simp: R_def frame_def intro!: entered_again)
  next
    assume "\<not> (\<not> ?new \<and> meta \<noteq> None)"
    then show "yields (\<lambda>db. R t db \<and> meta \<noteq> None \<and> n = count_messages c t (t = d) db)
      (pret ()) (\<lambda>_ db. entered c d ms t db \<and> n = count_messages c t (t = d) db)"
      by (intro yields_ret) (auto simp: R_def entered_def)
  qed
  have 3: "R t db \<Longrightarrow> last_active t db \<noteq> None" for t db
    by (rule active_thread [of c]) (simp add: R_def frame_def)
  have 4: "yields (R t) (selecting rt (last_active t)) (\<lambda>meta db. R t db \<and> meta \<noteq> None)" for t
    by (rule yields_select) (simp add: 3)
  have 5: "yields (\<lambda>db. R t db \<and> meta \<noteq> None) (selecting rt (count_messages c t (t = d)))
      (\<lambda>n db. R t db \<and> meta \<noteq> None \<and> n = count_messages c t (t = d) db)" for t meta
    by (rule yields_select) simp
  show ?thesis
    unfolding enter_thread_def
    apply (rule yields_bind [OF yields_fresh(2)])
    apply (rule yields_bind [OF 1])
    apply (rule yields_bind [OF 4])
    apply (rule yields_bind [OF 5])
    apply (rule yields_bind [OF 2])
    apply (rule yields_ret)
    apply (auto simp: right_def entered_def)
    done
qed

text \<open>The decision names an open thread, the previous one, or a new one.\<close>

lemma routeMessage_thread:
  "routeMessage now message prev at ts = Some d \<Longrightarrow> de_threadId d = prev \<or> de_threadId d \<in> ot_id ` set ts"
  by (auto simp: routeMessage_def decided_def dest!: find_first_Some split: if_splits option.splits)

lemma model_thread:
  "yields P (routeWithModel rt message ts prev)
     (\<lambda>d db. P db \<and> (de_action d = RNew \<or> de_threadId d = prev \<or> de_threadId d \<in> ot_id ` set ts))"
proof -
  have ret: "yields P (pret d) (\<lambda>d db. P db \<and> (de_action d = RNew \<or> de_threadId d = prev \<or> de_threadId d \<in> ot_id ` set ts))"
    if "de_action d = RNew \<or> de_threadId d = prev \<or> de_threadId d \<in> ot_id ` set ts" for d
    using that by (intro yields_ret) simp
  have new: "yields P (pbind (fresh_id rt) (\<lambda>u. pret (f u)))
      (\<lambda>d db. P db \<and> (de_action d = RNew \<or> de_threadId d = prev \<or> de_threadId d \<in> ot_id ` set ts))"
    if "\<And>u. de_action (f u) = RNew" for f
    by (rule yields_bind [OF yields_fresh(1)]) (simp add: ret that)
  have switch: "t \<in> set ts" if "nth_opt ts i = Some t" for i t using that by (auto simp: nth_opt_Some)
  show ?thesis
    unfolding routeWithModel_def
    apply (rule yields_if)
     apply (rule new, simp add: decided_def)
    apply (rule yields_bind [where R = "\<lambda>_. P"], rule yields_outside, assumption)
    apply (rule route_action.exhaust)
      apply (auto intro!: new ret simp: decided_def dest: switch split: route_action.split option.split)
    done
qed

lemma open_rows_there: "t \<in> ot_id ` set (open_rows c db) \<Longrightarrow> has_thread c t db"
proof -
  assume "t \<in> ot_id ` set (open_rows c db)"
  then obtain r where "r \<in> set (take OPEN_THREADS_CAP (sort_key (\<lambda>t. - th_lastActiveAt t)
      (filter (\<lambda>t. th_conversationId t = c \<and> th_status t = ThOpen) (tb_threads db))))" and t: "t = th_id r"
    unfolding open_rows_def by auto
  then have "r \<in> set (filter (\<lambda>t. th_conversationId t = c \<and> th_status t = ThOpen) (tb_threads db))"
    by (metis in_set_takeD set_sort)
  with t show ?thesis by (auto simp: has_thread_def)
qed

lemma last_message_there:
  assumes "frame c [d] ms db" "last_message c db = Some (lastThread, at)"
  shows "has_thread c (default_to lastThread d) db"
proof -
  obtain m rest where m: "newest_first (filter (\<lambda>m. mg_conversationId m = c) (tb_messages db)) = m # rest"
      "lastThread = mg_threadId m"
    using assms(2) by (auto simp: last_message_def split: list.splits)
  then have "m \<in> set (filter (\<lambda>m. mg_conversationId m = c) (tb_messages db))"
    by (metis list.set_intros(1) newest_first_def set_sort)
  then have "m \<in> set (tb_messages db)" "mg_conversationId m = c" by auto
  with assms(1) have "case mg_threadId m of None \<Rightarrow> True | Some t \<Rightarrow> has_thread c t db" "has_thread c d db"
    unfolding frame_def threads_ok_def list_all_iff by fastforce+
  with m(2) show ?thesis by (cases "mg_threadId m") simp_all
qed

lemma no_message: "last_message c db = None \<longleftrightarrow> (\<forall>m\<in>set (tb_messages db). mg_conversationId m \<noteq> c)"
proof -
  have "last_message c db = None \<longleftrightarrow> newest_first (filter (\<lambda>m. mg_conversationId m = c) (tb_messages db)) = []"
    by (auto simp: last_message_def split: list.split)
  also have "\<dots> \<longleftrightarrow> filter (\<lambda>m. mg_conversationId m = c) (tb_messages db) = []"
    by (metis newest_first_def set_empty2 set_sort)
  finally show ?thesis by (simp add: filter_empty_conv)
qed

definition has_message :: "string \<Rightarrow> message_row list \<Rightarrow> bool" where
  "has_message c ms \<longleftrightarrow> list_ex (\<lambda>m. mg_conversationId m = c) ms"

lemma no_message_frame: "frame c [d] ms db \<Longrightarrow> last_message c db = None \<Longrightarrow> \<not> has_message c ms"
  by (auto simp: no_message has_message_def list_ex_iff frame_def)

lemma no_message_count: "\<not> has_message c (tb_messages db) \<Longrightarrow> count_messages c t b db = 0"
  by (auto simp: count_messages_def messageThreadFilter_def filter_empty_conv has_message_def list_ex_iff)

lemma chosen_thread:
  "frame c [d] ms db \<Longrightarrow> \<forall>t\<in>A. has_thread c t db \<Longrightarrow> has_thread c p db \<Longrightarrow> a \<or> x = p \<or> x \<in> A \<Longrightarrow>
   frame c [d] ms db \<and> (a \<or> has_thread c x db)"
  by blast

lemma derived_yields:
  "yields (frame c [d] ms) (derived_thread rt c d message)
     (\<lambda>v db. right True c d ms v db \<and> (has_message c ms \<longrightarrow> thread_open (rv_threadId v) db))"
proof -
  let ?Q = "\<lambda>v db. right True c d ms v db \<and> (has_message c ms \<longrightarrow> thread_open (rv_threadId v) db)"
  let ?P = "\<lambda>ts db. frame c [d] ms db \<and> (\<forall>t \<in> ot_id ` set ts. has_thread c t db)"
  let ?L = "\<lambda>ts row db. ?P ts db \<and> row = last_message c db"
  have open': "yields (frame c [d] ms) (selecting rt (open_rows c)) ?P"
    by (rule yields_select) (blast intro: open_rows_there)
  have last': "yields (?P ts) (selecting rt (last_message c)) (?L ts)" for ts
    by (rule yields_select) simp
  have none: "yields (?L ts None) (pret \<lparr>rv_threadId = d, rv_defaultThreadId = d,
      rv_decision = decided RContinue d SrcDerived, rv_threadMessageCount = 0,
      rv_previousLastThreadId = d, rv_threadWasDormant = False\<rparr>) ?Q" for ts
  proof (rule yields_ret)
    fix db assume "?L ts None db"
    then have "frame c [d] ms db" "\<not> has_message c ms" using no_message_frame by auto
    then show "?Q \<lparr>rv_threadId = d, rv_defaultThreadId = d, rv_decision = decided RContinue d SrcDerived,
        rv_threadMessageCount = 0, rv_previousLastThreadId = d, rv_threadWasDormant = False\<rparr> db"
      by (auto simp: right_def frame_def no_message_count)
  qed
  have some: "yields (?L ts (Some (lastThread, at))) (pbind (clock rt) (\<lambda>now.
        pbind (case routeMessage now message (default_to lastThread d) at ts of
            Some r \<Rightarrow> pret r
          | None \<Rightarrow> pmap_error (\<lambda>_. AgentError ''Thread routing model call failed'')
              (routeWithModel rt message ts (default_to lastThread d)))
          (enter_thread rt c d (default_to lastThread d)))) ?Q" for ts lastThread at
  proof -
    let ?S = "\<lambda>db. ?P ts db \<and> has_thread c (default_to lastThread d) db"
    let ?E = "\<lambda>r db. frame c [d] ms db \<and> (de_action r = RNew \<or> has_thread c (de_threadId r) db)"
    have pre: "yields (?L ts (Some (lastThread, at))) (clock rt) (\<lambda>_. ?S)"
      unfolding yields_def clock_def pget_def by (auto intro: last_message_there [OF _ sym])
    have decide: "yields ?S (case routeMessage now message (default_to lastThread d) at ts of
            Some r \<Rightarrow> pret r
          | None \<Rightarrow> pmap_error (\<lambda>_. AgentError ''Thread routing model call failed'')
              (routeWithModel rt message ts (default_to lastThread d))) ?E" for now
    proof (rule yields_option)
      show "yields ?S (pmap_error (\<lambda>_. AgentError ''Thread routing model call failed'')
              (routeWithModel rt message ts (default_to lastThread d))) ?E"
      proof (rule yields_error, rule yields_post [OF model_thread])
        show "?S db \<and> (de_action r = RNew \<or> de_threadId r = default_to lastThread d \<or> de_threadId r \<in> ot_id ` set ts)
            \<Longrightarrow> ?E r db" for r db by (elim conjE, rule chosen_thread)
      qed
    next
      fix r assume "routeMessage now message (default_to lastThread d) at ts = Some r"
      from routeMessage_thread [OF this] have "?S db \<Longrightarrow> ?E r db" for db
        by (elim conjE) (rule chosen_thread, blast+)
      then show "yields ?S (pret r) ?E" by (rule yields_ret)
    qed
    have "yields (?E r) (enter_thread rt c d (default_to lastThread d) r) ?Q" for r
      by (rule yields_post [OF enter_yields]) simp
    then show ?thesis by (rule yields_bind [OF pre yields_bind [OF decide]])
  qed
  show ?thesis
    unfolding derived_thread_def Let_def
    apply (rule yields_bind [OF open'])
    apply (rule yields_bind [OF last'])
    apply (rule yields_option)
     apply (simp only: none)
    subgoal for ts row p by (cases p) (simp only: prod.case some)
    done
qed

lemma agent_error_agent: "\<exists>m. agent_error message e = AgentError m"
  by (cases e) simp_all

lemma resolve_yields:
  "yields (frame c [] ms) (resolveThread rt c message key)
     (\<lambda>v db. \<exists>d. right (truthy_str key = None) c d ms v db \<and>
        (truthy_str key \<noteq> None \<or> has_message c ms \<longrightarrow> thread_open (rv_threadId v) db))"
proof -
  let ?Q = "\<lambda>v db. \<exists>d. right (truthy_str key = None) c d ms v db \<and>
        (truthy_str key \<noteq> None \<or> has_message c ms \<longrightarrow> thread_open (rv_threadId v) db)"
  have "yields (frame c [d] ms) (case truthy_str key of Some k \<Rightarrow> native_thread rt c d k
      | None \<Rightarrow> derived_thread rt c d message) ?Q" for d
    using native_yields [of c d ms rt] derived_yields [of c d ms rt message]
    unfolding yields_def by (cases "truthy_str key") (simp_all, blast+)
  then show ?thesis
    unfolding resolveThread_def
    by (intro yields_error yields_bind [OF default_yields] yields_try frame.archive)
qed

end
