(* ===== verification/TelegramCommandProps.thy ===== *)
theory TelegramCommandProps
  imports TelegramCommands TelegramProps RouterInv IdentityProps ComputeRows IntegrationsProps
begin

text \<open>
  The commands of the Telegram channel: they always return, keep every table they reach consistent, and do
  nothing for an unlinked identity but tell it to link again.
\<close>

section \<open>Users stay\<close>

lemma ids_kept:
  assumes "\<And>v. us_id (g v) = us_id v"
  shows "us_id ` set (map (\<lambda>v. if us_id v = u then g v else v) vs) = us_id ` set vs"
proof -
  have "map us_id (map (\<lambda>v. if us_id v = u then g v else v) vs) = map us_id vs" by (rule map_if_same) (rule assms)
  from arg_cong [where f = set, OF this] show ?thesis by (simp only: list.set_map)
qed

interpretation users_stay: id_keeps "\<lambda>db. U \<subseteq> us_id ` set (id_users db)" "\<lambda>_. True" for U
proof unfold_locales
  fix db :: id_db and t assume "U \<subseteq> us_id ` set (id_users db)"
  then show "U \<subseteq> us_id ` set (id_users (clearIdentityBlock db t))" by (simp add: clearIdentityBlock_def)
next
  fix db :: id_db and now u i e assume "U \<subseteq> us_id ` set (id_users db)"
  moreover have "us_id ` set (map (\<lambda>v. if us_id v = u then patch_user now p q v else v) vs) = us_id ` set vs" for p q vs
    by (rule ids_kept) simp
  ultimately show "U \<subseteq> us_id ` set (id_users (fst (updateUserFromTelegram now db u i e)))"
    by (simp add: updateUserFromTelegram_def Let_def)
next
  fix db :: id_db and now a i assume "U \<subseteq> us_id ` set (id_users db)"
  then show "U \<subseteq> us_id ` set (id_users (updateAccountFromTelegram now db a i))"
    by (simp add: updateAccountFromTelegram_def)
next
  fix db :: id_db and i now x y e and db' :: id_db assume "U \<subseteq> us_id ` set (id_users db)" "create_identity now x y db i e = Inr db'"
  then show "U \<subseteq> us_id ` set (id_users db')"
    by (auto simp: create_identity_def insert_user_def insert_account_def split: sum.splits if_splits)
next
  fix db :: id_db and i now x u and db' :: id_db assume "U \<subseteq> us_id ` set (id_users db)"
    "insert_account db (createAccountFromTelegram now x u i) = Inr db'"
  then show "U \<subseteq> us_id ` set (id_users db')" by (auto simp: insert_account_def split: if_splits)
next
  fix db :: id_db and now u acc assume "U \<subseteq> us_id ` set (id_users db)"
  then show "U \<subseteq> us_id ` set (id_users (fst (unlink_commit now db u acc)))"
  proof -
    let ?g = "\<lambda>v. v\<lparr>us_telegramUsername := None, us_telegramPhoneNumber := None, us_updatedAt := now\<rparr>"
    have "id_users (fst (unlink_commit now db u acc)) = id_users db \<or>
        id_users (fst (unlink_commit now db u acc)) = map (\<lambda>v. if us_id v = u then ?g v else v) (id_users db)"
      by (simp add: unlink_commit_def createIdentityBlock_def Let_def)
    moreover have "us_id ` set (map (\<lambda>v. if us_id v = u then ?g v else v) (id_users db)) = us_id ` set (id_users db)"
      by (rule ids_kept) simp
    ultimately show ?thesis using \<open>U \<subseteq> us_id ` set (id_users db)\<close> by (elim disjE) (simp_all only:)
  qed
qed

section \<open>Consistent state\<close>

text \<open>Conversations: one of a user, platform and key, each of an existing user.\<close>

definition conversations_ok :: "id_db \<Rightarrow> thread_db \<Rightarrow> bool" where
  "conversations_ok ids db \<longleftrightarrow>
     distinct (map cv_id (tb_conversations db)) \<and>
     distinct (map (\<lambda>c. (cv_userId c, cv_platform c, cv_key c)) (tb_conversations db)) \<and>
     cv_userId ` set (tb_conversations db) \<subseteq> us_id ` set (id_users ids)"

definition tele_inv :: "'w tele_state \<Rightarrow> bool" where
  "tele_inv s \<longleftrightarrow> id_inv (te_ids s) \<and> conversations_ok (te_ids s) (te_tables s) \<and>
     compute_inv (cm_db (te_comp s)) \<and> link_inv (te_rows s)"

lemma tele_inv_world [simp]: "tele_inv (set_world w s) = tele_inv s"
  by (simp add: tele_inv_def set_world_def)

lemma keeps_within:
  assumes "keeps J m" "\<And>s. I s \<Longrightarrow> J (get s)" "\<And>s t. I s \<Longrightarrow> J t \<Longrightarrow> I (put t s)"
  shows "keeps I (within_state get put f m)"
  unfolding keeps_def
proof (intro allI impI)
  fix s s' r assume s: "I s" and run: "within_state get put f m s = Some (s', r)"
  from run obtain t q where t: "m (get s) = Some (t, q)" "s' = put t s"
    unfolding within_state_def by (auto split: option.splits prod.splits sum.splits)
  with keepsD [OF assms(1) t(1) assms(2) [OF s]] assms(3) [OF s] show "I s'" by simp
qed

lemma keeps_api: "keeps tele_inv (on_api m)"
  unfolding on_api_def by (rule keeps_within [where J = "\<lambda>_. True"]) (simp_all add: keeps_def)

lemma keeps_reply: "keeps tele_inv (reply env chat t)"
  unfolding reply_def by (rule keeps_api)

lemma keeps_compute: "keeps tele_inv (on_compute (kickOffSandboxProvisionIfNeeded pf u))"
  unfolding on_compute_def by (rule keeps_within [OF rows.kick]) (simp_all add: tele_inv_def)

lemma keeps_apps: "keeps_links m \<Longrightarrow> keeps tele_inv (on_apps m)"
  unfolding on_apps_def by (erule keeps_within) (simp_all add: tele_inv_def set_world_def)

lemma keeps_resolve: "keeps tele_inv (resolveTelegramUser env f chat)"
  unfolding keeps_def
proof (intro allI impI)
  fix s s' :: "'a tele_state" and r
  assume inv: "tele_inv s" and run: "resolveTelegramUser env f chat s = Some (s', r)"
  from run obtain now x y w ids where s': "s' = set_world w (s\<lparr>te_ids := ids\<rparr>)"
    and p: "provisionFromBot now x y (te_ids s) (toTelegramProvisionInput f chat) = (ids, r)"
    unfolding resolveTelegramUser_def by (auto split: prod.splits)
  have ids: "ids = fst (provisionFromBot now x y (te_ids s) (toTelegramProvisionInput f chat))" by (simp add: p)
  have "id_inv ids" using inv unfolding ids by (intro id_rows.bot) (simp add: tele_inv_def)
  moreover have "cv_userId ` set (tb_conversations (te_tables s)) \<subseteq> us_id ` set (id_users ids)"
    using inv unfolding ids by (intro users_stay.bot) (simp add: tele_inv_def conversations_ok_def)
  ultimately show "tele_inv s'" using inv by (simp add: s' set_world_def tele_inv_def conversations_ok_def)
qed

lemma conversation_new:
  assumes "conversations_ok ids db" "conversation_of u p key db = None"
    "\<not> list_ex (\<lambda>c. cv_id c = uuid) (tb_conversations db)" "list_ex (\<lambda>v. us_id v = u) (id_users ids)"
  shows "conversations_ok ids (db\<lparr>tb_conversations := tb_conversations db @ [new_conversation now uuid u p key]\<rparr>)"
  using assms
  by (auto simp: conversations_ok_def conversation_of_def find_first_None same_conversation_def new_conversation_def
      list_ex_iff)

text \<open>What the start of a session leaves behind.\<close>

lemma ensure_conversation_runs:
  assumes "ensureTelegramConversation env u chat s = Some (s', r)" "tele_inv s"
  shows "tele_inv s' \<and> (r = Inr () \<longrightarrow> conversation_of u ''telegram'' (int_text chat) (te_tables s') \<noteq> None
    \<or> list_ex (\<lambda>c. cv_id c = snd (pf_uuid (tv_platform env) (te_world s))) (tb_conversations (te_tables s)))"
proof -
  obtain w uuid where u: "pf_uuid (tv_platform env) (te_world s) = (w, uuid)" by force
  let ?db = "te_tables s"
  consider (there) "conversation_of u ''telegram'' (int_text chat) ?db \<noteq> None" "s' = set_world w s"
    | (clash) "list_ex (\<lambda>c. cv_id c = uuid) (tb_conversations ?db)" "s' = set_world w s"
    | (none) "s' = set_world w s" "r \<noteq> Inr ()"
    | (new) "conversation_of u ''telegram'' (int_text chat) ?db = None"
        "\<not> list_ex (\<lambda>c. cv_id c = uuid) (tb_conversations ?db)" "list_ex (\<lambda>v. us_id v = u) (id_users (te_ids s))"
        "s' = set_world w s\<lparr>te_tables := ?db\<lparr>tb_conversations := tb_conversations ?db @
             [new_conversation (pf_now (tv_platform env) w) uuid u ''telegram'' (int_text chat)]\<rparr>\<rparr>"
    using assms(1) unfolding ensureTelegramConversation_def u
    by (auto simp: Let_def set_world_def split: if_splits)
  then show ?thesis
  proof cases
    case new
    have "conversations_ok (te_ids s) (te_tables s')"
      using conversation_new [OF _ new(1-3)] assms(2) new(4) by (simp add: tele_inv_def set_world_def)
    moreover have "conversation_of u ''telegram'' (int_text chat) (te_tables s') \<noteq> None"
      by (auto simp: new(4) conversation_of_def find_first_None same_conversation_def new_conversation_def)
    ultimately show ?thesis using assms(2) new(4) by (simp add: tele_inv_def set_world_def)
  qed (use assms(2) u in \<open>simp_all add: set_world_def tele_inv_def\<close>)
qed

lemma keeps_ensure_conversation: "keeps tele_inv (ensureTelegramConversation env u chat)"
  using ensure_conversation_runs unfolding keeps_def by blast

lemma keeps_start: "keeps tele_inv (startTelegramSession env u chat)"
  unfolding startTelegramSession_def by (intro keeps_rules keeps_ensure_conversation keeps_compute)

lemma keeps_start_result: "keeps tele_inv (sendIntegrationStartResult env u chat payload)"
  unfolding sendIntegrationStartResult_def
  by (intro keeps_rules keeps_reply keeps_apps keeps_reading)

lemma keeps_command: "keeps tele_inv (handleCommand env c f chat)"
  unfolding handleCommand_def
  by (intro keeps_bind keeps_resolve)
    (auto intro!: keeps_rules keeps_reply keeps_start keeps_start_result split: id_outcome.split tg_command.split)

section \<open>Every command is answered\<close>

lemma responds_within: "responds m \<Longrightarrow> responds (within_state get put f m)"
  by (auto simp: responds_def within_state_def split: option.split sum.split)

lemma responds_reply [responds_rules]: "responds (reply env chat t)"
proof -
  obtain cs where "sendMessage (tv_api env) chat t = send_chunks (tv_api env) chat cs"
    using sendMessage_chunks by blast
  moreover have "responds (on_world (api call))" for api :: "'a tg_api" and call
    by (simp add: responds_def on_world_def)
  then have "responds (send_chunks api chat cs)" for api :: "'a tg_api"
    by (induction cs) (simp_all add: responds_rules)
  ultimately show ?thesis unfolding reply_def on_api_def by (simp add: responds_within)
qed

lemma responds_compute [responds_rules]: "responds (on_compute (kickOffSandboxProvisionIfNeeded pf u))"
  unfolding on_compute_def kickOffSandboxProvisionIfNeeded_def create_workflow_def
  by (intro responds_within responds_rules) (auto simp: responds_def claim_slot_def papi_def pbind_def ptry_def pmodify_def
      pthrow_def pret_def split: prod.split sum.split)

lemma responds_apps [responds_rules]:
  "responds (on_apps (listIntegrations cenv bk u))" "responds (on_apps (clearPendingIntegrationRequest u t))"
proof -
  have "responds (listAccountsForUser cenv bk u ts)" for ts
    unfolding listAccountsForUser_def ensureClient_def
    by (intro responds_rules) (auto simp: responds_def ask_def split: prod.split sum.split)
  then show "responds (on_apps (listIntegrations cenv bk u))"
    unfolding on_apps_def listIntegrations_def by (intro responds_within responds_rules)
  show "responds (on_apps (clearPendingIntegrationRequest u t))"
    unfolding on_apps_def clearPendingIntegrationRequest_def
    by (intro responds_within) (simp add: responds_def pmodify_def)
qed

lemma responds_users [responds_rules]:
  "responds (resolveTelegramUser env f chat)" "responds (ensureTelegramConversation env u chat)"
  by (auto simp: responds_def resolveTelegramUser_def ensureTelegramConversation_def Let_def split: prod.split)

lemma responds_command: "responds (handleCommand env c f chat)"
  unfolding handleCommand_def startTelegramSession_def sendIntegrationStartResult_def
  by (intro responds_bind responds_rules) (auto intro!: responds_rules split: id_outcome.split tg_command.split)

section \<open>Properties\<close>


lemma int_text_trim [simp]: "js_trim (int_text n) = int_text n"
proof (rule trim_plain)
  have "\<not> is_ws c" if "is_digit c" for c using that by (auto simp: is_digit_def is_ws_def)
  then have "list_all (\<lambda>c. \<not> is_ws c) (nat_digits k)" for k
    using nat_digits_all [of k] by (auto simp: list_all_iff)
  then show "list_all (\<lambda>c. \<not> is_ws c) (int_text n)" by (simp add: int_text_def is_ws_def)
qed

text \<open>The tables and the started workflows, all of the state but the world and the cache.\<close>

definition stored :: "'w tele_state \<Rightarrow> id_db \<times> thread_db \<times> compute_db \<times> string list \<times> link_row list" where
  "stored s = (te_ids s, te_tables s, cm_db (te_comp s), cm_workflows (te_comp s), te_rows s)"

lemma stored_world [simp]: "stored (set_world w s) = stored s"
  by (simp add: stored_def set_world_def)

lemma reply_stored: "reply env chat t s = Some (s', r) \<Longrightarrow> stored s' = stored s"
  by (auto simp: reply_def on_api_def within_state_def split: option.splits prod.splits sum.splits)

text \<open>
  The command of an unlinked identity, any command, does one thing: it sends the notice to link again.
  No user, account, conversation, sandbox row, workflow or connection comes of it.
\<close>

theorem unlinked_command_refused:
  assumes "shut_out (int_text (tf_id f)) (te_ids s)"
  shows "\<exists>w s' r. handleCommand env c f chat s = Some (s', r) \<and> stored s' = stored s \<and>
    reply env chat TELEGRAM_RELINK_REQUIRED_MESSAGE (set_world w s) = Some (s', r)"
proof -
  have "toTelegramUserId (pi_profile (toTelegramProvisionInput f chat)) = int_text (tf_id f)"
    by (simp add: toTelegramUserId_def toTelegramProvisionInput_def)
  from shut_bot [OF assms this] have p: "provisionFromBot now x y (te_ids s) (toTelegramProvisionInput f chat) =
      (te_ids s, Inr (IdBlocked (int_text (tf_id f)) None))" for now x y .
  obtain w where user: "resolveTelegramUser env f chat s = Some (set_world w s, Inr (IdBlocked (int_text (tf_id f)) None))"
    by (cases "pf_uuid (tv_platform env) (te_world s)";
        cases "pf_uuid (tv_platform env) (fst (pf_uuid (tv_platform env) (te_world s)))")
      (simp add: resolveTelegramUser_def p)
  have h: "handleCommand env c f chat s = reply env chat TELEGRAM_RELINK_REQUIRED_MESSAGE (set_world w s)"
    unfolding handleCommand_def
    by (subst pbind_run [of "resolveTelegramUser env f chat" s "set_world w s"], rule user) simp
  obtain s' r where r: "reply env chat TELEGRAM_RELINK_REQUIRED_MESSAGE (set_world w s) = Some (s', r)"
    using responds_reply [of env chat TELEGRAM_RELINK_REQUIRED_MESSAGE]
    by (auto simp: responds_def) (metis not_None_eq surj_pair)
  from reply_stored [OF r] r h show ?thesis by auto
qed

section \<open>Witnesses\<close>

definition demo_apps :: "int broker" where
  "demo_apps = \<lparr>bk_list = (\<lambda>u ts w. (w, Inr [])), bk_session = (\<lambda>u c w. (w, Inr ''s'')), bk_tools = (\<lambda>s w. (w, Inr [])),
     bk_authorize = (\<lambda>s t c w. (w, Inr None)), bk_delete = (\<lambda>a w. (w, Inr ())), bk_get = (\<lambda>a w. (w, Inl ())),
     bk_now = (\<lambda>w. w), bk_uuid = (\<lambda>w. (w + 1, ''link''))\<rparr>"

definition demo_env :: "int tele_env" where
  "demo_env = \<lparr>tv_platform = demo_platform True, tv_api = (\<lambda>call w. (w + 1, Inr ())), tv_broker = demo_apps,
     tv_conn = demo_conn_env, tv_hasWorkflow = True\<rparr>"

definition demo_from :: "int \<Rightarrow> tg_from" where
  "demo_from i = \<lparr>tf_id = i, tf_first_name = ''Ada'', tf_last_name = None, tf_username = None, tf_language_code = None,
     tf_is_premium = None\<rparr>"

definition demo_start :: parsed_command where
  "demo_start = \<lparr>pc_command = CmdStart, pc_payload = None, pc_rawText = ''/start''\<rparr>"

text \<open>Ada has unlinked the identity 42.\<close>

definition demo_channel :: "int tele_state" where
  "demo_channel = \<lparr>te_ids = demo_unlinked,
     te_tables = \<lparr>tb_conversations = [], tb_threads = [], tb_messages = []\<rparr>, te_comp = no_computers 0, te_rows = []\<rparr>"

lemma demo_channel_inv: "tele_inv demo_channel"
proof -
  have "id_inv demo_unlinked" unfolding demo_unlinked_def by (rule id_rows.unlinking [OF demo_identities_inv])
  then show ?thesis
    by (simp add: tele_inv_def demo_channel_def conversations_ok_def compute_inv_def no_computers_def live_rows_def
        link_inv_def)
qed


theorem unlinked_command_refused_witness:
  "\<exists>s' r. handleCommand demo_env demo_start (demo_from 42) 42 demo_channel = Some (s', r) \<and> stored s' = stored demo_channel"
proof -
  have "findAccountByTelegramUserId (te_ids demo_channel) ''42'' = None \<and>
      findIdentityBlock (te_ids demo_channel) ''42'' \<noteq> None \<and> int_text (tf_id (demo_from 42)) = ''42''" by code_simp
  then have "shut_out (int_text (tf_id (demo_from 42))) (te_ids demo_channel)" by (simp add: shut_out_def)
  from unlinked_command_refused [OF this, of demo_env demo_start 42] show ?thesis by blast
qed

end
