(* ===== verification/RouterProps.thy ===== *)
theory RouterProps
  imports RouterInv
begin

text \<open>
  The routing of messages: the thread that is resolved, what the archiving touches, the words a label matches.
\<close>

section \<open>Resolution\<close>

text \<open>
  C24. Resolving the thread of a message always answers.  From consistent tables it leaves consistent tables and
  the same messages, whatever the queries and the model do; it fails only with an error of the agent.  When it
  succeeds, the default thread and the thread are threads of the conversation, the thread is open unless the
  conversation has no message yet and the platform names no thread, and the count is the number of the
  thread's messages, together with those of no thread when it is the default one and the platform names none.
\<close>

theorem resolved_thread:
  assumes "threads_ok (rs_db s)"
  shows "\<exists>s' r. resolveThread rt c message key s = Some (s', r) \<and>
    threads_ok (rs_db s') \<and> tb_messages (rs_db s') = tb_messages (rs_db s) \<and>
    (case r of
       Inl e \<Rightarrow> \<exists>m. e = AgentError m
     | Inr v \<Rightarrow>
         has_thread c (rv_threadId v) (rs_db s') \<and> has_thread c (rv_defaultThreadId v) (rs_db s') \<and>
         (truthy_str key \<noteq> None \<or> has_message c (tb_messages (rs_db s)) \<longrightarrow> thread_open (rv_threadId v) (rs_db s')) \<and>
         rv_threadMessageCount v = length (filter (messageThreadFilter c (rv_threadId v)
           (truthy_str key = None \<and> rv_threadId v = rv_defaultThreadId v)) (tb_messages (rs_db s))))"
proof -
  let ?ms = "tb_messages (rs_db s)"
  have f: "frame c [] ?ms (rs_db s)" using assms by (simp add: frame_def)
  obtain s' r where run: "resolveThread rt c message key s = Some (s', r)"
    using responds_resolve [of rt c message key] by (auto simp: responds_def) (metis not_None_eq surj_pair)
  have f': "frame c [] ?ms (rs_db s')" using keepsD [OF frame.resolve run] f by simp
  show ?thesis
  proof (intro exI conjI, rule run)
    show "threads_ok (rs_db s')" "tb_messages (rs_db s') = ?ms" using f' by (simp_all add: frame_def)
    show "case r of
       Inl e \<Rightarrow> \<exists>m. e = AgentError m
     | Inr v \<Rightarrow>
         has_thread c (rv_threadId v) (rs_db s') \<and> has_thread c (rv_defaultThreadId v) (rs_db s') \<and>
         (truthy_str key \<noteq> None \<or> has_message c ?ms \<longrightarrow> thread_open (rv_threadId v) (rs_db s')) \<and>
         rv_threadMessageCount v = length (filter (messageThreadFilter c (rv_threadId v)
           (truthy_str key = None \<and> rv_threadId v = rv_defaultThreadId v)) ?ms)"
    proof (cases r)
      case (Inl e)
      from run obtain e0 where "e = agent_error ''resolveThread failed'' e0"
        unfolding resolveThread_def Inl by (rule pmap_errorE) simp_all
      then have "\<exists>m. e = AgentError m" using agent_error_agent by simp
      with Inl show ?thesis by simp
    next
      case (Inr v)
      from yieldsD [OF resolve_yields run [unfolded Inr] f] obtain d
        where "right (truthy_str key = None) c d ?ms v (rs_db s')"
          "truthy_str key \<noteq> None \<or> has_message c ?ms \<longrightarrow> thread_open (rv_threadId v) (rs_db s')" by blast
      with Inr show ?thesis by (simp add: right_def frame_def count_messages_def)
    qed
  qed
qed

section \<open>What the archiving touches\<close>

text \<open>A thread filed away: archived, with a synopsis and keywords only when it had no synopsis.\<close>

definition filed :: "thread_row \<Rightarrow> thread_row \<Rightarrow> bool" where
  "filed t t' \<longleftrightarrow>
     t' = t\<lparr>th_synopsis := th_synopsis t', th_keywords := th_keywords t', th_status := ThArchived\<rparr> \<and>
     (has_text (th_synopsis t) \<longrightarrow> th_synopsis t' = th_synopsis t \<and> th_keywords t' = th_keywords t)"

definition filed_rows :: "string set \<Rightarrow> bool \<Rightarrow> thread_row list \<Rightarrow> thread_row list \<Rightarrow> bool" where
  "filed_rows ids complete ts ts' \<longleftrightarrow> list_all2 (\<lambda>t t'. if th_id t \<in> ids \<and> (complete \<or> t' \<noteq> t) then filed t t' else t' = t) ts ts'"

lemma filed_rows_refl: "filed_rows ids False ts ts" "filed_rows {} b ts ts"
  by (simp_all add: filed_rows_def list_all2_refl)

lemma filed_one:
  assumes "\<And>t. t \<in> set (tb_threads db) \<Longrightarrow> th_id t = i \<Longrightarrow> summary \<noteq> None \<Longrightarrow> \<not> has_text (th_synopsis t)"
  shows "filed_rows {i} True (tb_threads db) (tb_threads (archive_one i summary db))"
  using assms
  by (auto simp: filed_rows_def archive_one_def list_all2_conv_all_nth filed_def split: option.split)

lemma filed_rows_trans:
  assumes "filed_rows {i} True ts ts1" "filed_rows ids b ts1 ts2" "i \<notin> ids"
  shows "filed_rows (insert i ids) b ts ts2"
  using assms(1,2) unfolding filed_rows_def
proof (rule list_all2_trans [rotated])
  fix t t1 t2
  assume 1: "if th_id t \<in> {i} \<and> (True \<or> t1 \<noteq> t) then filed t t1 else t1 = t"
    and 2: "if th_id t1 \<in> ids \<and> (b \<or> t2 \<noteq> t1) then filed t1 t2 else t2 = t1"
  show "if th_id t \<in> insert i ids \<and> (b \<or> t2 \<noteq> t) then filed t t2 else t2 = t"
  proof (cases "th_id t = i")
    case True
    with 1 have f: "filed t t1" by simp
    then have "th_id t1 = i" using True by (cases t, cases t1) (simp add: filed_def)
    with 2 assms(3) have "t2 = t1" by simp
    with True f show ?thesis by auto
  next
    case False
    with 1 2 show ?thesis by (auto split: if_splits)
  qed
qed

lemma updating_cases:
  assumes "updating rt f s = Some (s', r)"
  obtains (failed) "rs_db s' = rs_db s" "r \<noteq> Inr ()" | (ran) "rs_db s' = f (rs_db s)" "r = Inr ()"
  using assms by (auto simp: updating_def query_def split: prod.splits option.splits)

lemma synopsis_db:
  assumes "generateSynopsis rt ls s = Some (s', r)"
  shows "rs_db s' = rs_db s"
  using assms
  by (auto simp: generateSynopsis_def outside_def pret_def split: prod.splits sum.splits elim!: pbindE)

lemma archive_rows_filed:
  assumes "archive_rows rt ms n rows s = Some (s', r)" "distinct (map fst rows)"
    "\<And>t syn. t \<in> set (tb_threads (rs_db s)) \<Longrightarrow> (th_id t, syn) \<in> set rows \<Longrightarrow> syn = th_synopsis t"
  shows "filed_rows (fst ` set rows) (r = Inr ()) (tb_threads (rs_db s)) (tb_threads (rs_db s'))"
  using assms
proof (induction rows arbitrary: n s)
  case Nil
  then show ?case by (simp add: pret_def filed_rows_refl)
next
  case (Cons row rows)
  obtain i syn where row: "row = (i, syn)" by force
  let ?ids = "fst ` set rows"
  have i: "i \<notin> ?ids" using Cons.prems(2) row by auto
  have syn: "syn = th_synopsis t" if "t \<in> set (tb_threads (rs_db s))" "th_id t = i" for t
    using Cons.prems(3) [of t syn] that row by simp
  \<comment> \<open>the row filed, and the rest\<close>
  have step: "filed_rows (insert i ?ids) (r = Inr ()) (tb_threads (rs_db s)) (tb_threads (rs_db s'))"
    if run: "pbind (updating rt (archive_one i summary)) (\<lambda>_. archive_rows rt ms k rows) s1 = Some (s', r)"
      and s1: "rs_db s1 = rs_db s" and may: "summary \<noteq> None \<Longrightarrow> \<not> has_text syn" for summary k s1
    using run
  proof (cases rule: pbindE)
    case (error e)
    from error(1) have "rs_db s' = rs_db s" by (rule updating_cases) (simp_all add: s1)
    with error(2) show ?thesis by (simp add: filed_rows_refl)
  next
    case (ok s2 x)
    from ok(1) have s2: "rs_db s2 = archive_one i summary (rs_db s)" by (rule updating_cases) (simp_all add: s1)
    have one: "filed_rows {i} True (tb_threads (rs_db s)) (tb_threads (rs_db s2))"
      unfolding s2 by (rule filed_one) (use syn may in auto)
    have "syn2 = th_synopsis t" if "t \<in> set (tb_threads (rs_db s2))" "(th_id t, syn2) \<in> set rows" for t syn2
    proof -
      from that(2) i have ne: "th_id t \<noteq> i" by force
      from that(1) obtain u where u: "u \<in> set (tb_threads (rs_db s))"
          "t = (if th_id u = i then case summary of None \<Rightarrow> u\<lparr>th_status := ThArchived\<rparr>
            | Some (a, b) \<Rightarrow> u\<lparr>th_synopsis := Some a, th_keywords := Some b, th_status := ThArchived\<rparr> else u)"
        unfolding s2 archive_one_def by auto
      with ne have "t = u" by (auto split: option.splits prod.splits if_splits)
      with u(1) that(2) Cons.prems(3) [of u syn2] show ?thesis by simp
    qed
    with Cons.IH [OF ok(2)] Cons.prems(2)
    have "filed_rows ?ids (r = Inr ()) (tb_threads (rs_db s2)) (tb_threads (rs_db s'))" by simp
    with one i show ?thesis by (blast intro: filed_rows_trans)
  qed
  let ?ls = "transcript (tail_of ms i)"
  have ids: "fst ` set (row # rows) = insert i ?ids" by (simp add: row)
  show ?case
  proof (cases "\<not> has_text syn \<and> n < SYNOPSIS_BATCH_CAP \<and> js_trim ?ls \<noteq> []")
    case False
    with Cons.prems(1) have "pbind (updating rt (archive_one i None)) (\<lambda>_. archive_rows rt ms n rows) s = Some (s', r)"
      by (simp add: row Let_def del: de_Morgan_conj)
    then show ?thesis unfolding ids by (rule step) simp_all
  next
    case True
    with Cons.prems(1) have "pbind (pmap_error (\<lambda>_. AgentError ''Failed to generate synopsis for archival'')
          (generateSynopsis rt ?ls)) (\<lambda>summary. pbind (updating rt (archive_one i (Some summary)))
          (\<lambda>_. archive_rows rt ms (Suc n) rows)) s = Some (s', r)"
      by (simp add: row)
    then show ?thesis unfolding ids
    proof (cases rule: pbindE)
      case (error e)
      from error(1) have "rs_db s' = rs_db s" by (rule pmap_errorE) (simp_all add: synopsis_db)
      with error(2) show "filed_rows (insert i ?ids) (r = Inr ()) (tb_threads (rs_db s)) (tb_threads (rs_db s'))"
        by (simp add: filed_rows_refl)
    next
      case (ok s1 x)
      from ok(1) have "rs_db s1 = rs_db s" by (rule pmap_errorE) (simp_all add: synopsis_db)
      with ok(2) True show "filed_rows (insert i ?ids) (r = Inr ()) (tb_threads (rs_db s)) (tb_threads (rs_db s'))"
        by (intro step [OF ok(2)]) simp_all
    qed
  qed
qed

lemma distinct_sorted: "sorted_wrt (\<lambda>t r. f t \<noteq> f r) xs \<Longrightarrow> distinct (map f xs)"
  by (induction xs) auto

lemma selecting_cases:
  assumes "selecting rt f s = Some (s', r)"
  obtains (failed) e where "rs_db s' = rs_db s" "r = Inl e" | (ran) "rs_db s' = rs_db s" "r = Inr (f (rs_db s))"
  using assms by (auto simp: selecting_def query_def split: prod.splits option.splits)

lemma archive_stale_filed:
  assumes "archive_stale rt c s = Some (s', r)" "distinct (map th_id (tb_threads (rs_db s)))"
  shows "filed_rows (th_id ` {t \<in> set (tb_threads (rs_db s)). stale c (rt_now rt (rs_world s) - STALE_ARCHIVE_MS) t})
    (r = Inr ()) (tb_threads (rs_db s)) (tb_threads (rs_db s'))" (is "filed_rows ?ids _ ?ts _")
proof -
  let ?stale = "stale c (rt_now rt (rs_world s) - STALE_ARCHIVE_MS)"
  have same: "filed_rows ?ids (r = Inr ()) ?ts (tb_threads (rs_db s'))" if "rs_db s' = rs_db s" "r \<noteq> Inr ()"
    using that by (simp add: filed_rows_refl)
  have "clock rt s = Some (s, Inr (rt_now rt (rs_world s)))" by (simp add: clock_def pget_def)
  from assms(1) [unfolded archive_stale_def pbind_run [of "clock rt", OF this]] show ?thesis
  proof (cases rule: pbindE)
    case (error e)
    from error(1) have "rs_db s' = rs_db s" by (rule selecting_cases)
    with error(2) show ?thesis by (intro same) simp_all
  next
    case (ok s1 rows)
    from ok(1) have s1: "rs_db s1 = rs_db s" by (rule selecting_cases) simp_all
    from ok(1) have rows: "rows = map (\<lambda>t. (th_id t, th_synopsis t)) (filter ?stale ?ts)"
      by (rule selecting_cases) simp_all
    from ok(2) [unfolded Let_def] show ?thesis
    proof (cases rule: pbindE)
      case (error e)
      from error(1) have "rs_db s' = rs_db s1" by (auto simp: pret_def split: if_splits elim: selecting_cases)
      with error(2) s1 show ?thesis by (intro same) simp_all
    next
      case (ok s2 ms)
      from ok(1) have s2: "rs_db s2 = rs_db s1" by (auto simp: pret_def split: if_splits elim: selecting_cases)
      have "filed_rows (fst ` set rows) (r = Inr ()) (tb_threads (rs_db s2)) (tb_threads (rs_db s'))"
        using ok(2)
      proof (rule archive_rows_filed)
        show "distinct (map fst rows)" using assms(2) by (simp add: rows comp_def distinct_map_filter)
      next
        fix t syn assume t: "t \<in> set (tb_threads (rs_db s2))" "(th_id t, syn) \<in> set rows"
        from t(2) obtain u where u: "u \<in> set ?ts" "th_id u = th_id t" "syn = th_synopsis u" by (auto simp: rows)
        with t(1) assms(2) have "u = t" by (auto simp: s2 s1 distinct_map inj_on_def)
        with u(3) show "syn = th_synopsis t" by simp
      qed
      moreover have "fst ` set rows = ?ids" by (simp add: rows image_image)
      ultimately show ?thesis by (simp add: s1 s2)
    qed
  qed
qed

lemma ids_distinct: "threads_ok db \<Longrightarrow> distinct (map th_id (tb_threads db))"
proof -
  assume "threads_ok db"
  then have "sorted_wrt (\<lambda>t r. \<not> thread_conflict r t) (tb_threads db)" by (simp add: threads_ok_def)
  then have "sorted_wrt (\<lambda>t r. th_id t \<noteq> th_id r) (tb_threads db)"
    by (rule sorted_wrt_mono_rel [rotated]) (auto simp: thread_conflict_def)
  then show ?thesis by (rule distinct_sorted)
qed

text \<open>
  Archiving the stale threads of a conversation always answers.  A thread that is not an open thread of the
  conversation, silent for a day, is left as it is.  When the archiving succeeds, each stale thread is archived,
  with nothing else changed but the synopsis and the keywords, and those only if it had no synopsis; when it
  fails, each stale thread is either that or left as it is.
\<close>

theorem stale_threads_filed:
  assumes "threads_ok (rs_db s)"
  shows "\<exists>s' r. archiveStaleThreads rt c s = Some (s', r) \<and>
    list_all2 (\<lambda>t t'.
      if stale c (rt_now rt (rs_world s) - STALE_ARCHIVE_MS) t \<and> (r = Inr () \<or> t' \<noteq> t) then filed t t' else t' = t)
      (tb_threads (rs_db s)) (tb_threads (rs_db s'))"
proof -
  let ?cut = "rt_now rt (rs_world s) - STALE_ARCHIVE_MS"
  let ?ts = "tb_threads (rs_db s)"
  obtain s' r where run: "archiveStaleThreads rt c s = Some (s', r)"
    using responds_archive [of rt c] by (auto simp: responds_def) (metis not_None_eq surj_pair)
  have d: "distinct (map th_id ?ts)" using assms by (rule ids_distinct)
  have "filed_rows (th_id ` {t \<in> set ?ts. stale c ?cut t}) (r = Inr ()) ?ts (tb_threads (rs_db s'))"
    using run unfolding archiveStaleThreads_def
    by (rule pmap_errorE) (drule archive_stale_filed [OF _ d], simp)+
  moreover have "th_id t \<in> th_id ` {t \<in> set ?ts. stale c ?cut t} \<longleftrightarrow> stale c ?cut t" if "t \<in> set ?ts" for t
    using d that by (auto simp: distinct_map inj_on_def)
  ultimately have "list_all2 (\<lambda>t t'. if stale c ?cut t \<and> (r = Inr () \<or> t' \<noteq> t) then filed t t' else t' = t)
      ?ts (tb_threads (rs_db s'))"
    unfolding filed_rows_def by (elim list.rel_mono_strong) simp
  with run show ?thesis by blast
qed

section \<open>Labels\<close>

lemma word_char_lower [simp]: "word_char (lower_char c) = word_char c"
  by (cases "(65 \<le> (of_char c :: nat) \<and> (of_char c :: nat) \<le> 90) \<or>
      (192 \<le> (of_char c :: nat) \<and> (of_char c :: nat) \<le> 222 \<and> (of_char c :: nat) \<noteq> 215)")
    (auto simp: word_char_def lower_char_def Let_def of_char_of)

text \<open>The last character of a text, or the first, is a word character.\<close>

definition word_end :: "string \<Rightarrow> bool" where "word_end s \<longleftrightarrow> s \<noteq> [] \<and> word_char (last s)"
definition word_start :: "string \<Rightarrow> bool" where "word_start s \<longleftrightarrow> s \<noteq> [] \<and> word_char (hd s)"

lemma word_ends_lower: "to_lower a = to_lower b \<Longrightarrow> word_end a = word_end b \<and> word_start a = word_start b"
  unfolding word_end_def word_start_def to_lower_def
  by (metis hd_map last_map map_is_Nil_conv word_char_lower)

lemma boundary_between: "boundary (a @ b) (length a) \<longleftrightarrow> word_end a \<noteq> word_start b"
  by (cases a rule: rev_cases; cases b)
    (auto simp: boundary_def word_at_def nth_opt_def word_end_def word_start_def nth_append)

lemma label_at_split:
  assumes "label \<noteq> []"
  shows "label_at (pre @ rest) label (length pre) \<longleftrightarrow>
    (\<exists>mid post. rest = mid @ post \<and> to_lower mid = to_lower label \<and>
       word_end pre \<noteq> word_start label \<and> word_end label \<noteq> word_start post)"
proof
  assume l: "label_at (pre @ rest) label (length pre)"
  let ?mid = "take (length label) rest" and ?post = "drop (length label) rest"
  have low: "to_lower ?mid = to_lower label" using l by (simp add: label_at_def to_lower_def take_map)
  then have len: "length ?mid = length label" by (metis length_map to_lower_def)
  with assms have mid: "?mid \<noteq> []" by auto
  have "boundary (pre @ rest) (length pre)" using l by (simp add: label_at_def)
  then have "word_end pre \<noteq> word_start rest" by (simp add: boundary_between)
  then have 1: "word_end pre \<noteq> word_start ?mid" using mid by (cases rest) (auto simp: word_start_def)
  have "boundary ((pre @ ?mid) @ ?post) (length (pre @ ?mid))" using l len by (simp add: label_at_def)
  then have "word_end (pre @ ?mid) \<noteq> word_start ?post" unfolding boundary_between .
  moreover have "word_end (pre @ ?mid) = word_end ?mid" using mid by (simp add: word_end_def)
  ultimately have 2: "word_end ?mid \<noteq> word_start ?post" by metis
  show "\<exists>mid post. rest = mid @ post \<and> to_lower mid = to_lower label \<and>
       word_end pre \<noteq> word_start label \<and> word_end label \<noteq> word_start post"
    using low 1 2 unfolding word_ends_lower [OF low, THEN conjunct1] word_ends_lower [OF low, THEN conjunct2]
    by (intro exI [of _ ?mid] exI [of _ ?post] conjI append_take_drop_id [symmetric])
next
  assume "\<exists>mid post. rest = mid @ post \<and> to_lower mid = to_lower label \<and>
       word_end pre \<noteq> word_start label \<and> word_end label \<noteq> word_start post"
  then obtain mid post where rest: "rest = mid @ post" and low: "to_lower mid = to_lower label"
    and w: "word_end pre \<noteq> word_start label" "word_end label \<noteq> word_start post" by blast
  from low have len: "length mid = length label" by (metis length_map to_lower_def)
  with assms have mid: "mid \<noteq> []" by auto
  have "boundary (pre @ rest) (length pre)"
    using w(1) word_ends_lower [OF low] mid by (simp add: boundary_between rest word_start_def)
  moreover have "boundary ((pre @ mid) @ post) (length (pre @ mid))"
    using w(2) word_ends_lower [OF low] mid by (simp add: boundary_between word_end_def del: append_assoc length_append)
  ultimately show "label_at (pre @ rest) label (length pre)"
    using low len by (simp add: label_at_def rest to_lower_def)
qed

text \<open>
  A label of at least three characters matches a message exactly when it occurs in it up to case, and at
  each of its two ends exactly one side of the place is a word character.
\<close>

theorem label_matches:
  "matchesLabel message label \<longleftrightarrow>
     3 \<le> length label \<and>
     (\<exists>pre mid post. message = pre @ mid @ post \<and> to_lower mid = to_lower label \<and>
        word_end pre \<noteq> word_start label \<and> word_end label \<noteq> word_start post)"
proof (cases "3 \<le> length label")
  case True
  then have ne: "label \<noteq> []" by auto
  have "matchesLabel message label \<longleftrightarrow> (\<exists>i \<le> length message. label_at message label i)"
    using True by (auto simp: matchesLabel_def list_ex_iff less_Suc_eq_le simp del: upt_Suc)
  also have "\<dots> \<longleftrightarrow> (\<exists>pre rest. message = pre @ rest \<and> label_at (pre @ rest) label (length pre))"
    by (metis append_take_drop_id length_take min.absorb2 le_add1 length_append)
  finally show ?thesis using True label_at_split [OF ne] by metis
qed (simp add: matchesLabel_def)

text \<open>A label that ends in another character matches only where the text goes on with a word character.\<close>

lemma label_needs_word:
  "\<not> matchesLabel ''Can you fix the C++ build?'' ''C++'' \<and> matchesLabel ''Can you fix the C++17 build?'' ''C++''"
  by code_simp

section \<open>A conversation\<close>

text \<open>A world that counts, with a database that answers, a model that opens new threads and no synopsis.\<close>

definition demo_outside :: "nat outside" where
  "demo_outside = \<lparr>rt_now = \<lambda>w. 200000000 + int w, rt_uuid = \<lambda>w. (Suc w, ''t'' @ nat_digits w),
     rt_query = \<lambda>w. (w, None),
     rt_route = \<lambda>prompt w. (w, Inr \<lparr>ro_action = RNew, ro_threadIndex = None, ro_label = Some '' Trip '', ro_keywords = None\<rparr>),
     rt_synopsis = \<lambda>prompt w. (w, Inl ''overloaded'')\<rparr>"

definition demo_thread :: "string \<Rightarrow> string option \<Rightarrow> int \<Rightarrow> bool \<Rightarrow> thread_row" where
  "demo_thread i synopsis at main =
     (new_thread at i ''c1'' SrcDerived)\<lparr>th_synopsis := synopsis, th_isDefault := main\<rparr>"

definition demo_tables :: thread_db where
  "demo_tables =
     \<lparr>tb_conversations = [new_conversation 0 ''c1'' ''u1'' ''telegram'' ''7''],
      tb_threads = [demo_thread ''main'' None 1000 True, demo_thread ''taxes'' (Some ''Taxes are filed.'') 2000 False],
      tb_messages =
        [\<lparr>mg_id = ''m1'', mg_conversationId = ''c1'', mg_threadId = None, mg_role = ''user'', mg_content = ''hello'', mg_createdAt = 900\<rparr>,
         \<lparr>mg_id = ''m2'', mg_conversationId = ''c1'', mg_threadId = Some ''main'', mg_role = ''user'', mg_content = ''more'', mg_createdAt = 1000\<rparr>]\<rparr>"

definition demo_state :: "nat router_state" where "demo_state = \<lparr>rs_db = demo_tables, rs_world = 0\<rparr>"

lemma demo_ok: "threads_ok (rs_db demo_state)"
  by code_simp

theorem resolved_thread_witness:
  "\<exists>s' v. resolveThread demo_outside ''c1'' ''where shall we go'' None demo_state = Some (s', Inr v) \<and>
     threads_ok (rs_db s') \<and> thread_open (rv_threadId v) (rs_db s') \<and> has_thread ''c1'' (rv_threadId v) (rs_db s')"
proof -
  have msg: "has_message ''c1'' (tb_messages (rs_db demo_state))" by code_simp
  have ok: "case resolveThread demo_outside ''c1'' ''where shall we go'' None demo_state of
      Some (s', Inr v) \<Rightarrow> True | _ \<Rightarrow> False" by code_simp
  then obtain s' v where run: "resolveThread demo_outside ''c1'' ''where shall we go'' None demo_state = Some (s', Inr v)"
    by (auto split: option.splits prod.splits sum.splits)
  from resolved_thread [OF demo_ok, of demo_outside "''c1''" "''where shall we go''" None] msg
  show ?thesis unfolding run by (elim exE conjE) simp
qed

definition demo_summaries :: "nat outside" where
  "demo_summaries = demo_outside\<lparr>rt_synopsis := \<lambda>prompt w. (w, Inr ('' They said hello. '', [''hello'']))\<rparr>"

theorem stale_threads_filed_witness:
  "\<exists>s'. archiveStaleThreads demo_summaries ''c1'' demo_state = Some (s', Inr ()) \<and>
     list_all2 (\<lambda>t t'. if stale ''c1'' 113600000 t then filed t t' else t' = t)
       (tb_threads demo_tables) (tb_threads (rs_db s'))"
proof -
  have ok: "map_option snd (archiveStaleThreads demo_summaries ''c1'' demo_state) = Some (Inr ())" by code_simp
  have now: "rt_now demo_summaries (rs_world demo_state) - STALE_ARCHIVE_MS = 113600000" by code_simp
  have db: "rs_db demo_state = demo_tables" by (simp add: demo_state_def)
  from stale_threads_filed [OF demo_ok, of demo_summaries "''c1''", unfolded now db] ok show ?thesis
    by (elim exE conjE) (simp add: if_bool_eq_conj)
qed

text \<open>
  A synopsis that fails ends the archiving: the thread that needed none stays open, a day and more after its
  last message, and \<open>resolveThread\<close> goes on as if nothing had happened.
\<close>

lemma archiving_stops:
  "case archiveStaleThreads demo_outside ''c1'' demo_state of
     Some (s', r) \<Rightarrow> r = Inl (AgentError ''Failed to generate synopsis for archival'') \<and> thread_open ''taxes'' (rs_db s')
   | None \<Rightarrow> False"
  by code_simp

end
