(* ===== verification/Attachments.thy ===== *)
theory Attachments
  imports Telegram TaskEvents "HOL-Library.AList" "HOL-Library.Word"
begin

unbundle bit_operations_syntax

text \<open>
  The attachment service (\<open>packages/attachments/src/service.ts\<close>) on the table of
  \<open>packages/db/src/schema/attachments.ts\<close>: the ingestion of a message's files, the quota, the content given to
  a model, signed links and the artifacts of tasks.
\<close>

section \<open>Tables\<close>

type_synonym bytes = "8 word list"

datatype att_status = AtPending | AtDownloading | AtReady | AtFailed | AtDeleted

datatype att_source = FromTelegram | FromTaskArtifact | FromAssistant

datatype att_direction = Inbound | Outbound

record att_row =
  at_id :: string
  at_userId :: string
  at_conversationId :: "string option"
  at_threadId :: "string option"
  at_messageId :: "string option"
  at_taskId :: "string option"
  at_direction :: att_direction
  at_source :: att_source
  at_kind :: attachment_kind
  at_status :: att_status
  at_dedupeKey :: "string option"
  at_mediaType :: string
  at_originalFilename :: "string option"
  at_title :: "string option"
  at_sizeBytes :: "int option"
  at_sha256 :: "string option"
  at_r2Key :: "string option"
  at_sourceRef :: "telegram_source option"
  at_metadata :: "(string \<times> json) list option"
  at_updatedAt :: int
  at_deletedAt :: "int option"

text \<open>The rows, the objects of the blob store by their keys, and the world outside.\<close>

record 'w att_state =
  as_rows :: "att_row list"
  as_blobs :: "(string \<times> bytes) list"
  as_world :: 'w

record file_path_response =
  fp_ok :: bool
  fp_status :: int
  fp_jsonOk :: bool
  fp_path :: "string option"
  fp_description :: "string option"

record 'w att_env =
  av_now :: "'w \<Rightarrow> int"
  av_uuid :: "'w \<Rightarrow> 'w \<times> string"
  av_query :: "'w \<Rightarrow> 'w \<times> string option"                          \<comment> \<open>does the database answer\<close>
  av_blob :: "'w \<Rightarrow> 'w \<times> string option"                           \<comment> \<open>does the blob store answer\<close>
  av_getFile :: "string \<Rightarrow> 'w \<Rightarrow> 'w \<times> (string + file_path_response)"
  av_file :: "string \<Rightarrow> 'w \<Rightarrow> 'w \<times> (string + bytes)"
  av_sha256 :: "bytes \<Rightarrow> bytes"
  av_hmac :: "string \<Rightarrow> string \<Rightarrow> bytes"                            \<comment> \<open>secret, message\<close>
  av_decode :: "bytes \<Rightarrow> string"                                   \<comment> \<open>UTF-8, with replacements\<close>
  av_number :: "string \<Rightarrow> (int \<times> string) option"                    \<comment> \<open>\<open>Number(s)\<close> of the other texts, when finite\<close>
  av_secret :: string

type_synonym ('w, 'a) att = "('w att_state, string, 'a) prog"

definition from_world :: "('w \<Rightarrow> 'w \<times> (string + 'a)) \<Rightarrow> ('w, 'a) att" where
  "from_world f = (\<lambda>s. case f (as_world s) of (w, r) \<Rightarrow> Some (s\<lparr>as_world := w\<rparr>, r))"

definition new_uuid :: "'w att_env \<Rightarrow> ('w, string) att" where
  "new_uuid env = from_world (\<lambda>w. case av_uuid env w of (w1, u) \<Rightarrow> (w1, Inr u))"

definition the_time :: "'w att_env \<Rightarrow> ('w, int) att" where
  "the_time env = pget (\<lambda>s. av_now env (as_world s))"

text \<open>A query of the rows, in one step.\<close>

definition att_query :: "'w att_env \<Rightarrow> (att_row list \<Rightarrow> string + att_row list \<times> 'a) \<Rightarrow> ('w, 'a) att" where
  "att_query env f = (\<lambda>s. case av_query env (as_world s) of
     (w, Some e) \<Rightarrow> Some (s\<lparr>as_world := w\<rparr>, Inl e)
   | (w, None) \<Rightarrow> (case f (as_rows s) of
       Inl e \<Rightarrow> Some (s\<lparr>as_world := w\<rparr>, Inl e)
     | Inr (rows, x) \<Rightarrow> Some (s\<lparr>as_world := w, as_rows := rows\<rparr>, Inr x)))"

section \<open>The store\<close>

definition att_conflict :: "att_row \<Rightarrow> att_row \<Rightarrow> bool" where
  "att_conflict r t \<longleftrightarrow> at_id t = at_id r \<or> at_dedupeKey t \<noteq> None \<and> at_dedupeKey t = at_dedupeKey r"

definition insert_att :: "att_row \<Rightarrow> att_row list \<Rightarrow> string + att_row list \<times> att_row" where
  "insert_att r rows =
     (if list_ex (att_conflict r) rows then Inl ''duplicate key value violates unique constraint''
      else Inr (rows @ [r], r))"

definition reserve_row :: "att_row \<Rightarrow> att_row list \<Rightarrow> string + att_row list \<times> att_row" where
  "reserve_row r rows =
     (case truthy_str (at_dedupeKey r) of
        None \<Rightarrow> insert_att r rows
      | Some key \<Rightarrow>
          (case find_first (\<lambda>t. at_dedupeKey t = Some key) rows of
             Some t \<Rightarrow> Inr (rows, t) | None \<Rightarrow> insert_att r rows))"

definition reserveInboundAttachment :: "'w att_env \<Rightarrow> att_row \<Rightarrow> ('w, att_row) att" where
  "reserveInboundAttachment env r = att_query env (reserve_row r)"

definition createAttachment :: "'w att_env \<Rightarrow> att_row \<Rightarrow> ('w, att_row) att" where
  "createAttachment env r = att_query env (insert_att r)"

definition update_att :: "int \<Rightarrow> string \<Rightarrow> (att_row \<Rightarrow> att_row) \<Rightarrow> att_row list \<Rightarrow> att_row list" where
  "update_att now i f rows = map (\<lambda>t. if at_id t = i then (f t)\<lparr>at_updatedAt := now\<rparr> else t) rows"

definition att_by_id :: "string \<Rightarrow> att_row list \<Rightarrow> att_row option" where
  "att_by_id i rows = find_first (\<lambda>t. at_id t = i) rows"

definition updateAttachment :: "'w att_env \<Rightarrow> string \<Rightarrow> (att_row \<Rightarrow> att_row) \<Rightarrow> ('w, att_row option) att" where
  "updateAttachment env i f =
     pbind (the_time env) (\<lambda>now. att_query env (\<lambda>rows.
       let rows1 = update_att now i f rows in Inr (rows1, att_by_id i rows1)))"

definition att_getById :: "'w att_env \<Rightarrow> string \<Rightarrow> ('w, att_row option) att" where
  "att_getById env i = att_query env (\<lambda>rows. Inr (rows, att_by_id i rows))"

definition att_getByIdAndUser :: "'w att_env \<Rightarrow> string \<Rightarrow> string \<Rightarrow> ('w, att_row option) att" where
  "att_getByIdAndUser env i user =
     att_query env (\<lambda>rows. Inr (rows, find_first (\<lambda>t. at_id t = i \<and> at_userId t = user) rows))"

definition listByIdsAndUser :: "'w att_env \<Rightarrow> string list \<Rightarrow> string \<Rightarrow> ('w, att_row list) att" where
  "listByIdsAndUser env is user =
     (if is = [] then pret []
      else att_query env (\<lambda>rows. Inr (rows, filter (\<lambda>t. at_id t \<in> set is \<and> at_userId t = user) rows)))"

definition listByTaskId :: "'w att_env \<Rightarrow> string \<Rightarrow> ('w, att_row list) att" where
  "listByTaskId env task =
     att_query env (\<lambda>rows. Inr (rows, filter (\<lambda>t. at_taskId t = Some task \<and> at_deletedAt t = None) rows))"

definition counted :: "string \<Rightarrow> att_row \<Rightarrow> bool" where
  "counted user t \<longleftrightarrow> at_userId t = user \<and> at_status t = AtReady \<and> at_deletedAt t = None"

definition total_ready :: "string \<Rightarrow> att_row list \<Rightarrow> int" where
  "total_ready user rows = sum_list (map (\<lambda>t. default_to (at_sizeBytes t) 0) (filter (counted user) rows))"

definition getTotalReadyBytesForUser :: "'w att_env \<Rightarrow> string \<Rightarrow> ('w, int) att" where
  "getTotalReadyBytesForUser env user = att_query env (\<lambda>rows. Inr (rows, total_ready user rows))"

section \<open>Limits, keys and contents\<close>

definition ATTACHMENT_UPLOAD_LIMIT_BYTES :: int where "ATTACHMENT_UPLOAD_LIMIT_BYTES = 20 * 1024 * 1024"
definition ATTACHMENT_USER_QUOTA_BYTES :: int where "ATTACHMENT_USER_QUOTA_BYTES = 1024 * 1024 * 1024"
definition ATTACHMENT_DOWNLOAD_TTL_MS :: int where "ATTACHMENT_DOWNLOAD_TTL_MS = 15 * 60 * 1000"

definition INTERNAL_TASK_ARTIFACT_FILENAMES :: "string list" where
  "INTERNAL_TASK_ARTIFACT_FILENAMES = [''result.md'', ''stdout.log'', ''stderr.log'', ''status.json'']"

definition assertUserQuota :: "'w att_env \<Rightarrow> string \<Rightarrow> int option \<Rightarrow> ('w, unit) att" where
  "assertUserQuota env user sizeBytes =
     (case sizeBytes of
        None \<Rightarrow> pret ()
      | Some n \<Rightarrow>
          pbind (pmap_error (\<lambda>e. ''Failed to calculate attachment quota: '' @ e) (getTotalReadyBytesForUser env user))
            (\<lambda>total. if total + n > ATTACHMENT_USER_QUOTA_BYTES
               then pthrow ''Attachment quota exceeded for this user.'' else pret ()))"

definition buildStorageKey ::
    "string \<Rightarrow> string \<Rightarrow> string option \<Rightarrow> attachment_kind \<Rightarrow> string option \<Rightarrow> string \<Rightarrow> string" where
  "buildStorageKey user i filename kind mediaType variant =
     ''users/'' @ user @ ''/attachments/'' @ i @ ''/'' @ variant @ ''/'' @
     sanitizeFilename (str_or (default_to filename []) (defaultFilenameForAttachment i kind mediaType))"

definition blob_put :: "'w att_env \<Rightarrow> string \<Rightarrow> bytes \<Rightarrow> ('w, unit) att" where
  "blob_put env key body = (\<lambda>s. case av_blob env (as_world s) of
     (w, Some e) \<Rightarrow> Some (s\<lparr>as_world := w\<rparr>, Inl e)
   | (w, None) \<Rightarrow> Some (s\<lparr>as_world := w, as_blobs := AList.update key body (as_blobs s)\<rparr>, Inr ()))"

definition blob_get :: "'w att_env \<Rightarrow> string \<Rightarrow> ('w, bytes option) att" where
  "blob_get env key = (\<lambda>s. case av_blob env (as_world s) of
     (w, Some e) \<Rightarrow> Some (s\<lparr>as_world := w\<rparr>, Inl e)
   | (w, None) \<Rightarrow> Some (s\<lparr>as_world := w\<rparr>, Inr (map_of (as_blobs s) key)))"

definition fetchTelegramFilePath :: "'w att_env \<Rightarrow> string \<Rightarrow> ('w, string) att" where
  "fetchTelegramFilePath env fileId =
     pbind (from_world (av_getFile env fileId)) (\<lambda>r.
       if \<not> fp_ok r then pthrow (''Telegram getFile failed with '' @ nat_digits (nat (fp_status r)))
       else (case truthy_str (fp_path r) of
           Some path \<Rightarrow> if fp_jsonOk r then pret path
             else pthrow (str_or (default_to (fp_description r) []) ''Telegram file path missing'')
         | None \<Rightarrow> pthrow (str_or (default_to (fp_description r) []) ''Telegram file path missing'')))"

definition downloadTelegramFile :: "'w att_env \<Rightarrow> telegram_source \<Rightarrow> ('w, bytes) att" where
  "downloadTelegramFile env source =
     pbind (fetchTelegramFilePath env (ts_fileId source)) (\<lambda>path. from_world (av_file env path))"

definition unavailable_for_download :: "string \<Rightarrow> string" where
  "unavailable_for_download i = ''Attachment '' @ i @ '' is not available for download.''"

definition loadAttachmentContent :: "'w att_env \<Rightarrow> string \<Rightarrow> ('w, att_row \<times> bytes) att" where
  "loadAttachmentContent env i =
     pbind (pmap_error (\<lambda>e. ''Failed to load attachment '' @ i @ '': '' @ e) (att_getById env i)) (\<lambda>record.
       case record of
         None \<Rightarrow> pthrow (unavailable_for_download i)
       | Some r \<Rightarrow>
           (case truthy_str (at_r2Key r) of
              None \<Rightarrow> pthrow (unavailable_for_download i)
            | Some key \<Rightarrow>
                if at_status r \<noteq> AtReady then pthrow (unavailable_for_download i)
                else pbind (pmap_error (\<lambda>_. ''Failed to read attachment bytes for '' @ i) (blob_get env key)) (\<lambda>obj.
                  case obj of None \<Rightarrow> pthrow (''Attachment bytes missing for '' @ i) | Some body \<Rightarrow> pret (r, body))))"

section \<open>Ingestion\<close>

record att_ref =
  rf_id :: string
  rf_kind :: attachment_kind
  rf_mediaType :: string
  rf_filename :: "string option"
  rf_sizeBytes :: "int option"
  rf_title :: "string option"
  rf_status :: att_status
  rf_metadata :: "(string \<times> json) list option"

datatype message_part = MText string | MAttachment att_ref

definition toAttachmentRef :: "att_row \<Rightarrow> att_ref" where
  "toAttachmentRef r =
     \<lparr>rf_id = at_id r, rf_kind = at_kind r, rf_mediaType = at_mediaType r, rf_filename = at_originalFilename r,
      rf_sizeBytes = at_sizeBytes r, rf_title = or_else (at_title r) (at_originalFilename r),
      rf_status = at_status r, rf_metadata = at_metadata r\<rparr>"

text \<open>A spread of an object with fields after it; a field of value \<open>undefined\<close> takes the old one away.\<close>

definition spread :: "(string \<times> json) list option \<Rightarrow> (string \<times> json option) list \<Rightarrow> (string \<times> json) list option" where
  "spread m kvs = Some (filter (\<lambda>(k, _). k \<notin> fst ` set kvs) (default_to m []) @
     List.map_filter (\<lambda>(k, v). map_option (Pair k) v) kvs)"

definition too_large :: "string \<Rightarrow> string" where
  "too_large actual = ''File exceeds the 20 MB upload limit'' @ actual @ ''.''"

definition policy_fields :: "attachment_policy \<Rightarrow> (string \<times> json option) list" where
  "policy_fields p = [(''directModel'', Some (JBool (ap_directModel p))), (''directText'', Some (JBool (ap_directText p))),
     (''sandboxOnly'', Some (JBool (ap_sandboxOnly p)))]"

text \<open>\<open>a || b\<close> on numbers.\<close>

definition num_or :: "int option \<Rightarrow> int option \<Rightarrow> int option" where
  "num_or a b = (if a = None \<or> a = Some 0 then b else a)"

definition source_text :: "int \<Rightarrow> string" where
  "source_text n = (if n < 0 then CHR ''-'' # nat_digits (nat (- n)) else nat_digits (nat n))"

definition dedupe_key :: "telegram_source \<Rightarrow> string" where
  "dedupe_key src = ''telegram:'' @ source_text (ts_chatId src) @ '':'' @ source_text (ts_sourceMessageId src) @ '':'' @
     str_or (default_to (ts_fileUniqueId src) []) (ts_fileId src)"

definition reservation ::
    "string \<Rightarrow> string \<Rightarrow> string \<Rightarrow> int \<Rightarrow> buffered_attachment \<Rightarrow> string \<Rightarrow> attachment_policy \<Rightarrow> att_row" where
  "reservation uuid user conversation now a filename p =
     (let src = ba_source a
      in \<lparr>at_id = uuid, at_userId = user, at_conversationId = Some conversation, at_threadId = None,
          at_messageId = None, at_taskId = None, at_direction = Inbound, at_source = FromTelegram, at_kind = ap_kind p,
          at_status = AtPending, at_dedupeKey = Some (dedupe_key src), at_mediaType = ap_mediaType p,
          at_originalFilename = Some filename, at_title = Some (default_to (ba_title a) filename),
          at_sizeBytes = or_else (ba_sizeBytes a) (ts_sizeBytes src), at_sha256 = None, at_r2Key = None,
          at_sourceRef = Some src,
          at_metadata = spread None (policy_fields p @
            [(''mediaGroupId'', Some (case ts_mediaGroupId src of None \<Rightarrow> JNull | Some g \<Rightarrow> JStr g))]),
          at_updatedAt = now, at_deletedAt = None\<rparr>)"

definition part_filename :: "'w att_env \<Rightarrow> buffered_attachment \<Rightarrow> ('w, string) att" where
  "part_filename env a =
     (case or_else (truthy_str (ba_filename a)) (truthy_str (ts_filename (ba_source a))) of
        Some f \<Rightarrow> pret f
      | None \<Rightarrow> pbind (new_uuid env) (\<lambda>u. pret (defaultFilenameForAttachment u (ba_kind a) (ba_mediaType a))))"

definition fail_large :: "'w att_env \<Rightarrow> att_row \<Rightarrow> string \<Rightarrow> int option \<Rightarrow> ('w, message_part) att" where
  "fail_large env r actual bytes =
     pbind (pmap_error (\<lambda>_. ''Failed to mark oversized attachment '' @ at_id r) (updateAttachment env (at_id r) (\<lambda>t.
       t\<lparr>at_status := AtFailed, at_metadata := spread (at_metadata r) [(''error'', Some (JStr (too_large actual)))]\<rparr>))) (\<lambda>_.
       pret (MAttachment (toAttachmentRef (r\<lparr>at_status := AtFailed, at_sizeBytes := bytes,
         at_metadata := spread (at_metadata r) [(''error'', Some (JStr (too_large [])))]\<rparr>))))"

definition finish_ready ::
    "'w att_env \<Rightarrow> att_row \<Rightarrow> attachment_policy \<Rightarrow> string \<Rightarrow> string \<Rightarrow> bytes \<Rightarrow> ('w, message_part) att" where
  "finish_ready env r p filename key body =
     (let size = int (length body);
          preview = (if ap_directText p \<and> size \<le> 2048 then Some (JStr (take 512 (av_decode env body))) else None);
          metadata = spread (at_metadata r) ((''previewText'', preview) # policy_fields p)
      in pbind (pmap_error (\<lambda>_. ''Failed to finalize attachment '' @ at_id r) (updateAttachment env (at_id r) (\<lambda>t.
           t\<lparr>at_status := AtReady, at_sizeBytes := Some size, at_r2Key := Some key,
             at_sha256 := Some (bufToHex (av_sha256 env body)), at_metadata := metadata\<rparr>))) (\<lambda>_.
           pret (MAttachment \<lparr>rf_id = at_id r, rf_kind = ap_kind p, rf_mediaType = ap_mediaType p,
             rf_filename = Some filename, rf_sizeBytes = Some size, rf_title = at_title r, rf_status = AtReady,
             rf_metadata = metadata\<rparr>)))"

text \<open>A reserved row that is not ready is downloaded; the bytes are stored before their size is known.\<close>

definition download_part ::
    "'w att_env \<Rightarrow> string \<Rightarrow> buffered_attachment \<Rightarrow> att_row \<Rightarrow> attachment_policy \<Rightarrow> string \<Rightarrow> ('w, message_part) att" where
  "download_part env user a r p filename =
     (let src = ba_source a; declared = or_else (at_sizeBytes r) (ts_sizeBytes src)
      in if (case declared of None \<Rightarrow> False | Some n \<Rightarrow> n > ATTACHMENT_UPLOAD_LIMIT_BYTES)
         then fail_large env r [] (at_sizeBytes r)
         else pbind (assertUserQuota env user declared) (\<lambda>_.
           pbind (pmap_error (\<lambda>_. ''Failed to mark attachment '' @ at_id r @ '' as downloading'')
             (updateAttachment env (at_id r) (\<lambda>t. t\<lparr>at_status := AtDownloading\<rparr>))) (\<lambda>_.
           pbind (pmap_error (\<lambda>_. ''Failed to download Telegram attachment '' @ ts_fileId src)
             (downloadTelegramFile env src)) (\<lambda>body.
           let key = buildStorageKey user (at_id r) (Some filename) (at_kind r) (Some (ap_mediaType p)) ''source'';
               size = int (length body)
           in pbind (pmap_error (\<lambda>_. ''Failed to persist attachment bytes for '' @ at_id r) (blob_put env key body)) (\<lambda>_.
             if size > ATTACHMENT_UPLOAD_LIMIT_BYTES
             then fail_large env r ('' (actual: '' @ nat_digits (nat size) @ '' bytes)'') (Some size)
             else pbind (assertUserQuota env user (Some size)) (\<lambda>_.
               finish_ready env r p filename key body))))))"

definition ingest_part :: "'w att_env \<Rightarrow> string \<Rightarrow> string \<Rightarrow> buffered_attachment \<Rightarrow> ('w, message_part) att" where
  "ingest_part env user conversation a =
     pbind (part_filename env a) (\<lambda>filename.
       let src = ba_source a;
           p = classifyAttachment (or_else (truthy_str (ba_mediaType a)) (ts_mediaType src)) (Some filename)
                 (num_or (ba_sizeBytes a) (ts_sizeBytes src))
       in pbind (new_uuid env) (\<lambda>uuid. pbind (the_time env) (\<lambda>now.
          pbind (pmap_error (\<lambda>e. ''Failed to reserve attachment row: '' @ e)
            (reserveInboundAttachment env (reservation uuid user conversation now a filename p))) (\<lambda>r.
          if at_status r \<noteq> AtReady \<or> truthy_str (at_r2Key r) = None
          then download_part env user a r p filename
          else pret (MAttachment (toAttachmentRef r))))))"

text \<open>Any failure becomes a failed part, under an identifier of its own.\<close>

definition ingestAttachmentPart :: "'w att_env \<Rightarrow> string \<Rightarrow> string \<Rightarrow> buffered_attachment \<Rightarrow> ('w, message_part) att" where
  "ingestAttachmentPart env user conversation a =
     ptry (ingest_part env user conversation a) (\<lambda>r. case r of
       Inr part \<Rightarrow> pret part
     | Inl e \<Rightarrow> pbind (new_uuid env) (\<lambda>u.
         let src = ba_source a in
         pret (MAttachment \<lparr>rf_id = u, rf_kind = ba_kind a,
           rf_mediaType = str_or (default_to (ba_mediaType a) []) (str_or (default_to (ts_mediaType src) [])
             (str_or (default_to (inferMediaTypeFromFilename (ba_filename a)) []) ''application/octet-stream'')),
           rf_filename = or_else (truthy_str (ba_filename a)) (ts_filename src),
           rf_sizeBytes = num_or (ba_sizeBytes a) (ts_sizeBytes src),
           rf_title = or_else (truthy_str (ba_title a)) (truthy_str (ba_filename a)), rf_status = AtFailed,
           rf_metadata = Some [(''error'', JStr e)]\<rparr>)))"

fun ingest_parts :: "'w att_env \<Rightarrow> string \<Rightarrow> string \<Rightarrow> buffered_part list \<Rightarrow> ('w, message_part list) att" where
  "ingest_parts env user conversation [] = pret []"
| "ingest_parts env user conversation (TextPart t # ps) =
     pbind (ingest_parts env user conversation ps) (\<lambda>qs. pret (MText t # qs))"
| "ingest_parts env user conversation (AttachmentPart a # ps) =
     pbind (ingestAttachmentPart env user conversation a) (\<lambda>q.
     pbind (ingest_parts env user conversation ps) (\<lambda>qs. pret (q # qs)))"

definition message_kinds :: "message_part list \<Rightarrow> attachment_kind list" where
  "message_kinds ps = List.map_filter (\<lambda>p. case p of MText _ \<Rightarrow> None | MAttachment a \<Rightarrow> Some (rf_kind a)) ps"

fun ingestBufferedMessages ::
    "'w att_env \<Rightarrow> string \<Rightarrow> string \<Rightarrow> buffered_message list \<Rightarrow> ('w, (string \<times> message_part list) list) att" where
  "ingestBufferedMessages env user conversation [] = pret []"
| "ingestBufferedMessages env user conversation (m # ms) =
     pbind (ingest_parts env user conversation (parts m)) (\<lambda>ps.
     pbind (ingestBufferedMessages env user conversation ms) (\<lambda>rest.
       pret ((str_or (js_trim (textSummary m)) (summarizeAttachmentCounts (message_kinds ps)), ps) # rest)))"

section \<open>Contents for a model\<close>

definition quote :: "string \<Rightarrow> string" where "quote s = [CHR 0x22] @ s @ [CHR 0x22]"
definition two_lines :: string where "two_lines = [CHR 0x0A, CHR 0x0A]"

datatype model_content =
  ContentText string | ContentImage bytes string | ContentFile bytes string "string option"

definition first_text :: "string option list \<Rightarrow> string \<Rightarrow> string" where
  "first_text os d = (case List.map_filter truthy_str os of [] \<Rightarrow> d | x # _ \<Rightarrow> x)"

definition buildAttachmentUnavailableNote :: "att_row \<Rightarrow> string" where
  "buildAttachmentUnavailableNote r =
     (let name = first_text [at_originalFilename r, at_title r] (at_id r);
          err = json_str (map_of (default_to (at_metadata r) []) ''error'')
      in if at_status r = AtFailed
         then ''Attachment '' @ quote name @ '' could not be ingested: '' @ first_text [err] ''ingest failed'' @ ''.''
         else ''Attachment '' @ quote name @
           '' is stored but only available through sandbox fallback in this turn.'')"

definition content_of :: "'w att_env \<Rightarrow> att_row \<Rightarrow> bytes \<Rightarrow> model_content" where
  "content_of env r body =
     (let p = classifyAttachment (Some (at_mediaType r)) (at_originalFilename r) (at_sizeBytes r)
      in if ap_directText p \<and> ap_directModel p
         then ContentText (''Attached file: '' @ first_text [at_originalFilename r] (at_id r) @ two_lines @ av_decode env body)
         else if ap_kind p = KImage \<and> ap_directModel p then ContentImage body (ap_mediaType p)
         else if ap_kind p = KPdf \<and> ap_directModel p
         then ContentFile body (ap_mediaType p) (truthy_str (at_originalFilename r))
         else ContentText (buildAttachmentUnavailableNote r))"

fun resolveModelMessageContent :: "'w att_env \<Rightarrow> message_part list \<Rightarrow> ('w, model_content list) att" where
  "resolveModelMessageContent env [] = pret []"
| "resolveModelMessageContent env (MText t # ps) =
     pbind (resolveModelMessageContent env ps) (\<lambda>cs. pret (ContentText t # cs))"
| "resolveModelMessageContent env (MAttachment a # ps) =
     ptry (loadAttachmentContent env (rf_id a)) (\<lambda>loaded.
     pbind (resolveModelMessageContent env ps) (\<lambda>cs.
       pret ((case loaded of
           Inl _ \<Rightarrow> ContentText (''Attachment '' @ quote (first_text [rf_title a, rf_filename a] (rf_id a)) @
             '' is unavailable in this turn.'')
         | Inr (r, body) \<Rightarrow> content_of env r body) # cs)))"

definition getAttachmentIds :: "message_part list \<Rightarrow> string list" where
  "getAttachmentIds ps = List.map_filter (\<lambda>p. case p of MText _ \<Rightarrow> None | MAttachment a \<Rightarrow> Some (rf_id a)) ps"

fun link_all :: "'w att_env \<Rightarrow> string \<Rightarrow> (att_row \<Rightarrow> att_row) \<Rightarrow> string list \<Rightarrow> ('w, unit) att" where
  "link_all env user f [] = pret ()"
| "link_all env user f (i # is) =
     pbind (att_getByIdAndUser env i user) (\<lambda>record.
     pbind (case record of None \<Rightarrow> pret None | Some _ \<Rightarrow> updateAttachment env i f) (\<lambda>_. link_all env user f is))"

definition linkMessageAttachments ::
    "'w att_env \<Rightarrow> string \<Rightarrow> string \<Rightarrow> string \<Rightarrow> string \<Rightarrow> message_part list \<Rightarrow> ('w, unit) att" where
  "linkMessageAttachments env user conversation thread message ps =
     pmap_error (\<lambda>e. ''Failed to link message attachments: '' @ e)
       (link_all env user (\<lambda>t. t\<lparr>at_conversationId := Some conversation, at_threadId := Some thread,
          at_messageId := Some message\<rparr>) (getAttachmentIds ps))"

section \<open>Signed links\<close>

definition base64_digit :: "nat \<Rightarrow> char" where
  "base64_digit n = (if n < 26 then char_of (65 + n) else if n < 52 then char_of (71 + n)
     else if n < 62 then char_of (n - 4) else if n = 62 then CHR ''-'' else CHR ''_'')"

text \<open>\<open>base64\<close> with the digits of URLs and without padding.\<close>

fun encodeBase64Url :: "bytes \<Rightarrow> string" where
  "encodeBase64Url [] = []"
| "encodeBase64Url [a] =
     (let n = unat a * 16 in map base64_digit [n div 64, n mod 64])"
| "encodeBase64Url [a, b] =
     (let n = (unat a * 256 + unat b) * 4 in map base64_digit [n div 4096, n div 64 mod 64, n mod 64])"
| "encodeBase64Url (a # b # c # rest) =
     (let n = (unat a * 256 + unat b) * 256 + unat c
      in map base64_digit [n div 262144, n div 4096 mod 64, n div 64 mod 64, n mod 64] @ encodeBase64Url rest)"

text \<open>
  \<open>Number(s)\<close>: of a decimal text below 2 to the power 53 its value; of other texts (signs, fractions,
  exponents, blanks), a parameter.  A finite number is given by its floor, which decides how it compares with
  a whole number, and by its text in a template.
\<close>

definition js_number :: "'w att_env \<Rightarrow> string \<Rightarrow> (int \<times> string) option" where
  "js_number env s =
     (if s \<noteq> [] \<and> list_all is_digit s \<and> parse_digits s < 2 ^ 53
      then Some (int (parse_digits s), nat_digits (parse_digits s)) else av_number env s)"

definition signDownloadToken :: "'w att_env \<Rightarrow> string \<Rightarrow> string \<Rightarrow> string" where
  "signDownloadToken env i expiresAt = encodeBase64Url (av_hmac env (av_secret env) (i @ '':'' @ expiresAt))"

text \<open>The comparison of two texts, which looks at every byte of them.\<close>

definition mismatch :: "string \<Rightarrow> string \<Rightarrow> 8 word" where
  "mismatch a b = xor_diff 0 (map of_char a) (map of_char b)"

definition verifyDownloadToken :: "'w att_env \<Rightarrow> string \<Rightarrow> string \<Rightarrow> string \<Rightarrow> bool" where
  "verifyDownloadToken env i expiresAt signature =
     (let expected = signDownloadToken env i expiresAt
      in length expected = length signature \<and> mismatch expected signature = 0)"

record download_link =
  dl_path :: string
  dl_expires :: string
  dl_sig :: string

definition buildSignedDownloadUrl :: "'w att_env \<Rightarrow> string \<Rightarrow> ('w, download_link) att" where
  "buildSignedDownloadUrl env i =
     pbind (the_time env) (\<lambda>now.
       let expiresAt = now + ATTACHMENT_DOWNLOAD_TTL_MS
       in pret \<lparr>dl_path = ''/attachments/'' @ i, dl_expires = source_text expiresAt,
            dl_sig = signDownloadToken env i (source_text expiresAt)\<rparr>)"

definition verifySignedDownload :: "'w att_env \<Rightarrow> string \<Rightarrow> string \<Rightarrow> string \<Rightarrow> ('w, unit) att" where
  "verifySignedDownload env i expires signature =
     pbind (the_time env) (\<lambda>now.
       case js_number env expires of
         None \<Rightarrow> pthrow ''Download link expired.''
       | Some (floor, text) \<Rightarrow>
           if floor < now then pthrow ''Download link expired.''
           else if \<not> verifyDownloadToken env i text signature then pthrow ''Invalid attachment signature.''
           else pret ())"

text \<open>The response of a download: its headers and its body.\<close>

definition download_headers :: "att_row \<Rightarrow> (string \<times> string) list" where
  "download_headers r =
     (let disposition = (if starts_with (at_mediaType r) ''image/'' \<or> at_mediaType r = ''application/pdf''
            then ''inline'' else ''attachment'');
          filename = sanitizeFilename (first_text [at_originalFilename r, at_title r]
            (defaultFilenameForAttachment (at_id r) (at_kind r) (Some (at_mediaType r))))
      in [(''Content-Type'', str_or (at_mediaType r) ''application/octet-stream''),
          (''Content-Disposition'', disposition @ ''; filename='' @ quote filename)] @
         (case num_or (at_sizeBytes r) None of None \<Rightarrow> [] | Some n \<Rightarrow> [(''Content-Length'', source_text n)]))"

definition getDownloadResponse :: "'w att_env \<Rightarrow> string \<Rightarrow> ('w, (string \<times> string) list \<times> bytes) att" where
  "getDownloadResponse env i =
     pbind (loadAttachmentContent env i) (\<lambda>(r, body). pret (download_headers r, body))"

section \<open>Artifacts of tasks\<close>

record task_artifact =
  ta_title :: "string option"
  ta_uri :: "string option"

record published_artifact =
  pa_kind :: attachment_kind
  pa_title :: string
  pa_uri :: string
  pa_attachmentId :: string
  pa_mediaType :: string
  pa_size :: int

definition artifact_filename :: "task_artifact \<Rightarrow> string option" where
  "artifact_filename a = truthy_str (or_else (truthy_str (ta_title a))
     (Option.bind (ta_uri a) (\<lambda>u. last_opt (split_on (CHR ''/'') u))))"

definition artifact_row ::
    "string \<Rightarrow> string \<Rightarrow> string \<Rightarrow> string option \<Rightarrow> string option \<Rightarrow> int \<Rightarrow> string \<Rightarrow> attachment_policy \<Rightarrow> int \<Rightarrow> att_row" where
  "artifact_row uuid user task conversation thread now filename p bytes_n =
     \<lparr>at_id = uuid, at_userId = user, at_conversationId = conversation, at_threadId = thread, at_messageId = None,
      at_taskId = Some task, at_direction = Outbound, at_source = FromTaskArtifact, at_kind = ap_kind p,
      at_status = AtPending, at_dedupeKey = None, at_mediaType = ap_mediaType p, at_originalFilename = Some filename,
      at_title = Some filename, at_sizeBytes = Some bytes_n, at_sha256 = None, at_r2Key = None, at_sourceRef = None,
      at_metadata = spread None (policy_fields p), at_updatedAt = now, at_deletedAt = None\<rparr>"

definition publish_bytes ::
    "'w att_env \<Rightarrow> string \<Rightarrow> string \<Rightarrow> string option \<Rightarrow> string option \<Rightarrow> string \<Rightarrow> bytes \<Rightarrow> ('w, published_artifact) att" where
  "publish_bytes env user task conversation thread filename body =
     (let n = int (length body);
          p = classifyAttachment (inferMediaTypeFromFilename (Some filename)) (Some filename) (Some n)
      in pbind (assertUserQuota env user (Some n)) (\<lambda>_.
         pbind (new_uuid env) (\<lambda>uuid. pbind (the_time env) (\<lambda>now.
         pbind (pmap_error (\<lambda>e. ''Failed to create task artifact attachment: '' @ e)
           (createAttachment env (artifact_row uuid user task conversation thread now filename p n))) (\<lambda>r.
         let key = buildStorageKey user (at_id r) (Some filename) (at_kind r) (Some (at_mediaType r)) ''source''
         in pbind (pmap_error (\<lambda>_. ''Failed to store task artifact '' @ filename) (blob_put env key body)) (\<lambda>_.
            pbind (pmap_error (\<lambda>_. ''Failed to finalize task artifact '' @ filename) (updateAttachment env (at_id r)
              (\<lambda>t. t\<lparr>at_status := AtReady, at_r2Key := Some key, at_sha256 := Some (bufToHex (av_sha256 env body))\<rparr>)))
            (\<lambda>_. pret \<lparr>pa_kind = ap_kind p, pa_title = filename, pa_uri = ''attachment://'' @ at_id r,
               pa_attachmentId = at_id r, pa_mediaType = ap_mediaType p, pa_size = n\<rparr>)))))))"

fun publishTaskArtifacts ::
    "'w att_env \<Rightarrow> (task_artifact \<Rightarrow> 'w \<Rightarrow> 'w \<times> (string + bytes option)) \<Rightarrow> string \<Rightarrow> string \<Rightarrow> string option \<Rightarrow>
     string option \<Rightarrow> task_artifact list \<Rightarrow> ('w, published_artifact list) att" where
  "publishTaskArtifacts env readArtifact user task conversation thread [] = pret []"
| "publishTaskArtifacts env readArtifact user task conversation thread (a # as) =
     pbind (case artifact_filename a of
         None \<Rightarrow> pret None
       | Some filename \<Rightarrow>
           if filename \<in> set INTERNAL_TASK_ARTIFACT_FILENAMES then pret None
           else pbind (pmap_error (\<lambda>_. ''Failed to read task artifact '' @ filename) (from_world (readArtifact a))) (\<lambda>body.
             case body of
               None \<Rightarrow> pret None
             | Some b \<Rightarrow> pbind (publish_bytes env user task conversation thread filename b) (\<lambda>x. pret (Some x)))) (\<lambda>x.
     pbind (publishTaskArtifacts env readArtifact user task conversation thread as) (\<lambda>xs.
       pret ((case x of None \<Rightarrow> [] | Some y \<Rightarrow> [y]) @ xs)))"

end
