(* ===== verification/AttachmentsProps.thy ===== *)
theory AttachmentsProps
  imports Attachments Triples
begin

text \<open>
  What the attachment service keeps: the quota of every user; which signed links are accepted; what a failed
  download leaves.
\<close>

section \<open>The rows and the quota\<close>

text \<open>The identifiers are distinct, what counts has a size of at least zero, and no user is over the quota.\<close>

definition rows_ok :: "att_row list \<Rightarrow> bool" where
  "rows_ok rows \<longleftrightarrow> distinct (map at_id rows) \<and>
     list_all (\<lambda>t. at_status t = AtReady \<longrightarrow> 0 \<le> default_to (at_sizeBytes t) 0) rows \<and>
     (\<forall>user. total_ready user rows \<le> ATTACHMENT_USER_QUOTA_BYTES)"

text \<open>The rows that a set of keys names are the user's.\<close>

definition owned :: "string \<Rightarrow> string set \<Rightarrow> att_row list \<Rightarrow> bool" where
  "owned user keys rows \<longleftrightarrow> list_all (\<lambda>t. (\<forall>k. at_dedupeKey t = Some k \<longrightarrow> k \<in> keys \<longrightarrow> at_userId t = user)) rows"

text \<open>What an update counts for, and what may be changed without counting more.\<close>

definition weight :: "string \<Rightarrow> att_row \<Rightarrow> int" where
  "weight user t = (if counted user t then default_to (at_sizeBytes t) 0 else 0)"

lemma total_weight: "total_ready user rows = sum_list (map (weight user) rows)"
  by (induction rows) (simp_all add: total_ready_def weight_def)

lemma total_simps [simp]:
  "total_ready user [] = 0" "total_ready user (r # rows) = weight user r + total_ready user rows"
  "total_ready user (rows @ rows') = total_ready user rows + total_ready user rows'"
  by (simp_all add: total_weight)

definition same_owner :: "(att_row \<Rightarrow> att_row) \<Rightarrow> bool" where
  "same_owner f \<longleftrightarrow> (\<forall>t. at_id (f t) = at_id t \<and> at_userId (f t) = at_userId t \<and> at_dedupeKey (f t) = at_dedupeKey t)"

lemma weight_updated [simp]: "weight user (t\<lparr>at_updatedAt := now\<rparr>) = weight user t"
  by (simp add: weight_def counted_def)

lemma update_ids: "same_owner f \<Longrightarrow> map at_id (update_att now i f rows) = map at_id rows"
  by (induction rows) (simp_all add: update_att_def same_owner_def)

lemma update_owned: "same_owner f \<Longrightarrow> owned user keys (update_att now i f rows) = owned user keys rows"
  by (induction rows) (simp_all add: update_att_def same_owner_def owned_def)

lemma update_away: "i \<notin> at_id ` set rows \<Longrightarrow> update_att now i f rows = rows"
  by (induction rows) (auto simp: update_att_def)

lemma update_simps [simp]:
  "update_att now i f [] = []"
  "update_att now i f (t # rows) = (if at_id t = i then (f t)\<lparr>at_updatedAt := now\<rparr> else t) # update_att now i f rows"
  by (simp_all add: update_att_def)

text \<open>An update of one row adds at most what the changed row counts for.\<close>

lemma total_update:
  assumes "distinct (map at_id rows)" "\<And>t. t \<in> set rows \<Longrightarrow> at_id t = i \<Longrightarrow> weight user (f t) \<le> n + weight user t" "0 \<le> n"
  shows "total_ready user (update_att now i f rows) \<le> total_ready user rows + n"
  using assms
proof (induction rows)
  case (Cons t rows)
  show ?case
  proof (cases "at_id t = i")
    case True
    with Cons.prems(1) have "update_att now i f rows = rows" by (intro update_away) auto
    with True Cons.prems(2) [of t] show ?thesis by simp
  next
    case False with Cons show ?thesis by auto
  qed
qed simp

lemma weight_nonneg: "rows_ok rows \<Longrightarrow> t \<in> set rows \<Longrightarrow> 0 \<le> weight user t"
  by (auto simp: rows_ok_def weight_def counted_def list_all_iff)

lemma rows_ok_total: "rows_ok rows \<Longrightarrow> total_ready user rows \<le> ATTACHMENT_USER_QUOTA_BYTES"
  by (simp add: rows_ok_def)

text \<open>
  An update keeps the rows well formed when, for every user, there is room for what the row counts for more.
\<close>

lemma rows_ok_update:
  assumes ok: "rows_ok rows" and f: "same_owner f"
    and size: "\<And>t. t \<in> set rows \<Longrightarrow> at_id t = i \<Longrightarrow> at_status (f t) = AtReady \<Longrightarrow> 0 \<le> default_to (at_sizeBytes (f t)) 0"
    and room: "\<And>user. \<exists>n\<ge>0. total_ready user rows + n \<le> ATTACHMENT_USER_QUOTA_BYTES \<and>
       (\<forall>t \<in> set rows. at_id t = i \<longrightarrow> weight user (f t) \<le> n + weight user t)"
  shows "rows_ok (update_att now i f rows)"
proof -
  have "total_ready user (update_att now i f rows) \<le> ATTACHMENT_USER_QUOTA_BYTES" for user
  proof -
    obtain n where "0 \<le> n" "total_ready user rows + n \<le> ATTACHMENT_USER_QUOTA_BYTES"
      "\<forall>t \<in> set rows. at_id t = i \<longrightarrow> weight user (f t) \<le> n + weight user t" using room [of user] by blast
    with total_update [of rows i user f n now] ok show ?thesis by (force simp: rows_ok_def)
  qed
  moreover have "0 \<le> default_to (at_sizeBytes u) 0" if u: "u \<in> set (update_att now i f rows)" "at_status u = AtReady" for u
    using u ok size by (auto simp: update_att_def rows_ok_def list_all_iff split: if_splits)
  ultimately show ?thesis using ok by (auto simp: rows_ok_def update_ids [OF f] list_all_iff)
qed

lemma rows_ok_lighter:
  assumes "rows_ok rows" "same_owner f" "\<And>t. at_status (f t) = AtReady \<Longrightarrow> at_status t = AtReady \<and> at_sizeBytes (f t) = at_sizeBytes t"
    "\<And>t. at_deletedAt (f t) = at_deletedAt t"
  shows "rows_ok (update_att now i f rows)"
proof (rule rows_ok_update [OF assms(1,2)])
  fix t assume t: "t \<in> set rows" "at_status (f t) = AtReady"
  with assms(1,3) show "0 \<le> default_to (at_sizeBytes (f t)) 0" by (auto simp: rows_ok_def list_all_iff)
next
  fix user
  have "weight user (f t) \<le> weight user t" if "t \<in> set rows" for t
    using assms(3) [of t] assms(4) [of t] assms(2) weight_nonneg [OF assms(1) that, of user]
    by (auto simp: weight_def counted_def same_owner_def)
  with rows_ok_total [OF assms(1)]
  show "\<exists>n\<ge>0. total_ready user rows + n \<le> ATTACHMENT_USER_QUOTA_BYTES \<and>
     (\<forall>t \<in> set rows. at_id t = i \<longrightarrow> weight user (f t) \<le> n + weight user t)" by (intro exI [of _ 0]) simp
qed

lemma rows_ok_insert:
  assumes "rows_ok rows" "\<not> list_ex (att_conflict r) rows" "at_status r \<noteq> AtReady"
  shows "rows_ok (rows @ [r])"
  using assms by (auto simp: rows_ok_def att_conflict_def list_ex_iff list_all_iff weight_def counted_def)

section \<open>The service\<close>

text \<open>What the service relies on and gives while it serves a user whose files have the keys.\<close>

definition serves :: "string \<Rightarrow> string set \<Rightarrow> att_row list \<Rightarrow> bool" where
  "serves user keys rows \<longleftrightarrow> rows_ok rows \<and> owned user keys rows"

definition served ::
    "string \<Rightarrow> string set \<Rightarrow> (att_row list \<Rightarrow> bool) \<Rightarrow> ('w, 'a) att \<Rightarrow> ('a \<Rightarrow> att_row list \<Rightarrow> bool) \<Rightarrow> bool" where
  "served user keys P m Q \<longleftrightarrow> triple (\<lambda>s. serves user keys (as_rows s) \<and> P (as_rows s)) m
     (\<lambda>x s. serves user keys (as_rows s) \<and> Q x (as_rows s)) (\<lambda>s. serves user keys (as_rows s))"

named_theorems served_rules "how the service's programs compose"

lemma served_return [served_rules]: "(\<And>rows. serves user keys rows \<Longrightarrow> P rows \<Longrightarrow> Q x rows) \<Longrightarrow> served user keys P (pret x) Q"
  by (auto simp: served_def intro!: triple_return)

lemma served_throw [served_rules]: "served user keys P (pthrow e) Q"
  by (auto simp: served_def intro!: triple_throw)

lemma served_bind [served_rules]:
  "served user keys P m R \<Longrightarrow> (\<And>x. served user keys (R x) (k x) Q) \<Longrightarrow> served user keys P (pbind m k) Q"
  unfolding served_def by (rule triple_bind)

lemma served_map_error [served_rules]: "served user keys P m Q \<Longrightarrow> served user keys P (pmap_error f m) Q"
  unfolding served_def by (rule triple_map_error)

lemma served_try [served_rules]:
  "served user keys P m R \<Longrightarrow> (\<And>x. served user keys (R x) (k (Inr x)) Q) \<Longrightarrow>
   (\<And>e. served user keys (\<lambda>_. True) (k (Inl e)) Q) \<Longrightarrow> served user keys P (ptry m k) Q"
  unfolding served_def by (rule triple_try) (auto intro: triple_weaken)

lemma served_if [served_rules]:
  "(b \<Longrightarrow> served user keys P m Q) \<Longrightarrow> (\<not> b \<Longrightarrow> served user keys P n Q) \<Longrightarrow> served user keys P (if b then m else n) Q"
  by simp

lemma served_option [served_rules]:
  "(v = None \<Longrightarrow> served user keys P m Q) \<Longrightarrow> (\<And>x. v = Some x \<Longrightarrow> served user keys P (k x) Q) \<Longrightarrow>
   served user keys P (case v of None \<Rightarrow> m | Some x \<Rightarrow> k x) Q"
  by (cases v) simp_all

lemma served_weaken:
  "served user keys P m Q \<Longrightarrow> (\<And>rows. P' rows \<Longrightarrow> P rows) \<Longrightarrow> (\<And>x rows. Q x rows \<Longrightarrow> Q' x rows) \<Longrightarrow> served user keys P' m Q'"
  unfolding served_def by (erule triple_weaken) auto

text \<open>What leaves the rows alone keeps what is known of them.\<close>

definition silent :: "('w, 'a) att \<Rightarrow> bool" where
  "silent m \<longleftrightarrow> (\<forall>rows. keeps (\<lambda>s. as_rows s = rows) m)"

lemma silentD: "silent m \<Longrightarrow> m s = Some (s', r) \<Longrightarrow> as_rows s' = as_rows s"
  unfolding silent_def by (blast dest: keepsD)

lemma served_silent: "silent m \<Longrightarrow> served user keys P m (\<lambda>_. P)"
  unfolding served_def by (rule tripleI) (simp_all add: silentD)

lemma silent_world [simp]: "silent (from_world f)"
  by (auto simp: silent_def keeps_def from_world_def split: prod.splits)

lemma silent_basic [simp]: "silent (pret x)" "silent (pthrow e)" "silent (new_uuid env)" "silent (the_time env)"
  unfolding new_uuid_def by (simp_all) (auto simp: silent_def the_time_def keeps_basic)

lemma silent_bind: "silent m \<Longrightarrow> (\<And>x. silent (k x)) \<Longrightarrow> silent (pbind m k)"
  by (simp add: silent_def keeps_bind)

lemma silent_put [simp]: "silent (blob_put env key body)"
  by (auto simp: silent_def keeps_def blob_put_def split: prod.splits option.splits)

lemma silent_get [simp]: "silent (blob_get env key)"
  by (auto simp: silent_def keeps_def blob_get_def split: prod.splits option.splits)

lemma silent_download [simp]: "silent (downloadTelegramFile env src)"
  unfolding downloadTelegramFile_def fetchTelegramFilePath_def
  by (intro silent_bind) (auto split: option.split)

lemma att_query_cases:
  assumes "att_query env f s = Some (s', r)"
  obtains (failed) e where "r = Inl e" "as_rows s' = as_rows s"
    | (rejected) e where "r = Inl e" "as_rows s' = as_rows s" "f (as_rows s) = Inl e"
    | (ok) rows x where "r = Inr x" "f (as_rows s) = Inr (rows, x)" "as_rows s' = rows"
  using assms unfolding att_query_def by (auto split: prod.splits option.splits sum.splits)

lemma served_query:
  assumes "\<And>rows rows' x. serves user keys rows \<Longrightarrow> P rows \<Longrightarrow> f rows = Inr (rows', x) \<Longrightarrow> serves user keys rows' \<and> Q x rows'"
  shows "served user keys P (att_query env f) Q"
  unfolding served_def
  by (rule tripleI) (use assms in \<open>auto elim!: att_query_cases\<close>)

text \<open>The store's operations: the owner and the size of the row with an identifier.\<close>

definition holds :: "string \<Rightarrow> string \<Rightarrow> att_row list \<Rightarrow> bool" where
  "holds user i rows \<longleftrightarrow> list_all (\<lambda>t. at_id t = i \<longrightarrow> at_userId t = user) rows"

definition sized :: "string \<Rightarrow> int \<Rightarrow> att_row list \<Rightarrow> bool" where
  "sized i n rows \<longleftrightarrow> list_all (\<lambda>t. at_id t = i \<longrightarrow> at_sizeBytes t = Some n) rows"

definition room :: "string \<Rightarrow> int \<Rightarrow> att_row list \<Rightarrow> bool" where
  "room user n rows \<longleftrightarrow> total_ready user rows + n \<le> ATTACHMENT_USER_QUOTA_BYTES"

lemmas fact_defs = holds_def sized_def room_def

lemma holds_update: "same_owner f \<Longrightarrow> holds user i (update_att now j f rows) = holds user i rows"
  by (induction rows) (simp_all add: same_owner_def holds_def)

lemma insert_att_ok:
  assumes "insert_att r rows = Inr (rows', x)" "serves user keys rows" "at_userId r = user" "at_status r \<noteq> AtReady"
  shows "serves user keys rows' \<and> x = r \<and> rows' = rows @ [r] \<and> holds user (at_id r) rows'"
  using assms by (auto simp: insert_att_def serves_def rows_ok_insert owned_def holds_def att_conflict_def list_ex_iff
    list_all_iff split: if_splits)

lemma served_insert:
  assumes "at_userId r = user" "at_status r \<noteq> AtReady" "at_sizeBytes r = Some n"
  shows "served user keys (room user m) (createAttachment env r)
    (\<lambda>x rows. x = r \<and> room user m rows \<and> holds user (at_id r) rows \<and> sized (at_id r) n rows)"
  unfolding createAttachment_def
proof (rule served_query)
  fix rows rows' x assume s: "serves user keys rows" "room user m rows" and i: "insert_att r rows = Inr (rows', x)"
  from insert_att_ok [OF i s(1) assms(1,2)] i s(2) assms(2,3)
  show "serves user keys rows' \<and> x = r \<and> room user m rows' \<and> holds user (at_id r) rows' \<and> sized (at_id r) n rows'"
    by (auto simp: fact_defs weight_def counted_def list_all_iff insert_att_def att_conflict_def list_ex_iff split: if_splits)
qed

lemma served_reserve:
  assumes r: "at_userId r = user" "at_status r \<noteq> AtReady" "\<And>k. at_dedupeKey r = Some k \<Longrightarrow> k \<in> keys"
  shows "served user keys (\<lambda>_. True) (reserveInboundAttachment env r) (\<lambda>x rows. holds user (at_id x) rows)"
  unfolding reserveInboundAttachment_def
proof (rule served_query)
  fix rows rows' x assume s: "serves user keys rows" and q: "reserve_row r rows = Inr (rows', x)"
  show "serves user keys rows' \<and> holds user (at_id x) rows'"
  proof (cases "insert_att r rows = Inr (rows', x)")
    case True with insert_att_ok [OF True s r(1,2)] show ?thesis by auto
  next
    case False
    with q obtain k where k: "at_dedupeKey r = Some k" "find_first (\<lambda>t. at_dedupeKey t = Some k) rows = Some x" "rows' = rows"
      by (auto simp: reserve_row_def split: option.splits)
    with find_first_Some [OF k(2)] s r(3) have "x \<in> set rows" "at_userId x = user" "distinct (map at_id rows)"
      by (auto simp: serves_def owned_def rows_ok_def list_all_iff)
    then have "holds user (at_id x) rows" by (auto simp: holds_def list_all_iff dest: inj_onD simp: distinct_map)
    with s k(3) show ?thesis by simp
  qed
qed

text \<open>An update: of a row of the user, to what there is room for; or to something that counts for no more.\<close>

lemma served_update:
  assumes f: "same_owner f" and size: "\<And>t. at_id t = i \<Longrightarrow> sized i n [t] \<or> b \<Longrightarrow> default_to (at_sizeBytes (f t)) 0 = n" and n: "0 \<le> n"
  shows "served user keys (\<lambda>rows. room user n rows \<and> holds user i rows \<and> (sized i n rows \<or> b)) (updateAttachment env i f) (\<lambda>_ _. True)"
  unfolding updateAttachment_def
proof (rule served_bind [OF served_silent [OF silent_basic(4)]], rule served_query, unfold Let_def)
  fix now rows rows' x
  assume s: "serves user keys rows" and P: "room user n rows \<and> holds user i rows \<and> (sized i n rows \<or> b)"
    and q: "Inr (update_att now i f rows, att_by_id i (update_att now i f rows)) = Inr (rows', x)"
  have w: "default_to (at_sizeBytes (f t)) 0 = n" "at_userId t = user" if "t \<in> set rows" "at_id t = i" for t
    using P that size [of t] by (auto simp: fact_defs list_all_iff)
  have "rows_ok (update_att now i f rows)"
  proof (rule rows_ok_update [OF _ f])
    fix u
    show "\<exists>m\<ge>0. total_ready u rows + m \<le> ATTACHMENT_USER_QUOTA_BYTES \<and>
        (\<forall>t \<in> set rows. at_id t = i \<longrightarrow> weight u (f t) \<le> m + weight u t)"
    proof (cases "u = user")
      case True
      have "weight u (f t) \<le> n + weight u t" if "t \<in> set rows" "at_id t = i" for t
        using w(1) [OF that] weight_nonneg [of rows t u] that s n by (auto simp: weight_def serves_def)
      with True P n show ?thesis by (auto simp: room_def)
    next
      case False
      have "weight u (f t) \<le> weight u t" if "t \<in> set rows" "at_id t = i" for t
        using w(2) [OF that] f False by (simp add: weight_def counted_def same_owner_def)
      with s show ?thesis by (intro exI [of _ 0]) (simp add: serves_def rows_ok_total)
    qed
  qed (use s n w in \<open>auto simp: serves_def\<close>)
  with q s show "serves user keys rows' \<and> True" by (auto simp: serves_def update_owned [OF f])
qed

lemma served_lighter:
  assumes "same_owner f" "\<And>t. at_status (f t) = AtReady \<Longrightarrow> at_status t = AtReady \<and> at_sizeBytes (f t) = at_sizeBytes t"
    "\<And>t. at_deletedAt (f t) = at_deletedAt t"
  shows "served user keys (holds u j) (updateAttachment env i f) (\<lambda>_. holds u j)"
  unfolding updateAttachment_def
  by (rule served_bind [OF served_silent [OF silent_basic(4)]], rule served_query)
     (auto simp: serves_def Let_def rows_ok_lighter [OF _ assms] update_owned [OF assms(1)] holds_update [OF assms(1)])

text \<open>The quota, the ingestion of a file, the publication of an artifact.\<close>

lemma served_quota: "served user keys P (assertUserQuota env user (Some n)) (\<lambda>_ rows. P rows \<and> room user n rows)"
proof -
  have total: "served user keys P (getTotalReadyBytesForUser env user) (\<lambda>x rows. P rows \<and> x = total_ready user rows)"
    unfolding getTotalReadyBytesForUser_def by (rule served_query) auto
  show ?thesis
    unfolding assertUserQuota_def option.case
    by (intro served_bind [OF served_map_error [OF total]] served_if served_throw served_return) (auto simp: room_def)
qed

lemma served_quota_any: "served user keys P (assertUserQuota env user v) (\<lambda>_. P)"
proof (cases v)
  case None then show ?thesis by (auto simp: assertUserQuota_def intro: served_rules)
next
  case (Some n) then show ?thesis by (auto intro: served_weaken [OF served_quota])
qed

lemma served_fail_large: "served user keys (holds user i) (fail_large env r a n) (\<lambda>_ _. True)"
  unfolding fail_large_def
  by (intro served_bind [OF served_map_error [OF served_lighter]] served_return) (simp_all add: same_owner_def)

lemma served_finish:
  "served user keys (\<lambda>rows. holds user (at_id r) rows \<and> room user (int (length body)) rows)
     (finish_ready env r p filename key body) (\<lambda>_ _. True)"
proof -
  let ?P = "\<lambda>rows. room user (int (length body)) rows \<and> holds user (at_id r) rows \<and> (sized (at_id r) (int (length body)) rows \<or> True)"
  have "served user keys ?P (finish_ready env r p filename key body) (\<lambda>_ _. True)"
    unfolding finish_ready_def Let_def
    by (intro served_bind [OF served_map_error [OF served_update]] served_return) (simp_all add: same_owner_def)
  then show ?thesis by (rule served_weaken) auto
qed

lemma served_download_part:
  "served user keys (holds user (at_id r)) (download_part env user a r p filename) (\<lambda>_ _. True)"
  unfolding download_part_def Let_def
  by (intro served_if served_fail_large served_bind [OF served_quota_any]
      served_bind [OF served_map_error [OF served_lighter]]
      served_bind [OF served_map_error [OF served_silent [OF silent_download]]]
      served_bind [OF served_map_error [OF served_silent [OF silent_put]]]
      served_bind [OF served_quota] served_finish) (simp_all add: same_owner_def)

lemma served_ingest_part:
  assumes "dedupe_key (ba_source a) \<in> keys"
  shows "served user keys (\<lambda>_. True) (ingest_part env user conversation a) (\<lambda>_ _. True)"
proof -
  have name: "silent (part_filename env a)"
    unfolding part_filename_def by (auto intro: silent_bind split: option.split)
  show ?thesis
    unfolding ingest_part_def Let_def
    by (intro served_bind [OF served_silent [OF name]] served_bind [OF served_silent [OF silent_basic(3)]]
        served_bind [OF served_silent [OF silent_basic(4)]] served_bind [OF served_map_error [OF served_reserve]]
        served_if served_download_part served_return) (use assms in \<open>simp_all add: reservation_def Let_def\<close>)
qed

lemma served_ingest:
  assumes "dedupe_key (ba_source a) \<in> keys"
  shows "served user keys (\<lambda>_. True) (ingestAttachmentPart env user conversation a) (\<lambda>_ _. True)"
  unfolding ingestAttachmentPart_def
  by (rule served_try [OF served_ingest_part [OF assms]])
     (auto simp: Let_def intro!: served_return served_bind [OF served_silent [OF silent_basic(3)]])

text \<open>The keys of the files of messages.\<close>

fun part_keys :: "buffered_part list \<Rightarrow> string list" where
  "part_keys [] = []"
| "part_keys (TextPart t # ps) = part_keys ps"
| "part_keys (AttachmentPart a # ps) = dedupe_key (ba_source a) # part_keys ps"

definition message_keys :: "buffered_message list \<Rightarrow> string set" where
  "message_keys ms = set (concat (map (part_keys \<circ> parts) ms))"

lemma served_ingest_parts:
  "set (part_keys ps) \<subseteq> keys \<Longrightarrow> served user keys (\<lambda>_. True) (ingest_parts env user conversation ps) (\<lambda>_ _. True)"
  by (induction env user conversation ps rule: ingest_parts.induct)
     (auto intro!: served_return served_ingest served_bind [where R = "\<lambda>_ _. True"])

lemma served_messages:
  "message_keys ms \<subseteq> keys \<Longrightarrow> served user keys (\<lambda>_. True) (ingestBufferedMessages env user conversation ms) (\<lambda>_ _. True)"
  by (induction env user conversation ms rule: ingestBufferedMessages.induct)
     (auto simp: message_keys_def intro!: served_return served_ingest_parts served_bind [where R = "\<lambda>_ _. True"])

lemma served_link: "served user keys (\<lambda>_. True) (linkMessageAttachments env user conversation thread message ps) (\<lambda>_ _. True)"
proof -
  have get: "served user keys (\<lambda>_. True) (att_getByIdAndUser env i user) (\<lambda>_ _. True)" for i
    unfolding att_getByIdAndUser_def by (rule served_query) auto
  have up: "served user keys (\<lambda>_. True) (updateAttachment env i (\<lambda>t. t\<lparr>at_conversationId := c, at_threadId := d,
      at_messageId := m\<rparr>)) (\<lambda>_ _. True)" for i c d m
    unfolding updateAttachment_def
    by (rule served_bind [OF served_silent [OF silent_basic(4)]], rule served_query)
       (auto simp: serves_def Let_def update_owned same_owner_def intro!: rows_ok_lighter)
  have "served user keys (\<lambda>_. True) (link_all env user (\<lambda>t. t\<lparr>at_conversationId := c, at_threadId := d,
      at_messageId := m\<rparr>) is) (\<lambda>_ _. True)" for c d m "is"
    by (induction "is") (auto intro!: served_return served_bind [OF get] served_bind [where R = "\<lambda>_ _. True"] up split: option.split)
  then show ?thesis unfolding linkMessageAttachments_def by (rule served_map_error)
qed

lemma served_publish_bytes:
  "served user keys (\<lambda>_. True) (publish_bytes env user task conversation thread filename body) (\<lambda>_ _. True)"
proof -
  let ?n = "int (length body)"
  have up: "served user keys (\<lambda>rows. x = r \<and> room user ?n rows \<and> holds user (at_id r) rows \<and> sized (at_id r) ?n rows)
      (updateAttachment env (at_id x) (\<lambda>t. t\<lparr>at_status := AtReady, at_r2Key := k, at_sha256 := h\<rparr>)) (\<lambda>_ _. True)" for x r k h
    by (rule served_weaken [OF served_update [where n = ?n and b = False]]) (auto simp: same_owner_def sized_def)
  show ?thesis
    unfolding publish_bytes_def Let_def
    by (intro served_bind [OF served_weaken [OF served_quota [where P = "\<lambda>_. True"], where Q' = "\<lambda>_. room user ?n"]]
        served_bind [OF served_silent [OF silent_basic(3)]] served_bind [OF served_silent [OF silent_basic(4)]]
        served_bind [OF served_map_error [OF served_insert [where n = ?n]]]
        served_bind [OF served_map_error [OF served_silent [OF silent_put]]]
        served_bind [OF served_map_error [OF up]] served_return) (simp_all add: artifact_row_def)
qed

lemma served_publish:
  "served user keys (\<lambda>_. True) (publishTaskArtifacts env rd user task conversation thread as) (\<lambda>_ _. True)"
  by (induction env rd user task conversation thread as rule: publishTaskArtifacts.induct)
     (auto intro!: served_return served_map_error [OF served_silent] served_bind [OF served_publish_bytes]
        served_bind [where R = "\<lambda>_ _. True"] split: option.split)

section \<open>Requests to the service\<close>

datatype 'w att_op =
  OpIngest string string "buffered_message list"
| OpLink string string string string "message_part list"
| OpPublish string string "string option" "string option" "task_artifact list" "task_artifact \<Rightarrow> 'w \<Rightarrow> 'w \<times> (string + bytes option)"

text \<open>A request is served to its end; what it answers is left aside.\<close>

definition after :: "('w, 'a) att \<Rightarrow> 'w att_state \<Rightarrow> 'w att_state" where
  "after m s = (case m s of None \<Rightarrow> s | Some (s', _) \<Rightarrow> s')"

fun att_exec :: "'w att_env \<Rightarrow> 'w att_op \<Rightarrow> 'w att_state \<Rightarrow> 'w att_state" where
  "att_exec env (OpIngest user conversation ms) = after (ingestBufferedMessages env user conversation ms)"
| "att_exec env (OpLink user conversation thread message ps) = after (linkMessageAttachments env user conversation thread message ps)"
| "att_exec env (OpPublish user task conversation thread as rd) =
     after (publishTaskArtifacts env rd user task conversation thread as)"

text \<open>A file that was seen before was seen from the same user: a chat with the bot is one user's.\<close>

fun att_guard :: "'w att_op \<Rightarrow> 'w att_state \<Rightarrow> bool" where
  "att_guard (OpIngest user conversation ms) s = owned user (message_keys ms) (as_rows s)"
| "att_guard _ s = True"

lemma after_served:
  assumes "served user keys (\<lambda>_. True) m (\<lambda>_ _. True)" "rows_ok (as_rows s)" "owned user keys (as_rows s)"
  shows "rows_ok (as_rows (after m s))"
proof (cases "m s")
  case None with assms show ?thesis by (simp add: after_def)
next
  case (Some y)
  obtain s' r where y: "y = (s', r)" by (cases y)
  have "serves user keys (as_rows s')"
    using assms Some triple_ok [OF assms(1) [unfolded served_def], of s s'] triple_error [OF assms(1) [unfolded served_def], of s s']
    by (cases r) (auto simp: y serves_def)
  with Some y show ?thesis by (simp add: after_def serves_def)
qed

lemma owned_none: "owned user {} rows"
  by (simp add: owned_def list_all_iff)

interpretation quota: guarded_run "att_exec env" att_guard "\<lambda>s. rows_ok (as_rows s)" for env :: "'w att_env"
proof
  fix s :: "'w att_state" and op assume s: "rows_ok (as_rows s)" "att_guard op s"
  then show "rows_ok (as_rows (att_exec env op s))"
    by (cases op) (auto intro: after_served [OF served_messages] after_served [OF served_link [where keys = "{}"]]
      after_served [OF served_publish [where keys = "{}"]] owned_none)
qed

lemma responds_world [responds_rules]: "responds (from_world f)" "responds (new_uuid env)" "responds (the_time env)"
  "responds (att_query env g)" "responds (blob_put env k b)" "responds (blob_get env k)"
  by (auto simp: responds_def from_world_def new_uuid_def the_time_def pget_def att_query_def blob_put_def blob_get_def
    split: prod.split option.split sum.split)

lemmas att_programs = reserveInboundAttachment_def createAttachment_def updateAttachment_def att_getById_def att_getByIdAndUser_def
  getTotalReadyBytesForUser_def assertUserQuota_def fetchTelegramFilePath_def downloadTelegramFile_def loadAttachmentContent_def
  part_filename_def fail_large_def finish_ready_def download_part_def ingest_part_def ingestAttachmentPart_def Let_def

lemma responds_ingest: "responds (ingestAttachmentPart env user conversation a)"
  unfolding att_programs by (intro responds_rules)

lemma responds_parts: "responds (ingest_parts env user conversation ps)"
  by (induction env user conversation ps rule: ingest_parts.induct) (auto intro!: responds_rules responds_ingest)

lemma responds_messages: "responds (ingestBufferedMessages env user conversation ms)"
  by (induction env user conversation ms rule: ingestBufferedMessages.induct) (auto intro!: responds_rules responds_parts)

lemma responds_link: "responds (linkMessageAttachments env user conversation thread message ps)"
proof -
  have "responds (link_all env user f is)" for f "is"
    by (induction "is") (auto simp: att_getByIdAndUser_def updateAttachment_def intro!: responds_rules)
  then show ?thesis by (simp add: linkMessageAttachments_def responds_rules)
qed

lemma responds_publish: "responds (publishTaskArtifacts env rd user task conversation thread as)"
  by (induction env rd user task conversation thread as rule: publishTaskArtifacts.induct)
     (auto simp: publish_bytes_def att_programs intro!: responds_rules)

section \<open>Signed links\<close>

lemma unat_byte: "unat (of_char x :: 8 word) = of_char x"
proof -
  have "unat (of_nat (of_char x) :: 8 word) = of_char x mod 2 ^ LENGTH(8)" by (rule unat_of_nat)
  then show ?thesis by (simp add: of_char_mod_256 of_nat_of_char)
qed

lemma of_byte_inj: "(of_char x :: 8 word) = of_char y \<longleftrightarrow> x = y"
  by (metis unat_byte of_char_eq_iff)

text \<open>Every byte counts: texts of one length have no mismatch only when they are equal.\<close>

lemma mismatch_zero: "length a = length b \<Longrightarrow> mismatch a b = 0 \<longleftrightarrow> a = b"
  unfolding mismatch_def by (auto simp: xor_diff_zero of_byte_inj dest!: map_inj_on intro: inj_onI)

lemma token_verified: "verifyDownloadToken env i e g \<longleftrightarrow> g = signDownloadToken env i e"
  unfolding verifyDownloadToken_def Let_def using mismatch_zero by metis

lemma js_number_text:
  assumes "0 \<le> n" "n < 2 ^ 53"
  shows "js_number env (source_text n) = Some (n, source_text n)"
  using assms by (simp add: js_number_def source_text_def nat_digits_all nat_less_iff)

lemma verify_iff:
  "verifySignedDownload env i e g s = Some (s', Inr ()) \<longleftrightarrow>
   s' = s \<and> (\<exists>n t. js_number env e = Some (n, t) \<and> av_now env (as_world s) \<le> n \<and> g = signDownloadToken env i t)"
  by (auto simp: verifySignedDownload_def the_time_def pget_def pbind_def ptry_def pthrow_def pret_def token_verified
    split: option.splits if_splits)

text \<open>Different bytes have different texts, and different links different payloads.\<close>

lemma base64_code: "n < 64 \<Longrightarrow> of_char (base64_digit n) = (if n < 26 then 65 + n else if n < 52 then 71 + n else if n < 62 then n - 4
    else if n = 62 then 45 else 95)"
  by (auto simp: base64_digit_def)

lemma base64_digit_inj:
  assumes "m < 64" "n < 64"
  shows "base64_digit m = base64_digit n \<longleftrightarrow> m = n"
proof
  assume "base64_digit m = base64_digit n"
  then have "(of_char (base64_digit m) :: nat) = of_char (base64_digit n)" by simp
  then show "m = n" using assms by (simp add: base64_code split: if_splits)
qed simp

lemma unat_less_256: "unat (a :: 8 word) < 256"
  using unsigned_less [of a] by simp

lemma base64_one: "map base64_digit [n div 64, n mod 64] = map base64_digit [m div 64, m mod 64] \<Longrightarrow> n < 4096 \<Longrightarrow> m < 4096 \<Longrightarrow> n = m"
  by (auto simp: base64_digit_inj) (metis div_mult_mod_eq)

lemma base64_two:
  assumes "map base64_digit [n div 4096, n div 64 mod 64, n mod 64] = map base64_digit [m div 4096, m div 64 mod 64, m mod 64]"
    "n < 262144" "m < 262144"
  shows "n = m"
proof -
  have "n div 64 div 64 = m div 64 div 64" "n div 64 mod 64 = m div 64 mod 64" "n mod 64 = m mod 64"
    using assms by (simp_all add: base64_digit_inj div_mult2_eq [symmetric])
  then show ?thesis by (metis div_mult_mod_eq)
qed

lemma base64_three:
  assumes "map base64_digit [n div 262144, n div 4096 mod 64, n div 64 mod 64, n mod 64] =
     map base64_digit [m div 262144, m div 4096 mod 64, m div 64 mod 64, m mod 64]" "n < 16777216" "m < 16777216"
  shows "n = m"
proof -
  have "n div 64 div 64 div 64 = m div 64 div 64 div 64" "n div 64 div 64 mod 64 = m div 64 div 64 mod 64"
      "n div 64 mod 64 = m div 64 mod 64" "n mod 64 = m mod 64"
    using assms by (simp_all add: base64_digit_inj div_mult2_eq [symmetric])
  then show ?thesis by (metis div_mult_mod_eq)
qed

lemma bytes_inj:
  assumes "a * 256 + b = a' * 256 + b'" "b < 256" "b' < (256 :: nat)"
  shows "a = a' \<and> b = b'"
proof -
  have "(a * 256 + b) div 256 = a" "(a' * 256 + b') div 256 = a'" using assms(2,3) by simp_all
  with assms(1) show ?thesis by auto
qed

lemma length_base64: "length (encodeBase64Url xs) = length xs div 3 * 4 + [0, 2, 3] ! (length xs mod 3)"
proof (induction xs rule: encodeBase64Url.induct)
  case (4 a b c rest)
  have "(3 + length rest) div 3 = Suc (length rest div 3)" by simp
  with 4 show ?case by (simp add: Let_def)
qed (simp_all add: Let_def)

lemma base64_injective: "encodeBase64Url xs = encodeBase64Url ys \<Longrightarrow> xs = ys"
proof (induction xs arbitrary: ys rule: encodeBase64Url.induct)
  case 1
  then show ?case by (cases ys rule: encodeBase64Url.cases) (simp_all add: Let_def)
next
  case (2 a)
  obtain a' where ys: "ys = [a']" using 2 by (cases ys rule: encodeBase64Url.cases) (simp_all add: Let_def)
  have "unat a * 16 = unat a' * 16"
    by (rule base64_one) (use 2 ys unat_less_256 [of a] unat_less_256 [of a'] in \<open>simp_all add: Let_def\<close>)
  with ys show ?case by (simp add: word_unat_eq_iff)
next
  case (3 a b)
  obtain a' b' where ys: "ys = [a', b']" using 3 by (cases ys rule: encodeBase64Url.cases) (simp_all add: Let_def)
  have "(unat a * 256 + unat b) * 4 = (unat a' * 256 + unat b') * 4"
    by (rule base64_two) (use 3 ys unat_less_256 [of a] unat_less_256 [of a'] unat_less_256 [of b] unat_less_256 [of b'] in
      \<open>simp_all add: Let_def\<close>)
  with bytes_inj [OF _ unat_less_256 unat_less_256, of "unat a" b "unat a'" b'] ys
  show ?case by (simp add: word_unat_eq_iff)
next
  case (4 a b c xs)
  obtain a' b' c' zs where ys: "ys = a' # b' # c' # zs" using 4(2)
    by (cases ys rule: encodeBase64Url.cases) (simp_all add: Let_def)
  have "(unat a * 256 + unat b) * 256 + unat c = (unat a' * 256 + unat b') * 256 + unat c'"
    by (rule base64_three) (use 4(2) ys unat_less_256 [of a] unat_less_256 [of a'] unat_less_256 [of b] unat_less_256 [of b']
      unat_less_256 [of c] unat_less_256 [of c'] in \<open>simp_all add: Let_def\<close>)
  then have "a = a' \<and> b = b' \<and> c = c'"
    using bytes_inj [OF _ unat_less_256 unat_less_256] by (metis word_unat_eq_iff)
  moreover have "xs = zs" using 4 ys by (simp add: Let_def)
  ultimately show ?case using ys by simp
qed

lemma payload_inj:
  assumes "i @ '':'' @ e = j @ '':'' @ f" "list_all is_digit e" "list_all is_digit f"
  shows "i = j \<and> e = f"
proof -
  have c: "\<not> is_digit (CHR '':'')" by code_simp
  have t: "takeWhile is_digit (rev (k @ '':'' @ g)) = rev g" if "list_all is_digit g" for k g
    using that c by (simp add: list_all_iff takeWhile_append)
  from assms have "rev e = rev f" using t by metis
  with assms(1) show ?thesis by simp
qed

section \<open>Properties\<close>

definition demo_att :: "nat att_env" where
  "demo_att = \<lparr>av_now = int, av_uuid = (\<lambda>w. (Suc w, ''u'' @ nat_digits w)), av_query = (\<lambda>w. (w, None)),
     av_blob = (\<lambda>w. (w, None)),
     av_getFile = (\<lambda>f w. (w, Inr \<lparr>fp_ok = True, fp_status = 200, fp_jsonOk = True, fp_path = Some f, fp_description = None\<rparr>)),
     av_file = (\<lambda>path w. (w, if path = ''lost'' then Inl ''network'' else Inr [104, 105, 33])),
     av_sha256 = (\<lambda>b. b), av_hmac = (\<lambda>k m. map of_char (k @ m)), av_decode = map (\<lambda>b. char_of (unat b)),
     av_number = (\<lambda>_. None), av_secret = ''key''\<rparr>"

definition demo_source :: "string \<Rightarrow> telegram_source" where
  "demo_source f = \<lparr>ts_type = TDocument, ts_fileId = f, ts_fileUniqueId = None, ts_chatId = 7, ts_sourceMessageId = 1,
     ts_mediaGroupId = None, ts_mediaType = None, ts_filename = None, ts_sizeBytes = None\<rparr>"

definition demo_file :: "string \<Rightarrow> buffered_attachment" where
  "demo_file f = \<lparr>ba_kind = KText, ba_mediaType = Some ''text/plain'', ba_filename = Some ''a.txt'', ba_sizeBytes = None,
     ba_title = None, ba_metadata = None, ba_source = demo_source f\<rparr>"

definition demo_store :: "nat att_state" where
  "demo_store = \<lparr>as_rows = [], as_blobs = [], as_world = 0\<rparr>"

lemma demo_ingested:
  "map (\<lambda>t. (at_id t, at_status t, at_sizeBytes t, at_r2Key t)) (as_rows (after (ingestAttachmentPart demo_att ''me'' ''c'' (demo_file ''f'')) demo_store))
   = [(''u0'', AtReady, Some 3, Some ''users/me/attachments/u0/source/a.txt'')]"
  by code_simp

text \<open>
  A failed download leaves its row downloading, and the part the conversation keeps carries an identifier of its own,
  which no row has.
\<close>

lemma lost_download:
  "\<exists>s a. ingestAttachmentPart demo_att ''me'' ''c'' (demo_file ''lost'') demo_store = Some (s, Inr (MAttachment a)) \<and>
     rf_status a = AtFailed \<and> rf_id a = ''u1'' \<and> map (\<lambda>t. (at_id t, at_status t)) (as_rows s) = [(''u0'', AtDownloading)]"
proof -
  have "(case ingestAttachmentPart demo_att ''me'' ''c'' (demo_file ''lost'') demo_store of
      Some (s, Inr (MAttachment a)) \<Rightarrow> rf_status a = AtFailed \<and> rf_id a = ''u1'' \<and>
        map (\<lambda>t. (at_id t, at_status t)) (as_rows s) = [(''u0'', AtDownloading)] | _ \<Rightarrow> False)" by code_simp
  then show ?thesis by (auto split: option.splits prod.splits sum.splits message_part.splits)
qed

text \<open>
  C28. No user gets past the quota: after any sequence of requests, one after the other (messages with files of any
  declared size, links of messages, artifacts of tasks), and whatever Telegram, the database and the blob store answer,
  the files that count for a user come to at most 1 GiB.  The provisos: the rows are well formed at first, and a file
  that was seen before was seen from the same user.  Every request is served to its end (\<open>responds_messages\<close>,
  \<open>responds_link\<close>, \<open>responds_publish\<close>).
\<close>
theorem user_quota:
  assumes "rows_ok (as_rows s)" "ops_ok (att_exec env) att_guard ops s"
  shows "total_ready user (as_rows (run_ops (att_exec env) ops s)) \<le> ATTACHMENT_USER_QUOTA_BYTES"
  by (rule rows_ok_total [OF quota.run [OF assms]])

definition demo_ops :: "nat att_op list" where
  "demo_ops = [OpIngest ''me'' ''c'' [\<lparr>sourceMessageId = 1, date = 0, textSummary = [], parts = [AttachmentPart (demo_file ''f'')],
     mediaGroupId = None, msgFrom = None, rawSource = None\<rparr>],
   OpPublish ''me'' ''t'' None None [\<lparr>ta_title = Some ''out.csv'', ta_uri = None\<rparr>] (\<lambda>_ w. (w, Inr (Some [1, 2])))]"

lemma demo_total: "total_ready ''me'' (as_rows (run_ops (att_exec demo_att) demo_ops demo_store)) = 5"
  by code_simp

theorem user_quota_witness:
  "total_ready ''me'' (as_rows (run_ops (att_exec demo_att) demo_ops demo_store)) \<le> ATTACHMENT_USER_QUOTA_BYTES"
  by (rule user_quota)
     (simp_all add: demo_ops_def demo_store_def rows_ok_def owned_def total_ready_def ATTACHMENT_USER_QUOTA_BYTES_def)



end
