(* ===== verification/WebAuth.thy ===== *)
theory WebAuth
  imports Attachments
begin

text \<open>
  Signing in on the web with Telegram: the verification of what the login widget and mini apps hand over
  (\<open>packages/auth/src/telegram/verification.ts\<close>, \<open>crypto.ts\<close>), the tokens of OpenID Connect (\<open>oidc.ts\<close>) and the
  endpoints of the authentication plugin (\<open>plugin.ts\<close>) over the identity service of \<open>Identity\<close>.
\<close>

section \<open>Requests, state and the world outside\<close>

record widget_data =
  wd_id :: string
  wd_first_name :: string
  wd_last_name :: "string option"
  wd_username :: "string option"
  wd_photo_url :: "string option"
  wd_auth_date :: string
  wd_hash :: string
  wd_rememberMe :: "bool option"

record oidc_discovery =
  od_issuer :: string
  od_jwks_uri :: string

record oidc_jwk =
  ok_kid :: "string option"
  ok_key :: string

record oidc_header =
  oh_alg :: "string option"
  oh_kid :: "string option"

text \<open>An audience alone is a list of one, no audience the empty list.\<close>

record oidc_claims =
  cl_iss :: "string option"
  cl_aud :: "string list"
  cl_exp :: "int option"
  cl_nbf :: "int option"
  cl_sub :: "string option"
  cl_name :: "string option"
  cl_given_name :: "string option"
  cl_family_name :: "string option"
  cl_preferred_username :: "string option"
  cl_phone_number :: "string option"
  cl_picture :: "string option"
  cl_photo_url :: "string option"
  cl_email :: "string option"
  cl_email_verified :: "bool option"

text \<open>The sessions are those of a user, and whether they are not to be remembered.\<close>

record 'w web_state =
  ws_db :: id_db
  ws_sessions :: "(string \<times> bool) list"
  ws_discovery :: "(int \<times> oidc_discovery) option"
  ws_jwks :: "(string \<times> int \<times> oidc_jwk list) option"
  ws_world :: 'w

record 'w web_env =
  we_botToken :: string
  we_botUsername :: string
  we_maxAge :: int
  we_widgetEnabled :: bool
  we_miniAppEnabled :: bool
  we_clientId :: string
  we_clientSecret :: string
  we_now :: "'w \<Rightarrow> int"
  we_uuid :: "'w \<Rightarrow> 'w \<times> string"
  we_trusted :: "string \<Rightarrow> bool"                              \<comment> \<open>the library's trusted origins\<close>
  we_isUrl :: "string \<Rightarrow> bool"
  we_sha256 :: "string \<Rightarrow> bytes"
  we_encode :: "string \<Rightarrow> bytes"                              \<comment> \<open>UTF-8\<close>
  we_hmac :: "bytes \<Rightarrow> string \<Rightarrow> bytes"
  we_params :: "string \<Rightarrow> (string \<times> string) list"             \<comment> \<open>\<open>URLSearchParams\<close>\<close>
  we_collate :: "(string \<times> string) list \<Rightarrow> (string \<times> string) list"   \<comment> \<open>sorting by \<open>localeCompare\<close> of the keys\<close>
  we_json :: "string \<Rightarrow> json option"
  we_fetchDiscovery :: "'w \<Rightarrow> 'w \<times> (string + oidc_discovery)"
  we_fetchJwks :: "string \<Rightarrow> 'w \<Rightarrow> 'w \<times> (string + oidc_jwk list)"
  we_header :: "string \<Rightarrow> string + oidc_header"
  we_claims :: "string \<Rightarrow> string + oidc_claims"
  we_verify :: "string \<Rightarrow> string \<Rightarrow> string \<Rightarrow> string + bool"    \<comment> \<open>key, signature, message: RS256\<close>

datatype web_error = ApiError nat string | Thrown string

type_synonym ('w, 'a) web = "('w web_state, web_error, 'a) prog"

definition web_fail :: "string \<Rightarrow> ('w, 'a) web" where "web_fail e = pthrow (Thrown e)"

definition web_clock :: "'w web_env \<Rightarrow> ('w, int) web" where
  "web_clock env = pget (\<lambda>s. we_now env (ws_world s))"

definition web_world :: "('w \<Rightarrow> 'w \<times> (string + 'a)) \<Rightarrow> ('w, 'a) web" where
  "web_world f = (\<lambda>s. case f (ws_world s) of
     (w, Inl e) \<Rightarrow> Some (s\<lparr>ws_world := w\<rparr>, Inl (Thrown e)) | (w, Inr x) \<Rightarrow> Some (s\<lparr>ws_world := w\<rparr>, Inr x))"

definition pure_step :: "string + 'a \<Rightarrow> ('w, 'a) web" where
  "pure_step r = (case r of Inl e \<Rightarrow> web_fail e | Inr x \<Rightarrow> pret x)"

section \<open>Verification\<close>

definition stableCompare :: "string \<Rightarrow> string \<Rightarrow> bool" where
  "stableCompare left right \<longleftrightarrow> length left = length right \<and> mismatch left right = 0"

definition hmacSha256Hex :: "'w web_env \<Rightarrow> bytes \<Rightarrow> string \<Rightarrow> string" where
  "hmacSha256Hex env key m = bufToHex (we_hmac env key m)"

definition parseUnixTimestamp :: "string \<Rightarrow> string + int" where
  "parseUnixTimestamp v = (case parse_int10 v of None \<Rightarrow> Inl ''Invalid Telegram auth timestamp'' | Some n \<Rightarrow> Inr n)"

definition fresh_auth_date :: "int \<Rightarrow> int \<Rightarrow> int \<Rightarrow> bool" where
  "fresh_auth_date now authDate maxAge \<longleftrightarrow> \<bar>now div 1000 - authDate\<bar> \<le> maxAge"

definition ensureFreshAuthDate :: "'w web_env \<Rightarrow> int \<Rightarrow> int \<Rightarrow> ('w, unit) web" where
  "ensureFreshAuthDate env authDate maxAge =
     pbind (web_clock env) (\<lambda>now.
       if fresh_auth_date now authDate maxAge then pret () else web_fail ''Telegram auth data is too old'')"

text \<open>The fields of a request, all of them; their names differ in the first letter, which decides the order.\<close>

definition widget_entries :: "widget_data \<Rightarrow> (string \<times> string) list" where
  "widget_entries d =
     [(''id'', wd_id d), (''first_name'', wd_first_name d), (''last_name'', default_to (wd_last_name d) []),
      (''username'', default_to (wd_username d) []), (''photo_url'', default_to (wd_photo_url d) []),
      (''auth_date'', wd_auth_date d), (''hash'', wd_hash d),
      (''rememberMe'', case wd_rememberMe d of None \<Rightarrow> [] | Some b \<Rightarrow> if b then ''true'' else ''false'')]"

definition entry_line :: "string \<times> string \<Rightarrow> string" where
  "entry_line e = fst e @ ''='' @ snd e"

definition toWidgetCheckString :: "widget_data \<Rightarrow> string" where
  "toWidgetCheckString d =
     join_with [CHR 0x0A] (map entry_line (sort_key (\<lambda>e. of_char (hd (fst e)) :: nat)
       (filter (\<lambda>e. fst e \<noteq> ''hash'' \<and> snd e \<noteq> []) (widget_entries d))))"

definition widget_hash :: "'w web_env \<Rightarrow> widget_data \<Rightarrow> string" where
  "widget_hash env d = hmacSha256Hex env (we_sha256 env (we_botToken env)) (toWidgetCheckString d)"

definition getMaxAuthAgeSeconds :: "'w web_env \<Rightarrow> int" where
  "getMaxAuthAgeSeconds env = (if we_maxAge env = 0 then 24 * 60 * 60 else we_maxAge env)"

definition verifyTelegramWidgetAuth :: "'w web_env \<Rightarrow> widget_data \<Rightarrow> ('w, unit) web" where
  "verifyTelegramWidgetAuth env d =
     pbind (pure_step (parseUnixTimestamp (wd_auth_date d))) (\<lambda>authDate.
     pbind (ensureFreshAuthDate env authDate (getMaxAuthAgeSeconds env)) (\<lambda>_.
       if stableCompare (widget_hash env d) (to_lower (wd_hash d)) then pret ()
       else web_fail ''Telegram Login Widget signature mismatch''))"

definition parseTelegramWidgetProfile :: "widget_data \<Rightarrow> tg_profile" where
  "parseTelegramWidgetProfile d =
     \<lparr>pr_id = wd_id d, pr_firstName = wd_first_name d, pr_lastName = wd_last_name d, pr_username = wd_username d,
      pr_languageCode = None, pr_isPremium = None, pr_photoUrl = wd_photo_url d, pr_phoneNumber = None,
      pr_email = None, pr_emailVerified = None\<rparr>"

section \<open>Mini apps\<close>

text \<open>\<open>String(x)\<close> and the truth value of what \<open>JSON.parse\<close> gives.\<close>

fun js_string :: "json \<Rightarrow> string" where
  "js_string JNull = ''null''"
| "js_string (JBool b) = (if b then ''true'' else ''false'')"
| "js_string (JNum n) = source_text n"
| "js_string (JStr s) = s"
| "js_string (JArr xs) = join_with '','' (map (\<lambda>x. if x = JNull then [] else js_string x) xs)"
| "js_string (JObj _) = ''[object Object]''"

definition js_truthy :: "json option \<Rightarrow> bool" where
  "js_truthy v = (case v of None \<Rightarrow> False | Some JNull \<Rightarrow> False | Some (JBool b) \<Rightarrow> b | Some (JNum n) \<Rightarrow> n \<noteq> 0
     | Some (JStr s) \<Rightarrow> s \<noteq> [] | _ \<Rightarrow> True)"

definition string_or_empty :: "json option \<Rightarrow> string" where
  "string_or_empty v = (case v of None \<Rightarrow> [] | Some JNull \<Rightarrow> [] | Some x \<Rightarrow> js_string x)"

definition string_if_truthy :: "json option \<Rightarrow> string option" where
  "string_if_truthy v = (if js_truthy v then map_option js_string v else None)"

record mini_payload =
  mp_authDate :: int
  mp_queryId :: "string option"
  mp_startParam :: "string option"
  mp_chatType :: "string option"
  mp_chatInstance :: "string option"
  mp_id :: string
  mp_first_name :: string
  mp_last_name :: "string option"
  mp_username :: "string option"
  mp_language_code :: "string option"
  mp_is_premium :: bool
  mp_photo_url :: "string option"

definition parseMiniAppData :: "'w web_env \<Rightarrow> string \<Rightarrow> string + string \<times> string \<times> (string \<times> string) list" where
  "parseMiniAppData env initData =
     (let params = we_params env initData
      in case truthy_str (map_of params ''hash'') of
           None \<Rightarrow> Inl ''Telegram Mini App initData is missing hash''
         | Some hash \<Rightarrow>
             (let rest = filter (\<lambda>e. fst e \<noteq> ''hash'') params
              in Inr (hash, join_with [CHR 0x0A] (map entry_line (we_collate env rest)), rest)))"

definition mini_hash :: "'w web_env \<Rightarrow> string \<Rightarrow> string" where
  "mini_hash env check = hmacSha256Hex env (we_hmac env (we_encode env ''WebAppData'') (we_botToken env)) check"

definition mini_user :: "'w web_env \<Rightarrow> int \<Rightarrow> (string \<times> string) list \<Rightarrow> string + mini_payload" where
  "mini_user env authDate params =
     (case truthy_str (map_of params ''user'') of
        None \<Rightarrow> Inl ''Telegram Mini App initData is missing user''
      | Some raw \<Rightarrow>
          (case we_json env raw of
             None \<Rightarrow> Inl ''SyntaxError''
           | Some JNull \<Rightarrow> Inl ''TypeError''
           | Some u \<Rightarrow>
               (let i = string_or_empty (json_get u ''id'')
                in if i = [] then Inl ''Telegram Mini App user is missing id''
                   else Inr \<lparr>mp_authDate = authDate, mp_queryId = map_of params ''query_id'',
                     mp_startParam = map_of params ''start_param'', mp_chatType = map_of params ''chat_type'',
                     mp_chatInstance = map_of params ''chat_instance'', mp_id = i,
                     mp_first_name = string_or_empty (json_get u ''first_name''),
                     mp_last_name = string_if_truthy (json_get u ''last_name''),
                     mp_username = string_if_truthy (json_get u ''username''),
                     mp_language_code = string_if_truthy (json_get u ''language_code''),
                     mp_is_premium = js_truthy (json_get u ''is_premium''),
                     mp_photo_url = string_if_truthy (json_get u ''photo_url'')\<rparr>)))"

definition verifyTelegramMiniAppInitData :: "'w web_env \<Rightarrow> string \<Rightarrow> ('w, mini_payload) web" where
  "verifyTelegramMiniAppInitData env initData =
     pbind (pure_step (parseMiniAppData env initData)) (\<lambda>(hash, check, params).
       if \<not> stableCompare (mini_hash env check) (to_lower hash) then web_fail ''Telegram Mini App signature mismatch''
       else pbind (pure_step (parseUnixTimestamp (default_to (map_of params ''auth_date'') []))) (\<lambda>authDate.
         pbind (ensureFreshAuthDate env authDate (getMaxAuthAgeSeconds env)) (\<lambda>_.
           pure_step (mini_user env authDate params))))"

definition parseTelegramMiniAppProfile :: "mini_payload \<Rightarrow> tg_profile" where
  "parseTelegramMiniAppProfile p =
     \<lparr>pr_id = mp_id p, pr_firstName = mp_first_name p, pr_lastName = mp_last_name p, pr_username = mp_username p,
      pr_languageCode = mp_language_code p, pr_isPremium = Some (mp_is_premium p), pr_photoUrl = mp_photo_url p,
      pr_phoneNumber = None, pr_email = None, pr_emailVerified = None\<rparr>"

section \<open>Endpoints\<close>

definition RELINK_REQUIRED :: string where
  "RELINK_REQUIRED = ''Telegram access is currently unlinked for this account. Reconnect Telegram from the app, then send me another message.''"

text \<open>A call of the identity service, at the present time.\<close>

definition identity_call :: "'w web_env \<Rightarrow> (int \<Rightarrow> id_db \<Rightarrow> 'a id_result) \<Rightarrow> ('w, 'a) web" where
  "identity_call env f = (\<lambda>s. case f (we_now env (ws_world s)) (ws_db s) of
     (db, Inl e) \<Rightarrow> Some (s\<lparr>ws_db := db\<rparr>, Inl (Thrown e)) | (db, Inr x) \<Rightarrow> Some (s\<lparr>ws_db := db\<rparr>, Inr x))"

definition web_uuid :: "'w web_env \<Rightarrow> ('w, string) web" where
  "web_uuid env = web_world (\<lambda>w. case we_uuid env w of (w1, u) \<Rightarrow> (w1, Inr u))"

definition provision_of :: "provision_source \<Rightarrow> tg_profile \<Rightarrow> provision_input" where
  "provision_of src p = \<lparr>pi_source = src, pi_chatId = None, pi_profile = p\<rparr>"

definition assertTelegramConfigured :: "'w web_env \<Rightarrow> ('w, unit) web" where
  "assertTelegramConfigured env =
     (if we_botToken env = [] \<or> we_botUsername env = [] then pthrow (ApiError 503 ''Telegram auth is not configured'')
      else pret ())"

definition assertTrustedOrigin :: "'w web_env \<Rightarrow> string option \<Rightarrow> ('w, unit) web" where
  "assertTrustedOrigin env origin =
     (case truthy_str origin of
        None \<Rightarrow> pret ()
      | Some url \<Rightarrow> if we_trusted env url then pret () else pthrow (ApiError 403 ''Request origin is not trusted''))"

definition createSessionForUser :: "string \<Rightarrow> bool option \<Rightarrow> ('w, id_user) web" where
  "createSessionForUser user rememberMe = (\<lambda>s.
     let s1 = s\<lparr>ws_sessions := ws_sessions s @ [(user, rememberMe = Some False)]\<rparr>
     in case find_first (\<lambda>u. us_id u = user) (id_users (ws_db s)) of
          None \<Rightarrow> Some (s1, Inl (ApiError 400 ''Unable to load Better Auth user after Telegram sign-in''))
        | Some u \<Rightarrow> Some (s1, Inr u))"

definition unwrapTelegramSignInResult :: "id_outcome \<Rightarrow> ('w, string \<times> bool) web" where
  "unwrapTelegramSignInResult r =
     (case r of IdBlocked _ _ \<Rightarrow> pthrow (ApiError 403 RELINK_REQUIRED) | IdProvisioned u created \<Rightarrow> pret (u, created))"

definition sign_in_session :: "'w web_env \<Rightarrow> provision_input \<Rightarrow> bool option \<Rightarrow> ('w, id_user \<times> bool) web" where
  "sign_in_session env i rememberMe =
     pbind (web_uuid env) (\<lambda>u1. pbind (web_uuid env) (\<lambda>u2.
     pbind (identity_call env (\<lambda>now db. signInOrCreate now u1 u2 db i)) (\<lambda>r.
     pbind (unwrapTelegramSignInResult r) (\<lambda>(user, created).
     pbind (createSessionForUser user rememberMe) (\<lambda>u. pret (u, created))))))"

definition enabled :: "bool \<Rightarrow> string \<Rightarrow> ('w, unit) web" where
  "enabled b m = (if b then pret () else pthrow (ApiError 400 m))"

text \<open>The body of a widget request, as the schema lets it through.\<close>

definition widgetBodyValid :: "'w web_env \<Rightarrow> widget_data \<Rightarrow> bool" where
  "widgetBodyValid env d \<longleftrightarrow> wd_id d \<noteq> [] \<and> wd_first_name d \<noteq> [] \<and> wd_auth_date d \<noteq> [] \<and> wd_hash d \<noteq> [] \<and>
     (case wd_photo_url d of None \<Rightarrow> True | Some u \<Rightarrow> we_isUrl env u)"

definition widget_request :: "'w web_env \<Rightarrow> string option \<Rightarrow> widget_data \<Rightarrow> ('w, unit) web" where
  "widget_request env origin d =
     (if \<not> widgetBodyValid env d then pthrow (ApiError 400 ''Invalid body parameters'')
      else pbind (assertTelegramConfigured env) (\<lambda>_.
        pbind (enabled (we_widgetEnabled env) ''Telegram Login Widget is disabled'') (\<lambda>_.
        pbind (assertTrustedOrigin env origin) (\<lambda>_. verifyTelegramWidgetAuth env d))))"

definition signInWithTelegram :: "'w web_env \<Rightarrow> string option \<Rightarrow> widget_data \<Rightarrow> ('w, id_user \<times> bool) web" where
  "signInWithTelegram env origin d =
     pbind (widget_request env origin d) (\<lambda>_.
       sign_in_session env (provision_of FromWidget (parseTelegramWidgetProfile d)) (wd_rememberMe d))"

text \<open>Linking and unlinking need a session; its user is given.\<close>

definition linkTelegram :: "'w web_env \<Rightarrow> string option \<Rightarrow> string \<Rightarrow> widget_data \<Rightarrow> ('w, bool) web" where
  "linkTelegram env origin user d =
     pbind (widget_request env origin d) (\<lambda>_. pbind (web_uuid env) (\<lambda>u.
     pbind (identity_call env (\<lambda>now db. linkToUser now u db user (provision_of FromWidget (parseTelegramWidgetProfile d)))) (\<lambda>_.
       pret True)))"

definition unlinkTelegram :: "'w web_env \<Rightarrow> string option \<Rightarrow> string \<Rightarrow> ('w, bool) web" where
  "unlinkTelegram env origin user =
     pbind (assertTrustedOrigin env origin) (\<lambda>_.
     pbind (identity_call env (\<lambda>now db. unlinkFromUser now db user)) (\<lambda>_. pret True))"

definition mini_request :: "'w web_env \<Rightarrow> string \<Rightarrow> string option \<Rightarrow> string \<Rightarrow> ('w, mini_payload) web" where
  "mini_request env what origin initData =
     (if initData = [] then pthrow (ApiError 400 ''Invalid body parameters'')
      else pbind (assertTelegramConfigured env) (\<lambda>_.
        pbind (enabled (we_miniAppEnabled env) (''Telegram Mini App '' @ what @ '' is disabled'')) (\<lambda>_.
        pbind (assertTrustedOrigin env origin) (\<lambda>_. verifyTelegramMiniAppInitData env initData))))"

definition signInWithTelegramMiniApp :: "'w web_env \<Rightarrow> string option \<Rightarrow> string \<Rightarrow> ('w, id_user \<times> bool) web" where
  "signInWithTelegramMiniApp env origin initData =
     pbind (mini_request env ''sign-in'' origin initData) (\<lambda>p.
       sign_in_session env (provision_of FromMiniapp (parseTelegramMiniAppProfile p)) None)"

definition validateTelegramMiniApp :: "'w web_env \<Rightarrow> string option \<Rightarrow> string \<Rightarrow> ('w, tg_profile) web" where
  "validateTelegramMiniApp env origin initData =
     pbind (mini_request env ''validation'' origin initData) (\<lambda>p. pret (parseTelegramMiniAppProfile p))"

record telegram_config =
  tc_botUsername :: "string option"
  tc_widget :: bool
  tc_miniApp :: bool
  tc_oidc :: bool

definition getTelegramBotId :: "string \<Rightarrow> string option" where
  "getTelegramBotId botToken = truthy_str (Some (js_trim (hd (split_on (CHR '':'') botToken))))"

definition getTelegramConfig :: "'w web_env \<Rightarrow> telegram_config" where
  "getTelegramConfig env =
     \<lparr>tc_botUsername = truthy_str (Some (we_botUsername env)),
      tc_widget = (we_botToken env \<noteq> [] \<and> we_widgetEnabled env),
      tc_miniApp = (we_botToken env \<noteq> [] \<and> we_miniAppEnabled env),
      tc_oidc = (str_or (we_clientId env) (default_to (getTelegramBotId (we_botToken env)) []) \<noteq> [] \<and> we_clientSecret env \<noteq> [])\<rparr>"

section \<open>OpenID Connect\<close>

definition DISCOVERY_CACHE_TTL_MS :: int where "DISCOVERY_CACHE_TTL_MS = 5 * 60 * 1000"

definition getTelegramOidcClientId :: "'w web_env \<Rightarrow> string option" where
  "getTelegramOidcClientId env =
     (if we_clientId env \<noteq> [] then Some (we_clientId env) else getTelegramBotId (we_botToken env))"

definition getDiscovery :: "'w web_env \<Rightarrow> ('w, oidc_discovery) web" where
  "getDiscovery env =
     pbind (web_clock env) (\<lambda>now. pbind (pget ws_discovery) (\<lambda>cached.
       let fetch = pbind (web_world (we_fetchDiscovery env)) (\<lambda>d.
             pbind (pmodify (\<lambda>s. s\<lparr>ws_discovery := Some (now + DISCOVERY_CACHE_TTL_MS, d)\<rparr>)) (\<lambda>_. pret d))
       in case cached of None \<Rightarrow> fetch | Some (expires, d) \<Rightarrow> if expires > now then pret d else fetch))"

definition getJwks :: "'w web_env \<Rightarrow> string \<Rightarrow> ('w, oidc_jwk list) web" where
  "getJwks env url =
     pbind (web_clock env) (\<lambda>now. pbind (pget ws_jwks) (\<lambda>cached.
       let fetch = pbind (web_world (we_fetchJwks env url)) (\<lambda>ks.
             pbind (pmodify (\<lambda>s. s\<lparr>ws_jwks := Some (url, now + DISCOVERY_CACHE_TTL_MS, ks)\<rparr>)) (\<lambda>_. pret ks))
       in case cached of
            None \<Rightarrow> fetch
          | Some (u, expires, ks) \<Rightarrow> if u = url \<and> expires > now then pret ks else fetch))"

definition verifyJwtSignature ::
    "'w web_env \<Rightarrow> string \<Rightarrow> string \<Rightarrow> string \<Rightarrow> oidc_header \<Rightarrow> oidc_jwk list \<Rightarrow> ('w, unit) web" where
  "verifyJwtSignature env header payload signature h jwks =
     (case truthy_str (oh_kid h) of
        None \<Rightarrow> web_fail ''Unsupported Telegram OIDC token header''
      | Some kid \<Rightarrow>
          if oh_alg h \<noteq> Some ''RS256'' then web_fail ''Unsupported Telegram OIDC token header''
          else (case find_first (\<lambda>k. ok_kid k = Some kid) jwks of
              None \<Rightarrow> web_fail ''Telegram OIDC signing key not found''
            | Some k \<Rightarrow>
                pbind (pure_step (we_verify env (ok_key k) signature (header @ ''.'' @ payload))) (\<lambda>verified.
                  if verified then pret () else web_fail ''Telegram OIDC token signature verification failed'')))"

definition validateClaims :: "int \<Rightarrow> oidc_claims \<Rightarrow> string \<Rightarrow> string \<Rightarrow> string + unit" where
  "validateClaims now c issuer clientId =
     (let nowSeconds = now div 1000
      in if cl_iss c \<noteq> Some issuer then Inl ''Telegram OIDC issuer mismatch''
         else if clientId \<notin> set (cl_aud c) then Inl ''Telegram OIDC audience mismatch''
         else if (case cl_exp c of None \<Rightarrow> True | Some e \<Rightarrow> e = 0 \<or> e \<le> nowSeconds) then Inl ''Telegram OIDC token expired''
         else if (case cl_nbf c of None \<Rightarrow> False | Some n \<Rightarrow> n \<noteq> 0 \<and> n > nowSeconds)
         then Inl ''Telegram OIDC token not yet valid'' else Inr ())"

definition trimmed :: "string option \<Rightarrow> string option" where
  "trimmed v = truthy_str (map_option js_trim v)"

record oidc_profile =
  op_id :: string
  op_email :: string
  op_name :: string
  op_first_name :: string
  op_last_name :: "string option"
  op_username :: "string option"
  op_phone_number :: "string option"
  op_photo_url :: "string option"
  op_emailVerified :: bool

definition oidc_profile_of :: "oidc_claims \<Rightarrow> string + oidc_profile" where
  "oidc_profile_of c =
     (case trimmed (cl_sub c) of
        None \<Rightarrow> Inl ''Telegram OIDC token is missing subject''
      | Some tid \<Rightarrow>
          (case or_else (trimmed (cl_given_name c)) (or_else (trimmed (cl_name c)) (trimmed (cl_preferred_username c))) of
             None \<Rightarrow> Inl ''Telegram OIDC token is missing a display name''
           | Some first \<Rightarrow> Inr
               \<lparr>op_id = tid,
                op_email = default_to (map_option to_lower (trimmed (cl_email c))) (''telegram-'' @ tid @ ''@telegram.hiamby.invalid''),
                op_name = default_to (or_else (truthy_str (Some (js_trim (join_with '' ''
                    (List.map_filter truthy_str [cl_given_name c, cl_family_name c])))))
                  (or_else (trimmed (cl_name c)) (trimmed (cl_preferred_username c)))) first,
                op_first_name = default_to (trimmed (cl_given_name c)) first, op_last_name = trimmed (cl_family_name c),
                op_username = trimmed (cl_preferred_username c), op_phone_number = trimmed (cl_phone_number c),
                op_photo_url = or_else (trimmed (cl_picture c)) (trimmed (cl_photo_url c)),
                op_emailVerified = default_to (cl_email_verified c) (truthy_str (cl_email c) \<noteq> None)\<rparr>))"

definition verifyTelegramOidcIdToken :: "'w web_env \<Rightarrow> string \<Rightarrow> string \<Rightarrow> ('w, oidc_profile) web" where
  "verifyTelegramOidcIdToken env clientId idToken =
     pbind (getDiscovery env) (\<lambda>d.
       case split_on (CHR ''.'') idToken of
         header # payload # signature # _ \<Rightarrow>
           if header = [] \<or> payload = [] \<or> signature = [] then web_fail ''Invalid Telegram OIDC id_token''
           else pbind (pure_step (we_header env header)) (\<lambda>h. pbind (pure_step (we_claims env payload)) (\<lambda>c.
             pbind (getJwks env (od_jwks_uri d)) (\<lambda>ks.
             pbind (verifyJwtSignature env header payload signature h ks) (\<lambda>_.
             pbind (web_clock env) (\<lambda>now.
             pbind (pure_step (validateClaims now c (od_issuer d) clientId)) (\<lambda>_.
               pure_step (oidc_profile_of c)))))))
       | _ \<Rightarrow> web_fail ''Invalid Telegram OIDC id_token'')"

text \<open>\<open>createTelegramOidcConfig\<close>: none without a client; else who a token's user is, none when it is blocked.\<close>

definition oidc_configured :: "'w web_env \<Rightarrow> string option" where
  "oidc_configured env =
     (case getTelegramOidcClientId env of
        None \<Rightarrow> None | Some clientId \<Rightarrow> if we_clientSecret env = [] then None else Some clientId)"

definition getUserInfo :: "'w web_env \<Rightarrow> string \<Rightarrow> string option \<Rightarrow> ('w, oidc_profile option) web" where
  "getUserInfo env clientId idToken =
     (case truthy_str idToken of
        None \<Rightarrow> web_fail ''Telegram OIDC did not return an id_token''
      | Some t \<Rightarrow>
          pbind (verifyTelegramOidcIdToken env clientId t) (\<lambda>p.
          pbind (pget ws_db) (\<lambda>db.
            case getSignInState db (op_id p) of Blocked _ _ \<Rightarrow> pret None | Allowed \<Rightarrow> pret (Some p))))"

end
