(* ===== verification/WebAuthProps.thy ===== *)
theory WebAuthProps
  imports WebAuth IdentityProps AttachmentsProps
begin

text \<open>
  What the web endpoints let through, what they keep of the tables of identities, and that an unlinked
  identity gets no session.
\<close>

section \<open>What a request needs\<close>

lemma stableCompare_iff: "stableCompare a b \<longleftrightarrow> a = b"
  unfolding stableCompare_def using mismatch_zero by blast

text \<open>The request of the login widget is configured, trusted, fresh and signed by the bot.\<close>

definition widget_authentic :: "'w web_env \<Rightarrow> string option \<Rightarrow> widget_data \<Rightarrow> int \<Rightarrow> bool" where
  "widget_authentic env origin d now \<longleftrightarrow>
     widgetBodyValid env d \<and> we_botToken env \<noteq> [] \<and> we_botUsername env \<noteq> [] \<and> we_widgetEnabled env \<and>
     (case truthy_str origin of None \<Rightarrow> True | Some url \<Rightarrow> we_trusted env url) \<and>
     (\<exists>a. parse_int10 (wd_auth_date d) = Some a \<and> \<bar>now div 1000 - a\<bar> \<le> getMaxAuthAgeSeconds env) \<and>
     to_lower (wd_hash d) = bufToHex (we_hmac env (we_sha256 env (we_botToken env)) (toWidgetCheckString d))"

lemmas web_steps = pbind_def ptry_def pthrow_def pret_def pget_def web_fail_def web_clock_def pure_step_def

lemma widget_request_cases:
  "widget_request env origin d s = (if widget_authentic env origin d (we_now env (ws_world s)) then Some (s, Inr ())
     else Some (s, snd (the (widget_request env origin d s)))) \<and>
   (snd (the (widget_request env origin d s)) = Inr () \<longleftrightarrow> widget_authentic env origin d (we_now env (ws_world s)))"
  unfolding widget_request_def assertTelegramConfigured_def enabled_def assertTrustedOrigin_def verifyTelegramWidgetAuth_def
    ensureFreshAuthDate_def parseUnixTimestamp_def stableCompare_iff widget_hash_def hmacSha256Hex_def
    widget_authentic_def fresh_auth_date_def
  by (auto simp: web_steps split: option.splits)

lemma widget_request_iff:
  "widget_request env origin d s = Some (s', Inr ()) \<longleftrightarrow>
   s' = s \<and> widget_authentic env origin d (we_now env (ws_world s))"
  using widget_request_cases [of env origin d s] by (metis Pair_inject option.inject option.sel snd_conv)

lemma widget_request_refused:
  "\<not> widget_authentic env origin d (we_now env (ws_world s)) \<Longrightarrow> \<exists>e. widget_request env origin d s = Some (s, Inl e)"
  using widget_request_cases [of env origin d s] by (metis old.unit.exhaust sumE)

text \<open>
  Telegram does not sign \<open>rememberMe\<close>, but the endpoint puts it into the text whose code it compares: a request that
  gives it is let through only when both texts have the same code.
\<close>

definition forgotten :: "widget_data \<Rightarrow> widget_data" where
  "forgotten d = d\<lparr>wd_rememberMe := None\<rparr>"

lemma remember_me_unsigned:
  assumes "widget_request env origin d s = Some (s', Inr ())"
    and "to_lower (wd_hash d) = bufToHex (we_hmac env (we_sha256 env (we_botToken env)) (toWidgetCheckString (forgotten d)))"
  shows "bufToHex (we_hmac env (we_sha256 env (we_botToken env)) (toWidgetCheckString d)) =
    bufToHex (we_hmac env (we_sha256 env (we_botToken env)) (toWidgetCheckString (forgotten d)))"
  using assms by (simp add: widget_request_iff widget_authentic_def)

lemma remember_me_text:
  "toWidgetCheckString \<lparr>wd_id = ''7'', wd_first_name = ''Ada'', wd_last_name = None, wd_username = None, wd_photo_url = None,
     wd_auth_date = ''99'', wd_hash = ''h'', wd_rememberMe = Some True\<rparr> \<noteq>
   toWidgetCheckString (forgotten \<lparr>wd_id = ''7'', wd_first_name = ''Ada'', wd_last_name = None, wd_username = None, wd_photo_url = None,
     wd_auth_date = ''99'', wd_hash = ''h'', wd_rememberMe = Some True\<rparr>)"
  by code_simp

section \<open>What the endpoints keep\<close>

lemma keeps_world [keeps_rules]: "keeps (\<lambda>s. I (ws_db s)) (web_world f)"
  by (auto simp: keeps_def web_world_def split: prod.splits sum.splits)

lemma keeps_steps [keeps_rules]:
  "keeps I (web_fail e)" "keeps I (web_clock env)" "keeps I (pure_step r)"
  by (simp_all add: web_fail_def web_clock_def pure_step_def keeps_basic split: sum.split)

lemma keeps_session [keeps_rules]: "keeps (\<lambda>s. I (ws_db s)) (createSessionForUser u r)"
  by (auto simp: keeps_def createSessionForUser_def Let_def split: option.splits)

lemma keeps_widget [keeps_rules]: "keeps I (widget_request env origin d)"
  unfolding keeps_def using widget_request_cases [of env origin d] by (metis option.inject prod.inject)

lemma keeps_mini [keeps_rules]: "keeps I (mini_request env what origin initData)"
  unfolding mini_request_def assertTelegramConfigured_def enabled_def assertTrustedOrigin_def verifyTelegramMiniAppInitData_def
    ensureFreshAuthDate_def
  by (intro keeps_rules | simp only: prod.case_eq_if)+

lemma keeps_unwrap [keeps_rules]: "keeps I (unwrapTelegramSignInResult r)"
  by (simp add: unwrapTelegramSignInResult_def keeps_basic split: id_outcome.split)

lemma keeps_trusted [keeps_rules]: "keeps I (assertTrustedOrigin env origin)"
  unfolding assertTrustedOrigin_def by (intro keeps_rules)

lemma keeps_identity:
  assumes "\<And>now db. I db \<Longrightarrow> I (fst (f now db))"
  shows "keeps (\<lambda>s. I (ws_db s)) (identity_call env f)"
  unfolding keeps_def
proof (intro allI impI)
  fix s s' r assume s: "I (ws_db s)" "identity_call env f s = Some (s', r)"
  then have "ws_db s' = fst (f (we_now env (ws_world s)) (ws_db s))"
    by (auto simp: identity_call_def split: prod.splits sum.splits)
  with assms [OF s(1)] show "I (ws_db s')" by simp
qed

context id_keeps
begin

lemma keeps_sign_in: "keeps (\<lambda>s. I (ws_db s)) (sign_in_session env i r)"
proof -
  have "I db \<Longrightarrow> I (fst (signInOrCreate now x y db i))" for now x y db
    using exec [of db "IdSignIn now x y i"] by simp
  then show ?thesis unfolding sign_in_session_def web_uuid_def
    by (intro keeps_rules keeps_identity | simp only: prod.case_eq_if)+
qed

lemma keeps_link: "linkable (toTelegramUserId (parseTelegramWidgetProfile d)) \<Longrightarrow> keeps (\<lambda>s. I (ws_db s)) (linkTelegram env origin u d)"
proof -
  assume "linkable (toTelegramUserId (parseTelegramWidgetProfile d))"
  then have "I db \<Longrightarrow> I (fst (linkToUser now x db u (provision_of FromWidget (parseTelegramWidgetProfile d))))" for now x db
    using exec [of db "IdLink now x u (provision_of FromWidget (parseTelegramWidgetProfile d))"] by (simp add: provision_of_def)
  then show ?thesis unfolding linkTelegram_def web_uuid_def by (intro keeps_rules keeps_identity)
qed

lemma keeps_unlink: "keeps (\<lambda>s. I (ws_db s)) (unlinkTelegram env origin u)"
proof -
  have "I db \<Longrightarrow> I (fst (unlinkFromUser now db u))" for now db using exec [of db "IdUnlink now u"] by simp
  then show ?thesis unfolding unlinkTelegram_def by (intro keeps_rules keeps_identity)
qed

end

section \<open>Requests in sequence\<close>

datatype web_op =
  WSignIn "string option" widget_data
| WLink "string option" string widget_data
| WUnlink "string option" string
| WMiniSignIn "string option" string
| WMiniValidate "string option" string
| WUserInfo string "string option"

definition web_after :: "('w, 'a) web \<Rightarrow> 'w web_state \<Rightarrow> 'w web_state" where
  "web_after m s = (case m s of None \<Rightarrow> s | Some (s', _) \<Rightarrow> s')"

fun web_exec :: "'w web_env \<Rightarrow> web_op \<Rightarrow> 'w web_state \<Rightarrow> 'w web_state" where
  "web_exec env (WSignIn origin d) = web_after (signInWithTelegram env origin d)"
| "web_exec env (WLink origin u d) = web_after (linkTelegram env origin u d)"
| "web_exec env (WUnlink origin u) = web_after (unlinkTelegram env origin u)"
| "web_exec env (WMiniSignIn origin i) = web_after (signInWithTelegramMiniApp env origin i)"
| "web_exec env (WMiniValidate origin i) = web_after (validateTelegramMiniApp env origin i)"
| "web_exec env (WUserInfo c t) = web_after (getUserInfo env c t)"

fun web_ok :: "(string \<Rightarrow> bool) \<Rightarrow> web_op \<Rightarrow> 'w web_state \<Rightarrow> bool" where
  "web_ok linkable (WLink origin u d) s = linkable (toTelegramUserId (parseTelegramWidgetProfile d))"
| "web_ok linkable _ s = True"

lemma web_after_keeps: "keeps I m \<Longrightarrow> I s \<Longrightarrow> I (web_after m s)"
  by (auto simp: web_after_def split: option.split dest: keepsD)

lemma keeps_modify: "(\<And>s. ws_db (f s) = ws_db s) \<Longrightarrow> keeps (\<lambda>s. I (ws_db s)) (pmodify f)"
  by (simp add: keeps_def pmodify_def)

lemma keeps_discovery [keeps_rules]: "keeps (\<lambda>s. I (ws_db s)) (getDiscovery env)"
  unfolding getDiscovery_def Let_def by (intro keeps_rules keeps_modify | simp only: prod.case_eq_if | simp)+

lemma keeps_jwks [keeps_rules]: "keeps (\<lambda>s. I (ws_db s)) (getJwks env url)"
  unfolding getJwks_def Let_def by (intro keeps_rules keeps_modify | simp only: prod.case_eq_if | simp)+

lemma keeps_jwt [keeps_rules]: "keeps I (verifyJwtSignature env a b c h ks)"
  unfolding verifyJwtSignature_def by (intro keeps_rules)

lemma keeps_token [keeps_rules]: "keeps (\<lambda>s. I (ws_db s)) (verifyTelegramOidcIdToken env c t)"
  unfolding verifyTelegramOidcIdToken_def
  by (rule keeps_bind) (auto intro!: keeps_rules split: list.split)

lemma keeps_info [keeps_rules]: "keeps (\<lambda>s. I (ws_db s)) (getUserInfo env c t)"
  unfolding getUserInfo_def by (auto intro!: keeps_rules split: option.split sign_in_state.split)

context id_keeps
begin

lemma web_step: "I (ws_db s) \<Longrightarrow> web_ok linkable op s \<Longrightarrow> I (ws_db (web_exec env op s))"
  by (cases op)
     (auto simp: signInWithTelegram_def signInWithTelegramMiniApp_def validateTelegramMiniApp_def
       intro!: web_after_keeps [where I = "\<lambda>s. I (ws_db s)"] keeps_rules keeps_sign_in keeps_link keeps_unlink)

end

interpretation web_rows: guarded_run "web_exec env" "web_ok (\<lambda>_. True)" "\<lambda>s. id_inv (ws_db s)" for env :: "'w web_env"
  by unfold_locales (rule id_rows.web_step)

interpretation web_shut: guarded_run "web_exec env" "web_ok (\<lambda>t'. t' \<noteq> t)" "\<lambda>s. shut_out t (ws_db s)" for env :: "'w web_env" and t
  by unfold_locales (rule shut.web_step)

text \<open>A blocked identity: no session by the widget or a mini app, no user for a token.\<close>

lemma web_uuid_run: "\<exists>w u. web_uuid env s = Some (s\<lparr>ws_world := w\<rparr>, Inr u)"
proof -
  obtain w u where "we_uuid env (ws_world s) = (w, u)" by (cases "we_uuid env (ws_world s)")
  then have "web_uuid env s = Some (s\<lparr>ws_world := w\<rparr>, Inr u)" by (simp add: web_uuid_def web_world_def)
  then show ?thesis by blast
qed

lemma shut_session:
  assumes "shut_out t (ws_db s)" "toTelegramUserId (pi_profile i) = t"
  shows "\<exists>w. sign_in_session env i r s = Some (s\<lparr>ws_world := w\<rparr>, Inl (ApiError 403 RELINK_REQUIRED))"
proof -
  obtain w1 x where 1: "web_uuid env s = Some (s\<lparr>ws_world := w1\<rparr>, Inr x)" using web_uuid_run [of env s] by (elim exE)
  obtain w2 y where 2: "web_uuid env (s\<lparr>ws_world := w1\<rparr>) = Some (s\<lparr>ws_world := w2\<rparr>, Inr y)"
    using web_uuid_run [of env "s\<lparr>ws_world := w1\<rparr>"] by auto
  have 3: "identity_call env (\<lambda>now db. signInOrCreate now x y db i) (s\<lparr>ws_world := w2\<rparr>) =
      Some (s\<lparr>ws_world := w2\<rparr>, Inr (IdBlocked t (Option.bind (findIdentityBlock (ws_db s) t) bk_lastUserId)))"
    by (simp add: identity_call_def shut_sign_in [OF assms])
  show ?thesis
    by (rule exI [of _ w2]) (simp add: sign_in_session_def unwrapTelegramSignInResult_def pbind_def ptry_def pthrow_def 1 2 3)
qed

lemma shut_widget:
  assumes "shut_out t (ws_db s)" "toTelegramUserId (parseTelegramWidgetProfile d) = t"
  shows "\<exists>w e. signInWithTelegram env origin d s = Some (s\<lparr>ws_world := w\<rparr>, Inl e)"
proof (cases "widget_authentic env origin d (we_now env (ws_world s))")
  case True
  then have "widget_request env origin d s = Some (s, Inr ())" by (simp add: widget_request_iff)
  then have "signInWithTelegram env origin d s =
      sign_in_session env (provision_of FromWidget (parseTelegramWidgetProfile d)) (wd_rememberMe d) s"
    by (simp add: signInWithTelegram_def pbind_run)
  moreover have "toTelegramUserId (pi_profile (provision_of FromWidget (parseTelegramWidgetProfile d))) = t"
    using assms(2) by (simp add: provision_of_def)
  ultimately show ?thesis using shut_session [OF assms(1)] by metis
next
  case False
  then obtain e where "widget_request env origin d s = Some (s, Inl e)" using widget_request_refused by blast
  then have "signInWithTelegram env origin d s = Some (s\<lparr>ws_world := ws_world s\<rparr>, Inl e)"
    by (simp add: signInWithTelegram_def pbind_fail)
  then show ?thesis by blast
qed

lemma shut_user_info:
  assumes s: "shut_out t (ws_db s)" and r: "getUserInfo env c tok s = Some (s', Inr (Some p))"
  shows "op_id p \<noteq> t"
proof -
  obtain tk s1 where 1: "verifyTelegramOidcIdToken env c tk s = Some (s1, Inr p)"
    and a: "getSignInState (ws_db s1) (op_id p) = Allowed"
    using r by (auto simp: getUserInfo_def web_steps split: option.splits sign_in_state.splits prod.splits sum.splits)
  from keepsD [OF keeps_token [of "shut_out t"] 1] s have "shut_out t (ws_db s1)" by simp
  with a show ?thesis
    by (auto simp: shut_out_def getSignInState_def getTelegramSignInState_def resolveTelegramSignInDisposition_def split: if_splits)
qed

lemma unlink_run:
  assumes "unlinkTelegram env origin u s = Some (s1, Inr True)"
  obtains t where "unlinkFromUser (we_now env (ws_world s)) (ws_db s) u = (ws_db s1, Inr t)"
  using assms by (auto simp: unlinkTelegram_def assertTrustedOrigin_def identity_call_def web_steps
    split: option.splits if_splits prod.splits sum.splits)

lemma web_all_ok: "ops_ok exec (web_ok (\<lambda>_. True)) ops s"
proof (induction ops arbitrary: s)
  case (Cons op ops) then show ?case by (cases op) simp_all
qed simp

section \<open>Properties\<close>

text \<open>
  C23. The login widget's endpoints do nothing for a request that is not authentic: it must be valid, from a trusted origin
  if it names one, dated within the allowed age of the present, and carry the code of its fields under the bot's key; the
  service must be configured and the widget enabled.  Then, and only then, the sign-in or the link is carried out; else
  there is an error and the state is as before.
\<close>
theorem widget_gate:
  "\<exists>e. signInWithTelegram env origin d s =
       (if widget_authentic env origin d (we_now env (ws_world s))
        then sign_in_session env (provision_of FromWidget (parseTelegramWidgetProfile d)) (wd_rememberMe d) s
        else Some (s, Inl e)) \<and>
     linkTelegram env origin u d s =
       (if widget_authentic env origin d (we_now env (ws_world s))
        then pbind (web_uuid env) (\<lambda>x. pbind (identity_call env (\<lambda>now db.
          linkToUser now x db u (provision_of FromWidget (parseTelegramWidgetProfile d)))) (\<lambda>_. pret True)) s
        else Some (s, Inl e))"
proof (cases "widget_authentic env origin d (we_now env (ws_world s))")
  case True
  then have "widget_request env origin d s = Some (s, Inr ())" by (simp add: widget_request_iff)
  with True show ?thesis by (simp add: signInWithTelegram_def linkTelegram_def pbind_run)
next
  case False
  then obtain e where "widget_request env origin d s = Some (s, Inl e)" using widget_request_refused by blast
  with False show ?thesis by (simp add: signInWithTelegram_def linkTelegram_def pbind_fail)
qed

text \<open>
  C22. Signing out for good: after a user has unlinked Telegram on the web, whatever requests come to the web endpoints
  other than a link of the same identity, the tables stay consistent, the identity has no account, a sign-in by the
  widget for it fails without a session, and a token never gives its user.
\<close>
theorem unlinked_no_session:
  assumes inv: "id_inv (ws_db s)" and a: "map_option ac_accountId (findTelegramAccountByUserId (ws_db s) u) = Some t"
    and u: "unlinkTelegram env origin u s = Some (s1, Inr True)"
    and ok: "ops_ok (web_exec env) (web_ok (\<lambda>t'. t' \<noteq> t)) ops s1"
    and d: "toTelegramUserId (parseTelegramWidgetProfile d) = t"
  shows "id_inv (ws_db (run_ops (web_exec env) ops s1)) \<and>
    findAccountByTelegramUserId (ws_db (run_ops (web_exec env) ops s1)) t = None \<and>
    (\<exists>w e. signInWithTelegram env' origin' d (run_ops (web_exec env) ops s1) =
       Some ((run_ops (web_exec env) ops s1)\<lparr>ws_world := w\<rparr>, Inl e)) \<and>
    (\<forall>s2 p. getUserInfo env' c tok (run_ops (web_exec env) ops s1) = Some (s2, Inr (Some p)) \<longrightarrow> op_id p \<noteq> t)"
proof -
  obtain t' where t': "unlinkFromUser (we_now env (ws_world s)) (ws_db s) u = (ws_db s1, Inr t')" using unlink_run [OF u] .
  with a have t: "t' = t" by (auto simp: unlinkFromUser_def unlink_commit_def Let_def split: if_splits)
  have s1: "shut_out t (ws_db s1)" using unlink_shuts [OF inv t'] t by simp
  have i1: "id_inv (ws_db s1)" using keepsD [OF id_rows.keeps_unlink u] inv by simp
  let ?s = "run_ops (web_exec env) ops s1"
  from web_shut.run [OF s1 ok] have s2: "shut_out t (ws_db ?s)" .
  have "id_inv (ws_db ?s)" using web_rows.run [OF i1 web_all_ok] .
  moreover have "findAccountByTelegramUserId (ws_db ?s) t = None" using s2 by (simp add: shut_out_def)
  moreover have "\<forall>s2 p. getUserInfo env' c tok ?s = Some (s2, Inr (Some p)) \<longrightarrow> op_id p \<noteq> t"
    using shut_user_info [OF s2] by blast
  ultimately show ?thesis using shut_widget [OF s2 d] by blast
qed

section \<open>Witnesses\<close>

definition demo_web :: "nat web_env" where
  "demo_web = \<lparr>we_botToken = ''7:x'', we_botUsername = ''b'', we_maxAge = 0, we_widgetEnabled = True, we_miniAppEnabled = True,
     we_clientId = [], we_clientSecret = [], we_now = (\<lambda>_. 2), we_uuid = (\<lambda>w. (Suc w, ''w'' @ nat_digits w)),
     we_trusted = (\<lambda>_. True), we_isUrl = (\<lambda>_. True), we_sha256 = map of_char, we_encode = map of_char,
     we_hmac = (\<lambda>k m. k @ map of_char m), we_params = (\<lambda>_. []), we_collate = (\<lambda>x. x), we_json = (\<lambda>_. None),
     we_fetchDiscovery = (\<lambda>w. (w, Inl ''offline'')), we_fetchJwks = (\<lambda>_ w. (w, Inl ''offline'')),
     we_header = (\<lambda>_. Inl ''none''), we_claims = (\<lambda>_. Inl ''none''), we_verify = (\<lambda>_ _ _. Inl ''none'')\<rparr>"

definition demo_web_state :: "id_db \<Rightarrow> nat web_state" where
  "demo_web_state db = \<lparr>ws_db = db, ws_sessions = [], ws_discovery = None, ws_jwks = None, ws_world = 0\<rparr>"

definition demo_widget :: widget_data where
  "demo_widget = \<lparr>wd_id = ''42'', wd_first_name = ''Ada'', wd_last_name = None, wd_username = None, wd_photo_url = None,
     wd_auth_date = ''0'', wd_hash = [], wd_rememberMe = None\<rparr>"

text \<open>With the right code the request is authentic, and a new identity gets a user and a session.\<close>

definition demo_signed :: widget_data where
  "demo_signed = demo_widget\<lparr>wd_hash := bufToHex (map of_char ''7:x'' @ map of_char (toWidgetCheckString demo_widget))\<rparr>"

lemma demo_signed_in:
  "map_option (\<lambda>(s, r). (ws_sessions s, case r of Inr (u, created) \<Rightarrow> Some (us_name u, created) | Inl _ \<Rightarrow> None))
     (signInWithTelegram demo_web None demo_signed (demo_web_state \<lparr>id_users = [], id_accounts = [], id_blocks = []\<rparr>)) =
   Some ([(''w0'', False)], Some (''Ada'', True))"
  by code_simp

theorem unlinked_no_session_witness:
  "findAccountByTelegramUserId (ws_db (run_ops (web_exec demo_web) [WSignIn None demo_widget, WUnlink None ''u1''] (demo_web_state demo_unlinked)))
     ''42'' = None \<and>
   (\<exists>w e. signInWithTelegram demo_web None demo_signed
       (run_ops (web_exec demo_web) [WSignIn None demo_widget, WUnlink None ''u1''] (demo_web_state demo_unlinked)) =
     Some ((run_ops (web_exec demo_web) [WSignIn None demo_widget, WUnlink None ''u1''] (demo_web_state demo_unlinked))\<lparr>ws_world := w\<rparr>, Inl e))"
proof -
  let ?s = "demo_web_state demo_identities" and ?s1 = "demo_web_state demo_unlinked"
  let ?ops = "[WSignIn None demo_widget, WUnlink None ''u1'']"
  have 1: "id_inv (ws_db ?s)" by (simp add: demo_web_state_def demo_identities_inv)
  have "map_option ac_accountId (findTelegramAccountByUserId demo_identities ''u1'') = Some ''42''" by code_simp
  then have 2: "map_option ac_accountId (findTelegramAccountByUserId (ws_db ?s) ''u1'') = Some ''42''"
    by (simp add: demo_web_state_def)
  have 3: "unlinkTelegram demo_web None ''u1'' ?s = Some (?s1, Inr True)"
    by (simp add: unlinkTelegram_def assertTrustedOrigin_def identity_call_def web_steps demo_web_def demo_web_state_def demo_unlink)
  have 4: "ops_ok (web_exec demo_web) (web_ok (\<lambda>t'. t' \<noteq> ''42'')) ?ops ?s1" by simp
  have 5: "toTelegramUserId (parseTelegramWidgetProfile demo_signed) = ''42''" by code_simp
  show ?thesis using unlinked_no_session [OF 1 2 3 4 5, of demo_web None] by blast
qed

end
