(* ===== verification/PluginRegistry.thy ===== *)
theory PluginRegistry
  imports Programs
begin

text \<open>
  The plugin registry of \<open>packages/core/src/plugins\<close>: what a plugin may register, and the two readers
  of the registry, the tool groups of a turn (\<open>packages/agent/src/conversation/tools.ts\<close>) and the
  context of its prompt (\<open>packages/agent/src/conversation/engine.ts\<close>).

  A provider answers by a program on a state \<open>'s\<close>, which may fail; tools are of a type \<open>'t\<close>.
\<close>

section \<open>The registry\<close>

record turn_ids =
  ti_userId :: string
  ti_conversationId :: string
  ti_threadId :: string

record 's context_contributor =
  cx_id :: string
  cx_contribute :: "turn_ids \<Rightarrow> ('s, string, string option) prog"

record ('s, 't) tool_provider =
  tp_id :: string
  tp_group :: string
  tp_getTools :: "turn_ids \<Rightarrow> ('s, string, (string \<times> 't) list) prog"

record 's hint_provider =
  hp_id :: string
  hp_getHints :: "turn_ids \<Rightarrow> ('s, string, string option) prog"

record 's task_runner =
  tr_id :: string
  tr_canHandle :: "string \<Rightarrow> string \<Rightarrow> bool"
  tr_execute :: "string \<Rightarrow> json \<Rightarrow> string \<Rightarrow> ('s, string, json) prog"

record 's event_handler =
  eh_id :: string
  eh_handle :: "string \<Rightarrow> json \<Rightarrow> ('s, string, unit) prog"

record ('s, 't) plugin_registry =
  pr_contributors :: "'s context_contributor list"
  pr_tools :: "('s, 't) tool_provider list"
  pr_hints :: "'s hint_provider list"
  pr_runners :: "'s task_runner list"
  pr_handlers :: "'s event_handler list"

definition createPluginRegistry :: "('s, 't) plugin_registry" where
  "createPluginRegistry =
     \<lparr>pr_contributors = [], pr_tools = [], pr_hints = [], pr_runners = [], pr_handlers = []\<rparr>"

definition addContextContributor ::
    "'s context_contributor \<Rightarrow> ('s, 't) plugin_registry \<Rightarrow> ('s, 't) plugin_registry" where
  "addContextContributor c r = r\<lparr>pr_contributors := pr_contributors r @ [c]\<rparr>"

definition addToolProvider ::
    "('s, 't) tool_provider \<Rightarrow> ('s, 't) plugin_registry \<Rightarrow> ('s, 't) plugin_registry" where
  "addToolProvider p r = r\<lparr>pr_tools := pr_tools r @ [p]\<rparr>"

definition addPlannerHintProvider ::
    "'s hint_provider \<Rightarrow> ('s, 't) plugin_registry \<Rightarrow> ('s, 't) plugin_registry" where
  "addPlannerHintProvider p r = r\<lparr>pr_hints := pr_hints r @ [p]\<rparr>"

definition addTaskRunner ::
    "'s task_runner \<Rightarrow> ('s, 't) plugin_registry \<Rightarrow> ('s, 't) plugin_registry" where
  "addTaskRunner t r = r\<lparr>pr_runners := pr_runners r @ [t]\<rparr>"

definition addEventHandler ::
    "'s event_handler \<Rightarrow> ('s, 't) plugin_registry \<Rightarrow> ('s, 't) plugin_registry" where
  "addEventHandler h r = r\<lparr>pr_handlers := pr_handlers r @ [h]\<rparr>"

record ('s, 't) amby_plugin =
  ap_id :: string
  ap_register :: "('s, 't) plugin_registry \<Rightarrow> ('s, 't) plugin_registry"

definition registerPlugins ::
    "('s, 't) plugin_registry \<Rightarrow> ('s, 't) amby_plugin list \<Rightarrow> ('s, 't) plugin_registry" where
  "registerPlugins r plugins = fold ap_register plugins r"

section \<open>The tool groups of a turn\<close>

text \<open>
  A tool set is a map from names; spreading the tools of a provider over a group lets later ones win.  A
  provider that fails is skipped, with the state it left.
\<close>

type_synonym 't tool_groups = "string \<Rightarrow> (string \<Rightarrow> 't option) option"

definition spread_tools :: "('a \<Rightarrow> 'b option) option \<Rightarrow> ('a \<times> 'b) list \<Rightarrow> ('a \<Rightarrow> 'b option)" where
  "spread_tools old tools = default_to old Map.empty ++ (map_of (rev tools))"

definition add_tools :: "('s, 't) tool_provider \<Rightarrow> (string \<times> 't) list \<Rightarrow> 't tool_groups \<Rightarrow> 't tool_groups" where
  "add_tools p tools groups =
     (if tools = [] then groups else groups(tp_group p \<mapsto> spread_tools (groups (tp_group p)) tools))"

fun resolve_providers ::
    "turn_ids \<Rightarrow> ('s, 't) tool_provider list \<Rightarrow> 't tool_groups \<Rightarrow> ('s, string, 't tool_groups) prog" where
  "resolve_providers ids [] groups = pret groups"
| "resolve_providers ids (p # ps) groups = ptry (tp_getTools p ids) (\<lambda>answer. case answer of
     Inl e \<Rightarrow> resolve_providers ids ps groups
   | Inr tools \<Rightarrow> resolve_providers ids ps (add_tools p tools groups))"

definition resolveToolGroupsFromRegistry ::
    "('s, 't) plugin_registry \<Rightarrow> turn_ids \<Rightarrow> ('s, string, 't tool_groups) prog" where
  "resolveToolGroupsFromRegistry registry ids = resolve_providers ids (pr_tools registry) Map.empty"

section \<open>The context of a turn\<close>

text \<open>
  The contributions are asked for together; the model asks them in order.  A contributor that fails
  contributes nothing, and empty contributions are left out.
\<close>

fun contributions ::
    "turn_ids \<Rightarrow> 's context_contributor list \<Rightarrow> ('s, string, string option list) prog" where
  "contributions ids [] = pret []"
| "contributions ids (c # cs) = ptry (cx_contribute c ids) (\<lambda>answer.
     pbind (contributions ids cs) (\<lambda>rest.
     pret ((case answer of Inl e \<Rightarrow> None | Inr v \<Rightarrow> v) # rest)))"

definition join_context :: "string option list \<Rightarrow> string" where
  "join_context parts = join_with [CHR 0x0A, CHR 0x0A] (List.map_filter truthy_str parts)"

definition plugin_context :: "('s, 't) plugin_registry \<Rightarrow> turn_ids \<Rightarrow> ('s, string, string) prog" where
  "plugin_context registry ids =
     pbind (contributions ids (pr_contributors registry)) (\<lambda>parts. pret (join_context parts))"

section \<open>Lemmas\<close>

lemma registerPlugins_tools:
  assumes "\<And>p r. p \<in> set plugins \<Longrightarrow> pr_tools (ap_register p r) = pr_tools r @ f p"
  shows "pr_tools (registerPlugins r plugins) = pr_tools r @ concat (map f plugins)"
  using assms by (induction plugins arbitrary: r) (simp_all add: registerPlugins_def)

lemma registerPlugins_contributors:
  assumes "\<And>p r. p \<in> set plugins \<Longrightarrow> pr_contributors (ap_register p r) = pr_contributors r @ f p"
  shows "pr_contributors (registerPlugins r plugins) = pr_contributors r @ concat (map f plugins)"
  using assms by (induction plugins arbitrary: r) (simp_all add: registerPlugins_def)

lemma ptryE:
  assumes "ptry m k s = Some (s', r)"
  obtains s1 a where "m s = Some (s1, a)" "k a s1 = Some (s', r)"
  using assms by (cases "m s") (auto simp: ptry_def)

text \<open>Only groups that some provider names appear.\<close>

lemma resolve_providers_groups:
  assumes "resolve_providers ids ps groups s = Some (s', r)" "r = Inr groups'"
    and "g \<notin> tp_group ` set ps"
  shows "groups' g = groups g"
  using assms
proof (induction ps arbitrary: groups s)
  case (Cons p ps)
  from Cons.prems(1) obtain s1 a where a: "tp_getTools p ids s = Some (s1, a)"
    "(case a of Inl e \<Rightarrow> resolve_providers ids ps groups
      | Inr tools \<Rightarrow> resolve_providers ids ps (add_tools p tools groups)) s1 = Some (s', r)"
    unfolding resolve_providers.simps by (rule ptryE) (rule that)
  have "add_tools p tools groups g = groups g" for tools
    using Cons.prems(3) by (simp add: add_tools_def)
  with Cons.IH Cons.prems(2,3) a(2) show ?case by (cases a) fastforce+
qed (simp add: pret_def)

text \<open>The readers never fail: every failure of a provider or contributor is caught.\<close>

lemma resolve_providers_ok:
  "resolve_providers ids ps groups s = Some (s', r) \<Longrightarrow> \<exists>groups'. r = Inr groups'"
proof (induction ps arbitrary: groups s)
  case (Cons p ps)
  from Cons.prems obtain s1 a where "tp_getTools p ids s = Some (s1, a)"
    "(case a of Inl e \<Rightarrow> resolve_providers ids ps groups
      | Inr tools \<Rightarrow> resolve_providers ids ps (add_tools p tools groups)) s1 = Some (s', r)"
    unfolding resolve_providers.simps by (rule ptryE) (rule that)
  with Cons.IH show ?case by (cases a) simp_all
qed (auto simp: pret_def)

lemma contributions_ok:
  "contributions ids cs s = Some (s', r) \<Longrightarrow> \<exists>parts. r = Inr parts \<and> length parts = length cs"
proof (induction cs arbitrary: s s' r)
  case (Cons c cs)
  from Cons.prems obtain s1 a where a: "cx_contribute c ids s = Some (s1, a)"
    "pbind (contributions ids cs) (\<lambda>rest. pret ((case a of Inl e \<Rightarrow> None | Inr v \<Rightarrow> v) # rest)) s1 = Some (s', r)"
    unfolding contributions.simps by (rule ptryE) (rule that)
  from a(2) show ?case
  proof (cases rule: pbindE)
    case (error e)
    with Cons.IH show ?thesis by fastforce
  next
    case (ok s2 x)
    with Cons.IH show ?thesis by (fastforce simp: pret_def)
  qed
qed (simp add: pret_def)

text \<open>Groups only grow, and a provider that answers has its tools there, whatever the others do.\<close>

definition has_tools :: "string \<Rightarrow> string set \<Rightarrow> 't tool_groups \<Rightarrow> bool" where
  "has_tools g names groups \<longleftrightarrow> (\<exists>m. groups g = Some m \<and> names \<subseteq> dom m)"

lemma has_tools_mono: "has_tools g names groups \<Longrightarrow> names' \<subseteq> names \<Longrightarrow> has_tools g names' groups"
  by (auto simp: has_tools_def)

lemma spread_grows:
  "has_tools g names groups \<Longrightarrow> has_tools g names (groups(h \<mapsto> spread_tools (groups h) tools))"
  by (auto simp: has_tools_def spread_tools_def)

lemma spread_has: "has_tools h (fst ` set tools) (groups(h \<mapsto> spread_tools (groups h) tools))"
  by (auto simp: has_tools_def spread_tools_def dom_map_of_conv_image_fst)

lemma add_tools_grows: "has_tools g names groups \<Longrightarrow> has_tools g names (add_tools p tools groups)"
  by (simp add: add_tools_def spread_grows)

lemma add_tools_has: "tools \<noteq> [] \<Longrightarrow> has_tools (tp_group p) (fst ` set tools) (add_tools p tools groups)"
  by (simp add: add_tools_def spread_has)

lemma resolve_providers_grows:
  "resolve_providers ids ps groups s = Some (s', Inr groups') \<Longrightarrow> has_tools g names groups \<Longrightarrow>
   has_tools g names groups'"
proof (induction ps arbitrary: groups s)
  case (Cons p ps)
  from Cons.prems(1) obtain s1 a where a: "tp_getTools p ids s = Some (s1, a)"
    "(case a of Inl e \<Rightarrow> resolve_providers ids ps groups
      | Inr tools \<Rightarrow> resolve_providers ids ps (add_tools p tools groups)) s1 = Some (s', Inr groups')"
    unfolding resolve_providers.simps by (rule ptryE) (rule that)
  have "has_tools g names (add_tools p tools groups)" for tools
    by (rule add_tools_grows [OF Cons.prems(2)])
  with Cons.IH Cons.prems(2) a(2) show ?case by (cases a) simp_all
qed (auto simp: pret_def)

lemma provider_isolated:
  assumes "resolve_providers ids ps groups s = Some (s', Inr groups')" "p \<in> set ps"
    and "\<And>s. \<exists>tools s'. tp_getTools p ids s = Some (s', Inr tools) \<and> tools \<noteq> [] \<and> names \<subseteq> fst ` set tools"
  shows "has_tools (tp_group p) names groups'"
  using assms(1,2)
proof (induction ps arbitrary: groups s)
  case (Cons q ps)
  from Cons.prems(1) obtain s1 a where a: "tp_getTools q ids s = Some (s1, a)"
    "(case a of Inl e \<Rightarrow> resolve_providers ids ps groups
      | Inr tools \<Rightarrow> resolve_providers ids ps (add_tools q tools groups)) s1 = Some (s', Inr groups')"
    unfolding resolve_providers.simps by (rule ptryE) (rule that)
  show ?case
  proof (cases "q = p")
    case True
    then obtain tools where t: "a = Inr tools" "tools \<noteq> []" "names \<subseteq> fst ` set tools"
      using assms(3) [of s] a(1) by auto
    have has: "has_tools (tp_group p) names (add_tools p tools groups)"
      by (rule has_tools_mono [OF add_tools_has [OF t(2)] t(3)])
    from a(2) t(1) True have "resolve_providers ids ps (add_tools p tools groups) s1 = Some (s', Inr groups')"
      by simp
    from resolve_providers_grows [OF this has] show ?thesis .
  next
    case False
    with Cons.prems(2) have "p \<in> set ps" by simp
    with Cons.IH a(2) show ?thesis by (cases a) auto
  qed
qed simp

text \<open>The readers return when the providers do.\<close>

lemma resolve_providers_returns:
  "(\<And>p s. p \<in> set ps \<Longrightarrow> \<exists>y. tp_getTools p ids s = Some y) \<Longrightarrow>
   \<exists>s' groups'. resolve_providers ids ps groups s = Some (s', Inr groups')"
proof (induction ps arbitrary: groups s)
  case (Cons p ps)
  obtain s1 a where a: "tp_getTools p ids s = Some (s1, a)"
    using Cons.prems [of p s] by auto
  with Cons show ?case by (cases a) (auto simp: ptry_def)
qed (simp add: pret_def)

lemma contributions_return:
  assumes "cx_contribute c ids s = Some (s1, a)" "contributions ids cs s1 = Some (s2, Inr rest)"
  shows "contributions ids (c # cs) s = Some (s2, Inr ((case a of Inl e \<Rightarrow> None | Inr v \<Rightarrow> v) # rest))"
  using assms by (simp add: ptry_def pbind_run pret_def)

end
