(* ===== verification/Memory.thy ===== *)
theory Memory
  imports PluginRegistry Provision
begin

text \<open>
  Memories of a user: the table of \<open>packages/db/src/schema/memories.ts\<close>, and of
  \<open>packages/plugins/src/memory\<close> the service, the removal of duplicates, the text for the prompt, the
  tools and the plugin.
\<close>

section \<open>The table\<close>

datatype memory_category = MStatic | MDynamic | MInference

record memory_row =
  mm_id :: string
  mm_userId :: string
  mm_content :: string
  mm_category :: memory_category
  mm_isActive :: bool
  mm_source :: "string option"
  mm_metadata :: "json option"
  mm_version :: int
  mm_parentId :: "string option"
  mm_createdAt :: int
  mm_updatedAt :: int

record memory_db =
  md_users :: "string list"
  md_memories :: "memory_row list"

record memory_item =
  mi_id :: string
  mi_content :: string
  mi_category :: memory_category
  mi_metadata :: "json option"

record memory_profile =
  mp_static :: "memory_item list"
  mp_dynamic :: "memory_item list"

section \<open>The service\<close>

text \<open>An insert fails on the key of the table and on its reference to the users.\<close>

definition memory_add ::
    "int \<Rightarrow> string \<Rightarrow> string \<Rightarrow> string \<Rightarrow> memory_category option \<Rightarrow> string option \<Rightarrow> json option \<Rightarrow>
     (memory_db, string, string) prog" where
  "memory_add now uuid userId content category source metadata db =
     Some (if userId \<notin> set (md_users db) \<or> list_ex (\<lambda>r. mm_id r = uuid) (md_memories db)
           then (db, Inl ''Failed to add memory'')
           else (db\<lparr>md_memories := md_memories db @
                   [\<lparr>mm_id = uuid, mm_userId = userId, mm_content = content,
                     mm_category = default_to category MDynamic, mm_isActive = True, mm_source = source,
                     mm_metadata = metadata, mm_version = 1, mm_parentId = None, mm_createdAt = now,
                     mm_updatedAt = now\<rparr>]\<rparr>, Inr uuid))"

definition active_rows :: "string \<Rightarrow> memory_row list \<Rightarrow> memory_row list" where
  "active_rows userId rows =
     sort_key (\<lambda>r. - mm_updatedAt r) (filter (\<lambda>r. mm_userId r = userId \<and> mm_isActive r) rows)"

definition item_of :: "memory_row \<Rightarrow> memory_item" where
  "item_of r = \<lparr>mi_id = mm_id r, mi_content = mm_content r, mi_category = mm_category r,
                mi_metadata = mm_metadata r\<rparr>"

fun profile_loop :: "memory_row list \<Rightarrow> memory_profile \<Rightarrow> memory_profile" where
  "profile_loop [] p = p"
| "profile_loop (r # rs) p =
     profile_loop rs (if mm_category r = MStatic then p\<lparr>mp_static := mp_static p @ [item_of r]\<rparr>
                      else p\<lparr>mp_dynamic := mp_dynamic p @ [item_of r]\<rparr>)"

definition getProfile :: "string \<Rightarrow> (memory_db, string, memory_profile) prog" where
  "getProfile userId =
     pget (\<lambda>db. profile_loop (active_rows userId (md_memories db)) \<lparr>mp_static = [], mp_dynamic = []\<rparr>)"

definition memory_deactivate :: "int \<Rightarrow> string \<Rightarrow> (memory_db, string, unit) prog" where
  "memory_deactivate now i = pmodify (\<lambda>db. db\<lparr>md_memories :=
     map (\<lambda>r. if mm_id r = i then r\<lparr>mm_isActive := False, mm_updatedAt := now\<rparr> else r) (md_memories db)\<rparr>)"

section \<open>Duplicates and the text for the prompt\<close>

record deduplicated =
  dd_static :: "string list"
  dd_dynamic :: "string list"
  dd_search :: "string list"

text \<open>One loop: the keys that are new, with the set of keys seen.\<close>

fun dedupe_keys :: "string list \<Rightarrow> string list \<Rightarrow> string list \<Rightarrow> string list \<times> string list" where
  "dedupe_keys [] seen result = (result, seen)"
| "dedupe_keys (content # items) seen result =
     (let key = js_trim content in
      if key \<noteq> [] \<and> key \<notin> set seen then dedupe_keys items (key # seen) (result @ [key])
      else dedupe_keys items seen result)"

definition deduplicateMemories :: "memory_item list \<Rightarrow> memory_item list \<Rightarrow> string list \<Rightarrow> deduplicated" where
  "deduplicateMemories staticItems dynamicItems searchItems =
     (let (st, seen1) = dedupe_keys (map mi_content staticItems) [] [];
          (dy, seen2) = dedupe_keys (map mi_content dynamicItems) seen1 [];
          (se, seen3) = dedupe_keys searchItems seen2 []
      in \<lparr>dd_static = st, dd_dynamic = dy, dd_search = se\<rparr>)"

definition nl :: string where "nl = [CHR 0x0A]"

definition bullets :: "string list \<Rightarrow> string" where
  "bullets ms = join_with nl (map (\<lambda>m. ''- '' @ m) ms)"

definition defaultTemplate :: "string \<Rightarrow> string \<Rightarrow> string" where
  "defaultTemplate profile search =
     join_with (nl @ nl) ((if profile \<noteq> [] then [profile] else []) @ (if search \<noteq> [] then [search] else []))"

definition formatProfile :: "deduplicated \<Rightarrow> string" where
  "formatProfile d = join_with (nl @ nl)
     ((if dd_static d \<noteq> [] then [''## Known Facts'', bullets (dd_static d)] else []) @
      (if dd_dynamic d \<noteq> [] then [''## Recent Context'', bullets (dd_dynamic d)] else []))"

definition buildMemoriesText :: "deduplicated \<Rightarrow> (string \<Rightarrow> string \<Rightarrow> string) \<Rightarrow> string" where
  "buildMemoriesText d template =
     template (formatProfile d)
       (if dd_search d \<noteq> [] then ''## Relevant Memories'' @ nl @ bullets (dd_search d) else [])"

section \<open>The tools and the plugin\<close>

text \<open>The operations a plugin is given.\<close>

record 's memory_ops =
  mo_add :: "string \<Rightarrow> string \<Rightarrow> memory_category option \<Rightarrow> string option \<Rightarrow> json option \<Rightarrow> ('s, string, string) prog"
  mo_getProfile :: "string \<Rightarrow> ('s, string, memory_profile) prog"
  mo_deactivate :: "string \<Rightarrow> ('s, string, unit) prog"

definition memoryServiceLive :: "int \<Rightarrow> string \<Rightarrow> memory_db memory_ops" where
  "memoryServiceLive now uuid =
     \<lparr>mo_add = memory_add now uuid, mo_getProfile = getProfile, mo_deactivate = memory_deactivate now\<rparr>"

fun category_name :: "memory_category \<Rightarrow> string" where
  "category_name MStatic = ''static''"
| "category_name MDynamic = ''dynamic''"
| "category_name MInference = ''inference''"

text \<open>
  The tool has checked its input: the category is one of the first two, and \<open>dynamic\<close> by default.
\<close>

definition save_memory ::
    "'s memory_ops \<Rightarrow> string \<Rightarrow> string \<Rightarrow> memory_category option \<Rightarrow> ('s, string, json) prog" where
  "save_memory ops userId content category =
     pbind (mo_add ops userId content (Some (default_to category MDynamic)) None None) (\<lambda>i.
     pret (JObj [(''saved'', JBool True), (''id'', JStr i)]))"

definition memory_json :: "memory_item \<Rightarrow> json" where
  "memory_json m = JObj [(''content'', JStr (mi_content m)), (''category'', JStr (category_name (mi_category m)))]"

definition relevant_memories :: "string \<Rightarrow> memory_item list \<Rightarrow> memory_item list" where
  "relevant_memories query allItems =
     (let relevant = filter (\<lambda>m. str_includes (to_lower (mi_content m)) (to_lower query)) allItems
      in if relevant \<noteq> [] then relevant else take 10 allItems)"

definition search_memories :: "'s memory_ops \<Rightarrow> string \<Rightarrow> string \<Rightarrow> ('s, string, json) prog" where
  "search_memories ops userId query =
     pbind (mo_getProfile ops userId) (\<lambda>p.
     pret (JArr (map memory_json (relevant_memories query (mp_static p @ mp_dynamic p)))))"

definition memory_contribution :: "'s memory_ops \<Rightarrow> turn_ids \<Rightarrow> ('s, string, string option) prog" where
  "memory_contribution ops ids =
     pbind (mo_getProfile ops (ti_userId ids)) (\<lambda>p.
     pret (if mp_static p = [] \<and> mp_dynamic p = [] then None
           else Some (buildMemoriesText (deduplicateMemories (mp_static p) (mp_dynamic p) []) defaultTemplate)))"

section \<open>The port and the cache\<close>

text \<open>The adapter to the port of the core: the search and the lookup are not there yet.\<close>

record ('s, 'm) memory_repository =
  mr_add :: "string \<Rightarrow> string \<Rightarrow> memory_category option \<Rightarrow> string option \<Rightarrow> json option \<Rightarrow> ('s, string, string) prog"
  mr_getProfile :: "string \<Rightarrow> ('s, string, memory_profile) prog"
  mr_search :: "string \<Rightarrow> string \<Rightarrow> nat option \<Rightarrow> ('s, string, 'm list) prog"
  mr_deactivate :: "string \<Rightarrow> ('s, string, unit) prog"
  mr_findById :: "string \<Rightarrow> ('s, string, memory_row option) prog"

definition adaptMemoryService :: "'s memory_ops \<Rightarrow> ('s, 'm) memory_repository" where
  "adaptMemoryService ops =
     \<lparr>mr_add = mo_add ops, mr_getProfile = mo_getProfile ops, mr_search = (\<lambda>userId query limit. pret []),
      mr_deactivate = mo_deactivate ops, mr_findById = (\<lambda>i. pret None)\<rparr>"

text \<open>White space runs become one space.\<close>

fun squeeze :: "string \<Rightarrow> string" where
  "squeeze [] = []"
| "squeeze (c # cs) =
     (if is_ws c then (case cs of d # ds \<Rightarrow> if is_ws d then squeeze cs else CHR '' '' # squeeze cs | [] \<Rightarrow> '' '')
      else c # squeeze cs)"

definition makeKey :: "string \<Rightarrow> string \<Rightarrow> string" where
  "makeKey userId query = userId @ '':'' @ squeeze (js_trim query)"

end
