(* ===== verification/Skills.thy ===== *)
theory Skills
  imports PluginRegistry Provision
begin

text \<open>
  Skills: their discovery in a directory, their activation, the service with its cache, and the plugin
  (\<open>packages/skills/src\<close>).

  The file system is a finite tree; paths are lists of names.  Links are followed by \<open>stat\<close>, so that a
  link is the node it leads to.
\<close>

section \<open>Files\<close>

datatype file_node =
    FText string
  | FUnreadable
  | FDir "(string \<times> file_node) list"
  | FLocked
  | FSpecial
  | FBroken

text \<open>\<open>FLocked\<close> is a directory that cannot be listed, \<open>FBroken\<close> an entry whose \<open>stat\<close> fails.\<close>

fun node_at :: "file_node \<Rightarrow> string list \<Rightarrow> file_node option" where
  "node_at n [] = Some n"
| "node_at (FDir es) (x # xs) = (case map_of es x of None \<Rightarrow> None | Some n \<Rightarrow> node_at n xs)"
| "node_at n (x # xs) = None"

fun fs_readdir :: "file_node option \<Rightarrow> (string \<times> file_node) list option" where
  "fs_readdir (Some (FDir es)) = Some es"
| "fs_readdir n = None"

fun fs_readFile :: "file_node option \<Rightarrow> string option" where
  "fs_readFile (Some (FText s)) = Some s"
| "fs_readFile n = None"

fun is_dir :: "file_node \<Rightarrow> bool" where
  "is_dir (FDir es) = True"
| "is_dir FLocked = True"
| "is_dir n = False"

section \<open>Manifests\<close>

record skill_manifest =
  sk_id :: string
  sk_title :: string
  sk_description :: string
  sk_path :: "string list"
  sk_requiredCapabilities :: "string list option"

datatype reference_type = RefFile | RefTemplate

record skill_reference =
  sr_path :: "string list"
  sr_content :: string
  sr_type :: reference_type

record activated_skill =
  ac_id :: string
  ac_title :: string
  ac_instructions :: string
  ac_references :: "skill_reference list"
  ac_requiredCapabilities :: "string list"

section \<open>Front matter\<close>

definition lf :: char where "lf = CHR 0x0A"

definition fm_open :: string where "fm_open = ''---'' @ [lf]"

text \<open>The text before and after the first occurrence of a pattern.\<close>

fun split_first :: "string \<Rightarrow> string \<Rightarrow> (string \<times> string) option" where
  "split_first p s =
     (if starts_with s p then Some ([], drop (length p) s)
      else (case s of [] \<Rightarrow> None
            | c # cs \<Rightarrow> map_option (\<lambda>(a, b). (c # a, b)) (split_first p cs)))"

declare split_first.simps [simp del]

definition is_quote :: "char \<Rightarrow> bool" where
  "is_quote c \<longleftrightarrow> c = CHR 0x22 \<or> c = CHR 0x27"

definition strip_first :: "(char \<Rightarrow> bool) \<Rightarrow> string \<Rightarrow> string" where
  "strip_first P s = (case s of [] \<Rightarrow> [] | c # cs \<Rightarrow> if P c then cs else s)"

definition strip_last :: "(char \<Rightarrow> bool) \<Rightarrow> string \<Rightarrow> string" where
  "strip_last P s = rev (strip_first P (rev s))"

definition unquote :: "string \<Rightarrow> string" where
  "unquote s = strip_last is_quote (strip_first is_quote s)"

record front_matter =
  fm_title :: "string option"
  fm_description :: "string option"
  fm_requiredCapabilities :: "string list option"

definition no_front_matter :: front_matter where
  "no_front_matter = \<lparr>fm_title = None, fm_description = None, fm_requiredCapabilities = None\<rparr>"

definition parse_list :: "string \<Rightarrow> string list" where
  "parse_list v =
     filter (\<lambda>x. x \<noteq> [])
       (map (\<lambda>x. unquote (js_trim x))
         (split_on CHR '','' (strip_last (\<lambda>c. c = CHR '']'') (strip_first (\<lambda>c. c = CHR ''['') v))))"

definition parse_line :: "string \<Rightarrow> front_matter \<Rightarrow> front_matter" where
  "parse_line line m =
     (case split_first '':'' line of None \<Rightarrow> m
      | Some (k, v) \<Rightarrow>
          (let key = js_trim k; val = js_trim v in
           if key = ''requiredCapabilities'' then m\<lparr>fm_requiredCapabilities := Some (parse_list val)\<rparr>
           else if key = ''title'' then m\<lparr>fm_title := Some (unquote val)\<rparr>
           else if key = ''description'' then m\<lparr>fm_description := Some (unquote val)\<rparr>
           else m))"

definition front_matter_text :: "string \<Rightarrow> string option" where
  "front_matter_text content =
     (if starts_with content fm_open
      then map_option fst (split_first ([lf] @ ''---'') (drop (length fm_open) content)) else None)"

definition parseFrontmatter :: "string \<Rightarrow> front_matter" where
  "parseFrontmatter content =
     (case truthy_str (front_matter_text content) of None \<Rightarrow> no_front_matter
      | Some fm \<Rightarrow> fold parse_line (split_on lf fm) no_front_matter)"

section \<open>Discovery\<close>

definition manifest_of :: "string list \<Rightarrow> string \<Rightarrow> string \<Rightarrow> skill_manifest" where
  "manifest_of skillsDir entry content =
     (let meta = parseFrontmatter content in
      \<lparr>sk_id = entry, sk_title = default_to (fm_title meta) entry,
       sk_description = default_to (fm_description meta) [], sk_path = skillsDir @ [entry],
       sk_requiredCapabilities = fm_requiredCapabilities meta\<rparr>)"

definition discover_entry :: "string list \<Rightarrow> string \<times> file_node \<Rightarrow> skill_manifest option" where
  "discover_entry skillsDir e =
     (if \<not> is_dir (snd e) then None
      else map_option (manifest_of skillsDir (fst e))
        (truthy_str (fs_readFile (node_at (snd e) [''SKILL.md'']))))"

definition discoverSkills :: "string list \<Rightarrow> file_node \<Rightarrow> skill_manifest list" where
  "discoverSkills skillsDir fs =
     (case fs_readdir (node_at fs skillsDir) of None \<Rightarrow> []
      | Some es \<Rightarrow> List.map_filter (discover_entry skillsDir) es)"

section \<open>Activation\<close>

definition body_text :: "string \<Rightarrow> string option" where
  "body_text content =
     (if starts_with content fm_open
      then map_option snd (split_first ([lf] @ ''---'' @ [lf]) (drop (length fm_open) content)) else None)"

definition extractBody :: "string \<Rightarrow> string" where
  "extractBody content =
     (case body_text content of Some b \<Rightarrow> js_trim b | None \<Rightarrow> js_trim content)"

text \<open>The files below a directory, with their paths from it; listing a locked directory fails.\<close>

definition reference :: "string list \<Rightarrow> string \<Rightarrow> string \<Rightarrow> skill_reference" where
  "reference dir entry content =
     \<lparr>sr_path = dir @ [entry], sr_content = content,
      sr_type = (if ends_with entry ''.template'' then RefTemplate else RefFile)\<rparr>"

fun walk :: "string list \<Rightarrow> (string \<times> file_node) list \<Rightarrow> skill_reference list option" where
  "walk dir [] = Some []"
| "walk dir ((entry, n) # es) =
     (if entry = ''SKILL.md'' then walk dir es
      else (case n of
        FDir sub \<Rightarrow> (case walk (dir @ [entry]) sub of None \<Rightarrow> None
            | Some here \<Rightarrow> map_option (\<lambda>rest. here @ rest) (walk dir es))
      | FLocked \<Rightarrow> None
      | FText content \<Rightarrow> map_option (\<lambda>rest. reference dir entry content # rest) (walk dir es)
      | _ \<Rightarrow> walk dir es))"

definition loadReferences :: "file_node option \<Rightarrow> skill_reference list option" where
  "loadReferences n = (case fs_readdir n of None \<Rightarrow> None | Some es \<Rightarrow> walk [] es)"

definition activateSkill :: "skill_manifest \<Rightarrow> file_node \<Rightarrow> activated_skill option" where
  "activateSkill m fs =
     (case fs_readFile (node_at fs (sk_path m @ [''SKILL.md''])) of None \<Rightarrow> None
      | Some content \<Rightarrow>
          (case loadReferences (node_at fs (sk_path m)) of None \<Rightarrow> None
           | Some refs \<Rightarrow> Some
               \<lparr>ac_id = sk_id m, ac_title = sk_title m, ac_instructions = extractBody content,
                ac_references = refs,
                ac_requiredCapabilities = default_to (sk_requiredCapabilities m) []\<rparr>))"

section \<open>The service\<close>

record skill_state =
  ss_files :: file_node
  ss_cache :: "skill_manifest list option"

definition loadManifests :: "string list \<Rightarrow> (skill_state, 'e, skill_manifest list) prog" where
  "loadManifests dir = (\<lambda>s. case ss_cache s of
     Some ms \<Rightarrow> Some (s, Inr ms)
   | None \<Rightarrow> (let ms = discoverSkills dir (ss_files s) in Some (s\<lparr>ss_cache := Some ms\<rparr>, Inr ms)))"

definition skill_activate :: "skill_manifest \<Rightarrow> (skill_state, string, activated_skill) prog" where
  "skill_activate m = (\<lambda>s. Some (s, case activateSkill m (ss_files s) of
     None \<Rightarrow> Inl (''Failed to activate skill: '' @ sk_id m) | Some a \<Rightarrow> Inr a))"

definition findSkill :: "string list \<Rightarrow> string \<Rightarrow> (skill_state, string, skill_manifest option) prog" where
  "findSkill dir i = pbind (loadManifests dir) (\<lambda>ms. pret (find_first (\<lambda>m. sk_id m = i) ms))"

definition searchSkills :: "string list \<Rightarrow> string \<Rightarrow> (skill_state, string, skill_manifest list) prog" where
  "searchSkills dir query = pbind (loadManifests dir) (\<lambda>ms. pret
     (let q = to_lower query in
      filter (\<lambda>m. str_includes (to_lower (sk_title m)) q \<or> str_includes (to_lower (sk_description m)) q) ms))"

section \<open>The plugin\<close>

definition skills_contribution :: "string list \<Rightarrow> (skill_state, string, string option) prog" where
  "skills_contribution dir = pbind (loadManifests dir) (\<lambda>ms. pret
     (if ms = [] then None
      else Some (''## Available Skills'' @ [lf] @
        join_with [lf] (map (\<lambda>m. ''- **'' @ sk_title m @ ''**: '' @ sk_description m) ms))))"

definition skills_hint :: "string list \<Rightarrow> (skill_state, string, string option) prog" where
  "skills_hint dir = pbind (loadManifests dir) (\<lambda>ms. pret
     (if ms = [] then None
      else Some (''Available skills: '' @ join_with '', '' (map sk_title ms) @
        ''. Use list_skills and activate_skill to leverage them.'')))"

text \<open>The list without the paths.\<close>

definition list_skills ::
    "string list \<Rightarrow> string option \<Rightarrow>
     (skill_state, string, (string \<times> string \<times> string \<times> string list option) list) prog" where
  "list_skills dir query =
     pbind (case truthy_str query of Some q \<Rightarrow> searchSkills dir q | None \<Rightarrow> loadManifests dir) (\<lambda>ms.
     pret (map (\<lambda>m. (sk_id m, sk_title m, sk_description m, sk_requiredCapabilities m)) ms))"

datatype skill_answer =
    SkillNotFound string
  | SkillActive string string "(string list \<times> reference_type) list"

definition activate_skill :: "string list \<Rightarrow> string \<Rightarrow> (skill_state, string, skill_answer) prog" where
  "activate_skill dir skillId =
     pbind (findSkill dir skillId) (\<lambda>found. case found of
       None \<Rightarrow> pret (SkillNotFound (''Skill not found: '' @ skillId))
     | Some m \<Rightarrow> pbind (skill_activate m) (\<lambda>a.
         pret (SkillActive (ac_title a) (ac_instructions a)
           (map (\<lambda>r. (sr_path r, sr_type r)) (ac_references a)))))"

end
