(* ===== verification/Plugins.thy ===== *)
theory Plugins
  imports Memory Skills Automations Integrations Registry AuthState
begin

text \<open>
  The plugins and their composition (\<open>packages/plugins/src\<close>, \<open>packages/skills/src/plugin.ts\<close>), and the
  tool groups of a turn: \<open>buildToolGroups\<close> of \<open>packages/agent/src/agent.ts\<close> on top of the registry, and
  the conversation's own tools (\<open>packages/agent/src/conversation/engine.ts\<close>).

  A tool is the data its closure captures; what its execution does is a definition of the component that
  owns it (\<open>save_memory\<close>, \<open>schedule_automation\<close>, \<open>connectIntegration\<close>, \<open>activate_skill\<close>, and so on).
\<close>

section \<open>Tools\<close>

datatype plugin_tool =
    MemoryTool string string
  | ConnectorTool string string
  | ExternalTool string
  | AutomationTool string automation_tools
  | BrowserTool string
  | SandboxTaskTool string string string
  | SkillTool string
  | ComputerTool string string
  | TimezoneTool string
  | CodexTool string string
  | CuaTool string string string

definition createMemoryTools :: "string \<Rightarrow> (string \<times> plugin_tool) list" where
  "createMemoryTools userId = map (\<lambda>n. (n, MemoryTool n userId)) [''save_memory'', ''search_memories'']"

definition createAutomationTools :: "automation_tools \<Rightarrow> (string \<times> plugin_tool) list" where
  "createAutomationTools cfg = map (\<lambda>n. (n, AutomationTool n cfg))
     [''schedule_automation'', ''list_automations'', ''cancel_automation'']"

definition createConnectorManagementTools :: "string \<Rightarrow> (string \<times> plugin_tool) list" where
  "createConnectorManagementTools userId = map (\<lambda>n. (n, ConnectorTool n userId))
     [''list_integrations'', ''connect_integration'', ''disconnect_integration'',
      ''set_preferred_integration_account'']"

section \<open>Plugins\<close>

definition createMemoryPlugin :: "'s memory_ops \<Rightarrow> ('s, plugin_tool) amby_plugin" where
  "createMemoryPlugin memory = \<lparr>ap_id = ''memory'', ap_register =
     addToolProvider \<lparr>tp_id = ''memory:tools'', tp_group = ''memory'',
       tp_getTools = (\<lambda>ids. pret (createMemoryTools (ti_userId ids)))\<rparr> \<circ>
     addContextContributor \<lparr>cx_id = ''memory:profile'', cx_contribute = memory_contribution memory\<rparr>\<rparr>"

definition createIntegrationsPlugin ::
    "bool \<Rightarrow> (string \<Rightarrow> ('s, string, string list option) prog) \<Rightarrow> ('s, plugin_tool) amby_plugin" where
  "createIntegrationsPlugin enabled agentTools = \<lparr>ap_id = ''integrations'', ap_register =
     addPlannerHintProvider \<lparr>hp_id = ''integrations:hints'', hp_getHints = (\<lambda>ids. pret
       (if enabled then Some (''Integration specialist: can perform actions through connected third-party apps '' @
          ''(Gmail, Google Calendar, Notion, Slack, Google Drive).'') else None))\<rparr> \<circ>
     addToolProvider \<lparr>tp_id = ''integrations:external'', tp_group = ''integration'',
       tp_getTools = (\<lambda>ids. if \<not> enabled then pret []
         else pbind (agentTools (ti_userId ids)) (\<lambda>tools.
           pret (map (\<lambda>n. (n, ExternalTool n)) (default_to tools []))))\<rparr> \<circ>
     addToolProvider \<lparr>tp_id = ''integrations:management'', tp_group = ''integration'',
       tp_getTools = (\<lambda>ids. pret (createConnectorManagementTools (ti_userId ids)))\<rparr>\<rparr>"

definition createAutomationsPlugin ::
    "(string \<Rightarrow> ('s, string, string option) prog) \<Rightarrow> (string \<Rightarrow> string \<Rightarrow> ('s, string, json) prog) \<Rightarrow>
     (int \<Rightarrow> string \<Rightarrow> string \<Rightarrow> int option) \<Rightarrow> ('s, plugin_tool) amby_plugin" where
  "createAutomationsPlugin timezone target cron = \<lparr>ap_id = ''automations'', ap_register =
     addPlannerHintProvider \<lparr>hp_id = ''automations:hints'', hp_getHints = (\<lambda>ids. pret (Some
       (''The user can schedule reminders, recurring checks, and deferred actions. '' @
        ''Use the schedule_automation tool for future-oriented requests.'')))\<rparr> \<circ>
     addToolProvider \<lparr>tp_id = ''automations:tools'', tp_group = ''automation'',
       tp_getTools = (\<lambda>ids. pbind (timezone (ti_userId ids)) (\<lambda>tz.
         pbind (target (ti_userId ids) (ti_conversationId ids)) (\<lambda>deliveryTarget.
         pret (createAutomationTools
           \<lparr>at_userId = ti_userId ids, at_userTimezone = Some (default_to tz ''UTC''), at_cron = Some cron,
            at_deliveryTarget = Some deliveryTarget\<rparr>))))\<rparr>\<rparr>"

definition createBrowserToolsPlugin :: "('s, string, bool) prog \<Rightarrow> ('s, plugin_tool) amby_plugin" where
  "createBrowserToolsPlugin isAvailable = \<lparr>ap_id = ''browser-tools'', ap_register =
     addPlannerHintProvider \<lparr>hp_id = ''browser-tools:hints'', hp_getHints = (\<lambda>ids.
       pbind isAvailable (\<lambda>available. pret (if available
         then Some ''Browser capability is available for web browsing, extraction, and page actions.'' else None)))\<rparr> \<circ>
     addToolProvider \<lparr>tp_id = ''browser-tools:browse'', tp_group = ''browser'',
       tp_getTools = (\<lambda>ids. pret [(''browse_web'', BrowserTool ''browse_web'')])\<rparr>\<rparr>"

definition createComputerToolsPlugin :: "('s, string, bool) prog \<Rightarrow> ('s, plugin_tool) amby_plugin" where
  "createComputerToolsPlugin isAvailable = \<lparr>ap_id = ''computer-tools'', ap_register =
     addPlannerHintProvider \<lparr>hp_id = ''computer-tools:hints'', hp_getHints = (\<lambda>ids.
       pbind isAvailable (\<lambda>available. pret (if available
         then Some (''Sandbox/computer capability is available for code execution, file operations, '' @
           ''and long-running tasks in a persistent environment.'') else None)))\<rparr> \<circ>
     addToolProvider \<lparr>tp_id = ''computer-tools:sandbox'', tp_group = ''sandbox'',
       tp_getTools = (\<lambda>ids. pret (map (\<lambda>n. (n, SandboxTaskTool n (ti_userId ids) (ti_threadId ids)))
         [''execute_in_sandbox'', ''query_sandbox_task'']))\<rparr>\<rparr>"

text \<open>The skills service, on its part of the state.\<close>

definition createSkillsPlugin ::
    "('s, string, string option) prog \<Rightarrow> ('s, string, string option) prog \<Rightarrow> ('s, plugin_tool) amby_plugin" where
  "createSkillsPlugin contribution hint = \<lparr>ap_id = ''skills'', ap_register =
     addPlannerHintProvider \<lparr>hp_id = ''skills:hints'', hp_getHints = (\<lambda>ids. hint)\<rparr> \<circ>
     addToolProvider \<lparr>tp_id = ''skills:tools'', tp_group = ''settings'',
       tp_getTools = (\<lambda>ids. pret (map (\<lambda>n. (n, SkillTool n)) [''list_skills'', ''activate_skill'']))\<rparr> \<circ>
     addContextContributor \<lparr>cx_id = ''skills:available'', cx_contribute = (\<lambda>ids. contribution)\<rparr>\<rparr>"

section \<open>The composition\<close>

text \<open>The state the plugins reach: the tables, the skills of the worker and the connections.\<close>

record 'w plugin_world =
  pw_memory :: memory_db
  pw_skills :: skill_state
  pw_tasks :: task_db
  pw_timezones :: "(string \<times> string) list"
  pw_conn :: "'w conn_state"

definition pzoom :: "('s \<Rightarrow> 't) \<Rightarrow> ('t \<Rightarrow> 's \<Rightarrow> 's) \<Rightarrow> ('t, 'e, 'a) prog \<Rightarrow> ('s, 'e, 'a) prog" where
  "pzoom get put m = (\<lambda>s. map_option (\<lambda>(t, r). (put t s, r)) (m (get s)))"

definition on_memory :: "(memory_db, 'e, 'a) prog \<Rightarrow> ('w plugin_world, 'e, 'a) prog" where
  "on_memory = pzoom pw_memory (\<lambda>t s. s\<lparr>pw_memory := t\<rparr>)"

definition on_skills :: "(skill_state, 'e, 'a) prog \<Rightarrow> ('w plugin_world, 'e, 'a) prog" where
  "on_skills = pzoom pw_skills (\<lambda>t s. s\<lparr>pw_skills := t\<rparr>)"

definition on_conn :: "('w conn_state, 'e, 'a) prog \<Rightarrow> ('w plugin_world, 'e, 'a) prog" where
  "on_conn = pzoom pw_conn (\<lambda>t s. s\<lparr>pw_conn := t\<rparr>)"

definition lift_memory :: "memory_db memory_ops \<Rightarrow> 'w plugin_world memory_ops" where
  "lift_memory ops =
     \<lparr>mo_add = (\<lambda>u c k src md. on_memory (mo_add ops u c k src md)),
      mo_getProfile = (\<lambda>u. on_memory (mo_getProfile ops u)),
      mo_deactivate = (\<lambda>i. on_memory (mo_deactivate ops i))\<rparr>"

record 'w plugin_env =
  pe_now :: int
  pe_uuid :: string
  pe_conn :: conn_env
  pe_broker :: "'w broker"
  pe_cron :: "int \<Rightarrow> string \<Rightarrow> string \<Rightarrow> int option"

definition SKILLS_DIR :: "string list" where "SKILLS_DIR = [''skills'']"

definition builtin_plugins :: "'w plugin_env \<Rightarrow> ('w plugin_world, plugin_tool) amby_plugin list" where
  "builtin_plugins env =
     [createMemoryPlugin (lift_memory (memoryServiceLive (pe_now env) (pe_uuid env))),
      createIntegrationsPlugin (ce_enabled (pe_conn env))
        (\<lambda>userId. on_conn (getAgentTools (pe_conn env) (pe_broker env) userId)),
      createAutomationsPlugin (\<lambda>userId. pget (\<lambda>s. map_of (pw_timezones s) userId))
        (\<lambda>userId conversationId. pget (\<lambda>s. resolveDeliveryTarget (pw_tasks s) userId conversationId))
        (pe_cron env),
      createBrowserToolsPlugin (pret False),
      createComputerToolsPlugin (pret False),
      createSkillsPlugin (on_skills (skills_contribution SKILLS_DIR)) (on_skills (skills_hint SKILLS_DIR))]"

definition pluginRegistryLive :: "'w plugin_env \<Rightarrow> ('w plugin_world, plugin_tool) plugin_registry" where
  "pluginRegistryLive env = registerPlugins createPluginRegistry (builtin_plugins env)"

section \<open>The groups of a turn\<close>

definition read_tools :: "string \<Rightarrow> (string \<times> plugin_tool) list" where
  "read_tools userId = map (\<lambda>n. (n, ComputerTool n userId)) [''execute_readonly_command'', ''read_file'']"

definition write_tools :: "string \<Rightarrow> (string \<times> plugin_tool) list" where
  "write_tools userId = map (\<lambda>n. (n, ComputerTool n userId)) [''execute_command'', ''write_file'']"

definition createTimezoneTools :: "string \<Rightarrow> (string \<times> plugin_tool) list" where
  "createTimezoneTools userId = [(''set_timezone'', TimezoneTool userId)]"

definition createCodexAuthTools :: "string \<Rightarrow> (string \<times> plugin_tool) list" where
  "createCodexAuthTools userId = map (\<lambda>n. (n, CodexTool n userId))
     [''get_codex_auth_status'', ''set_codex_api_key'', ''start_codex_chatgpt_login'',
      ''import_codex_chatgpt_auth_json'', ''clear_codex_auth'']"

definition createCuaTools :: "string \<Rightarrow> string \<Rightarrow> (string \<times> plugin_tool) list" where
  "createCuaTools userId channelId = map (\<lambda>n. (n, CuaTool n userId channelId))
     [''cua_start'', ''cua_end'', ''cua_screenshot'', ''cua_click'', ''cua_type'', ''cua_key_press'',
      ''cua_scroll'', ''cua_cursor_position'']"

text \<open>The execution of these tools: a time zone must be known to the runtime.\<close>

datatype timezone_answer = TzUpdated string | TzError string

definition set_timezone ::
    "(string \<Rightarrow> bool) \<Rightarrow> string \<Rightarrow> string \<Rightarrow> (string \<times> string) list \<Rightarrow> (string \<times> string) list \<times> timezone_answer" where
  "set_timezone known userId timezone users =
     (if \<not> known timezone then (users, TzError (''Invalid IANA timezone identifier: '' @ timezone))
      else (map (\<lambda>(u, z). (u, if u = userId then timezone else z)) users, TzUpdated timezone))"

definition CODEX_DEVICE_AUTH_SETTINGS_URL :: string where
  "CODEX_DEVICE_AUTH_SETTINGS_URL = ''https://chatgpt.com/#settings/Security''"

definition CODEX_DEVICE_AUTH_URL :: string where
  "CODEX_DEVICE_AUTH_URL = ''https://auth.openai.com/codex/device''"

definition withUserMessages :: "auth_summary \<Rightarrow> auth_summary \<times> string list option" where
  "withUserMessages summary = (summary,
     if auth_summary.as_status summary \<noteq> AuthPending then None
     else map_option (\<lambda>(uri, code, start).
       [''Toggle on '' @ [CHR 0x22] @ ''Enable device code authorization for Codex'' @ [CHR 0x22] @ '' in '' @
          CODEX_DEVICE_AUTH_SETTINGS_URL,
        ''Go to '' @ CODEX_DEVICE_AUTH_URL @ '' and enter this code'', code]) (as_pending summary))"

record agent_env =
  ag_sandboxEnabled :: bool
  ag_enableCua :: bool
  ag_browserEnabled :: bool

definition agent_groups :: "agent_env \<Rightarrow> turn_ids \<Rightarrow> plugin_tool tool_groups \<Rightarrow> plugin_tool tool_groups" where
  "agent_groups env ids g =
     (let u = ti_userId ids;
          g1 = g(''sandbox-read'' \<mapsto> spread_tools (g ''sandbox-read'') (read_tools u));
          g2 = g1(''sandbox-write'' \<mapsto> spread_tools (g1 ''sandbox-write'') (write_tools u));
          g3 = g2(''settings'' \<mapsto> spread_tools (g2 ''settings'') (createTimezoneTools u @
                 (if ag_sandboxEnabled env then createCodexAuthTools u else [])))
      in if ag_enableCua env \<and> ag_sandboxEnabled env
         then g3(''cua'' \<mapsto> map_of (createCuaTools u (ti_conversationId ids))) else g3)"

definition buildToolGroups ::
    "agent_env \<Rightarrow> ('s, plugin_tool) plugin_registry \<Rightarrow> turn_ids \<Rightarrow> ('s, string, plugin_tool tool_groups) prog" where
  "buildToolGroups env registry ids =
     pbind (resolveToolGroupsFromRegistry registry ids) (\<lambda>g. pret (agent_groups env ids g))"

definition runtime_of :: "agent_env \<Rightarrow> ('s, 't) plugin_registry \<Rightarrow> run_runtime" where
  "runtime_of env registry =
     \<lparr>rt_sandboxEnabled = ag_sandboxEnabled env, rt_cuaEnabled = ag_enableCua env \<and> ag_sandboxEnabled env,
      rt_integrationEnabled = list_ex (\<lambda>p. tp_group p = ''integration'') (pr_tools registry),
      rt_browserEnabled = ag_browserEnabled env\<rparr>"

text \<open>The tool the conversation itself gets from the groups.\<close>

definition searchMemoriesTool :: "'t tool_groups \<Rightarrow> 't option" where
  "searchMemoriesTool groups = Option.bind (groups ''memory-read'') (\<lambda>tools. tools ''search_memories'')"

end
