(* ===== verification/MemoryProps.thy ===== *)
theory MemoryProps
  imports Memory
begin

text \<open>
  Memories: the contract of the service as a locale, its interpretation on the table, and what follows
  for the plugin; the removal of duplicates against its specification; the search.
\<close>

section \<open>Duplicates\<close>

definition memory_keys :: "string list \<Rightarrow> string list" where
  "memory_keys contents = filter (\<lambda>k. k \<noteq> []) (map js_trim contents)"

lemma memory_keys_append [simp]: "memory_keys (xs @ ys) = memory_keys xs @ memory_keys ys"
  by (simp add: memory_keys_def)

text \<open>The loop removes what it has seen and keeps first occurrences.\<close>

lemma uniq_filter_comm: "uniq (filter P xs) = filter P (uniq xs)"
  by (induction xs) (auto simp: filter_filter conj_commute intro: filter_cong)

lemma dedupe_keys_result:
  "dedupe_keys items seen result =
     (result @ filter (\<lambda>k. k \<notin> set seen) (uniq (memory_keys items)),
      rev (filter (\<lambda>k. k \<notin> set seen) (uniq (memory_keys items))) @ seen)"
proof (induction items seen result rule: dedupe_keys.induct)
  case (2 content items seen result)
  show ?case
    using 2 by (auto simp: memory_keys_def Let_def intro!: filter_cong)
qed (simp add: memory_keys_def)

lemma uniq_append: "uniq (xs @ ys) = uniq xs @ filter (\<lambda>y. y \<notin> set xs) (uniq ys)"
  by (induction xs) (auto intro!: filter_cong)

lemma deduplicate_spec:
  "deduplicateMemories st dy se =
     (let a = memory_keys (map mi_content st); b = memory_keys (map mi_content dy); c = memory_keys se
      in \<lparr>dd_static = uniq a, dd_dynamic = filter (\<lambda>k. k \<notin> set a) (uniq b),
          dd_search = filter (\<lambda>k. k \<notin> set a \<and> k \<notin> set b) (uniq c)\<rparr>)"
  by (auto simp: deduplicateMemories_def dedupe_keys_result Let_def intro!: filter_cong)

text \<open>
  Removing duplicates from the three lists in a row is removing them from their concatenation: every
  trimmed text that is not empty appears once, where it came first.
\<close>

theorem deduplicate_equivalent:
  "(let d = deduplicateMemories st dy se in dd_static d @ dd_dynamic d @ dd_search d) =
     uniq (memory_keys (map mi_content st @ map mi_content dy @ se))"
  by (simp add: deduplicate_spec Let_def uniq_append filter_filter conj_commute)

section \<open>Text that contains a memory\<close>

lemma str_includes_iff: "str_includes s p \<longleftrightarrow> (\<exists>a b. s = a @ p @ b)"
proof (induction s)
  case (Cons c s)
  show ?case
  proof
    assume "str_includes (c # s) p"
    then consider "take (length p) (c # s) = p" | "str_includes s p" by (auto simp: starts_with_def)
    then show "\<exists>a b. c # s = a @ p @ b"
    proof cases
      case 1
      then have "c # s = [] @ p @ drop (length p) (c # s)" by (metis append_Nil append_take_drop_id)
      then show ?thesis by blast
    next
      case 2
      with Cons obtain a b where "s = a @ p @ b" by blast
      then have "c # s = (c # a) @ p @ b" by simp
      then show ?thesis by blast
    qed
  next
    assume "\<exists>a b. c # s = a @ p @ b"
    then obtain a b where ab: "c # s = a @ p @ b" by blast
    show "str_includes (c # s) p"
    proof (cases a)
      case Nil
      with ab have "starts_with (c # s) p" by (metis append_Nil append_eq_conv_conj starts_with_def)
      then show ?thesis by simp
    next
      case (Cons x a')
      with ab have "s = a' @ p @ b" by simp
      with Cons.IH show ?thesis by (simp only: str_includes.simps) blast
    qed
  qed
qed simp

lemma includes_refl: "str_includes s s"
  unfolding str_includes_iff by (metis append_Nil append_Nil2)

lemma includes_append: "str_includes s p \<or> str_includes t p \<Longrightarrow> str_includes (s @ t) p"
  unfolding str_includes_iff by (metis append.assoc)

lemma includes_join: "x \<in> set xs \<Longrightarrow> str_includes x p \<Longrightarrow> str_includes (join_with sep xs) p"
  by (induction sep xs rule: join_with.induct) (auto intro: includes_append)

lemma bullets_includes: "m \<in> set ms \<Longrightarrow> str_includes (bullets ms) (''- '' @ m)"
  unfolding bullets_def by (rule includes_join [of "''- '' @ m"]) (auto simp: includes_refl)

lemma memories_text_includes:
  assumes "m \<in> set (dd_static d @ dd_dynamic d)"
  shows "str_includes (buildMemoriesText d defaultTemplate) (''- '' @ m)"
proof -
  have "str_includes (formatProfile d) (''- '' @ m)"
    unfolding formatProfile_def
    by (rule includes_join [of "bullets (if m \<in> set (dd_static d) then dd_static d else dd_dynamic d)"])
      (use assms in \<open>auto intro: bullets_includes [unfolded append_Cons append_Nil]\<close>)
  moreover from this have "formatProfile d \<noteq> []" by auto
  ultimately show ?thesis
    unfolding buildMemoriesText_def defaultTemplate_def
    by (intro includes_join [of "formatProfile d"]) auto
qed

lemma text_of_known:
  assumes "c \<in> mi_content ` set (mp_static p @ mp_dynamic p)" "js_trim c \<noteq> []"
  shows "str_includes (buildMemoriesText (deduplicateMemories (mp_static p) (mp_dynamic p) []) defaultTemplate)
           (''- '' @ js_trim c)"
proof (rule memories_text_includes)
  have "js_trim c \<in> set (memory_keys (map mi_content (mp_static p) @ map mi_content (mp_dynamic p)))"
    using assms by (auto simp: memory_keys_def)
  then show "js_trim c \<in> set (dd_static (deduplicateMemories (mp_static p) (mp_dynamic p) []) @
      dd_dynamic (deduplicateMemories (mp_static p) (mp_dynamic p) []))"
    by (auto simp: deduplicate_spec Let_def)
qed

section \<open>The contract of the service\<close>

text \<open>
  What the plugin relies on: a memory that was added is known under the identifier that was answered, it
  is known until it is deactivated, whatever else is added or deactivated, and the profile of its user
  holds what is known.
\<close>

locale memory_service =
  fixes add :: "string \<Rightarrow> string \<Rightarrow> memory_category option \<Rightarrow> string option \<Rightarrow> json option \<Rightarrow> ('s, string, string) prog"
    and profile :: "string \<Rightarrow> ('s, string, memory_profile) prog"
    and off :: "string \<Rightarrow> ('s, string, unit) prog"
    and knows :: "'s \<Rightarrow> string \<Rightarrow> string \<Rightarrow> string \<Rightarrow> bool"
  assumes add_knows: "add u c k src md s = Some (s', Inr i) \<Longrightarrow> knows s' u i c"
    and add_keeps: "knows s u i c \<Longrightarrow> add u' c' k src md s = Some (s', r) \<Longrightarrow> knows s' u i c"
    and off_keeps: "knows s u i c \<Longrightarrow> j \<noteq> i \<Longrightarrow> off j s = Some (s', q) \<Longrightarrow> knows s' u i c"
    and profile_knows: "knows s u i c \<Longrightarrow>
          \<exists>p. profile u s = Some (s, Inr p) \<and> c \<in> mi_content ` set (mp_static p @ mp_dynamic p)"
begin

abbreviation ops :: "'s memory_ops" where
  "ops \<equiv> \<lparr>mo_add = add, mo_getProfile = profile, mo_deactivate = off\<rparr>"

text \<open>The tool answers only after its memory is known.\<close>

lemma save_knows:
  assumes "save_memory ops u c k s = Some (s', Inr answer)"
  obtains i where "answer = JObj [(''saved'', JBool True), (''id'', JStr i)]" "knows s' u i c"
  using assms that add_knows unfolding save_memory_def by (fastforce elim!: pbind_okE simp: pbasic_Some)

text \<open>What is known is in the contribution to the prompt.\<close>

lemma known_contributes:
  assumes "knows s (ti_userId ids) i c" "js_trim c \<noteq> []"
  obtains t where "memory_contribution ops ids s = Some (s, Inr (Some t))" "str_includes t (''- '' @ js_trim c)"
proof -
  obtain p where p: "profile (ti_userId ids) s = Some (s, Inr p)" "c \<in> mi_content ` set (mp_static p @ mp_dynamic p)"
    using profile_knows [OF assms(1)] by blast
  from p(2) have "\<not> (mp_static p = [] \<and> mp_dynamic p = [])" by auto
  with p(1) have "memory_contribution ops ids s =
      Some (s, Inr (Some (buildMemoriesText (deduplicateMemories (mp_static p) (mp_dynamic p) []) defaultTemplate)))"
    by (simp add: memory_contribution_def pbind_run pret_def)
  with text_of_known [OF p(2) assms(2)] that show thesis by blast
qed

end

section \<open>The table\<close>

text \<open>A row that is active, of that user and with that content.\<close>

definition remembers :: "memory_db \<Rightarrow> string \<Rightarrow> string \<Rightarrow> string \<Rightarrow> bool" where
  "remembers db u i c \<longleftrightarrow>
     (\<exists>r \<in> set (md_memories db). mm_userId r = u \<and> mm_id r = i \<and> mm_content r = c \<and> mm_isActive r)"

lemma profile_loop_set:
  "set (mp_static (profile_loop rs p) @ mp_dynamic (profile_loop rs p)) =
     set (mp_static p @ mp_dynamic p) \<union> item_of ` set rs"
  by (induction rs p rule: profile_loop.induct) auto

lemma getProfile_contents:
  "\<exists>p. getProfile u db = Some (db, Inr p) \<and>
       set (mp_static p @ mp_dynamic p) = item_of ` {r \<in> set (md_memories db). mm_userId r = u \<and> mm_isActive r}"
  by (simp add: getProfile_def pget_def active_rows_def profile_loop_set del: set_append)

lemma memory_add_ok:
  assumes "memory_add now uuid u c k src md db = Some (db', Inr i)"
  shows "remembers db' u i c"
  using assms by (auto simp: memory_add_def remembers_def split: if_splits)

lemma memory_add_keeps:
  assumes "remembers db u i c" "memory_add now uuid u' c' k src md db = Some (db', r)"
  shows "remembers db' u i c"
  using assms by (auto simp: memory_add_def remembers_def split: if_splits)

lemma memory_off_keeps:
  assumes "remembers db u i c" "j \<noteq> i" "memory_deactivate now j db = Some (db', q)"
  shows "remembers db' u i c"
  using assms unfolding memory_deactivate_def pmodify_def remembers_def by fastforce

lemma memory_profile_knows:
  assumes "remembers db u i c"
  shows "\<exists>p. getProfile u db = Some (db, Inr p) \<and> c \<in> mi_content ` set (mp_static p @ mp_dynamic p)"
proof -
  obtain p where p: "getProfile u db = Some (db, Inr p)"
    "set (mp_static p @ mp_dynamic p) = item_of ` {r \<in> set (md_memories db). mm_userId r = u \<and> mm_isActive r}"
    using getProfile_contents by blast
  from assms obtain r where "r \<in> set (md_memories db)" "mm_userId r = u" "mm_content r = c" "mm_isActive r"
    by (auto simp: remembers_def)
  then have "item_of r \<in> set (mp_static p @ mp_dynamic p)" "mi_content (item_of r) = c"
    unfolding p(2) by (auto simp: item_of_def)
  with p(1) show ?thesis by blast
qed

interpretation live: memory_service "memory_add now uuid" getProfile "memory_deactivate now'" remembers
  by unfold_locales (fact memory_add_ok memory_add_keeps memory_off_keeps memory_profile_knows)+

text \<open>A profile holds the active memories of its user and no others.\<close>

theorem profile_of_own_memories:
  "\<exists>p. getProfile u db = Some (db, Inr p) \<and>
       set (mp_static p) = item_of ` {r \<in> set (md_memories db). mm_userId r = u \<and> mm_isActive r \<and> mm_category r = MStatic} \<and>
       set (mp_dynamic p) = item_of ` {r \<in> set (md_memories db). mm_userId r = u \<and> mm_isActive r \<and> mm_category r \<noteq> MStatic}"
proof -
  have "set (mp_static (profile_loop rs p)) = set (mp_static p) \<union> item_of ` {r \<in> set rs. mm_category r = MStatic} \<and>
      set (mp_dynamic (profile_loop rs p)) = set (mp_dynamic p) \<union> item_of ` {r \<in> set rs. mm_category r \<noteq> MStatic}"
    for rs p
    by (induction rs p rule: profile_loop.induct) auto
  then show ?thesis by (auto simp: getProfile_def pget_def active_rows_def conj_ac)
qed

section \<open>The search\<close>

text \<open>Every answer is one of the memories; a match, when there is one, is among them.\<close>

theorem search_answers:
  "set (relevant_memories q ms) \<subseteq> set ms"
  "\<exists>m \<in> set ms. str_includes (to_lower (mi_content m)) (to_lower q) \<Longrightarrow>
     set (relevant_memories q ms) = {m \<in> set ms. str_includes (to_lower (mi_content m)) (to_lower q)}"
  by (auto simp: relevant_memories_def Let_def filter_empty_conv dest: in_set_takeD)

text \<open>
  Without a match the answer is the first ten of the static memories and then the others, and not the ten
  most recent: with ten static memories the latest memory is left out.
\<close>

definition old_fact :: "int \<Rightarrow> memory_row" where
  "old_fact n = \<lparr>mm_id = [char_of n], mm_userId = ''u'', mm_content = ''fact'', mm_category = MStatic,
                mm_isActive = True, mm_source = None, mm_metadata = None, mm_version = 1, mm_parentId = None,
                mm_createdAt = n, mm_updatedAt = n\<rparr>"

lemma search_fallback_misses_recent:
  "let db = \<lparr>md_users = [''u''], md_memories = map old_fact [65..74] @ [(old_fact 99)\<lparr>mm_category := MDynamic\<rparr>]\<rparr>
   in \<exists>p. getProfile ''u'' db = Some (db, Inr p) \<and> map mi_id (mp_dynamic p) = [''c''] \<and>
        map mi_id (relevant_memories ''zzz'' (mp_static p @ mp_dynamic p)) =
          [''J'', ''I'', ''H'', ''G'', ''F'', ''E'', ''D'', ''C'', ''B'', ''A'']"
  by (simp add: Let_def getProfile_def pget_def) code_simp

end
