(* ===== verification/PluginsProps.thy ===== *)
theory PluginsProps
  imports Plugins MemoryProps Triples
begin

text \<open>
  The plugins together: which groups and tools a turn gets, what a provider that fails takes with it, and
  how a saved memory reaches the prompt.
\<close>

section \<open>The registry of the worker\<close>

lemmas plugin_defs = createMemoryPlugin_def createIntegrationsPlugin_def createAutomationsPlugin_def
  createBrowserToolsPlugin_def createComputerToolsPlugin_def createSkillsPlugin_def
  addContextContributor_def addToolProvider_def addPlannerHintProvider_def

lemma live_groups:
  "map tp_group (pr_tools (pluginRegistryLive env)) =
     [''memory'', ''integration'', ''integration'', ''automation'', ''browser'', ''sandbox'', ''settings'']"
  by (simp add: pluginRegistryLive_def builtin_plugins_def registerPlugins_def createPluginRegistry_def plugin_defs)

lemma live_contributors:
  "map cx_contribute (pr_contributors (pluginRegistryLive env)) =
     [memory_contribution (lift_memory (memoryServiceLive (pe_now env) (pe_uuid env))),
      (\<lambda>ids. on_skills (skills_contribution SKILLS_DIR))]"
  by (simp add: pluginRegistryLive_def builtin_plugins_def registerPlugins_def createPluginRegistry_def plugin_defs)

text \<open>The integrations count as enabled in every turn, whether or not the broker is configured.\<close>

lemma integrations_always_enabled: "rt_integrationEnabled (runtime_of aenv (pluginRegistryLive env))"
  by (simp add: runtime_of_def pluginRegistryLive_def builtin_plugins_def registerPlugins_def
        createPluginRegistry_def plugin_defs)

section \<open>Groups\<close>

lemma agent_groups_other:
  "g \<notin> {''sandbox-read'', ''sandbox-write'', ''settings'', ''cua''} \<Longrightarrow> agent_groups env ids G g = G g"
  by (auto simp: agent_groups_def Let_def)

lemma live_resolved:
  assumes "buildToolGroups aenv (pluginRegistryLive env) ids s = Some (s', Inr groups)"
  obtains G where "resolveToolGroupsFromRegistry (pluginRegistryLive env) ids s = Some (s', Inr G)"
    "groups = agent_groups aenv ids G"
  using assms that unfolding buildToolGroups_def by (fastforce elim!: pbind_okE simp: pbasic_Some)

lemma live_group_set:
  "tp_group ` set (pr_tools (pluginRegistryLive env)) =
     {''memory'', ''integration'', ''automation'', ''browser'', ''sandbox'', ''settings''}"
  using arg_cong [OF live_groups [of env], of set] unfolding set_map by auto

text \<open>
  The memory specialist has no tools: its groups are \<open>memory-read\<close> and \<open>memory-write\<close>, and the memory
  plugin registers its tools under \<open>memory\<close>, a group that no specialist has.
\<close>

lemma no_memory_groups:
  assumes "buildToolGroups aenv (pluginRegistryLive env) ids s = Some (s', Inr groups)"
    and "g = ''memory-read'' \<or> g = ''memory-write''"
  shows "groups g = None"
proof -
  obtain G where G: "resolveToolGroupsFromRegistry (pluginRegistryLive env) ids s = Some (s', Inr G)"
    "groups = agent_groups aenv ids G"
    using live_resolved [OF assms(1)] .
  have "g \<notin> tp_group ` set (pr_tools (pluginRegistryLive env))"
    unfolding live_group_set using assms(2) by auto
  then have "G g = None"
    using resolve_providers_groups [OF G(1) [unfolded resolveToolGroupsFromRegistry_def] refl] by simp
  moreover have "groups g = G g"
    unfolding G(2) using assms(2) by (intro agent_groups_other) auto
  ultimately show ?thesis by simp
qed

theorem memory_tools_unreachable:
  assumes "buildToolGroups aenv (pluginRegistryLive env) ids s = Some (s', Inr groups)"
  shows "resolveVisibleTools (getSpecialistDefinition SMemory) config groups = Map.empty \<and>
         searchMemoriesTool groups = None"
proof -
  note none = no_memory_groups [OF assms]
  have "dom (resolveVisibleTools (getSpecialistDefinition SMemory) config groups) = {}"
    unfolding visible_tools_dom using none by (auto simp: allowed_groups_set specialist_def)
  with none show ?thesis by (simp add: searchMemoriesTool_def)
qed

section \<open>A provider that fails\<close>

text \<open>Running a program on a part of the state.\<close>

lemma pzoom_Some: "pzoom get put m s = Some (s', r) \<longleftrightarrow> (\<exists>t. m (get s) = Some (t, r) \<and> s' = put t s)"
  by (cases "m (get s)") (auto simp: pzoom_def)

lemma responds_zoom: "responds m \<Longrightarrow> responds (pzoom get put m)"
  by (auto simp: responds_def pzoom_def)

lemma responds_ask: "responds (ask msg f)"
  by (auto simp: responds_def ask_def split: prod.split sum.split)

lemma responds_agent_tools: "responds (getAgentTools env bk u)"
  unfolding getAgentTools_def by (intro responds_rules responds_ask)

lemma live_providers_respond:
  assumes "p \<in> set (pr_tools (pluginRegistryLive env))"
  shows "responds (tp_getTools p ids)"
  using assms
  by (auto simp: pluginRegistryLive_def builtin_plugins_def registerPlugins_def createPluginRegistry_def plugin_defs
        on_conn_def intro!: responds_rules responds_zoom responds_agent_tools)

text \<open>A turn always gets its groups, and the tools that need no other system are always among them.\<close>

lemma providers_of_live:
  "\<exists>p \<in> set (pr_tools (pluginRegistryLive env)). tp_group p = ''integration'' \<and>
     (\<forall>s. tp_getTools p ids s = Some (s, Inr (createConnectorManagementTools (ti_userId ids))))"
  "\<exists>p \<in> set (pr_tools (pluginRegistryLive env)). tp_group p = ''settings'' \<and>
     (\<forall>s. tp_getTools p ids s = Some (s, Inr (map (\<lambda>n. (n, SkillTool n)) [''list_skills'', ''activate_skill''])))"
  by (simp_all add: pluginRegistryLive_def builtin_plugins_def registerPlugins_def createPluginRegistry_def
        plugin_defs pret_def)

lemma live_provider_present:
  assumes "resolve_providers ids (pr_tools r) Map.empty s = Some (s', Inr G)"
    and "\<exists>p \<in> set (pr_tools r). tp_group p = g \<and> (\<forall>s. tp_getTools p ids s = Some (s, Inr tools))"
    and "tools \<noteq> []"
  shows "has_tools g (fst ` set tools) G"
proof -
  from assms(2) obtain p where p: "p \<in> set (pr_tools r)" "tp_group p = g"
    "\<forall>s. tp_getTools p ids s = Some (s, Inr tools)" by blast
  have "has_tools (tp_group p) (fst ` set tools) G"
    by (rule provider_isolated [OF assms(1) p(1)]) (use p(3) assms(3) in blast)
  with p(2) show ?thesis by simp
qed

lemma other_group: "has_tools g names G \<Longrightarrow> g \<noteq> h \<Longrightarrow> has_tools g names (G(h \<mapsto> m))"
  by (simp add: has_tools_def)

lemma agent_groups_has:
  "has_tools g names G \<Longrightarrow> g \<noteq> ''cua'' \<Longrightarrow> has_tools g names (agent_groups env ids G)"
  unfolding agent_groups_def Let_def by (split if_split) (intro conjI impI other_group spread_grows)

lemma agent_groups_own:
  "has_tools ''settings'' (fst ` set (createTimezoneTools (ti_userId ids))) (agent_groups env ids G)"
  "has_tools ''sandbox-read'' (fst ` set (read_tools (ti_userId ids))) (agent_groups env ids G)"
  "has_tools ''sandbox-write'' (fst ` set (write_tools (ti_userId ids))) (agent_groups env ids G)"
proof -
  have t: "has_tools ''settings'' (fst ` set (createTimezoneTools (ti_userId ids)))
      (G(''settings'' \<mapsto> spread_tools (G ''settings'') (createTimezoneTools (ti_userId ids) @ ts)))" for G ts
    by (rule has_tools_mono [OF spread_has]) auto
  show "has_tools ''settings'' (fst ` set (createTimezoneTools (ti_userId ids))) (agent_groups env ids G)"
    unfolding agent_groups_def Let_def
    by (split if_split) (intro conjI impI; (rule t | (rule other_group, rule t, simp)))
  show "has_tools ''sandbox-read'' (fst ` set (read_tools (ti_userId ids))) (agent_groups env ids G)"
    "has_tools ''sandbox-write'' (fst ` set (write_tools (ti_userId ids))) (agent_groups env ids G)"
    unfolding agent_groups_def Let_def
    by (split if_split, intro conjI impI other_group spread_grows spread_has; simp)+
qed

theorem turn_groups:
  "\<exists>s' groups. buildToolGroups aenv (pluginRegistryLive env) ids s = Some (s', Inr groups) \<and>
     has_tools ''integration'' (fst ` set (createConnectorManagementTools (ti_userId ids))) groups \<and>
     has_tools ''settings'' {''list_skills'', ''activate_skill''} groups \<and>
     has_tools ''settings'' (fst ` set (createTimezoneTools (ti_userId ids))) groups \<and>
     has_tools ''sandbox-read'' (fst ` set (read_tools (ti_userId ids))) groups \<and>
     has_tools ''sandbox-write'' (fst ` set (write_tools (ti_userId ids))) groups"
proof -
  obtain s' G where G: "resolve_providers ids (pr_tools (pluginRegistryLive env)) Map.empty s = Some (s', Inr G)"
    using resolve_providers_returns live_providers_respond unfolding responds_def by (metis not_None_eq)
  then have b: "buildToolGroups aenv (pluginRegistryLive env) ids s = Some (s', Inr (agent_groups aenv ids G))"
    by (simp add: buildToolGroups_def resolveToolGroupsFromRegistry_def pbind_run pret_def)
  have i: "has_tools ''integration'' (fst ` set (createConnectorManagementTools (ti_userId ids))) G"
    by (rule live_provider_present [OF G providers_of_live(1)]) (simp add: createConnectorManagementTools_def)
  have "has_tools ''settings'' (fst ` set (map (\<lambda>n. (n, SkillTool n)) [''list_skills'', ''activate_skill''])) G"
    by (rule live_provider_present [OF G providers_of_live(2)]) simp
  then have k: "has_tools ''settings'' {''list_skills'', ''activate_skill''} G" by simp
  show ?thesis
    by (intro exI conjI, rule b, rule agent_groups_has [OF i], simp, rule agent_groups_has [OF k], simp)
      (rule agent_groups_own)+
qed

section \<open>A saved memory is in the prompt\<close>

text \<open>The service on the state of the plugins.\<close>

interpretation world: memory_service
  "\<lambda>u c k src md. on_memory (memory_add now uuid u c k src md)" "\<lambda>u. on_memory (getProfile u)"
  "\<lambda>i. on_memory (memory_deactivate now' i)" "\<lambda>s. remembers (pw_memory s)"
proof unfold_locales
  fix u c k src md and s s' :: "'w plugin_world" and i
  assume "on_memory (memory_add now uuid u c k src md) s = Some (s', Inr i)"
  then show "remembers (pw_memory s') u i c"
    using memory_add_ok by (auto simp: on_memory_def pzoom_Some)
next
  fix s s' :: "'w plugin_world" and u i c u' c' k src md r
  assume "remembers (pw_memory s) u i c" "on_memory (memory_add now uuid u' c' k src md) s = Some (s', r)"
  then show "remembers (pw_memory s') u i c"
    using memory_add_keeps by (auto simp: on_memory_def pzoom_Some)
next
  fix s s' :: "'w plugin_world" and u i c j q
  assume "remembers (pw_memory s) u i c" "j \<noteq> i" "on_memory (memory_deactivate now' j) s = Some (s', q)"
  then show "remembers (pw_memory s') u i c"
    using memory_off_keeps by (auto simp: on_memory_def pzoom_Some)
next
  fix s :: "'w plugin_world" and u i c
  assume "remembers (pw_memory s) u i c"
  from memory_profile_knows [OF this] show "\<exists>p. on_memory (getProfile u) s = Some (s, Inr p) \<and>
      c \<in> mi_content ` set (mp_static p @ mp_dynamic p)"
    by (auto simp: on_memory_def pzoom_Some)
qed

text \<open>What any user's tools and the service do to the table between two turns.\<close>

datatype memory_request =
    MemAdd int string string string "memory_category option" "string option" "json option"
  | MemOff int string

fun memory_exec :: "memory_request \<Rightarrow> 'w plugin_world \<Rightarrow> 'w plugin_world" where
  "memory_exec (MemAdd now uuid u c k src md) s =
     default_to (state_after (on_memory (memory_add now uuid u c k src md) :: ('w plugin_world, string, string) prog) s) s"
| "memory_exec (MemOff now i) s =
     default_to (state_after (on_memory (memory_deactivate now i) :: ('w plugin_world, string, unit) prog) s) s"

fun deactivates :: "string \<Rightarrow> memory_request \<Rightarrow> bool" where
  "deactivates i (MemOff now j) \<longleftrightarrow> j = i"
| "deactivates i (MemAdd now uuid u c k src md) \<longleftrightarrow> False"

lemma memory_exec_keeps:
  assumes "remembers (pw_memory s) u i c" "\<not> deactivates i req"
  shows "remembers (pw_memory (memory_exec req s)) u i c"
proof (cases req)
  case (MemAdd now uuid u' c' k src md)
  have "\<exists>db' r. memory_add now uuid u' c' k src md (pw_memory s) = Some (db', r)"
    by (simp add: memory_add_def)
  then obtain db' r where "memory_add now uuid u' c' k src md (pw_memory s) = Some (db', r)" by blast
  with MemAdd memory_add_keeps [OF assms(1)] show ?thesis
    by (simp add: state_after_def on_memory_def pzoom_def)
next
  case (MemOff now j)
  obtain db' q where "memory_deactivate now j (pw_memory s) = Some (db', q :: string + unit)"
    by (simp add: memory_deactivate_def pmodify_def)
  with MemOff memory_off_keeps [OF assms(1)] assms(2) show ?thesis
    by (simp add: state_after_def on_memory_def pzoom_def)
qed

interpretation memory_run: guarded_run memory_exec "\<lambda>req s. \<not> deactivates i req" "\<lambda>s. remembers (pw_memory s) u i c"
  by unfold_locales (rule memory_exec_keeps)

text \<open>The context of a turn holds every contribution.\<close>

lemma context_includes:
  assumes "cx_contribute c0 ids s = Some (s1, Inr (Some t))" "t \<noteq> []" "str_includes t p"
    and "contributions ids cs s1 = Some (s2, Inr parts)" "pr_contributors registry = c0 # cs"
  shows "\<exists>t'. plugin_context registry ids s = Some (s2, Inr t') \<and> str_includes t' p"
proof -
  have "plugin_context registry ids s = Some (s2, Inr (join_context (Some t # parts)))"
    using contributions_return [OF assms(1,4)] assms(5) by (simp add: plugin_context_def pbind_run pret_def)
  moreover have "truthy_str (Some t) = Some t" using assms(2) by simp
  then have "str_includes (join_context (Some t # parts)) p"
    unfolding join_context_def by (intro includes_join [OF _ assms(3)]) (simp add: map_filter_simps)
  ultimately show ?thesis by blast
qed

lemma skills_contribute:
  "\<exists>s' r. contributions ids [\<lparr>cx_id = i, cx_contribute = (\<lambda>ids. on_skills (skills_contribution dir))\<rparr>] s = Some (s', Inr r)"
proof -
  have "responds (on_skills (skills_contribution dir) :: ('w plugin_world, string, string option) prog)"
    unfolding on_skills_def skills_contribution_def loadManifests_def
    by (intro responds_zoom responds_rules) (simp add: responds_def Let_def split: option.split)
  then obtain s1 a where "on_skills (skills_contribution dir) s = Some (s1, a :: string + string option)"
    by (metis not_None_eq prod.exhaust responds_def)
  then show ?thesis by (auto simp: ptry_def pbind_run pret_def)
qed


definition empty_plugin_world :: "'w \<Rightarrow> 'w plugin_world" where
  "empty_plugin_world w =
     \<lparr>pw_memory = \<lparr>md_users = [''u''], md_memories = []\<rparr>, pw_skills = \<lparr>ss_files = FDir [], ss_cache = None\<rparr>,
      pw_tasks = empty_task_db, pw_timezones = [], pw_conn = \<lparr>cn_rows = [], cn_world = w\<rparr>\<rparr>"


end
