(* ===== verification/SkillsProps.thy ===== *)
theory SkillsProps
  imports Skills
begin

text \<open>
  Skills: a skill file that is written as the parser expects is discovered and activated with what was
  written; the cache; the front matter that discovery accepts and activation does not.
\<close>

section \<open>The first occurrence of a pattern\<close>

lemma starts_with_Cons [simp]: "starts_with (c # s) (d # p) \<longleftrightarrow> c = d \<and> starts_with s p"
  by (auto simp: starts_with_def)

lemma starts_with_Nil [simp]: "starts_with s []" "starts_with [] (d # p) \<longleftrightarrow> False"
  by (simp_all add: starts_with_def)

lemma split_first_skip:
  assumes "c \<notin> set a"
  shows "split_first (c # p) (a @ s) = map_option (\<lambda>(x, y). (a @ x, y)) (split_first (c # p) s)"
  using assms
proof (induction a)
  case Nil
  show ?case by (cases "split_first (c # p) s") auto
next
  case (Cons d a)
  then show ?case
    by (subst split_first.simps) (cases "split_first (c # p) s", auto)
qed

lemma split_first_miss:
  "\<not> starts_with s p \<Longrightarrow> split_first (c # p) (c # s) = map_option (\<lambda>(x, y). (c # x, y)) (split_first (c # p) s)"
  by (subst split_first.simps) simp

lemma split_first_hit: "starts_with s p \<Longrightarrow> split_first p s = Some ([], drop (length p) s)"
  by (subst split_first.simps) simp

section \<open>A skill file\<close>

text \<open>The file an author writes: a title, a description and the instructions.\<close>

definition write_skill :: "string \<Rightarrow> string \<Rightarrow> string \<Rightarrow> string" where
  "write_skill title description body =
     fm_open @ ''title: '' @ title @ [lf] @ ''description: '' @ description @ [lf] @ ''---'' @ [lf] @ body"

text \<open>A value on one line, without white space or quotes at its ends.\<close>

definition plain_value :: "string \<Rightarrow> bool" where
  "plain_value v \<longleftrightarrow> lf \<notin> set v \<and> js_trim v = v \<and>
     (v \<noteq> [] \<longrightarrow> \<not> is_quote (hd v) \<and> \<not> is_quote (last v))"

lemma strip_same: "(v \<noteq> [] \<Longrightarrow> \<not> P (hd v)) \<Longrightarrow> strip_first P v = v"
  "(v \<noteq> [] \<Longrightarrow> \<not> P (last v)) \<Longrightarrow> strip_last P v = v"
  by (auto simp: strip_first_def strip_last_def hd_rev [symmetric] split: list.splits)

lemma unquote_plain: "plain_value v \<Longrightarrow> unquote v = v"
  by (simp add: plain_value_def unquote_def strip_same)

lemma trim_space_front: "js_trim (CHR '' '' # v) = js_trim v"
  by (simp add: js_trim_def trim_start_def is_ws_def)

lemma written_front:
  assumes "lf \<notin> set title" "lf \<notin> set description"
  shows "split_first (lf # ''---'' @ p) (''title: '' @ title @ [lf] @ ''description: '' @ description @ [lf] @ ''---'' @ p @ rest) =
    Some (''title: '' @ title @ [lf] @ ''description: '' @ description, rest)"
proof -
  have t: "lf \<notin> set (''title: '' @ title)" "lf \<notin> set (''description: '' @ description)"
    using assms by (auto simp: lf_def)
  have h: "split_first (lf # ''---'' @ p) (lf # ''---'' @ p @ rest) = Some ([], rest)"
    by (subst split_first_hit) (auto simp: starts_with_def)
  have d: "split_first (lf # ''---'' @ p) ((''description: '' @ description) @ lf # ''---'' @ p @ rest) =
      Some (''description: '' @ description, rest)"
    unfolding split_first_skip [OF t(2)] h by simp
  have "split_first (lf # ''---'' @ p) (lf # (''description: '' @ description) @ lf # ''---'' @ p @ rest) =
      Some (lf # ''description: '' @ description, rest)"
    by (subst split_first_miss) (simp, use d in simp)
  with split_first_skip [OF t(1), of "''---'' @ p" "lf # (''description: '' @ description) @ lf # ''---'' @ p @ rest"]
  show ?thesis by simp
qed

lemma written_matter:
  assumes "lf \<notin> set title" "lf \<notin> set description"
  shows "front_matter_text (write_skill title description body) =
           Some (''title: '' @ title @ [lf] @ ''description: '' @ description)"
    and "body_text (write_skill title description body) = Some body"
  using written_front [OF assms, of "[]" "lf # body"] written_front [OF assms, of "[lf]" body]
  by (simp_all add: front_matter_text_def body_text_def write_skill_def starts_with_def fm_open_def)

lemma split_on_plain: "c \<notin> set a \<Longrightarrow> split_on c (a @ c # s) = a # split_on c s"
  by (induction a) auto

lemma split_on_none: "c \<notin> set a \<Longrightarrow> split_on c a = [a]"
  by (induction a) auto

lemma parse_title:
  assumes "plain_value v"
  shows "parse_line (''title: '' @ v) m = m\<lparr>fm_title := Some v\<rparr>"
    and "parse_line (''description: '' @ v) m = m\<lparr>fm_description := Some v\<rparr>"
proof -
  have "split_first '':'' (''title'' @ '':'' @ CHR '' '' # v) = Some (''title'', CHR '' '' # v)"
    "split_first '':'' (''description'' @ '':'' @ CHR '' '' # v) = Some (''description'', CHR '' '' # v)"
    by (subst split_first_skip; simp add: split_first_hit)+
  moreover have "js_trim ''title'' = ''title''" "js_trim ''description'' = ''description''" by code_simp+
  ultimately show "parse_line (''title: '' @ v) m = m\<lparr>fm_title := Some v\<rparr>"
    "parse_line (''description: '' @ v) m = m\<lparr>fm_description := Some v\<rparr>"
    using assms by (simp_all add: parse_line_def trim_space_front unquote_plain plain_value_def Let_def)
qed

lemma written_parsed:
  assumes "plain_value title" "plain_value description"
  shows "parseFrontmatter (write_skill title description body) =
    \<lparr>fm_title = Some title, fm_description = Some description, fm_requiredCapabilities = None\<rparr>"
proof -
  have n: "lf \<notin> set title" "lf \<notin> set description" using assms by (auto simp: plain_value_def)
  have l: "lf \<notin> set (''title: '' @ title)" "lf \<notin> set (''description: '' @ description)"
    using n by (auto simp: lf_def)
  have e: "''title: '' @ title @ [lf] @ ''description: '' @ description =
      (''title: '' @ title) @ lf # ''description: '' @ description" by simp
  have "split_on lf (''title: '' @ title @ [lf] @ ''description: '' @ description) =
      [''title: '' @ title, ''description: '' @ description]"
    unfolding e split_on_plain [OF l(1)] split_on_none [OF l(2)] ..
  then show ?thesis
    using parse_title [OF assms(1)] parse_title [OF assms(2)]
    by (simp add: parseFrontmatter_def written_matter(1) [OF n] no_front_matter_def)
qed

section \<open>Discovered and activated\<close>

lemma find_first_filter:
  assumes "distinct (map fst es)" "map_of es k = Some n" "\<And>e m. f e = Some m \<Longrightarrow> key m = fst e" "f (k, n) = Some m"
  shows "find_first (\<lambda>x. key x = k) (List.map_filter f es) = Some m"
  using assms(1,2)
proof (induction es)
  case (Cons e es)
  show ?case
  proof (cases "fst e = k")
    case True
    with Cons.prems assms(4) have "f e = Some m" by (cases e) auto
    with assms(3) [of e m] True show ?thesis by (simp add: map_filter_simps)
  next
    case False
    with Cons have "find_first (\<lambda>x. key x = k) (List.map_filter f es) = Some m" by (cases e) auto
    with False assms(3) [of e] show ?thesis by (cases "f e") (auto simp: map_filter_simps)
  qed
qed simp

lemma discover_entry_id: "discover_entry dir e = Some m \<Longrightarrow> sk_id m = fst e"
  by (auto simp: discover_entry_def manifest_of_def Let_def split: if_splits)

lemma node_at_append: "node_at n (xs @ ys) = Option.bind (node_at n xs) (\<lambda>m. node_at m ys)"
  by (induction n xs rule: node_at.induct) (auto split: option.splits)

text \<open>
  A skill that is written as expected is activated by its identifier with its title, its instructions
  and the files below its directory.
\<close>

theorem skill_roundtrip:
  assumes "node_at fs dir = Some (FDir es)" "distinct (map fst es)" "map_of es name = Some (FDir files)"
    and "map_of files ''SKILL.md'' = Some (FText (write_skill title description body))"
    and "plain_value title" "plain_value description" "walk [] files = Some refs"
  shows "\<exists>s'. activate_skill dir name \<lparr>ss_files = fs, ss_cache = None\<rparr> =
    Some (s', Inr (SkillActive title (js_trim body) (map (\<lambda>r. (sr_path r, sr_type r)) refs)))"
proof -
  have n: "lf \<notin> set title" "lf \<notin> set description" using assms(5,6) by (auto simp: plain_value_def)
  let ?c = "write_skill title description body"
  let ?m = "manifest_of dir name ?c"
  have ne: "truthy_str (Some ?c) = Some ?c" by (simp add: write_skill_def fm_open_def)
  have "discover_entry dir (name, FDir files) = Some ?m"
    using assms(4) ne by (simp add: discover_entry_def)
  from find_first_filter [where f = "discover_entry dir" and key = sk_id, OF assms(2,3) discover_entry_id this]
  have f: "find_first (\<lambda>m. sk_id m = name) (discoverSkills dir fs) = Some ?m"
    using assms(1) by (simp add: discoverSkills_def)
  have p: "sk_path ?m = dir @ [name]" "sk_title ?m = title"
    using written_parsed [OF assms(5,6)] by (simp_all add: manifest_of_def Let_def)
  have "activateSkill ?m fs = Some
      \<lparr>ac_id = sk_id ?m, ac_title = title, ac_instructions = js_trim body, ac_references = refs,
       ac_requiredCapabilities = default_to (sk_requiredCapabilities ?m) []\<rparr>"
    using assms(1,3,4,7) p
    by (simp add: activateSkill_def node_at_append loadReferences_def extractBody_def written_matter(2) [OF n])
  then show ?thesis
    using f by (simp add: activate_skill_def findSkill_def loadManifests_def skill_activate_def pbind_def ptry_def
        pret_def Let_def)
qed

theorem skill_roundtrip_witness:
  "\<exists>s'. activate_skill [''skills''] ''tea''
     \<lparr>ss_files = FDir [(''skills'', FDir [(''notes.txt'', FText ''x''),
        (''tea'', FDir [(''SKILL.md'', FText (write_skill ''Tea'' ''How to make tea'' ''Boil water. '')),
           (''forms'', FDir [(''order.template'', FText ''...'')])])])], ss_cache = None\<rparr> =
     Some (s', Inr (SkillActive ''Tea'' ''Boil water.'' [([''forms'', ''order.template''], RefTemplate)]))"
proof -
  have v: "plain_value ''Tea''" "plain_value ''How to make tea''" by (simp_all add: plain_value_def) code_simp+
  have t: "js_trim ''Boil water. '' = ''Boil water.''" by code_simp
  have w: "walk [] [(''SKILL.md'', FText (write_skill ''Tea'' ''How to make tea'' ''Boil water. '')),
      (''forms'', FDir [(''order.template'', FText ''...'')])] =
    Some [\<lparr>sr_path = [''forms'', ''order.template''], sr_content = ''...'', sr_type = RefTemplate\<rparr>]"
    by (simp add: reference_def ends_with_def)
  have "node_at (FDir [(''skills'', FDir es)]) [''skills''] = Some (FDir es)" for es by simp
  from skill_roundtrip [OF this _ _ _ v w, of "[(''notes.txt'', FText ''x''), (''tea'',
      FDir [(''SKILL.md'', FText (write_skill ''Tea'' ''How to make tea'' ''Boil water. '')),
        (''forms'', FDir [(''order.template'', FText ''...'')])])]" "''tea''" "''Boil water. ''"]
  show ?thesis unfolding t by simp
qed

text \<open>
  Discovery takes front matter that ends at the end of the file; activation does not, and the
  instructions then hold the front matter itself.
\<close>

lemma front_matter_leaks:
  "let content = fm_open @ ''title: Tea'' @ [lf] @ ''---'' in
     fm_title (parseFrontmatter content) = Some ''Tea'' \<and> extractBody content = content"
  by code_simp

end
