(* ===== verification/Cua.thy ===== *)
theory Cua
  imports Compute
begin

text \<open>
  The tools for the desktop of a user's computer and the lock file that keeps the channels apart:
  \<open>packages/computer/src/sandbox/cua-tools.ts\<close>.

  The computer is a parameter: whether the file can be read, written and removed, and what the desktop
  does.  Times are in milliseconds; the lock file holds what the tools wrote.  The state records every
  call of the desktop, with its time and channel.
\<close>

section \<open>State\<close>

definition CUA_STALE_MINUTES :: int where "CUA_STALE_MINUTES = 15"

record cua_lock =
  cl_channel :: string
  cl_task :: string
  cl_startedAt :: int
  cl_lastActivity :: int

datatype mouse_button = BtnLeft | BtnRight | BtnMiddle

datatype scroll_direction = ScrollUp | ScrollDown

datatype desktop_call =
    DStart
  | DStop
  | DScreenshot bool
  | DClick int int "mouse_button option" "bool option"
  | DType string "int option"
  | DKey string "string list option"
  | DScroll int int scroll_direction "int option"
  | DMove int int
  | DPosition

datatype desktop_reply = ReplyMessage "string option" | ReplyImage "string option" | ReplyPoint int int | ReplyDone

record 'w desktop =
  dk_readable :: "'w \<Rightarrow> bool"
  dk_write :: "'w \<Rightarrow> 'w \<times> (string + unit)"
  dk_remove :: "'w \<Rightarrow> 'w \<times> (string + bool)"
  dk_do :: "desktop_call \<Rightarrow> 'w \<Rightarrow> 'w \<times> (string + desktop_reply)"
  dk_display :: "'w \<Rightarrow> 'w \<times> (string + (nat \<times> nat) option)"

record 'w cua_state =
  cu_lock :: "cua_lock option"
  cu_display :: "string \<Rightarrow> nat \<times> nat"
  cu_calls :: "(int \<times> string \<times> desktop_call) list"
  cu_world :: 'w

type_synonym ('w, 'a) cua = "('w cua_state, string, 'a) prog"

section \<open>The lock file\<close>

text \<open>A file that cannot be read counts as no lock.\<close>

definition readLock :: "'w desktop \<Rightarrow> ('w, cua_lock option) cua" where
  "readLock dk = pget (\<lambda>s. if dk_readable dk (cu_world s) then cu_lock s else None)"

definition writeLock :: "'w desktop \<Rightarrow> cua_lock \<Rightarrow> ('w, unit) cua" where
  "writeLock dk lock = (\<lambda>s. case dk_write dk (cu_world s) of
     (w, Inl e) \<Rightarrow> Some (s\<lparr>cu_world := w\<rparr>, Inl e)
   | (w, Inr u) \<Rightarrow> Some (s\<lparr>cu_world := w, cu_lock := Some lock\<rparr>, Inr ()))"

definition deleteLock :: "'w desktop \<Rightarrow> ('w, unit) cua" where
  "deleteLock dk = (\<lambda>s. case dk_remove dk (cu_world s) of
     (w, Inl e) \<Rightarrow> Some (s\<lparr>cu_world := w\<rparr>, Inl e)
   | (w, Inr removed) \<Rightarrow> Some ((if removed then s\<lparr>cu_world := w, cu_lock := None\<rparr> else s\<lparr>cu_world := w\<rparr>), Inr ()))"

definition is_stale :: "int \<Rightarrow> cua_lock \<Rightarrow> bool" where
  "is_stale now lock \<longleftrightarrow> now - cl_lastActivity lock > CUA_STALE_MINUTES * 60 * 1000"

definition in_use :: "cua_lock \<Rightarrow> (int \<Rightarrow> string) \<Rightarrow> string" where
  "in_use lock stamp = ''CUA session is in use by another channel (task: '' @ [CHR 0x22] @ cl_task lock @ [CHR 0x22] @
     '', started: '' @ stamp (cl_startedAt lock) @ ''). Wait for it to finish''"

text \<open>\<open>None\<close> when the channel may act: its lock is then renewed.\<close>

definition requireLock :: "'w desktop \<Rightarrow> (int \<Rightarrow> string) \<Rightarrow> int \<Rightarrow> string \<Rightarrow> ('w, string option) cua" where
  "requireLock dk stamp now channelId = pbind (readLock dk) (\<lambda>found. case found of
     None \<Rightarrow> pret (Some ''No active CUA session. Call cua_start first.'')
   | Some lock \<Rightarrow>
       if cl_channel lock \<noteq> channelId then
         (if is_stale now lock then
            pbind (deleteLock dk) (\<lambda>_. pret (Some (''Previous CUA session was stale and has been released. '' @
              ''Call cua_start to begin a new session.'')))
          else pret (Some (in_use lock stamp @ '' or ask the user in that channel to end it.'')))
       else pbind (writeLock dk (lock\<lparr>cl_lastActivity := now\<rparr>)) (\<lambda>_. pret None))"

section \<open>The tools\<close>

datatype cua_answer =
    Says string
  | Started string "(nat \<times> nat) option"
  | Image string nat nat
  | Acted desktop_reply

definition desktop_do :: "'w desktop \<Rightarrow> int \<Rightarrow> string \<Rightarrow> desktop_call \<Rightarrow> ('w, desktop_reply) cua" where
  "desktop_do dk now channelId call = (\<lambda>s. case dk_do dk call (cu_world s) of
     (w, r) \<Rightarrow> Some (s\<lparr>cu_world := w, cu_calls := cu_calls s @ [(now, channelId, call)]\<rparr>, r))"

definition read_display :: "'w desktop \<Rightarrow> ('w, (nat \<times> nat) option) cua" where
  "read_display dk = (\<lambda>s. case dk_display dk (cu_world s) of (w, r) \<Rightarrow> Some (s\<lparr>cu_world := w\<rparr>, r))"

definition note_display :: "string \<Rightarrow> (nat \<times> nat) option \<Rightarrow> ('w, unit) cua" where
  "note_display channelId d = pmodify (\<lambda>s. case d of
     Some (w, h) \<Rightarrow> if w \<noteq> 0 \<and> h \<noteq> 0 then s\<lparr>cu_display := (cu_display s)(channelId := (w, h))\<rparr> else s
   | None \<Rightarrow> s)"

definition begin_session :: "'w desktop \<Rightarrow> int \<Rightarrow> string \<Rightarrow> string \<Rightarrow> ('w, cua_answer) cua" where
  "begin_session dk now channelId task =
     pbind (writeLock dk \<lparr>cl_channel = channelId, cl_task = task, cl_startedAt = now, cl_lastActivity = now\<rparr>) (\<lambda>_.
     pbind (desktop_do dk now channelId DStart) (\<lambda>started.
     pbind (read_display dk) (\<lambda>d.
     pbind (note_display channelId d) (\<lambda>_.
     pret (Started (case started of ReplyMessage (Some m) \<Rightarrow> m | _ \<Rightarrow> ''CUA session started'') d)))))"

definition cua_start ::
    "'w desktop \<Rightarrow> (int \<Rightarrow> string) \<Rightarrow> int \<Rightarrow> string \<Rightarrow> string \<Rightarrow> ('w, cua_answer) cua" where
  "cua_start dk stamp now channelId task = pbind (readLock dk) (\<lambda>found. case found of
     None \<Rightarrow> begin_session dk now channelId task
   | Some lock \<Rightarrow>
       if cl_channel lock = channelId then
         pbind (writeLock dk (lock\<lparr>cl_lastActivity := now, cl_task := task\<rparr>)) (\<lambda>_.
         pret (Says ''CUA session already active in this channel. Resumed with updated task.''))
       else if \<not> is_stale now lock then pret (Says (in_use lock stamp @ ''.''))
       else pbind (deleteLock dk) (\<lambda>_. begin_session dk now channelId task))"

definition cua_end :: "'w desktop \<Rightarrow> int \<Rightarrow> string \<Rightarrow> ('w, cua_answer) cua" where
  "cua_end dk now channelId = pbind (readLock dk) (\<lambda>found. case found of
     None \<Rightarrow> pret (Says ''No active CUA session to end.'')
   | Some lock \<Rightarrow>
       if cl_channel lock \<noteq> channelId
       then pret (Says (''Cannot end session owned by another channel (task: '' @ [CHR 0x22] @ cl_task lock @ [CHR 0x22] @ '').''))
       else pbind (desktop_do dk now channelId DStop) (\<lambda>_.
         pbind (deleteLock dk) (\<lambda>_. pret (Says ''CUA session ended.''))))"

text \<open>What every other tool does: the lock first, then one call of the desktop.\<close>

definition with_lock ::
    "'w desktop \<Rightarrow> (int \<Rightarrow> string) \<Rightarrow> int \<Rightarrow> string \<Rightarrow> ('w, cua_answer) cua \<Rightarrow> ('w, cua_answer) cua" where
  "with_lock dk stamp now channelId action =
     pbind (requireLock dk stamp now channelId) (\<lambda>err. case err of Some e \<Rightarrow> pret (Says e) | None \<Rightarrow> action)"

definition take_screenshot :: "'w desktop \<Rightarrow> int \<Rightarrow> string \<Rightarrow> bool option \<Rightarrow> ('w, cua_answer) cua" where
  "take_screenshot dk now channelId showCursor =
     pbind (desktop_do dk now channelId (DScreenshot (default_to showCursor False))) (\<lambda>reply.
     case reply of
       ReplyImage i \<Rightarrow> (case truthy_str i of
           Some img \<Rightarrow> pbind (pget (\<lambda>s. cu_display s channelId)) (\<lambda>(w, h). pret (Image img w h))
         | None \<Rightarrow> pret (Says ''Failed to capture screenshot.''))
     | _ \<Rightarrow> pret (Says ''Failed to capture screenshot.''))"

datatype cua_request =
    CuaScreenshot "bool option"
  | CuaClick int int "mouse_button option" "bool option"
  | CuaType string "int option"
  | CuaKeyPress string "string list option"
  | CuaScroll int int scroll_direction "int option"
  | CuaCursor "int option" "int option"

fun call_of :: "cua_request \<Rightarrow> desktop_call" where
  "call_of (CuaScreenshot c) = DScreenshot (default_to c False)"
| "call_of (CuaClick x y b d) = DClick x y b d"
| "call_of (CuaType t d) = DType t d"
| "call_of (CuaKeyPress k m) = DKey k m"
| "call_of (CuaScroll x y d a) = DScroll x y d a"
| "call_of (CuaCursor (Some x) (Some y)) = DMove x y"
| "call_of (CuaCursor x y) = DPosition"

definition cua_tool ::
    "'w desktop \<Rightarrow> (int \<Rightarrow> string) \<Rightarrow> int \<Rightarrow> string \<Rightarrow> cua_request \<Rightarrow> ('w, cua_answer) cua" where
  "cua_tool dk stamp now channelId req = with_lock dk stamp now channelId
     (case req of
        CuaScreenshot c \<Rightarrow> take_screenshot dk now channelId c
      | _ \<Rightarrow> pbind (desktop_do dk now channelId (call_of req)) (\<lambda>reply. pret (Acted reply)))"

text \<open>A turn makes new tools, which know the display of a computer only by its default.\<close>

definition new_cua_tools :: "string \<Rightarrow> 'w cua_state \<Rightarrow> 'w cua_state" where
  "new_cua_tools channelId s = s\<lparr>cu_display := (cu_display s)(channelId := (1024, 768))\<rparr>"

text \<open>Every tool runs on the computer of the user, when there is one.\<close>

definition on_computer ::
    "('w cua_state, sandbox_error, sandbox_obj) prog \<Rightarrow> ('w, cua_answer) cua \<Rightarrow>
     ('w cua_state, 'e, cua_answer + string) prog" where
  "on_computer ensure action = runWithEnsuredSandbox ensure (\<lambda>sb. action)"

end
