(* ===== verification/CuaProps.thy ===== *)
theory CuaProps
  imports Cua Triples
begin

text \<open>
  The desktop belongs to one channel at a time: what the lock file guarantees when it can be read, and
  what is lost when it cannot, when a start fails, or when two starts interleave.
\<close>

section \<open>Handing over\<close>

text \<open>
  Between two calls in a row of different channels, the first has stopped or was idle for longer than the
  limit.
\<close>

definition handed_over :: "int \<times> string \<times> desktop_call \<Rightarrow> int \<times> string \<times> desktop_call \<Rightarrow> bool" where
  "handed_over x y \<longleftrightarrow> (case (x, y) of ((t, c, k), (t', c', k')) \<Rightarrow>
     c = c' \<or> k = DStop \<or> t' - t > CUA_STALE_MINUTES * 60 * 1000)"

definition exclusive :: "(int \<times> string \<times> desktop_call) list \<Rightarrow> bool" where
  "exclusive calls \<longleftrightarrow> successively handed_over calls"

text \<open>
  The invariant at a time: the last caller has stopped, was idle for long, or owns the lock, which was
  active since.
\<close>

definition last_is :: "'w cua_state \<Rightarrow> (int \<Rightarrow> string \<Rightarrow> desktop_call \<Rightarrow> bool) \<Rightarrow> bool" where
  "last_is s P \<longleftrightarrow> (cu_calls s = [] \<or> (case last (cu_calls s) of (t, c, k) \<Rightarrow> P t c k))"

definition idle :: "int \<Rightarrow> int \<Rightarrow> desktop_call \<Rightarrow> bool" where
  "idle now t k \<longleftrightarrow> k = DStop \<or> now - t > CUA_STALE_MINUTES * 60 * 1000"

definition owner :: "string \<Rightarrow> 'w cua_state \<Rightarrow> bool" where
  "owner c s \<longleftrightarrow> (\<exists>l. cu_lock s = Some l \<and> cl_channel l = c)"

definition cua_inv :: "int \<Rightarrow> 'w cua_state \<Rightarrow> bool" where
  "cua_inv now s \<longleftrightarrow> exclusive (cu_calls s) \<and>
     last_is s (\<lambda>t c k. t \<le> now \<and>
       (idle now t k \<or> (\<exists>l. cu_lock s = Some l \<and> cl_channel l = c \<and> t \<le> cl_lastActivity l)))"

definition free :: "int \<Rightarrow> 'w cua_state \<Rightarrow> bool" where
  "free now s \<longleftrightarrow> last_is s (\<lambda>t c k. idle now t k)"

definition owned_now :: "int \<Rightarrow> string \<Rightarrow> 'w cua_state \<Rightarrow> bool" where
  "owned_now now c s \<longleftrightarrow> (\<exists>l. cu_lock s = Some l \<and> cl_channel l = c \<and> cl_lastActivity l = now)"

lemma cua_inv_later: "cua_inv now s \<Longrightarrow> now \<le> later \<Longrightarrow> cua_inv later s"
  by (force simp: cua_inv_def last_is_def idle_def split: prod.splits)

lemma exclusive_snoc:
  "exclusive (cs @ [x]) \<longleftrightarrow> exclusive cs \<and> (cs = [] \<or> handed_over (last cs) x)"
  by (auto simp: exclusive_def successively_append_iff)

lemma exclusive_short [simp]: "exclusive []" "exclusive [x]"
  by (simp_all add: exclusive_def)

lemma cua_inv_same:
  "cua_inv now s \<Longrightarrow> cu_calls s' = cu_calls s \<Longrightarrow> cu_lock s' = cu_lock s \<Longrightarrow> cua_inv now s'"
  by (simp add: cua_inv_def last_is_def)

lemma owned_owner: "owned_now now c s \<Longrightarrow> owner c s"
  by (auto simp: owned_now_def owner_def)

text \<open>A stale lock leaves nobody active; so does a lock that is not there.\<close>

lemma stale_free: "cua_inv now s \<Longrightarrow> cu_lock s = Some l \<Longrightarrow> is_stale now l \<Longrightarrow> free now s"
  by (auto simp: cua_inv_def free_def last_is_def idle_def is_stale_def split: prod.splits)

lemma unlocked_free: "cua_inv now s \<Longrightarrow> cu_lock s = None \<Longrightarrow> free now s"
  by (auto simp: cua_inv_def free_def last_is_def split: prod.splits)

section \<open>The operations\<close>

lemma read_ok:
  assumes "\<And>w. dk_readable dk w"
  shows "triple (cua_inv now) (readLock dk) (\<lambda>r s. cua_inv now s \<and> r = cu_lock s) (cua_inv now)"
  unfolding readLock_def by (rule triple_get) (simp add: assms)

lemma write_ok:
  assumes "cl_channel l = c" "cl_lastActivity l = now"
  shows "triple (\<lambda>s. cua_inv now s \<and> (free now s \<or> owner c s)) (writeLock dk l)
           (\<lambda>_ s. cua_inv now s \<and> owned_now now c s) (cua_inv now)"
  using assms
  by (intro tripleI)
    (auto simp: writeLock_def cua_inv_def free_def owner_def owned_now_def last_is_def split: prod.splits sum.splits)

lemma delete_ok:
  "triple (\<lambda>s. cua_inv now s \<and> free now s) (deleteLock dk) (\<lambda>_ s. cua_inv now s \<and> free now s) (cua_inv now)"
  by (intro tripleI)
    (auto simp: deleteLock_def cua_inv_def free_def last_is_def split: prod.splits sum.splits if_splits)

lemma do_ok:
  "triple (\<lambda>s. cua_inv now s \<and> owned_now now c s) (desktop_do dk now c call)
     (\<lambda>_ s. cua_inv now s \<and> owned_now now c s) (cua_inv now)"
  by (intro tripleI)
    (auto simp: desktop_do_def cua_inv_def owned_now_def last_is_def exclusive_snoc handed_over_def idle_def
       split: prod.splits)

lemma stop_ok:
  "triple (\<lambda>s. cua_inv now s \<and> owner c s) (desktop_do dk now c DStop) (\<lambda>_ s. cua_inv now s \<and> free now s) (cua_inv now)"
  by (intro tripleI)
    (auto simp: desktop_do_def cua_inv_def owner_def free_def last_is_def exclusive_snoc handed_over_def idle_def
       split: prod.splits)

lemma display_ok: "triple (cua_inv now) (read_display dk) (\<lambda>_. cua_inv now) (cua_inv now)"
  "triple (cua_inv now) (note_display c d) (\<lambda>_. cua_inv now) (cua_inv now)"
  by (rule tripleI; erule cua_inv_same; auto simp: read_display_def note_display_def pmodify_def
        split: prod.splits option.splits)+

lemma begin_ok:
  "triple (\<lambda>s. cua_inv now s \<and> free now s) (begin_session dk now c task) (\<lambda>_. cua_inv now) (cua_inv now)"
  unfolding begin_session_def
proof (intro triple_bind)
  show "triple (\<lambda>s. cua_inv now s \<and> free now s)
      (writeLock dk \<lparr>cl_channel = c, cl_task = task, cl_startedAt = now, cl_lastActivity = now\<rparr>)
      (\<lambda>_ s. cua_inv now s \<and> owned_now now c s) (cua_inv now)"
    by (rule triple_weaken [OF write_ok]) auto
  show "triple (\<lambda>s. cua_inv now s \<and> owned_now now c s) (desktop_do dk now c DStart)
      (\<lambda>_. cua_inv now) (cua_inv now)"
    by (rule triple_weaken [OF do_ok]) auto
qed (auto intro: display_ok triple_return)

lemma start_ok:
  assumes "\<And>w. dk_readable dk w"
  shows "keeps (cua_inv now) (cua_start dk stamp now c task)"
  unfolding cua_start_def
proof (intro keeps_triple triple_bind [OF read_ok [OF assms]] triple_option triple_if)
  show "triple (\<lambda>s. cua_inv now s \<and> r = cu_lock s) (begin_session dk now c task) (\<lambda>_. cua_inv now) (cua_inv now)"
    if "r = None" for r
    by (rule triple_weaken [OF begin_ok]) (auto simp: that unlocked_free)
  show "triple (\<lambda>s. cua_inv now s \<and> r = cu_lock s)
      (pbind (writeLock dk (l\<lparr>cl_lastActivity := now, cl_task := task\<rparr>)) (\<lambda>_. pret x)) (\<lambda>_. cua_inv now) (cua_inv now)"
    if "r = Some l" "cl_channel l = c" for r l and x :: cua_answer
  proof (rule triple_bind)
    show "triple (\<lambda>s. cua_inv now s \<and> r = cu_lock s) (writeLock dk (l\<lparr>cl_lastActivity := now, cl_task := task\<rparr>))
        (\<lambda>_. cua_inv now) (cua_inv now)"
      using that by (intro triple_weaken [OF write_ok [where c = c]]) (auto simp: owner_def)
  qed (auto intro: triple_return)
  show "triple (\<lambda>s. cua_inv now s \<and> r = cu_lock s) (pbind (deleteLock dk) (\<lambda>_. begin_session dk now c task))
      (\<lambda>_. cua_inv now) (cua_inv now)"
    if "r = Some l" "\<not> \<not> is_stale now l" for r l
  proof (rule triple_bind)
    show "triple (\<lambda>s. cua_inv now s \<and> r = cu_lock s) (deleteLock dk) (\<lambda>_ s. cua_inv now s \<and> free now s) (cua_inv now)"
      using that stale_free [of now _ l] by (intro triple_weaken [OF delete_ok]) auto
  qed (rule begin_ok)
qed (auto intro: triple_return)

lemma end_ok:
  assumes "\<And>w. dk_readable dk w"
  shows "keeps (cua_inv now) (cua_end dk now c)"
  unfolding cua_end_def
proof (intro keeps_triple triple_bind [OF read_ok [OF assms]] triple_option triple_if)
  show "triple (\<lambda>s. cua_inv now s \<and> r = cu_lock s)
      (pbind (desktop_do dk now c DStop) (\<lambda>_. pbind (deleteLock dk) (\<lambda>_. pret x))) (\<lambda>_. cua_inv now) (cua_inv now)"
    if "r = Some l" "\<not> cl_channel l \<noteq> c" for r l and x :: cua_answer
  proof (rule triple_bind)
    show "triple (\<lambda>s. cua_inv now s \<and> r = cu_lock s) (desktop_do dk now c DStop)
        (\<lambda>_ s. cua_inv now s \<and> free now s) (cua_inv now)"
      using that by (intro triple_weaken [OF stop_ok]) (auto simp: owner_def)
  qed (auto intro!: triple_bind [OF delete_ok] triple_return)
qed (auto intro: triple_return)

lemma require_ok:
  assumes "\<And>w. dk_readable dk w"
  shows "triple (cua_inv now) (requireLock dk stamp now c)
           (\<lambda>err s. cua_inv now s \<and> (err = None \<longrightarrow> owned_now now c s)) (cua_inv now)"
  unfolding requireLock_def
proof (intro triple_bind [OF read_ok [OF assms]] triple_option triple_if)
  show "triple (\<lambda>s. cua_inv now s \<and> r = cu_lock s) (pbind (deleteLock dk) (\<lambda>_. pret (Some m)))
      (\<lambda>err s. cua_inv now s \<and> (err = None \<longrightarrow> owned_now now c s)) (cua_inv now)"
    if "r = Some l" "is_stale now l" for r l m
  proof (rule triple_bind)
    show "triple (\<lambda>s. cua_inv now s \<and> r = cu_lock s) (deleteLock dk) (\<lambda>_ s. cua_inv now s \<and> free now s) (cua_inv now)"
      using that stale_free [of now _ l] by (intro triple_weaken [OF delete_ok]) auto
  qed (auto intro: triple_return)
  show "triple (\<lambda>s. cua_inv now s \<and> r = cu_lock s)
      (pbind (writeLock dk (l\<lparr>cl_lastActivity := now\<rparr>)) (\<lambda>_. pret None))
      (\<lambda>err s. cua_inv now s \<and> (err = None \<longrightarrow> owned_now now c s)) (cua_inv now)"
    if "r = Some l" "\<not> cl_channel l \<noteq> c" for r l
  proof (rule triple_bind)
    show "triple (\<lambda>s. cua_inv now s \<and> r = cu_lock s) (writeLock dk (l\<lparr>cl_lastActivity := now\<rparr>))
        (\<lambda>_ s. cua_inv now s \<and> owned_now now c s) (cua_inv now)"
      using that by (intro triple_weaken [OF write_ok [where c = c]]) (auto simp: owner_def)
  qed (auto intro: triple_return)
qed (auto intro: triple_return)

lemma action_ok:
  "triple (\<lambda>s. cua_inv now s \<and> owned_now now c s)
     (case req of CuaScreenshot x \<Rightarrow> take_screenshot dk now c x
      | _ \<Rightarrow> pbind (desktop_do dk now c (call_of req)) (\<lambda>reply. pret (Acted reply))) (\<lambda>_. cua_inv now) (cua_inv now)"
  by (cases req) (auto simp: take_screenshot_def split: desktop_reply.split option.split
        intro!: triple_bind [OF do_ok] triple_return triple_bind [OF triple_get])

lemma tool_ok:
  assumes "\<And>w. dk_readable dk w"
  shows "keeps (cua_inv now) (cua_tool dk stamp now c req)"
  unfolding cua_tool_def with_lock_def
  by (intro keeps_triple triple_bind [OF require_ok [OF assms]] triple_option triple_return
        triple_weaken [OF action_ok]) auto

section \<open>Any sequence of tool calls\<close>

datatype cua_op =
    OpStart int string string
  | OpEnd int string
  | OpTool int string cua_request
  | OpTurn int string

fun op_time :: "cua_op \<Rightarrow> int" where
  "op_time (OpStart t c task) = t"
| "op_time (OpEnd t c) = t"
| "op_time (OpTool t c req) = t"
| "op_time (OpTurn t c) = t"

fun cua_exec :: "'w desktop \<Rightarrow> (int \<Rightarrow> string) \<Rightarrow> cua_op \<Rightarrow> 'w cua_state \<Rightarrow> 'w cua_state" where
  "cua_exec dk stamp (OpStart t c task) s = default_to (state_after (cua_start dk stamp t c task) s) s"
| "cua_exec dk stamp (OpEnd t c) s = default_to (state_after (cua_end dk t c) s) s"
| "cua_exec dk stamp (OpTool t c req) s = default_to (state_after (cua_tool dk stamp t c req) s) s"
| "cua_exec dk stamp (OpTurn t c) s = new_cua_tools c s"

lemma state_after_keeps: "keeps I m \<Longrightarrow> I s \<Longrightarrow> I (default_to (state_after m s) s)"
  by (cases "state_after m s") (auto dest: state_after_inv)

lemma exec_ok:
  assumes "\<And>w. dk_readable dk w" "cua_inv (op_time op) s"
  shows "cua_inv (op_time op) (cua_exec dk stamp op s)"
proof (cases op)
  case (OpTurn t c)
  with assms(2) show ?thesis by (auto simp: new_cua_tools_def intro: cua_inv_same)
qed (use assms(2) state_after_keeps [OF start_ok [OF assms(1)]] state_after_keeps [OF end_ok [OF assms(1)]]
      state_after_keeps [OF tool_ok [OF assms(1)]] in simp_all)

lemma run_ok:
  assumes "\<And>w. dk_readable dk w" "sorted (now # map op_time ops)" "cua_inv now s"
  shows "\<exists>later. cua_inv later (run_ops (cua_exec dk stamp) ops s)"
  using assms(2,3)
proof (induction ops arbitrary: now s)
  case (Cons op ops)
  have "cua_inv (op_time op) (cua_exec dk stamp op s)"
    using Cons.prems by (intro exec_ok [OF assms(1)], elim cua_inv_later) simp
  moreover have "sorted (op_time op # map op_time ops)" using Cons.prems(1) by simp
  ultimately have "\<exists>later. cua_inv later (run_ops (cua_exec dk stamp) ops (cua_exec dk stamp op s))"
    by (rule Cons.IH [rotated])
  then show ?case by simp
next
  case Nil
  from Nil(2) show ?case unfolding run_ops_simps by (rule exI [of _ now])
qed


text \<open>A computer that always answers, and one whose file cannot be read once.\<close>

definition good_desktop :: "nat desktop" where
  "good_desktop = \<lparr>dk_readable = (\<lambda>w. True), dk_write = (\<lambda>w. (w, Inr ())), dk_remove = (\<lambda>w. (w, Inr True)),
     dk_do = (\<lambda>k w. (w, Inr ReplyDone)), dk_display = (\<lambda>w. (w, Inr (Some (1280, 800))))\<rparr>"

definition idle_desktop :: "nat cua_state" where
  "idle_desktop = \<lparr>cu_lock = None, cu_display = (\<lambda>c. (1024, 768)), cu_calls = [], cu_world = 0\<rparr>"

lemmas desktop_eval = good_desktop_def idle_desktop_def cua_start_def cua_end_def cua_tool_def with_lock_def
  requireLock_def begin_session_def readLock_def writeLock_def deleteLock_def desktop_do_def read_display_def
  note_display_def is_stale_def CUA_STALE_MINUTES_def state_after_def pbind_def ptry_def pret_def pget_def
  pmodify_def pthrow_def Let_def new_cua_tools_def take_screenshot_def

definition two_channels :: "cua_op list" where
  "two_channels = [OpStart 0 ''a'' ''order'', OpTool 5 ''a'' (CuaClick 1 2 None None), OpStart 6 ''b'' ''pay'',
     OpTool 7 ''b'' (CuaType ''x'' None), OpEnd 8 ''a'', OpStart 9 ''b'' ''pay'', OpTool 10 ''b'' (CuaType ''x'' None),
     OpStart 900011 ''a'' ''again'']"


section \<open>What the lock file does not cover\<close>

text \<open>A read that fails counts as no lock: another channel takes the desktop from a session in use.\<close>

lemma unreadable_lock_taken:
  "let dk = good_desktop\<lparr>dk_readable := (\<lambda>w. w \<noteq> 0)\<rparr> in
   cu_calls (run_ops (cua_exec dk (\<lambda>t. [])) [OpStart 0 ''a'' ''order'', OpStart 1 ''b'' ''pay''] idle_desktop) =
     [(0, ''a'', DStart), (1, ''b'', DStart)]"
  by (simp add: desktop_eval)

text \<open>Two starts that have both read that there is no lock both begin.\<close>

lemma start_race:
  "let dk = good_desktop in
   \<exists>s1 s2 x y. begin_session dk 0 ''a'' ''order'' idle_desktop = Some (s1, Inr x) \<and>
     begin_session dk 1 ''b'' ''pay'' s1 = Some (s2, Inr y) \<and> \<not> exclusive (cu_calls s2)"
  by (simp add: desktop_eval exclusive_def handed_over_def)

text \<open>
  A start that fails after the lock is written leaves the lock: the next start in that channel says that
  the session is active, and the desktop was never started.
\<close>

lemma failed_start_resumes:
  "let dk = good_desktop\<lparr>dk_do := (\<lambda>k w. (w, Inl ''no display''))\<rparr> in
   \<exists>s1 s2. cua_start dk (\<lambda>t. []) 0 ''a'' ''order'' idle_desktop = Some (s1, Inl ''no display'') \<and>
     cua_start dk (\<lambda>t. []) 1 ''a'' ''order'' s1 =
       Some (s2, Inr (Says ''CUA session already active in this channel. Resumed with updated task.''))"
  by (simp add: desktop_eval)

text \<open>The size of the display is forgotten between turns: a resumed session names the default.\<close>

lemma display_forgotten:
  "let dk = good_desktop\<lparr>dk_do := (\<lambda>k w. (w, Inr (ReplyImage (Some ''png''))))\<rparr>;
       s = run_ops (cua_exec dk (\<lambda>t. [])) [OpStart 0 ''a'' ''order'', OpTurn 1 ''a'', OpStart 2 ''a'' ''order''] idle_desktop
   in \<exists>s'. cua_tool dk (\<lambda>t. []) 3 ''a'' (CuaScreenshot None) s = Some (s', Inr (Image ''png'' 1024 768))"
  by (simp add: desktop_eval)

end
