(* ===== verification/Patterns.thy ===== *)
theory Patterns
  imports Prelude
begin

text \<open>
  Regular expressions, as far as the checks of the code use them, and what a pattern of words means.
\<close>

section \<open>Patterns\<close>

text \<open>
  A pattern is matched at a place of the text: the character before it and the rest.  \<open>matches\<close> lists the
  places where a match may end, in the order of the search.
\<close>

datatype pattern =
    PLit string
  | POne "char \<Rightarrow> bool"
  | PMany "char \<Rightarrow> bool"
  | PBoundary
  | PBegin
  | POpt pattern
  | PAlt "pattern list"
  | PSeq "pattern list"

type_synonym place = "char option \<times> string"

definition is_word :: "char \<Rightarrow> bool" where
  "is_word c \<longleftrightarrow> (let n = (of_char c :: nat) in
     (48 \<le> n \<and> n \<le> 57) \<or> (65 \<le> n \<and> n \<le> 90) \<or> (97 \<le> n \<and> n \<le> 122) \<or> n = 95)"

definition word_before :: "place \<Rightarrow> bool" where
  "word_before p \<longleftrightarrow> (case fst p of None \<Rightarrow> False | Some c \<Rightarrow> is_word c)"

definition word_after :: "place \<Rightarrow> bool" where
  "word_after p \<longleftrightarrow> (case snd p of [] \<Rightarrow> False | c # cs \<Rightarrow> is_word c)"

fun eat :: "string \<Rightarrow> place \<Rightarrow> place list" where
  "eat [] p = [p]"
| "eat (x # xs) (b, []) = []"
| "eat (x # xs) (b, c # cs) = (if x = c then eat xs (Some c, cs) else [])"

fun eat_many :: "(char \<Rightarrow> bool) \<Rightarrow> char option \<Rightarrow> string \<Rightarrow> place list" where
  "eat_many P b [] = [(b, [])]"
| "eat_many P b (c # cs) = (if P c then eat_many P (Some c) cs else []) @ [(b, c # cs)]"

fun matches :: "pattern \<Rightarrow> place \<Rightarrow> place list" and matches_seq :: "pattern list \<Rightarrow> place \<Rightarrow> place list"
    and matches_alt :: "pattern list \<Rightarrow> place \<Rightarrow> place list" where
  "matches (PLit s) p = eat s p"
| "matches (POne P) p = (case snd p of [] \<Rightarrow> [] | c # cs \<Rightarrow> if P c then [(Some c, cs)] else [])"
| "matches (PMany P) p = eat_many P (fst p) (snd p)"
| "matches PBoundary p = (if word_before p \<noteq> word_after p then [p] else [])"
| "matches PBegin p = (if fst p = None then [p] else [])"
| "matches (POpt r) p = matches r p @ [p]"
| "matches (PAlt rs) p = matches_alt rs p"
| "matches (PSeq rs) p = matches_seq rs p"
| "matches_seq [] p = [p]"
| "matches_seq (r # rs) p = concat (map (matches_seq rs) (matches r p))"
| "matches_alt [] p = []"
| "matches_alt (r # rs) p = matches r p @ matches_alt rs p"

text \<open>\<open>pattern.test(text)\<close>: a match anywhere.\<close>

fun test_at :: "pattern \<Rightarrow> char option \<Rightarrow> string \<Rightarrow> bool" where
  "test_at r b s \<longleftrightarrow> matches r (b, s) \<noteq> [] \<or> (case s of [] \<Rightarrow> False | c # cs \<Rightarrow> test_at r (Some c) cs)"

declare test_at.simps [simp del]

definition test :: "pattern \<Rightarrow> string \<Rightarrow> bool" where
  "test r s = test_at r None s"

definition spaces :: pattern where "spaces = PSeq [POne is_ws, PMany is_ws]"

definition words :: "string list \<Rightarrow> pattern" where "words ws = PAlt (map PLit ws)"

section \<open>What the patterns mean\<close>

lemma eat_iff: "q \<in> set (eat w (b, s)) \<longleftrightarrow>
    (\<exists>r. s = w @ r \<and> q = (if w = [] then b else Some (last w), r))"
  by (induction w "(b, s)" arbitrary: b s rule: eat.induct) (auto split: if_splits)

lemma matches_alt_iff: "matches_alt rs p = concat (map (\<lambda>r. matches r p) rs)"
  by (induction rs) auto

text \<open>The character before a place.\<close>

definition before :: "char option \<Rightarrow> string \<Rightarrow> char option" where
  "before b a = (if a = [] then b else Some (last a))"

lemma ex_append_Cons:
  "(\<exists>a t. c # s = a @ t \<and> P a t) \<longleftrightarrow> P [] (c # s) \<or> (\<exists>a t. s = a @ t \<and> P (c # a) t)"
  by (auto simp: Cons_eq_append_conv)

lemma test_at_iff: "test_at r b s \<longleftrightarrow> (\<exists>a t. s = a @ t \<and> matches r (before b a, t) \<noteq> [])"
proof (induction s arbitrary: b)
  case Nil
  show ?case by (subst test_at.simps) (simp add: before_def)
next
  case (Cons c s)
  have "test_at r b (c # s) \<longleftrightarrow> matches r (b, c # s) \<noteq> [] \<or> test_at r (Some c) s"
    by (subst test_at.simps) simp
  also have "\<dots> \<longleftrightarrow> (\<exists>a t. c # s = a @ t \<and> matches r (before b a, t) \<noteq> [])"
    unfolding Cons.IH ex_append_Cons by (simp add: before_def if_distrib [of Some] cong: if_cong)
  finally show ?case .
qed

text \<open>A boundary between a text and the one that follows it.\<close>

definition boundary :: "string \<Rightarrow> string \<Rightarrow> bool" where
  "boundary a t \<longleftrightarrow> word_before (before None a, t) \<noteq> word_after (before None a, t)"

lemma words_test:
  assumes "[] \<notin> set ws"
  shows "test (PSeq [PBoundary, words ws, PBoundary]) s \<longleftrightarrow>
    (\<exists>a w t. s = a @ w @ t \<and> w \<in> set ws \<and> boundary a (w @ t) \<and> boundary (a @ w) t)"
proof -
  have m: "matches (PSeq [PBoundary, words ws, PBoundary]) p \<noteq> [] \<longleftrightarrow>
      word_before p \<noteq> word_after p \<and> (\<exists>w \<in> set ws. \<exists>q \<in> set (eat w p). word_before q \<noteq> word_after q)" for p
    by (auto simp: words_def matches_alt_iff)
  have e: "(\<exists>q \<in> set (eat w (before None a, u)). word_before q \<noteq> word_after q) \<longleftrightarrow>
      (\<exists>t. u = w @ t \<and> boundary (a @ w) t)" if "w \<in> set ws" for w a u
    using that assms by (auto simp: eat_iff boundary_def before_def)
  have k: "matches (PSeq [PBoundary, words ws, PBoundary]) (before None a, u) \<noteq> [] \<longleftrightarrow>
      boundary a u \<and> (\<exists>w \<in> set ws. \<exists>t. u = w @ t \<and> boundary (a @ w) t)" for a u
    unfolding m boundary_def [of a u, symmetric]
    by (rule arg_cong [where f = "(\<and>) (boundary a u)"], rule bex_cong [OF refl], rule e)
  show ?thesis unfolding test_def test_at_iff k by auto
qed

end
