(* ===== verification/SandboxTools.thy ===== *)
theory SandboxTools
  imports Compute Patterns
begin

text \<open>
  The tools for the user's computer: \<open>packages/computer/src/sandbox/tools.ts\<close>, with the
  patterns of the check for read-only commands.
\<close>

section \<open>Read-only commands\<close>

definition WRITE_COMMANDS :: "string list" where
  "WRITE_COMMANDS = [''rm'', ''mv'', ''cp'', ''mkdir'', ''touch'', ''chmod'', ''chown'', ''truncate'', ''dd'', ''kill'',
     ''pkill'', ''nohup'', ''ln'']"

definition READ_ONLY_BLOCKLIST :: "pattern list" where
  "READ_ONLY_BLOCKLIST =
     [PSeq [PBoundary, words WRITE_COMMANDS, PBoundary],
      PSeq [PBoundary, PLit ''sed'', spaces, PLit ''-i'', PBoundary],
      PSeq [PBoundary, PLit ''git'', spaces, words [''add'', ''commit'', ''reset'', ''checkout'', ''restore'', ''clean'',
        ''merge'', ''rebase'', ''pull'', ''push''], PBoundary],
      PSeq [PBoundary, words [''npm'', ''pnpm'', ''yarn'', ''bun''], spaces,
        words [''install'', ''add'', ''remove'', ''update'', ''upgrade''], PBoundary],
      PSeq [PAlt [PBegin, POne (\<lambda>c. \<not> is_word c)], PLit ''>''],
      PSeq [PLit ''|'', PMany is_ws, PLit ''tee'', PBoundary],
      PSeq [PLit ''|'', PMany is_ws, words [''sh'', ''bash'', ''zsh'', ''dash''], PBoundary],
      PSeq [PBoundary, words [''bash'', ''sh'', ''zsh''], spaces, PLit ''-c'', PBoundary],
      PSeq [PBoundary, PLit ''eval'', PBoundary],
      PSeq [PBoundary, PLit ''python'', POpt (POne (\<lambda>c. c = CHR ''2'' \<or> c = CHR ''3'')), spaces, PLit ''-c'', PBoundary],
      PSeq [PBoundary, words [''node'', ''ruby'', ''perl'', ''deno''], spaces, PLit ''-e'', PBoundary],
      PSeq [PBoundary, PLit ''deno'', spaces, PLit ''eval'', PBoundary],
      PSeq [PBoundary, PLit ''sudo'', PBoundary]]"

definition assertReadOnlyCommand :: "string \<Rightarrow> string + unit" where
  "assertReadOnlyCommand command =
     (let trimmed = js_trim command in
      if trimmed = [] then Inl ''Command must not be empty.''
      else if list_ex (\<lambda>r. test r trimmed) READ_ONLY_BLOCKLIST
      then Inl (''Command is not allowed in read-only mode: '' @ trimmed) else Inr ())"

section \<open>The tools\<close>

text \<open>
  The files and processes of a computer are parameters.  The tools keep the computer they got first for the
  rest of the turn.
\<close>

record 's machine =
  mc_exec :: "sandbox_obj \<Rightarrow> string \<Rightarrow> string option \<Rightarrow> ('s, string, string \<times> int) prog"
  mc_readFile :: "sandbox_obj \<Rightarrow> string \<Rightarrow> ('s, string, string) prog"
  mc_writeFile :: "sandbox_obj \<Rightarrow> string \<Rightarrow> string \<Rightarrow> ('s, string, unit) prog"

record 's tools_state =
  to_instance :: "sandbox_obj option"
  to_world :: 's

definition on_world :: "('s, 'e, 'a) prog \<Rightarrow> ('s tools_state, 'e, 'a) prog" where
  "on_world m = (\<lambda>s. map_option (\<lambda>(w, r). (s\<lparr>to_world := w\<rparr>, r)) (m (to_world s)))"

definition ensure_instance ::
    "('s, sandbox_error, sandbox_obj) prog \<Rightarrow> ('s tools_state, sandbox_error, sandbox_obj) prog" where
  "ensure_instance ensure = pbind (pget to_instance) (\<lambda>i. case i of
     Some sb \<Rightarrow> pret sb
   | None \<Rightarrow> pbind (on_world ensure) (\<lambda>sb. pbind (pmodify (\<lambda>s. s\<lparr>to_instance := Some sb\<rparr>)) (\<lambda>_. pret sb)))"

definition run_command ::
    "('s, sandbox_error, sandbox_obj) prog \<Rightarrow> 's machine \<Rightarrow> string \<Rightarrow> string option \<Rightarrow>
     ('s tools_state, string, (string \<times> int) + string) prog" where
  "run_command ensure mc command cwd = runWithEnsuredSandbox (ensure_instance ensure)
     (\<lambda>sb. pbind (on_world (mc_exec mc sb command cwd)) (\<lambda>(out, code). pret (take 4000 out, code)))"

definition execute_readonly_command ::
    "('s, sandbox_error, sandbox_obj) prog \<Rightarrow> 's machine \<Rightarrow> string \<Rightarrow> string option \<Rightarrow>
     ('s tools_state, string, (string \<times> int) + string) prog" where
  "execute_readonly_command ensure mc command cwd =
     (case assertReadOnlyCommand command of Inl e \<Rightarrow> pthrow e | Inr u \<Rightarrow> run_command ensure mc command cwd)"

definition read_file ::
    "('s, sandbox_error, sandbox_obj) prog \<Rightarrow> 's machine \<Rightarrow> string \<Rightarrow> ('s tools_state, string, string + string) prog" where
  "read_file ensure mc path = runWithEnsuredSandbox (ensure_instance ensure)
     (\<lambda>sb. pbind (on_world (mc_readFile mc sb path)) (\<lambda>content. pret (take 8000 content)))"

definition write_file ::
    "('s, sandbox_error, sandbox_obj) prog \<Rightarrow> 's machine \<Rightarrow> string \<Rightarrow> string \<Rightarrow>
     ('s tools_state, string, string + string) prog" where
  "write_file ensure mc path content = runWithEnsuredSandbox (ensure_instance ensure)
     (\<lambda>sb. pbind (on_world (mc_writeFile mc sb path content)) (\<lambda>_. pret path))"

section \<open>What the check means\<close>

text \<open>
  A command that passes is not empty and has none of the words of the list as a word of its own.
\<close>

theorem readonly_words:
  assumes "assertReadOnlyCommand command = Inr ()"
    and "w \<in> set (WRITE_COMMANDS @ [''eval'', ''sudo''])" "js_trim command = a @ w @ t"
  shows "\<not> (boundary a (w @ t) \<and> boundary (a @ w) t)"
proof
  assume b: "boundary a (w @ t) \<and> boundary (a @ w) t"
  have n: "\<not> test r (js_trim command)" if "r \<in> set READ_ONLY_BLOCKLIST" for r
    using assms(1) that by (auto simp: assertReadOnlyCommand_def Let_def list_ex_iff split: if_splits)
  have single: "test (PSeq [PBoundary, PLit v, PBoundary]) x = test (PSeq [PBoundary, words [v], PBoundary]) x" for v x
    by (simp add: test_def test_at_iff words_def)
  have t: "test (PSeq [PBoundary, words ws, PBoundary]) (js_trim command)" if "w \<in> set ws" "[] \<notin> set ws" for ws
    unfolding words_test [OF that(2)] using that b assms(3) by blast
  from assms(2) consider "w \<in> set WRITE_COMMANDS" | "w = ''eval''" | "w = ''sudo''" by auto
  then show False
  proof cases
    case 1
    with t [of WRITE_COMMANDS] n [of "PSeq [PBoundary, words WRITE_COMMANDS, PBoundary]"] show ?thesis
      by (simp add: READ_ONLY_BLOCKLIST_def WRITE_COMMANDS_def)
  next
    case 2
    with t [of "[w]"] n [of "PSeq [PBoundary, PLit w, PBoundary]"] show ?thesis
      by (simp add: READ_ONLY_BLOCKLIST_def single)
  next
    case 3
    with t [of "[w]"] n [of "PSeq [PBoundary, PLit w, PBoundary]"] show ?thesis
      by (simp add: READ_ONLY_BLOCKLIST_def single)
  qed
qed

text \<open>
  A redirection right after a word passes, as does every writing command that the list does not name.
\<close>

lemma redirection_passes:
  "assertReadOnlyCommand ''echo x > f'' = Inl ''Command is not allowed in read-only mode: echo x > f''"
  "assertReadOnlyCommand ''echo x>f'' = Inr ()" "assertReadOnlyCommand ''find . -delete'' = Inr ()"
  by code_simp+

text \<open>A command that is refused runs nothing: no computer is asked for.\<close>

lemma refused_runs_nothing:
  "assertReadOnlyCommand command = Inl e \<Longrightarrow> execute_readonly_command ensure mc command cwd s = Some (s, Inl e)"
  by (simp add: execute_readonly_command_def pthrow_def)

end
