(* ===== verification/Executions.thy ===== *)
theory Executions
  imports Supervisor
begin

text \<open>
  Reading executions back: \<open>packages/agent/src/execution/query-execution.ts\<close>, and the summaries the
  conversation's model sees (\<open>buildExecutionToolSummary\<close> of
  \<open>packages/agent/src/conversation/engine.ts\<close>).  The text of a date, of a value and of the long dash are
  parameters.
\<close>

datatype query_input =
    QueryById string "int option"
  | QueryLatest "int option" bool

record event_view =
  vw_kind :: event_kind
  vw_source :: event_source
  vw_seq :: "int option"
  vw_occurredAt :: string
  vw_payload :: json

record execution_view =
  xv_taskId :: string
  xv_specialist :: "specialist_kind option"
  xv_status :: task_status
  xv_summary :: "string option"
  xv_output :: "json option"
  xv_traceId :: "string option"
  xv_runtime :: task_runtime
  xv_provider :: task_provider
  xv_runnerKind :: "runner_kind option"
  xv_requiresBrowser :: bool
  xv_startedAt :: "string option"
  xv_completedAt :: "string option"
  xv_lastEventAt :: "string option"
  xv_artifacts :: "json list option"
  xv_recentEvents :: "event_view list option"

definition parseRowArtifacts :: "json option \<Rightarrow> json list option" where
  "parseRowArtifacts v =
     (case v of
        Some (JArr items) \<Rightarrow> Some (filter (\<lambda>item. case item of
            JObj kvs \<Rightarrow> json_str (json_get item ''kind'') \<noteq> None | _ \<Rightarrow> False) items)
      | _ \<Rightarrow> None)"

definition mapTaskRow :: "(int \<Rightarrow> string) \<Rightarrow> task_row \<Rightarrow> execution_view" where
  "mapTaskRow stamp t =
     \<lparr>xv_taskId = tk_id t, xv_specialist = tk_specialist t, xv_status = tk_status t,
      xv_summary = tk_outputSummary t, xv_output = tk_output t, xv_traceId = tk_traceId t,
      xv_runtime = tk_runtime t, xv_provider = tk_provider t, xv_runnerKind = tk_runnerKind t,
      xv_requiresBrowser = tk_requiresBrowser t, xv_startedAt = map_option stamp (tk_startedAt t),
      xv_completedAt = map_option stamp (tk_completedAt t), xv_lastEventAt = map_option stamp (tk_lastEventAt t),
      xv_artifacts = parseRowArtifacts (tk_artifacts t), xv_recentEvents = None\<rparr>"

definition mapTaskEventRow :: "(int \<Rightarrow> string) \<Rightarrow> task_event \<Rightarrow> event_view" where
  "mapTaskEventRow stamp e =
     \<lparr>vw_kind = te_kind e, vw_source = te_source e, vw_seq = te_seq e, vw_occurredAt = stamp (te_occurredAt e),
      vw_payload = te_payload e\<rparr>"

definition latest_limit :: "int option \<Rightarrow> nat" where
  "latest_limit n = nat (max 1 (min (default_to n 5) 20))"

definition latest_tasks :: "string \<Rightarrow> string \<Rightarrow> int option \<Rightarrow> bool \<Rightarrow> task_db \<Rightarrow> task_row list" where
  "latest_tasks userId conversationId limit includeCompleted db =
     take (latest_limit limit) (sort_key (\<lambda>t. - tk_createdAt t)
       (filter (\<lambda>t. tk_conversationId t = Some conversationId \<and> tk_userId t = userId \<and>
          (includeCompleted \<or> tk_status t \<in> {Pending, AwaitingAuth, Preparing, Running})) (td_tasks db)))"

text \<open>
  A task of the user that has not ended is read through the supervisor, which may wait and look at its
  computer; the events are read after that.
\<close>

definition queryExecution ::
    "sup_env \<Rightarrow> int \<Rightarrow> string \<Rightarrow> (nat \<Rightarrow> int) \<Rightarrow> (nat \<Rightarrow> task_row option) \<Rightarrow> (int \<Rightarrow> string) \<Rightarrow>
     string \<Rightarrow> string \<Rightarrow> query_input \<Rightarrow> supervisor \<Rightarrow> (supervisor \<times> execution_view list) option" where
  "queryExecution env now uuid clock fetch stamp userId conversationId input s =
     (case input of
        QueryById taskId waitSeconds \<Rightarrow>
          (case getByIdAndUser taskId userId (su_db s) of
             None \<Rightarrow> Some (s, [])
           | Some t \<Rightarrow>
               map_option (\<lambda>(s1, r). (s1, [(mapTaskRow stamp (default_to r t))
                   \<lparr>xv_recentEvents := Some (map (mapTaskEventRow stamp) (listRecentEvents (tk_id t) 10 (su_db s1)))\<rparr>]))
                 (if isSandboxTask t \<and> tk_status t \<notin> set TERMINAL_STATUSES
                  then getTask env now uuid clock fetch userId waitSeconds s else Some (s, Some t)))
      | QueryLatest limit includeCompleted \<Rightarrow>
          Some (s, map (mapTaskRow stamp) (latest_tasks userId conversationId limit includeCompleted (su_db s))))"

section \<open>Summaries\<close>

definition summarizeExecutionOutput :: "(json \<Rightarrow> string) \<Rightarrow> json option \<Rightarrow> string" where
  "summarizeExecutionOutput text v =
     (case v of None \<Rightarrow> [] | Some JNull \<Rightarrow> []
      | Some (JStr s) \<Rightarrow> take 400 (js_trim s)
      | Some (JObj kvs) \<Rightarrow> (case json_str (json_get (JObj kvs) ''result'') of
            Some r \<Rightarrow> take 400 (js_trim r) | None \<Rightarrow> take 400 (text (JObj kvs)))
      | Some j \<Rightarrow> take 400 (text j))"

fun runtime_name :: "task_runtime \<Rightarrow> string" where
  "runtime_name InProcess = ''in_process''"
| "runtime_name BrowserRuntime = ''browser''"
| "runtime_name SandboxRuntime = ''sandbox''"

fun provider_name :: "task_provider \<Rightarrow> string" where
  "provider_name Internal = ''internal''"
| "provider_name Stagehand = ''stagehand''"
| "provider_name Codex = ''codex''"

definition progress_text :: "event_view \<Rightarrow> string" where
  "progress_text e =
     (let field = (\<lambda>k. case vw_payload e of JObj kvs \<Rightarrow> json_str (json_get (JObj kvs) k) | _ \<Rightarrow> None)
      in case field ''message'' of Some m \<Rightarrow> m
         | None \<Rightarrow> (case field ''phase'' of Some p \<Rightarrow> p | None \<Rightarrow> kind_name (vw_kind e)))"

definition recent_progress :: "event_view list \<Rightarrow> string list" where
  "recent_progress es =
     filter (\<lambda>t. t \<noteq> []) (map progress_text
       (take 3 (filter (\<lambda>e. vw_kind e = EvProgress \<or> vw_kind e = EvStarted) es)))"

definition artifact_text :: "json \<Rightarrow> string" where
  "artifact_text a = (case json_str (json_get a ''title'') of Some t \<Rightarrow> t
     | None \<Rightarrow> (case json_str (json_get a ''uri'') of Some u \<Rightarrow> u
       | None \<Rightarrow> default_to (json_str (json_get a ''kind'')) []))"

definition execution_text :: "string \<Rightarrow> (json \<Rightarrow> string) \<Rightarrow> execution_view \<Rightarrow> string" where
  "execution_text dash text x =
     (let preview = summarizeExecutionOutput text (xv_output x);
          progress = (case xv_recentEvents x of None \<Rightarrow> [] | Some es \<Rightarrow> recent_progress es);
          artifacts = (case xv_artifacts x of None \<Rightarrow> [] | Some [] \<Rightarrow> []
            | Some as \<Rightarrow> '' Files: '' @ join_with '', '' (map artifact_text as) @ ''.'')
      in xv_taskId x @ '': '' @ task_status_name (xv_status x) @ '' ['' @ runtime_name (xv_runtime x) @ ''/'' @
         provider_name (xv_provider x) @ '']'' @
         (case truthy_str (xv_summary x) of None \<Rightarrow> [] | Some m \<Rightarrow> '' '' @ dash @ '' '' @ m) @
         (if preview = [] then [] else [CHR 0x0A] @ ''Output preview: '' @ preview) @
         (if progress = [] then [] else [CHR 0x0A] @ ''Recent progress: '' @ join_with '' | '' progress) @ artifacts)"

definition query_summary :: "string \<Rightarrow> (json \<Rightarrow> string) \<Rightarrow> execution_view list \<Rightarrow> string" where
  "query_summary dash text xs =
     (if xs = [] then ''No matching executions found.'' else join_with [CHR 0x0A] (map (execution_text dash text) xs))"

fun mode_name :: "execution_mode \<Rightarrow> string" where
  "mode_name MDirect = ''direct''"
| "mode_name MSequential = ''sequential''"
| "mode_name MParallel = ''parallel''"
| "mode_name MBackground = ''background''"

definition plan_summary ::
    "execution_mode \<Rightarrow> (specialist_kind \<times> string) list \<Rightarrow> (string \<times> task_status) list \<Rightarrow> string" where
  "plan_summary mode tasks background =
     (if tasks = [] then ''No specialist execution was required.''
      else ''Execution mode: '' @ mode_name mode @ ''. '' @
        join_with '' | '' (map (\<lambda>(sp, m). specialist_name sp @ '': '' @ m) tasks) @ ''.'' @
        (if background = [] then []
         else '' Background tasks: '' @ join_with '', '' (map (\<lambda>(i, st). i @ '' ('' @ task_status_name st @ '')'') background) @ ''.''))"

section \<open>What is read\<close>

lemma getByIdAndUser_own: "getByIdAndUser i u db = Some t \<Longrightarrow> tk_id t = i \<and> tk_userId t = u"
  by (auto simp: getByIdAndUser_def dest: find_first_Some)

text \<open>A list never leaves the user and the conversation, is newest first, and has at most twenty tasks.\<close>

theorem latest_tasks_own:
  assumes "t \<in> set (latest_tasks userId conversationId limit includeCompleted db)"
  shows "t \<in> set (td_tasks db) \<and> tk_userId t = userId \<and> tk_conversationId t = Some conversationId \<and>
    (includeCompleted \<or> tk_status t \<notin> set TERMINAL_STATUSES)"
  using in_set_takeD [OF assms [unfolded latest_tasks_def]] by (auto simp: TERMINAL_STATUSES_def)

theorem latest_tasks_bounded:
  "length (latest_tasks userId conversationId limit includeCompleted db) \<le> 20 \<and>
   sorted (map (\<lambda>t. - tk_createdAt t) (latest_tasks userId conversationId limit includeCompleted db))"
proof -
  have "sorted (take n (map (\<lambda>t. - tk_createdAt t) (sort_key (\<lambda>t. - tk_createdAt t) xs)))" for n xs
    by (intro sorted_wrt_take) (rule sorted_sort_key)
  then show ?thesis by (simp add: latest_tasks_def latest_limit_def take_map [symmetric])
qed

text \<open>A task of another user is not found, and nothing is asked of the supervisor.\<close>

theorem query_foreign_task:
  assumes "\<forall>t \<in> set (td_tasks (su_db s)). tk_id t = taskId \<longrightarrow> tk_userId t \<noteq> userId"
  shows "queryExecution env now uuid clock fetch stamp userId conversationId (QueryById taskId w) s = Some (s, [])"
proof -
  have "getByIdAndUser taskId userId (su_db s) = None"
    using assms by (auto simp: getByIdAndUser_def find_first_None)
  then show ?thesis by (simp add: queryExecution_def)
qed

end
