(* ===== verification/Runs.thy ===== *)
theory Runs
  imports TaskStore Programs
begin

text \<open>
  Runs and their events: the tables of \<open>packages/db/src/schema/runs.ts\<close>, the writer of
  \<open>packages/agent/src/execution/ledger.ts\<close>, the metadata of \<open>packages/agent/src/run-metadata.ts\<close> and
  \<open>packages/db/src/repositories/trace-store-live.ts\<close>.  A log of each run is the specification.
\<close>

section \<open>Tables\<close>

datatype run_status = RunRunning | RunCompleted | RunFailed

datatype run_event_kind =
    RkContextBuilt | RkRouterDecision | RkSkillActivated | RkPlannerOutput | RkToolCall | RkToolResult
  | RkTaskSpawned | RkTaskObserved | RkModelRequest | RkModelResponse | RkDelegationStart | RkDelegationEnd
  | RkError | RkCompleted

record run_row =
  rn_id :: string
  rn_conversationId :: string
  rn_threadId :: "string option"
  rn_messageId :: "string option"
  rn_parentRunId :: "string option"
  rn_rootRunId :: "string option"
  rn_taskId :: "string option"
  rn_specialist :: specialist_kind
  rn_runnerKind :: "runner_kind option"
  rn_mode :: execution_mode
  rn_depth :: nat
  rn_metadata :: "json option"
  rn_status :: run_status
  rn_startedAt :: int
  rn_completedAt :: "int option"

record run_event =
  re_runId :: string
  re_seq :: int
  re_kind :: run_event_kind
  re_payload :: json

record run_db =
  rd_runs :: "run_row list"
  rd_events :: "run_event list"

type_synonym 'a run_prog = "(run_db, string, 'a) prog"

definition update_run :: "string \<Rightarrow> (run_row \<Rightarrow> run_row) \<Rightarrow> run_db \<Rightarrow> run_db" where
  "update_run runId f db = db\<lparr>rd_runs := map (\<lambda>r. if rn_id r = runId then f r else r) (rd_runs db)\<rparr>"

section \<open>The writer of a run\<close>

text \<open>The number after the last: the rows are read newest first, and the first is taken.\<close>

definition last_seq :: "string \<Rightarrow> run_db \<Rightarrow> int" where
  "last_seq runId db =
     (case sort_key (\<lambda>s. - s) (map re_seq (filter (\<lambda>e. re_runId e = runId) (rd_events db))) of
        [] \<Rightarrow> -1 | s # ss \<Rightarrow> s)"

fun numbered :: "string \<Rightarrow> int \<Rightarrow> (run_event_kind \<times> json) list \<Rightarrow> run_event list" where
  "numbered runId n [] = []"
| "numbered runId n ((k, p) # es) =
     \<lparr>re_runId = runId, re_seq = n, re_kind = k, re_payload = p\<rparr> # numbered runId (n + 1) es"

text \<open>
  One transaction; the library refuses to insert no rows, and the reference to the run is checked.
\<close>

definition insertEvents :: "string \<Rightarrow> (run_event_kind \<times> json) list \<Rightarrow> unit run_prog" where
  "insertEvents runId events = (\<lambda>db.
     if events = [] then Some (db, Inl ''values() must be called with at least one value'')
     else if \<not> list_ex (\<lambda>r. rn_id r = runId) (rd_runs db)
     then Some (db, Inl ''insert violates foreign key constraint'')
     else Some (db\<lparr>rd_events := rd_events db @ numbered runId (last_seq runId db + 1) events\<rparr>, Inr ()))"

definition run_append :: "string \<Rightarrow> run_event_kind \<Rightarrow> json \<Rightarrow> unit run_prog" where
  "run_append runId kind payload = insertEvents runId [(kind, payload)]"

definition setMode :: "string \<Rightarrow> execution_mode \<Rightarrow> unit run_prog" where
  "setMode runId mode = pmodify (update_run runId (\<lambda>r. r\<lparr>rn_mode := mode\<rparr>))"

definition updateMetadata :: "string \<Rightarrow> json \<Rightarrow> unit run_prog" where
  "updateMetadata runId metadata = pmodify (update_run runId (\<lambda>r. r\<lparr>rn_metadata := Some metadata\<rparr>))"

definition linkMessage :: "string \<Rightarrow> string option \<Rightarrow> unit run_prog" where
  "linkMessage runId messageId = pmodify (update_run runId (\<lambda>r. r\<lparr>rn_messageId := messageId\<rparr>))"

text \<open>Without metadata its column is left alone.\<close>

definition run_complete :: "int \<Rightarrow> string \<Rightarrow> run_status \<Rightarrow> json option \<Rightarrow> unit run_prog" where
  "run_complete now runId status metadata = pmodify (update_run runId (\<lambda>r.
     r\<lparr>rn_status := status, rn_metadata := or_else metadata (rn_metadata r), rn_completedAt := Some now\<rparr>))"

record run_params =
  np_conversationId :: string
  np_threadId :: "string option"
  np_messageId :: "string option"
  np_parentRunId :: "string option"
  np_rootRunId :: "string option"
  np_runTaskId :: "string option"
  np_specialist :: specialist_kind
  np_runnerKind :: "runner_kind option"
  np_mode :: execution_mode
  np_depth :: nat
  np_metadata :: "json option"

definition createRun :: "int \<Rightarrow> string \<Rightarrow> run_params \<Rightarrow> string run_prog" where
  "createRun now uuid p = (\<lambda>db.
     if list_ex (\<lambda>r. rn_id r = uuid) (rd_runs db) then Some (db, Inl ''duplicate key value violates unique constraint'')
     else Some (db\<lparr>rd_runs := rd_runs db @
       [\<lparr>rn_id = uuid, rn_conversationId = np_conversationId p, rn_threadId = np_threadId p,
         rn_messageId = np_messageId p, rn_parentRunId = np_parentRunId p, rn_rootRunId = np_rootRunId p,
         rn_taskId = np_runTaskId p, rn_specialist = np_specialist p, rn_runnerKind = np_runnerKind p,
         rn_mode = np_mode p, rn_depth = np_depth p, rn_metadata = np_metadata p, rn_status = RunRunning,
         rn_startedAt = now, rn_completedAt = None\<rparr>]\<rparr>, Inr uuid))"

section \<open>Metadata\<close>

datatype request_mode = MessageMode | BatchedMessageMode

fun request_mode_name :: "request_mode \<Rightarrow> string" where
  "request_mode_name MessageMode = ''message''"
| "request_mode_name BatchedMessageMode = ''batched-message''"

record run_request =
  rq_requestId :: string
  rq_conversationId :: string
  rq_threadId :: "string option"
  rq_userId :: string
  rq_mode :: request_mode
  rq_environment :: string
  rq_metadata :: "json option"

definition normalizeRunEnvironment :: "string option \<Rightarrow> string" where
  "normalizeRunEnvironment v = (if v = Some ''production'' then ''production'' else ''development'')"

definition spread_opt :: "string \<Rightarrow> json option \<Rightarrow> (string \<times> json) list" where
  "spread_opt k v = (case v of None \<Rightarrow> [] | Some x \<Rightarrow> [(k, x)])"

definition extractRequestSourceMetadata :: "json option \<Rightarrow> (string \<times> json) list" where
  "extractRequestSourceMetadata meta =
     (let telegram = Option.bind meta (\<lambda>m. json_get m ''telegram'');
          field = (\<lambda>k. case telegram of Some (JObj kvs) \<Rightarrow> json_get (JObj kvs) k | _ \<Rightarrow> None)
      in spread_opt ''source'' (if telegram \<noteq> None then Some (JStr ''telegram'') else None) @
         spread_opt ''telegram_batched'' (case field ''batched'' of Some (JBool b) \<Rightarrow> Some (JBool b) | _ \<Rightarrow> None) @
         spread_opt ''telegram_message_count'' (case field ''messageCount'' of Some (JNum n) \<Rightarrow> Some (JNum n) | _ \<Rightarrow> None))"

definition buildRequestRunMetadata :: "run_request \<Rightarrow> (string \<times> json) list" where
  "buildRequestRunMetadata r =
     [(''request_id'', JStr (rq_requestId r)), (''conversation_id'', JStr (rq_conversationId r)),
      (''request_mode'', JStr (request_mode_name (rq_mode r))), (''environment'', JStr (rq_environment r))] @
     extractRequestSourceMetadata (rq_metadata r)"

definition buildAgentRunMetadata ::
    "run_request \<Rightarrow> string \<Rightarrow> string \<Rightarrow> string option \<Rightarrow> string option \<Rightarrow> (string \<times> json) list" where
  "buildAgentRunMetadata r modelId agentRole specialistName taskId =
     buildRequestRunMetadata r @
     [(''user_id'', JStr (rq_userId r)), (''model_id'', JStr modelId), (''agent_role'', JStr agentRole)] @
     spread_opt ''specialist_name'' (map_option JStr (truthy_str specialistName)) @
     spread_opt ''task_id'' (map_option JStr (truthy_str taskId))"

text \<open>The fields of the request, then the given ones, which win.\<close>

definition override :: "(string \<times> json) list \<Rightarrow> (string \<times> json) list \<Rightarrow> (string \<times> json) list" where
  "override base extra = fold (\<lambda>(k, v). AList.update k v) extra base"

definition buildRootRunMetadata :: "run_request \<Rightarrow> (string \<times> json) list \<Rightarrow> json" where
  "buildRootRunMetadata r extra = JObj (override
     [(''requestId'', JStr (rq_requestId r)), (''conversationId'', JStr (rq_conversationId r)),
      (''threadId'', case rq_threadId r of None \<Rightarrow> JNull | Some t \<Rightarrow> JStr t), (''userId'', JStr (rq_userId r)),
      (''mode'', JStr (request_mode_name (rq_mode r))), (''environment'', JStr (rq_environment r))] extra)"

definition buildTaskRunMetadata ::
    "run_request \<Rightarrow> json \<Rightarrow> json option \<Rightarrow> (string \<times> json) list \<Rightarrow> json" where
  "buildTaskRunMetadata r executionRequest executionResponse extra = JObj (override
     ([(''environment'', JStr (rq_environment r)), (''request'', executionRequest)] @
      spread_opt ''response'' executionResponse) extra)"

definition createRootRun :: "int \<Rightarrow> string \<Rightarrow> run_request \<Rightarrow> (string \<times> json) list \<Rightarrow> string run_prog" where
  "createRootRun now uuid r extra = createRun now uuid
     \<lparr>np_conversationId = rq_conversationId r, np_threadId = rq_threadId r, np_messageId = None,
      np_parentRunId = None, np_rootRunId = None, np_runTaskId = None, np_specialist = SConversation,
      np_runnerKind = None, np_mode = MDirect, np_depth = 0, np_metadata = Some (buildRootRunMetadata r extra)\<rparr>"

section \<open>The events of a turn\<close>

text \<open>The steps of a turn of the model: the calls and the results of the tools, each with its identifier and name.\<close>

type_synonym step_item = "string \<times> string \<times> json"

record model_step =
  sp_toolCalls :: "step_item list"
  sp_toolResults :: "step_item list"

definition step_event :: "run_event_kind \<Rightarrow> string \<Rightarrow> step_item \<Rightarrow> run_event_kind \<times> json" where
  "step_event kind field it = (case it of (i, name, v) \<Rightarrow>
     (kind, JObj [(''toolCallId'', JStr i), (''toolName'', JStr name), (field, v)]))"

definition step_events :: "model_step list \<Rightarrow> (run_event_kind \<times> json) list" where
  "step_events steps = concat (map (\<lambda>st. map (step_event RkToolCall ''input'') (sp_toolCalls st) @
     map (step_event RkToolResult ''output'') (sp_toolResults st)) steps)"

definition flushConversationToolEvents :: "string \<Rightarrow> model_step list \<Rightarrow> unit run_prog" where
  "flushConversationToolEvents runId steps =
     (if step_events steps = [] then pret () else insertEvents runId (step_events steps))"

section \<open>The end of a delegated task\<close>

definition toRunTerminalStatus :: "task_status \<Rightarrow> run_status" where
  "toRunTerminalStatus s = (if s \<in> {Succeeded, Partial, Escalated} then RunCompleted else RunFailed)"

definition toRunEventKind :: "task_status \<Rightarrow> run_event_kind" where
  "toRunEventKind s = (if s \<in> {Succeeded, Partial, Escalated} then RkDelegationEnd else RkError)"

record terminal_params =
  tv_traceId :: "string option"
  tv_taskId :: string
  tv_status :: task_status
  tv_message :: "string option"
  tv_exitCode :: "int option"
  tv_reason :: "string option"

definition json_opt :: "('a \<Rightarrow> json) \<Rightarrow> 'a option \<Rightarrow> json" where
  "json_opt f v = (case v of None \<Rightarrow> JNull | Some x \<Rightarrow> f x)"

definition appendTerminalEvent :: "int \<Rightarrow> terminal_params \<Rightarrow> unit run_prog" where
  "appendTerminalEvent now p =
     (case truthy_str (tv_traceId p) of None \<Rightarrow> pret ()
      | Some runId \<Rightarrow>
          pbind (insertEvents runId [(toRunEventKind (tv_status p),
            JObj [(''taskId'', JStr (tv_taskId p)), (''status'', JStr (task_status_name (tv_status p))),
                  (''message'', json_opt JStr (tv_message p)), (''exitCode'', json_opt JNum (tv_exitCode p)),
                  (''reason'', json_opt JStr (tv_reason p))])]) (\<lambda>_.
          pmodify (update_run runId (\<lambda>r. r\<lparr>rn_status := toRunTerminalStatus (tv_status p), rn_completedAt := Some now\<rparr>))))"

section \<open>Runs by their identifier\<close>

definition appendRunLifecycleEvent :: "string \<Rightarrow> run_event_kind \<Rightarrow> json \<Rightarrow> unit run_prog" where
  "appendRunLifecycleEvent runId kind payload = insertEvents runId [(kind, payload)]"

definition markRunComplete :: "int \<Rightarrow> string \<Rightarrow> run_status \<Rightarrow> json option \<Rightarrow> unit run_prog" where
  "markRunComplete now runId status metadata = pmodify (update_run runId (\<lambda>r.
     r\<lparr>rn_status := status, rn_metadata := or_else metadata (rn_metadata r), rn_completedAt := Some now\<rparr>))"

section \<open>Tasks of a conversation\<close>

definition getBackgroundTaskById :: "string \<Rightarrow> task_db \<Rightarrow> task_row option" where
  "getBackgroundTaskById taskId db = find_first (\<lambda>t. tk_id t = taskId) (td_tasks db)"

definition listRecentBackgroundTasks :: "string \<Rightarrow> nat \<Rightarrow> bool \<Rightarrow> task_db \<Rightarrow> task_row list" where
  "listRecentBackgroundTasks conversationId limit includeCompleted db =
     take limit (sort_key (\<lambda>t. - tk_createdAt t) (filter (\<lambda>t. tk_conversationId t = Some conversationId \<and>
       (includeCompleted \<or> tk_status t \<in> {Pending, AwaitingAuth, Preparing, Running})) (td_tasks db)))"

end
