(* ===== verification/Context.thy ===== *)
theory Context
  imports Router Runs
begin

text \<open>
  The context of a turn: the history and summaries of \<open>packages/agent/src/context.ts\<close>, their composition in
  \<open>packages/agent/src/context/builder.ts\<close>, the prompts of \<open>packages/agent/src/specialists/prompts.ts\<close> and the
  synopses of \<open>packages/agent/src/synopsis.ts\<close>, as programs on the tables of the router.  The runs and the
  time zones are only read.  The long dash and the ellipsis, which are no characters below U+0100, are
  parameters.
\<close>

definition THREAD_TAIL_LIMIT :: nat where "THREAD_TAIL_LIMIT = 20"
definition ARTIFACT_MSG_LIMIT :: nat where "ARTIFACT_MSG_LIMIT = 5"
definition OTHER_THREAD_CAP :: nat where "OTHER_THREAD_CAP = 5"
definition RECENT_WITH_TOOLS :: nat where "RECENT_WITH_TOOLS = 4"
definition ARTIFACT_TRUNCATE :: nat where "ARTIFACT_TRUNCATE = 400"

section \<open>Annotations\<close>

text \<open>A tool result: its name and its output, as its event has them.\<close>

type_synonym tool_result = "json option \<times> json option"

definition output_summary :: "json option \<Rightarrow> string option" where
  "output_summary output = (case output of Some (JObj kvs) \<Rightarrow> json_str (json_get (JObj kvs) ''summary'') | _ \<Rightarrow> None)"

definition tool_part :: "tool_result \<Rightarrow> string" where
  "tool_part tr =
     (let name = default_to (json_str (fst tr)) ''unknown'';
          summary = (case output_summary (snd tr) of None \<Rightarrow> [] | Some s \<Rightarrow> take 200 s)
      in if summary = [] then name else name @ '': '' @ summary)"

definition formatToolAnnotation :: "tool_result list \<Rightarrow> string" where
  "formatToolAnnotation rs =
     (if rs = [] then [] else ''[Tools used: '' @ join_with ''; '' (map tool_part rs) @ '']'')"

record replay_row =
  rw_role :: string
  rw_content :: string
  rw_annotation :: "string option"

definition is_turn_role :: "string \<Rightarrow> bool" where
  "is_turn_role r \<longleftrightarrow> r = ''user'' \<or> r = ''assistant''"

definition replay_row_at :: "nat \<Rightarrow> nat \<times> replay_row \<Rightarrow> string \<times> string" where
  "replay_row_at recentStart ir = (case ir of (i, row) \<Rightarrow>
     (rw_role row,
      if i < recentStart \<or> rw_role row \<noteq> ''assistant'' then rw_content row
      else (case truthy_str (rw_annotation row) of None \<Rightarrow> rw_content row
            | Some a \<Rightarrow> rw_content row @ newline @ newline @ a)))"

definition buildReplayMessages :: "replay_row list \<Rightarrow> (string \<times> string) list" where
  "buildReplayMessages rows =
     (let filtered = filter (\<lambda>r. is_turn_role (rw_role r)) rows
      in map (replay_row_at (length filtered - RECENT_WITH_TOOLS)) (zip [0..<length filtered] filtered))"

definition recap_bullets :: "string \<Rightarrow> string option \<Rightarrow> string list" where
  "recap_bullets dots annotation =
     (case annotation of None \<Rightarrow> []
      | Some a \<Rightarrow> if js_trim a = [] then []
          else filter (\<lambda>l. l \<noteq> []) (map js_trim (split_on CHR 0x0A (js_trim
            (if length a > ARTIFACT_TRUNCATE then take ARTIFACT_TRUNCATE a @ dots else a)))))"

definition formatArtifactRecap :: "string \<Rightarrow> string option list \<Rightarrow> string option \<Rightarrow> string" where
  "formatArtifactRecap dots annotations threadLabel =
     (let bullets = concat (map (recap_bullets dots) annotations);
          title = str_or (js_trim (default_to threadLabel [])) ''this topic''
      in if bullets = [] then []
         else ''## Thread context ('' @ title @ '')'' @ newline @ join_with newline (map (\<lambda>b. ''- '' @ b) bullets))"

section \<open>What is loaded\<close>

text \<open>
  The results of tools in the runs of some messages, with their messages.  The database gives no order for
  them; here it is that of the table.
\<close>

definition tool_results :: "string \<Rightarrow> string list \<Rightarrow> run_db \<Rightarrow> (string \<times> tool_result) list" where
  "tool_results conversationId messageIds runs =
     List.map_filter (\<lambda>e.
       case find_first (\<lambda>r. rn_id r = re_runId e) (rd_runs runs) of None \<Rightarrow> None
       | Some r \<Rightarrow> (case rn_messageId r of None \<Rightarrow> None
           | Some m \<Rightarrow> if rn_conversationId r = conversationId \<and> re_kind e = RkToolResult \<and> m \<in> set messageIds
               then Some (m, json_get (re_payload e) ''toolName'', json_get (re_payload e) ''output'') else None))
       (rd_events runs)"

definition results_of :: "(string \<times> tool_result) list \<Rightarrow> string \<Rightarrow> tool_result list" where
  "results_of rs m = map snd (filter (\<lambda>r. fst r = m) rs)"

definition tail_rows :: "string \<Rightarrow> string \<Rightarrow> nat \<Rightarrow> bool \<Rightarrow> thread_db \<Rightarrow> message_row list" where
  "tail_rows conversationId threadId limit includeUnthreaded db =
     take limit (newest_first (filter (messageThreadFilter conversationId threadId includeUnthreaded) (tb_messages db)))"

definition annotated :: "(string \<times> tool_result) list \<Rightarrow> message_row \<Rightarrow> replay_row" where
  "annotated rs m =
     \<lparr>rw_role = mg_role m, rw_content = mg_content m,
      rw_annotation = (if results_of rs (mg_id m) = [] then None
                       else Some (formatToolAnnotation (results_of rs (mg_id m))))\<rparr>"

definition loadThreadTail ::
    "'w outside \<Rightarrow> run_db \<Rightarrow> string \<Rightarrow> string \<Rightarrow> nat \<Rightarrow> bool \<Rightarrow> ('w, (string \<times> string) list) routing" where
  "loadThreadTail rt runs conversationId threadId limit includeUnthreaded =
     pbind (selecting rt (tail_rows conversationId threadId limit includeUnthreaded)) (\<lambda>msgRows.
       let rows = rev msgRows;
           recent = map mg_id (filter (\<lambda>m. mg_role m = ''assistant'') (drop (length rows - RECENT_WITH_TOOLS) rows))
       in pbind (if recent = [] then pret [] else selecting rt (\<lambda>db. tool_results conversationId recent runs)) (\<lambda>rs.
          pret (buildReplayMessages (map (annotated rs) rows))))"

definition summary_line :: "thread_row \<Rightarrow> string" where
  "summary_line t = ''- **'' @ str_or (js_trim (default_to (th_label t) [])) ''Untitled'' @ ''**: '' @
     str_or (js_trim (default_to (th_synopsis t) [])) ''(no summary yet)''"

definition other_threads :: "string \<Rightarrow> string \<Rightarrow> thread_db \<Rightarrow> thread_row list" where
  "other_threads conversationId excludeThreadId db =
     take OTHER_THREAD_CAP (sort_key (\<lambda>t. - th_lastActiveAt t)
       (filter (\<lambda>t. th_conversationId t = conversationId \<and> th_status t = ThOpen \<and> th_id t \<noteq> excludeThreadId)
         (tb_threads db)))"

definition loadOtherThreadSummaries :: "'w outside \<Rightarrow> string \<Rightarrow> string \<Rightarrow> ('w, string) routing" where
  "loadOtherThreadSummaries rt conversationId excludeThreadId =
     pbind (selecting rt (other_threads conversationId excludeThreadId)) (\<lambda>rows.
       pret (let ls = join_with newline (map summary_line rows)
             in if ls = [] then [] else ''## Other active threads'' @ newline @ ls))"

text \<open>The summary of an output: its own, or the output itself when it is a text, cut.\<close>

definition artifact_summary :: "string \<Rightarrow> json option \<Rightarrow> string" where
  "artifact_summary dots output =
     (case output_summary output of
        Some s \<Rightarrow> js_trim s
      | None \<Rightarrow> (case output of
          Some (JStr t) \<Rightarrow> if js_trim t = [] then []
            else if length t > ARTIFACT_TRUNCATE then take ARTIFACT_TRUNCATE t @ dots else js_trim t
        | _ \<Rightarrow> []))"

definition artifact_rows :: "string \<Rightarrow> string \<Rightarrow> bool \<Rightarrow> thread_db \<Rightarrow> message_row list" where
  "artifact_rows conversationId threadId includeUnthreaded db =
     take ARTIFACT_MSG_LIMIT (newest_first (filter (\<lambda>m.
       messageThreadFilter conversationId threadId includeUnthreaded m \<and> mg_role m = ''assistant'') (tb_messages db)))"

definition artifact_annotation :: "string \<Rightarrow> (string \<times> tool_result) list \<Rightarrow> string \<Rightarrow> string option" where
  "artifact_annotation dots rs m =
     (case filter (\<lambda>s. s \<noteq> []) (map (\<lambda>r. artifact_summary dots (snd r)) (results_of rs m)) of
        [] \<Rightarrow> None | ss \<Rightarrow> Some (join_with newline ss))"

definition loadThreadArtifacts ::
    "string \<Rightarrow> 'w outside \<Rightarrow> run_db \<Rightarrow> string \<Rightarrow> string \<Rightarrow> bool \<Rightarrow> ('w, string option list) routing" where
  "loadThreadArtifacts dots rt runs conversationId threadId includeUnthreaded =
     pbind (selecting rt (artifact_rows conversationId threadId includeUnthreaded)) (\<lambda>msgRows.
       if msgRows = [] then pret []
       else pbind (selecting rt (\<lambda>db. tool_results conversationId (map mg_id msgRows) runs)) (\<lambda>rs.
         pret (map (\<lambda>m. artifact_annotation dots rs (mg_id m)) msgRows)))"

section \<open>Prompts\<close>

definition capabilities :: "run_runtime \<Rightarrow> string list" where
  "capabilities r =
     (if rt_browserEnabled r then [''browse the web (visit URLs, extract page content, interact with websites)''] else []) @
     (if rt_sandboxEnabled r then [''execute code and shell commands in a cloud sandbox (run programs, read/write files, install packages)''] else []) @
     (if rt_cuaEnabled r then [''control a remote desktop via Computer Use Agent (click, type, screenshot, run GUI apps like htop)''] else []) @
     (if rt_integrationEnabled r then [''interact with connected apps (Gmail, Slack, Notion, Google Calendar, Drive)''] else []) @
     [''save and recall user memories'', ''do deep research and investigation'']"

definition buildConversationPrompt :: "string \<Rightarrow> string \<Rightarrow> string \<Rightarrow> run_runtime \<Rightarrow> string" where
  "buildConversationPrompt dash formattedNow userTimezone r = join_with newline (
     [''You are Amby, a personal AI assistant with real capabilities.'',
      ''Sound like a direct, natural person texting a friend.'',
      ''Be concise. No filler, no internal process talk.'',
      ''Answer directly only for simple knowledge questions or casual chat.'',
      ''For anything that requires action, research, browsing, code, files, or computer interaction '' @ dash @ '' call execute_plan.'',
      ''Use query_execution only to inspect durable execution records.'',
      ''Use send_message only for natural short progress updates when something will take a moment.'',
      [],
      ''You have the following capabilities via execute_plan:''] @
     map (\<lambda>c. ''- '' @ c) (capabilities r) @
     [[],
      ''IMPORTANT: Never say you cannot do something if it falls within these capabilities. Always use execute_plan to attempt it.'',
      [],
      ''When to use execute_plan vs answer directly:'',
      ''- Answer directly: simple knowledge questions, casual chat, greetings, opinions'',
      ''- Use execute_plan: anything requiring web browsing, code execution, file operations, app interactions, research, or memory operations'',
      ''Pass the FULL user request to execute_plan '' @ dash @ '' do not summarize, extract, or rephrase it.'',
      ''Current date/time: '' @ formattedNow @ '' ('' @ userTimezone @ '')''])"

text \<open>
  What a specialist is told: a role of its own after the common lines.  The longer roles are separate definitions.
\<close>

definition specialist_common :: "string \<Rightarrow> string" where
  "specialist_common sharedPromptContext = join_with (newline @ newline) (filter (\<lambda>p. p \<noteq> [])
     [''You are executing scoped internal work for another agent.'',
      ''Do not address the user directly.'',
      ''Do not mention tools, agents, or internal processes.'',
      ''Return only valid structured output for the provided schema.'',
      if sharedPromptContext = [] then [] else ''Shared context:'' @ newline @ sharedPromptContext])"

definition computer_role :: "string \<Rightarrow> string list" where
  "computer_role dash =
     [''You control a remote desktop via Computer Use Agent.'',
      [],
      ''Your capabilities:'',
      ''- Launch and interact with desktop applications (browsers, editors, terminals, etc.)'',
      ''- Use native file dialogs and file pickers'',
      ''- Perform cross-application workflows (download from one app, use in another)'',
      ''- Monitor system resources (htop, disk usage, process management)'',
      ''- Control a real browser with full capabilities (multiple tabs, extensions, dev tools)'',
      ''- Access the filesystem via GUI'',
      [],
      ''Take screenshots to verify your actions. Work step by step '' @ dash @ '' screenshot, act, verify.'']"

definition browser_role :: "string list" where
  "browser_role =
     [''You operate a headless browser for single-website interactions.'',
      [],
      ''Modes:'',
      ''- extract: Read and extract content from a page'',
      ''- act: Perform a single action (click, fill, submit)'',
      ''- agent: Multi-step interaction within one site (login flows, multi-page navigation)'',
      [],
      ''You handle: content extraction, form filling, button clicking, single-site navigation, login flows, page screenshots.'',
      ''You do NOT handle: desktop apps, filesystem access, cross-site workflows, native dialogs.'']"

fun specialist_role :: "string \<Rightarrow> specialist_kind \<Rightarrow> string list" where
  "specialist_role dash SPlanner =
     [''Choose the cheapest correct execution strategy. Use parallel only for independent safe work. Use background only for long-running autonomous work.'']"
| "specialist_role dash SResearch =
     [''Focus on read-only investigation using sandbox tools.'',
      [],
      ''You can: examine files, run read-only shell commands, analyze code, inspect logs, summarize findings.'',
      ''You cannot: modify files (use builder), visit websites (use browser), control the desktop (use computer).'',
      ''Prefer facts, evidence, and concise structured findings.'']"
| "specialist_role dash SBuilder = [''Focus on filesystem/code changes. Verify what you changed when practical.'']"
| "specialist_role dash SIntegration =
     [''Use connected-app tools only for the requested app workflow. Require confirmation before external writes unless the request is explicit.'']"
| "specialist_role dash SComputer = computer_role dash"
| "specialist_role dash SMemory = [''Save or inspect user memory carefully and avoid duplicates.'']"
| "specialist_role dash SSettings = [''Handle timezone, scheduling, and Codex auth operations only.'']"
| "specialist_role dash SValidator =
     [''Review the execution results critically. Call out conflicts, missing validation, or risky side effects.'']"
| "specialist_role dash SBrowser = browser_role"
| "specialist_role dash SConversation = []"

definition buildSpecialistPrompt :: "string \<Rightarrow> specialist_kind \<Rightarrow> string \<Rightarrow> string" where
  "buildSpecialistPrompt dash kind sharedPromptContext =
     (let common = specialist_common sharedPromptContext; role = specialist_role dash kind
      in if role = [] then common else common @ newline @ newline @ join_with newline role)"

section \<open>The context of a turn\<close>

record prepared_context =
  px_history :: "(string \<times> string) list"
  px_systemPrompt :: string
  px_sharedPromptContext :: string
  px_userTimezone :: string
  px_formattedNow :: string

record context_env =
  xe_dash :: string
  xe_dots :: string
  xe_format :: "string \<Rightarrow> int \<Rightarrow> string"
  xe_runs :: run_db
  xe_timezones :: "(string \<times> string) list"

definition paragraphs :: "string list \<Rightarrow> string" where
  "paragraphs ps = join_with (newline @ newline) (filter (\<lambda>p. p \<noteq> []) ps)"

definition memory_section :: "string option \<Rightarrow> string" where
  "memory_section memoryContext =
     (case truthy_str memoryContext of None \<Rightarrow> [] | Some m \<Rightarrow> ''# User Memory Context'' @ newline @ m)"

definition extra_context :: "string \<Rightarrow> bool \<Rightarrow> string \<Rightarrow> string \<Rightarrow> string" where
  "extra_context otherThreads dormant synopsis recap = paragraphs
     [otherThreads, if dormant \<and> synopsis \<noteq> [] then ''## Resumed thread synopsis'' @ newline @ synopsis else [], recap]"

definition prepareConversationContext ::
    "context_env \<Rightarrow> 'w outside \<Rightarrow> string \<Rightarrow> string \<Rightarrow> resolved \<Rightarrow> string option \<Rightarrow> run_runtime \<Rightarrow>
     ('w, prepared_context) routing" where
  "prepareConversationContext env rt userId conversationId ctx memoryContext runtime =
     pbind (selecting rt (\<lambda>db. map_of (xe_timezones env) userId)) (\<lambda>tz.
     pbind (clock rt) (\<lambda>now.
     pbind (selecting rt (\<lambda>db. find_first (\<lambda>t. th_id t = rv_threadId ctx) (tb_threads db))) (\<lambda>thread.
     pbind (loadThreadTail rt (xe_runs env) conversationId (rv_threadId ctx) THREAD_TAIL_LIMIT
       (rv_threadId ctx = rv_defaultThreadId ctx)) (\<lambda>history.
     pbind (loadOtherThreadSummaries rt conversationId (rv_threadId ctx)) (\<lambda>others.
     pbind (loadThreadArtifacts (xe_dots env) rt (xe_runs env) conversationId (rv_threadId ctx)
       (rv_threadId ctx = rv_defaultThreadId ctx)) (\<lambda>artifacts.
       let userTimezone = default_to tz ''UTC'';
           formattedNow = xe_format env userTimezone now;
           synopsis = js_trim (default_to (Option.bind thread th_synopsis) []);
           recap = formatArtifactRecap (xe_dots env) artifacts (Option.bind thread th_label);
           extra = extra_context others (rv_threadWasDormant ctx) synopsis recap
       in pret \<lparr>px_history = history,
           px_systemPrompt = paragraphs [buildConversationPrompt (xe_dash env) formattedNow userTimezone runtime,
             memory_section memoryContext, extra],
           px_sharedPromptContext = paragraphs [memory_section memoryContext, extra,
             ''# Current Date/Time'' @ newline @ formattedNow @ '' ('' @ userTimezone @ '')''],
           px_userTimezone = userTimezone, px_formattedNow = formattedNow\<rparr>))))))"

section \<open>Synopses\<close>

definition fetchTranscriptForSynopsis ::
    "'w outside \<Rightarrow> string \<Rightarrow> string \<Rightarrow> bool \<Rightarrow> ('w, string) routing" where
  "fetchTranscriptForSynopsis rt conversationId threadId includeUnthreaded =
     pbind (selecting rt (tail_rows conversationId threadId THREAD_TAIL_LIMIT includeUnthreaded)) (\<lambda>rows.
       pret (transcript rows))"

definition save_synopsis :: "string \<Rightarrow> string \<times> string list \<Rightarrow> thread_db \<Rightarrow> thread_db" where
  "save_synopsis threadId summary = update_threads (\<lambda>t. th_id t = threadId)
     (\<lambda>t. t\<lparr>th_synopsis := Some (fst summary), th_keywords := Some (snd summary)\<rparr>)"

text \<open>Every failure is logged and forgotten.\<close>

definition maybeGenerateSynopsis :: "'w outside \<Rightarrow> string \<Rightarrow> string \<Rightarrow> bool \<Rightarrow> ('w, unit) routing" where
  "maybeGenerateSynopsis rt threadId conversationId includeUnthreaded =
     ptry (pbind (fetchTranscriptForSynopsis rt conversationId threadId includeUnthreaded) (\<lambda>ts.
         if js_trim ts = [] then pret ()
         else pbind (pmap_error (\<lambda>_. AgentError ''Synopsis generation failed'') (generateSynopsis rt ts)) (\<lambda>summary.
           updating rt (save_synopsis threadId summary))))
       (\<lambda>_. pret ())"

definition synopsisPreviousThreadIfDormantSwitch :: "'w outside \<Rightarrow> string \<Rightarrow> resolved \<Rightarrow> ('w, unit) routing" where
  "synopsisPreviousThreadIfDormantSwitch rt conversationId ctx =
     (let previous = rv_previousLastThreadId ctx; isDefault = (previous = rv_defaultThreadId ctx)
      in ptry (if previous = rv_threadId ctx \<or> de_action (rv_decision ctx) = RContinue then pret ()
           else pbind (selecting rt (tail_rows conversationId previous 1 isDefault)) (\<lambda>rows.
             pbind (clock rt) (\<lambda>now. case rows of
               [] \<Rightarrow> pret ()
             | m # ms \<Rightarrow> if now - mg_createdAt m \<le> DORMANT_MS then pret ()
                         else maybeGenerateSynopsis rt previous conversationId isDefault)))
         (\<lambda>_. pret ()))"

definition synopsisCurrentThreadIfOverflowsAfterSave ::
    "'w outside \<Rightarrow> string \<Rightarrow> resolved \<Rightarrow> nat \<Rightarrow> ('w, unit) routing" where
  "synopsisCurrentThreadIfOverflowsAfterSave rt conversationId ctx inboundMessageCount =
     (if rv_threadMessageCount ctx + inboundMessageCount \<le> THREAD_TAIL_LIMIT then pret ()
      else maybeGenerateSynopsis rt (rv_threadId ctx) conversationId (rv_threadId ctx = rv_defaultThreadId ctx))"

end
