(* ===== verification/RunsProps.thy ===== *)
theory RunsProps
  imports Runs
begin

text \<open>
  The events of a run refine a log: whatever the writers do, one after the other, the rows of a run are
  numbered from zero without gaps, and read in that order they are what was appended.
\<close>

definition events_of :: "run_db \<Rightarrow> string \<Rightarrow> run_event list" where
  "events_of db r = filter (\<lambda>e. re_runId e = r) (rd_events db)"

definition run_log :: "run_db \<Rightarrow> string \<Rightarrow> (run_event_kind \<times> json) list" where
  "run_log db r = map (\<lambda>e. (re_kind e, re_payload e)) (events_of db r)"

definition known_run :: "run_db \<Rightarrow> string \<Rightarrow> bool" where
  "known_run db r \<longleftrightarrow> list_ex (\<lambda>x. rn_id x = r) (rd_runs db)"

definition numbered_from_zero :: "run_db \<Rightarrow> bool" where
  "numbered_from_zero db \<longleftrightarrow> (\<forall>r. map re_seq (events_of db r) = map int [0..<length (events_of db r)])"

section \<open>The next number\<close>

lemma sorted_head:
  assumes "sort_key f xs = y # ys"
  shows "y \<in> set xs" "\<And>x. x \<in> set xs \<Longrightarrow> (f y :: int) \<le> f x"
proof -
  from assms show "y \<in> set xs" by (metis list.set_intros(1) set_sort)
  fix x assume "x \<in> set xs"
  then have "x \<in> set (y # ys)" using assms by (metis set_sort)
  moreover have "sorted (map f (y # ys))" using assms by (metis sorted_sort_key)
  ultimately show "f y \<le> f x" by auto
qed

lemma last_seq_numbered:
  assumes "numbered_from_zero db"
  shows "last_seq r db = int (length (events_of db r)) - 1"
proof -
  let ?xs = "map re_seq (filter (\<lambda>e. re_runId e = r) (rd_events db))"
  have xs: "?xs = map int [0..<length (events_of db r)]"
    using assms by (simp add: numbered_from_zero_def events_of_def)
  show ?thesis
  proof (cases "sort_key (\<lambda>s. - s) ?xs")
    case Nil
    then have "?xs = []" by (metis length_0_conv length_sort)
    then have "events_of db r = []" by (simp add: events_of_def)
    with Nil show ?thesis by (simp add: last_seq_def)
  next
    case (Cons y ys)
    note h = sorted_head [OF Cons]
    from h(1) have y: "y \<in> int ` {0..<length (events_of db r)}" unfolding xs by simp
    then have n: "0 < length (events_of db r)" by auto
    then have "int (length (events_of db r) - 1) \<in> set ?xs"
      unfolding xs set_map by (intro imageI) (simp del: length_0_conv length_greater_0_conv)
    moreover have "int (length (events_of db r) - 1) = int (length (events_of db r)) - 1" using n by linarith
    ultimately have "int (length (events_of db r)) - 1 \<in> set ?xs" by (simp only:)
    from h(2) [OF this] y have "y = int (length (events_of db r)) - 1" by auto
    with Cons show ?thesis by (simp add: last_seq_def)
  qed
qed

section \<open>Appending\<close>

lemma numbered_simps:
  "map re_seq (numbered r n es) = map (\<lambda>i. n + int i) [0..<length es]"
  "map (\<lambda>e. (re_kind e, re_payload e)) (numbered r n es) = es"
  "filter (\<lambda>e. re_runId e = q) (numbered r n es) = (if q = r then numbered r n es else [])"
  "length (numbered r n es) = length es"
  by (induction r n es rule: numbered.induct) (auto simp: upt_conv_Cons map_Suc_upt [symmetric] simp del: upt_Suc)

definition append_events :: "string \<Rightarrow> (run_event_kind \<times> json) list \<Rightarrow> run_db \<Rightarrow> run_db" where
  "append_events r es db = db\<lparr>rd_events := rd_events db @ numbered r (last_seq r db + 1) es\<rparr>"

lemma append_events_of:
  "events_of (append_events r es db) q = events_of db q @ (if q = r then numbered r (last_seq r db + 1) es else [])"
  by (simp add: events_of_def append_events_def numbered_simps)

lemma append_numbered:
  assumes "numbered_from_zero db"
  shows "numbered_from_zero (append_events r es db)"
  unfolding numbered_from_zero_def
proof
  fix q
  let ?n = "length (events_of db q)"
  have e: "map int [0..<?n + length es] = map int [0..<?n] @ map (\<lambda>i. int ?n + int i) [0..<length es]"
    by (intro nth_equalityI) (auto simp: nth_append)
  show "map re_seq (events_of (append_events r es db) q) =
      map int [0..<length (events_of (append_events r es db) q)]"
  proof (cases "q = r")
    case True
    with e assms last_seq_numbered [OF assms, of r] show ?thesis
      by (simp only: append_events_of numbered_simps numbered_from_zero_def map_append length_append)
        (simp add: numbered_simps)
  next
    case False
    with assms show ?thesis by (simp add: append_events_of numbered_from_zero_def)
  qed
qed

lemma append_log: "run_log (append_events r es db) q = run_log db q @ (if q = r then es else [])"
  by (simp add: run_log_def append_events_of numbered_simps)

section \<open>Any sequence of operations\<close>

datatype run_op =
    RoCreate int string run_params
  | RoAppend string "(run_event_kind \<times> json) list"
  | RoMode string execution_mode
  | RoMetadata string json
  | RoLink string "string option"
  | RoComplete int string run_status "json option"
  | RoTerminal int terminal_params

fun run_exec :: "run_op \<Rightarrow> run_db \<Rightarrow> run_db" where
  "run_exec (RoCreate now uuid p) db = default_to (state_after (createRun now uuid p) db) db"
| "run_exec (RoAppend r es) db = default_to (state_after (insertEvents r es) db) db"
| "run_exec (RoMode r m) db = default_to (state_after (setMode r m) db) db"
| "run_exec (RoMetadata r m) db = default_to (state_after (updateMetadata r m) db) db"
| "run_exec (RoLink r m) db = default_to (state_after (linkMessage r m) db) db"
| "run_exec (RoComplete now r st m) db = default_to (state_after (run_complete now r st m) db) db"
| "run_exec (RoTerminal now p) db = default_to (state_after (appendTerminalEvent now p) db) db"

text \<open>What an operation appends, and to which run.\<close>

fun appended :: "run_op \<Rightarrow> (string \<times> (run_event_kind \<times> json) list) option" where
  "appended (RoAppend r es) = Some (r, es)"
| "appended (RoTerminal now p) = map_option (\<lambda>r. (r, [(toRunEventKind (tv_status p),
     JObj [(''taskId'', JStr (tv_taskId p)), (''status'', JStr (task_status_name (tv_status p))),
           (''message'', json_opt JStr (tv_message p)), (''exitCode'', json_opt JNum (tv_exitCode p)),
           (''reason'', json_opt JStr (tv_reason p))])])) (truthy_str (tv_traceId p))"
| "appended op = None"

lemma update_run_events [simp]: "rd_events (update_run r f db) = rd_events db"
  by (simp add: update_run_def)

text \<open>The events after an operation: those before and what it appends to a run that is known.\<close>

lemma exec_events:
  "rd_events (run_exec op db) = (case appended op of
     Some (r, es) \<Rightarrow> if known_run db r then rd_events (append_events r es db) else rd_events db
   | None \<Rightarrow> rd_events db)"
proof (cases op)
  case (RoAppend r es)
  then show ?thesis
    by (cases "es = []") (simp_all add: state_after_def insertEvents_def append_events_def known_run_def)
next
  case (RoTerminal now p)
  then show ?thesis
    by (cases "truthy_str (tv_traceId p)")
      (simp_all add: state_after_def appendTerminalEvent_def insertEvents_def append_events_def known_run_def
        pbind_def ptry_def pret_def pthrow_def pmodify_def)
qed (simp_all add: state_after_def createRun_def setMode_def updateMetadata_def linkMessage_def run_complete_def
      pmodify_def)

lemma exec_numbered: "numbered_from_zero db \<Longrightarrow> numbered_from_zero (run_exec op db)"
  using append_numbered [of db] exec_events [of op db]
  by (auto simp: numbered_from_zero_def events_of_def split: option.splits prod.splits if_splits)

interpretation run_events: guarded_run run_exec "\<lambda>op db. True" numbered_from_zero
  by unfold_locales (rule exec_numbered)

definition empty_runs :: run_db where
  "empty_runs = \<lparr>rd_runs = [], rd_events = []\<rparr>"

theorem run_events_numbered:
  "map re_seq (events_of (run_ops run_exec ops empty_runs) r) =
     map int [0..<length (events_of (run_ops run_exec ops empty_runs) r)]"
proof -
  have "numbered_from_zero empty_runs" by (simp add: numbered_from_zero_def events_of_def empty_runs_def)
  moreover have "ops_ok run_exec (\<lambda>op db. True) ops s" for s by (induction ops arbitrary: s) auto
  ultimately have "numbered_from_zero (run_ops run_exec ops empty_runs)" by (rule run_events.run)
  then show ?thesis by (simp add: numbered_from_zero_def)
qed

text \<open>The log of a run grows by what is appended to it, and by nothing else.\<close>

theorem run_log_refines:
  "run_log (run_exec op db) r = run_log db r @
     (case appended op of Some (q, es) \<Rightarrow> if q = r \<and> known_run db r then es else [] | None \<Rightarrow> [])"
  using append_log [of _ _ db r] exec_events [of op db]
  by (auto simp: run_log_def events_of_def split: option.splits prod.splits if_splits)

end
