(* ===== verification/ContextProps.thy ===== *)
theory ContextProps
  imports Context RouterProps RunsProps Triples
begin

text \<open>
  The context of a turn: the window of the history, what a run's tools leave in it, and synopses, which never
  fail and change nothing else.
\<close>

section \<open>The history\<close>

lemma selecting_Some:
  "selecting rt f s = Some (s', Inr x) \<Longrightarrow> x = f (rs_db s) \<and> rs_db s' = rs_db s"
  by (auto simp: selecting_def query_def split: prod.splits option.splits)

lemma zip_upt_map: "map g (zip [0..<length xs] xs) = map (\<lambda>i. g (i, xs ! i)) [0..<length xs]"
  by (intro nth_equalityI) simp_all

lemma replay_roles: "map fst (buildReplayMessages rows) = filter is_turn_role (map rw_role rows)"
proof -
  let ?f = "filter (\<lambda>r. is_turn_role (rw_role r)) rows"
  have "fst (replay_row_at n (i, r)) = rw_role r" for n i r
    by (simp add: replay_row_at_def split: option.split)
  then have "map fst (buildReplayMessages rows) = map (\<lambda>i. rw_role (?f ! i)) [0..<length ?f]"
    by (simp add: buildReplayMessages_def Let_def zip_upt_map o_def)
  also have "\<dots> = map rw_role ?f" by (intro nth_equalityI) simp_all
  finally show ?thesis by (simp add: filter_map o_def)
qed

text \<open>An entry is the content of a message, or that and what its tools did.\<close>

lemma replay_contents:
  assumes "(role, c) \<in> set (buildReplayMessages rows)"
  shows "\<exists>r \<in> set rows. rw_role r = role \<and> take (length (rw_content r)) c = rw_content r"
proof -
  let ?f = "filter (\<lambda>r. is_turn_role (rw_role r)) rows"
  from assms obtain i where i: "i < length ?f" "(role, c) = replay_row_at (length ?f - RECENT_WITH_TOOLS) (i, ?f ! i)"
    by (auto simp: buildReplayMessages_def Let_def zip_upt_map)
  from i(1) have "?f ! i \<in> set ?f" by (rule nth_mem)
  with i(2) show ?thesis by (auto simp: replay_row_at_def split: if_splits option.splits)
qed

lemma loadThreadTail_Some:
  assumes "loadThreadTail rt runs c t n u s = Some (s', Inr h)"
  shows "rs_db s' = rs_db s \<and>
    (\<exists>rs. h = buildReplayMessages (map (annotated rs) (rev (tail_rows c t n u (rs_db s)))))"
  using assms
  by (auto simp: loadThreadTail_def Let_def elim!: pbindE split: if_splits dest!: selecting_Some simp: pret_def)

theorem history_window:
  assumes "loadThreadTail rt runs c t n u s = Some (s', Inr h)"
  shows "rs_db s' = rs_db s \<and> length h \<le> n \<and>
    map fst h = filter is_turn_role (map mg_role (rev (tail_rows c t n u (rs_db s)))) \<and>
    (\<forall>e \<in> set h. \<exists>m \<in> set (tb_messages (rs_db s)). messageThreadFilter c t u m \<and> mg_role m = fst e \<and>
       take (length (mg_content m)) (snd e) = mg_content m)"
proof -
  let ?rows = "rev (tail_rows c t n u (rs_db s))"
  obtain rs where db: "rs_db s' = rs_db s" and h: "h = buildReplayMessages (map (annotated rs) ?rows)"
    using loadThreadTail_Some [OF assms] by blast
  have roles: "map fst h = filter is_turn_role (map mg_role ?rows)"
    by (simp add: h replay_roles o_def annotated_def)
  have "length h = length (map fst h)" by simp
  also have "\<dots> \<le> length ?rows" unfolding roles using length_filter_le [of is_turn_role "map mg_role ?rows"] by simp
  also have "\<dots> \<le> n" by (simp add: tail_rows_def)
  finally have len: "length h \<le> n" .
  have "\<exists>m \<in> set (tb_messages (rs_db s)). messageThreadFilter c t u m \<and> mg_role m = fst e \<and>
      take (length (mg_content m)) (snd e) = mg_content m" if "e \<in> set h" for e
    using that replay_contents [of "fst e" "snd e" "map (annotated rs) ?rows"]
    by (auto simp: h annotated_def tail_rows_def newest_first_def dest!: in_set_takeD)
  with db roles len show ?thesis by blast
qed

text \<open>The newest messages of the thread: the others are older than every one of them.\<close>

theorem window_newest:
  assumes "m \<in> set (tail_rows c t n u db)" "m' \<in> set (tb_messages db)" "messageThreadFilter c t u m'"
    "m' \<notin> set (tail_rows c t n u db)"
  shows "mg_createdAt m' \<le> mg_createdAt m"
proof -
  let ?ms = "newest_first (filter (messageThreadFilter c t u) (tb_messages db))"
  have "m' \<in> set ?ms" using assms(2,3) by (simp add: newest_first_def)
  then have "m' \<in> set (drop n ?ms)" using assms(4) unfolding tail_rows_def
    by (metis Un_iff append_take_drop_id set_append)
  moreover have "sorted (map (\<lambda>m. - mg_createdAt m) (take n ?ms @ drop n ?ms))"
    unfolding append_take_drop_id by (simp add: newest_first_def)
  ultimately show ?thesis using assms(1)
    unfolding tail_rows_def map_append sorted_append by force
qed

section \<open>The tools of a run\<close>

text \<open>The results recorded for a run, once it is linked to a message, are those that are found under the message.\<close>

lemma tool_results_append:
  assumes "find_first (\<lambda>r. rn_id r = q) (rd_runs db) = Some r" "rn_messageId r = Some m" "rn_conversationId r = c"
  shows "tool_results c [m] (append_events q es db) =
    tool_results c [m] db @
    List.map_filter (\<lambda>(k, p). if k = RkToolResult then Some (m, json_get p ''toolName'', json_get p ''output'') else None) es"
proof -
  have "List.map_filter (\<lambda>e. case find_first (\<lambda>r. rn_id r = re_runId e) (rd_runs db) of None \<Rightarrow> None
       | Some r \<Rightarrow> (case rn_messageId r of None \<Rightarrow> None
           | Some m' \<Rightarrow> if rn_conversationId r = c \<and> re_kind e = RkToolResult \<and> m' \<in> set [m]
               then Some (m', json_get (re_payload e) ''toolName'', json_get (re_payload e) ''output'') else None))
       (numbered q n es) =
     List.map_filter (\<lambda>(k, p). if k = RkToolResult then Some (m, json_get p ''toolName'', json_get p ''output'') else None) es" for n
    using assms by (induction q n es rule: numbered.induct) (auto simp: List.map_filter_def)
  then show ?thesis
    by (simp add: tool_results_def append_events_def List.map_filter_def)
qed

definition results_in :: "model_step list \<Rightarrow> tool_result list" where
  "results_in steps = map (\<lambda>(i, name, v). (Some (JStr name), Some v)) (concat (map sp_toolResults steps))"

lemma step_results:
  "List.map_filter (\<lambda>(k, p). if k = RkToolResult then Some (m, json_get p ''toolName'', json_get p ''output'') else None)
     (step_events steps) = map (Pair m) (results_in steps)"
proof -
  have calls: "List.map_filter (\<lambda>(k, p). if k = RkToolResult then Some (m, json_get p ''toolName'', json_get p ''output'') else None)
      (map (step_event RkToolCall ''input'') xs) = []" for xs
    by (induction xs) (auto simp: List.map_filter_def step_event_def split: prod.splits)
  have res: "List.map_filter (\<lambda>(k, p). if k = RkToolResult then Some (m, json_get p ''toolName'', json_get p ''output'') else None)
      (map (step_event RkToolResult ''output'') xs) = map (\<lambda>(i, name, v). (m, Some (JStr name), Some v)) xs" for xs
    by (induction xs) (auto simp: List.map_filter_def step_event_def split: prod.splits)
  show ?thesis using calls res
    by (induction steps) (auto simp: step_events_def results_in_def List.map_filter_def split: prod.splits)
qed

theorem recorded_tools_recalled:
  assumes "find_first (\<lambda>r. rn_id r = q) (rd_runs db) = Some r" "rn_messageId r = Some m" "rn_conversationId r = c"
    "tool_results c [m] db = []" "flushConversationToolEvents q steps db = Some (db', Inr ())"
  shows "results_of (tool_results c [m] db') m = results_in steps"
proof (cases "step_events steps = []")
  case True
  with step_results [of m steps] have "results_in steps = []" by (simp add: List.map_filter_def)
  with True assms(4,5) show ?thesis by (simp add: flushConversationToolEvents_def pret_def results_of_def)
next
  case False
  with assms(5) have "db' = append_events q (step_events steps) db"
    by (auto simp: flushConversationToolEvents_def insertEvents_def append_events_def split: if_splits)
  then have "tool_results c [m] db' = map (Pair m) (results_in steps)"
    by (simp only: tool_results_append [OF assms(1-3)] step_results assms(4) append_Nil)
  then show ?thesis by (simp add: results_of_def filter_map o_def)
qed

section \<open>Synopses\<close>

context table_law
begin

lemma save [keeps_rules]: "keeps J (updating rt (save_synopsis t summary))"
  unfolding updating_def by (rule query) (auto simp: save_synopsis_def keeps_keys_def intro!: update)

lemma synopsis [keeps_rules]: "keeps J (maybeGenerateSynopsis rt t c u)"
  unfolding maybeGenerateSynopsis_def fetchTranscriptForSynopsis_def by (intro keeps_rules)

lemma synopses:
  "keeps J (synopsisPreviousThreadIfDormantSwitch rt c ctx)"
  "keeps J (synopsisCurrentThreadIfOverflowsAfterSave rt c ctx n)"
  unfolding synopsisPreviousThreadIfDormantSwitch_def synopsisCurrentThreadIfOverflowsAfterSave_def Let_def
  by (auto intro!: keeps_rules split: list.split)

end

text \<open>A synopsis never fails, and of the tables it changes nothing but synopses and keywords.\<close>

definition but_summaries :: "thread_row \<Rightarrow> thread_row" where
  "but_summaries t = t\<lparr>th_synopsis := None, th_keywords := None\<rparr>"

definition same_but_summaries :: "thread_db \<Rightarrow> thread_db \<Rightarrow> bool" where
  "same_but_summaries db0 db \<longleftrightarrow>
     tb_messages db = tb_messages db0 \<and> tb_conversations db = tb_conversations db0 \<and>
     map but_summaries (tb_threads db) = map but_summaries (tb_threads db0)"

lemma keeps_summaries_query [keeps_rules]:
  "keeps (\<lambda>s. same_but_summaries db (rs_db s)) (selecting rt f)"
  "keeps (\<lambda>s. same_but_summaries db (rs_db s)) (clock rt)"
  "keeps (\<lambda>s. same_but_summaries db (rs_db s)) (generateSynopsis rt ts)"
  "keeps (\<lambda>s. same_but_summaries db (rs_db s)) (updating rt (save_synopsis t summary))"
proof -
  show "keeps (\<lambda>s. same_but_summaries db (rs_db s)) (selecting rt f)"
    by (auto simp: keeps_def selecting_def query_def split: prod.splits option.splits)
  show "keeps (\<lambda>s. same_but_summaries db (rs_db s)) (clock rt)" unfolding clock_def by (rule keeps_basic)
  have "keeps (\<lambda>s. same_but_summaries db (rs_db s)) (outside g)" for g :: "'c \<Rightarrow> 'c \<times> (string + string \<times> string list)"
    by (auto simp: keeps_def outside_def split: prod.splits sum.splits)
  then show "keeps (\<lambda>s. same_but_summaries db (rs_db s)) (generateSynopsis rt ts)"
    unfolding generateSynopsis_def by (auto intro!: keeps_rules split: prod.split)
  have "map but_summaries (tb_threads (save_synopsis t summary d)) = map but_summaries (tb_threads d) \<and>
      tb_messages (save_synopsis t summary d) = tb_messages d \<and>
      tb_conversations (save_synopsis t summary d) = tb_conversations d" for d
    by (simp add: save_synopsis_def but_summaries_def)
  then show "keeps (\<lambda>s. same_but_summaries db (rs_db s)) (updating rt (save_synopsis t summary))"
    by (simp only: keeps_def updating_def query_def same_but_summaries_def)
      (auto simp del: list.map_comp map_eq_conv map_map split: prod.splits option.splits)
qed

lemma keeps_summaries [keeps_rules]: "keeps (\<lambda>s. same_but_summaries db (rs_db s)) (maybeGenerateSynopsis rt t c u)"
  unfolding maybeGenerateSynopsis_def fetchTranscriptForSynopsis_def by (intro keeps_rules)

lemma responds_synopsis [responds_rules]: "responds (generateSynopsis rt ts)"
  unfolding generateSynopsis_def by (auto intro!: responds_rules split: prod.split)

lemma synopsis_total: "\<exists>s'. maybeGenerateSynopsis rt t c u s = Some (s', Inr ())"
proof -
  have "responds (pbind (fetchTranscriptForSynopsis rt c t u) (\<lambda>ts.
         if js_trim ts = [] then pret ()
         else pbind (pmap_error (\<lambda>_. AgentError ''Synopsis generation failed'') (generateSynopsis rt ts)) (\<lambda>summary.
           updating rt (save_synopsis t summary))))"
    unfolding fetchTranscriptForSynopsis_def by (intro responds_rules)
  then show ?thesis
    by (auto simp: maybeGenerateSynopsis_def ptry_def pret_def responds_def split: option.split)
qed

theorem synopsis_harmless:
  "\<exists>s'. synopsisPreviousThreadIfDormantSwitch rt c ctx s = Some (s', Inr ()) \<and>
     same_but_summaries (rs_db s) (rs_db s')"
  "\<exists>s'. synopsisCurrentThreadIfOverflowsAfterSave rt c ctx n s = Some (s', Inr ()) \<and>
     same_but_summaries (rs_db s) (rs_db s')"
proof -
  have synopsis: "responds (maybeGenerateSynopsis rt t c u)" for t u unfolding responds_def using synopsis_total by (metis option.distinct(1))
  have refl: "same_but_summaries (rs_db s) (rs_db s)" by (simp add: same_but_summaries_def)
  have *: "responds (if rv_previousLastThreadId ctx = rv_threadId ctx \<or> de_action (rv_decision ctx) = RContinue then pret ()
           else pbind (selecting rt (tail_rows c (rv_previousLastThreadId ctx) 1
               (rv_previousLastThreadId ctx = rv_defaultThreadId ctx))) (\<lambda>rows.
             pbind (clock rt) (\<lambda>now. case rows of
               [] \<Rightarrow> pret ()
             | m # ms \<Rightarrow> if now - mg_createdAt m \<le> DORMANT_MS then pret ()
                         else maybeGenerateSynopsis rt (rv_previousLastThreadId ctx) c
                           (rv_previousLastThreadId ctx = rv_defaultThreadId ctx))))"
    by (auto intro!: responds_rules synopsis split: list.split)
  have "responds m \<Longrightarrow> \<exists>s'. ptry m (\<lambda>_. pret ()) s = Some (s', Inr ())" for m :: "('a, unit) routing"
    by (auto simp: responds_def ptry_def pret_def split: option.split)
  from this [OF *] obtain s' where "synopsisPreviousThreadIfDormantSwitch rt c ctx s = Some (s', Inr ())"
    unfolding synopsisPreviousThreadIfDormantSwitch_def Let_def by blast
  moreover have "keeps (\<lambda>s'. same_but_summaries (rs_db s) (rs_db s')) (synopsisPreviousThreadIfDormantSwitch rt c ctx)"
    unfolding synopsisPreviousThreadIfDormantSwitch_def Let_def by (auto intro!: keeps_rules split: list.split)
  ultimately show "\<exists>s'. synopsisPreviousThreadIfDormantSwitch rt c ctx s = Some (s', Inr ()) \<and>
     same_but_summaries (rs_db s) (rs_db s')"
    using refl unfolding keeps_def by blast
  obtain s'' where "synopsisCurrentThreadIfOverflowsAfterSave rt c ctx n s = Some (s'', Inr ())"
    using synopsis_total [of rt "rv_threadId ctx" c "rv_threadId ctx = rv_defaultThreadId ctx" s]
    by (fastforce simp: synopsisCurrentThreadIfOverflowsAfterSave_def pret_def)
  moreover have "keeps (\<lambda>s'. same_but_summaries (rs_db s) (rs_db s')) (synopsisCurrentThreadIfOverflowsAfterSave rt c ctx n)"
    unfolding synopsisCurrentThreadIfOverflowsAfterSave_def by (intro keeps_rules)
  ultimately show "\<exists>s'. synopsisCurrentThreadIfOverflowsAfterSave rt c ctx n s = Some (s', Inr ()) \<and>
     same_but_summaries (rs_db s) (rs_db s')"
    using refl unfolding keeps_def by blast
qed

end
