(* ===== verification/Browser.thy ===== *)
theory Browser
  imports Patterns Runners Programs
begin

text \<open>
  The browser: the shared rules of \<open>packages/browser/src/shared.ts\<close> and the tasks of \<open>workers.ts\<close>, with the
  disabled service of \<open>local.ts\<close>.  The library that drives the browser, and what its pages are, are a
  parameter; the parsing of URLs and the text of a JSON value are others.
\<close>

section \<open>Signals of escalation\<close>

text \<open>Without case, so the text is matched in lower case; an optional last letter matches anyway.\<close>

definition ESCALATION_PATTERNS :: "pattern list" where
  "ESCALATION_PATTERNS =
     [PLit ''requires computer access'', PLit ''requires desktop access'',
      PSeq [PLit ''native '', words [''dialog'', ''file dialog'', ''file picker'']],
      PLit ''new tab'', PLit ''popup'', PLit ''captcha'', PLit ''mfa'',
      PSeq [PLit ''download'', POpt (PLit ''s'')], PSeq [PLit ''upload'', POpt (PLit ''s'')],
      PLit ''operating-system'']"

definition READ_HINTS :: "pattern list" where
  "READ_HINTS = map (\<lambda>w. PSeq [PBoundary, PLit w, PBoundary])
     [''extract'', ''read'', ''find'', ''lookup'', ''search'', ''summary'', ''summarize'', ''what is'']"

definition inferBrowserSideEffectLevel :: "string \<Rightarrow> side_effect_level" where
  "inferBrowserSideEffectLevel instruction =
     (if list_ex (\<lambda>r. test r (to_lower instruction)) READ_HINTS then ReadLevel else SoftWrite)"

definition text_signal :: "string \<Rightarrow> bool" where
  "text_signal s = list_ex (\<lambda>r. test r (to_lower s)) ESCALATION_PATTERNS"

fun is_text_signal :: "json \<Rightarrow> bool" where
  "is_text_signal (JStr s) = text_signal s"
| "is_text_signal v = False"

text \<open>Of an object or an array only the texts directly in it count.\<close>

fun isBrowserEscalationSignal :: "json \<Rightarrow> bool" where
  "isBrowserEscalationSignal (JStr s) = text_signal s"
| "isBrowserEscalationSignal (JObj kvs) = list_ex (\<lambda>kv. is_text_signal (snd kv)) kvs"
| "isBrowserEscalationSignal (JArr vs) = list_ex is_text_signal vs"
| "isBrowserEscalationSignal v = False"

section \<open>Start addresses\<close>

definition LEADING_URL_WRAPPERS :: string where
  "LEADING_URL_WRAPPERS = ''<({['' @ [CHR 0x22, CHR 0x27, CHR 0x60]"

definition TRAILING_URL_WRAPPERS :: string where
  "TRAILING_URL_WRAPPERS = ''>)}]'' @ [CHR 0x22, CHR 0x27, CHR 0x60]"

definition TRAILING_URL_PUNCTUATION :: string where
  "TRAILING_URL_PUNCTUATION = ''.,!?;:''"

definition drop_trailing :: "string \<Rightarrow> string \<Rightarrow> string" where
  "drop_trailing cs s = rev (dropWhile (\<lambda>c. c \<in> set cs) (rev s))"

definition strip_wrappers :: "string \<Rightarrow> string" where
  "strip_wrappers s =
     js_trim (drop_trailing TRAILING_URL_WRAPPERS (dropWhile (\<lambda>c. c \<in> set LEADING_URL_WRAPPERS) s))"

text \<open>Each of these leaves a text alone or makes it shorter, and so do they in a row: the loops end.\<close>

definition shrinks :: "(string \<Rightarrow> string) \<Rightarrow> bool" where
  "shrinks f \<longleftrightarrow> (\<forall>s. f s = s \<or> length (f s) < length s)"

lemma shrinks_dropWhile: "shrinks (dropWhile P)"
  unfolding shrinks_def
proof
  fix s show "dropWhile P s = s \<or> length (dropWhile P s) < length s"
    by (cases s) (auto intro: le_imp_less_Suc length_dropWhile_le)
qed

lemma shrinks_rev: "shrinks f \<Longrightarrow> shrinks (\<lambda>s. rev (f (rev s)))"
  unfolding shrinks_def by (metis length_rev rev_rev_ident)

lemma shrinks_comp: "shrinks f \<Longrightarrow> shrinks g \<Longrightarrow> shrinks (\<lambda>s. g (f s))"
  unfolding shrinks_def by (metis less_trans)

lemma shrinks_drop_trailing: "shrinks (drop_trailing cs)"
  unfolding drop_trailing_def [abs_def] by (intro shrinks_rev shrinks_dropWhile)

lemma shrinks_strip: "shrinks strip_wrappers"
  unfolding strip_wrappers_def [abs_def] js_trim_def trim_end_def trim_start_def
  by (intro shrinks_rev shrinks_dropWhile shrinks_drop_trailing
      shrinks_comp [where g = "\<lambda>s. rev (dropWhile is_ws (rev s))"] shrinks_comp [where g = "dropWhile is_ws"]
      shrinks_comp [where g = "drop_trailing TRAILING_URL_WRAPPERS"])

function unwrap :: "string \<Rightarrow> string" where
  "unwrap candidate = (let next' = strip_wrappers candidate in if next' \<noteq> candidate then unwrap next' else candidate)"
  by pat_completeness auto
termination
  using shrinks_strip by (relation "measure length") (auto simp: shrinks_def)

declare unwrap.simps [simp del]

text \<open>\<open>new URL\<close>: the protocol and the text of an address.\<close>

type_synonym url_parser = "string \<Rightarrow> (string \<times> string) option"

definition tryNormalize :: "url_parser \<Rightarrow> string \<Rightarrow> string option" where
  "tryNormalize parse input =
     map_option (\<lambda>(protocol, text). if protocol = ''http:'' \<or> protocol = ''https:'' then text else input) (parse input)"

function peel_punctuation :: "url_parser \<Rightarrow> string \<Rightarrow> string option" where
  "peel_punctuation parse stripped =
     (let shorter = drop_trailing TRAILING_URL_PUNCTUATION stripped
      in if shorter = stripped then None
         else (case truthy_str (tryNormalize parse shorter) of
             Some next' \<Rightarrow> Some next' | None \<Rightarrow> peel_punctuation parse shorter))"
  by pat_completeness auto
termination
  using shrinks_drop_trailing by (relation "measure (\<lambda>(parse, s). length s)") (auto simp: shrinks_def)

declare peel_punctuation.simps [simp del]

definition sanitizeBrowserStartUrl :: "url_parser \<Rightarrow> string option \<Rightarrow> string option" where
  "sanitizeBrowserStartUrl parse value =
     (case truthy_str (map_option js_trim value) of None \<Rightarrow> None
      | Some trimmed \<Rightarrow>
          let candidate = unwrap trimmed
          in (case truthy_str (tryNormalize parse candidate) of
                Some normalized \<Rightarrow> Some normalized
              | None \<Rightarrow> (case peel_punctuation parse candidate of Some next' \<Rightarrow> Some next' | None \<Rightarrow> Some candidate)))"

section \<open>Results\<close>

record task_metrics =
  bm_steps :: "int option"
  bm_durationMs :: "int option"
  bm_inputTokens :: "int option"
  bm_outputTokens :: "int option"
  bm_reasoningTokens :: "int option"
  bm_cachedInputTokens :: "int option"
  bm_inferenceTimeMs :: "int option"

record measured_result = browser_result +
  bx_metrics :: task_metrics

type_synonym page_info = "string option \<times> string option"

definition summarizePageArtifact :: "page_info \<Rightarrow> artifact list" where
  "summarizePageArtifact page =
     (if truthy_str (fst page) = None \<and> truthy_str (snd page) = None then []
      else [\<lparr>af_kind = ''page'', af_title = snd page, af_uri = fst page, af_attachmentId = None, af_filename = None,
              af_mediaType = None, af_metadata = None\<rparr>])"

definition buildBrowserSummary :: "browser_mode \<Rightarrow> result_status \<Rightarrow> page_info \<Rightarrow> string \<Rightarrow> string" where
  "buildBrowserSummary mode status page fallback =
     (let title = map_option js_trim (snd page); url = map_option js_trim (fst page);
          where = (if truthy_str title = None \<and> truthy_str url = None then []
                   else '' on '' @ default_to (or_else title url) [])
      in if status = REscalate then fallback
         else (case mode of BExtract \<Rightarrow> ''Extracted browser data'' | BAct \<Rightarrow> ''Completed browser action''
               | BAgent \<Rightarrow> ''Completed browser workflow'') @ where @ ''.'')"

definition summarizeText :: "browser_mode \<Rightarrow> page_info \<Rightarrow> string option \<Rightarrow> string" where
  "summarizeText mode page text =
     (case truthy_str (map_option js_trim text) of Some t \<Rightarrow> t
      | None \<Rightarrow> buildBrowserSummary mode RCompleted page ''Browser task completed.'')"

definition no_metrics :: task_metrics where
  "no_metrics = \<lparr>bm_steps = None, bm_durationMs = None, bm_inputTokens = None, bm_outputTokens = None,
     bm_reasoningTokens = None, bm_cachedInputTokens = None, bm_inferenceTimeMs = None\<rparr>"

text \<open>What is spread over the metrics: the numbers of an object, and nothing of another value.\<close>

definition mapUsage :: "json option \<Rightarrow> task_metrics \<Rightarrow> task_metrics" where
  "mapUsage usage m =
     (if \<not> (case usage of Some (JObj kvs) \<Rightarrow> True | Some (JArr vs) \<Rightarrow> True | _ \<Rightarrow> False) then m
      else let number = (\<lambda>k. json_num (Option.bind usage (\<lambda>j. json_get j k)))
        in m\<lparr>bm_inputTokens := number ''input_tokens'', bm_outputTokens := number ''output_tokens'',
             bm_reasoningTokens := number ''reasoning_tokens'', bm_cachedInputTokens := number ''cached_input_tokens'',
             bm_inferenceTimeMs := number ''inference_time_ms''\<rparr>)"

definition isEscalationResult :: "result_status \<Rightarrow> string \<Rightarrow> json \<Rightarrow> bool" where
  "isEscalationResult status message output \<longleftrightarrow>
     status \<noteq> REscalate \<and> (text_signal message \<or> isBrowserEscalationSignal output)"

section \<open>Retries\<close>

definition has_part :: "string \<Rightarrow> string \<Rightarrow> bool" where
  "has_part s part = test (PLit part) s"

definition isRetryableBrowserTaskError :: "string \<Rightarrow> bool" where
  "isRetryableBrowserTaskError message \<longleftrightarrow> list_ex (has_part message)
     [''504'', ''502'', ''503'', ''Gateway Time-out'', ''InferenceUpstreamError'', ''ECONNRESET'', ''fetch failed'']"

definition BROWSER_TASK_RETRY_DELAY_MS :: int where "BROWSER_TASK_RETRY_DELAY_MS = 3000"

definition browserTaskRetrySchedule :: "int list" where
  "browserTaskRetrySchedule = [BROWSER_TASK_RETRY_DELAY_MS * 1, BROWSER_TASK_RETRY_DELAY_MS * 2]"

text \<open>\<open>Effect.retry\<close>: after a failure that may be retried, a pause and another try, while there are delays.\<close>

fun retrying :: "(int \<Rightarrow> 's \<Rightarrow> 's) \<Rightarrow> ('e \<Rightarrow> bool) \<Rightarrow> int list \<Rightarrow> ('s, 'e, 'a) prog \<Rightarrow> ('s, 'e, 'a) prog" where
  "retrying sleep again [] m = m"
| "retrying sleep again (d # ds) m = ptry m (\<lambda>r. case r of
     Inr x \<Rightarrow> pret x
   | Inl e \<Rightarrow> if again e then pbind (pmodify (sleep d)) (\<lambda>_. retrying sleep again ds m) else pthrow e)"

section \<open>The library\<close>

text \<open>What is thrown: its message or text, the texts directly in it when it is an object, and whether it is an error.\<close>

record cause =
  cs_message :: string
  cs_texts :: "string list"
  cs_isError :: bool

type_synonym ('w, 'a) call = "'w \<Rightarrow> 'w \<times> (cause + 'a)"

record 'w stage =
  sg_launch :: "('w, unit) call"
  sg_init :: "('w, unit) call"
  sg_page :: "('w, bool) call"
  sg_url :: "('w, string) call"
  sg_title :: "('w, string) call"
  sg_goto :: "string \<Rightarrow> ('w, unit) call"
  sg_extract :: "string \<Rightarrow> json option \<Rightarrow> ('w, json option) call"
  sg_act :: "string \<Rightarrow> ('w, json) call"
  sg_execute :: "string \<Rightarrow> string \<Rightarrow> int \<Rightarrow> ('w, json) call"
  sg_close :: "'w \<Rightarrow> 'w"
  sg_sleep :: "int \<Rightarrow> 'w \<Rightarrow> 'w"
  sg_now :: "'w \<Rightarrow> int"

type_synonym ('w, 'a) browsing = "('w, cause, 'a) prog"

definition call :: "('w, 'a) call \<Rightarrow> ('w, 'a) browsing" where
  "call f = (\<lambda>w. Some (f w))"

definition fail_browser :: "string \<Rightarrow> ('w, 'a) browsing" where
  "fail_browser message = pthrow \<lparr>cs_message = message, cs_texts = [message], cs_isError = True\<rparr>"

definition resolveBrowserPageTitle :: "'w stage \<Rightarrow> ('w, page_info) browsing" where
  "resolveBrowserPageTitle st = pbind (call (sg_page st)) (\<lambda>open_page.
     if \<not> open_page then pret (None, None)
     else pbind (call (sg_url st)) (\<lambda>url.
       ptry (call (sg_title st)) (\<lambda>title.
         pret (truthy_str (Some (js_trim url)),
               case title of Inl _ \<Rightarrow> None | Inr t \<Rightarrow> truthy_str (Some (js_trim t))))))"

definition page_or_nothing :: "'w stage \<Rightarrow> ('w, page_info) browsing" where
  "page_or_nothing st = ptry (resolveBrowserPageTitle st) (\<lambda>r. pret (case r of Inl _ \<Rightarrow> (None, None) | Inr p \<Rightarrow> p))"

section \<open>Settings\<close>

definition STAGEHAND_MODEL :: string where "STAGEHAND_MODEL = ''@cf/moonshotai/kimi-k2.5''"

record browser_bindings =
  bb_browser :: bool
  bb_ai :: bool
  bb_gateway :: "string option"
  bb_nodeEnv :: "string option"

record browser_settings =
  bs_model :: string
  bs_providerLabel :: string
  bs_verbose :: nat

definition browserWorkerSettingsFromBindings :: "browser_bindings \<Rightarrow> browser_settings option" where
  "browserWorkerSettingsFromBindings b =
     (let gatewayId = js_trim (default_to (bb_gateway b) [])
      in if \<not> bb_browser b \<or> \<not> bb_ai b then None
         else Some \<lparr>bs_model = STAGEHAND_MODEL,
           bs_providerLabel = (if gatewayId \<noteq> [] then ''Workers AI via AI Gateway '' @ [CHR 0x22] @ gatewayId @ [CHR 0x22]
             else ''Workers AI binding''),
           bs_verbose = (if js_trim (default_to (bb_nodeEnv b) []) = ''development'' then 1 else 0)\<rparr>)"

definition BROWSER_AGENT_SYSTEM_PROMPT :: string where
  "BROWSER_AGENT_SYSTEM_PROMPT = join_with '' ''
     [''You are a browser specialist.'',
      ''Stay within the current tab unless the instruction explicitly requires otherwise.'',
      ''Use DOM interactions and page navigation for same-tab web work.'',
      ''If the task requires a native dialog, file picker, download/upload flow, CAPTCHA, MFA, multi-tab behavior, or OS-level interaction, stop and say it requires computer escalation.'']"

definition DEFAULT_BROWSER_MAX_STEPS :: int where "DEFAULT_BROWSER_MAX_STEPS = 24"

section \<open>A task\<close>

record browser_request = browser_input +
  bq_maxSteps :: "int option"
  bq_outputSchema :: "json option"

fun level_name :: "side_effect_level \<Rightarrow> string" where
  "level_name ReadLevel = ''read''"
| "level_name SoftWrite = ''soft-write''"
| "level_name HardWrite = ''hard-write''"

fun mode_text :: "browser_mode \<Rightarrow> string" where
  "mode_text BExtract = ''extract''"
| "mode_text BAct = ''act''"
| "mode_text BAgent = ''agent''"

definition buildBrowserInstruction :: "browser_request \<Rightarrow> string" where
  "buildBrowserInstruction q = join_with [CHR 0x0A, CHR 0x0A]
     ([js_trim (bi_instruction q)] @
      (case truthy_str (map_option js_trim (bi_expectedOutcome q)) of None \<Rightarrow> []
       | Some e \<Rightarrow> [''Expected outcome: '' @ e]) @
      [''Side effect level: '' @ level_name (bi_sideEffectLevel q) @ ''.''] @
      (if bi_sideEffectLevel q = ReadLevel
       then [''Prefer read-only page inspection. If the task cannot be completed without writes, return escalate.''] else []) @
      (if bi_sideEffectLevel q = HardWrite
       then [''Perform irreversible writes only when the instruction explicitly requires them.''] else []))"

definition normalize_request :: "url_parser \<Rightarrow> browser_request \<Rightarrow> browser_request" where
  "normalize_request parse q = q\<lparr>bi_instruction := js_trim (bi_instruction q),
     bi_startUrl := sanitizeBrowserStartUrl parse (bi_startUrl q),
     bi_expectedOutcome := truthy_str (Some (js_trim (default_to (bi_expectedOutcome q) [])))\<rparr>"

definition web_scheme :: "string \<Rightarrow> bool" where
  "web_scheme url \<longleftrightarrow> starts_with (to_lower url) ''http://'' \<or> starts_with (to_lower url) ''https://''"

definition open_start_url :: "'w stage \<Rightarrow> browser_request \<Rightarrow> ('w, unit) browsing" where
  "open_start_url st q =
     (case js_trim (default_to (bi_startUrl q) []) of
        [] \<Rightarrow> pret ()
      | c # cs \<Rightarrow> let startUrl = c # cs
          in if \<not> web_scheme startUrl
             then fail_browser (''Invalid startUrl scheme (only http/https allowed): '' @ startUrl)
             else pbind (call (sg_page st)) (\<lambda>open_page.
               if \<not> open_page then fail_browser ''Browser page unavailable after initialization.''
               else call (sg_goto st startUrl)))"

text \<open>The data of an extraction, or all of it.\<close>

definition extraction_output :: "json option \<Rightarrow> json option" where
  "extraction_output v =
     (case v of Some (JObj kvs) \<Rightarrow> or_else (json_get (JObj kvs) ''data'') (Some (JObj kvs)) | _ \<Rightarrow> v)"

definition json_items :: "json option \<Rightarrow> json list option" where
  "json_items v = (case v of Some (JArr xs) \<Rightarrow> Some xs | _ \<Rightarrow> None)"

definition runtime_data :: "browser_settings \<Rightarrow> browser_mode \<Rightarrow> (string \<times> json) list" where
  "runtime_data bs mode = [(''model'', JStr (bs_model bs)), (''providerLabel'', JStr (bs_providerLabel bs)),
     (''mode'', JStr (mode_text mode))]"

definition run_extract ::
    "browser_settings \<Rightarrow> 'w stage \<Rightarrow> int \<Rightarrow> browser_request \<Rightarrow> ('w, measured_result) browsing" where
  "run_extract bs st startedAt q = pbind (call (sg_page st)) (\<lambda>open_page.
     if \<not> open_page then fail_browser ''Browser page unavailable.''
     else pbind (call (sg_extract st (bi_instruction q) (bq_outputSchema q))) (\<lambda>extraction.
       pbind (resolveBrowserPageTitle st) (\<lambda>page. pbind (pget (sg_now st)) (\<lambda>now.
         pret \<lparr>br_status = RCompleted,
           br_summary = summarizeText BExtract page (Some ''Structured data extracted from the page.''),
           br_url = fst page, br_title = snd page, br_output = extraction_output extraction,
           br_artifacts = Some (summarizePageArtifact page), br_issues = Some [], br_actions = None,
           br_runtimeData = Some (runtime_data bs (bi_mode q)),
           bx_metrics = no_metrics\<lparr>bm_steps := Some 1, bm_durationMs := Some (now - startedAt)\<rparr>\<rparr>))))"

definition run_act ::
    "browser_settings \<Rightarrow> 'w stage \<Rightarrow> int \<Rightarrow> browser_request \<Rightarrow> ('w, measured_result) browsing" where
  "run_act bs st startedAt q = pbind (call (sg_page st)) (\<lambda>open_page.
     if \<not> open_page then fail_browser ''Browser page unavailable.''
     else pbind (call (sg_act st (bi_instruction q))) (\<lambda>result.
       pbind (resolveBrowserPageTitle st) (\<lambda>page. pbind (pget (sg_now st)) (\<lambda>now.
         let summary = summarizeText BAct page (json_str (json_get result ''message''));
             failed = (json_get result ''success'' = Some (JBool False));
             actions = json_items (json_get result ''actions'');
             escalated = isEscalationResult (if failed then RPartial else RCompleted) summary result
         in pret \<lparr>br_status = (if escalated then REscalate else if failed then RPartial else RCompleted),
              br_summary = summary, br_url = fst page, br_title = snd page, br_output = None,
              br_artifacts = Some (summarizePageArtifact page), br_issues = Some (if failed then [summary] else []),
              br_actions = Some (default_to actions []), br_runtimeData = Some (runtime_data bs (bi_mode q)),
              bx_metrics = mapUsage (json_get result ''usage'') (no_metrics\<lparr>
                bm_steps := Some (case actions of None \<Rightarrow> 1 | Some xs \<Rightarrow> int (length xs)),
                bm_durationMs := Some (now - startedAt)\<rparr>)\<rparr>))))"

text \<open>The structured output of an agent's task, if one is wanted, and what went wrong with it.\<close>

definition agent_output :: "'w stage \<Rightarrow> browser_request \<Rightarrow> ('w, json option \<times> string list) browsing" where
  "agent_output st q =
     (case bq_outputSchema q of None \<Rightarrow> pret (None, [])
      | Some schema \<Rightarrow> pbind (call (sg_page st)) (\<lambda>open_page.
          if \<not> open_page then pret (None, [''Browser page unavailable for structured output extraction.''])
          else ptry (call (sg_extract st
              (default_to (truthy_str (map_option js_trim (bi_expectedOutcome q))) (bi_instruction q)) (Some schema)))
            (\<lambda>r. pret (case r of Inl e \<Rightarrow> (None, [cs_message e]) | Inr v \<Rightarrow> (extraction_output v, [])))))"

definition unclean_note :: "json option \<times> string list \<Rightarrow> string list" where
  "unclean_note oi =
     (if fst oi \<noteq> None \<and> snd oi \<noteq> [] then ''Structured output extraction did not complete cleanly.'' # snd oi
      else snd oi)"

definition run_agent ::
    "browser_settings \<Rightarrow> 'w stage \<Rightarrow> int \<Rightarrow> browser_request \<Rightarrow> ('w, measured_result) browsing" where
  "run_agent bs st startedAt q =
     (let maxSteps = default_to (bq_maxSteps q) DEFAULT_BROWSER_MAX_STEPS
      in pbind (call (sg_execute st BROWSER_AGENT_SYSTEM_PROMPT (buildBrowserInstruction q) maxSteps)) (\<lambda>result.
       pbind (resolveBrowserPageTitle st) (\<lambda>page. pbind (agent_output st q) (\<lambda>oi. pbind (pget (sg_now st)) (\<lambda>now.
         let summary = summarizeText BAgent page (json_str (json_get result ''message''));
             completed = (case json_get result ''completed'' of None \<Rightarrow> json_get result ''success''
               | Some JNull \<Rightarrow> json_get result ''success'' | Some v \<Rightarrow> Some v);
             failed = (completed = Some (JBool False));
             issues = unclean_note oi;
             actions = default_to (json_items (json_get result ''actions'')) [];
             escalated = isEscalationResult (if failed then RPartial else RCompleted) summary result
         in pret \<lparr>br_status = (if escalated then REscalate else if failed \<or> issues \<noteq> [] then RPartial else RCompleted),
              br_summary = summary, br_url = fst page, br_title = snd page, br_output = fst oi,
              br_artifacts = Some (summarizePageArtifact page),
              br_issues = Some (if failed then summary # issues else issues), br_actions = Some actions,
              br_runtimeData = Some (runtime_data bs (bi_mode q) @ [(''actionsCount'', JNum (int (length actions)))]),
              bx_metrics = mapUsage (json_get result ''usage'') (no_metrics\<lparr>
                bm_steps := Some (case json_items (json_get result ''steps'') of
                  None \<Rightarrow> maxSteps | Some xs \<Rightarrow> int (length xs)),
                bm_durationMs := Some (now - startedAt)\<rparr>)\<rparr>)))))"

definition run_mode ::
    "browser_settings \<Rightarrow> 'w stage \<Rightarrow> int \<Rightarrow> browser_request \<Rightarrow> ('w, measured_result) browsing" where
  "run_mode bs st startedAt q = (case bi_mode q of BExtract \<Rightarrow> run_extract bs st startedAt q
     | BAct \<Rightarrow> run_act bs st startedAt q | BAgent \<Rightarrow> run_agent bs st startedAt q)"

text \<open>What an exception becomes: an escalation, or an error with its message.\<close>

definition task_failed ::
    "browser_settings \<Rightarrow> 'w stage \<Rightarrow> int \<Rightarrow> browser_mode \<Rightarrow> cause \<Rightarrow> ('w, cause, measured_result) prog" where
  "task_failed bs st startedAt mode e =
     (if text_signal (cs_message e) \<or> list_ex text_signal (cs_texts e) then
        pbind (page_or_nothing st) (\<lambda>page. pbind (pget (sg_now st)) (\<lambda>now.
          pret \<lparr>br_status = REscalate, br_summary = cs_message e, br_url = fst page, br_title = snd page,
            br_output = None, br_artifacts = Some (summarizePageArtifact page), br_issues = Some [cs_message e],
            br_actions = None, br_runtimeData = Some (runtime_data bs mode),
            bx_metrics = no_metrics\<lparr>bm_durationMs := Some (now - startedAt)\<rparr>\<rparr>))
      else fail_browser (cs_message e))"

text \<open>The library is closed in the end, if it was initialized.\<close>

definition closing :: "'w stage \<Rightarrow> ('w, 'a) browsing \<Rightarrow> ('w, 'a) browsing" where
  "closing st m = ptry m (\<lambda>r. pbind (pmodify (sg_close st)) (\<lambda>_. case r of Inl e \<Rightarrow> pthrow e | Inr x \<Rightarrow> pret x))"

text \<open>What is thrown before the task's own handler.\<close>

definition mapCause :: "cause \<Rightarrow> cause" where
  "mapCause e = (if cs_isError e then e else e\<lparr>cs_message := ''Browser task failed unexpectedly.'', cs_isError := True\<rparr>)"

definition runBrowserTask ::
    "url_parser \<Rightarrow> browser_settings \<Rightarrow> 'w stage \<Rightarrow> browser_request \<Rightarrow> ('w, measured_result) browsing" where
  "runBrowserTask parse bs st q =
     pbind (pget (sg_now st)) (\<lambda>startedAt.
     pbind (pmap_error mapCause (call (sg_launch st))) (\<lambda>_.
     ptry (call (sg_init st)) (\<lambda>r. case r of
       Inl e \<Rightarrow> task_failed bs st startedAt (bi_mode q) e
     | Inr _ \<Rightarrow> closing st (ptry
         (let normalized = normalize_request parse q
          in pbind (open_start_url st normalized) (\<lambda>_. run_mode bs st startedAt normalized))
         (\<lambda>r. case r of Inl e \<Rightarrow> task_failed bs st startedAt (bi_mode q) e | Inr x \<Rightarrow> pret x)))))"

section \<open>The service\<close>

definition runTask ::
    "url_parser \<Rightarrow> browser_bindings \<Rightarrow> 'w stage \<Rightarrow> browser_request \<Rightarrow> ('w, string, measured_result) prog" where
  "runTask parse b st q = (case browserWorkerSettingsFromBindings b of
     None \<Rightarrow> pthrow (''Browser LLM requires BROWSER and Workers AI ([ai] binding = '' @ [CHR 0x22] @ ''AI'' @ [CHR 0x22] @
       ''). Optional: CLOUDFLARE_AI_GATEWAY_ID.'')
   | Some bs \<Rightarrow> pmap_error cs_message (retrying (sg_sleep st) (\<lambda>e. isRetryableBrowserTaskError (cs_message e))
       browserTaskRetrySchedule (runBrowserTask parse bs st q)))"

definition runTask_disabled :: "string \<Rightarrow> ('w, string, measured_result) prog" where
  "runTask_disabled dash = pthrow (''Headless browsing is not available in this runtime (browser not configured). Tell the user plainly ''
     @ dash @ '' do not invent vague blocks.'')"

section \<open>Progress\<close>

record log_entry =
  lg_category :: "json option"
  lg_level :: "json option"
  lg_message :: "json option"
  lg_auxiliary :: "json option"

record progress_event =
  pe_phase :: "string option"
  pe_category :: "string option"
  pe_message :: string
  pe_level :: "json option"
  pe_stepIndex :: "nat option"
  pe_page :: page_info
  pe_auxiliary :: "(string \<times> json option) list option"

definition PROGRESS_CATEGORIES :: "string list" where
  "PROGRESS_CATEGORIES = [''agent'', ''action'', ''observation'', ''extraction'', ''act'', ''observe'', ''extract'']"

definition shouldEmitProgress :: "log_entry \<Rightarrow> bool" where
  "shouldEmitProgress e \<longleftrightarrow>
     truthy_str (map_option js_trim (json_str (lg_message e))) \<noteq> None \<and>
     default_to (json_num (lg_level e)) 1 \<le> 1 \<and>
     (case json_str (lg_category e) of None \<Rightarrow> False | Some c \<Rightarrow> c \<in> set PROGRESS_CATEGORIES)"

definition is_agent_call :: "log_entry \<Rightarrow> bool" where
  "is_agent_call e \<longleftrightarrow> json_str (lg_category e) = Some ''agent'' \<and>
     starts_with (default_to (json_str (lg_message e)) []) ''Agent calling tool:''"

definition shortened :: "string \<Rightarrow> string" where
  "shortened t = (if length t > 2000 then take 2000 t @ ''...'' else t)"

definition auxiliary_entry :: "(json \<Rightarrow> string) \<Rightarrow> json \<Rightarrow> json option" where
  "auxiliary_entry stringify v =
     (case v of
        JObj kvs \<Rightarrow> (case json_get v ''value'' of
            None \<Rightarrow> None
          | Some (JStr s) \<Rightarrow> Some (JStr (shortened s))
          | Some raw \<Rightarrow> Some (JStr (shortened (stringify raw))))
      | JArr xs \<Rightarrow> None
      | _ \<Rightarrow> Some v)"

text \<open>The entries of an object; those of an array are none here, as no log has one.\<close>

definition normalizeAuxiliary :: "(json \<Rightarrow> string) \<Rightarrow> json option \<Rightarrow> (string \<times> json option) list option" where
  "normalizeAuxiliary stringify v =
     (case v of
        Some (JObj kvs) \<Rightarrow> if kvs = [] then None else Some (map (\<lambda>(k, e). (k, auxiliary_entry stringify e)) kvs)
      | _ \<Rightarrow> None)"

text \<open>The number of the agent's calls so far, and the event for the listener.\<close>

definition stagehandLogger ::
    "(json \<Rightarrow> string) \<Rightarrow> 'w stage \<Rightarrow> bool \<Rightarrow> bool \<Rightarrow> nat \<Rightarrow> log_entry \<Rightarrow> ('w, nat \<times> progress_event option) browsing" where
  "stagehandLogger stringify st initialized listening agentStepIndex e =
     (if json_str (lg_message e) = Some ''Custom LLM clients are currently not supported in API mode'' \<or>
         \<not> listening \<or> \<not> shouldEmitProgress e
      then pret (agentStepIndex, None)
      else let n = (if is_agent_call e then agentStepIndex + 1 else agentStepIndex)
        in pbind (if initialized then page_or_nothing st else pret (None, None)) (\<lambda>page.
          pret (n, Some
            \<lparr>pe_phase = (if is_agent_call e then Some ''agent_step'' else json_str (lg_category e)),
             pe_category = json_str (lg_category e), pe_message = default_to (json_str (lg_message e)) [],
             pe_level = lg_level e, pe_stepIndex = (if n > 0 then Some n else None), pe_page = page,
             pe_auxiliary = normalizeAuxiliary stringify (lg_auxiliary e)\<rparr>)))"

end
