(* ===== verification/BrowserProps.thy ===== *)
theory BrowserProps
  imports Browser Triples
begin

text \<open>
  The tasks of the browser: the browser is closed whatever happens, only web addresses are opened, a task is
  tried three times at most, and what the status of a result says.
\<close>

section \<open>What every task keeps\<close>

definition call_keeps :: "('w \<Rightarrow> bool) \<Rightarrow> ('w, 'a) call \<Rightarrow> bool" where
  "call_keeps I f \<longleftrightarrow> (\<forall>w. I w \<longrightarrow> I (fst (f w)))"

lemma keeps_call [keeps_rules]: "call_keeps I f \<Longrightarrow> keeps I (call f)"
  unfolding keeps_def call_keeps_def call_def by (metis fst_conv option.inject)

text \<open>The calls a task makes between the start of the browser and its end, of web addresses only.\<close>

definition pages_keep :: "('w \<Rightarrow> bool) \<Rightarrow> 'w stage \<Rightarrow> bool" where
  "pages_keep I st \<longleftrightarrow>
     call_keeps I (sg_page st) \<and> call_keeps I (sg_url st) \<and> call_keeps I (sg_title st) \<and>
     (\<forall>u. web_scheme u \<longrightarrow> call_keeps I (sg_goto st u)) \<and>
     (\<forall>i v. call_keeps I (sg_extract st i v)) \<and> (\<forall>i. call_keeps I (sg_act st i)) \<and>
     (\<forall>s i n. call_keeps I (sg_execute st s i n))"

lemma keeps_pages:
  assumes "pages_keep I st"
  shows "keeps I (call (sg_page st))" "keeps I (call (sg_url st))" "keeps I (call (sg_title st))"
    "web_scheme u \<Longrightarrow> keeps I (call (sg_goto st u))" "keeps I (call (sg_extract st i v))"
    "keeps I (call (sg_act st i))" "keeps I (call (sg_execute st p i n))"
  using assms by (auto simp: pages_keep_def intro: keeps_call)

lemma keeps_fail [keeps_rules]: "keeps I (fail_browser m)"
  unfolding fail_browser_def by (rule keeps_basic)

lemma keeps_title:
  assumes "pages_keep I st"
  shows "keeps I (resolveBrowserPageTitle st)" "keeps I (page_or_nothing st)"
  unfolding page_or_nothing_def resolveBrowserPageTitle_def by (intro keeps_rules keeps_pages [OF assms])+

lemma keeps_open:
  assumes "pages_keep I st"
  shows "keeps I (open_start_url st q)"
  unfolding open_start_url_def Let_def
  by (auto intro!: keeps_rules keeps_pages [OF assms] split: list.split)

lemma keeps_mode:
  assumes "pages_keep I st"
  shows "keeps I (run_mode bs st t q)"
  unfolding run_mode_def run_extract_def run_act_def run_agent_def agent_output_def Let_def
  by (auto intro!: keeps_rules keeps_pages [OF assms] keeps_title [OF assms] split: browser_mode.split option.split)

lemma keeps_failed:
  assumes "pages_keep I st"
  shows "keeps I (task_failed bs st t mode e)"
  unfolding task_failed_def by (intro keeps_rules keeps_title [OF assms])

lemma keeps_body:
  assumes "pages_keep I st"
  shows "keeps I (ptry (let normalized = normalize_request parse q
      in pbind (open_start_url st normalized) (\<lambda>_. run_mode bs st t normalized))
    (\<lambda>r. case r of Inl e \<Rightarrow> task_failed bs st t mode e | Inr x \<Rightarrow> pret x))"
  unfolding Let_def by (intro keeps_rules keeps_open [OF assms] keeps_mode [OF assms] keeps_failed [OF assms])

text \<open>
  A predicate that every call keeps, opening web addresses included, is kept by a task: no other address is
  ever opened.
\<close>

definition stage_keeps :: "('w \<Rightarrow> bool) \<Rightarrow> 'w stage \<Rightarrow> bool" where
  "stage_keeps I st \<longleftrightarrow> pages_keep I st \<and> call_keeps I (sg_launch st) \<and> call_keeps I (sg_init st) \<and>
     (\<forall>w. I w \<longrightarrow> I (sg_close st w)) \<and> (\<forall>d w. I w \<longrightarrow> I (sg_sleep st d w))"

lemma keeps_retrying:
  assumes "keeps I m" "\<And>d w. I w \<Longrightarrow> I (sleep d w)"
  shows "keeps I (retrying sleep again ds m)"
proof (induction ds)
  case (Cons d ds)
  have "keeps I (pmodify (sleep d))" using assms(2) by (auto simp: keeps_def pmodify_def)
  with Cons assms(1) show ?case by (auto intro!: keeps_rules)
qed (simp add: assms(1))

lemma keeps_task:
  assumes "stage_keeps I st"
  shows "keeps I (runBrowserTask parse bs st q)"
proof -
  have p: "pages_keep I st" and s: "keeps I (call (sg_launch st))" "keeps I (call (sg_init st))"
    "keeps I (pmodify (sg_close st))"
    using assms by (auto simp: stage_keeps_def keeps_def pmodify_def intro: keeps_call [unfolded keeps_def, rule_format])
  show ?thesis unfolding runBrowserTask_def closing_def
    by (intro keeps_rules s keeps_body [OF p] keeps_failed [OF p])
qed

theorem web_pages_only:
  assumes "stage_keeps I st" "I w" "runTask parse b st q w = Some (w', r)"
  shows "I w'"
proof -
  have "keeps I (runTask parse b st q)"
    unfolding runTask_def
    by (intro keeps_rules keeps_retrying keeps_task assms(1)) (use assms(1) in \<open>simp add: stage_keeps_def\<close>)
  with assms(2,3) show ?thesis unfolding keeps_def by blast
qed

section \<open>The end of the browser\<close>

text \<open>
  Closed before, closed after: starting the library and a failed initialization leave the browser closed,
  closing closes it, and of the calls between nothing is said.
\<close>

definition closes :: "('w \<Rightarrow> bool) \<Rightarrow> 'w stage \<Rightarrow> bool" where
  "closes Z st \<longleftrightarrow> (\<forall>w. Z w \<longrightarrow> Z (fst (sg_launch st w))) \<and>
     (\<forall>w w' e. Z w \<longrightarrow> sg_init st w = (w', Inl e) \<longrightarrow> Z w') \<and>
     (\<forall>w. Z (sg_close st w)) \<and> (\<forall>d w. Z w \<longrightarrow> Z (sg_sleep st d w)) \<and>
     (\<forall>w. Z w \<longrightarrow> Z (fst (sg_page st w))) \<and> (\<forall>w. Z w \<longrightarrow> Z (fst (sg_url st w))) \<and> (\<forall>w. Z w \<longrightarrow> Z (fst (sg_title st w)))"

lemma closing_closes:
  assumes "\<And>w. Z (sg_close st w)" "closing st m w = Some (w', r)"
  shows "Z w'"
proof -
  obtain w1 r1 where "m w = Some (w1, r1)"
      "pbind (pmodify (sg_close st)) (\<lambda>_. case r1 of Inl e \<Rightarrow> pthrow e | Inr x \<Rightarrow> pret x) w1 = Some (w', r)"
    using assms(2) unfolding closing_def ptry_Some by blast
  then have "w' = sg_close st w1" by (cases r1) (auto simp: pbind_modify pbasic_Some)
  with assms(1) show ?thesis by simp
qed

lemma task_closes:
  assumes "closes Z st"
  shows "keeps Z (runBrowserTask parse bs st q)"
proof -
  have launch: "keeps Z (call (sg_launch st))" and title: "keeps Z (page_or_nothing st)"
    using assms unfolding page_or_nothing_def resolveBrowserPageTitle_def
    by (auto simp: closes_def call_keeps_def intro!: keeps_rules)
  have failed: "keeps Z (task_failed bs st t (bi_mode q) e)" for t e
    unfolding task_failed_def by (intro keeps_rules title)
  have close: "\<And>w. Z (sg_close st w)" using assms by (simp add: closes_def)
  have init: "\<And>w w' e. Z w \<Longrightarrow> sg_init st w = (w', Inl e) \<Longrightarrow> Z w'"
    using assms unfolding closes_def by metis
  have body: "keeps Z (ptry (call (sg_init st)) (\<lambda>r. case r of
       Inl e \<Rightarrow> task_failed bs st t (bi_mode q) e | Inr u \<Rightarrow> closing st m))" for t m
    unfolding keeps_def
  proof (intro allI impI)
    fix w w' r
    assume w: "Z w" "ptry (call (sg_init st)) (\<lambda>r. case r of
       Inl e \<Rightarrow> task_failed bs st t (bi_mode q) e | Inr u \<Rightarrow> closing st m) w = Some (w', r)"
    obtain w1 r1 where i: "sg_init st w = (w1, r1)" by (cases "sg_init st w")
    show "Z w'"
    proof (cases r1)
      case (Inl e)
      then have z: "Z w1" using init [OF w(1)] i by simp
      have f: "task_failed bs st t (bi_mode q) e w1 = Some (w', r)"
        using w(2) i Inl by (simp add: ptry_def call_def)
      show ?thesis by (rule keepsD [OF failed f z])
    next
      case (Inr u)
      with i w(2) have "closing st m w1 = Some (w', r)" by (simp add: ptry_def call_def)
      with close show ?thesis by (rule closing_closes)
    qed
  qed
  show ?thesis unfolding runBrowserTask_def
    by (rule keeps_bind [OF keeps_basic(3)], rule keeps_bind [OF keeps_error [OF launch]], rule body)
qed

theorem browser_closed:
  assumes "closes Z st" "Z w" "runTask parse b st q w = Some (w', r)"
  shows "Z w'"
proof -
  have "keeps Z (runTask parse b st q)"
    unfolding runTask_def
    by (intro keeps_rules keeps_retrying task_closes assms(1)) (use assms(1) in \<open>simp add: closes_def\<close>)
  with assms(2,3) show ?thesis unfolding keeps_def by blast
qed

section \<open>Attempts\<close>

text \<open>A count that only the start of the library raises, by one, grows by three at most.\<close>

definition counts :: "('w \<Rightarrow> nat) \<Rightarrow> 'w stage \<Rightarrow> bool" where
  "counts n st \<longleftrightarrow> (\<forall>k. stage_keeps (\<lambda>w. n w \<le> k) (st\<lparr>sg_launch := \<lambda>w. (w, Inr ())\<rparr>)) \<and>
     (\<forall>w. n (fst (sg_launch st w)) \<le> Suc (n w)) \<and> (\<forall>k u. call_keeps (\<lambda>w. n w \<le> k) (sg_goto st u))"

lemma retrying_counts:
  assumes "\<And>k. triple (\<lambda>w. n w \<le> k) m (\<lambda>_ w. n w \<le> Suc k) (\<lambda>w. n w \<le> Suc k)"
    and "\<And>d w. n (sleep d w) \<le> (n w :: nat)"
  shows "triple (\<lambda>w. n w \<le> k) (retrying sleep again ds m)
    (\<lambda>_ w. n w \<le> k + Suc (length ds)) (\<lambda>w. n w \<le> k + Suc (length ds))"
proof (induction ds arbitrary: k)
  case Nil
  then show ?case using assms(1) by simp
next
  case (Cons d ds)
  have sleep: "triple (\<lambda>w. n w \<le> Suc k) (pmodify (sleep d)) (\<lambda>_ w. n w \<le> Suc k) (\<lambda>_. False)"
    using assms(2) by (auto intro!: tripleI simp: pmodify_def intro: le_trans)
  show ?case unfolding retrying.simps
  proof (rule triple_try [OF assms(1) [of k]])
    fix x show "triple (\<lambda>w. n w \<le> Suc k) (case Inr x of Inr x \<Rightarrow> pret x | Inl e \<Rightarrow>
        if again e then pbind (pmodify (sleep d)) (\<lambda>_. retrying sleep again ds m) else pthrow e)
        (\<lambda>_ w. n w \<le> k + Suc (length (d # ds))) (\<lambda>w. n w \<le> k + Suc (length (d # ds)))"
      by (auto intro: triple_return)
  next
    fix e
    have "triple (\<lambda>w. n w \<le> Suc k) (pbind (pmodify (sleep d)) (\<lambda>_. retrying sleep again ds m))
        (\<lambda>_ w. n w \<le> k + Suc (length (d # ds))) (\<lambda>w. n w \<le> k + Suc (length (d # ds)))"
    proof (rule triple_bind)
      show "triple (\<lambda>w. n w \<le> Suc k) (pmodify (sleep d)) (\<lambda>_ w. n w \<le> Suc k)
          (\<lambda>w. n w \<le> k + Suc (length (d # ds)))" by (rule triple_weaken [OF sleep]) simp_all
      show "triple (\<lambda>w. n w \<le> Suc k) (retrying sleep again ds m)
          (\<lambda>_ w. n w \<le> k + Suc (length (d # ds))) (\<lambda>w. n w \<le> k + Suc (length (d # ds)))" for x :: unit
        using Cons.IH [of "Suc k"] by simp
    qed
    then show "triple (\<lambda>w. n w \<le> Suc k) (case Inl e of Inr x \<Rightarrow> pret x | Inl e \<Rightarrow>
        if again e then pbind (pmodify (sleep d)) (\<lambda>_. retrying sleep again ds m) else pthrow e)
        (\<lambda>_ w. n w \<le> k + Suc (length (d # ds))) (\<lambda>w. n w \<le> k + Suc (length (d # ds)))"
      by (auto intro: triple_throw)
  qed
qed

lemma task_counts:
  assumes "counts n st"
  shows "triple (\<lambda>w. n w \<le> k) (runBrowserTask parse bs st q) (\<lambda>_ w. n w \<le> Suc k) (\<lambda>w. n w \<le> Suc k)"
proof -
  have k: "stage_keeps (\<lambda>w. n w \<le> Suc k) (st\<lparr>sg_launch := \<lambda>w. (w, Inr ())\<rparr>)" using assms by (simp add: counts_def)
  then have p: "pages_keep (\<lambda>w. n w \<le> Suc k) st" and i: "keeps (\<lambda>w. n w \<le> Suc k) (call (sg_init st))"
    and c: "keeps (\<lambda>w. n w \<le> Suc k) (pmodify (sg_close st))"
    by (auto simp: stage_keeps_def pages_keep_def keeps_def pmodify_def intro: keeps_call [unfolded keeps_def, rule_format])
  have launch: "triple (\<lambda>w. n w \<le> k) (pmap_error mapCause (call (sg_launch st))) (\<lambda>_ w. n w \<le> Suc k) (\<lambda>w. n w \<le> Suc k)"
    using assms by (intro triple_map_error)
      (auto intro!: tripleI simp: call_def counts_def, (metis fst_conv le_trans not_less_eq_eq)+)
  have rest: "keeps (\<lambda>w. n w \<le> Suc k) (ptry (call (sg_init st)) (\<lambda>r. case r of
       Inl e \<Rightarrow> task_failed bs st t (bi_mode q) e
     | Inr _ \<Rightarrow> closing st (ptry
         (let normalized = normalize_request parse q
          in pbind (open_start_url st normalized) (\<lambda>_. run_mode bs st t normalized))
         (\<lambda>r. case r of Inl e \<Rightarrow> task_failed bs st t (bi_mode q) e | Inr x \<Rightarrow> pret x))))" for t
    unfolding closing_def by (intro keeps_rules i c keeps_body [OF p] keeps_failed [OF p])
  show ?thesis unfolding runBrowserTask_def
    by (rule triple_bind [OF triple_get [where Q = "\<lambda>_ w. n w \<le> k"]], assumption, rule triple_bind [OF launch],
        rule triple_of_keeps [OF rest])
qed

theorem three_attempts:
  assumes "counts n st" "runTask parse b st q w = Some (w', r)"
  shows "n w' \<le> n w + 3"
proof (cases "browserWorkerSettingsFromBindings b")
  case None
  with assms(2) show ?thesis by (simp add: runTask_def pthrow_def)
next
  case (Some bs)
  have sleep: "n (sg_sleep st d w) \<le> n w" for d w
    using assms(1) unfolding counts_def stage_keeps_def by (metis (no_types, lifting) order_refl stage.select_convs(11) stage.update_convs(1) stage.surjective)
  have "triple (\<lambda>v. n v \<le> n w) (retrying (sg_sleep st) (\<lambda>e. isRetryableBrowserTaskError (cs_message e))
      browserTaskRetrySchedule (runBrowserTask parse bs st q))
      (\<lambda>_ v. n v \<le> n w + Suc (length browserTaskRetrySchedule))
      (\<lambda>v. n v \<le> n w + Suc (length browserTaskRetrySchedule))"
    by (rule retrying_counts, rule task_counts, rule assms(1), rule sleep)
  then have "triple (\<lambda>v. n v \<le> n w) (runTask parse b st q) (\<lambda>_ v. n v \<le> n w + 3) (\<lambda>v. n v \<le> n w + 3)"
    unfolding runTask_def Some option.case
    by (intro triple_map_error) (simp add: browserTaskRetrySchedule_def numeral_eq_Suc)
  with assms(2) show ?thesis by (cases r) (auto dest: triple_ok triple_error)
qed

text \<open>An error that is not passing ends the attempts.\<close>

theorem no_retry:
  assumes "m w = Some (w', Inl e)" "\<not> again e"
  shows "retrying sleep again ds m w = Some (w', Inl e)"
  using assms by (cases ds) (simp_all add: ptry_def pthrow_def)

section \<open>What a result says\<close>

text \<open>The structured output and its problems exclude each other: the note on both is never made.\<close>

lemma agent_output_clean:
  assumes "agent_output st q w = Some (w', Inr oi)"
  shows "fst oi = None \<or> snd oi = []" "unclean_note oi = snd oi"
proof -
  show "fst oi = None \<or> snd oi = []"
    using assms
    by (auto simp: agent_output_def pret_def ptry_Some elim!: pbindE split: option.splits if_splits sum.splits)
      (metis fst_conv snd_conv sum.exhaust)
  then show "unclean_note oi = snd oi" by (auto simp: unclean_note_def)
qed

text \<open>
  A task that ends as completed has no issues, and neither its summary nor what the library answered asks for
  a computer.
\<close>

theorem completed_clean:
  assumes "run_mode bs st t q w = Some (w', Inr v)" "br_status v = RCompleted"
  shows "br_issues v = Some [] \<and> (bi_mode q \<noteq> BExtract \<longrightarrow> \<not> text_signal (br_summary v))"
  using assms
  by (auto simp: run_mode_def run_extract_def run_act_def run_agent_def Let_def pret_def isEscalationResult_def
      fail_browser_def pthrow_def elim!: pbind_okE split: browser_mode.splits if_splits)

section \<open>A write that is repeated\<close>

definition demo_stage :: "(nat \<times> bool) stage" where
  "demo_stage =
     \<lparr>sg_launch = (\<lambda>w. (w, Inr ())), sg_init = (\<lambda>(n, b). ((n, True), Inr ())), sg_page = (\<lambda>w. (w, Inr True)),
      sg_url = (\<lambda>w. (w, Inr ''https://example.com/'')), sg_title = (\<lambda>w. (w, Inr ''Example'')),
      sg_goto = (\<lambda>u w. (w, Inr ())), sg_extract = (\<lambda>i v w. (w, Inr None)),
      sg_act = (\<lambda>i (n, b). ((n + 1, b), if n < 2
        then Inl \<lparr>cs_message = ''502 Bad Gateway'', cs_texts = [], cs_isError = True\<rparr>
        else Inr (JObj [(''success'', JBool True), (''message'', JStr ''Order placed'')]))),
      sg_execute = (\<lambda>p i n w. (w, Inr (JObj []))), sg_close = (\<lambda>(n, b). (n, False)), sg_sleep = (\<lambda>d w. w),
      sg_now = (\<lambda>w. 0)\<rparr>"

definition demo_request :: browser_request where
  "demo_request = \<lparr>bi_mode = BAct, bi_instruction = ''Place the order'', bi_startUrl = None,
     bi_expectedOutcome = None, bi_sideEffectLevel = HardWrite, bq_maxSteps = None, bq_outputSchema = None\<rparr>"

definition demo_bindings :: browser_bindings where
  "demo_bindings = \<lparr>bb_browser = True, bb_ai = True, bb_gateway = None, bb_nodeEnv = None\<rparr>"

text \<open>A write whose answer is lost is made again: here the order is placed three times.\<close>

lemma write_repeated:
  "map_option fst (runTask (\<lambda>s. None) demo_bindings demo_stage demo_request (0, False)) = Some (3, False)"
  by code_simp
section \<open>Addresses that are cut\<close>

text \<open>A closing parenthesis that belongs to the address is taken for a wrapper.\<close>

lemma parenthesis_lost:
  "unwrap ''https://en.wikipedia.org/wiki/Mercury_(planet)'' = ''https://en.wikipedia.org/wiki/Mercury_(planet''"
  by code_simp

end
