(* ===== verification/Worker.thy ===== *)
theory Worker
  imports Complex_Main Attachments Identity Integrations
begin

text \<open>
  The routes of the worker (\<open>apps/api/src/worker.ts\<close>, and \<open>apps/api/src/index.ts\<close>, which serves the same in a
  process of its own) that decide something themselves: downloads, connection links and the broker's webhook, with
  \<open>apps/api/src/composio/expired-account.ts\<close> and \<open>packages/computer/src/harness/telegram-chat-id.ts\<close>.  Queries
  answer here; the numbers of texts (\<open>Number\<close>), signatures and what Telegram does with a message are parameters.
\<close>

section \<open>Chats\<close>

definition chat_number :: "json option \<Rightarrow> int option" where
  "chat_number v = (case v of Some (JNum n) \<Rightarrow> Some n | Some (JStr s) \<Rightarrow> parse_int10 s | _ \<Rightarrow> None)"

definition getTelegramChatId :: "json \<Rightarrow> int option" where
  "getTelegramChatId metadata =
     (case metadata of
        JNum n \<Rightarrow> Some n
      | JStr s \<Rightarrow> parse_int10 s
      | JObj kvs \<Rightarrow> chat_number (json_get metadata ''chatId'')
      | _ \<Rightarrow> None)"

definition chat_column :: "string option \<Rightarrow> json" where
  "chat_column v = (case v of None \<Rightarrow> JNull | Some s \<Rightarrow> JStr s)"

text \<open>The first chat of each user, in the order of the rows.\<close>

definition chat_ids :: "id_account list \<Rightarrow> string list \<Rightarrow> (string \<times> int) list" where
  "chat_ids accounts userIds = List.map_filter (\<lambda>a.
     if ac_providerId a = TELEGRAM_PROVIDER_ID \<and> ac_userId a \<in> set userIds
     then map_option (Pair (ac_userId a)) (getTelegramChatId (chat_column (ac_telegramChatId a))) else None) accounts"

section \<open>Expired accounts\<close>

definition affected_key :: "string \<times> toolkit \<Rightarrow> string" where
  "affected_key r = fst r @ '':'' @ slug (snd r)"

text \<open>A map of JavaScript keeps the place of a key that is set again.\<close>

definition affected_integrations :: "connected_account option \<Rightarrow> (string \<times> toolkit) list \<Rightarrow> (string \<times> toolkit) list" where
  "affected_integrations expired cleared =
     map snd (fold (\<lambda>r. AList.update (affected_key r) r)
       ((case expired of None \<Rightarrow> [] | Some a \<Rightarrow> [(ca_userId a, ca_toolkit a)]) @ cleared) [])"

type_synonym 'w messenger = "int \<Rightarrow> string \<Rightarrow> 'w \<Rightarrow> 'w \<times> bool"

definition send_to :: "'w messenger \<Rightarrow> int \<Rightarrow> string \<Rightarrow> ('w, bool) conn" where
  "send_to send chatId text = (\<lambda>s. case send chatId text (cn_world s) of (w, ok) \<Rightarrow> Some (s\<lparr>cn_world := w\<rparr>, Inr ok))"

fun notify_expired :: "'w messenger \<Rightarrow> (string \<times> int) list \<Rightarrow> (string \<times> toolkit) list \<Rightarrow> nat \<Rightarrow> ('w, nat) conn" where
  "notify_expired send chats [] notified = pret notified"
| "notify_expired send chats (r # rows) notified =
     (case map_of chats (fst r) of
        None \<Rightarrow> notify_expired send chats rows notified
      | Some chatId \<Rightarrow> pbind (send_to send chatId (getIntegrationExpiredMessage (snd r))) (\<lambda>ok.
          notify_expired send chats rows (if ok then notified + 1 else notified)))"

definition handleExpiredConnectedAccount ::
    "conn_env \<Rightarrow> 'w broker \<Rightarrow> 'w messenger \<Rightarrow> id_account list \<Rightarrow> string \<Rightarrow> ('w, nat \<times> nat) conn" where
  "handleExpiredConnectedAccount env bk send accounts connectedAccountId =
     ptry (getConnectedAccountById env bk connectedAccountId) (\<lambda>r.
       let expired = (case r of Inl _ \<Rightarrow> None | Inr a \<Rightarrow> a)
       in pbind (clearPreferredAccountByConnectedAccountId bk connectedAccountId) (\<lambda>cleared.
         let affected = affected_integrations expired cleared
         in pbind (notify_expired send (chat_ids accounts (map fst affected)) affected 0) (\<lambda>notified.
           pret (length cleared, notified))))"

section \<open>The broker's webhook\<close>

definition WEBHOOK_TIMESTAMP_TOLERANCE_SECONDS :: int where "WEBHOOK_TIMESTAMP_TOLERANCE_SECONDS = 300"

datatype webhook_response =
    WhNotConfigured
  | WhUnauthorized
  | WhIgnored "string option"
  | WhMissingAccount
  | WhOk nat nat

record webhook_request =
  wh_signature :: "string option"
  wh_id :: "string option"
  wh_timestamp :: "string option"
  wh_payload :: string

text \<open>The number of the timestamp, when it is finite, at most the tolerance away.\<close>

definition fresh_timestamp :: "(string \<Rightarrow> rat option) \<Rightarrow> int \<Rightarrow> string \<Rightarrow> bool" where
  "fresh_timestamp number now timestamp =
     (case number timestamp of None \<Rightarrow> False
      | Some t \<Rightarrow> \<bar>of_int (now div 1000) - t\<bar> \<le> of_int WEBHOOK_TIMESTAMP_TOLERANCE_SECONDS)"

text \<open>What a webhook proves to be: the raw payload when it is an object, the parsed one otherwise.\<close>

definition verified_payload :: "(string \<Rightarrow> json option) \<Rightarrow> json \<times> json \<Rightarrow> json" where
  "verified_payload parse v =
     default_to (or_else (normalizeWebhookPayload parse (fst v)) (normalizeWebhookPayload parse (snd v))) JNull"

record 'w webhook_env =
  we_conn :: conn_env
  we_broker :: "'w broker"
  we_send :: "'w messenger"
  we_number :: "string \<Rightarrow> rat option"
  we_parse :: "string \<Rightarrow> json option"
  we_verify :: "string \<Rightarrow> string \<Rightarrow> string \<Rightarrow> string \<Rightarrow> string \<Rightarrow> (json \<times> json) option"

definition composio_webhook ::
    "'w webhook_env \<Rightarrow> id_account list \<Rightarrow> webhook_request \<Rightarrow> ('w, webhook_response) conn" where
  "composio_webhook e accounts q =
     (if \<not> ce_enabled (we_conn e) \<or> ce_webhookSecret (we_conn e) = [] then pret WhNotConfigured
      else (case (truthy_str (wh_signature q), truthy_str (wh_id q), truthy_str (wh_timestamp q)) of
          (Some sig, Some i, Some ts) \<Rightarrow> pbind (pget (\<lambda>s. bk_now (we_broker e) (cn_world s))) (\<lambda>now.
            if \<not> fresh_timestamp (we_number e) now ts then pret WhUnauthorized
            else (case verifyWebhook (we_conn e) (we_verify e) (wh_payload q) (Some sig) (Some i) (Some ts) of
                Inl _ \<Rightarrow> pret WhUnauthorized
              | Inr v \<Rightarrow>
                  let payload = verified_payload (we_parse e) v; eventType = getWebhookType (we_parse e) payload
                  in if eventType \<noteq> Some ''composio.connected_account.expired'' then pret (WhIgnored eventType)
                     else (case getExpiredConnectedAccountId (we_parse e) payload of
                         None \<Rightarrow> pret WhMissingAccount
                       | Some account \<Rightarrow> pbind (handleExpiredConnectedAccount (we_conn e) (we_broker e) (we_send e)
                           accounts account) (\<lambda>(cleared, notified). pret (WhOk cleared notified)))))
        | _ \<Rightarrow> pret WhUnauthorized))"

section \<open>Downloads and links\<close>

datatype download_response = DlUnauthorized | DlContent "(string \<times> string) list" bytes

definition attachment_route :: "'w att_env \<Rightarrow> string \<Rightarrow> string option \<Rightarrow> string option \<Rightarrow> ('w, download_response) att" where
  "attachment_route env i expires sig =
     ptry (pbind (verifySignedDownload env i (default_to expires []) (default_to sig [])) (\<lambda>_. getDownloadResponse env i))
       (\<lambda>r. pret (case r of Inl _ \<Rightarrow> DlUnauthorized | Inr (headers, body) \<Rightarrow> DlContent headers body))"

datatype link_response = LinkRedirect string | LinkNotFound

definition link_route :: "int \<Rightarrow> string \<Rightarrow> link_row list \<Rightarrow> link_response" where
  "link_route now i rows =
     (case truthy_str (resolveConnectLink now i rows) of None \<Rightarrow> LinkNotFound | Some url \<Rightarrow> LinkRedirect url)"

section \<open>What the webhook may do\<close>

text \<open>A webhook that changes anything is fresh, signed and tells of an expired account.\<close>

lemma webhook_refused:
  assumes "composio_webhook e accounts q s = Some (s', r)" "s' \<noteq> s"
  obtains sig i ts v account where
    "ce_enabled (we_conn e)" "wh_signature q = Some sig" "wh_id q = Some i" "wh_timestamp q = Some ts"
    "fresh_timestamp (we_number e) (bk_now (we_broker e) (cn_world s)) ts"
    "we_verify e (wh_payload q) i sig ts (ce_webhookSecret (we_conn e)) = Some v"
    "getExpiredConnectedAccountId (we_parse e) (verified_payload (we_parse e) v) = Some account"
    "getWebhookType (we_parse e) (verified_payload (we_parse e) v) = Some ''composio.connected_account.expired''"
  using assms
  by (auto simp: composio_webhook_def pret_def pget_def pbind_def ptry_def verifyWebhook_def Let_def truthy_str_Some
      split: if_splits option.splits)

text \<open>An account that has expired is nobody's preferred one any more, and the rows change in nothing else.\<close>

lemma notify_rows: "notify_expired send chats rows n s = Some (s', r) \<Longrightarrow>
    cn_rows s' = cn_rows s \<and> (\<exists>k. r = Inr (n + k) \<and> k \<le> length rows)"
proof (induction send chats rows n arbitrary: s rule: notify_expired.induct)
  case (1 send chats notified)
  then show ?case by (simp add: pret_def)
next
  case (2 send chats r0 rows notified)
  show ?case
  proof (cases "map_of chats (fst r0)")
    case None
    with 2 show ?thesis by (auto intro: le_SucI)
  next
    case (Some c)
    obtain w ok where so: "send c (getIntegrationExpiredMessage (snd r0)) (cn_world s) = (w, ok)"
      by (cases "send c (getIntegrationExpiredMessage (snd r0)) (cn_world s)")
    have "notify_expired send chats rows (if ok then notified + 1 else notified) (s\<lparr>cn_world := w\<rparr>) = Some (s', r)"
      using "2.prems" Some so by (simp add: send_to_def pbind_def ptry_def)
    from "2.IH"(2) [OF Some this] obtain k where "cn_rows s' = cn_rows s" "k \<le> length rows"
      "r = Inr ((if ok then notified + 1 else notified) + k)" by auto
    then show ?thesis by (cases ok) (auto intro: exI [of _ "Suc k"])
  qed
qed

theorem expired_not_preferred:
  assumes "handleExpiredConnectedAccount env bk send accounts account s = Some (s', Inr r)"
  shows "\<exists>now. cn_rows s' = clear_preferred now (\<lambda>r. lk_external r = Some account) (cn_rows s)"
    and "\<forall>r \<in> set (cn_rows s'). lk_external r = Some account \<longrightarrow> \<not> lk_isPreferred r"
proof -
  obtain s1 x where 1: "getConnectedAccountById env bk account s = Some (s1, x)"
    and 2: "pbind (clearPreferredAccountByConnectedAccountId bk account) (\<lambda>cleared.
         let affected = affected_integrations (case x of Inl _ \<Rightarrow> None | Inr a \<Rightarrow> a) cleared
         in pbind (notify_expired send (chat_ids accounts (map fst affected)) affected 0) (\<lambda>notified.
           pret (length cleared, notified))) s1 = Some (s', Inr r)"
    using assms unfolding handleExpiredConnectedAccount_def ptry_Some Let_def by blast
  from 1 have rows: "cn_rows s1 = cn_rows s"
    by (auto simp: getConnectedAccountById_def ensureClient_def ask_def pret_def pthrow_def
        elim!: pbindE split: prod.splits sum.splits if_splits)
  from 2 obtain s2 c where "clearPreferredAccountByConnectedAccountId bk account s1 = Some (s2, Inr c)" "cn_rows s' = cn_rows s2"
    by (auto elim!: pbind_okE dest!: notify_rows simp: Let_def pret_def)
  then obtain now where "cn_rows s' = clear_preferred now (\<lambda>r. lk_external r = Some account) (cn_rows s1)"
    by (auto simp: clearPreferredAccountByConnectedAccountId_def on_rows_def pret_def pget_def elim!: pbind_okE split: prod.splits)
  with rows show now: "\<exists>now. cn_rows s' = clear_preferred now (\<lambda>r. lk_external r = Some account) (cn_rows s)" by auto
  then show "\<forall>r \<in> set (cn_rows s'). lk_external r = Some account \<longrightarrow> \<not> lk_isPreferred r"
    by (auto simp: clear_preferred_def split: if_splits)
qed

text \<open>A download is served only while its link is valid, and for its own signature.\<close>

theorem download_authorized:
  assumes "attachment_route env i expires sig s = Some (s', Inr (DlContent headers body))"
  shows "\<exists>floor text. js_number env (default_to expires []) = Some (floor, text) \<and>
    verifyDownloadToken env i text (default_to sig [])"
proof -
  obtain s1 x where "pbind (verifySignedDownload env i (default_to expires []) (default_to sig []))
      (\<lambda>_. getDownloadResponse env i) s = Some (s1, x)"
    "(case x of Inl e \<Rightarrow> DlUnauthorized | Inr (h, b) \<Rightarrow> DlContent h b) = DlContent headers body"
    using assms unfolding attachment_route_def ptry_Some pret_def by blast
  then show ?thesis
    by (cases x) (auto simp: verifySignedDownload_def pthrow_def pret_def elim!: pbind_okE split: option.splits if_splits)
qed

end
