(* ===== verification/PlannerPrompt.thy ===== *)
theory PlannerPrompt
  imports Planner Browser
begin

text \<open>
  What the planner asks the router model (\<open>packages/agent/src/execution/planner.ts\<close>): the addresses it finds in
  a request, the prompt with the capabilities that are there, and the call.  The long dash and the arrow of the
  prompt, the parsing of URLs and the model are parameters.
\<close>

section \<open>Addresses in a request\<close>

text \<open>The matches of \<open>URL_RE\<close>, from left to right.\<close>

function url_matches :: "string \<Rightarrow> string list" where
  "url_matches [] = []"
| "url_matches (c # cs) =
     (case url_prefix (c # cs) of
        Some n \<Rightarrow> (take n (c # cs) @ takeWhile url_char (drop (n - 1) cs)) # url_matches (dropWhile url_char (drop (n - 1) cs))
      | None \<Rightarrow> url_matches cs)"
  by pat_completeness auto
termination
  by (relation "measure length") (auto simp: length_dropWhile_drop)

text \<open>
  \<open>BARE_DOMAIN_RE\<close>.  A label is followed by a dot, so it is all there is before the next other character; a
  boundary follows the last part, so that is the whole word after the last dot.  More labels are tried first.
\<close>

definition TOP_LEVEL_DOMAINS :: "string list" where
  "TOP_LEVEL_DOMAINS = [''com'', ''org'', ''net'', ''io'', ''dev'', ''co'', ''ai'', ''app'', ''xyz'', ''me'', ''info'', ''edu'', ''gov'']"

definition label_char :: "char \<Rightarrow> bool" where
  "label_char c \<longleftrightarrow> is_alnum c \<or> c = CHR ''-''"

definition is_label :: "string \<Rightarrow> bool" where
  "is_label s \<longleftrightarrow> s \<noteq> [] \<and> is_alnum (hd s) \<and> is_alnum (last s)"

function domain_at :: "string \<Rightarrow> string option" where
  "domain_at s =
     (let label = takeWhile label_char s; rest = dropWhile label_char s
      in if \<not> is_label label then None
         else (case rest of [] \<Rightarrow> None
           | c # cs \<Rightarrow> if c \<noteq> CHR ''.'' then None
               else (case domain_at cs of
                   Some m \<Rightarrow> Some (label @ [c] @ m)
                 | None \<Rightarrow> let w = takeWhile is_word cs
                     in if to_lower w \<in> set TOP_LEVEL_DOMAINS then Some (label @ [c] @ w) else None)))"
  by pat_completeness auto
termination
proof (relation "measure length")
  fix s :: string and x xa c cs
  assume "xa = dropWhile label_char s" "xa = c # cs"
  then have "length (c # cs) \<le> length s" by (metis length_dropWhile_le)
  then show "(cs, s) \<in> measure length" by simp
qed simp

declare domain_at.simps [simp del]

function bare_domains :: "char option \<Rightarrow> string \<Rightarrow> string list" where
  "bare_domains b [] = []"
| "bare_domains b (c # cs) =
     (case (if word_before (b, c # cs) \<noteq> word_after (b, c # cs) then domain_at (c # cs) else None) of
        None \<Rightarrow> bare_domains (Some c) cs
      | Some m \<Rightarrow> m # bare_domains (Some (last m)) (drop (length m - 1) cs))"
  by pat_completeness auto
termination
  by (relation "measure (\<lambda>(b, s). length s)") auto

text \<open>The addresses, then the bare domains that are no host of one of them.\<close>

definition extractUrls :: "url_parser \<Rightarrow> (string \<Rightarrow> string option) \<Rightarrow> string \<Rightarrow> string list" where
  "extractUrls parse host text =
     (let fullUrls = List.map_filter (\<lambda>u. truthy_str (sanitizeBrowserStartUrl parse (Some u))) (url_matches text);
          hosts = map host fullUrls;
          bare = List.map_filter (\<lambda>d. if Some (to_lower d) \<in> set hosts then None
            else truthy_str (sanitizeBrowserStartUrl parse (Some (''https://'' @ to_lower d)))) (bare_domains None text)
      in uniq (fullUrls @ bare))"

section \<open>The prompt\<close>

definition prompt_browser :: "string list" where
  "prompt_browser =
     [''You are a routing agent. Given a user request, decide which specialist(s) should handle it and how to configure them.'',
      [],
      ''## Available Specialists'',
      [],
      ''### browser'',
      ''Headless browser (Stagehand) for SINGLE-WEBSITE interactions.'',
      ''- **extract**: Read and extract content from a web page'',
      ''- **act**: Perform a single action (click button, fill field, submit form)'',
      ''- **agent**: Multi-step interaction within ONE site (login flow, navigate pages on same domain, fill multi-step forms)'',
      [],
      ''USE WHEN:'',
      ''- Visiting a URL to read/extract content'',
      ''- Filling forms, clicking buttons, submitting on a webpage'',
      ''- Logging into a website'',
      ''- Single-site navigation and interaction'',
      ''- Taking a screenshot of a webpage'',
      ''- Scraping or crawling a single site'',
      [],
      ''DO NOT USE WHEN:'',
      ''- Task needs multiple separate websites in sequence (use computer)'',
      ''- Task needs desktop apps, filesystem, or native dialogs (use computer)'',
      ''- Task needs to download a file and use it in another app (use computer)'',
      [],
      ''Configuration:'',
      ''- startUrl: Set when a specific URL is in the request'',
      ''- browserMode: '' @ [CHR 0x22] @ ''extract'' @ [CHR 0x22] @ '' for reading, '' @ [CHR 0x22] @ ''act'' @ [CHR 0x22] @ '' for one action, '' @ [CHR 0x22] @ ''agent'' @ [CHR 0x22] @ '' for multi-step'',
      ''- sideEffectLevel: '' @ [CHR 0x22] @ ''read'' @ [CHR 0x22] @ '' for viewing, '' @ [CHR 0x22] @ ''soft-write'' @ [CHR 0x22] @ '' for form/login, '' @ [CHR 0x22] @ ''hard-write'' @ [CHR 0x22] @ '' for purchase/delete/send'',
      []]"

definition prompt_computer :: "string \<Rightarrow> string list" where
  "prompt_computer dash =
     [''### computer'',
      ''Computer Use Agent '' @ dash @ '' full remote desktop with GUI, apps, filesystem.'',
      ''- Controls mouse, keyboard, can see the screen via screenshots'',
      ''- Can launch and use any desktop application'',
      ''- Can use a real browser (Chrome/Firefox) with full capabilities'',
      ''- Has filesystem access'',
      [],
      ''USE WHEN:'',
      ''- Task requires launching or using desktop applications (VS Code, Terminal, Preview, etc.)'',
      ''- Task requires native file dialogs or file pickers'',
      ''- Task involves cross-application workflows (download from one app/site, use in another)'',
      ''- Task requires desktop-level browser control (multiple tabs across different sites, browser extensions, dev tools)'',
      ''- System monitoring (htop, Activity Monitor, disk usage, process management)'',
      ''- Task mentions '' @ [CHR 0x22] @ ''desktop'' @ [CHR 0x22] @ '', '' @ [CHR 0x22] @ ''computer'' @ [CHR 0x22] @ '', '' @ [CHR 0x22] @ ''terminal'' @ [CHR 0x22] @ '', or specific app names'',
      ''- Task requires interacting with OS-level features (notifications, system tray, settings)'',
      [],
      ''DO NOT USE WHEN:'',
      ''- Task is confined to a single website (use browser '' @ dash @ '' faster and cheaper)'',
      ''- Task only needs to read or interact with one web page'',
      ''- Task is a simple form fill or content extraction from a URL'',
      []]"

definition prompt_workers :: "string list" where
  "prompt_workers =
     [''### research'',
      ''Read-only investigation using sandbox tools (shell commands, file reading, code analysis).'',
      [],
      ''USE WHEN:'',
      ''- Analyzing code, files, or logs'',
      ''- Running read-only shell commands (ls, cat, grep, find, curl GET, etc.)'',
      ''- Investigating system state without changing it'',
      ''- Summarizing or comparing information from files'',
      [],
      ''DO NOT USE WHEN:'',
      ''- Task requires visiting a website (use browser)'',
      ''- Task requires writing/editing files (use builder)'',
      [],
      ''### builder'',
      ''Code and filesystem changes in a cloud sandbox.'',
      [],
      ''USE WHEN:'',
      ''- Writing, editing, or creating files'',
      ''- Implementing features or fixing bugs in code'',
      ''- Running build/test/install commands'',
      ''- Any task that modifies the filesystem'',
      [],
      ''Pair with research (as a dependency) when investigation is needed first.'',
      [],
      ''### integration'',
      ''Connected app operations via API.'',
      ''Supported apps: Gmail, Slack, Notion, Google Calendar, Google Drive.'',
      [],
      ''USE WHEN:'',
      ''- Sending/reading emails (Gmail)'',
      ''- Sending/reading Slack messages'',
      ''- Creating/editing Notion pages'',
      ''- Managing Google Calendar events'',
      ''- Uploading/downloading Google Drive files'',
      [],
      ''### memory'',
      ''Save or recall user memories.'',
      [],
      ''USE WHEN:'',
      ''- User explicitly asks to remember, save, or store something'',
      ''- User asks to recall or look up something previously saved'',
      [],
      ''### settings'',
      ''Timezone, scheduling, and authentication operations.'',
      [],
      ''USE WHEN:'',
      ''- Setting timezone (provide settingsKind='' @ [CHR 0x22] @ ''timezone'' @ [CHR 0x22] @ '' and the IANA timezone string)'',
      ''- Creating reminders or scheduled tasks (provide settingsKind='' @ [CHR 0x22] @ ''schedule'' @ [CHR 0x22] @ '')'',
      ''- Managing Codex authentication (provide settingsKind='' @ [CHR 0x22] @ ''codex_auth'' @ [CHR 0x22] @ '')'',
      []]"

definition prompt_rules :: "string list" where
  "prompt_rules =
     [''## Decision Rules'',
      [],
      ''1. **Browser vs Computer**: If the task is confined to ONE website, use browser. If it needs the desktop, multiple apps, multiple separate sites, or filesystem, use computer.'',
      ''2. **Research vs Browser**: If the user asks about web content (URL given), use browser. If they ask about local files, code, or commands, use research.'',
      ''3. **Research before Builder**: If implementation needs investigation first, create research task as task-0, then builder task with dependencies=['' @ [CHR 0x22] @ ''task-0'' @ [CHR 0x22] @ ''].'',
      ''4. **Parallel**: Use ONLY for independent, read-only tasks (e.g., extracting content from multiple URLs simultaneously).'',
      ''5. **Background**: Use ONLY when the user explicitly asks for background, autonomous, or long-running work.'',
      ''6. **Direct**: Return empty tasks array when the request is simple knowledge, casual chat, or doesn'' @ [CHR 0x27] @ ''t need any specialist.'',
      ''7. **Validation**: Set needsValidation=true when tasks write to filesystem, send external messages, or make purchases.'',
      ''8. **External writes**: Set writesExternally=true when a task sends emails, posts messages, makes purchases, or modifies systems outside the sandbox.'',
      []]"

definition prompt_examples :: "string \<Rightarrow> string list" where
  "prompt_examples arrow =
     [''## Examples'',
      [],
      [CHR 0x22] @ ''Summarize the homepage of nytimes.com'' @ [CHR 0x22],
      arrow @ '' browser, extract, startUrl=https://nytimes.com, sideEffectLevel=read'',
      [],
      [CHR 0x22] @ ''Take a screenshot of example.com'' @ [CHR 0x22],
      arrow @ '' browser, extract, startUrl=https://example.com, sideEffectLevel=read'',
      [],
      [CHR 0x22] @ ''Fill in the contact form at https://example.com/contact with my name and email'' @ [CHR 0x22],
      arrow @ '' browser, agent, startUrl=https://example.com/contact, sideEffectLevel=soft-write'',
      [],
      [CHR 0x22] @ ''Log into my account at https://app.example.com'' @ [CHR 0x22],
      arrow @ '' browser, agent, startUrl=https://app.example.com, sideEffectLevel=soft-write'',
      [],
      [CHR 0x22] @ ''Compare https://siteA.com and https://siteB.com'' @ [CHR 0x22],
      arrow @ '' parallel, two browser extract tasks'',
      [],
      [CHR 0x22] @ ''Open Chrome and navigate to example.com'' @ [CHR 0x22],
      arrow @ '' computer (launching a desktop app)'',
      [],
      [CHR 0x22] @ ''Download the PDF from example.com and open it in Preview'' @ [CHR 0x22],
      arrow @ '' computer (cross-app: browser download + desktop app)'',
      [],
      [CHR 0x22] @ ''Check htop for CPU usage'' @ [CHR 0x22],
      arrow @ '' computer (system monitoring tool)'',
      [],
      [CHR 0x22] @ ''Open Terminal and run a command'' @ [CHR 0x22],
      arrow @ '' computer (desktop app)'',
      [],
      [CHR 0x22] @ ''Download report from site A, then upload it to site B'' @ [CHR 0x22],
      arrow @ '' computer (cross-site file transfer), writesExternally=true'',
      [],
      [CHR 0x22] @ ''Use the file picker to select a photo'' @ [CHR 0x22],
      arrow @ '' computer (native dialog)'',
      [],
      [CHR 0x22] @ ''What does the auth middleware do?'' @ [CHR 0x22],
      arrow @ '' research'',
      [],
      [CHR 0x22] @ ''Run ls -la in the project directory'' @ [CHR 0x22],
      arrow @ '' research (read-only command)'',
      [],
      [CHR 0x22] @ ''Implement a login form component'' @ [CHR 0x22],
      arrow @ '' builder, needsValidation=true'',
      [],
      [CHR 0x22] @ ''Research the codebase then fix the bug'' @ [CHR 0x22],
      arrow @ '' sequential: research (task-0) '' @ arrow @ '' builder (depends on task-0), needsValidation=true'',
      [],
      [CHR 0x22] @ ''Check my Gmail for new messages'' @ [CHR 0x22],
      arrow @ '' integration'',
      [],
      [CHR 0x22] @ ''Send an email to john@example.com'' @ [CHR 0x22],
      arrow @ '' integration, writesExternally=true, needsValidation=true'',
      [],
      [CHR 0x22] @ ''Remember that my favorite color is blue'' @ [CHR 0x22],
      arrow @ '' memory'',
      [],
      [CHR 0x22] @ ''Set my timezone to America/New_York'' @ [CHR 0x22],
      arrow @ '' settings, settingsKind=timezone, timezone=America/New_York'',
      [],
      [CHR 0x22] @ ''Remind me to check the report every Monday'' @ [CHR 0x22],
      arrow @ '' settings, settingsKind=schedule'',
      [],
      [CHR 0x22] @ ''Hello, how are you?'' @ [CHR 0x22],
      arrow @ '' direct (no tasks)'']"

definition ROUTER_SYSTEM_PROMPT :: "string \<Rightarrow> string \<Rightarrow> string" where
  "ROUTER_SYSTEM_PROMPT dash arrow =
     join_with [CHR 0x0A] (prompt_browser @ prompt_computer dash @ prompt_workers @ prompt_rules @ prompt_examples arrow)"

definition capability_lines :: "string \<Rightarrow> run_runtime \<Rightarrow> string list" where
  "capability_lines dash r =
     [if rt_browserEnabled r then ''- Browser: enabled''
      else ''- Browser: disabled '' @ dash @ '' do not route to browser'',
      if rt_cuaEnabled r then ''- Computer Use Agent: enabled''
      else ''- Computer Use Agent: disabled '' @ dash @ '' do not route to computer'',
      if rt_sandboxEnabled r then ''- Cloud Sandbox (research/builder): enabled''
      else ''- Cloud Sandbox: disabled '' @ dash @ '' do not route to research or builder'',
      if rt_integrationEnabled r then ''- Integrations (Gmail, Slack, etc.): enabled''
      else ''- Integrations: disabled '' @ dash @ '' do not route to integration'']"

definition context_parts :: "string \<Rightarrow> run_runtime \<Rightarrow> string list \<Rightarrow> string list \<Rightarrow> string list" where
  "context_parts dash r urls pathHints =
     [''Available capabilities:'' @ [CHR 0x0A] @ join_with [CHR 0x0A] (capability_lines dash r) @ [CHR 0x0A] @
      ''Only route to enabled capabilities. If the required capability is disabled, return strategy '' @
      [CHR 0x22] @ ''direct'' @ [CHR 0x22] @ '' with empty tasks.''] @
     (if urls = [] then [] else [''URLs detected in request: '' @ join_with '', '' urls]) @
     (if pathHints = [] then [] else [''File paths detected in request: '' @ join_with '', '' pathHints])"

definition plannerPrompt :: "string \<Rightarrow> string \<Rightarrow> string \<Rightarrow> string list \<Rightarrow> string list \<Rightarrow> run_runtime \<Rightarrow> string" where
  "plannerPrompt dash arrow request urls pathHints r = join_with [CHR 0x0A]
     [ROUTER_SYSTEM_PROMPT dash arrow,
      [],
      ''## Context'',
      [],
      join_with [CHR 0x0A, CHR 0x0A] (context_parts dash r urls pathHints),
      [],
      ''## Request'',
      [],
      request]"

text \<open>The call: the router's model when there is one; a failure is no answer.\<close>

record planner_env =
  pl_dash :: string
  pl_arrow :: string
  pl_parse :: url_parser
  pl_host :: "string \<Rightarrow> string option"
  pl_generate :: "string option \<Rightarrow> string \<Rightarrow> router_output option"

definition planRequest :: "planner_env \<Rightarrow> run_config \<Rightarrow> string \<Rightarrow> execution_plan" where
  "planRequest env config request =
     (let prompt = plannerPrompt (pl_dash env) (pl_arrow env) request
            (extractUrls (pl_parse env) (pl_host env) request) (extractPathHints request) (rc_runtime config)
      in buildExecutionPlan request
           (pl_generate env (or_else (rc_routerModelId config) (rc_highReasoningModelId config)) prompt))"

section \<open>What is found\<close>

lemma domain_at_prefix: "domain_at s = Some m \<Longrightarrow> \<exists>t. s = m @ t \<and> m \<noteq> []"
proof (induction s arbitrary: m rule: domain_at.induct)
  case (1 s)
  obtain cs where s: "dropWhile label_char s = CHR ''.'' # cs"
    using "1.prems" by (subst (asm) domain_at.simps) (auto simp: Let_def split: if_splits list.splits)
  have whole: "s = takeWhile label_char s @ CHR ''.'' # cs" by (metis s takeWhile_dropWhile_id)
  show ?case
  proof (cases "domain_at cs")
    case None
    with "1.prems" s have "m = takeWhile label_char s @ [CHR ''.''] @ takeWhile is_word cs"
      by (subst (asm) domain_at.simps) (auto simp: Let_def split: if_splits)
    then show ?thesis using whole takeWhile_dropWhile_id [of is_word cs]
      by (intro exI [of _ "dropWhile is_word cs"]) simp
  next
    case (Some m')
    with "1.prems" s have m: "is_label (takeWhile label_char s)" "m = takeWhile label_char s @ [CHR ''.''] @ m'"
      by (subst (asm) domain_at.simps, auto simp: Let_def split: if_splits)+
    from "1.IH" [OF refl refl _ s _ Some] m(1) obtain t where "cs = m' @ t" by auto
    with m(2) whole show ?thesis by (metis append.assoc append_Cons append_Nil append_is_Nil_conv not_Cons_self2)
  qed
qed

text \<open>Every bare domain ends in one of the known top level domains.\<close>

lemma domain_at_known: "domain_at s = Some m \<Longrightarrow> \<exists>p w. m = p @ CHR ''.'' # w \<and> to_lower w \<in> set TOP_LEVEL_DOMAINS"
proof (induction s arbitrary: m rule: domain_at.induct)
  case (1 s)
  obtain cs where s: "dropWhile label_char s = CHR ''.'' # cs" and l: "is_label (takeWhile label_char s)"
    using "1.prems" by (subst (asm) domain_at.simps) (auto simp: Let_def split: if_splits list.splits)
  show ?case
  proof (cases "domain_at cs")
    case None
    with "1.prems" s show ?thesis by (subst (asm) domain_at.simps) (auto simp: Let_def split: if_splits)
  next
    case (Some m')
    with "1.prems" s have m: "m = takeWhile label_char s @ [CHR ''.''] @ m'"
      by (subst (asm) domain_at.simps) (auto simp: Let_def split: if_splits)
    from "1.IH" [OF refl refl _ s _ Some] l obtain p w where "m' = p @ CHR ''.'' # w" "to_lower w \<in> set TOP_LEVEL_DOMAINS"
      by auto
    with m show ?thesis by (metis append.assoc append_Cons)
  qed
qed

theorem bare_domains_known:
  "\<forall>m \<in> set (bare_domains b s). \<exists>p w. m = p @ CHR ''.'' # w \<and> to_lower w \<in> set TOP_LEVEL_DOMAINS"
  by (induction b s rule: bare_domains.induct) (auto split: option.splits if_splits dest: domain_at_known)

text \<open>The prompt says of every capability that is missing that it is disabled.\<close>

theorem disabled_told:
  "\<not> rt_cuaEnabled r \<Longrightarrow> ''- Computer Use Agent: disabled '' @ dash @ '' do not route to computer'' \<in> set (capability_lines dash r)"
  "\<not> rt_sandboxEnabled r \<Longrightarrow> ''- Cloud Sandbox: disabled '' @ dash @ '' do not route to research or builder'' \<in> set (capability_lines dash r)"
  "\<not> rt_integrationEnabled r \<Longrightarrow> ''- Integrations: disabled '' @ dash @ '' do not route to integration'' \<in> set (capability_lines dash r)"
  "\<not> rt_browserEnabled r \<Longrightarrow> ''- Browser: disabled '' @ dash @ '' do not route to browser'' \<in> set (capability_lines dash r)"
  by (simp_all add: capability_lines_def)

end
