(* ===== verification/Entry.thy ===== *)
theory Entry
  imports ContextProps Attachments
begin

text \<open>
  The entry of a turn: the request messages of \<open>packages/agent/src/agent.ts\<close> with the end of the runtime, and what
  \<open>handleTurn\<close> of \<open>packages/agent/src/conversation/engine.ts\<close> does before the model answers: the thread, the tools,
  the synopsis of the thread that is left, what plugins contribute, the context, the configuration of the run and its
  root, and the request that a plan is made for.  Tools and contributions are parameters here; they are in \<open>Plugins\<close>.
\<close>

section \<open>Requests\<close>

type_synonym user_message = "string \<times> message_part list"

record turn_request =
  tq_conversationId :: string
  tq_mode :: request_mode
  tq_messages :: "user_message list"
  tq_metadata :: "json option"

definition toStructuredMessage :: "string \<Rightarrow> user_message" where
  "toStructuredMessage content = (content, [MText content])"

definition turn_of :: "request_mode \<Rightarrow> string \<Rightarrow> user_message list \<Rightarrow> json option \<Rightarrow> turn_request" where
  "turn_of mode conversationId messages metadata =
     \<lparr>tq_conversationId = conversationId, tq_mode = mode, tq_messages = messages, tq_metadata = metadata\<rparr>"

definition handleStructuredMessage :: "string \<Rightarrow> user_message \<Rightarrow> json option \<Rightarrow> turn_request" where
  "handleStructuredMessage c message metadata = turn_of MessageMode c [message] metadata"

definition handleStructuredBatch :: "string \<Rightarrow> user_message list \<Rightarrow> json option \<Rightarrow> turn_request" where
  "handleStructuredBatch c messages metadata = turn_of BatchedMessageMode c messages metadata"

definition handleMessage :: "string \<Rightarrow> string \<Rightarrow> json option \<Rightarrow> turn_request" where
  "handleMessage c content metadata = turn_of MessageMode c [toStructuredMessage content] metadata"

definition handleBatchedMessages :: "string \<Rightarrow> string list \<Rightarrow> json option \<Rightarrow> turn_request" where
  "handleBatchedMessages c contents metadata = turn_of BatchedMessageMode c (map toStructuredMessage contents) metadata"

text \<open>
  The end of the runtime: the computer that was used is stopped, the supervisor and the telemetry end; only the
  supervisor's failure counts.
\<close>

definition shutdown ::
    "('s \<Rightarrow> 'i option) \<Rightarrow> ('i \<Rightarrow> ('s, string, unit) prog) \<Rightarrow> ('s, string, unit) prog \<Rightarrow> ('s, string, unit) prog \<Rightarrow>
     ('s, string, unit) prog" where
  "shutdown instance_of stop supervisor telemetry =
     pmap_error (\<lambda>_. ''Failed to shut down agent'')
       (pbind (pget instance_of) (\<lambda>i.
        pbind (case i of None \<Rightarrow> pret () | Some x \<Rightarrow> ptry (stop x) (\<lambda>_. pret ())) (\<lambda>_.
        pbind supervisor (\<lambda>_. ptry telemetry (\<lambda>_. pret ())))))"

section \<open>The text and the attachments of a turn\<close>

definition inbound_text :: "turn_request \<Rightarrow> string" where
  "inbound_text q = join_with (newline @ newline) (map fst (tq_messages q))"

fun ready_attachment :: "message_part \<Rightarrow> att_ref list" where
  "ready_attachment (MText t) = []"
| "ready_attachment (MAttachment a) = (if rf_status a = AtReady then [a] else [])"

definition currentAttachments :: "turn_request \<Rightarrow> att_ref list" where
  "currentAttachments q = concat (map (\<lambda>m. concat (map ready_attachment (snd m))) (tq_messages q))"

text \<open>
  The request of a plan: the user's whole text comes first when the model gave a shorter one.
\<close>

definition enriched_request :: "string \<Rightarrow> string \<Rightarrow> string" where
  "enriched_request inboundText req =
     (if inboundText \<noteq> js_trim req \<and> length inboundText > length req
      then inboundText @ newline @ newline @ req else req)"

definition composed_request :: "string \<Rightarrow> string \<Rightarrow> string option \<Rightarrow> string" where
  "composed_request inboundText req context' =
     (let enriched = enriched_request inboundText req
      in case context' of None \<Rightarrow> enriched
         | Some c \<Rightarrow> if js_trim c = [] then enriched
             else enriched @ newline @ newline @ ''Additional context:'' @ newline @ c)"

section \<open>The configuration of a run\<close>

definition CONVERSATION_MAX_STEPS :: nat where "CONVERSATION_MAX_STEPS = 8"

record agent_config = run_config +
  fc_request :: run_request
  fc_lowLatencyModelId :: "string option"
  fc_allowDirectAnswer :: bool
  fc_allowBackgroundTasks :: bool
  fc_allowMemoryWrites :: bool
  fc_allowExternalWrites :: bool
  fc_requireWriteConfirmation :: bool
  fc_maxDepth :: nat
  fc_maxConversationSteps :: nat
  fc_maxToolCallsPerRun :: nat
  fc_sharedPromptContext :: string
  fc_userTimezone :: string

record engine_config =
  en_userId :: string
  en_defaultModelId :: string
  en_highReasoningModelId :: string
  en_routerModelId :: "string option"
  en_environment :: string
  en_runtime :: run_runtime

definition buildRunConfig ::
    "engine_config \<Rightarrow> string \<Rightarrow> string \<Rightarrow> string \<Rightarrow> request_mode \<Rightarrow> json option \<Rightarrow> string \<Rightarrow> string \<Rightarrow> agent_config" where
  "buildRunConfig en requestId conversationId threadId mode metadata userTimezone sharedPromptContext =
     \<lparr>rc_defaultModelId = en_defaultModelId en, rc_highReasoningModelId = Some (en_highReasoningModelId en),
      rc_routerModelId = en_routerModelId en, rc_validatorModelId = Some (en_highReasoningModelId en),
      rc_runtime = en_runtime en, rc_allowedToolGroups = None, rc_maxSteps = (\<lambda>_. None), rc_maxParallelAgents = 3,
      fc_request = \<lparr>rq_requestId = requestId, rq_conversationId = conversationId, rq_threadId = Some threadId,
        rq_userId = en_userId en, rq_mode = mode, rq_environment = normalizeRunEnvironment (Some (en_environment en)),
        rq_metadata = metadata\<rparr>,
      fc_lowLatencyModelId = Some (en_defaultModelId en), fc_allowDirectAnswer = True,
      fc_allowBackgroundTasks = rt_sandboxEnabled (en_runtime en), fc_allowMemoryWrites = True,
      fc_allowExternalWrites = True, fc_requireWriteConfirmation = True, fc_maxDepth = 1,
      fc_maxConversationSteps = CONVERSATION_MAX_STEPS, fc_maxToolCallsPerRun = 32,
      fc_sharedPromptContext = sharedPromptContext, fc_userTimezone = userTimezone\<rparr>"

section \<open>Before the model answers\<close>

text \<open>The request's own metadata, and the attachments under a field of their own.\<close>

fun att_kind_text :: "attachment_kind \<Rightarrow> string" where
  "att_kind_text KImage = ''image''"
| "att_kind_text KPdf = ''pdf''"
| "att_kind_text KText = ''text''"
| "att_kind_text KDocument = ''document''"
| "att_kind_text KBinary = ''binary''"

definition attachment_json :: "att_ref \<Rightarrow> json" where
  "attachment_json a = JObj
     [(''id'', JStr (rf_id a)), (''filename'', Identity.json_opt (rf_filename a)), (''title'', Identity.json_opt (rf_title a)),
      (''mediaType'', JStr (rf_mediaType a)), (''kind'', JStr (att_kind_text (rf_kind a)))]"

definition request_metadata :: "turn_request \<Rightarrow> json" where
  "request_metadata q = JObj (override (case tq_metadata q of Some (JObj kvs) \<Rightarrow> kvs | _ \<Rightarrow> [])
     [(''currentAttachments'', JArr (map attachment_json (currentAttachments q)))])"

record ('w, 'g) turn_env =
  te_engine :: engine_config
  te_context :: context_env
  te_tools :: "string \<Rightarrow> 'w \<Rightarrow> 'w \<times> (string + 'g)"
  te_contribute :: "string \<Rightarrow> 'w \<Rightarrow> 'w \<times> string option list"

definition plugin_context :: "string option list \<Rightarrow> string" where
  "plugin_context cs = join_with (newline @ newline) (List.map_filter truthy_str cs)"

record 'g turn_setup =
  tp_thread :: resolved
  tp_tools :: 'g
  tp_prepared :: prepared_context
  tp_config :: agent_config

definition prepare_turn ::
    "('w, 'g) turn_env \<Rightarrow> 'w outside \<Rightarrow> turn_request \<Rightarrow> ('w, 'g turn_setup) routing" where
  "prepare_turn env rt q =
     (let en = te_engine env; c = tq_conversationId q
      in pbind (resolveThread rt c (inbound_text q) None) (\<lambda>ctx.
         pbind (pmap_error (\<lambda>_. AgentError ''Failed to build tool groups'') (outside (te_tools env (rv_threadId ctx)))) (\<lambda>tools.
         pbind (synopsisPreviousThreadIfDormantSwitch rt c ctx) (\<lambda>_.
         pbind (outside (\<lambda>w. case te_contribute env (rv_threadId ctx) w of (w1, cs) \<Rightarrow> (w1, Inr cs))) (\<lambda>contributions.
         pbind (prepareConversationContext (te_context env) rt (en_userId en) c ctx
           (truthy_str (Some (plugin_context contributions))) (en_runtime en)) (\<lambda>prepared.
         pbind (fresh_id rt) (\<lambda>requestId.
           pret \<lparr>tp_thread = ctx, tp_tools = tools, tp_prepared = prepared,
             tp_config = buildRunConfig en requestId c (rv_threadId ctx) (tq_mode q) (Some (request_metadata q))
               (px_userTimezone prepared) (px_sharedPromptContext prepared)\<rparr>)))))))"

section \<open>What the entry keeps\<close>

text \<open>A message of plain text is a message with one part, and the texts arrive in their order.\<close>

theorem plain_messages:
  "handleMessage c content metadata = handleStructuredMessage c (toStructuredMessage content) metadata"
  "handleBatchedMessages c contents metadata = handleStructuredBatch c (map toStructuredMessage contents) metadata"
  "inbound_text (handleBatchedMessages c contents metadata) = join_with (newline @ newline) contents"
  "currentAttachments (handleBatchedMessages c contents metadata) = []"
  by (simp_all add: handleMessage_def handleStructuredMessage_def handleBatchedMessages_def handleStructuredBatch_def
      inbound_text_def turn_of_def toStructuredMessage_def currentAttachments_def o_def)

text \<open>The user's words are never lost on the way to the planner, unless the model gave as many of its own.\<close>

theorem request_keeps_text:
  assumes "length req < length inboundText" "inboundText \<noteq> js_trim req"
  shows "\<exists>r. composed_request inboundText req context' = inboundText @ r"
  using assms by (auto simp: composed_request_def enriched_request_def Let_def split: option.split)

context table_law
begin

lemma loads [keeps_rules]:
  "keeps J (loadThreadTail rt runs c t n u)" "keeps J (loadOtherThreadSummaries rt c t)"
  "keeps J (loadThreadArtifacts dots rt runs c t u)"
  unfolding loadThreadTail_def loadOtherThreadSummaries_def loadThreadArtifacts_def Let_def by (intro keeps_rules)+

lemma prepared [keeps_rules]: "keeps J (prepareConversationContext xe rt u c ctx m runtime)"
  unfolding prepareConversationContext_def Let_def by (intro keeps_rules)

lemma turn: "keeps J (prepare_turn env rt q)"
  unfolding prepare_turn_def Let_def
  by (intro keeps_rules resolve synopses)

end

text \<open>Everything before the model answers leaves consistent tables, and the messages as they were.\<close>

theorem turn_prepared:
  assumes "threads_ok (router_state.rs_db s)" "prepare_turn env rt q s = Some (s', r)"
  shows "threads_ok (router_state.rs_db s') \<and> tb_messages (router_state.rs_db s') = tb_messages (router_state.rs_db s)"
proof -
  have "frame ''c'' [] (tb_messages (router_state.rs_db s)) (router_state.rs_db s)" using assms(1) by (simp add: frame_def)
  from keepsD [OF frame.turn assms(2) this] show ?thesis by (simp add: frame_def)
qed

lemma responds_loads [responds_rules]:
  "responds (loadThreadTail rt runs c t n u)" "responds (loadOtherThreadSummaries rt c t)"
  "responds (loadThreadArtifacts dots rt runs c t u)" "responds (prepareConversationContext xe rt v c ctx m runtime)"
  unfolding prepareConversationContext_def loadThreadTail_def loadOtherThreadSummaries_def loadThreadArtifacts_def Let_def
  by (intro responds_rules)+

text \<open>And it always answers.\<close>

theorem turn_answers: "\<exists>s' r. prepare_turn env rt q s = Some (s', r)"
proof -
  have resolve: "responds (resolveThread rt c message None)" for c message
    by (rule responds_resolve)
  have synopsis: "responds (synopsisPreviousThreadIfDormantSwitch rt c ctx)" for c ctx
    using synopsis_harmless(1) by (metis option.distinct(1) responds_def)
  have "responds (prepare_turn env rt q)"
    unfolding prepare_turn_def Let_def fresh_id_def by (intro responds_rules resolve synopsis)
  then show ?thesis by (auto simp: responds_def)
qed

text \<open>The end of the runtime reaches the telemetry unless the supervisor fails.\<close>

theorem shutdown_result:
  assumes "shutdown instance_of stop supervisor telemetry s = Some (s', r)"
  shows "r = Inr () \<or> r = Inl ''Failed to shut down agent''"
  using assms by (cases r) (auto simp: shutdown_def elim: pmap_errorE)

end
