(* ===== verification/Spec2Isabelle.thy ===== *)
theory Spec2Isabelle
  imports Prelude SessionProps SessionIsolate CoordinatorProps WorkflowProps ChatStateProps
    TaskProps ReconciliationProps SupervisorProps ComputeRows IdentityProps IntegrationsProps
    TelegramProps TelegramCommandProps RouterProps AttachmentsProps
    WebAuthProps PluginsProps SkillsProps CuaProps SandboxTools
    Executions ContextProps BrowserProps Worker PlannerPrompt Entry
begin

text \<open>
  Amby is a personal assistant reached over Telegram.  This development models the parts of its
  TypeScript code that decide what happens.  Paths are relative to \<open>src/\<close>.

  How the parts interact.  A Telegram update becomes a buffered message of the chat's durable object
  (\<open>ConversationSession\<close>), which debounces, starts a workflow from its alarm and lets it speak at most
  once.  The workflow (\<open>agent-execution.ts\<close>) resolves the user, runs the conversation engine, claims
  the right to speak from the session, delivers and reports completion.  The engine's execution tool
  asks the planner for a plan and the coordinator to run it: tasks with dependencies and locks, in
  batches, by the runners, with the results in the task store.  A second durable object
  (\<open>ChatStateDO\<close>) keeps locks, cached values, lists and queues for the chat library.

  Theories and the code they model.

  \<^item> \<open>Prelude\<close>: lists, options, association lists and results shared by all.
  \<^item> \<open>SessionLogic\<close>, \<open>Session\<close>: \<open>conversation-session-logic.ts\<close> and \<open>conversation-session.ts\<close>, one
    definition per handler.  An alarm is split at its only await that yields, the creation of the
    workflow, into \<open>alarm_begin\<close> and \<open>alarm_created\<close> or \<open>alarm_failed\<close>, so that other handlers may come
    in between.  \<open>SessionInv\<close> has the step relation of one object with its alarms and workflows and the
    invariant of its reachable states, \<open>SessionProps\<close> the properties.  \<open>SessionIsolate\<close> models the one
    place where two objects share memory.
  \<^item> \<open>ExecTypes\<close>, \<open>Locks\<close>, \<open>Registry\<close>, \<open>Planner\<close>, \<open>Runners\<close>, \<open>Reducer\<close>, \<open>Coordinator\<close>: the execution
    package of \<open>packages/agent/src/execution\<close>.  The loop of \<open>executeRequestPlan\<close> terminates, as every
    round that continues settles a task.  Tasks of one batch run concurrently in the code; none reads
    what another writes, so the model runs them in order.  \<open>CoordinatorInv\<close> has the invariant of the
    loop, \<open>CoordinatorProps\<close> the properties.
  \<^item> \<open>Turn\<close>, \<open>Workflow\<close>: \<open>conversation/engine.ts\<close> (the turn's control flow) and \<open>agent-execution.ts\<close>,
    over a session service given by the locale \<open>session_rpc\<close>, which the session model interprets.
    Steps that the platform retries take a list of outcomes, one per attempt.  \<open>WorkflowProps\<close> has the
    properties.
  \<^item> \<open>ChatState\<close>, \<open>ChatStateProps\<close>: \<open>chat-state.ts\<close> and its adapter.
  \<^item> \<open>TaskStore\<close>, \<open>TaskEvents\<close>: the tables of background tasks and their events, the operations of
    \<open>task-store-live.ts\<close>, the callback endpoint \<open>task-events.ts\<close> with the signatures of \<open>callback.ts\<close>.
    \<open>TaskInv\<close> has the operations as a datatype, the locale \<open>guarded_run\<close> of the prelude interpreted on
    them, and what every run of operations keeps; \<open>TaskProps\<close> the properties.
  \<^item> \<open>Automations\<close>, \<open>Reconciliation\<close>, \<open>ReconciliationProps\<close>: the scheduled run of
    \<open>reconciliation.ts\<close>, with probes, notifications and due automations.
  \<^item> \<open>AuthState\<close>, \<open>Provider\<close>, \<open>Supervisor\<close>, \<open>SupervisorProps\<close>: \<open>auth-state.ts\<close>, \<open>codex-provider.ts\<close>,
    \<open>codex-installer.ts\<close> and \<open>supervisor.ts\<close>.  A sandbox is a record of answers; the actions done in it
    are logged.  \<open>startTask\<close> is split into the check and the writing, as other starts may come in
    between.  The wait of \<open>getTask\<close> is a partial function, shown to return.
  \<^item> \<open>Compute\<close>, \<open>Provision\<close>: the volumes and sandboxes of \<open>compute-store-live.ts\<close>, \<open>resolve-volume.ts\<close>,
    \<open>resolve-sandbox.ts\<close>, \<open>service.ts\<close> and the two provisioning workflows, as programs on the tables, the
    cache and a world in which the provider, the clock and the workflow engine answer.  \<open>ComputeProps\<close> has
    the calculus: what a program keeps, in the locales \<open>row_inv\<close> and \<open>service_inv\<close>.  \<open>ComputeRows\<close>
    interprets them with the constraints of the tables and with the list of started workflows, and has
    the properties.
  \<^item> \<open>Programs\<close>: the programs these and the following services are, functions from a state to a new state with an
    error or a value, or to nothing when they do not return; how they compose, what they keep, and how a
    run is taken apart.
  \<^item> \<open>Identity\<close>, \<open>IdentityProps\<close>: \<open>identity-service.ts\<close> on the tables of users, accounts and blocks.  Each
    operation is split at its transaction into a check and a commit, and the properties are of runs in
    which the parts of several operations interleave.
  \<^item> \<open>Integrations\<close>, \<open>IntegrationsProps\<close>: the connected apps, \<open>plugins/src/integrations\<close>, over a broker that
    answers or fails.
  \<^item> \<open>Telegram\<close>, \<open>TelegramProps\<close>: what an update becomes, the splitting of long texts, the sender.  The loop
    that splits is a partial function, as it does not end for a limit of zero; for every other limit it is
    shown to return.
  \<^item> \<open>Router\<close>, \<open>RouterInv\<close>, \<open>RouterProps\<close>: \<open>router.ts\<close> and \<open>ensure.ts\<close> on the tables of conversations, threads
    and messages.  A query may fail at any place, the model may answer anything its schema allows or fail.
    The locale \<open>table_law\<close> has what every program keeps; its interpretation is the frame under which the
    thread that is resolved is shown to be there and open.
  \<^item> \<open>TelegramCommands\<close>, \<open>TelegramCommandProps\<close>: \<open>handleCommand\<close>, which runs the programs of the identities, the
    conversations, the computers, the connected apps and the sender on one state; what each keeps of its
    tables carries over to the whole.
  \<^item> \<open>Attachments\<close>, \<open>Triples\<close>, \<open>AttachmentsProps\<close>: the attachment service \<open>attachments/src/service.ts\<close> on its
    table and blob store: ingestion, quota, contents, signed links, artifacts.  \<open>Triples\<close> has the rules for what
    holds before and after a program, which the proof of the quota composes.
  \<^item> \<open>WebAuth\<close>, \<open>WebAuthProps\<close>: the web endpoints of \<open>auth/src/telegram/plugin.ts\<close> with the verification of widget
    and mini app data and of OpenID Connect tokens, over the identity service.  What the locale \<open>id_keeps\<close> of
    \<open>IdentityProps\<close> says of its operations is lifted to requests.
  \<^item> \<open>PluginRegistry\<close>, \<open>Memory\<close>, \<open>MemoryProps\<close>, \<open>Skills\<close>, \<open>SkillsProps\<close>, \<open>Plugins\<close>, \<open>PluginsProps\<close>: what plugins
    register, the memory service (the locale \<open>memory_service\<close> is what its plugin relies on), the skills in a file
    tree, the composition of the plugins, and from it the tools and the context of a turn.  A tool is the data its
    closure captures.
  \<^item> \<open>Patterns\<close>, \<open>SandboxTools\<close>, \<open>Cua\<close>, \<open>CuaProps\<close>: regular expressions and a matcher for them; the tools of the
    computer with the check for read-only commands; the tools of the desktop and the lock file that keeps the
    channels apart.
  \<^item> \<open>Runs\<close>, \<open>RunsProps\<close>, \<open>Executions\<close>: the runs of the agent and their events (\<open>ledger.ts\<close>,
    \<open>run-metadata.ts\<close>, \<open>trace-store-live.ts\<close>), which refine a log of each run; reading executions back
    (\<open>query-execution.ts\<close>).
  \<^item> \<open>Context\<close>, \<open>ContextProps\<close>: the context of a turn (\<open>context.ts\<close>, \<open>context/builder.ts\<close>, \<open>synopsis.ts\<close>,
    \<open>specialists/prompts.ts\<close>) on the tables of the router and of the runs.  What the tools of a turn record is what
    the history of a later turn shows under its message.
  \<^item> \<open>Entry\<close>, \<open>PlannerPrompt\<close>: the entry points of \<open>agent.ts\<close>; the part of \<open>handleTurn\<close> before the model
    answers, composed of the programs of the router and the context; the addresses the planner finds in a request
    and the prompt it sends.
  \<^item> \<open>Browser\<close>, \<open>BrowserProps\<close>: \<open>packages/browser\<close>, over a library that may answer anything or fail at every
    call.  The loops that clean a start address end, as every round makes it shorter; a task is tried three times at
    most.
  \<^item> \<open>Worker\<close>: the routes of \<open>worker.ts\<close> that decide something themselves, and the notices of an expired
    account.

  Not modelled.  The library that drives the browser; the configuration of the authentication library; the
  bindings of object storage, which is a map here; the schemas of model outputs; the layers of services and the
  routes that only hand a request on; the chat library's bindings, web pages, scripts and migrations.  They are parameters where a modelled part
  uses them, else left out.  Product analytics and log lines are left out everywhere.  Strings are of the
  characters below U+0100, except for the splitting of texts, which is defined for any code units.
\<close>

end
